(* ===== verification/Prelude.thy ===== *)
theory Prelude
  imports Main "HOL-Library.Word"
begin

unbundle bit_operations_syntax

text \<open>
  Shared vocabulary of the development.

  The plugins are Rust programs for a 32-bit WebAssembly target. This theory names the
  machine integers, models the part of the Rust standard library the plugins use (little
  endian conversions, slice access, saturating arithmetic, UTF-8, string splitting and
  trimming) and collects the lemmas about them that every component theory uses.

  A Rust \<open>str\<close> or \<open>String\<close> is the list of its Unicode scalar values
  (type \<open>ustr\<close>, a list of naturals); its bytes are \<open>utf8_encode s\<close>, and
  \<open>str::from_utf8\<close> is \<open>utf8_decode\<close>. A byte slice is a list of 8-bit words.
  Indices and lengths (\<open>usize\<close>) are naturals; the one place where the 32-bit
  range of \<open>usize\<close> matters uses \<open>usize_checked_add\<close>.
\<close>

section \<open>Machine integers\<close>

type_synonym u8 = "8 word"
type_synonym u16 = "16 word"
type_synonym u32 = "32 word"
type_synonym u64 = "64 word"

named_theorems frame_simps \<open>which fields an operation leaves alone\<close>
named_theorems codec_simps \<open>decoding what an encoder produced\<close>

lemma unat_u8: "unat (v :: u8) < 256"
  by (rule order_less_le_trans [OF unsigned_less]) simp

text \<open>\<open>u16::to_le_bytes\<close>, \<open>u16::from_le_bytes\<close> and the 32-bit versions.\<close>

definition to_le16 :: "u16 \<Rightarrow> u8 list" where
  "to_le16 w = [ucast w, ucast (drop_bit 8 w)]"

definition from_le16 :: "u8 \<Rightarrow> u8 \<Rightarrow> u16" where
  "from_le16 b0 b1 = ucast b0 OR push_bit 8 (ucast b1)"

definition to_le32 :: "u32 \<Rightarrow> u8 list" where
  "to_le32 w = [ucast w, ucast (drop_bit 8 w), ucast (drop_bit 16 w), ucast (drop_bit 24 w)]"

definition from_le32 :: "u8 \<Rightarrow> u8 \<Rightarrow> u8 \<Rightarrow> u8 \<Rightarrow> u32" where
  "from_le32 b0 b1 b2 b3 =
     ucast b0 OR push_bit 8 (ucast b1) OR push_bit 16 (ucast b2) OR push_bit 24 (ucast b3)"

lemma from_to_le16 [simp, codec_simps]: "from_le16 (ucast w) (ucast (drop_bit 8 w)) = w"
  unfolding from_le16_def by (rule bit_word_eqI) (auto simp: bit_simps)

lemma from_to_le32 [simp, codec_simps]:
  "from_le32 (ucast w) (ucast (drop_bit 8 w)) (ucast (drop_bit 16 w)) (ucast (drop_bit 24 w)) = w"
proof (rule bit_word_eqI)
  fix n :: nat
  assume "n < LENGTH(32)"
  then show "bit (from_le32 (ucast w) (ucast (drop_bit 8 w)) (ucast (drop_bit 16 w))
      (ucast (drop_bit 24 w))) n = bit w n"
    by (cases "n < 8"; cases "n < 16"; cases "n < 24") (auto simp: from_le32_def bit_simps)
qed

lemma length_to_le [simp]: "length (to_le16 w) = 2" "length (to_le32 v) = 4"
  by (simp_all add: to_le16_def to_le32_def)

lemma to_from_le16: "to_le16 (from_le16 b0 b1) = [b0, b1]"
  unfolding to_le16_def from_le16_def
  by (simp, intro conjI; rule bit_word_eqI; auto simp: bit_simps dest: bit_imp_le_length)

lemma to_from_le32: "to_le32 (from_le32 b0 b1 b2 b3) = [b0, b1, b2, b3]"
  unfolding to_le32_def from_le32_def
  by (simp, intro conjI; rule bit_word_eqI; auto simp: bit_simps dest: bit_imp_le_length)

text \<open>\<open>saturating_sub\<close> on unsigned integers.\<close>

definition sat_sub :: "'a::len word \<Rightarrow> 'a word \<Rightarrow> 'a word" where
  "sat_sub a b = (if a < b then 0 else a - b)"

lemma unat_sat_sub: "unat (sat_sub a b) = unat a - unat b"
  by (auto simp: sat_sub_def word_less_nat_alt unat_sub word_le_nat_alt not_less)

text \<open>\<open>saturating_add(1)\<close> on unsigned integers.\<close>

definition sat_inc :: "'a::len word \<Rightarrow> 'a word" where
  "sat_inc x = (if x = - 1 then x else x + 1)"

lemma unat_sat_inc: "unat (sat_inc x) = min (2 ^ LENGTH('a) - 1) (unat x + 1)" for x :: "'a::len word"
proof (cases "x = -1")
  case False
  have "unat x < 2 ^ LENGTH('a)" by (rule unsigned_less)
  moreover have "unat x \<noteq> 2 ^ LENGTH('a) - 1"
  proof
    assume "unat x = 2 ^ LENGTH('a) - 1"
    then have "unat x = unat (- 1 :: 'a word)" by (simp add: unsigned_minus_1_eq_mask mask_eq_exp_minus_1)
    then show False using False by (simp only: word_unat_eq_iff [symmetric])
  qed
  ultimately have "unat x + 1 < 2 ^ LENGTH('a)" by linarith
  then have "unat (x + 1) = unat x + 1" by (simp add: unat_word_ariths)
  then show ?thesis using False \<open>unat x + 1 < 2 ^ LENGTH('a)\<close> by (simp add: sat_inc_def)
qed (simp add: sat_inc_def unsigned_minus_1_eq_mask mask_eq_exp_minus_1)

text \<open>\<open>usize::checked_add\<close> on the 32-bit target.\<close>

definition usize_checked_add :: "nat \<Rightarrow> nat \<Rightarrow> nat option" where
  "usize_checked_add a b = (if a + b < 2 ^ 32 then Some (a + b) else None)"

text \<open>\<open>usize::div_ceil\<close>.\<close>

definition div_ceil :: "nat \<Rightarrow> nat \<Rightarrow> nat" where
  "div_ceil a b = (if a mod b = 0 then a div b else Suc (a div b))"

lemma div_ceil_8_ge: "n \<le> 8 * div_ceil n 8"
proof -
  have "n = n div 8 * 8 + n mod 8" by simp
  then show ?thesis by (auto simp: div_ceil_def)
qed

section \<open>Slices\<close>

text \<open>\<open>slice.get(a..b)\<close>: \<open>None\<close> when the range is not inside the slice. An
  indexing expression \<open>slice[a..b]\<close> panics exactly where this is \<open>None\<close>.\<close>

definition slice_get :: "nat \<Rightarrow> nat \<Rightarrow> 'a list \<Rightarrow> 'a list option" where
  "slice_get a b xs = (if a \<le> b \<and> b \<le> length xs then Some (take (b - a) (drop a xs)) else None)"

lemma slice_get_Some:
  "slice_get a b xs = Some ys \<Longrightarrow> length ys = b - a \<and> a \<le> b \<and> b \<le> length xs \<and> ys = take (b - a) (drop a xs)"
  by (auto simp: slice_get_def split: if_splits)

lemma slice_get_append [simp]:
  "length xs = a \<Longrightarrow> slice_get a (a + length ys) (xs @ ys @ zs) = Some ys"
  by (simp add: slice_get_def)

section \<open>UTF-8 and strings\<close>

type_synonym ustr = "nat list"

text \<open>A string literal of the source (all of them are ASCII).\<close>

definition lit :: "string \<Rightarrow> ustr" where
  "lit s = map of_char s"

definition scalar :: "nat \<Rightarrow> bool" where
  "scalar c \<longleftrightarrow> c < 0xD800 \<or> 0xE000 \<le> c \<and> c < 0x110000"

definition utf8_char :: "nat \<Rightarrow> u8 list" where
  "utf8_char c =
     (if c < 0x80 then [of_nat c]
      else if c < 0x800 then [of_nat (0xC0 + c div 64), of_nat (0x80 + c mod 64)]
      else if c < 0x10000 then
        [of_nat (0xE0 + c div 4096), of_nat (0x80 + c div 64 mod 64), of_nat (0x80 + c mod 64)]
      else [of_nat (0xF0 + c div 262144), of_nat (0x80 + c div 4096 mod 64),
            of_nat (0x80 + c div 64 mod 64), of_nat (0x80 + c mod 64)])"

definition utf8_encode :: "ustr \<Rightarrow> u8 list" where
  "utf8_encode s = concat (map utf8_char s)"

definition is_cont :: "u8 \<Rightarrow> bool" where
  "is_cont b \<longleftrightarrow> 0x80 \<le> unat b \<and> unat b < 0xC0"

abbreviation cont_val :: "u8 \<Rightarrow> nat" where
  "cont_val b \<equiv> unat b - 0x80"

text \<open>\<open>str::from_utf8\<close>: strict decoding. Overlong forms, surrogates and values above
  \<open>0x10FFFF\<close> are errors, as the Unicode standard and the Rust library require.\<close>

fun utf8_decode :: "u8 list \<Rightarrow> ustr option" where
  "utf8_decode [] = Some []"
| "utf8_decode (b # bs) =
    (if unat b < 0x80 then map_option ((#) (unat b)) (utf8_decode bs)
     else if 0xC2 \<le> unat b \<and> unat b < 0xE0 then
       (case bs of c1 # r \<Rightarrow>
          (if is_cont c1
           then map_option ((#) ((unat b - 0xC0) * 64 + cont_val c1)) (utf8_decode r)
           else None)
        | _ \<Rightarrow> None)
     else if 0xE0 \<le> unat b \<and> unat b < 0xF0 then
       (case bs of c1 # c2 # r \<Rightarrow>
          (let c = (unat b - 0xE0) * 4096 + cont_val c1 * 64 + cont_val c2 in
           if is_cont c1 \<and> is_cont c2 \<and> 0x800 \<le> c \<and> scalar c
           then map_option ((#) c) (utf8_decode r)
           else None)
        | _ \<Rightarrow> None)
     else if 0xF0 \<le> unat b \<and> unat b < 0xF8 then
       (case bs of c1 # c2 # c3 # r \<Rightarrow>
          (let c = (unat b - 0xF0) * 262144 + cont_val c1 * 4096 + cont_val c2 * 64 + cont_val c3 in
           if is_cont c1 \<and> is_cont c2 \<and> is_cont c3 \<and> 0x10000 \<le> c \<and> scalar c
           then map_option ((#) c) (utf8_decode r)
           else None)
        | _ \<Rightarrow> None)
     else None)"

end
