(* ===== verification/Rust_Str.thy ===== *)
theory Rust_Str
  imports Prelude
begin

text \<open>
  The Rust string library as the plugins use it, on lists of scalar values: UTF-8 round
  trips, Unicode whitespace, trimming, the splitting iterators, ASCII classification and
  decimal numbers. \<open>str::len\<close> counts bytes and is \<open>length (utf8_encode s)\<close>.
\<close>

section \<open>UTF-8 round trips\<close>

definition valid_ustr :: "ustr \<Rightarrow> bool" where
  "valid_ustr s \<longleftrightarrow> list_all scalar s"

lemma utf8_encode_simps [simp]:
  "utf8_encode [] = []"
  "utf8_encode (c # s) = utf8_char c @ utf8_encode s"
  "utf8_encode (s @ t) = utf8_encode s @ utf8_encode t"
  by (simp_all add: utf8_encode_def)

lemma valid_ustr_simps [simp]:
  "valid_ustr []"
  "valid_ustr (c # s) \<longleftrightarrow> scalar c \<and> valid_ustr s"
  "valid_ustr (s @ t) \<longleftrightarrow> valid_ustr s \<and> valid_ustr t"
  by (auto simp: valid_ustr_def)

lemma unat_of_nat_u8: "k < 256 \<Longrightarrow> unat (of_nat k :: u8) = k"
  by (simp add: unat_of_nat take_bit_nat_eq_self)

lemma utf8_decode_2:
  assumes "2 \<le> x" "x < 32" "y < 64"
  shows "utf8_decode (of_nat (0xC0 + x) # of_nat (0x80 + y) # bs)
    = map_option ((#) (x * 64 + y)) (utf8_decode bs)"
proof -
  have "unat (of_nat (0xC0 + x) :: u8) = 0xC0 + x" "unat (of_nat (0x80 + y) :: u8) = 0x80 + y"
    using assms by (simp_all add: unat_of_nat_u8 del: of_nat_add)
  then show ?thesis using assms by (simp add: is_cont_def del: of_nat_add)
qed

lemma utf8_decode_3:
  assumes "x < 16" "y < 64" "z < 64" and c: "c = x * 4096 + y * 64 + z" "0x800 \<le> c" "scalar c"
  shows "utf8_decode (of_nat (0xE0 + x) # of_nat (0x80 + y) # of_nat (0x80 + z) # bs)
    = map_option ((#) c) (utf8_decode bs)"
proof -
  have "unat (of_nat (0xE0 + x) :: u8) = 0xE0 + x" "unat (of_nat (0x80 + y) :: u8) = 0x80 + y"
    "unat (of_nat (0x80 + z) :: u8) = 0x80 + z"
    using assms by (simp_all add: unat_of_nat_u8 del: of_nat_add)
  then show ?thesis using assms by (simp add: is_cont_def Let_def del: of_nat_add)
qed

lemma utf8_decode_4:
  assumes "x < 8" "y < 64" "z < 64" "w < 64"
    and c: "c = x * 262144 + y * 4096 + z * 64 + w" "0x10000 \<le> c" "scalar c"
  shows "utf8_decode (of_nat (0xF0 + x) # of_nat (0x80 + y) # of_nat (0x80 + z) # of_nat (0x80 + w) # bs)
    = map_option ((#) c) (utf8_decode bs)"
proof -
  have "unat (of_nat (0xF0 + x) :: u8) = 0xF0 + x" "unat (of_nat (0x80 + y) :: u8) = 0x80 + y"
    "unat (of_nat (0x80 + z) :: u8) = 0x80 + z" "unat (of_nat (0x80 + w) :: u8) = 0x80 + w"
    using assms by (simp_all add: unat_of_nat_u8 del: of_nat_add)
  then show ?thesis using assms by (simp add: is_cont_def Let_def del: of_nat_add)
qed

lemma sextets:
  fixes c :: nat
  shows "c = c div 4096 * 4096 + c div 64 mod 64 * 64 + c mod 64"
    and "c = c div 262144 * 262144 + c div 4096 mod 64 * 4096 + c div 64 mod 64 * 64 + c mod 64"
proof -
  have q: "c div 4096 = c div 64 div 64" "c div 262144 = c div 64 div 64 div 64"
    by (simp_all flip: div_mult2_eq)
  have "c = c div 64 * 64 + c mod 64" "c div 64 = c div 64 div 64 * 64 + c div 64 mod 64"
    "c div 64 div 64 = c div 64 div 64 div 64 * 64 + c div 64 div 64 mod 64"
    by (simp_all only: div_mult_mod_eq)
  then show "c = c div 4096 * 4096 + c div 64 mod 64 * 64 + c mod 64"
    and "c = c div 262144 * 262144 + c div 4096 mod 64 * 4096 + c div 64 mod 64 * 64 + c mod 64"
    unfolding q by linarith+
qed

lemma utf8_decode_char:
  assumes "scalar c"
  shows "utf8_decode (utf8_char c @ bs) = map_option ((#) c) (utf8_decode bs)"
proof -
  have c: "c < 0x110000" using assms by (auto simp: scalar_def)
  consider (a) "c < 0x80" | (b) "0x80 \<le> c" "c < 0x800" | (d) "0x800 \<le> c" "c < 0x10000"
    | (e) "0x10000 \<le> c" by linarith
  then show ?thesis
  proof cases
    case a
    then show ?thesis by (simp add: utf8_char_def unat_of_nat_u8)
  next
    case b
    then have eq: "utf8_char c = [of_nat (0xC0 + c div 64), of_nat (0x80 + c mod 64)]"
      by (simp add: utf8_char_def)
    have "utf8_decode (utf8_char c @ bs) = map_option ((#) (c div 64 * 64 + c mod 64)) (utf8_decode bs)"
      unfolding eq append.simps by (rule utf8_decode_2) (use b in linarith)+
    then show ?thesis by simp
  next
    case d
    then have eq: "utf8_char c =
      [of_nat (0xE0 + c div 4096), of_nat (0x80 + c div 64 mod 64), of_nat (0x80 + c mod 64)]"
      by (simp add: utf8_char_def)
    have h: "c div 4096 < 16" using d by linarith
    have m: "c div 64 mod 64 < 64" "c mod 64 < 64" by simp_all
    show ?thesis
      unfolding eq append.simps by (rule utf8_decode_3 [OF h m sextets(1) d(1) assms])
  next
    case e
    then have eq: "utf8_char c = [of_nat (0xF0 + c div 262144), of_nat (0x80 + c div 4096 mod 64),
      of_nat (0x80 + c div 64 mod 64), of_nat (0x80 + c mod 64)]"
      by (simp add: utf8_char_def)
    have h: "c div 262144 < 8" using c by linarith
    have m: "c div 4096 mod 64 < 64" "c div 64 mod 64 < 64" "c mod 64 < 64" by simp_all
    show ?thesis
      unfolding eq append.simps by (rule utf8_decode_4 [OF h m sextets(2) e assms])
  qed
qed

lemma utf8_decode_encode [codec_simps]:
  "valid_ustr s \<Longrightarrow> utf8_decode (utf8_encode s) = Some s"
  by (induction s) (simp_all add: utf8_decode_char del: utf8_decode.simps(2))

lemma valid_utf8_decode: "utf8_decode bs = Some s \<Longrightarrow> valid_ustr s"
  by (induction bs arbitrary: s rule: utf8_decode.induct)
    (auto simp: Let_def scalar_def is_cont_def split: if_splits list.splits)

lemma of_nat_u8_unat: "k = unat b \<Longrightarrow> of_nat k = (b :: u8)"
  by simp

lemma cont_split:
  assumes "is_cont b"
  shows "(k * 64 + cont_val b) div 64 = k" "(k * 64 + cont_val b) mod 64 = cont_val b"
    "0x80 + cont_val b = unat b"
proof -
  have m: "cont_val b < 64" using assms by (auto simp: is_cont_def)
  show "(k * 64 + cont_val b) div 64 = k" "(k * 64 + cont_val b) mod 64 = cont_val b"
    using m by (simp_all only: div_mult_self3 mod_mult_self3 div_less mod_less)
  show "0x80 + cont_val b = unat b" using assms by (auto simp: is_cont_def)
qed

lemma utf8_char_2:
  assumes "is_cont c1" "0xC2 \<le> unat b" "unat b < 0xE0"
  shows "utf8_char ((unat b - 0xC0) * 64 + cont_val c1) = [b, c1]"
proof -
  let ?c = "(unat b - 0xC0) * 64 + cont_val c1"
  have "0x80 \<le> ?c" "?c < 0x800" using assms by (auto simp: is_cont_def)
  then have "utf8_char ?c = [of_nat (0xC0 + ?c div 64), of_nat (0x80 + ?c mod 64)]"
    by (simp only: utf8_char_def) simp
  also have "0xC0 + ?c div 64 = unat b" using assms cont_split [OF assms(1)] by simp
  also have "0x80 + ?c mod 64 = unat c1" using assms cont_split [OF assms(1)] by simp
  finally show ?thesis by simp
qed

lemma utf8_char_3:
  assumes "is_cont c1" "is_cont c2" "0xE0 \<le> unat b" "unat b < 0xF0"
    and c: "c = (unat b - 0xE0) * 4096 + cont_val c1 * 64 + cont_val c2" "0x800 \<le> c"
  shows "utf8_char c = [b, c1, c2]"
proof -
  have e: "c = ((unat b - 0xE0) * 64 + cont_val c1) * 64 + cont_val c2" using c by simp
  have d: "c div 64 = (unat b - 0xE0) * 64 + cont_val c1" "c mod 64 = cont_val c2"
    unfolding e by (rule cont_split [OF assms(2)])+
  have q: "c div 4096 = c div 64 div 64" by (simp flip: div_mult2_eq)
  have "c < 0x10000" using c(1) assms by (auto simp: is_cont_def)
  with c(2) have "utf8_char c =
    [of_nat (0xE0 + c div 4096), of_nat (0x80 + c div 64 mod 64), of_nat (0x80 + c mod 64)]"
    by (simp only: utf8_char_def) simp
  also have "0xE0 + c div 4096 = unat b"
    unfolding q d using assms(3) cont_split(1) [OF assms(1)] by simp
  also have "0x80 + c div 64 mod 64 = unat c1"
    unfolding d using cont_split(2,3) [OF assms(1)] by simp
  also have "0x80 + c mod 64 = unat c2" unfolding d using cont_split(3) [OF assms(2)] by simp
  finally show ?thesis by simp
qed

lemma utf8_char_4:
  assumes "is_cont c1" "is_cont c2" "is_cont c3" "0xF0 \<le> unat b" "unat b < 0xF8"
    and c: "c = (unat b - 0xF0) * 262144 + cont_val c1 * 4096 + cont_val c2 * 64 + cont_val c3"
      "0x10000 \<le> c"
  shows "utf8_char c = [b, c1, c2, c3]"
proof -
  have e: "c = (((unat b - 0xF0) * 64 + cont_val c1) * 64 + cont_val c2) * 64 + cont_val c3"
    using c by simp
  have d: "c div 64 = ((unat b - 0xF0) * 64 + cont_val c1) * 64 + cont_val c2" "c mod 64 = cont_val c3"
    unfolding e by (rule cont_split [OF assms(3)])+
  have q: "c div 4096 = c div 64 div 64" "c div 262144 = c div 64 div 64 div 64"
    by (simp_all flip: div_mult2_eq)
  have "utf8_char c = [of_nat (0xF0 + c div 262144), of_nat (0x80 + c div 4096 mod 64),
      of_nat (0x80 + c div 64 mod 64), of_nat (0x80 + c mod 64)]"
    using c(2) by (simp only: utf8_char_def) simp
  also have "0xF0 + c div 262144 = unat b"
    unfolding q d using assms(4) cont_split(1) [OF assms(1)] cont_split(1) [OF assms(2)] by simp
  also have "0x80 + c div 4096 mod 64 = unat c1"
    unfolding q d using cont_split [OF assms(1)] cont_split(1) [OF assms(2)] by simp
  also have "0x80 + c div 64 mod 64 = unat c2"
    unfolding d by (simp only: cont_split(2,3) [OF assms(2)])
  also have "0x80 + c mod 64 = unat c3" unfolding d using cont_split(3) [OF assms(3)] by simp
  finally show ?thesis by simp
qed

lemma utf8_encode_decode: "utf8_decode bs = Some s \<Longrightarrow> utf8_encode s = bs"
proof (induction bs arbitrary: s rule: utf8_decode.induct)
  case 1
  then show ?case by simp
next
  case (2 b bs)
  then show ?case
    by (auto simp: Let_def utf8_char_2 utf8_char_3 utf8_char_4 utf8_char_def [of "unat b"]
      simp del: utf8_decode.simps(2) simp: utf8_decode.simps(2) [of b bs]
      split: if_splits list.splits)
qed

section \<open>Characters\<close>

text \<open>\<open>char::is_whitespace\<close>: the Unicode property White_Space.\<close>

definition is_whitespace :: "nat \<Rightarrow> bool" where
  "is_whitespace c \<longleftrightarrow> (9 \<le> c \<and> c \<le> 13) \<or> c = 32 \<or> c = 0x85 \<or> c = 0xA0 \<or> c = 0x1680
     \<or> (0x2000 \<le> c \<and> c \<le> 0x200A) \<or> c = 0x2028 \<or> c = 0x2029 \<or> c = 0x202F \<or> c = 0x205F
     \<or> c = 0x3000"

definition is_ascii_digit :: "nat \<Rightarrow> bool" where
  "is_ascii_digit c \<longleftrightarrow> 48 \<le> c \<and> c \<le> 57"

definition is_ascii_alphabetic :: "nat \<Rightarrow> bool" where
  "is_ascii_alphabetic c \<longleftrightarrow> (65 \<le> c \<and> c \<le> 90) \<or> (97 \<le> c \<and> c \<le> 122)"

definition is_ascii_alphanumeric :: "nat \<Rightarrow> bool" where
  "is_ascii_alphanumeric c \<longleftrightarrow> is_ascii_digit c \<or> is_ascii_alphabetic c"

definition to_ascii_uppercase :: "ustr \<Rightarrow> ustr" where
  "to_ascii_uppercase = map (\<lambda>c. if 97 \<le> c \<and> c \<le> 122 then c - 32 else c)"

definition to_ascii_lowercase :: "ustr \<Rightarrow> ustr" where
  "to_ascii_lowercase = map (\<lambda>c. if 65 \<le> c \<and> c \<le> 90 then c + 32 else c)"

definition eq_ignore_ascii_case :: "ustr \<Rightarrow> ustr \<Rightarrow> bool" where
  "eq_ignore_ascii_case s t \<longleftrightarrow> to_ascii_lowercase s = to_ascii_lowercase t"

section \<open>Prefixes, trimming, splitting\<close>

definition starts_with :: "'a list \<Rightarrow> 'a list \<Rightarrow> bool" where
  "starts_with p s \<longleftrightarrow> take (length p) s = p"

definition ends_with :: "'a list \<Rightarrow> 'a list \<Rightarrow> bool" where
  "ends_with p s \<longleftrightarrow> starts_with (rev p) (rev s)"

definition strip_prefix :: "'a list \<Rightarrow> 'a list \<Rightarrow> 'a list option" where
  "strip_prefix p s = (if starts_with p s then Some (drop (length p) s) else None)"

definition trim_start_matches :: "('a \<Rightarrow> bool) \<Rightarrow> 'a list \<Rightarrow> 'a list" where
  "trim_start_matches p s = dropWhile p s"

definition trim_end_matches :: "('a \<Rightarrow> bool) \<Rightarrow> 'a list \<Rightarrow> 'a list" where
  "trim_end_matches p s = rev (dropWhile p (rev s))"

definition trim :: "ustr \<Rightarrow> ustr" where
  "trim s = trim_end_matches is_whitespace (trim_start_matches is_whitespace s)"

text \<open>\<open>str::split(p)\<close>: the pieces between the separators, at least one.\<close>

fun split_on :: "('a \<Rightarrow> bool) \<Rightarrow> 'a list \<Rightarrow> 'a list list" where
  "split_on p [] = [[]]"
| "split_on p (c # s) =
    (if p c then [] # split_on p s
     else (case split_on p s of [] \<Rightarrow> [[c]] | l # ls \<Rightarrow> (c # l) # ls))"

definition split_whitespace :: "ustr \<Rightarrow> ustr list" where
  "split_whitespace s = filter (\<lambda>w. w \<noteq> []) (split_on is_whitespace s)"

text \<open>\<open>str::lines\<close>: a line ends at LF or CR LF, and a last empty line is not a line.\<close>

definition strip_cr :: "ustr \<Rightarrow> ustr" where
  "strip_cr l = (if l \<noteq> [] \<and> last l = 13 then butlast l else l)"

fun lines_from :: "ustr \<Rightarrow> ustr \<Rightarrow> ustr list" where
  "lines_from acc [] = (if acc = [] then [] else [acc])"
| "lines_from acc (c # s) =
    (if c = 10 then strip_cr acc # lines_from [] s else lines_from (acc @ [c]) s)"

definition str_lines :: "ustr \<Rightarrow> ustr list" where
  "str_lines s = lines_from [] s"

text \<open>\<open>str::find(c)\<close> followed by \<open>split_at\<close>: the parts before and after the first \<open>c\<close>.\<close>

definition split_first :: "'a \<Rightarrow> 'a list \<Rightarrow> ('a list \<times> 'a list) option" where
  "split_first c s =
     (if c \<in> set s then Some (takeWhile (\<lambda>x. x \<noteq> c) s, tl (dropWhile (\<lambda>x. x \<noteq> c) s)) else None)"

fun join :: "'a list \<Rightarrow> 'a list list \<Rightarrow> 'a list" where
  "join sep [] = []"
| "join sep [x] = x"
| "join sep (x # y # zs) = x @ sep @ join sep (y # zs)"

lemma split_on_not_Nil [simp]: "split_on p s \<noteq> []"
  by (cases s) (auto split: list.splits)

lemma concat_split_on: "concat (split_on p s) = filter (\<lambda>c. \<not> p c) s"
  by (induction s) (auto split: list.splits)

lemma hd_split_on: "hd (split_on p s) = takeWhile (\<lambda>c. \<not> p c) s"
proof (induction s)
  case (Cons c s)
  then show ?case by (cases "split_on p s") auto
qed simp

lemma split_on_no_sep: "w \<in> set (split_on p s) \<Longrightarrow> c \<in> set w \<Longrightarrow> \<not> p c"
proof -
  assume "w \<in> set (split_on p s)" "c \<in> set w"
  then have "c \<in> set (concat (split_on p s))" by auto
  then show ?thesis by (simp add: concat_split_on)
qed

lemma set_split_on: "w \<in> set (split_on p s) \<Longrightarrow> set w \<subseteq> set s"
proof
  fix x assume "w \<in> set (split_on p s)" "x \<in> set w"
  then have "x \<in> set (concat (split_on p s))" by auto
  then show "x \<in> set s" by (simp add: concat_split_on)
qed

lemma split_on_id: "(\<And>c. c \<in> set s \<Longrightarrow> \<not> p c) \<Longrightarrow> split_on p s = [s]"
  by (induction s) auto

lemma split_on_append:
  "(\<And>c. c \<in> set w \<Longrightarrow> \<not> p c) \<Longrightarrow> p x \<Longrightarrow> split_on p (w @ x # s) = w # split_on p s"
  by (induction w) auto

lemma concat_filter_nonempty: "concat (filter (\<lambda>w. w \<noteq> []) ws) = concat ws"
  by (induction ws) auto

lemma concat_split_whitespace: "concat (split_whitespace s) = filter (\<lambda>c. \<not> is_whitespace c) s"
  by (simp add: split_whitespace_def concat_filter_nonempty concat_split_on)

lemma split_whitespace_word:
  "w \<in> set (split_whitespace s) \<Longrightarrow> w \<noteq> [] \<and> (\<forall>c\<in>set w. \<not> is_whitespace c)"
  by (auto simp: split_whitespace_def dest: split_on_no_sep)

lemma starts_with_append [simp]: "starts_with p (p @ s)"
  by (simp add: starts_with_def)

lemma starts_with_iff: "starts_with p s \<longleftrightarrow> (\<exists>t. s = p @ t)"
  by (metis append_eq_conv_conj append_take_drop_id starts_with_def)

lemma strip_prefix_Some: "strip_prefix p s = Some t \<longleftrightarrow> s = p @ t"
  by (auto simp: strip_prefix_def starts_with_iff)

lemma split_first_Some:
  "split_first c s = Some (a, b) \<Longrightarrow> s = a @ c # b \<and> c \<notin> set a"
proof -
  assume h: "split_first c s = Some (a, b)"
  then have c: "c \<in> set s" and a: "a = takeWhile (\<lambda>x. x \<noteq> c) s"
    and b: "b = tl (dropWhile (\<lambda>x. x \<noteq> c) s)"
    by (auto simp: split_first_def split: if_splits)
  obtain y ys where d: "dropWhile (\<lambda>x. x \<noteq> c) s = y # ys"
    using c by (cases "dropWhile (\<lambda>x. x \<noteq> c) s") (auto simp: dropWhile_eq_Nil_conv)
  have y: "y = c" and s: "s = takeWhile (\<lambda>x. x \<noteq> c) s @ y # ys"
    using d by (auto simp only: dropWhile_eq_Cons_conv not_not)
  have "ys = b" using d b by simp
  then have "s = a @ c # b" using s y a by metis
  moreover have "c \<notin> set a" unfolding a by (auto dest: set_takeWhileD)
  ultimately show ?thesis by blast
qed

section \<open>Decimal numbers\<close>

fun show_nat :: "nat \<Rightarrow> ustr" where
  "show_nat n = (if n < 10 then [48 + n] else show_nat (n div 10) @ [48 + n mod 10])"

declare show_nat.simps [simp del]

definition digits_value :: "ustr \<Rightarrow> nat" where
  "digits_value = foldl (\<lambda>a c. 10 * a + (c - 48)) 0"

text \<open>\<open>str::parse::<u32>\<close>: an optional plus sign, at least one digit, no overflow.\<close>

definition parse_u32 :: "ustr \<Rightarrow> nat option" where
  "parse_u32 s =
     (let d = (case s of c # r \<Rightarrow> if c = 43 then r else s | [] \<Rightarrow> []) in
      if d \<noteq> [] \<and> list_all is_ascii_digit d \<and> digits_value d < 2 ^ 32
      then Some (digits_value d) else None)"

lemma digits_value_append: "digits_value (s @ [c]) = 10 * digits_value s + (c - 48)"
  by (simp add: digits_value_def)

lemma show_nat_digits: "list_all is_ascii_digit (show_nat n)"
proof (induction n rule: show_nat.induct)
  case (1 n)
  have d: "is_ascii_digit (48 + k)" if "k < 10" for k
    using that by (simp add: is_ascii_digit_def)
  show ?case
    by (subst show_nat.simps) (simp add: d 1)
qed

lemma show_nat_nonempty [simp]: "show_nat n \<noteq> []"
  by (subst show_nat.simps) simp

lemma digits_value_show_nat [codec_simps]: "digits_value (show_nat n) = n"
proof (induction n rule: show_nat.induct)
  case (1 n)
  show ?case
  proof (cases "n < 10")
    case True
    then show ?thesis by (subst show_nat.simps) (simp add: digits_value_def)
  next
    case False
    with 1 show ?thesis by (subst show_nat.simps) (simp add: digits_value_append)
  qed
qed

lemma parse_u32_show_nat [codec_simps]:
  assumes "n < 2 ^ 32"
  shows "parse_u32 (show_nat n) = Some n"
proof -
  have "show_nat n \<noteq> [] \<and> hd (show_nat n) \<noteq> 43"
    using show_nat_digits [of n] by (cases "show_nat n") (auto simp: is_ascii_digit_def)
  then have "(case show_nat n of c # r \<Rightarrow> if c = 43 then r else show_nat n | [] \<Rightarrow> []) = show_nat n"
    by (cases "show_nat n") auto
  then show ?thesis
    using assms show_nat_digits [of n]
    by (simp add: parse_u32_def Let_def digits_value_show_nat)
qed

section \<open>Formatting\<close>

text \<open>\<open>{}\<close> of a signed number, \<open>{:02X}\<close> of a byte, \<open>{:>n}\<close>, \<open>{:<n}\<close> and \<open>{:02}\<close>. Padding counts
  characters.\<close>

definition show_int :: "int \<Rightarrow> ustr" where
  "show_int i = (if i < 0 then 45 # show_nat (nat (- i)) else show_nat (nat i))"

definition hex_digit :: "nat \<Rightarrow> nat" where
  "hex_digit d = (if d < 10 then 48 + d else 55 + d)"

definition hex2 :: "u8 \<Rightarrow> ustr" where
  "hex2 b = [hex_digit (unat b div 16), hex_digit (unat b mod 16)]"

definition pad_left :: "nat \<Rightarrow> ustr \<Rightarrow> ustr" where
  "pad_left n s = replicate (n - length s) 32 @ s"

definition pad_right :: "nat \<Rightarrow> ustr \<Rightarrow> ustr" where
  "pad_right n s = s @ replicate (n - length s) 32"

definition show02 :: "nat \<Rightarrow> ustr" where
  "show02 n = replicate (2 - length (show_nat n)) 48 @ show_nat n"

lemma length_pad [simp]: "length (pad_left n s) = max n (length s)" "length (pad_right n s) = max n (length s)"
  by (auto simp: pad_left_def pad_right_def)

end
