(* ===== verification/Codec.thy ===== *)
theory Codec
  imports Rust_Str
begin

text \<open>
  The interface every wire format of the plugins offers: an encoder, a decoder that may
  reject, and the set of values the format can carry. \<open>framing\<close> is the contract of a
  format that tolerates trailing or reserved bytes, \<open>exact_framing\<close> that of a format
  with one byte string per value.
\<close>

locale framing =
  fixes enc :: "'a \<Rightarrow> u8 list"
    and dec :: "u8 list \<Rightarrow> 'a option"
    and wf :: "'a \<Rightarrow> bool"
  assumes dec_enc: "wf x \<Longrightarrow> dec (enc x) = Some x"
    and dec_wf: "dec bs = Some x \<Longrightarrow> wf x"
begin

lemma enc_inj:
  assumes "wf x" and "wf y" and "enc x = enc y"
  shows "x = y"
  by (metis assms dec_enc option.inject)

lemma dec_renormalises: "dec bs = Some x \<Longrightarrow> dec (enc x) = Some x"
  by (blast intro: dec_enc dec_wf)

lemma dec_range: "(\<exists>bs. dec bs = Some x) \<longleftrightarrow> wf x"
  by (blast intro: dec_enc dec_wf)

end

locale exact_framing = framing +
  assumes enc_dec: "dec bs = Some x \<Longrightarrow> enc x = bs"
begin

lemma dec_inj: "dec bs = Some x \<Longrightarrow> dec cs = Some x \<Longrightarrow> bs = cs"
  using enc_dec by blast

lemma dec_eq_iff: "dec bs = Some x \<longleftrightarrow> wf x \<and> enc x = bs"
  using dec_enc dec_wf enc_dec by blast

end

interpretation utf8: exact_framing utf8_encode utf8_decode valid_ustr
  by unfold_locales (auto simp: utf8_decode_encode valid_utf8_decode utf8_encode_decode)

end
