(* ===== verification/Wire.thy ===== *)
theory Wire
  imports Codec
begin

text \<open>
  The two job formats of the thermo_printer plugin: the print-job frame of the network
  listener (\<open>plugins/thermo_printer/src/wire.rs\<close>) and the raster and text payloads of
  the \<open>thermo_print\<close> feature (\<open>raster.rs\<close>). All of them come from untrusted peers, so the
  theorems say exactly which byte strings are accepted and that an accepted raster keeps
  every later slice inside its rows.
\<close>

section \<open>Print-job frames (wire.rs)\<close>

definition PJ_MAGIC :: u16 where "PJ_MAGIC = 0x4A50"
definition PJ_HEADER_LEN :: nat where "PJ_HEADER_LEN = 8"
definition TYPE_TEXT :: u8 where "TYPE_TEXT = 0"
definition TYPE_IMAGE :: u8 where "TYPE_IMAGE = 1"
definition TYPE_RASTER :: u8 where "TYPE_RASTER = 2"

record wire_job =
  kind :: u8
  flags :: u8
  payload :: "u8 list"

definition wire_parse :: "u8 list \<Rightarrow> wire_job option" where
  "wire_parse buf =
    (if length buf < PJ_HEADER_LEN then None
     else if from_le16 (buf ! 0) (buf ! 1) \<noteq> PJ_MAGIC then None
     else
       let len = unat (from_le32 (buf ! 4) (buf ! 5) (buf ! 6) (buf ! 7)) in
       case usize_checked_add PJ_HEADER_LEN len of
         None \<Rightarrow> None
       | Some end_ \<Rightarrow>
         (case slice_get PJ_HEADER_LEN end_ buf of
            None \<Rightarrow> None
          | Some p \<Rightarrow> Some \<lparr>kind = buf ! 2, flags = buf ! 3, payload = p\<rparr>))"

definition wire_build :: "u8 \<Rightarrow> u8 list \<Rightarrow> u8 list" where
  "wire_build k p = to_le16 PJ_MAGIC @ [k] @ [0] @ to_le32 (of_nat (length p)) @ p"

text \<open>A frame with arbitrary flags, and the values a frame can carry.\<close>

definition wire_frame :: "wire_job \<Rightarrow> u8 list" where
  "wire_frame j = to_le16 PJ_MAGIC @ [kind j, flags j] @ to_le32 (of_nat (length (payload j))) @ payload j"

definition wire_ok :: "wire_job \<Rightarrow> bool" where
  "wire_ok j \<longleftrightarrow> PJ_HEADER_LEN + length (payload j) < 2 ^ 32"

lemmas wire_defs = PJ_MAGIC_def PJ_HEADER_LEN_def to_le16_def to_le32_def

lemma wire_build_frame: "wire_build k p = wire_frame \<lparr>kind = k, flags = 0, payload = p\<rparr>"
  by (simp add: wire_build_def wire_frame_def)

lemma unat_of_nat_u32: "n < 2 ^ 32 \<Longrightarrow> unat (of_nat n :: u32) = n"
  by (simp add: unat_of_nat take_bit_nat_eq_self)

lemma wire_parse_frame [codec_simps]:
  assumes "wire_ok j"
  shows "wire_parse (wire_frame j @ rest) = Some j"
proof -
  let ?n = "of_nat (length (payload j)) :: u32"
  have n: "unat ?n = length (payload j)"
    using assms by (intro unat_of_nat_u32) (simp add: wire_ok_def PJ_HEADER_LEN_def)
  obtain h where h: "wire_frame j @ rest = h @ payload j @ rest" "length h = 8"
    "h ! 0 = 0x50" "h ! Suc 0 = 0x4A" "h ! 2 = kind j" "h ! 3 = flags j"
    "h ! 4 = ucast ?n" "h ! 5 = ucast (drop_bit 8 ?n)" "h ! 6 = ucast (drop_bit 16 ?n)"
    "h ! 7 = ucast (drop_bit 24 ?n)"
    by (simp add: wire_frame_def wire_defs)
  have m: "from_le16 0x50 0x4A = PJ_MAGIC" by (simp add: from_le16_def PJ_MAGIC_def)
  have "slice_get PJ_HEADER_LEN (PJ_HEADER_LEN + length (payload j)) (h @ payload j @ rest)
    = Some (payload j)"
    by (rule slice_get_append) (simp add: h PJ_HEADER_LEN_def)
  moreover have "usize_checked_add PJ_HEADER_LEN (length (payload j))
    = Some (PJ_HEADER_LEN + length (payload j))"
    using assms by (simp add: usize_checked_add_def wire_ok_def)
  ultimately show ?thesis
    unfolding h(1)
    by (simp add: wire_parse_def nth_append h(2-) m n Let_def PJ_HEADER_LEN_def)
qed

lemma wire_parse_Some:
  assumes "wire_parse buf = Some j"
  shows "wire_ok j \<and> (\<exists>rest. buf = wire_frame j @ rest)"
proof -
  from assms have l: "8 \<le> length buf"
    by (auto simp: wire_parse_def PJ_HEADER_LEN_def split: if_splits)
  then obtain b0 b1 b2 b3 b4 b5 b6 b7 t where
    b: "buf = b0 # b1 # b2 # b3 # b4 # b5 # b6 # b7 # t"
    by (auto simp: numeral_eq_Suc Suc_le_length_iff)
  from assms b have m: "from_le16 b0 b1 = PJ_MAGIC"
    and c: "PJ_HEADER_LEN + unat (from_le32 b4 b5 b6 b7) < 2 ^ 32"
    and s: "slice_get 8 (8 + unat (from_le32 b4 b5 b6 b7)) buf = Some (payload j)"
    and k: "kind j = b2" "flags j = b3"
    by (auto simp: wire_parse_def Let_def usize_checked_add_def PJ_HEADER_LEN_def
        split: if_splits option.splits)
  from slice_get_Some [OF s] have len: "length (payload j) = unat (from_le32 b4 b5 b6 b7)"
    and p: "payload j = take (length (payload j)) t" using b by auto
  have "to_le16 PJ_MAGIC = [b0, b1]" using to_from_le16 [of b0 b1] by (simp add: m)
  moreover have "to_le32 (of_nat (length (payload j))) = [b4, b5, b6, b7]"
    unfolding len by (simp add: to_from_le32)
  ultimately have "buf = wire_frame j @ drop (length (payload j)) t"
    using b k p by (simp add: wire_frame_def) (metis append_take_drop_id)
  with c len show ?thesis by (auto simp: wire_ok_def)
qed

interpretation wire: framing wire_frame wire_parse wire_ok
  using wire_parse_frame [where rest = "[]"] wire_parse_Some by unfold_locales auto

section \<open>Raster and text jobs (raster.rs)\<close>

definition RAS_MAGIC :: u16 where "RAS_MAGIC = 0x5450"
definition VERSION :: u8 where "VERSION = 1"
definition HEADER_LEN :: nat where "HEADER_LEN = 12"
definition MAX_WIDTH_PX :: u16 where "MAX_WIDTH_PX = 384"
definition MAX_HEIGHT_PX :: u16 where "MAX_HEIGHT_PX = 2048"
definition TEXT_MAGIC :: u16 where "TEXT_MAGIC = 0x5854"
definition TEXT_HEADER_LEN :: nat where "TEXT_HEADER_LEN = 4"

record raster_job =
  width_px :: u16
  height_px :: u16
  stride_bytes :: u16
  rows :: "u8 list"

definition raster_build :: "u16 \<Rightarrow> u16 \<Rightarrow> u16 \<Rightarrow> u8 list \<Rightarrow> u8 list" where
  "raster_build w h st rs =
     to_le16 RAS_MAGIC @ [VERSION] @ [0] @ to_le16 w @ to_le16 h @ to_le16 st @ to_le16 0 @ rs"

definition raster_parse :: "u8 list \<Rightarrow> raster_job option" where
  "raster_parse p =
    (if length p < HEADER_LEN then None
     else if from_le16 (p ! 0) (p ! 1) \<noteq> RAS_MAGIC \<or> p ! 2 \<noteq> VERSION then None
     else
       let w = from_le16 (p ! 4) (p ! 5);
           h = from_le16 (p ! 6) (p ! 7);
           st = from_le16 (p ! 8) (p ! 9)
       in if w = 0 \<or> w > MAX_WIDTH_PX \<or> h = 0 \<or> h > MAX_HEIGHT_PX then None
          else if unat st < div_ceil (unat w) 8 then None
          else
            let need = unat st * unat h in
            case slice_get HEADER_LEN (HEADER_LEN + need) p of
              None \<Rightarrow> None
            | Some rs \<Rightarrow>
                Some \<lparr>width_px = w, height_px = h, stride_bytes = st, rows = rs\<rparr>)"

definition build_text :: "ustr \<Rightarrow> u8 list" where
  "build_text t = to_le16 TEXT_MAGIC @ [VERSION] @ [0] @ utf8_encode t"

definition parse_text :: "u8 list \<Rightarrow> ustr option" where
  "parse_text p =
    (if length p < TEXT_HEADER_LEN then None
     else if from_le16 (p ! 0) (p ! 1) \<noteq> TEXT_MAGIC \<or> p ! 2 \<noteq> VERSION then None
     else utf8_decode (drop TEXT_HEADER_LEN p))"

definition raster_ok :: "raster_job \<Rightarrow> bool" where
  "raster_ok j \<longleftrightarrow> width_px j \<noteq> 0 \<and> width_px j \<le> MAX_WIDTH_PX \<and>
     height_px j \<noteq> 0 \<and> height_px j \<le> MAX_HEIGHT_PX \<and>
     div_ceil (unat (width_px j)) 8 \<le> unat (stride_bytes j) \<and>
     length (rows j) = unat (stride_bytes j) * unat (height_px j)"

abbreviation raster_frame :: "raster_job \<Rightarrow> u8 list" where
  "raster_frame j \<equiv> raster_build (width_px j) (height_px j) (stride_bytes j) (rows j)"

lemma from_le16_magic: "from_le16 0x50 0x54 = RAS_MAGIC" "from_le16 0x54 0x58 = TEXT_MAGIC"
  by (simp_all add: from_le16_def RAS_MAGIC_def TEXT_MAGIC_def)

lemma raster_parse_frame [codec_simps]:
  assumes "raster_ok j"
  shows "raster_parse (raster_frame j @ rest) = Some j"
proof -
  obtain h where h: "raster_frame j @ rest = h @ rows j @ rest" "length h = 12"
    "h ! 0 = 0x50" "h ! Suc 0 = 0x54" "h ! 2 = VERSION"
    "h ! 4 = ucast (width_px j)" "h ! 5 = ucast (drop_bit 8 (width_px j))"
    "h ! 6 = ucast (height_px j)" "h ! 7 = ucast (drop_bit 8 (height_px j))"
    "h ! 8 = ucast (stride_bytes j)" "h ! 9 = ucast (drop_bit 8 (stride_bytes j))"
    by (simp add: raster_build_def to_le16_def RAS_MAGIC_def)
  have "slice_get HEADER_LEN (HEADER_LEN + length (rows j)) (h @ rows j @ rest) = Some (rows j)"
    by (rule slice_get_append) (simp add: h HEADER_LEN_def)
  moreover have "length (rows j) = unat (stride_bytes j) * unat (height_px j)"
    using assms by (simp add: raster_ok_def)
  ultimately show ?thesis
    unfolding h(1) using assms
    by (simp add: raster_parse_def nth_append h(2-) from_le16_magic Let_def HEADER_LEN_def raster_ok_def
        not_le not_less)
qed

lemma raster_parse_ok: "raster_parse p = Some j \<Longrightarrow> raster_ok j"
  by (auto simp: raster_parse_def raster_ok_def Let_def not_le not_less dest: slice_get_Some
      split: if_splits option.splits)

interpretation raster: framing raster_frame raster_parse raster_ok
  using raster_parse_frame [where rest = "[]"] raster_parse_ok by unfold_locales auto

lemma parse_text_build [codec_simps]: "valid_ustr t \<Longrightarrow> parse_text (build_text t) = Some t"
proof -
  have "to_le16 TEXT_MAGIC = [0x54, 0x58]" by (simp add: to_le16_def TEXT_MAGIC_def)
  then show "valid_ustr t \<Longrightarrow> ?thesis"
    by (simp add: parse_text_def build_text_def TEXT_HEADER_LEN_def from_le16_magic utf8.dec_enc)
qed

lemma parse_text_valid: "parse_text p = Some t \<Longrightarrow> valid_ustr t"
  by (auto simp: parse_text_def split: if_splits intro: utf8.dec_wf)

interpretation text_job: framing build_text parse_text valid_ustr
  by unfold_locales (auto simp: parse_text_build parse_text_valid)

lemma magics_differ: "RAS_MAGIC \<noteq> TEXT_MAGIC"
  by (simp add: RAS_MAGIC_def TEXT_MAGIC_def)

lemma raster_not_text: "raster_parse p = Some j \<Longrightarrow> parse_text p = None"
  using magics_differ by (auto simp: raster_parse_def parse_text_def split: if_splits)

text \<open>Every pixel of an accepted raster lies inside its rows.\<close>

lemma raster_pixel_in_range:
  assumes "raster_ok j" and "x < unat (width_px j)" and "y < unat (height_px j)"
  shows "y * unat (stride_bytes j) + x div 8 < length (rows j)"
proof -
  have "x div 8 < unat (stride_bytes j)"
    using assms div_ceil_8_ge [of "unat (width_px j)"] by (auto simp: raster_ok_def)
  moreover have "Suc y * unat (stride_bytes j) \<le> unat (height_px j) * unat (stride_bytes j)"
    using assms(3) by (intro mult_le_mono1) simp
  ultimately show ?thesis using assms(1) by (simp add: raster_ok_def mult.commute)
qed

end
