(* ===== verification/Layout.thy ===== *)
theory Layout
  imports Rust_Str
begin

text \<open>
  Text layout of the printer plugin (\<open>plugins/thermo_printer/src/layout.rs\<close> and
  \<open>url.rs\<close>): word wrapping against an arbitrary measuring function, pagination, the
  printable lines of a vCard, and URL normalisation. The measuring function and the
  line-height function are parameters, as they are in the source.
\<close>

section \<open>Word wrapping\<close>

type_synonym measure = "ustr \<Rightarrow> u16"

text \<open>The inner loop over the characters of an over-long word; \<open>(lines, piece)\<close> is its state.\<close>

definition break_char :: "measure \<Rightarrow> u16 \<Rightarrow> ustr list \<times> ustr \<Rightarrow> nat \<Rightarrow> ustr list \<times> ustr" where
  "break_char msr max_w st ch =
    (case st of (lines, piece) \<Rightarrow>
       let c = piece @ [ch] in
       if msr c \<le> max_w \<or> piece = [] then (lines, c)
       else (lines @ [piece], [ch]))"

text \<open>One word of a paragraph; \<open>(lines, line)\<close> is the state of the paragraph loop.\<close>

definition wrap_word :: "measure \<Rightarrow> u16 \<Rightarrow> ustr list \<times> ustr \<Rightarrow> ustr \<Rightarrow> ustr list \<times> ustr" where
  "wrap_word msr max_w st word =
    (case st of (lines, line) \<Rightarrow>
       let candidate = (if line = [] then word else line @ [32] @ word) in
       if msr candidate \<le> max_w then (lines, candidate)
       else
         let lines = (if line \<noteq> [] then lines @ [line] else lines)
         in foldl (break_char msr max_w) (lines, []) word)"

definition wrap_paragraph :: "measure \<Rightarrow> u16 \<Rightarrow> ustr list \<Rightarrow> ustr \<Rightarrow> ustr list" where
  "wrap_paragraph msr max_w lines paragraph =
    (case foldl (wrap_word msr max_w) (lines, []) (split_whitespace paragraph) of
       (lines, line) \<Rightarrow> lines @ [line])"

definition wrap_text :: "measure \<Rightarrow> u16 \<Rightarrow> ustr \<Rightarrow> ustr list" where
  "wrap_text msr max_w t =
    (let lines = foldl (wrap_paragraph msr max_w) [] (split_on (\<lambda>c. c = 10) t)
     in if length lines = 1 \<and> lines ! 0 = [] then [] else lines)"

section \<open>Pages\<close>

record vcard_line =
  headline :: bool
  vtext :: ustr

type_synonym page_line = "bool \<times> ustr"

text \<open>
  The loop of \<open>paginate\<close>. The source keeps an index \<open>consumed\<close> into the vector and drains
  that many lines at the end; here the lines not yet consumed are the argument and \<open>first\<close>
  says whether nothing has been consumed. The result is the page, the final \<open>y\<close> and the
  lines left in the vector.
\<close>

fun paginate_loop ::
  "int \<Rightarrow> (bool \<Rightarrow> int) \<Rightarrow> (bool \<Rightarrow> ustr \<Rightarrow> ustr list) \<Rightarrow> page_line list \<Rightarrow> int \<Rightarrow> bool \<Rightarrow>
     vcard_line list \<Rightarrow> page_line list \<times> int \<times> vcard_line list" where
  "paginate_loop max_rows line_h wrap page y first [] = (page, y, [])"
| "paginate_loop max_rows line_h wrap page y first (line # rest) =
    (let hl = headline line;
         h = max (line_h hl) 1;
         wrapped = wrap hl (vtext line)
     in if wrapped = [] then
          paginate_loop max_rows line_h wrap (page @ [(hl, [])]) (y + h) False rest
        else
          let fit = nat (max ((max_rows - y) div h) 0) in
          if length wrapped \<le> fit then
            paginate_loop max_rows line_h wrap (page @ map (Pair hl) wrapped)
              (y + h * int (length wrapped)) False rest
          else if first then
            let tk = max fit 1;
                out = take tk wrapped;
                rem = map (\<lambda>w. \<lparr>headline = hl, vtext = w\<rparr>) (drop tk wrapped)
            in (page @ map (Pair hl) out, y + h * int (length out), rem @ rest)
          else (page, y, line # rest))"

definition paginate ::
  "vcard_line list \<Rightarrow> int \<Rightarrow> int \<Rightarrow> (bool \<Rightarrow> int) \<Rightarrow> (bool \<Rightarrow> ustr \<Rightarrow> ustr list) \<Rightarrow>
     page_line list \<times> int \<times> vcard_line list" where
  "paginate lines y0 max_rows line_h wrap = paginate_loop max_rows line_h wrap [] y0 True lines"

section \<open>vCards\<close>

definition vcard_label :: "ustr \<Rightarrow> ustr option" where
  "vcard_label key =
     map_of [(lit ''ORG'', lit ''Org''), (lit ''TITLE'', lit ''Title''), (lit ''TEL'', lit ''Tel''),
       (lit ''EMAIL'', lit ''Mail''), (lit ''URL'', lit ''Web''), (lit ''IMPP'', lit ''IM''),
       (lit ''X-SOCIALPROFILE'', lit ''Social''), (lit ''NOTE'', lit ''Note'')] key"

definition vcard_line_of :: "ustr \<Rightarrow> vcard_line list" where
  "vcard_line_of raw =
    (let line = trim_end_matches (\<lambda>c. c = 13) raw in
     case split_first 58 line of
       None \<Rightarrow> []
     | Some (key_full, value) \<Rightarrow>
         if value = [] then []
         else
           let key = to_ascii_uppercase (hd (split_on (\<lambda>c. c = 59) key_full)) in
           if key = lit ''FN'' then [\<lparr>headline = True, vtext = value\<rparr>]
           else case vcard_label key of
             None \<Rightarrow> []
           | Some label \<Rightarrow> [\<lparr>headline = False, vtext = label @ lit '': '' @ value\<rparr>])"

definition vcard_to_lines :: "ustr \<Rightarrow> vcard_line list" where
  "vcard_to_lines vcard = concat (map vcard_line_of (str_lines vcard))"

section \<open>URLs\<close>

datatype normalized = Url ustr | Text ustr

definition valid_label :: "ustr \<Rightarrow> bool" where
  "valid_label l \<longleftrightarrow> l \<noteq> [] \<and> \<not> starts_with [45] l \<and> \<not> ends_with [45] l
     \<and> list_all (\<lambda>c. is_ascii_alphanumeric c \<or> c = 45) l"

definition looks_like_domain :: "ustr \<Rightarrow> bool" where
  "looks_like_domain s =
    (if s = [] \<or> list_ex is_whitespace s then False
     else
       let host = hd (split_on (\<lambda>c. c = 47) s) in
       if 46 \<notin> set host \<or> starts_with [46] host \<or> ends_with [46] host then False
       else
         let labels = split_on (\<lambda>c. c = 46) host in
         if \<not> list_all valid_label labels then False
         else
           let tld = last labels in
           2 \<le> length (utf8_encode tld) \<and> list_all is_ascii_alphabetic tld)"

definition normalize :: "ustr \<Rightarrow> normalized" where
  "normalize input =
    (let trimmed = trim input in
     if starts_with (lit ''http://'') trimmed \<or> starts_with (lit ''https://'') trimmed then Url trimmed
     else if looks_like_domain trimmed then Url (lit ''https://'' @ trimmed)
     else Text input)"

end
