(* ===== verification/Sdk_Ble.thy ===== *)
theory Sdk_Ble
  imports Rust_Str
begin

text \<open>
  The scan results of the SDK (\<open>sdk/cdc-badge-plugin/src/ble.rs\<close>): the raw record the firmware
  fills, the result made from it, and \<open>String::from_utf8_lossy\<close>, which replaces every longest
  prefix of a broken sequence by U+FFFD.
\<close>

record scan_result =
  sr_name :: ustr
  sr_addr :: "u8 list"
  sr_addr_type :: u8
  sr_rssi :: int

record scan_result_raw =
  raw_addr :: "u8 list"
  raw_addr_type :: u8
  raw_rssi :: u8
  raw_name :: "u8 list"

text \<open>May \<open>c\<close> follow the lead byte \<open>b\<close>?\<close>

definition second_ok :: "u8 \<Rightarrow> u8 \<Rightarrow> bool" where
  "second_ok b c \<longleftrightarrow>
     is_cont c \<and> (unat b = 0xE0 \<longrightarrow> 0xA0 \<le> unat c) \<and> (unat b = 0xED \<longrightarrow> unat c < 0xA0)
     \<and> (unat b = 0xF0 \<longrightarrow> 0x90 \<le> unat c) \<and> (unat b = 0xF4 \<longrightarrow> unat c < 0x90)"

fun from_utf8_lossy :: "u8 list \<Rightarrow> ustr" where
  "from_utf8_lossy [] = []"
| "from_utf8_lossy (b # bs) =
    (if unat b < 0x80 then unat b # from_utf8_lossy bs
     else if 0xC2 \<le> unat b \<and> unat b < 0xE0 then
       (case bs of
          c1 # r \<Rightarrow>
            if second_ok b c1 then ((unat b - 0xC0) * 64 + cont_val c1) # from_utf8_lossy r
            else 0xFFFD # from_utf8_lossy bs
        | [] \<Rightarrow> [0xFFFD])
     else if 0xE0 \<le> unat b \<and> unat b < 0xF0 then
       (case bs of
          c1 # r \<Rightarrow>
            if second_ok b c1 then
              (case r of
                 c2 # r2 \<Rightarrow>
                   if is_cont c2
                   then ((unat b - 0xE0) * 4096 + cont_val c1 * 64 + cont_val c2) # from_utf8_lossy r2
                   else 0xFFFD # from_utf8_lossy r
               | [] \<Rightarrow> [0xFFFD])
            else 0xFFFD # from_utf8_lossy bs
        | [] \<Rightarrow> [0xFFFD])
     else if 0xF0 \<le> unat b \<and> unat b < 0xF5 then
       (case bs of
          c1 # r \<Rightarrow>
            if second_ok b c1 then
              (case r of
                 c2 # r2 \<Rightarrow>
                   if is_cont c2 then
                     (case r2 of
                        c3 # r3 \<Rightarrow>
                          if is_cont c3
                          then ((unat b - 0xF0) * 262144 + cont_val c1 * 4096 + cont_val c2 * 64 + cont_val c3)
                                 # from_utf8_lossy r3
                          else 0xFFFD # from_utf8_lossy r2
                      | [] \<Rightarrow> [0xFFFD])
                   else 0xFFFD # from_utf8_lossy r
               | [] \<Rightarrow> [0xFFFD])
            else 0xFFFD # from_utf8_lossy bs
        | [] \<Rightarrow> [0xFFFD])
     else 0xFFFD # from_utf8_lossy bs)"

definition scan_result_of :: "scan_result_raw \<Rightarrow> scan_result" where
  "scan_result_of d = \<lparr>sr_name = from_utf8_lossy (takeWhile (\<lambda>b. b \<noteq> 0) (raw_name d)), sr_addr = raw_addr d,
     sr_addr_type = raw_addr_type d, sr_rssi = sint (raw_rssi d)\<rparr>"

lemma scan_rssi_range: "-128 \<le> sr_rssi (scan_result_of d)" "sr_rssi (scan_result_of d) < 128"
  using sint_greater_eq [of "raw_rssi d"] sint_less [of "raw_rssi d"] by (simp_all add: scan_result_of_def)

text \<open>A name never has a NUL.\<close>

lemma second_value:
  "second_ok b c \<Longrightarrow> 224 \<le> unat b \<Longrightarrow> unat b \<le> 224 \<Longrightarrow> \<not> unat c \<le> 128"
  "second_ok b c \<Longrightarrow> 240 \<le> unat b \<Longrightarrow> unat b \<le> 240 \<Longrightarrow> \<not> unat c \<le> 128"
  by (simp_all add: second_ok_def)

lemma lossy_no_nul: "0 \<notin> set bs \<Longrightarrow> 0 \<notin> set (from_utf8_lossy bs)"
proof (induction bs rule: length_induct)
  case (1 xs)
  show ?case
  proof (cases xs)
    case (Cons b bs)
    have nz: "unat b \<noteq> 0" "0 \<notin> set bs" using 1(2) Cons by (auto simp: unat_eq_0)
    have IH: "0 \<notin> set (from_utf8_lossy ys)" if "length ys \<le> length bs" "0 \<notin> set ys" for ys
      using 1(1) Cons that by simp
    show ?thesis unfolding Cons using nz second_value [of b]
      by (subst from_utf8_lossy.simps) (auto simp: IH simp del: from_utf8_lossy.simps split: list.split)
  qed simp
qed

lemma scan_name_no_nul [simp]: "0 \<notin> set (sr_name (scan_result_of d))"
proof -
  have "0 \<notin> set (takeWhile (\<lambda>b. b \<noteq> 0) (raw_name d))" by (auto dest: set_takeWhileD)
  then show ?thesis by (simp add: scan_result_of_def lossy_no_nul)
qed

end
