(* ===== verification/Printer.thy ===== *)
theory Printer
  imports Wire Cat_Proto Layout Sdk_Ble
begin

text \<open>
  The thermo_printer plugin itself (\<open>plugins/thermo_printer/src/lib.rs\<close>): its state, the
  print driver (connect, discover, stream, flow control), the composition of rasters, the
  job server and the lifecycle exports.

  The badge firmware is not under src/. Its calls are the fields of a record \<open>'w phost\<close> over
  an arbitrary world \<open>'w\<close>: a call with an answer returns it with the next world, a command
  whose result the plugin discards only changes the world. The theorems hold for every such
  record. What the plugin sends out (views, messages, bytes written to the printer, job
  results, replies to network clients) is also appended to \<open>trace\<close> in the order it is issued,
  with two marks for reasoning: \<open>Took_job\<close> where an ext-feature job is pulled and \<open>Printing\<close>
  where the log line of that name starts a transfer. Other log lines are not modelled. A Rust
  panic (an index out of range) sets \<open>trapped\<close> and ends the handler.

  \<open>ble_notifications\<close> is the list of notifications the host has queued when the action runs,
  \<open>ble_take_notifications n\<close> the removal of the first \<open>n\<close>. The host calls that configure or
  measure a surface touch nothing but that surface, so the measuring closure of
  \<open>compose_lines_page\<close> is evaluated at the world in which the scratch surface was made.
\<close>

section \<open>The host\<close>

datatype icon = UI_ICON_ERROR | UI_ICON_SENSOR | UI_ICON_PLAY | UI_ICON_SUCCESS | UI_ICON_INFO
  | UI_ICON_ARROW_RIGHT

datatype ui_call =
  Push_message ustr icon nat
| Push_toast ustr icon nat
| Push_list ustr u32 "(ustr \<times> u32 \<times> icon) list"
| Replace_list ustr u32 "(ustr \<times> u32 \<times> icon) list"
| Push_menu ustr u32 "(ustr \<times> u32 \<times> icon) list"
| Push_slider ustr int int int int ustr u32
| Push_t9 ustr "ustr option" nat u32
| Set_list_empty ustr
| Set_view_lifecycle u32 u32
| Pop_view

datatype event =
  UI ui_call
| Report int
| Wrote "u8 list" bool
| Reply "u8 list"
| Took_job
| Printing nat

text \<open>A raster: packed rows, most significant bit first, set bit black.\<close>

record ras =
  bits :: "u8 list"
  stride :: nat
  height :: nat

record gatt_char =
  gc_uuid :: "u8 list"
  gc_value_handle :: u16
  gc_properties :: u8

record qr_bitmap =
  side_px :: u16
  qr_data :: "u8 list"

record 'w phost =
  nvs_get_u32 :: "string \<Rightarrow> 'w \<Rightarrow> u32 option"
  nvs_set_u32 :: "string \<Rightarrow> u32 \<Rightarrow> 'w \<Rightarrow> 'w"
  nvs_get_blob :: "string \<Rightarrow> nat \<Rightarrow> 'w \<Rightarrow> u8 list option"
  nvs_set_blob :: "string \<Rightarrow> u8 list \<Rightarrow> 'w \<Rightarrow> 'w"
  nvs_erase :: "string \<Rightarrow> 'w \<Rightarrow> 'w"
  ble_is_enabled :: "'w \<Rightarrow> bool \<times> 'w"
  ble_connect :: "u8 list \<Rightarrow> u8 \<Rightarrow> 'w \<Rightarrow> bool \<times> 'w"
  ble_disconnect :: "u32 \<Rightarrow> 'w \<Rightarrow> 'w"
  ble_on_write_complete :: "u32 \<Rightarrow> 'w \<Rightarrow> 'w"
  ble_scan_start :: "nat \<Rightarrow> 'w \<Rightarrow> bool \<times> 'w"
  ble_scan_done :: "'w \<Rightarrow> bool \<times> 'w"
  ble_scan_results :: "nat \<Rightarrow> 'w \<Rightarrow> scan_result list \<times> 'w"
  ble_conn_handle :: "'w \<Rightarrow> u32 \<times> 'w"
  ble_conn_peer :: "u32 \<Rightarrow> 'w \<Rightarrow> u8 list option \<times> 'w"
  ble_discover :: "u32 \<Rightarrow> u8 list \<Rightarrow> u32 \<Rightarrow> 'w \<Rightarrow> bool \<times> 'w"
  ble_consume_discovery :: "nat \<Rightarrow> 'w \<Rightarrow> gatt_char list \<times> 'w"
  ble_subscribe_char :: "u32 \<Rightarrow> u16 \<Rightarrow> u32 \<Rightarrow> 'w \<Rightarrow> 'w"
  ble_write_char :: "u32 \<Rightarrow> u16 \<Rightarrow> u8 list \<Rightarrow> bool \<Rightarrow> 'w \<Rightarrow> bool \<times> 'w"
  ble_get_mtu :: "u32 \<Rightarrow> 'w \<Rightarrow> u16 \<times> 'w"
  ble_notifications :: "'w \<Rightarrow> u8 list list"
  ble_take_notifications :: "nat \<Rightarrow> 'w \<Rightarrow> 'w"
  feature_consume_job :: "nat \<Rightarrow> 'w \<Rightarrow> u8 list option \<times> 'w"
  feature_register :: "string \<Rightarrow> u32 \<Rightarrow> 'w \<Rightarrow> 'w"
  feature_report_result :: "int \<Rightarrow> 'w \<Rightarrow> 'w"
  msg_register :: "string \<Rightarrow> u32 \<Rightarrow> 'w \<Rightarrow> 'w"
  msg_consume :: "nat \<Rightarrow> 'w \<Rightarrow> u8 list option \<times> 'w"
  msg_send_interactive :: "string \<Rightarrow> u8 list \<Rightarrow> 'w \<Rightarrow> 'w"
  cmd_consume :: "nat \<Rightarrow> 'w \<Rightarrow> ustr option \<times> 'w"
  ui_consume_input_text :: "nat \<Rightarrow> 'w \<Rightarrow> ustr option \<times> 'w"
  ui_consume_input_int :: "'w \<Rightarrow> int option \<times> 'w"
  tr_key :: "string \<Rightarrow> ustr"
  tr_meta :: "string \<Rightarrow> ustr"
  fs_list :: "nat \<Rightarrow> 'w \<Rightarrow> ustr list"
  fs_size :: "ustr \<Rightarrow> 'w \<Rightarrow> nat option"
  fs_read :: "ustr \<Rightarrow> nat \<Rightarrow> 'w \<Rightarrow> u8 list option"
  fs_read_str :: "ustr \<Rightarrow> nat \<Rightarrow> 'w \<Rightarrow> ustr option"
  fs_write :: "ustr \<Rightarrow> u8 list \<Rightarrow> 'w \<Rightarrow> bool \<times> 'w"
  vcard_own :: "'w \<Rightarrow> ustr option"
  vcard_received_count :: "'w \<Rightarrow> nat"
  vcard_received_display :: "nat \<Rightarrow> 'w \<Rightarrow> ustr option"
  vcard_received :: "u16 \<Rightarrow> 'w \<Rightarrow> ustr option"
  image_info :: "u8 list \<Rightarrow> (u16 \<times> u16) option"
  image_render :: "u8 list \<Rightarrow> u16 \<Rightarrow> ras option"
  qr_measure :: "ustr \<Rightarrow> u16 option"
  qr_render :: "ustr \<Rightarrow> u8 \<Rightarrow> qr_bitmap option"
  surf_create :: "u16 \<Rightarrow> u16 \<Rightarrow> 'w \<Rightarrow> u32 option \<times> 'w"
  surf_set_font :: "u32 \<Rightarrow> u8 \<Rightarrow> 'w \<Rightarrow> bool \<times> 'w"
  surf_measure_text :: "u32 \<Rightarrow> ustr \<Rightarrow> 'w \<Rightarrow> u16 option"
  surf_draw_text :: "u32 \<Rightarrow> int \<Rightarrow> int \<Rightarrow> ustr \<Rightarrow> 'w \<Rightarrow> bool \<times> 'w"
  surf_draw_bitmap :: "u32 \<Rightarrow> int \<Rightarrow> int \<Rightarrow> int \<Rightarrow> int \<Rightarrow> u8 list \<Rightarrow> 'w \<Rightarrow> bool \<times> 'w"
  surf_export :: "u32 \<Rightarrow> 'w \<Rightarrow> ras option"
  surf_export_jpg :: "u32 \<Rightarrow> nat \<Rightarrow> 'w \<Rightarrow> u8 list option"
  surf_drop :: "u32 \<Rightarrow> 'w \<Rightarrow> 'w"
  net_listen :: "u16 \<Rightarrow> u32 \<Rightarrow> 'w \<Rightarrow> bool \<times> 'w"
  net_close :: "u16 \<Rightarrow> 'w \<Rightarrow> 'w"
  net_accept :: "'w \<Rightarrow> u32 option \<times> 'w"
  tcp_read :: "u32 \<Rightarrow> nat \<Rightarrow> nat \<Rightarrow> 'w \<Rightarrow> u8 list option \<times> 'w"
  socket_close :: "u32 \<Rightarrow> 'w \<Rightarrow> 'w"
  tcp_write :: "u32 \<Rightarrow> u8 list \<Rightarrow> nat \<Rightarrow> 'w \<Rightarrow> 'w"
  wifi_request :: "'w \<Rightarrow> 'w"
  wifi_ip :: "'w \<Rightarrow> ustr option"
  set_resident :: "bool \<Rightarrow> 'w \<Rightarrow> 'w"
  uptime_ms :: "'w \<Rightarrow> u64 \<times> 'w"

section \<open>Constants\<close>

definition ACT_TOP :: u32 where "ACT_TOP = 1"
definition ACT_T9_QR :: u32 where "ACT_T9_QR = 2"
definition ACT_VCARD_LIST :: u32 where "ACT_VCARD_LIST = 3"
definition ACT_MODE_OWN :: u32 where "ACT_MODE_OWN = 4"
definition ACT_MODE_RECV :: u32 where "ACT_MODE_RECV = 5"
definition ACT_FILE_LIST :: u32 where "ACT_FILE_LIST = 6"
definition ACT_SCAN_LIST :: u32 where "ACT_SCAN_LIST = 7"
definition ACT_SETTINGS :: u32 where "ACT_SETTINGS = 8"
definition ACT_SLIDER_ENERGY :: u32 where "ACT_SLIDER_ENERGY = 9"
definition ACT_SLIDER_CHUNK :: u32 where "ACT_SLIDER_CHUNK = 10"
definition ACT_SLIDER_FEED :: u32 where "ACT_SLIDER_FEED = 11"
definition ACT_OUTPUT_MENU :: u32 where "ACT_OUTPUT_MENU = 12"
definition ACT_PRINT_MENU :: u32 where "ACT_PRINT_MENU = 13"
definition ACT_PRINTER_MENU :: u32 where "ACT_PRINTER_MENU = 14"
definition ACT_PORT_INPUT :: u32 where "ACT_PORT_INPUT = 15"
definition ACT_SCAN_HIDE :: u32 where "ACT_SCAN_HIDE = 16"
definition ACT_SCAN_SHOW :: u32 where "ACT_SCAN_SHOW = 17"
definition ACT_JOB :: u32 where "ACT_JOB = 20"
definition ACT_DISCOVERED :: u32 where "ACT_DISCOVERED = 21"
definition ACT_NOTIFY :: u32 where "ACT_NOTIFY = 22"
definition ACT_WRITE_DONE :: u32 where "ACT_WRITE_DONE = 23"
definition ACT_NET :: u32 where "ACT_NET = 24"
definition ACT_MSG_JPEG :: u32 where "ACT_MSG_JPEG = 25"
definition ACT_SLIDER_SPEED :: u32 where "ACT_SLIDER_SPEED = 26"

lemmas act_defs = ACT_TOP_def ACT_T9_QR_def ACT_VCARD_LIST_def ACT_MODE_OWN_def ACT_MODE_RECV_def
  ACT_FILE_LIST_def ACT_SCAN_LIST_def ACT_SETTINGS_def ACT_SLIDER_ENERGY_def ACT_SLIDER_CHUNK_def
  ACT_SLIDER_FEED_def ACT_OUTPUT_MENU_def ACT_PRINT_MENU_def ACT_PRINTER_MENU_def
  ACT_PORT_INPUT_def ACT_SCAN_HIDE_def ACT_SCAN_SHOW_def ACT_JOB_def ACT_DISCOVERED_def
  ACT_NOTIFY_def ACT_WRITE_DONE_def ACT_NET_def ACT_MSG_JPEG_def ACT_SLIDER_SPEED_def

definition TOP_PRINT :: u32 where "TOP_PRINT = 0"
definition TOP_PRINTER :: u32 where "TOP_PRINTER = 1"
definition TOP_SETTINGS :: u32 where "TOP_SETTINGS = 2"
definition PR_OWN :: u32 where "PR_OWN = 0"
definition PR_RECV :: u32 where "PR_RECV = 1"
definition PR_QR :: u32 where "PR_QR = 2"
definition PR_FILE :: u32 where "PR_FILE = 3"
definition PT_SCAN :: u32 where "PT_SCAN = 0"
definition PT_SERVER :: u32 where "PT_SERVER = 1"
definition SET_ENERGY :: u32 where "SET_ENERGY = 0"
definition SET_SPEED :: u32 where "SET_SPEED = 1"
definition SET_CHUNK :: u32 where "SET_CHUNK = 2"
definition SET_FEED :: u32 where "SET_FEED = 3"
definition SET_PORT :: u32 where "SET_PORT = 4"
definition SET_FONT :: u32 where "SET_FONT = 5"
definition SET_RLE :: u32 where "SET_RLE = 6"
definition SET_FORGET :: u32 where "SET_FORGET = 7"
definition MODE_TEXT :: u32 where "MODE_TEXT = 0"
definition MODE_QR :: u32 where "MODE_QR = 1"
definition MODE_TEXT_QR :: u32 where "MODE_TEXT_QR = 2"
definition OUT_PRINT :: u32 where "OUT_PRINT = 0"
definition OUT_SAVE_JPG :: u32 where "OUT_SAVE_JPG = 1"
definition OUT_SEND_JPG :: u32 where "OUT_SEND_JPG = 2"

definition NVS_PRINTER :: string where "NVS_PRINTER = ''printer_addr''"
definition NVS_ENERGY :: string where "NVS_ENERGY = ''energy''"
definition NVS_SPEED :: string where "NVS_SPEED = ''speed''"
definition NVS_RLE :: string where "NVS_RLE = ''rle''"
definition NVS_CHUNK :: string where "NVS_CHUNK = ''chunk''"
definition NVS_FEED :: string where "NVS_FEED = ''feed''"
definition NVS_PORT :: string where "NVS_PORT = ''port''"
definition NVS_FONT :: string where "NVS_FONT = ''font''"
definition NVS_SERVER :: string where "NVS_SERVER = ''server''"

definition DEFAULT_PRINT_PORT :: u16 where "DEFAULT_PRINT_PORT = 9100"
definition FILE_MAX :: nat where "FILE_MAX = 128 * 1024"
definition MAX_ROWS :: nat where "MAX_ROWS = unat MAX_HEIGHT_PX"
definition ROWS_PER_REFILL :: nat where "ROWS_PER_REFILL = 32"
definition MAX_JOB :: nat where "MAX_JOB = FILE_MAX"
definition CMD_LINE_MAX :: nat where "CMD_LINE_MAX = 32 * 1024"
definition FS_LIST_MAX :: nat where "FS_LIST_MAX = 4096"
definition SCAN_MS :: nat where "SCAN_MS = 3000"
definition POLL_INTERVAL_MS :: u64 where "POLL_INTERVAL_MS = 200"
definition RESCAN_INTERVAL_MS :: u64 where "RESCAN_INTERVAL_MS = 3000"
definition CONNECT_TIMEOUT_MS :: u64 where "CONNECT_TIMEOUT_MS = 10000"
definition DISCOVER_TIMEOUT_MS :: u64 where "DISCOVER_TIMEOUT_MS = 8000"
definition GATE_EVERY :: u32 where "GATE_EVERY = 8"
definition PAUSE_MAX_MS :: u64 where "PAUSE_MAX_MS = 10000"
definition DEFAULT_CHUNK :: u32 where "DEFAULT_CHUNK = 180"
definition NET_READ_TIMEOUT_MS :: nat where "NET_READ_TIMEOUT_MS = 250"
definition NET_CONN_DEADLINE_MS :: u64 where "NET_CONN_DEADLINE_MS = 5000"
definition PAGE_MAX_ROWS :: int where "PAGE_MAX_ROWS = 1200"
definition LINE_H :: int where "LINE_H = 20"
definition HEAD_H :: int where "HEAD_H = 26"
definition MARGIN :: int where "MARGIN = 4"

definition STATUS_DONE :: int where "STATUS_DONE = 0"
definition FEATURE_PAYLOAD_MAX :: nat where "FEATURE_PAYLOAD_MAX = 32768"
definition MSG_PAYLOAD_MAX :: nat where "MSG_PAYLOAD_MAX = 4096"
definition STATUS_ERROR :: int where "STATUS_ERROR = 1"
definition PROP_WRITE_NO_RSP :: u8 where "PROP_WRITE_NO_RSP = 0x04"
definition PROP_WRITE :: u8 where "PROP_WRITE = 0x08"

section \<open>State\<close>

record sending =
  s_ras :: ras
  next_row :: nat
  finished :: bool
  s_feed_steps :: u16
  s_rle :: bool
  buf :: "u8 list"
  off :: nat
  gated :: bool
  since_gate :: u32
  paused_since :: "u64 option"

datatype drive = Idle | Scanning | Connecting u64 | Discovering u64 | Sending sending

datatype after_print = NothingAfter | NextPage

record 'w pst =
  drive :: drive
  after :: after_print
  pending :: "ras option"
  pending_lines :: "vcard_line list"
  composed :: "ras option"
  composed_jpg :: "u8 list option"
  job_active :: bool
  conn :: u32
  tx_handle :: u16
  tx_props :: u8
  rx_handle :: u16
  last_poll_ms :: u64
  last_scan_ms :: u64
  now_ms :: u64
  scan_menu :: bool
  found :: "(ustr \<times> u8 list \<times> u8) list"
  picked_vcard :: u16
  files :: "ustr list"
  server_on :: bool
  bound_port :: u16
  world :: 'w
  trace :: "event list"
  trapped :: bool

definition defaults :: "'w \<Rightarrow> 'w pst" where
  "defaults w = \<lparr>drive = Idle, after = NothingAfter, pending = None, pending_lines = [],
     composed = None, composed_jpg = None, job_active = False, conn = 0, tx_handle = 0,
     tx_props = 0, rx_handle = 0, last_poll_ms = 0, last_scan_ms = 0, now_ms = 0,
     scan_menu = False, found = [], picked_vcard = 0, files = [], server_on = False,
     bound_port = 0, world = w, trace = [], trapped = False\<rparr>"

text \<open>A host call with an answer, a host command, an output.\<close>

definition hq :: "('w \<Rightarrow> 'a \<times> 'w) \<Rightarrow> 'w pst \<Rightarrow> 'a \<times> 'w pst" where
  "hq f st = (fst (f (world st)), st\<lparr>world := snd (f (world st))\<rparr>)"

definition hx :: "('w \<Rightarrow> 'w) \<Rightarrow> 'w pst \<Rightarrow> 'w pst" where
  "hx f st = st\<lparr>world := f (world st)\<rparr>"

definition emit :: "event \<Rightarrow> 'w pst \<Rightarrow> 'w pst" where
  "emit e st = st\<lparr>trace := trace st @ [e]\<rparr>"

abbreviation ui :: "ui_call \<Rightarrow> 'w pst \<Rightarrow> 'w pst" where
  "ui u \<equiv> emit (UI u)"

definition trap :: "'w pst \<Rightarrow> 'w pst" where
  "trap st = st\<lparr>trapped := True\<rparr>"

lemmas prim_defs = hq_def hx_def emit_def trap_def

section \<open>Settings\<close>

definition energy :: "'w phost \<Rightarrow> 'w \<Rightarrow> u16" where
  "energy h w = (case nvs_get_u32 h NVS_ENERGY w of Some v \<Rightarrow> ucast v | None \<Rightarrow> DEFAULT_ENERGY)"

definition speed :: "'w phost \<Rightarrow> 'w \<Rightarrow> u8" where
  "speed h w = (case nvs_get_u32 h NVS_SPEED w of Some v \<Rightarrow> ucast v | None \<Rightarrow> DEFAULT_SPEED)"

definition nvs_or :: "'w phost \<Rightarrow> string \<Rightarrow> u32 \<Rightarrow> 'w \<Rightarrow> u32" where
  "nvs_or h k d w = (case nvs_get_u32 h k w of Some v \<Rightarrow> v | None \<Rightarrow> d)"

definition rle_enabled :: "'w phost \<Rightarrow> 'w \<Rightarrow> bool" where
  "rle_enabled h w \<longleftrightarrow> nvs_or h NVS_RLE 0 w = 1"

definition chunk_size :: "'w phost \<Rightarrow> 'w pst \<Rightarrow> nat \<times> 'w pst" where
  "chunk_size h st =
    (let cfg = unat (nvs_or h NVS_CHUNK DEFAULT_CHUNK (world st));
         (m, st) = hq (ble_get_mtu h (conn st)) st;
         mtu = unat m
     in (if mtu > 0 then min cfg mtu else cfg, st))"

definition feed_steps :: "'w phost \<Rightarrow> 'w \<Rightarrow> u16" where
  "feed_steps h w = (case nvs_get_u32 h NVS_FEED w of Some v \<Rightarrow> ucast v | None \<Rightarrow> DEFAULT_FEED_STEPS)"

definition print_port :: "'w phost \<Rightarrow> 'w \<Rightarrow> u16" where
  "print_port h w =
    (case nvs_get_u32 h NVS_PORT w of
       Some v \<Rightarrow> if (ucast v :: u16) \<noteq> 0 then ucast v else DEFAULT_PRINT_PORT
     | None \<Rightarrow> DEFAULT_PRINT_PORT)"

definition body_font :: "'w phost \<Rightarrow> 'w \<Rightarrow> u8" where
  "body_font h w = (if nvs_or h NVS_FONT 0 w = 1 then 0 else 1)"

definition body_line_h :: "'w phost \<Rightarrow> 'w \<Rightarrow> int" where
  "body_line_h h w = (if nvs_or h NVS_FONT 0 w = 1 then 12 else LINE_H)"

definition saved_printer :: "'w phost \<Rightarrow> 'w \<Rightarrow> (u8 list \<times> u8) option" where
  "saved_printer h w =
    (case nvs_get_blob h NVS_PRINTER 7 w of
       None \<Rightarrow> None
     | Some blob \<Rightarrow> if length blob \<noteq> 7 then None else Some (take 6 blob, blob ! 6))"

section \<open>Composition\<close>

definition compose_qr_surface ::
  "'w phost \<Rightarrow> ustr \<Rightarrow> bool \<Rightarrow> 'w \<Rightarrow> (ras \<times> u8 list option) option \<times> 'w" where
  "compose_qr_surface h data with_jpg w =
    (case qr_measure h data of
       None \<Rightarrow> (None, w)
     | Some modules \<Rightarrow>
       (case qr_render h data (qr_scale modules) of
          None \<Rightarrow> (None, w)
        | Some bmp \<Rightarrow>
          (case surf_create h WIDTH_PX (side_px bmp + 8) w of
             (None, w) \<Rightarrow> (None, w)
           | (Some surf, w) \<Rightarrow>
             let x = sint ((WIDTH_PX - side_px bmp) div 2);
                 side = sint (side_px bmp)
             in case surf_draw_bitmap h surf x 4 side side (qr_data bmp) w of
                  (False, w) \<Rightarrow> (None, surf_drop h surf w)
                | (True, w) \<Rightarrow>
                  let jpg = (if with_jpg then surf_export_jpg h surf 85 w else None)
                  in (map_option (\<lambda>r. (r, jpg)) (surf_export h surf w), surf_drop h surf w))))"

definition compose_qr :: "'w phost \<Rightarrow> ustr \<Rightarrow> 'w \<Rightarrow> ras option \<times> 'w" where
  "compose_qr h data w =
    (case compose_qr_surface h data False w of (r, w) \<Rightarrow> (map_option fst r, w))"

definition page_line_h :: "'w phost \<Rightarrow> 'w \<Rightarrow> bool \<Rightarrow> int" where
  "page_line_h h w hl = (if hl then HEAD_H else body_line_h h w)"

definition page_wrap :: "'w phost \<Rightarrow> u32 \<Rightarrow> 'w \<Rightarrow> bool \<Rightarrow> ustr \<Rightarrow> ustr list" where
  "page_wrap h scratch w hl t =
    (let font = (if hl then 2 else body_font h w) in
     case surf_set_font h scratch font w of
       (False, _) \<Rightarrow> []
     | (True, w) \<Rightarrow>
         wrap_text (\<lambda>t. case surf_measure_text h scratch t w of Some m \<Rightarrow> m | None \<Rightarrow> 0xFFFF)
           (WIDTH_PX - 8) t)"

text \<open>The drawing loop; \<open>cy\<close> is an \<open>i16\<close>.\<close>

fun draw_rows :: "'w phost \<Rightarrow> u32 \<Rightarrow> u16 \<Rightarrow> page_line list \<Rightarrow> 'w \<Rightarrow> bool \<times> 'w" where
  "draw_rows h surf cy [] w = (True, w)"
| "draw_rows h surf cy ((hl, t) # rest) w =
    (let font = (if hl then 2 else body_font h w);
         lh = of_int (page_line_h h w hl)
     in case surf_set_font h surf font w of
          (False, w) \<Rightarrow> (False, w)
        | (True, w) \<Rightarrow>
          (case surf_draw_text h surf MARGIN (sint (cy + lh - 4)) t w of
             (False, w) \<Rightarrow> (False, w)
           | (True, w) \<Rightarrow> draw_rows h surf (cy + lh) rest w))"

definition compose_lines_page ::
  "'w phost \<Rightarrow> vcard_line list \<Rightarrow> 'w \<Rightarrow> (ras option \<times> vcard_line list) \<times> 'w" where
  "compose_lines_page h lines w =
    (if lines = [] then ((None, lines), w)
     else case surf_create h WIDTH_PX 8 w of
       (None, w) \<Rightarrow> ((None, lines), w)
     | (Some scratch, w) \<Rightarrow>
       (case paginate lines MARGIN PAGE_MAX_ROWS (page_line_h h w) (page_wrap h scratch w) of
          (rendered, y, lines) \<Rightarrow>
            let w = surf_drop h scratch w;
                hgt = of_int (max 8 (min 65535 (y + MARGIN)))
            in case surf_create h WIDTH_PX hgt w of
                 (None, w) \<Rightarrow> ((None, lines), w)
               | (Some surf, w) \<Rightarrow>
                 (case draw_rows h surf (of_int MARGIN) rendered w of
                    (False, w) \<Rightarrow> ((None, lines), surf_drop h surf w)
                  | (True, w) \<Rightarrow> ((surf_export h surf w, lines), surf_drop h surf w))))"

text \<open>\<open>copy_from_slice\<close> into a sub-range; \<open>None\<close> is a panic. \<open>stack_rows\<close> is one row loop of \<open>stack\<close>.\<close>

definition blit :: "nat \<Rightarrow> u8 list \<Rightarrow> u8 list \<Rightarrow> u8 list option" where
  "blit at src dst =
    (if at + length src \<le> length dst
     then Some (take at dst @ src @ drop (at + length src) dst) else None)"

definition stack_row :: "ras \<Rightarrow> nat \<Rightarrow> nat \<Rightarrow> u8 list option \<Rightarrow> nat \<Rightarrow> u8 list option" where
  "stack_row a st_out y0 dst y =
     Option.bind dst (\<lambda>d. Option.bind (slice_get (y * stride a) ((y + 1) * stride a) (bits a))
       (\<lambda>src. blit ((y0 + y) * st_out) src d))"

definition stack :: "ras \<Rightarrow> ras \<Rightarrow> ras option" where
  "stack a b =
    (let st_out = max (stride a) (stride b);
         hgt = height a + height b;
         d = Some (replicate (st_out * hgt) 0);
         d = foldl (stack_row a st_out 0) d [0..<height a];
         d = foldl (stack_row b st_out (height a)) d [0..<height b]
     in map_option (\<lambda>bs. \<lparr>bits = bs, stride = st_out, height = hgt\<rparr>) d)"

text \<open>The outer \<open>None\<close> of \<open>compose_vcard\<close> is a panic.\<close>

definition compose_vcard :: "'w phost \<Rightarrow> ustr \<Rightarrow> u32 \<Rightarrow> 'w \<Rightarrow> ras option option \<times> 'w" where
  "compose_vcard h raw mode w =
    (let txt = (\<lambda>w. case compose_lines_page h (vcard_to_lines raw) w of ((r, _), w) \<Rightarrow> (r, w)) in
     if mode = MODE_TEXT then (case txt w of (r, w) \<Rightarrow> (Some r, w))
     else if mode = MODE_QR then (case compose_qr h raw w of (r, w) \<Rightarrow> (Some r, w))
     else if mode = MODE_TEXT_QR then
       (case txt w of
          (None, w) \<Rightarrow> (Some None, w)
        | (Some t, w) \<Rightarrow>
          (case compose_qr h raw w of
             (None, w) \<Rightarrow> (Some None, w)
           | (Some q, w) \<Rightarrow> (map_option Some (stack t q), w)))
     else (Some None, w))"

definition render_image :: "'w phost \<Rightarrow> u8 list \<Rightarrow> ras option" where
  "render_image h data =
    (case image_info h data of
       None \<Rightarrow> None
     | Some (wd, ht) \<Rightarrow>
       if wd = 0 \<or> ht = 0 then None
       else if div_ceil (unat ht * unat WIDTH_PX) (unat wd) > MAX_ROWS then None
       else image_render h data WIDTH_PX)"

section \<open>Output routing\<close>

abbreviation msg_error :: "'w phost \<Rightarrow> string \<Rightarrow> 'w pst \<Rightarrow> 'w pst" where
  "msg_error h key \<equiv> ui (Push_message (tr_key h key) UI_ICON_ERROR 2500)"

definition offer_output :: "'w phost \<Rightarrow> ras \<Rightarrow> u8 list option \<Rightarrow> 'w pst \<Rightarrow> 'w pst" where
  "offer_output h r jpg st =
    (let st = st\<lparr>composed := Some r, composed_jpg := jpg\<rparr>;
         items = [(tr_key h ''out_print'', OUT_PRINT, UI_ICON_PLAY)]
           @ (case jpg of
                None \<Rightarrow> []
              | Some j \<Rightarrow> (tr_key h ''out_save'', OUT_SAVE_JPG, UI_ICON_SUCCESS)
                  # (if length j \<le> 4096
                     then [(tr_key h ''out_send'', OUT_SEND_JPG, UI_ICON_ARROW_RIGHT)] else []))
     in ui (Push_menu (tr_key h ''output'') ACT_OUTPUT_MENU items) st)"

definition drive_idle :: "'w pst \<Rightarrow> bool" where
  "drive_idle st \<longleftrightarrow> drive st = Idle"

section \<open>Printer link\<close>

definition finish_job :: "'w phost \<Rightarrow> int \<Rightarrow> 'w pst \<Rightarrow> 'w pst" where
  "finish_job h status st =
    (if job_active st
     then emit (Report status) (hx (feature_report_result h status) (st\<lparr>job_active := False\<rparr>))
     else st)"

definition clear_queue :: "'w phost \<Rightarrow> 'w pst \<Rightarrow> 'w pst" where
  "clear_queue h st =
     finish_job h STATUS_ERROR (st\<lparr>pending := None, pending_lines := [], after := NothingAfter\<rparr>)"

definition reset_link :: "'w phost \<Rightarrow> 'w pst \<Rightarrow> 'w pst" where
  "reset_link h st =
    (let st = (if conn st \<noteq> 0 then hx (ble_disconnect h (conn st)) st else st);
         st = hx (ble_on_write_complete h 0) st
     in st\<lparr>conn := 0, tx_handle := 0, tx_props := 0, rx_handle := 0\<rparr>)"

definition begin_send :: "'w phost \<Rightarrow> 'w pst \<Rightarrow> 'w pst" where
  "begin_send h st =
    (case pending st of
       None \<Rightarrow> st\<lparr>drive := Idle\<rparr>
     | Some r \<Rightarrow>
       let st = st\<lparr>pending := None\<rparr>;
           st = emit (Printing (height r)) st;
           st = ui (Push_toast (tr_key h ''printing'') UI_ICON_PLAY 2000) st
       in st\<lparr>drive := Sending \<lparr>s_ras = r, next_row = 0, finished = False,
            s_feed_steps = feed_steps h (world st), s_rle = rle_enabled h (world st),
            buf = job_setup (energy h (world st)) (speed h (world st)), off = 0, gated = False,
            since_gate = 0, paused_since = None\<rparr>\<rparr>)"

definition fail_print :: "'w phost \<Rightarrow> 'w pst \<Rightarrow> 'w pst" where
  "fail_print h st = clear_queue h (reset_link h ((msg_error h ''print_failed'' st)\<lparr>drive := Idle\<rparr>))"

definition start_scan :: "'w phost \<Rightarrow> bool \<Rightarrow> 'w pst \<Rightarrow> 'w pst" where
  "start_scan h auto_pick st =
    (case hq (ble_scan_start h SCAN_MS) st of
       (False, st) \<Rightarrow> clear_queue h (msg_error h ''scan_failed'' st)
     | (True, st) \<Rightarrow>
       let st = st\<lparr>found := [], drive := Scanning\<rparr> in
       if auto_pick then
         ui (Push_toast (tr_key h ''scanning'') UI_ICON_SENSOR 2000) (st\<lparr>scan_menu := False\<rparr>)
       else
         ui (Set_list_empty (tr_key h ''scanning''))
           (ui (Set_view_lifecycle ACT_SCAN_HIDE ACT_SCAN_SHOW)
             (ui (Push_list (tr_key h ''printers'') ACT_SCAN_LIST []) (st\<lparr>scan_menu := True\<rparr>))))"

definition connect_or_scan :: "'w phost \<Rightarrow> 'w pst \<Rightarrow> 'w pst" where
  "connect_or_scan h st =
    (case hq (ble_is_enabled h) st of
       (False, st) \<Rightarrow> clear_queue h (msg_error h ''ble_off'' st)
     | (True, st) \<Rightarrow>
       if conn st \<noteq> 0 \<and> tx_handle st \<noteq> 0 then begin_send h st
       else case saved_printer h (world st) of
         None \<Rightarrow> start_scan h True st
       | Some (addr, addr_type) \<Rightarrow>
         (case hq (ble_connect h addr addr_type) st of
            (True, st) \<Rightarrow>
              (ui (Push_toast (tr_key h ''connecting'') UI_ICON_SENSOR 2000) st)
                \<lparr>drive := Connecting (now_ms st)\<rparr>
          | (False, st) \<Rightarrow> start_scan h True st))"

definition start_print :: "'w phost \<Rightarrow> ras \<Rightarrow> after_print \<Rightarrow> 'w pst \<Rightarrow> bool \<times> 'w pst" where
  "start_print h r aft st =
    (if \<not> drive_idle st then (False, st)
     else (True, connect_or_scan h (st\<lparr>pending := Some r, after := aft\<rparr>)))"

definition start_print_ui :: "'w phost \<Rightarrow> ras \<Rightarrow> after_print \<Rightarrow> 'w pst \<Rightarrow> 'w pst" where
  "start_print_ui h r aft st =
    (case start_print h r aft st of (ok, st) \<Rightarrow> if ok then st else msg_error h ''busy'' st)"

definition render_scan_list :: "'w phost \<Rightarrow> 'w pst \<Rightarrow> 'w pst" where
  "render_scan_list h st =
    (let items = map (\<lambda>(name, addr, _).
           (name @ lit '' '' @ hex2 (addr ! 4) @ hex2 (addr ! 5), 0, UI_ICON_SENSOR)) (found st);
         st = ui (Replace_list (tr_key h ''printers'') ACT_SCAN_LIST items) st;
         st = ui (Set_view_lifecycle ACT_SCAN_HIDE ACT_SCAN_SHOW) st
     in if found st = [] then ui (Set_list_empty (tr_key h ''scanning'')) st else st)"

text \<open>\<open>max_by_key\<close> returns the last of several maximal elements.\<close>

fun max_rssi :: "scan_result list \<Rightarrow> scan_result option" where
  "max_rssi [] = None"
| "max_rssi (r # rs) =
    (case max_rssi rs of
       None \<Rightarrow> Some r
     | Some m \<Rightarrow> if sr_rssi r > sr_rssi m then Some r else Some m)"

fun merge_found :: "scan_result \<Rightarrow> (ustr \<times> u8 list \<times> u8) list \<Rightarrow> (ustr \<times> u8 list \<times> u8) list" where
  "merge_found r [] = [(sr_name r, sr_addr r, sr_addr_type r)]"
| "merge_found r (e # es) =
    (if fst (snd e) = sr_addr r then (sr_name r, sr_addr r, sr_addr_type r) # es
     else e # merge_found r es)"

definition scan_finished :: "'w phost \<Rightarrow> 'w pst \<Rightarrow> 'w pst" where
  "scan_finished h st =
    (case hq (ble_scan_results h 32) st of
       (results, st) \<Rightarrow>
         let known = filter (\<lambda>r. is_known_model (sr_name r)) results in
         if pending st \<noteq> None then
           (case max_rssi known of
              Some best \<Rightarrow>
                (case hq (ble_connect h (sr_addr best) (sr_addr_type best))
                        (hx (nvs_set_blob h NVS_PRINTER (sr_addr best @ [sr_addr_type best])) st) of
                   (True, st) \<Rightarrow> st\<lparr>drive := Connecting (now_ms st)\<rparr>
                 | (False, st) \<Rightarrow>
                     clear_queue h ((msg_error h ''connect_failed'' st)\<lparr>drive := Idle\<rparr>))
            | None \<Rightarrow> clear_queue h ((msg_error h ''no_printer'' st)\<lparr>drive := Idle\<rparr>))
         else
           let st = st\<lparr>found := foldl (\<lambda>es r. merge_found r es) (found st) known\<rparr>;
               st = st\<lparr>drive := Idle, last_scan_ms := now_ms st\<rparr>
           in if scan_menu st then render_scan_list h st else st)"

definition is_saved_printer :: "'w phost \<Rightarrow> u32 \<Rightarrow> 'w pst \<Rightarrow> bool \<times> 'w pst" where
  "is_saved_printer h c st =
    (let saved = saved_printer h (world st) in
     case hq (ble_conn_peer h c) st of
       (have, st) \<Rightarrow>
         (case (saved, have) of (Some (want, _), Some hv) \<Rightarrow> want = hv | _ \<Rightarrow> False, st))"

definition on_connected :: "'w phost \<Rightarrow> 'w pst \<Rightarrow> 'w pst" where
  "on_connected h st =
    (case hq (ble_conn_handle h) st of
       (c, st) \<Rightarrow>
         let st = st\<lparr>conn := c\<rparr> in
         if c = 0 then st
         else case hq (ble_discover h c SERVICE_UUID_LE ACT_DISCOVERED) st of
           (True, st) \<Rightarrow> st\<lparr>drive := Discovering (now_ms st)\<rparr>
         | (False, st) \<Rightarrow> fail_print h st)"

definition pick_char :: "'w pst \<Rightarrow> gatt_char \<Rightarrow> 'w pst" where
  "pick_char st c =
    (if gc_uuid c = TX_UUID_LE then st\<lparr>tx_handle := gc_value_handle c, tx_props := gc_properties c\<rparr>
     else if gc_uuid c = RX_UUID_LE then st\<lparr>rx_handle := gc_value_handle c\<rparr>
     else st)"

definition on_discovered :: "'w phost \<Rightarrow> 'w pst \<Rightarrow> 'w pst" where
  "on_discovered h st =
    (case hq (ble_consume_discovery h 8) st of
       (chars, st) \<Rightarrow>
         let st = foldl pick_char (st\<lparr>tx_handle := 0, tx_props := 0, rx_handle := 0\<rparr>) chars in
         if tx_handle st = 0 then fail_print h st
         else
           let st = (if rx_handle st \<noteq> 0
                     then hx (ble_subscribe_char h (conn st) (rx_handle st) ACT_NOTIFY) st else st);
               st = hx (ble_on_write_complete h ACT_WRITE_DONE) st
           in begin_send h st)"

section \<open>Streaming\<close>

definition on_send_complete :: "'w phost \<Rightarrow> 'w pst \<Rightarrow> 'w pst" where
  "on_send_complete h st =
    (let done = (\<lambda>st. (finish_job h STATUS_DONE
                   (ui (Push_toast (tr_key h ''printed'') UI_ICON_SUCCESS 2000) st))\<lparr>drive := Idle\<rparr>);
         aft = after st;
         st = st\<lparr>after := NothingAfter\<rparr>
     in case aft of
          NothingAfter \<Rightarrow> done st
        | NextPage \<Rightarrow>
          (case hq (compose_lines_page h (pending_lines st)) (st\<lparr>pending_lines := []\<rparr>) of
             ((Some r, lines), st) \<Rightarrow>
               begin_send h (st\<lparr>pending_lines := lines,
                 after := (if lines = [] then NothingAfter else NextPage), pending := Some r\<rparr>)
           | ((None, lines), st) \<Rightarrow> if lines \<noteq> [] then fail_print h st else done st))"

text \<open>The loop of \<open>refill_send_buffer\<close>; the outer \<open>None\<close> is a panic in \<open>job_rows\<close>.\<close>

function refill :: "sending \<Rightarrow> (bool \<times> sending) option" where
  "refill sn =
    (if off sn < length (buf sn) then Some (True, sn)
     else if next_row sn < height (s_ras sn) then
       let upto = min (next_row sn + ROWS_PER_REFILL) (height (s_ras sn)) in
       (case job_rows (bits (s_ras sn)) (stride (s_ras sn)) (next_row sn) upto (s_rle sn) of
          None \<Rightarrow> None
        | Some bs \<Rightarrow> refill (sn\<lparr>off := 0, buf := bs, next_row := upto\<rparr>))
     else if \<not> finished sn then
       refill (sn\<lparr>off := 0, buf := job_finish (s_feed_steps sn), finished := True\<rparr>)
     else Some (False, sn\<lparr>off := 0\<rparr>))"
  by pat_completeness auto
termination
  by (relation "measure (\<lambda>sn. 2 * (height (s_ras sn) - next_row sn) + (if finished sn then 0 else 1))")
     (auto simp: ROWS_PER_REFILL_def)

declare refill.simps [simp del]

definition refill_send_buffer :: "'w pst \<Rightarrow> bool \<times> 'w pst" where
  "refill_send_buffer st =
    (case drive st of
       Sending sn \<Rightarrow>
         (case refill sn of
            None \<Rightarrow> (False, trap st)
          | Some (go, sn) \<Rightarrow> (go, st\<lparr>drive := Sending sn\<rparr>))
     | _ \<Rightarrow> (False, st))"

definition is_waiting :: "u64 \<Rightarrow> sending \<Rightarrow> bool" where
  "is_waiting now sn \<longleftrightarrow> gated sn
     \<or> (case paused_since sn of None \<Rightarrow> False | Some since \<Rightarrow> sat_sub now since < PAUSE_MAX_MS)"

definition needs_response :: "u8 \<Rightarrow> sending \<Rightarrow> bool \<Rightarrow> bool" where
  "needs_response props sn last_chunk =
    (let can_no_rsp = (props AND PROP_WRITE_NO_RSP \<noteq> 0 \<or> props = 0);
         can_rsp = (props AND PROP_WRITE \<noteq> 0);
         gate_due = (since_gate sn + 1 \<ge> GATE_EVERY \<or> last_chunk)
     in \<not> can_no_rsp \<or> (can_rsp \<and> gate_due))"

text \<open>The \<open>Step::Write\<close> arm: the chunk \<open>buf[off..end]\<close> goes out and the counters advance.\<close>

definition write_step :: "'w phost \<Rightarrow> nat \<Rightarrow> u8 \<Rightarrow> sending \<Rightarrow> 'w pst \<Rightarrow> 'w pst" where
  "write_step h chunk props sn st =
    (let sn = sn\<lparr>paused_since := None\<rparr>;
         upto = min (off sn + chunk) (length (buf sn));
         last_chunk = (finished sn \<and> upto = length (buf sn));
         with_response = needs_response props sn last_chunk;
         st = st\<lparr>drive := Sending sn\<rparr>;
         data = take (upto - off sn) (drop (off sn) (buf sn))
     in case hq (ble_write_char h (conn st) (tx_handle st) data with_response) st of
          (False, st) \<Rightarrow> fail_print h st
        | (True, st) \<Rightarrow>
          let st = emit (Wrote data with_response) st;
              sn = sn\<lparr>off := upto\<rparr>
          in st\<lparr>drive := Sending (if with_response then sn\<lparr>gated := True, since_gate := 0\<rparr>
                                 else sn\<lparr>since_gate := since_gate sn + 1\<rparr>)\<rparr>)"

definition pump_send :: "'w phost \<Rightarrow> 'w pst \<Rightarrow> 'w pst" where
  "pump_send h st =
    (case chunk_size h st of
       (c, st) \<Rightarrow>
         let chunk = max c 20; props = tx_props st in
         (case drive st of
            Sending sn \<Rightarrow>
              if is_waiting (now_ms st) sn then st
              else (case refill_send_buffer st of
                 (go, st) \<Rightarrow>
                   if trapped st then st
                   else if \<not> go then on_send_complete h st
                   else (case drive st of Sending sn \<Rightarrow> write_step h chunk props sn st | _ \<Rightarrow> st))
          | _ \<Rightarrow> st))"

section \<open>Menus and flows\<close>

definition push_menu :: "'w phost \<Rightarrow> 'w pst \<Rightarrow> 'w pst" where
  "push_menu h =
     ui (Push_list (tr_meta h ''name'') ACT_TOP
       [(tr_key h ''m_print'', TOP_PRINT, UI_ICON_PLAY),
        (tr_key h ''m_printer'', TOP_PRINTER, UI_ICON_SENSOR),
        (tr_key h ''m_settings'', TOP_SETTINGS, UI_ICON_INFO)])"

definition push_print_menu :: "'w phost \<Rightarrow> 'w pst \<Rightarrow> 'w pst" where
  "push_print_menu h =
     ui (Push_list (tr_key h ''m_print'') ACT_PRINT_MENU
       [(tr_key h ''m_own'', PR_OWN, UI_ICON_INFO), (tr_key h ''m_recv'', PR_RECV, UI_ICON_INFO),
        (tr_key h ''m_qr'', PR_QR, UI_ICON_PLAY), (tr_key h ''m_file'', PR_FILE, UI_ICON_INFO)])"

definition local_ip :: "'w phost \<Rightarrow> 'w \<Rightarrow> ustr" where
  "local_ip h w = (case wifi_ip h w of Some ip \<Rightarrow> ip | None \<Rightarrow> tr_key h ''no_ip'')"

definition addr_label :: "'w phost \<Rightarrow> string \<Rightarrow> u16 \<Rightarrow> 'w \<Rightarrow> ustr" where
  "addr_label h key port w =
     tr_key h key @ lit '' '' @ local_ip h w @ lit '':'' @ show_nat (unat port)"

definition printer_menu_items :: "'w phost \<Rightarrow> 'w pst \<Rightarrow> (ustr \<times> u32 \<times> icon) list" where
  "printer_menu_items h st =
    (let server_label = (if server_on st then addr_label h ''srv_on'' (bound_port st) (world st)
                         else tr_key h ''srv_off'')
     in [(tr_key h ''m_scan'', PT_SCAN, UI_ICON_SENSOR), (server_label, PT_SERVER, UI_ICON_PLAY)])"

definition push_printer_menu :: "'w phost \<Rightarrow> 'w pst \<Rightarrow> 'w pst" where
  "push_printer_menu h st =
     ui (Push_list (tr_key h ''m_printer'') ACT_PRINTER_MENU (printer_menu_items h st)) st"

definition mode_menu :: "'w phost \<Rightarrow> u32 \<Rightarrow> 'w pst \<Rightarrow> 'w pst" where
  "mode_menu h action =
     ui (Push_menu (tr_key h ''mode'') action
       [(tr_key h ''mode_text'', MODE_TEXT, UI_ICON_INFO), (tr_key h ''mode_qr'', MODE_QR, UI_ICON_PLAY),
        (tr_key h ''mode_both'', MODE_TEXT_QR, UI_ICON_INFO)])"

definition open_recv_list :: "'w phost \<Rightarrow> 'w pst \<Rightarrow> 'w pst" where
  "open_recv_list h st =
    (let count = vcard_received_count h (world st);
         item = (\<lambda>i. (case vcard_received_display h i (world st) of
                        Some l \<Rightarrow> l | None \<Rightarrow> lit ''#'' @ show_nat i, of_nat i, UI_ICON_INFO));
         st = ui (Push_list (tr_key h ''m_recv'') ACT_VCARD_LIST (map item [0..<count])) st
     in if count = 0 then ui (Set_list_empty (tr_key h ''no_cards'')) st else st)"

definition printable_file :: "ustr \<Rightarrow> bool" where
  "printable_file f \<longleftrightarrow>
    (let lower = to_ascii_lowercase f in
     list_ex (\<lambda>e. ends_with (lit e) lower) [''.png'', ''.jpg'', ''.jpeg'', ''.txt'', ''.md''])"

definition open_file_list :: "'w phost \<Rightarrow> 'w pst \<Rightarrow> 'w pst" where
  "open_file_list h st =
    (let st = st\<lparr>files := filter printable_file (fs_list h FS_LIST_MAX (world st))\<rparr>;
         st = ui (Push_list (tr_key h ''m_file'') ACT_FILE_LIST
                (map (\<lambda>f. (f, 0, UI_ICON_INFO)) (files st))) st
     in if files st = [] then ui (Set_list_empty (tr_key h ''no_files'')) st else st)"

definition print_text :: "'w phost \<Rightarrow> ustr \<Rightarrow> 'w pst \<Rightarrow> bool \<times> 'w pst" where
  "print_text h t st =
    (if \<not> drive_idle st then (False, st)
     else
       let lines = map (\<lambda>l. \<lparr>headline = False, vtext = l\<rparr>) (str_lines t) in
       case hq (compose_lines_page h lines) st of
         ((None, _), st) \<Rightarrow> (False, st)
       | ((Some first, lines), st) \<Rightarrow>
           start_print h first (if lines = [] then NothingAfter else NextPage)
             (st\<lparr>pending_lines := lines\<rparr>))"

definition print_file :: "'w phost \<Rightarrow> ustr \<Rightarrow> 'w pst \<Rightarrow> 'w pst" where
  "print_file h name st =
    (if \<not> drive_idle st then msg_error h ''busy'' st
     else
       let lower = to_ascii_lowercase name in
       if ends_with (lit ''.txt'') lower \<or> ends_with (lit ''.md'') lower then
         (case fs_read_str h name (32 * 1024) (world st) of
            None \<Rightarrow> msg_error h ''read_failed'' st
          | Some t \<Rightarrow>
            (case print_text h t st of
               (True, st) \<Rightarrow> st
             | (False, st) \<Rightarrow> msg_error h ''read_failed'' st))
       else case fs_size h name (world st) of
         None \<Rightarrow> msg_error h ''read_failed'' st
       | Some size_ \<Rightarrow>
         if size_ > FILE_MAX then msg_error h ''read_failed'' st
         else case fs_read h name size_ (world st) of
           None \<Rightarrow> msg_error h ''read_failed'' st
         | Some data \<Rightarrow>
           (case render_image h data of
              Some r \<Rightarrow> start_print_ui h r NothingAfter st
            | None \<Rightarrow> msg_error h ''img_failed'' st))"

definition open_settings :: "'w phost \<Rightarrow> 'w pst \<Rightarrow> 'w pst" where
  "open_settings h st =
    (let font_label = (if nvs_or h NVS_FONT 0 (world st) = 1 then tr_key h ''font_compact''
                       else tr_key h ''font_normal'');
         rle_label = (if rle_enabled h (world st) then tr_key h ''rle_on'' else tr_key h ''rle_off'')
     in ui (Push_menu (tr_key h ''m_settings'') ACT_SETTINGS
          [(tr_key h ''s_energy'', SET_ENERGY, UI_ICON_INFO), (tr_key h ''s_speed'', SET_SPEED, UI_ICON_INFO),
           (tr_key h ''s_chunk'', SET_CHUNK, UI_ICON_INFO), (tr_key h ''s_feed'', SET_FEED, UI_ICON_INFO),
           (tr_key h ''s_port'', SET_PORT, UI_ICON_INFO), (font_label, SET_FONT, UI_ICON_INFO),
           (rle_label, SET_RLE, UI_ICON_INFO), (tr_key h ''s_forget'', SET_FORGET, UI_ICON_ERROR)]) st)"

section \<open>Print server\<close>

definition toggle_server :: "'w phost \<Rightarrow> 'w pst \<Rightarrow> 'w pst" where
  "toggle_server h st =
    (if server_on st then
       let st = hx (nvs_set_u32 h NVS_SERVER 0) (st\<lparr>server_on := False\<rparr>);
           st = (hx (net_close h 0) st)\<lparr>bound_port := 0\<rparr>;
           st = hx (set_resident h False) st
       in ui (Push_toast (tr_key h ''srv_stopped'') UI_ICON_INFO 2000) st
     else
       let st = hx (wifi_request h) (hx (nvs_set_u32 h NVS_SERVER 1) st);
           port = print_port h (world st)
       in case hq (net_listen h port ACT_NET) st of
            (True, st) \<Rightarrow>
              let st = hx (set_resident h True) (st\<lparr>server_on := True, bound_port := port\<rparr>)
              in ui (Push_message (addr_label h ''srv_started'' port (world st)) UI_ICON_SUCCESS 3000) st
          | (False, st) \<Rightarrow> msg_error h ''srv_failed'' st)"

definition apply_port :: "'w phost \<Rightarrow> u16 \<Rightarrow> 'w pst \<Rightarrow> 'w pst" where
  "apply_port h port st =
    (if \<not> server_on st then st
     else case hq (net_listen h port ACT_NET) (hx (net_close h 0) st) of
       (True, st) \<Rightarrow>
         let st = st\<lparr>bound_port := port\<rparr>
         in ui (Push_message (addr_label h ''srv_started'' port (world st)) UI_ICON_SUCCESS 3000) st
     | (False, st) \<Rightarrow>
         msg_error h ''srv_failed'' (hx (set_resident h False) (st\<lparr>server_on := False, bound_port := 0\<rparr>)))"

definition ras_of_job :: "raster_job \<Rightarrow> ras" where
  "ras_of_job j = \<lparr>bits = rows j, stride = unat (stride_bytes j), height = unat (height_px j)\<rparr>"

definition handle_job_frame :: "'w phost \<Rightarrow> u8 list \<Rightarrow> 'w pst \<Rightarrow> bool \<times> 'w pst" where
  "handle_job_frame h frm st =
    (case wire_parse frm of
       None \<Rightarrow> (False, st)
     | Some job \<Rightarrow>
       if kind job = TYPE_TEXT then
         print_text h (case utf8_decode (payload job) of Some t \<Rightarrow> t | None \<Rightarrow> []) st
       else if kind job = TYPE_IMAGE then
         (case render_image h (payload job) of
            Some r \<Rightarrow> start_print h r NothingAfter st
          | None \<Rightarrow> (False, st))
       else if kind job = TYPE_RASTER then
         (case raster_parse (payload job) of
            Some j \<Rightarrow> start_print h (ras_of_job j) NothingAfter st
          | None \<Rightarrow> (False, st))
       else (False, st))"

definition compose_and_offer_qr :: "'w phost \<Rightarrow> ustr \<Rightarrow> 'w pst \<Rightarrow> 'w pst" where
  "compose_and_offer_qr h data st =
    (case hq (compose_qr_surface h data True) st of
       (Some (r, jpg), st) \<Rightarrow> offer_output h r jpg st
     | (None, st) \<Rightarrow> msg_error h ''qr_failed'' st)"

text \<open>
  The receive loop of \<open>serve_net_job\<close>: bytes so far and the frame size once the header is in.
  It ends with the received bytes, with the early \<open>ERR\<close> (header refused), or with the panic
  of slicing past the 2048-byte read buffer.
\<close>

datatype receive = Received "u8 list" | Refused | Panicked

definition want_frame :: "u8 list \<Rightarrow> nat option \<Rightarrow> (u8 list \<times> nat option) option" where
  "want_frame bs want =
    (if want = None \<and> length bs \<ge> PJ_HEADER_LEN then
       let magic = from_le16 (bs ! 0) (bs ! 1);
           len = unat (from_le32 (bs ! 4) (bs ! 5) (bs ! 6) (bs ! 7))
       in if magic \<noteq> PJ_MAGIC \<or> len > MAX_JOB - PJ_HEADER_LEN then None
          else let total = PJ_HEADER_LEN + len in Some (take total bs, Some total)
     else Some (bs, want))"

text \<open>Bytes the loop may still accept; it shrinks with every read.\<close>

definition receive_room :: "u8 list \<Rightarrow> nat option \<Rightarrow> nat" where
  "receive_room bs want = (case want of None \<Rightarrow> MAX_JOB + 8 - length bs | Some w \<Rightarrow> w - length bs)"

definition frame_complete :: "u8 list \<Rightarrow> nat option \<Rightarrow> bool" where
  "frame_complete bs want = (case want of Some w \<Rightarrow> length bs \<ge> w | None \<Rightarrow> False)"

lemma want_frame_room:
  assumes "want_frame (bs @ chunk) want = Some (bs', want')" and "chunk \<noteq> []"
    and "\<not> frame_complete bs' want'"
  shows "receive_room bs' want' < receive_room bs want"
proof -
  obtain n where "length chunk = Suc n" using assms(2) by (cases chunk) auto
  then show ?thesis
    using assms
    by (cases want)
       (auto simp: want_frame_def receive_room_def frame_complete_def PJ_HEADER_LEN_def MAX_JOB_def
         FILE_MAX_def Let_def split: if_splits option.splits)
qed

function receive_job ::
  "'w phost \<Rightarrow> u32 \<Rightarrow> u64 \<Rightarrow> u8 list \<Rightarrow> nat option \<Rightarrow> 'w \<Rightarrow> receive \<times> 'w" where
  "receive_job h stream deadline bs want w =
    (case uptime_ms h w of
       (now, w) \<Rightarrow>
         if now \<ge> deadline then (Received bs, w)
         else case tcp_read h stream 2048 NET_READ_TIMEOUT_MS w of
           (None, w) \<Rightarrow> (Received bs, w)
         | (Some chunk, w) \<Rightarrow>
           if chunk = [] then (Received bs, w)
           else if length chunk > 2048 then (Panicked, w)
           else case want_frame (bs @ chunk) want of
             None \<Rightarrow> (Refused, w)
           | Some (bs, want) \<Rightarrow>
             if frame_complete bs want then (Received bs, w)
             else receive_job h stream deadline bs want w)"
  by pat_completeness auto
termination
  by (relation "measure (\<lambda>(h, stream, deadline, bs, want, w). receive_room bs want)")
     (auto dest: want_frame_room)

declare receive_job.simps [simp del]

definition reply :: "'w phost \<Rightarrow> u32 \<Rightarrow> string \<Rightarrow> 'w pst \<Rightarrow> 'w pst" where
  "reply h stream msg st =
    (let bs = utf8_encode (lit msg @ [10])
     in emit (Reply bs) (hx (tcp_write h stream bs 2000) st))"

definition serve_net_job :: "'w phost \<Rightarrow> u32 \<Rightarrow> 'w pst \<Rightarrow> 'w pst" where
  "serve_net_job h stream st =
    (case hq (uptime_ms h) st of
       (now, st) \<Rightarrow>
         (case hq (receive_job h stream (now + NET_CONN_DEADLINE_MS) [] None) st of
            (Refused, st) \<Rightarrow> reply h stream ''ERR'' st
          | (Panicked, st) \<Rightarrow> trap st
          | (Received bs, st) \<Rightarrow>
              (case handle_job_frame h bs st of
                 (ok, st) \<Rightarrow> reply h stream (if ok then ''OK'' else ''ERR'') st)))"

definition restore_server :: "'w phost \<Rightarrow> 'w pst \<Rightarrow> 'w pst" where
  "restore_server h st =
    (if nvs_or h NVS_SERVER 0 (world st) \<noteq> 1 then st
     else
       let st = hx (wifi_request h) st;
           port = print_port h (world st)
       in case hq (net_listen h port ACT_NET) st of
            (True, st) \<Rightarrow> hx (set_resident h True) (st\<lparr>server_on := True, bound_port := port\<rparr>)
          | (False, st) \<Rightarrow> st)"

section \<open>Lifecycle\<close>

definition plugin_init :: "'w phost \<Rightarrow> 'w pst \<Rightarrow> 'w pst" where
  "plugin_init h st =
     restore_server h (hx (msg_register h ''image/jpeg'' ACT_MSG_JPEG)
       (hx (feature_register h ''thermo_print'' ACT_JOB) st))"

definition plugin_on_cmd :: "'w phost \<Rightarrow> 'w pst \<Rightarrow> 'w pst" where
  "plugin_on_cmd h st =
    (case hq (cmd_consume h CMD_LINE_MAX) st of
       (None, st) \<Rightarrow> st
     | (Some cmd, st) \<Rightarrow>
       let cmd = trim cmd in
       (case strip_prefix (lit ''text '') cmd of
          Some rest \<Rightarrow> snd (print_text h rest st)
        | None \<Rightarrow>
          (case strip_prefix (lit ''file '') cmd of
             Some name \<Rightarrow> print_file h (trim name) st
           | None \<Rightarrow> if cmd \<noteq> [] then snd (print_text h cmd st) else st)))"

definition plugin_on_enter :: "'w phost \<Rightarrow> 'w pst \<Rightarrow> 'w pst" where
  "plugin_on_enter h st = push_menu h st"

definition plugin_on_exit :: "'w phost \<Rightarrow> 'w pst \<Rightarrow> 'w pst" where
  "plugin_on_exit h st =
    (let st = st\<lparr>scan_menu := False\<rparr> in
     case drive st of
       Sending _ \<Rightarrow> st
     | _ \<Rightarrow> clear_queue h ((reset_link h st)\<lparr>drive := Idle\<rparr>))"

definition plugin_on_tick :: "'w phost \<Rightarrow> u64 \<Rightarrow> 'w pst \<Rightarrow> 'w pst" where
  "plugin_on_tick h up st =
    (let st = st\<lparr>now_ms := up\<rparr> in
     case drive st of
       Idle \<Rightarrow>
         if scan_menu st \<and> sat_sub up (last_scan_ms st) \<ge> RESCAN_INTERVAL_MS then
           (case hq (ble_scan_start h SCAN_MS) st of
              (ok, st) \<Rightarrow> if ok then st\<lparr>drive := Scanning\<rparr> else st)
         else st
     | Scanning \<Rightarrow>
         if sat_sub up (last_poll_ms st) \<ge> POLL_INTERVAL_MS then
           (case hq (ble_scan_done h) (st\<lparr>last_poll_ms := up\<rparr>) of
              (fin, st) \<Rightarrow> if fin then scan_finished h st else st)
         else st
     | Connecting since \<Rightarrow>
         (case hq (ble_conn_handle h) st of
            (c, st) \<Rightarrow>
              (case (if c \<noteq> 0 then is_saved_printer h c st else (False, st)) of
                 (True, st) \<Rightarrow> on_connected h st
               | (False, st) \<Rightarrow>
                   if sat_sub up since > CONNECT_TIMEOUT_MS then fail_print h st else st))
     | Discovering since \<Rightarrow>
         if sat_sub up since > DISCOVER_TIMEOUT_MS then fail_print h st else st
     | Sending _ \<Rightarrow> pump_send h st)"

section \<open>Actions\<close>

text \<open>The panic of \<open>compose_vcard\<close> ends the handler; otherwise the raster is printed or the error shown.\<close>

definition print_vcard :: "'w phost \<Rightarrow> ustr \<Rightarrow> u32 \<Rightarrow> 'w pst \<Rightarrow> 'w pst" where
  "print_vcard h raw mode st =
    (case hq (compose_vcard h raw mode) st of
       (None, st) \<Rightarrow> trap st
     | (Some (Some r), st) \<Rightarrow> start_print_ui h r NothingAfter st
     | (Some None, st) \<Rightarrow> msg_error h ''compose_failed'' st)"

definition act_print_menu :: "'w phost \<Rightarrow> u32 \<Rightarrow> 'w pst \<Rightarrow> 'w pst" where
  "act_print_menu h ud st =
    (if ud = PR_OWN then
       (case vcard_own h (world st) of
          Some _ \<Rightarrow> mode_menu h ACT_MODE_OWN st
        | None \<Rightarrow> msg_error h ''no_own'' st)
     else if ud = PR_RECV then open_recv_list h st
     else if ud = PR_QR then ui (Push_t9 (tr_key h ''qr_input'') None 128 ACT_T9_QR) st
     else if ud = PR_FILE then open_file_list h st
     else st)"

definition act_printer_menu :: "'w phost \<Rightarrow> u32 \<Rightarrow> 'w pst \<Rightarrow> 'w pst" where
  "act_printer_menu h ud st =
    (let st = st\<lparr>scan_menu := False\<rparr> in
     if ud = PT_SCAN then
       (if drive_idle st then start_scan h False st else msg_error h ''busy'' st)
     else if ud = PT_SERVER then
       (let st = toggle_server h st
        in ui (Replace_list (tr_key h ''m_printer'') ACT_PRINTER_MENU (printer_menu_items h st)) st)
     else st)"

definition act_top :: "'w phost \<Rightarrow> u32 \<Rightarrow> 'w pst \<Rightarrow> 'w pst" where
  "act_top h ud st =
    (let st = st\<lparr>scan_menu := False\<rparr> in
     if ud = TOP_PRINT then push_print_menu h st
     else if ud = TOP_PRINTER then push_printer_menu h st
     else if ud = TOP_SETTINGS then open_settings h st
     else st)"

definition act_msg_jpeg :: "'w phost \<Rightarrow> 'w pst \<Rightarrow> 'w pst" where
  "act_msg_jpeg h st =
    (case hq (msg_consume h MSG_PAYLOAD_MAX) st of
       (None, st) \<Rightarrow> st
     | (Some data, st) \<Rightarrow>
       (case render_image h data of
          Some r \<Rightarrow> start_print_ui h r NothingAfter st
        | None \<Rightarrow> msg_error h ''img_failed'' st))"

definition act_t9_qr :: "'w phost \<Rightarrow> 'w pst \<Rightarrow> 'w pst" where
  "act_t9_qr h st =
    (case hq (ui_consume_input_text h 128) st of
       (None, st) \<Rightarrow> st
     | (Some t, st) \<Rightarrow>
       let p = (case normalize t of Url u \<Rightarrow> u | Text t \<Rightarrow> t)
       in if p \<noteq> [] then compose_and_offer_qr h p st else st)"

definition act_scan_list :: "'w phost \<Rightarrow> u32 \<Rightarrow> 'w pst \<Rightarrow> 'w pst" where
  "act_scan_list h idx st =
    (let st = st\<lparr>scan_menu := False\<rparr> in
     if unat idx < length (found st) then
       (case found st ! unat idx of
          (_, addr, addr_type) \<Rightarrow>
            ui (Push_toast (tr_key h ''saved_printer'') UI_ICON_SUCCESS 2000)
              (ui Pop_view (hx (nvs_set_blob h NVS_PRINTER (addr @ [addr_type])) st)))
     else st)"

definition act_settings :: "'w phost \<Rightarrow> u32 \<Rightarrow> 'w pst \<Rightarrow> 'w pst" where
  "act_settings h ud st =
    (let w = world st in
     if ud = SET_ENERGY then
       ui (Push_slider (tr_key h ''s_energy'') (uint MIN_ENERGY) (uint MAX_ENERGY) (uint (energy h w)) 2000
         [] ACT_SLIDER_ENERGY) st
     else if ud = SET_SPEED then
       ui (Push_slider (tr_key h ''s_speed'') (uint MIN_SPEED) (uint MAX_SPEED) (uint (speed h w)) 4
         [] ACT_SLIDER_SPEED) st
     else if ud = SET_CHUNK then
       ui (Push_slider (tr_key h ''s_chunk'') 20 244 (sint (nvs_or h NVS_CHUNK DEFAULT_CHUNK w)) 10
         (lit ''B'') ACT_SLIDER_CHUNK) st
     else if ud = SET_FEED then
       ui (Push_slider (tr_key h ''s_feed'') 0 400 (uint (feed_steps h w)) 16 [] ACT_SLIDER_FEED) st
     else if ud = SET_PORT then
       ui (Push_t9 (tr_key h ''s_port'') (Some (show_nat (unat (print_port h w)))) 5 ACT_PORT_INPUT) st
     else if ud = SET_FONT then
       (let next = (if nvs_or h NVS_FONT 0 w = 1 then 0 else 1);
            st = hx (nvs_set_u32 h NVS_FONT next) st;
            st = ui (Push_toast (tr_key h ''font_saved'') UI_ICON_SUCCESS 1500) st
        in open_settings h st)
     else if ud = SET_RLE then
       open_settings h (hx (nvs_set_u32 h NVS_RLE (if rle_enabled h w then 0 else 1)) st)
     else if ud = SET_FORGET then
       ui (Push_toast (tr_key h ''forgot_printer'') UI_ICON_SUCCESS 2000) (hx (nvs_erase h NVS_PRINTER) st)
     else st)"

definition act_port_input :: "'w phost \<Rightarrow> 'w pst \<Rightarrow> 'w pst" where
  "act_port_input h st =
    (case hq (ui_consume_input_text h 8) st of
       (None, st) \<Rightarrow> st
     | (Some t, st) \<Rightarrow>
       (case parse_u32 (trim t) of
          Some p \<Rightarrow>
            if 1024 \<le> p \<and> p \<le> 65535
            then apply_port h (of_nat p) (hx (nvs_set_u32 h NVS_PORT (of_nat p)) st)
            else msg_error h ''bad_port'' st
        | None \<Rightarrow> msg_error h ''bad_port'' st))"

definition act_slider :: "'w phost \<Rightarrow> u32 \<Rightarrow> 'w pst \<Rightarrow> 'w pst" where
  "act_slider h action st =
    (case hq (ui_consume_input_int h) st of
       (None, st) \<Rightarrow> st
     | (Some v, st) \<Rightarrow>
       let key = (if action = ACT_SLIDER_ENERGY then NVS_ENERGY
                  else if action = ACT_SLIDER_SPEED then NVS_SPEED
                  else if action = ACT_SLIDER_CHUNK then NVS_CHUNK else NVS_FEED)
       in hx (nvs_set_u32 h key (of_int v)) st)"

definition act_output :: "'w phost \<Rightarrow> u32 \<Rightarrow> 'w pst \<Rightarrow> 'w pst" where
  "act_output h ud st =
    (let r = composed st; jpg = composed_jpg st;
         st = st\<lparr>composed := None, composed_jpg := None\<rparr>
     in if ud = OUT_PRINT then
          (case r of Some r \<Rightarrow> start_print_ui h r NothingAfter st | None \<Rightarrow> st)
        else if ud = OUT_SAVE_JPG then
          (case jpg of
             None \<Rightarrow> st
           | Some j \<Rightarrow>
             let name = lit ''print_'' @ show_nat (unat (now_ms st) div 1000) @ lit ''.jpg'' in
             (case hq (fs_write h name j) st of
                (True, st) \<Rightarrow>
                  ui (Push_toast (tr_key h ''saved'' @ lit '' '' @ name) UI_ICON_SUCCESS 2500) st
              | (False, st) \<Rightarrow> msg_error h ''save_failed'' st))
        else if ud = OUT_SEND_JPG then
          (case jpg of Some j \<Rightarrow> hx (msg_send_interactive h ''image/jpeg'' j) st | None \<Rightarrow> st)
        else st)"

definition act_job :: "'w phost \<Rightarrow> 'w pst \<Rightarrow> 'w pst" where
  "act_job h st =
    (case hq (feature_consume_job h FEATURE_PAYLOAD_MAX) st of
       (None, st) \<Rightarrow> st
     | (Some data, st) \<Rightarrow>
       let st = emit Took_job st in
       if \<not> drive_idle st then
         emit (Report STATUS_ERROR) (hx (feature_report_result h STATUS_ERROR) st)
       else
         let st = st\<lparr>job_active := True\<rparr> in
         (case (case raster_parse data of
                  Some j \<Rightarrow> start_print h (ras_of_job j) NothingAfter st
                | None \<Rightarrow>
                  (case parse_text data of
                     Some t \<Rightarrow> print_text h t st
                   | None \<Rightarrow> (False, st))) of
            (started, st) \<Rightarrow> if started then st else finish_job h STATUS_ERROR st))"

text \<open>The notification loop; the result is the number of notifications taken off the queue.\<close>

definition on_status :: "u64 \<Rightarrow> status \<Rightarrow> 'w pst \<Rightarrow> 'w pst" where
  "on_status now stat st =
    (case drive st of
       Sending sn \<Rightarrow>
         st\<lparr>drive := Sending (sn\<lparr>paused_since := (case stat of BufferFull \<Rightarrow> Some now | Ready \<Rightarrow> None)\<rparr>)\<rparr>
     | _ \<Rightarrow> st)"

fun notify_loop :: "u64 \<Rightarrow> u8 list list \<Rightarrow> nat \<Rightarrow> 'w pst \<Rightarrow> nat \<times> 'w pst" where
  "notify_loop now [] k st = (k, st)"
| "notify_loop now (n # ns) k st =
    (if n = [] then (k + 1, st)
     else if length n > 64 then (k + 1, trap st)
     else notify_loop now ns (k + 1)
       (case parse_status n of Some stat \<Rightarrow> on_status now stat st | None \<Rightarrow> st))"

definition act_notify :: "'w phost \<Rightarrow> 'w pst \<Rightarrow> 'w pst" where
  "act_notify h st =
    (case notify_loop (now_ms st) (ble_notifications h (world st)) 0 st of
       (k, st) \<Rightarrow> hx (ble_take_notifications h k) st)"

definition act_write_done :: "'w phost \<Rightarrow> u32 \<Rightarrow> u32 \<Rightarrow> 'w pst \<Rightarrow> 'w pst" where
  "act_write_done h idx ud st =
    (if (ucast idx :: u16) \<noteq> tx_handle st then st
     else case drive st of
       Sending sn \<Rightarrow>
         if ud \<noteq> 0 then fail_print h st else st\<lparr>drive := Sending (sn\<lparr>gated := False\<rparr>)\<rparr>
     | _ \<Rightarrow> st)"

definition plugin_on_action :: "'w phost \<Rightarrow> u32 \<Rightarrow> u32 \<Rightarrow> u32 \<Rightarrow> 'w pst \<Rightarrow> 'w pst" where
  "plugin_on_action h action idx ud st =
    (if action = ACT_TOP then act_top h ud st
     else if action = ACT_PRINT_MENU then act_print_menu h ud st
     else if action = ACT_PRINTER_MENU then act_printer_menu h ud st
     else if action = ACT_NET then
       (case hq (net_accept h) st of
          (Some stream, st) \<Rightarrow>
            let st = serve_net_job h stream st
            in if trapped st then st else hx (socket_close h stream) st
        | (None, st) \<Rightarrow> st)
     else if action = ACT_MSG_JPEG then act_msg_jpeg h st
     else if action = ACT_T9_QR \<and> ud = 1 then act_t9_qr h st
     else if action = ACT_VCARD_LIST then mode_menu h ACT_MODE_RECV (st\<lparr>picked_vcard := ucast idx\<rparr>)
     else if action = ACT_MODE_OWN then
       (case vcard_own h (world st) of Some raw \<Rightarrow> print_vcard h raw ud st | None \<Rightarrow> st)
     else if action = ACT_MODE_RECV then
       (case vcard_received h (picked_vcard st) (world st) of
          Some raw \<Rightarrow> print_vcard h raw ud st | None \<Rightarrow> st)
     else if action = ACT_FILE_LIST then
       (if unat idx < length (files st) then print_file h (files st ! unat idx) st else st)
     else if action = ACT_SCAN_LIST then act_scan_list h idx st
     else if action = ACT_SCAN_HIDE then st\<lparr>scan_menu := False\<rparr>
     else if action = ACT_SCAN_SHOW then st\<lparr>scan_menu := True, last_scan_ms := 0\<rparr>
     else if action = ACT_SETTINGS then act_settings h ud st
     else if action = ACT_PORT_INPUT \<and> ud = 1 then act_port_input h st
     else if action \<in> {ACT_SLIDER_ENERGY, ACT_SLIDER_SPEED, ACT_SLIDER_CHUNK, ACT_SLIDER_FEED} \<and> ud = 1
       then act_slider h action st
     else if action = ACT_OUTPUT_MENU then act_output h ud st
     else if action = ACT_JOB then act_job h st
     else if action = ACT_DISCOVERED then on_discovered h st
     else if action = ACT_NOTIFY then act_notify h st
     else if action = ACT_WRITE_DONE then act_write_done h idx ud st
     else st)"

lemma dispatch [simp]:
  "plugin_on_action h ACT_JOB i u st = act_job h st"
  "plugin_on_action h ACT_DISCOVERED i u st = on_discovered h st"
  "plugin_on_action h ACT_NOTIFY i u st = act_notify h st"
  "plugin_on_action h ACT_WRITE_DONE i u st = act_write_done h i u st"
  "plugin_on_action h ACT_OUTPUT_MENU i u st = act_output h u st"
  "plugin_on_action h ACT_PRINTER_MENU i u st = act_printer_menu h u st"
  by (simp_all add: plugin_on_action_def act_defs)

section \<open>Runs\<close>

text \<open>One call of an export by the firmware, and the states such calls can reach.\<close>

datatype entry = Init | Enter | Exit | Cmd | Tick u64 | Act u32 u32 u32

fun call :: "'w phost \<Rightarrow> entry \<Rightarrow> 'w pst \<Rightarrow> 'w pst" where
  "call h Init st = plugin_init h st"
| "call h Enter st = plugin_on_enter h st"
| "call h Exit st = plugin_on_exit h st"
| "call h Cmd st = plugin_on_cmd h st"
| "call h (Tick t) st = plugin_on_tick h t st"
| "call h (Act a i u) st = plugin_on_action h a i u st"

text \<open>Between calls the world may change in any way; nothing runs after a panic.\<close>

inductive step :: "'w phost \<Rightarrow> 'w pst \<Rightarrow> entry \<Rightarrow> 'w pst \<Rightarrow> bool" for h where
  step: "\<not> trapped st \<Longrightarrow> step h st e (call h e (st\<lparr>world := w\<rparr>))"

inductive_cases stepE: "step h st e st'"
inductive_simps step_simps: "step h st e st'"

end
