(* ===== verification/Cat_Printer.thy ===== *)
theory Cat_Printer
  imports Cat_Proto
begin

text \<open>
  The printer's side of the protocol as a specification, and the proofs that the encoders
  of \<open>Cat_Proto\<close> meet it.
\<close>

section \<open>What a printer does with the bytes\<close>

text \<open>Splitting a byte stream into frames, rejecting a bad length, checksum or end mark.\<close>

function decode_frames :: "u8 list \<Rightarrow> (u8 \<times> u8 list) list option" where
  "decode_frames bs =
    (if bs = [] then Some []
     else
       let n = unat (bs ! 4) + 256 * unat (bs ! 5); r = drop 6 bs in
       if 8 \<le> length bs \<and> bs ! 0 = 0x51 \<and> bs ! 1 = 0x78 \<and> n + 2 \<le> length r
          \<and> r ! n = crc8 (take n r) \<and> r ! (n + 1) = 0xFF
       then map_option ((#) (bs ! 2, take n r)) (decode_frames (drop (n + 2) r))
       else None)"
  by pat_completeness auto
termination
  by (relation "measure length") (auto simp: Let_def)

declare decode_frames.simps [simp del]

lemma decode_frames_Nil [simp]: "decode_frames [] = Some []"
  by (simp add: decode_frames.simps)

definition lsb_pixels :: "u8 \<Rightarrow> bool list" where
  "lsb_pixels b = map (bit b) [0..<8]"

definition msb_pixels :: "u8 \<Rightarrow> bool list" where
  "msb_pixels b = map (\<lambda>i. bit b (7 - i)) [0..<8]"

text \<open>The pixels of a badge raster row, leftmost first; \<open>True\<close> is black.\<close>

definition row_pixels :: "u8 list \<Rightarrow> bool list" where
  "row_pixels row = concat (map msb_pixels row)"

definition rle_decode :: "u8 list \<Rightarrow> bool list" where
  "rle_decode runs = concat (map (\<lambda>r. replicate (unat (r AND 0x7F)) (bit r 7)) runs)"

text \<open>The pixel row a frame prints, if it is a row frame.\<close>

definition printed_row :: "u8 \<times> u8 list \<Rightarrow> bool list option" where
  "printed_row f =
    (case f of (cmd, p) \<Rightarrow>
       if cmd = CMD_DRAW_BITMAP then Some (concat (map lsb_pixels p))
       else if cmd = CMD_DRAW_BITMAP_RLE then Some (rle_decode p)
       else None)"

text \<open>A raster row as it should appear: cut to the print width, padded with white.\<close>

definition pad_row :: "u8 list \<Rightarrow> bool list" where
  "pad_row row = (let ps = row_pixels (take ROW_BYTES row) in ps @ replicate (8 * ROW_BYTES - length ps) False)"

section \<open>Frames\<close>

lemma length_frame [simp]: "length (frame c p) = length p + 8"
  by (simp add: frame_def)

lemma unat_len_bytes:
  "n < 65536 \<Longrightarrow> unat (of_nat (n mod 256) :: u8) + 256 * unat (of_nat (n div 256) :: u8) = n"
  by (simp add: unat_of_nat_u8)

lemma decode_frame:
  assumes "length p < 65536"
  shows "decode_frames (frame c p @ bs) = map_option ((#) (c, p)) (decode_frames bs)"
  using unat_len_bytes [OF assms] by (subst decode_frames.simps) (simp add: frame_def nth_append Let_def)

lemma decode_frames_concat [codec_simps]:
  "(\<forall>(c, p) \<in> set fs. length p < 65536) \<Longrightarrow>
     decode_frames (concat (map (\<lambda>(c, p). frame c p) fs)) = Some fs"
proof (induction fs)
  case (Cons f fs)
  obtain c p where f: "f = (c, p)" by (cases f)
  with Cons show ?case by (simp add: decode_frame)
qed simp

section \<open>The checksum\<close>

lemma bit_u8_0x80: "bit (0x80 :: u8) n \<longleftrightarrow> n = 7"
proof -
  have "(0x80 :: u8) = 2 ^ 7" by simp
  then have "bit (0x80 :: u8) n \<longleftrightarrow> bit ((2 :: u8) ^ 7) n" by (rule arg_cong)
  then show ?thesis unfolding bit_exp_iff by auto
qed

lemma bit_u8_7: "bit (0x07 :: u8) n \<longleftrightarrow> n < 3"
proof -
  have "(0x07 :: u8) = mask 3" by (simp add: mask_eq_exp_minus_1)
  then have "bit (0x07 :: u8) n \<longleftrightarrow> bit (mask 3 :: u8) n" by (rule arg_cong)
  then show ?thesis unfolding bit_mask_iff by auto
qed

lemma and_0x80: "(b :: u8) AND 0x80 \<noteq> 0 \<longleftrightarrow> bit b 7"
proof
  assume "b AND 0x80 \<noteq> 0"
  then obtain n where "bit (b AND 0x80) n" by (auto simp: bit_eq_iff)
  then have "bit b n \<and> n = 7" unfolding bit_and_iff bit_u8_0x80 .
  then show "bit b 7" by metis
next
  assume "bit b 7"
  then have "bit (b AND 0x80) 7" unfolding bit_and_iff bit_u8_0x80 by simp
  then show "b AND 0x80 \<noteq> 0" by auto
qed

lemma bit_crc8_bit:
  "bit (crc8_bit x) n \<longleftrightarrow> n < 8 \<and> (0 < n \<and> bit x (n - 1)) \<noteq> (bit x 7 \<and> n < 3)"
proof -
  have p: "bit (push_bit 1 x) n \<longleftrightarrow> n < 8 \<and> 0 < n \<and> bit x (n - 1)"
    unfolding bit_push_bit_iff by auto
  show ?thesis
    unfolding crc8_bit_def and_0x80
    by (simp only: if_distrib [of "\<lambda>w. bit w n"] bit_xor_iff bit_u8_7 p) auto
qed

lemma u8_eqI: "(\<forall>n<8. bit a n = bit b n) \<Longrightarrow> a = (b :: u8)"
  by (rule bit_word_eqI) simp

lemma inj_crc8_bit: "inj crc8_bit"
proof (rule injI)
  fix x y assume "crc8_bit x = crc8_bit y"
  then have e: "bit (crc8_bit x) n \<longleftrightarrow> bit (crc8_bit y) n" for n by simp
  have top: "bit x 7 = bit y 7" using e [of 0] by (simp add: bit_crc8_bit)
  have "bit x n = bit y n" if "n < 7" for n
    using e [of "Suc n"] that top by (auto simp: bit_crc8_bit)
  then show "x = y"
  proof (intro u8_eqI allI impI)
    fix n :: nat
    assume "n < 8" and low: "\<And>n. n < 7 \<Longrightarrow> bit x n = bit y n"
    then consider "n < 7" | "n = 7" by linarith
    then show "bit x n = bit y n" using low top by cases auto
  qed
qed

lemma crc8_byte_inj: "crc8_byte c a = crc8_byte d b \<longleftrightarrow> c XOR a = d XOR b"
  unfolding crc8_byte_def by (metis inj_crc8_bit inj_eq inj_fn)

lemma xor_cancel_u8: "c XOR a = d XOR a \<longleftrightarrow> c = (d :: u8)" "a XOR c = a XOR d \<longleftrightarrow> c = d"
  by (metis xor.assoc xor.commute xor.left_neutral xor_self_eq)+

lemma foldl_crc8_inj: "foldl crc8_byte c q = foldl crc8_byte d q \<longleftrightarrow> c = d"
  by (induction q arbitrary: c d) (auto simp: crc8_byte_inj xor_cancel_u8)

lemma crc8_single_byte: "crc8 (p @ a # q) = crc8 (p @ b # q) \<longleftrightarrow> a = b"
  by (simp add: crc8_def foldl_crc8_inj crc8_byte_inj xor_cancel_u8)

section \<open>Bit order\<close>

lemma bit_push_u8: "bit (push_bit k (x :: u8)) n \<longleftrightarrow> k \<le> n \<and> n < 8 \<and> bit x (n - k)"
  unfolding bit_push_bit_iff by auto

lemma bit_drop_u8: "bit (drop_bit k (x :: u8)) n \<longleftrightarrow> bit x (k + n)"
  by (simp add: bit_drop_bit_eq)

lemma less_8_cases:
  "(n :: nat) < 8 \<Longrightarrow> P 0 \<Longrightarrow> P 1 \<Longrightarrow> P 2 \<Longrightarrow> P 3 \<Longrightarrow> P 4 \<Longrightarrow> P 5 \<Longrightarrow> P 6 \<Longrightarrow> P 7 \<Longrightarrow> P n"
proof -
  assume P: "P 0" "P 1" "P 2" "P 3" "P 4" "P 5" "P 6" "P 7" and "n < 8"
  then have "n \<in> {0, 1, 2, 3, 4, 5, 6, 7}" by auto
  with P show "P n" by auto
qed

lemma bit_reverse_bits: "n < 8 \<Longrightarrow> bit (reverse_bits b) n = bit b (7 - n)"
proof -
  define r where "r x s m w = drop_bit s (x AND m) OR push_bit s (x AND (w :: u8))" for x :: u8 and s m w
  have r: "bit (r x s m w) n \<longleftrightarrow> bit x (s + n) \<and> bit m (s + n) \<or> s \<le> n \<and> n < 8 \<and> bit x (n - s) \<and> bit w (n - s)"
    for x s m w n
    by (simp only: r_def bit_or_iff bit_and_iff bit_push_u8 bit_drop_u8)
  have e: "reverse_bits b = r (r (r b 4 0xF0 0x0F) 2 0xCC 0x33) 1 0xAA 0x55"
    by (simp only: reverse_bits_def Let_def r_def)
  show "n < 8 \<Longrightarrow> bit (reverse_bits b) n = bit b (7 - n)"
    unfolding e by (erule less_8_cases) (simp_all add: r)
qed

lemma reverse_bits_involutive: "reverse_bits (reverse_bits b) = b"
  by (rule u8_eqI) (auto simp: bit_reverse_bits)

lemma lsb_reverse_bits: "lsb_pixels (reverse_bits b) = msb_pixels b"
  by (simp add: lsb_pixels_def msb_pixels_def bit_reverse_bits)

lemma lsb_zero: "lsb_pixels 0 = replicate 8 False"
  by (rule nth_equalityI) (auto simp: lsb_pixels_def)

lemma concat_replicate_lsb: "concat (replicate n (lsb_pixels 0)) = replicate (8 * n) False"
  by (induction n) (auto simp: lsb_zero replicate_add)

lemma length_msb_pixels [simp]: "length (msb_pixels b) = 8" "length (lsb_pixels b) = 8"
  by (simp_all add: msb_pixels_def lsb_pixels_def)

lemma length_row_pixels [simp]: "length (row_pixels row) = 8 * length row"
  by (induction row) (simp_all add: row_pixels_def)

lemma length_pad_row [simp]: "length (pad_row row) = 384"
  by (simp add: pad_row_def Let_def ROW_BYTES_def)

definition plain_payload :: "u8 list \<Rightarrow> u8 list" where
  "plain_payload row =
     map reverse_bits (take ROW_BYTES row) @ replicate (ROW_BYTES - length (take ROW_BYTES row)) 0"

lemma frame_row_plain: "frame_row_plain row = frame CMD_DRAW_BITMAP (plain_payload row)"
  by (simp add: frame_row_plain_def plain_payload_def Let_def)

lemma length_plain_payload [simp]: "length (plain_payload row) = ROW_BYTES"
  by (simp add: plain_payload_def)

lemma printed_plain: "printed_row (CMD_DRAW_BITMAP, plain_payload row) = Some (pad_row row)"
proof -
  have "concat (map lsb_pixels (map reverse_bits xs)) = row_pixels xs" for xs
    by (simp add: row_pixels_def lsb_reverse_bits comp_def)
  then show ?thesis
    by (simp add: printed_row_def plain_payload_def pad_row_def Let_def concat_replicate_lsb
        right_diff_distrib')
qed

section \<open>Run-length coding\<close>

lemma and_single_bit: "k < 8 \<Longrightarrow> (b :: u8) AND drop_bit k 0x80 \<noteq> 0 \<longleftrightarrow> bit b (7 - k)"
proof
  assume k: "k < 8" and "b AND drop_bit k 0x80 \<noteq> 0"
  then obtain n where "bit (b AND drop_bit k 0x80) n" by (auto simp: bit_eq_iff)
  then have "bit b n \<and> k + n = 7" unfolding bit_and_iff bit_drop_u8 bit_u8_0x80 .
  then have "bit b n" "n = 7 - k" by auto
  then show "bit b (7 - k)" by metis
next
  assume "k < 8" "bit b (7 - k)"
  then have "bit (b AND drop_bit k 0x80) (7 - k)"
    unfolding bit_and_iff bit_drop_u8 bit_u8_0x80 by simp
  then show "b AND drop_bit k 0x80 \<noteq> 0" by auto
qed

lemma pixel_at_bit: "pixel_at row x \<longleftrightarrow> bit (row ! (x div 8)) (7 - x mod 8)"
  unfolding pixel_at_def by (rule and_single_bit) simp

lemma nth_row_pixels: "x < 8 * length row \<Longrightarrow> row_pixels row ! x = pixel_at row x"
proof (induction row arbitrary: x)
  case (Cons b row)
  show ?case
  proof (cases "x < 8")
    case True
    then show ?thesis by (simp add: row_pixels_def nth_append pixel_at_bit msb_pixels_def)
  next
    case False
    then have "row_pixels (b # row) ! x = row_pixels row ! (x - 8)"
      by (simp add: row_pixels_def nth_append)
    also have "\<dots> = pixel_at row (x - 8)" using False Cons by simp
    also have "\<dots> = pixel_at (b # row) x"
      using False by (simp add: pixel_at_bit le_div_geq le_mod_geq)
    finally show ?thesis .
  qed
qed simp

lemma map_pixel_at: "map (pixel_at row) [0..<8 * length row] = row_pixels row"
  by (rule nth_equalityI) (auto simp: nth_row_pixels)

definition run_byte :: "bool \<Rightarrow> nat \<Rightarrow> u8" where
  "run_byte v chunk = (if v then 0x80 OR of_nat chunk else of_nat chunk)"

lemma bit_of_nat_u8: "bit (of_nat k :: u8) n \<longleftrightarrow> n < 8 \<and> bit k n"
  unfolding bit_of_nat_iff by (simp add: possible_bit_def)

lemma run_byte_value:
  assumes "k \<le> 127"
  shows "unat (run_byte v k AND 0x7F) = k" "bit (run_byte v k) 7 = v"
proof -
  have hi: "\<not> bit k 7" using assms by (simp add: bit_iff_odd)
  have m: "(0x7F :: u8) = mask 7" by (simp add: mask_eq_exp_minus_1)
  have rb: "bit (run_byte v k) n \<longleftrightarrow> v \<and> n = 7 \<or> n < 8 \<and> bit k n" for n
    by (cases v) (simp_all only: run_byte_def if_True if_False bit_or_iff bit_u8_0x80 bit_of_nat_u8, auto)
  have "run_byte v k AND 0x7F = of_nat k"
  proof (rule u8_eqI, intro allI impI)
    fix n :: nat assume "n < 8"
    then consider "n < 7" | "n = 7" by linarith
    then show "bit (run_byte v k AND 0x7F) n = bit (of_nat k :: u8) n"
      using hi by cases (simp_all only: m bit_and_iff bit_mask_iff rb bit_of_nat_u8, auto)
  qed
  then show "unat (run_byte v k AND 0x7F) = k" using assms by (simp add: unat_of_nat_u8)
  show "bit (run_byte v k) 7 = v" using hi by (simp add: rb)
qed

lemma rle_decode_snoc: "k \<le> 127 \<Longrightarrow> rle_decode (out @ [run_byte v k]) = rle_decode out @ replicate k v"
  by (simp add: rle_decode_def run_byte_value)

lemma rle_decode_push_run: "rle_decode (push_run out v len) = rle_decode out @ replicate len v"
proof (induction out v len rule: push_run.induct)
  case (1 out v len)
  show ?case
  proof (cases "len > 0")
    case True
    have "rle_decode (push_run out v len)
      = rle_decode (push_run (out @ [run_byte v (min len 127)]) v (len - min len 127))"
      by (subst push_run.simps) (simp add: True Let_def run_byte_def)
    also have "\<dots> = rle_decode (out @ [run_byte v (min len 127)]) @ replicate (len - min len 127) v"
      using 1 [OF True refl] by (simp add: run_byte_def)
    also have "\<dots> = rle_decode out @ replicate len v"
      by (simp add: rle_decode_snoc flip: replicate_add)
    finally show ?thesis .
  next
    case False
    then show ?thesis by (subst push_run.simps) simp
  qed
qed

definition rle_view :: "u8 list \<times> bool \<times> nat \<Rightarrow> bool list" where
  "rle_view st = (case st of (runs, v, len) \<Rightarrow> rle_decode runs @ replicate len v)"

lemma rle_view_pixel: "rle_view (rle_pixel st black) = rle_view st @ [black]"
  by (cases st) (simp add: rle_view_def rle_pixel_def rle_decode_push_run replicate_append_same)

lemma rle_view_foldl:
  "rle_view (foldl (\<lambda>st x. rle_pixel st (f x)) st xs) = rle_view st @ map f xs"
  by (induction xs arbitrary: st) (simp_all add: rle_view_pixel)

lemma rle_decode_encode_row:
  assumes "rle_encode_row row = Some runs"
  shows "rle_decode runs = row_pixels row" "length runs < length row"
proof -
  obtain rs v len where st:
    "foldl (\<lambda>st x. rle_pixel st (pixel_at row x)) ([], False, 0) [0..<length row * 8] = (rs, v, len)"
    by (metis prod_cases3)
  with assms have runs: "runs = push_run rs v len" and l: "length runs < length row"
    by (auto simp: rle_encode_row_def Let_def split: if_splits)
  have "rle_decode runs = rle_view (rs, v, len)"
    by (simp add: runs rle_decode_push_run rle_view_def)
  also have "\<dots> = map (pixel_at row) [0..<length row * 8]"
    unfolding st [symmetric] rle_view_foldl by (simp add: rle_view_def rle_decode_def)
  finally show "rle_decode runs = row_pixels row" using map_pixel_at [of row] by (simp add: mult.commute)
  show "length runs < length row" by fact
qed

section \<open>Row frames and jobs\<close>

text \<open>The frame a raster row is sent as: command and payload.\<close>

definition row_frame :: "u8 list \<Rightarrow> bool \<Rightarrow> u8 \<times> u8 list" where
  "row_frame row rle =
    (if rle \<and> length row = ROW_BYTES then
       (case rle_encode_row row of
          Some runs \<Rightarrow> (CMD_DRAW_BITMAP_RLE, runs)
        | None \<Rightarrow> (CMD_DRAW_BITMAP, plain_payload row))
     else (CMD_DRAW_BITMAP, plain_payload row))"

lemma frame_row_row_frame: "frame_row row rle = (case row_frame row rle of (c, p) \<Rightarrow> frame c p)"
  by (simp add: frame_row_def row_frame_def frame_row_plain split: option.splits)

lemma row_frame_short: "length (snd (row_frame row rle)) \<le> ROW_BYTES"
  using rle_decode_encode_row(2) [of row]
  by (auto simp: row_frame_def ROW_BYTES_def split: option.splits)

lemma length_frame_row: "length (frame_row row rle) \<le> ROW_BYTES + 8"
  using row_frame_short [of row rle] by (cases "row_frame row rle") (simp add: frame_row_row_frame)

lemma printed_row_frame: "printed_row (row_frame row rle) = Some (pad_row row)"
proof (cases "rle \<and> length row = ROW_BYTES \<and> rle_encode_row row \<noteq> None")
  case True
  then obtain runs where r: "rle_encode_row row = Some runs" by auto
  with True have "pad_row row = row_pixels row"
    by (simp add: pad_row_def Let_def)
  with True r show ?thesis
    by (simp add: row_frame_def printed_row_def rle_decode_encode_row(1)
        CMD_DRAW_BITMAP_def CMD_DRAW_BITMAP_RLE_def)
next
  case False
  then show ?thesis by (auto simp: row_frame_def printed_plain)
qed

definition ras_fits :: "u8 list \<Rightarrow> nat \<Rightarrow> nat \<Rightarrow> bool" where
  "ras_fits bits stride height \<longleftrightarrow> stride * height \<le> length bits"

lemma job_row_fits:
  assumes "ras_fits bits stride height" and "y < height"
  shows "job_row bits stride y = Some (take (min ROW_BYTES stride) (drop (y * stride) bits))"
proof -
  have "Suc y * stride \<le> height * stride" using assms(2) by (intro mult_le_mono1) simp
  also have "\<dots> \<le> length bits" using assms(1) by (simp add: ras_fits_def mult.commute)
  finally have "y * stride + min ROW_BYTES stride \<le> length bits" by simp
  then show ?thesis by (simp add: job_row_def slice_get_def)
qed

text \<open>Row \<open>y\<close> of a raster as the encoder reads it.\<close>

definition ras_row :: "u8 list \<Rightarrow> nat \<Rightarrow> nat \<Rightarrow> u8 list" where
  "ras_row bits stride y = take (min ROW_BYTES stride) (drop (y * stride) bits)"

definition job_frames :: "u8 list \<Rightarrow> nat \<Rightarrow> nat \<Rightarrow> nat \<Rightarrow> bool \<Rightarrow> (u8 \<times> u8 list) list" where
  "job_frames bits stride from to rle = map (\<lambda>y. row_frame (ras_row bits stride y) rle) [from..<to]"

lemma those_map_Some: "(\<And>x. x \<in> set xs \<Longrightarrow> f x = Some (g x)) \<Longrightarrow> those (map f xs) = Some (map g xs)"
  by (induction xs) auto

abbreviation frames_bytes :: "(u8 \<times> u8 list) list \<Rightarrow> u8 list" where
  "frames_bytes fs \<equiv> concat (map (\<lambda>(c, p). frame c p) fs)"

lemma job_rows_frames:
  assumes "ras_fits bits stride height" and "to \<le> height"
  shows "job_rows bits stride from to rle = Some (frames_bytes (job_frames bits stride from to rle))"
proof -
  have "those (map (\<lambda>y. map_option (\<lambda>row. frame_row row rle) (job_row bits stride y)) [from..<to])
    = Some (map (\<lambda>y. frame_row (ras_row bits stride y) rle) [from..<to])"
    by (rule those_map_Some) (use assms in \<open>auto simp: job_row_fits ras_row_def\<close>)
  moreover have "map (\<lambda>y. frame_row (ras_row bits stride y) rle) [from..<to]
    = map (\<lambda>(c, p). frame c p) (job_frames bits stride from to rle)"
    by (simp add: job_frames_def frame_row_row_frame)
  ultimately show ?thesis by (simp add: job_rows_def)
qed

lemma job_rows_split:
  assumes "ras_fits bits stride height" and "from \<le> mid" and "mid \<le> to" and "to \<le> height"
    and "job_rows bits stride from mid rle = Some a" and "job_rows bits stride mid to rle = Some b"
  shows "job_rows bits stride from to rle = Some (a @ b)"
proof -
  have "[from..<to] = [from..<mid] @ [mid..<to]" using assms(2,3) by (metis le_Suc_ex upt_add_eq_append)
  then have "job_frames bits stride from to rle
    = job_frames bits stride from mid rle @ job_frames bits stride mid to rle"
    by (simp add: job_frames_def)
  then show ?thesis
    using assms job_rows_frames [OF assms(1)] by simp
qed

definition setup_frames :: "u16 \<Rightarrow> u8 \<Rightarrow> (u8 \<times> u8 list) list" where
  "setup_frames energy speed =
     [(CMD_SET_SPEED, [speed]), (CMD_SET_ENERGY, to_le16 energy), (CMD_APPLY_ENERGY, [1]),
      (CMD_DRAW_BITMAP, plain_payload (replicate ROW_BYTES 0))]"

definition finish_frames :: "u16 \<Rightarrow> (u8 \<times> u8 list) list" where
  "finish_frames feed = (if feed > 0 then [(CMD_FEED_PAPER, to_le16 feed)] else [])"

lemma job_setup_frames: "job_setup e s = frames_bytes (setup_frames e s)"
  by (simp add: job_setup_def setup_frames_def frame_row_plain)

lemma job_finish_frames: "job_finish f = frames_bytes (finish_frames f)"
  by (simp add: job_finish_def finish_frames_def)

lemma short_frames:
  "\<forall>(c, p) \<in> set (setup_frames e s @ job_frames bits stride from to rle @ finish_frames f).
     length p < 65536"
proof -
  have r: "length (snd (row_frame row rle)) < 65536" for row
    using row_frame_short [of row rle] by (simp add: ROW_BYTES_def)
  have "\<forall>fr \<in> set (job_frames bits stride from to rle). length (snd fr) < 65536"
    by (auto simp: job_frames_def r)
  then show ?thesis
    by (auto simp: setup_frames_def finish_frames_def ROW_BYTES_def case_prod_unfold)
qed

lemma decode_build_job:
  assumes "ras_fits bits stride height"
  shows "\<exists>bytes. build_job bits stride height e s f rle = Some bytes \<and>
    decode_frames bytes = Some (setup_frames e s @ job_frames bits stride 0 height rle @ finish_frames f)"
proof -
  let ?fs = "setup_frames e s @ job_frames bits stride 0 height rle @ finish_frames f"
  have "build_job bits stride height e s f rle = Some (frames_bytes ?fs)"
    using job_rows_frames [OF assms order_refl, of 0 rle]
    by (simp add: build_job_def job_setup_frames job_finish_frames)
  moreover have "decode_frames (frames_bytes ?fs) = Some ?fs"
    by (rule decode_frames_concat [OF short_frames])
  ultimately show ?thesis by blast
qed

text \<open>The pixel rows a printer shows for a byte stream.\<close>

definition printed_rows :: "u8 list \<Rightarrow> bool list list option" where
  "printed_rows bytes =
     map_option (\<lambda>fs. map the (filter (\<lambda>r. r \<noteq> None) (map printed_row fs))) (decode_frames bytes)"

lemma printed_setup:
  "filter (\<lambda>r. r \<noteq> None) (map printed_row (setup_frames e s)) = [Some (replicate 384 False)]"
proof -
  have z: "pad_row (replicate ROW_BYTES 0) = replicate 384 False"
    by (rule nth_equalityI)
      (simp_all add: pad_row_def Let_def ROW_BYTES_def nth_row_pixels pixel_at_def)
  show ?thesis
    unfolding setup_frames_def
    by (simp add: printed_plain z)
      (simp add: printed_row_def CMD_SET_SPEED_def CMD_DRAW_BITMAP_def CMD_DRAW_BITMAP_RLE_def
        CMD_SET_ENERGY_def CMD_APPLY_ENERGY_def)
qed

lemma printed_finish: "filter (\<lambda>r. r \<noteq> None) (map printed_row (finish_frames f)) = []"
  by (simp add: finish_frames_def printed_row_def CMD_FEED_PAPER_def CMD_DRAW_BITMAP_def
      CMD_DRAW_BITMAP_RLE_def)

lemma printed_job:
  "map printed_row (job_frames bits stride from to rle)
    = map (\<lambda>y. Some (pad_row (ras_row bits stride y))) [from..<to]"
  by (simp add: job_frames_def printed_row_frame)

lemma printed_build_job:
  assumes "ras_fits bits stride height"
  shows "\<exists>bytes. build_job bits stride height e s f rle = Some bytes \<and>
    printed_rows bytes
      = Some (replicate 384 False # map (\<lambda>y. pad_row (ras_row bits stride y)) [0..<height])"
proof -
  from decode_build_job [OF assms] obtain bytes
    where b: "build_job bits stride height e s f rle = Some bytes"
      and d: "decode_frames bytes
        = Some (setup_frames e s @ job_frames bits stride 0 height rle @ finish_frames f)" by blast
  have "map the (filter (\<lambda>r. r \<noteq> None) (map (\<lambda>y. Some (g y)) ys)) = map g ys" for g :: "nat \<Rightarrow> bool list" and ys
    by (induction ys) auto
  then have "printed_rows bytes
      = Some (replicate 384 False # map (\<lambda>y. pad_row (ras_row bits stride y)) [0..<height])"
    by (simp only: printed_rows_def d option.map map_append filter_append printed_setup printed_finish
        printed_job) simp
  with b show ?thesis by blast
qed

section \<open>Status notifications\<close>

lemma parse_status_iff:
  "parse_status d = Some BufferFull \<longleftrightarrow> d = [0x51, 0x78, 0xAE, 1, 1, 0, 0x10, 0x70, 0xFF]"
  "parse_status d = Some Ready \<longleftrightarrow> d = [0x51, 0x78, 0xAE, 1, 1, 0, 0x00, 0x00, 0xFF]"
proof -
  have c: "crc8 [0x10] = 0x70" "crc8 [0] = 0" by code_simp+
  have n: "\<exists>a0 a1 a2 a3 a4 a5 a6 a7 a8. d = [a0, a1, a2, a3, a4, a5, a6, a7, a8]" if "length d = 9"
    using that by (auto simp: numeral_eq_Suc length_Suc_conv)
  have "length d = 9" if "parse_status d = Some r" for r
    using that by (auto simp: parse_status_def split: if_splits)
  then show "parse_status d = Some BufferFull \<longleftrightarrow> d = [0x51, 0x78, 0xAE, 1, 1, 0, 0x10, 0x70, 0xFF]"
    "parse_status d = Some Ready \<longleftrightarrow> d = [0x51, 0x78, 0xAE, 1, 1, 0, 0x00, 0x00, 0xFF]"
    using n by (fastforce simp: parse_status_def CMD_DEVICE_STATUS_def c split: if_splits)+
qed

end
