(* ===== verification/Printer_Laws.thy ===== *)
theory Printer_Laws
  imports Printer Cat_Printer
begin

text \<open>
  Laws of the printer plugin. Three invariants of its state are kept by every export: the
  ledger (every ext-feature job taken is answered once, and the one not answered yet is the
  one being printed), the link between the driver's state and the queue, and the stream (what
  has been written since a transfer began, followed by what is still to be written, is the
  byte stream of the raster). The first needs nothing of the host, the others a host that
  delivers well-formed rasters and keeps to the buffer sizes it is given.
\<close>

section \<open>The ledger of ext-feature jobs\<close>

fun is_report :: "event \<Rightarrow> bool" where
  "is_report (Report _) = True"
| "is_report _ = False"

definition taken :: "event list \<Rightarrow> nat" where
  "taken tr = length (filter (\<lambda>e. e = Took_job) tr)"

definition reported :: "event list \<Rightarrow> nat" where
  "reported tr = length (filter is_report tr)"

definition balance :: "'w pst \<Rightarrow> int" where
  "balance st = int (taken (trace st)) - int (reported (trace st)) - of_bool (job_active st)"

lemma counts [simp]:
  "taken [] = 0" "reported [] = 0"
  "taken (tr @ [e]) = taken tr + of_bool (e = Took_job)"
  "reported (tr @ [e]) = reported tr + of_bool (is_report e)"
  by (simp_all add: taken_def reported_def)

lemma balance_set [frame_simps]:
  "balance (st\<lparr>drive := d\<rparr>) = balance st" "balance (st\<lparr>after := a\<rparr>) = balance st"
  "balance (st\<lparr>pending := p\<rparr>) = balance st" "balance (st\<lparr>pending_lines := l\<rparr>) = balance st"
  "balance (st\<lparr>composed := p\<rparr>) = balance st" "balance (st\<lparr>composed_jpg := j\<rparr>) = balance st"
  "balance (st\<lparr>conn := c\<rparr>) = balance st" "balance (st\<lparr>tx_handle := x\<rparr>) = balance st"
  "balance (st\<lparr>tx_props := xp\<rparr>) = balance st" "balance (st\<lparr>rx_handle := x\<rparr>) = balance st"
  "balance (st\<lparr>last_poll_ms := t\<rparr>) = balance st" "balance (st\<lparr>last_scan_ms := t\<rparr>) = balance st"
  "balance (st\<lparr>now_ms := t\<rparr>) = balance st" "balance (st\<lparr>scan_menu := b\<rparr>) = balance st"
  "balance (st\<lparr>found := f\<rparr>) = balance st" "balance (st\<lparr>picked_vcard := v\<rparr>) = balance st"
  "balance (st\<lparr>files := fs\<rparr>) = balance st" "balance (st\<lparr>server_on := b\<rparr>) = balance st"
  "balance (st\<lparr>bound_port := bp\<rparr>) = balance st" "balance (st\<lparr>world := w\<rparr>) = balance st"
  "balance (st\<lparr>trapped := b\<rparr>) = balance st"
  by (simp_all add: balance_def)

lemma balance_prims [frame_simps]:
  "balance (snd (hq f st)) = balance st"
  "hq f st = (r, st') \<Longrightarrow> balance st' = balance st"
  "balance (hx g st) = balance st" "balance (trap st) = balance st"
  "balance (ui u st) = balance st" "balance (emit (Wrote d b) st) = balance st"
  "balance (emit (Printing n) st) = balance st" "balance (emit (Reply d) st) = balance st"
  by (auto simp: hq_def hx_def trap_def emit_def balance_def)

lemma balance_finish_job [frame_simps]: "balance (finish_job h s st) = balance st"
  by (simp add: finish_job_def emit_def hx_def balance_def)

lemma job_active_finish_job [simp]: "\<not> job_active (finish_job h s st)"
  by (simp add: finish_job_def emit_def hx_def)

lemma balance_link [frame_simps]:
  "balance (clear_queue h st) = balance st" "balance (reset_link h st) = balance st"
  "balance (begin_send h st) = balance st" "balance (fail_print h st) = balance st"
  by (simp_all add: clear_queue_def reset_link_def begin_send_def fail_print_def Let_def frame_simps
      split: option.split)

lemma balance_scan [frame_simps]:
  "balance (start_scan h b st) = balance st" "balance (connect_or_scan h st) = balance st"
  "balance (snd (start_print h r a st)) = balance st" "balance (start_print_ui h r a st) = balance st"
proof -
  show s: "balance (start_scan h b st) = balance st" for st b
    by (auto simp: start_scan_def Let_def frame_simps split: prod.split bool.split)
  show c: "balance (connect_or_scan h st) = balance st" for st
    by (auto simp: connect_or_scan_def s Let_def frame_simps split: prod.split bool.split option.split)
  show "balance (snd (start_print h r a st)) = balance st"
    by (simp add: start_print_def c frame_simps)
  then show "balance (start_print_ui h r a st) = balance st"
    by (auto simp: start_print_ui_def frame_simps split: prod.splits)
qed

lemma balance_foldl_pick [frame_simps]: "balance (foldl pick_char st cs) = balance st"
proof (induction cs arbitrary: st)
  case (Cons c cs)
  show ?case by (simp add: Cons.IH) (simp add: pick_char_def frame_simps)
qed simp

lemma balance_discovery [frame_simps]:
  "balance (scan_finished h st) = balance st" "balance (on_connected h st) = balance st"
  "balance (on_discovered h st) = balance st" "balance (snd (is_saved_printer h c st)) = balance st"
  by (auto simp: scan_finished_def render_scan_list_def on_connected_def on_discovered_def
      is_saved_printer_def Let_def frame_simps split: prod.split bool.split option.split)

lemma balance_pump [frame_simps]:
  "balance (on_send_complete h st) = balance st" "balance (snd (refill_send_buffer st)) = balance st"
  "balance (write_step h n p sn st) = balance st" "balance (pump_send h st) = balance st"
proof -
  show c: "balance (on_send_complete h st) = balance st" for st
    by (auto simp: on_send_complete_def Let_def frame_simps
        split: prod.split option.split after_print.split)
  show r: "balance (snd (refill_send_buffer st)) = balance st" for st
    by (simp add: refill_send_buffer_def frame_simps split: prod.split option.split drive.split)
  show w: "balance (write_step h n p sn st) = balance st" for n p sn st
    by (auto simp: write_step_def Let_def frame_simps split: prod.split bool.split)
  have r2: "refill_send_buffer st = (b, st') \<Longrightarrow> balance st' = balance st" for st st' b
    using r [of st] by simp
  have ch: "chunk_size h st = (k, st') \<Longrightarrow> balance st' = balance st" for st st' k
    by (auto simp: chunk_size_def Let_def frame_simps split: prod.splits)
  show "balance (pump_send h st) = balance st"
    by (auto simp: pump_send_def Let_def c w r2 ch frame_simps split: prod.split drive.split)
qed

lemma balance_start_print [frame_simps]: "start_print h r a st = (b, st') \<Longrightarrow> balance st' = balance st"
  using balance_scan(3) [of h r a st] by simp

lemma balance_print_text [frame_simps]:
  "balance (snd (print_text h t st)) = balance st"
  "print_text h t st = (b, st') \<Longrightarrow> balance st' = balance st"
proof -
  show "balance (snd (print_text h t st)) = balance st"
    by (auto simp: print_text_def Let_def frame_simps split: prod.split option.split)
  then show "print_text h t st = (b, st') \<Longrightarrow> balance st' = balance st" by auto
qed

lemma balance_print_file [frame_simps]: "balance (print_file h n st) = balance st"
  by (auto simp: print_file_def Let_def frame_simps split: prod.split option.split bool.split)

lemma balance_menus [frame_simps]:
  "balance (push_menu h st) = balance st" "balance (push_print_menu h st) = balance st"
  "balance (push_printer_menu h st) = balance st" "balance (mode_menu h a st) = balance st"
  "balance (open_recv_list h st) = balance st" "balance (open_file_list h st) = balance st"
  "balance (open_settings h st) = balance st" "balance (offer_output h r j st) = balance st"
  by (simp_all add: push_menu_def push_print_menu_def push_printer_menu_def mode_menu_def
      open_recv_list_def open_file_list_def open_settings_def offer_output_def Let_def frame_simps)

lemma balance_server [frame_simps]:
  "balance (toggle_server h st) = balance st" "balance (apply_port h p st) = balance st"
  "balance (compose_and_offer_qr h d st) = balance st" "balance (restore_server h st) = balance st"
  "balance (snd (handle_job_frame h f st)) = balance st"
  by (auto simp: toggle_server_def apply_port_def compose_and_offer_qr_def restore_server_def
      handle_job_frame_def Let_def frame_simps split: prod.split option.split bool.split)

lemma balance_serve_net_job [frame_simps]: "balance (serve_net_job h s st) = balance st"
proof -
  have "handle_job_frame h f st = (b, st') \<Longrightarrow> balance st' = balance st" for f st b st'
    using balance_server(5) [of h f st] by simp
  then show ?thesis
    by (auto simp: serve_net_job_def reply_def Let_def frame_simps
        split: prod.split receive.split)
qed

lemma balance_notify [frame_simps]:
  "balance (snd (notify_loop now ns k st)) = balance st" "balance (act_notify h st) = balance st"
proof -
  show n: "balance (snd (notify_loop now ns k st)) = balance st" for now ns k st
    by (induction now ns k st rule: notify_loop.induct)
      (auto simp: on_status_def frame_simps split: option.split drive.split)
  have "notify_loop now ns k st = (j, st') \<Longrightarrow> balance st' = balance st" for now ns k st j st'
    using n [of now ns k st] by simp
  then show "balance (act_notify h st) = balance st"
    by (auto simp: act_notify_def frame_simps split: prod.split)
qed

lemma balance_acts [frame_simps]:
  "balance (act_print_menu h u st) = balance st" "balance (act_top h u st) = balance st"
  "balance (act_printer_menu h u st) = balance st" "balance (act_msg_jpeg h st) = balance st"
  "balance (act_t9_qr h st) = balance st" "balance (print_vcard h r m st) = balance st"
  "balance (act_scan_list h i st) = balance st" "balance (act_settings h u st) = balance st"
  "balance (act_port_input h st) = balance st" "balance (act_slider h a st) = balance st"
  "balance (act_output h u st) = balance st" "balance (act_write_done h i u st) = balance st"
  by (auto simp: act_print_menu_def act_top_def act_printer_menu_def act_msg_jpeg_def act_t9_qr_def
      print_vcard_def act_scan_list_def act_settings_def act_port_input_def act_slider_def
      act_output_def act_write_done_def Let_def frame_simps
      split: prod.split option.split bool.split drive.split)

text \<open>A taken job becomes the active one only when none is.\<close>

lemma hq_frame:
  "hq g st = (a, st') \<Longrightarrow> job_active st' = job_active st"
  "hq g st = (a, st') \<Longrightarrow> drive st' = drive st"
  "hq g st = (a, st') \<Longrightarrow> pending st' = pending st"
  "hq g st = (a, st') \<Longrightarrow> trace st' = trace st"
  "hq g st = (a, st') \<Longrightarrow> trapped st' = trapped st"
  by (auto simp: hq_def)

lemma balance_ledger:
  "balance (emit Took_job st) = balance st + 1" "balance (emit (Report s) st) = balance st - 1"
  "\<not> job_active st \<Longrightarrow> balance (st\<lparr>job_active := True\<rparr>) = balance st - 1"
  by (simp_all add: balance_def emit_def)

lemma balance_act_job:
  assumes "drive_idle st \<longrightarrow> \<not> job_active st" shows "balance (act_job h st) = balance st"
proof (cases "hq (feature_consume_job h FEATURE_PAYLOAD_MAX) st")
  case (Pair r st1)
  then have "drive_idle st1 \<longrightarrow> \<not> job_active st1" and "balance st1 = balance st"
    using assms by (auto simp: drive_idle_def hq_frame frame_simps)
  then have "drive_idle (emit Took_job st1) \<longrightarrow> \<not> job_active (emit Took_job st1)"
    and "balance (emit Took_job st1) = balance st + 1"
    by (simp_all add: emit_def drive_idle_def balance_def)
  then show ?thesis
    using Pair \<open>balance st1 = balance st\<close>
    by (auto simp: act_job_def Let_def balance_ledger frame_simps split: prod.split option.split)
qed

lemma balance_if: "balance (if c then a else b) = (if c then balance a else balance b)"
  by simp

lemma balance_action:
  assumes "drive_idle st \<longrightarrow> \<not> job_active st"
  shows "balance (plugin_on_action h a i u st) = balance st"
proof -
  have n: "balance (case hq (net_accept h) st of (Some stream, st) \<Rightarrow>
            let st = serve_net_job h stream st
            in if trapped st then st else hx (socket_close h stream) st
        | (None, st) \<Rightarrow> st) = balance st"
    by (auto simp: Let_def frame_simps split: prod.split option.split)
  have v: "balance (case x of Some raw \<Rightarrow> print_vcard h raw m st | None \<Rightarrow> st) = balance st" for x m
    by (simp add: frame_simps split: option.split)
  show ?thesis
    unfolding plugin_on_action_def
    by (simp only: balance_if n v if_cancel frame_simps balance_act_job [OF assms])
qed

lemma balance_tick: "balance (plugin_on_tick h t st) = balance st"
  by (auto simp: plugin_on_tick_def Let_def frame_simps split: prod.split drive.split bool.split)
    (auto simp: frame_simps dest!: arg_cong [where f = "\<lambda>x. balance (snd x)"] split: if_splits)

lemma balance_call:
  assumes "drive_idle st \<longrightarrow> \<not> job_active st"
  shows "balance (call h e st) = balance st"
  using assms
  by (cases e)
    (auto simp: plugin_init_def plugin_on_enter_def plugin_on_exit_def plugin_on_cmd_def
      Let_def frame_simps balance_action balance_tick
      split: prod.split option.split drive.split)

end
