(* ===== verification/Printer_Inv.thy ===== *)
theory Printer_Inv
  imports Printer_Laws
begin

text \<open>
  The invariant of the print driver: the queue matches the driver's state, and while a
  transfer runs the bytes written since it began, followed by the bytes still to come, are
  the byte stream of the raster. It is kept by every export on a host that delivers
  well-formed rasters and keeps to the buffer sizes, and no export panics there. The only
  call excluded is a discovery result that arrives while a transfer runs, which
  \<open>on_discovered\<close> does not guard against.
\<close>

section \<open>What the neutral operations keep\<close>

definition written :: "event list \<Rightarrow> u8 list" where
  "written tr = foldl (\<lambda>acc e. case e of Wrote d _ \<Rightarrow> acc @ d | Printing _ \<Rightarrow> [] | _ \<Rightarrow> acc) [] tr"

lemma written_snoc [simp]:
  "written (tr @ [UI u]) = written tr" "written (tr @ [Report k]) = written tr"
  "written (tr @ [Wrote d b]) = written tr @ d" "written (tr @ [Reply r]) = written tr"
  "written (tr @ [Took_job]) = written tr" "written (tr @ [Printing n]) = []"
  "written (tr @ [Printing n, UI u]) = []"
  by (simp_all add: written_def)

definition core :: "'w pst \<Rightarrow> drive \<times> ras option \<times> ras option \<times> bool \<times> bool \<times> u8 list" where
  "core st = (drive st, pending st, composed st, job_active st, trapped st, written (trace st))"

named_theorems core_simps \<open>operations that leave the core of the state alone\<close>

lemma core_prims [core_simps]:
  "core (snd (hq f st)) = core st" "hq f st = (r, st') \<Longrightarrow> core st' = core st"
  "core (hx g st) = core st" "core (ui u st) = core st"
  "core (emit (Reply d) st) = core st" "core (emit Took_job st) = core st"
  "core (emit (Report k) st) = core st"
  by (auto simp: hq_def hx_def emit_def core_def)

lemma core_sets [core_simps]:
  "core (st\<lparr>after := a\<rparr>) = core st" "core (st\<lparr>pending_lines := l\<rparr>) = core st"
  "core (st\<lparr>composed_jpg := j\<rparr>) = core st" "core (st\<lparr>conn := c\<rparr>) = core st"
  "core (st\<lparr>tx_handle := x\<rparr>) = core st" "core (st\<lparr>tx_props := xp\<rparr>) = core st"
  "core (st\<lparr>rx_handle := x\<rparr>) = core st" "core (st\<lparr>last_poll_ms := t\<rparr>) = core st"
  "core (st\<lparr>last_scan_ms := t\<rparr>) = core st" "core (st\<lparr>now_ms := t\<rparr>) = core st"
  "core (st\<lparr>scan_menu := b\<rparr>) = core st" "core (st\<lparr>found := f\<rparr>) = core st"
  "core (st\<lparr>picked_vcard := v\<rparr>) = core st" "core (st\<lparr>files := fs\<rparr>) = core st"
  "core (st\<lparr>server_on := b\<rparr>) = core st" "core (st\<lparr>bound_port := bp\<rparr>) = core st"
  "core (st\<lparr>world := w\<rparr>) = core st"
  by (simp_all add: core_def)

lemma core_menus [core_simps]:
  "core (push_menu h st) = core st" "core (push_print_menu h st) = core st"
  "core (push_printer_menu h st) = core st" "core (mode_menu h a st) = core st"
  "core (open_recv_list h st) = core st" "core (open_file_list h st) = core st"
  "core (open_settings h st) = core st" "core (reset_link h st) = core st"
  "core (render_scan_list h st) = core st" "core (reply h s m st) = core st"
  by (simp_all add: push_menu_def push_print_menu_def push_printer_menu_def mode_menu_def
      open_recv_list_def open_file_list_def open_settings_def reset_link_def render_scan_list_def
      reply_def Let_def core_simps)

lemma core_server [core_simps]:
  "core (toggle_server h st) = core st" "core (apply_port h p st) = core st"
  "core (restore_server h st) = core st" "core (snd (is_saved_printer h c st)) = core st"
  by (auto simp: toggle_server_def apply_port_def restore_server_def is_saved_printer_def Let_def
      core_simps split: prod.split bool.split)

lemma core_acts [core_simps]:
  "core (act_print_menu h u st) = core st" "core (act_top h u st) = core st"
  "core (act_scan_list h i st) = core st" "core (act_settings h u st) = core st"
  "core (act_port_input h st) = core st" "core (act_slider h a st) = core st"
  by (auto simp: act_print_menu_def act_top_def act_scan_list_def act_settings_def act_port_input_def
      act_slider_def Let_def core_simps split: prod.split option.split)

lemma core_fields:
  "core st' = core st \<Longrightarrow> drive st' = drive st" "core st' = core st \<Longrightarrow> pending st' = pending st"
  "core st' = core st \<Longrightarrow> composed st' = composed st"
  "core st' = core st \<Longrightarrow> job_active st' = job_active st"
  "core st' = core st \<Longrightarrow> trapped st' = trapped st"
  "core st' = core st \<Longrightarrow> written (trace st') = written (trace st)"
  by (simp_all add: core_def)

section \<open>The invariant\<close>

definition good_ras :: "ras \<Rightarrow> bool" where
  "good_ras r \<longleftrightarrow> ras_fits (bits r) (stride r) (height r)"

definition good_opt :: "ras option \<Rightarrow> bool" where
  "good_opt p \<longleftrightarrow> (case p of Some r \<Rightarrow> good_ras r | None \<Rightarrow> True)"

text \<open>The bytes a transfer has still to write, and the stream of its raster.\<close>

definition still_to_send :: "sending \<Rightarrow> u8 list option" where
  "still_to_send sn =
     map_option (\<lambda>rs. drop (off sn) (buf sn) @ rs
         @ (if finished sn then [] else job_finish (s_feed_steps sn)))
       (job_rows (bits (s_ras sn)) (stride (s_ras sn)) (next_row sn) (height (s_ras sn)) (s_rle sn))"

definition stream_for :: "sending \<Rightarrow> u8 list \<Rightarrow> bool" where
  "stream_for sn bs \<longleftrightarrow>
     (\<exists>e s. build_job (bits (s_ras sn)) (stride (s_ras sn)) (height (s_ras sn)) e s
        (s_feed_steps sn) (s_rle sn) = Some bs)"

lemma stream_for_set [simp]:
  "stream_for (sn\<lparr>off := x\<rparr>) = stream_for sn" "stream_for (sn\<lparr>buf := bs\<rparr>) = stream_for sn"
  "stream_for (sn\<lparr>next_row := n\<rparr>) = stream_for sn" "stream_for (sn\<lparr>finished := b\<rparr>) = stream_for sn"
  "stream_for (sn\<lparr>gated := b\<rparr>) = stream_for sn" "stream_for (sn\<lparr>since_gate := g\<rparr>) = stream_for sn"
  "stream_for (sn\<lparr>paused_since := p\<rparr>) = stream_for sn"
  by (simp_all add: stream_for_def fun_eq_iff)

definition sending_ok :: "u8 list \<Rightarrow> sending \<Rightarrow> bool" where
  "sending_ok wr sn \<longleftrightarrow> good_ras (s_ras sn) \<and> next_row sn \<le> height (s_ras sn)
     \<and> (finished sn \<longrightarrow> next_row sn = height (s_ras sn))
     \<and> (\<exists>r. still_to_send sn = Some r \<and> stream_for sn (wr @ r))"

definition link_ok :: "drive \<Rightarrow> ras option \<Rightarrow> bool \<Rightarrow> bool" where
  "link_ok d p j \<longleftrightarrow>
    (case d of
       Idle \<Rightarrow> p = None \<and> \<not> j
     | Sending _ \<Rightarrow> p = None
     | Scanning \<Rightarrow> j \<longrightarrow> p \<noteq> None
     | _ \<Rightarrow> p \<noteq> None)"

definition calm :: "'w pst \<Rightarrow> bool" where
  "calm st \<longleftrightarrow> \<not> trapped st \<and> good_opt (composed st)"

definition inv :: "'w pst \<Rightarrow> bool" where
  "inv st \<longleftrightarrow>
    (case core st of (d, p, c, j, t, wr) \<Rightarrow>
       \<not> t \<and> good_opt c \<and> good_opt p \<and> link_ok d p j
       \<and> (case d of Sending sn \<Rightarrow> sending_ok wr sn | _ \<Rightarrow> True))"

lemma inv_core: "core st' = core st \<Longrightarrow> inv st' = inv st"
  by (simp add: inv_def)

lemma calm_core: "core st' = core st \<Longrightarrow> calm st' = calm st"
  by (simp add: calm_def core_def)

lemma inv_hq [simp]: "hq f st = (r, st') \<Longrightarrow> inv st' = inv st"
  by (rule inv_core) (rule core_simps)

lemma calm_hq [simp]: "hq f st = (r, st') \<Longrightarrow> calm st' = calm st"
  by (rule calm_core) (rule core_simps)

lemma inv_calm: "inv st \<Longrightarrow> calm st"
  by (simp add: inv_def calm_def core_def)

lemma inv_idle: "inv st \<Longrightarrow> drive st = Idle \<Longrightarrow> pending st = None \<and> \<not> job_active st"
  by (simp add: inv_def link_ok_def core_def)

lemma inv_defaults: "inv (defaults w)"
  by (simp add: inv_def core_def defaults_def good_opt_def link_ok_def)

section \<open>Failing, finishing, starting\<close>

lemma finish_job_core:
  "core (finish_job h s st)
    = (drive st, pending st, composed st, False, trapped st, written (trace st))"
  by (simp add: finish_job_def core_def emit_def hx_def)

lemma clear_queue_core:
  "core (clear_queue h st) = (drive st, None, composed st, False, trapped st, written (trace st))"
  by (simp add: clear_queue_def finish_job_core)

lemma core_eqI:
  "core st = (d, p, c, j, t, w) \<Longrightarrow> \<not> t \<Longrightarrow> good_opt c \<Longrightarrow> good_opt p \<Longrightarrow> link_ok d p j \<Longrightarrow>
    (\<And>sn. d = Sending sn \<Longrightarrow> sending_ok w sn) \<Longrightarrow> inv st"
  by (auto simp: inv_def split: drive.split)

lemma inv_clear_queue:
  "calm st \<Longrightarrow> drive st = Idle \<or> drive st = Scanning \<Longrightarrow> inv (clear_queue h st)"
  by (rule core_eqI [OF clear_queue_core]) (auto simp: calm_def good_opt_def link_ok_def)

lemma fail_print_core:
  "core (fail_print h st) = (Idle, None, composed st, False, trapped st, written (trace st))"
proof -
  have c: "core (reset_link h s) = core s" for s by (rule core_simps)
  note r = core_fields(1,3,5,6) [OF c]
  show ?thesis by (simp add: fail_print_def clear_queue_core r emit_def)
qed

lemma inv_fail_print: "calm st \<Longrightarrow> inv (fail_print h st)"
  by (rule core_eqI [OF fail_print_core]) (auto simp: calm_def good_opt_def link_ok_def)

lemma begin_send_core:
  "pending st = Some r \<Longrightarrow> core (begin_send h st) =
    (Sending \<lparr>s_ras = r, next_row = 0, finished = False, s_feed_steps = feed_steps h (world st),
       s_rle = rle_enabled h (world st), buf = job_setup (energy h (world st)) (speed h (world st)),
       off = 0, gated = False, since_gate = 0, paused_since = None\<rparr>,
     None, composed st, job_active st, trapped st, [])"
  by (simp add: begin_send_def Let_def emit_def core_def)

lemma inv_begin_send:
  assumes "calm st" and "pending st = Some r" and "good_ras r"
  shows "inv (begin_send h st)"
proof -
  have "job_rows (bits r) (stride r) 0 (height r) b
      = Some (frames_bytes (job_frames (bits r) (stride r) 0 (height r) b))" for b
    using job_rows_frames [OF assms(3) [unfolded good_ras_def] order_refl] .
  then show ?thesis
    using assms
    by (intro core_eqI [OF begin_send_core])
       (auto simp: calm_def good_opt_def link_ok_def sending_ok_def still_to_send_def
         stream_for_def build_job_def intro!: exI [of _ "energy h (world st)"] exI [of _ "speed h (world st)"])
qed

lemma inv_begin_send_none:
  "calm st \<Longrightarrow> pending st = None \<Longrightarrow> \<not> job_active st \<Longrightarrow> inv (begin_send h st)"
  by (simp add: begin_send_def inv_def core_def calm_def good_opt_def link_ok_def)

lemma inv_start_scan:
  assumes "calm st" and "drive st = Idle" and "good_opt (pending st)"
    and "job_active st \<longrightarrow> pending st \<noteq> None"
  shows "inv (start_scan h b st)"
proof (cases "hq (ble_scan_start h SCAN_MS) st")
  case (Pair ok st1)
  have c: "core st1 = core st" using core_prims(2) [OF Pair] .
  have "inv (clear_queue h (msg_error h ''scan_failed'' st1))"
    using c assms by (intro inv_clear_queue) (auto simp: calm_def core_def emit_def)
  moreover have "inv (st1\<lparr>found := [], drive := Scanning\<rparr>)"
    using c assms by (auto simp: inv_def core_def link_ok_def calm_def)
  ultimately show ?thesis
    using Pair by (auto simp: start_scan_def Let_def inv_core [OF core_prims(4)]
        inv_core [OF core_sets(11)] split: bool.split)
qed

lemma inv_connect_or_scan:
  assumes "calm st" and "drive st = Idle" and "pending st = Some r" and "good_ras r"
  shows "inv (connect_or_scan h st)"
proof -
  have scan: "inv (start_scan h True s)" if "core s = core st" for s
    using that assms by (intro inv_start_scan) (auto simp: calm_def core_def good_opt_def)
  have send: "inv (begin_send h s)" if "core s = core st" for s
    using that assms by (intro inv_begin_send) (auto simp: calm_def core_def)
  have fail: "inv (clear_queue h (msg_error h k s))" if "core s = core st" for s k
    using that assms by (intro inv_clear_queue) (auto simp: calm_def core_def emit_def)
  have conn: "inv (ui u s\<lparr>drive := Connecting t\<rparr>)" if "core s = core st" for s u t
    using that assms by (auto simp: inv_def core_def link_ok_def calm_def good_opt_def emit_def)
  have q: "core s' = core st" if "hq f s = (a, s')" "core s = core st" for f s a and s' :: "'w pst"
    using core_prims(2) [OF that(1)] that(2) by simp
  show ?thesis
    by (auto simp: connect_or_scan_def dest: q split: prod.split bool.split option.split
        intro: scan send fail conn)
qed

lemma good_opt_Some: "good_opt (Some r) = good_ras r" "good_opt None"
  by (simp_all add: good_opt_def)

text \<open>\<open>start_print\<close> on an idle driver; the ledger flag is irrelevant there.\<close>

lemma inv_start_print_idle:
  assumes "calm st" and "drive st = Idle" and "good_ras r"
  shows "inv (snd (start_print h r a st))" and "fst (start_print h r a st)"
proof -
  have "inv (connect_or_scan h (st\<lparr>pending := Some r, after := a\<rparr>))"
    using assms by (intro inv_connect_or_scan) (auto simp: calm_def)
  then show "inv (snd (start_print h r a st))" and "fst (start_print h r a st)"
    using assms(2) by (simp_all add: start_print_def drive_idle_def)
qed

lemma inv_start_print:
  assumes "inv st" and "good_ras r"
  shows "inv (snd (start_print h r a st))"
proof (cases "drive st = Idle")
  case True
  then show ?thesis using inv_start_print_idle [OF inv_calm [OF assms(1)] True assms(2)] by simp
next
  case False
  then show ?thesis using assms(1) by (simp add: start_print_def drive_idle_def)
qed

lemma inv_ui [simp]: "inv (ui u st) = inv st"
  by (rule inv_core) (rule core_simps)

lemma inv_start_print_ui:
  assumes "inv st" and "good_ras r"
  shows "inv (start_print_ui h r a st)"
  using inv_start_print [OF assms, of h a]
  by (auto simp: start_print_ui_def split: prod.split)

section \<open>A well-behaved host\<close>

definition host_ok :: "'w phost \<Rightarrow> bool" where
  "host_ok h \<longleftrightarrow>
     (\<forall>surf w. good_opt (surf_export h surf w)) \<and> (\<forall>data wd. good_opt (image_render h data wd))
     \<and> (\<forall>s n t w bs w'. tcp_read h s n t w = (Some bs, w') \<longrightarrow> length bs \<le> n)
     \<and> (\<forall>w. \<forall>n \<in> set (ble_notifications h w). length n \<le> 64)"

lemma render_image_good: "host_ok h \<Longrightarrow> render_image h d = Some r \<Longrightarrow> good_ras r"
  by (auto simp: host_ok_def render_image_def good_opt_def split: option.splits if_splits)

lemma compose_lines_page_good:
  "host_ok h \<Longrightarrow> compose_lines_page h ls w = ((Some r, ls'), w') \<Longrightarrow> good_ras r"
  unfolding host_ok_def good_opt_def compose_lines_page_def
  by (auto simp: Let_def split: if_splits prod.splits option.splits bool.splits)

lemma compose_qr_surface_good:
  assumes "host_ok h" and "compose_qr_surface h d b w = (Some (r, j), w')"
  shows "good_ras r"
proof -
  have "\<exists>surf w. surf_export h surf w = Some r"
    using assms(2) by (auto simp: compose_qr_surface_def Let_def
        split: prod.splits option.splits bool.splits)
  then show ?thesis using assms(1) by (force simp: host_ok_def good_opt_def split: option.splits)
qed

section \<open>Stacking\<close>

lemma length_blit: "blit at src dst = Some d \<Longrightarrow> length d = length dst"
  by (auto simp: blit_def split: if_splits)

lemma stack_row_Some:
  assumes "good_ras a" and "y < height a" and "stride a \<le> st_out"
    and "(y0 + height a) * st_out \<le> length d"
  shows "\<exists>d'. stack_row a st_out y0 (Some d) y = Some d' \<and> length d' = length d"
proof -
  have "(y + 1) * stride a \<le> height a * stride a" using assms(2) by (intro mult_le_mono1) simp
  also have "\<dots> \<le> length (bits a)" using assms(1) by (simp add: good_ras_def ras_fits_def mult.commute)
  finally have s: "slice_get (y * stride a) ((y + 1) * stride a) (bits a)
      = Some (take (stride a) (drop (y * stride a) (bits a)))"
    by (simp add: slice_get_def)
  have "(y0 + y) * st_out + st_out \<le> (y0 + height a) * st_out"
    using mult_le_mono1 [of "y0 + y + 1" "y0 + height a" st_out] assms(2) by simp
  then have "(y0 + y) * st_out + length (take (stride a) (drop (y * stride a) (bits a))) \<le> length d"
    using assms(3,4) by simp
  then obtain d' where "blit ((y0 + y) * st_out) (take (stride a) (drop (y * stride a) (bits a))) d = Some d'"
    by (simp add: blit_def)
  then show ?thesis using s length_blit by (fastforce simp: stack_row_def)
qed

lemma stack_rows_Some:
  assumes "good_ras a" and "stride a \<le> st_out" and "(y0 + height a) * st_out \<le> length d" and "n \<le> height a"
  shows "\<exists>d'. foldl (stack_row a st_out y0) (Some d) [0..<n] = Some d' \<and> length d' = length d"
  using assms(4)
proof (induction n)
  case (Suc n)
  then obtain d' where d': "foldl (stack_row a st_out y0) (Some d) [0..<n] = Some d'" "length d' = length d"
    by auto
  then show ?case
    using stack_row_Some [of a n st_out y0 d'] assms Suc.prems by auto
qed simp

lemma stack_good:
  assumes "good_ras a" and "good_ras b"
  shows "\<exists>r. stack a b = Some r \<and> good_ras r \<and> height r = height a + height b
    \<and> stride r = max (stride a) (stride b)"
proof -
  let ?s = "max (stride a) (stride b)" and ?h = "height a + height b"
  obtain d where d: "foldl (stack_row a ?s 0) (Some (replicate (?s * ?h) 0)) [0..<height a] = Some d"
    "length d = ?s * ?h"
    using stack_rows_Some [of a ?s 0 "replicate (?s * ?h) 0" "height a"] assms(1)
    by (auto simp: algebra_simps)
  obtain e where e: "foldl (stack_row b ?s (height a)) (Some d) [0..<height b] = Some e" "length e = ?s * ?h"
    using stack_rows_Some [of b ?s "height a" d "height b"] assms(2) d(2)
    by (auto simp: algebra_simps)
  show ?thesis
    using d(1) e by (auto simp: stack_def Let_def good_ras_def ras_fits_def)
qed

lemma compose_vcard_good:
  assumes "host_ok h" and "compose_vcard h raw m w = (x, w')"
  shows "\<exists>p. x = Some p \<and> good_opt p"
proof -
  have q: "compose_qr h raw v = (Some r, v') \<Longrightarrow> good_ras r" for r v v'
    using compose_qr_surface_good [OF assms(1)] by (fastforce simp: compose_qr_def split: prod.splits)
  have g: "good_ras t \<Longrightarrow> good_ras r \<Longrightarrow> \<exists>p. map_option Some (stack t r) = Some p \<and> good_opt p" for t r
    using stack_good [of t r] by (auto simp: good_opt_def)
  show ?thesis
    using assms(2)
    by (auto simp: compose_vcard_def Let_def good_opt_Some
        intro!: g dest!: q compose_lines_page_good [OF assms(1)]
        split: if_splits prod.splits option.splits)
      (auto simp: good_opt_def dest!: q compose_lines_page_good [OF assms(1)] split: option.split)
qed

section \<open>Streaming\<close>

lemma job_rows_good:
  assumes "good_ras r" and "i \<le> j" and "j \<le> height r"
  obtains a b where "job_rows (bits r) (stride r) i j rle = Some a"
    and "job_rows (bits r) (stride r) j (height r) rle = Some b"
    and "job_rows (bits r) (stride r) i (height r) rle = Some (a @ b)"
  using job_rows_frames [OF assms(1) [unfolded good_ras_def] assms(3)]
    job_rows_frames [OF assms(1) [unfolded good_ras_def] order_refl]
    job_rows_split [OF assms(1) [unfolded good_ras_def] assms(2,3) order_refl]
  by metis

lemma refill_rows_ok:
  assumes "sending_ok wr sn" and "\<not> off sn < length (buf sn)" and "next_row sn < height (s_ras sn)"
    and "stop = min (next_row sn + ROWS_PER_REFILL) (height (s_ras sn))"
  shows "\<exists>bs. job_rows (bits (s_ras sn)) (stride (s_ras sn)) (next_row sn) stop (s_rle sn) = Some bs
    \<and> sending_ok wr (sn\<lparr>off := 0, buf := bs, next_row := stop\<rparr>)"
proof -
  have g: "good_ras (s_ras sn)" and u: "next_row sn \<le> stop" "stop \<le> height (s_ras sn)"
    using assms by (auto simp: sending_ok_def)
  obtain a b where
    "job_rows (bits (s_ras sn)) (stride (s_ras sn)) (next_row sn) stop (s_rle sn) = Some a"
    "job_rows (bits (s_ras sn)) (stride (s_ras sn)) stop (height (s_ras sn)) (s_rle sn) = Some b"
    "job_rows (bits (s_ras sn)) (stride (s_ras sn)) (next_row sn) (height (s_ras sn)) (s_rle sn) = Some (a @ b)"
    by (rule job_rows_good [OF g u])
  then show ?thesis
    using assms(1-3) u by (auto simp: sending_ok_def still_to_send_def)
qed

lemma refill_finish_ok:
  assumes "sending_ok wr sn" and "\<not> off sn < length (buf sn)" and "\<not> next_row sn < height (s_ras sn)"
  shows "\<not> finished sn \<Longrightarrow>
      sending_ok wr (sn\<lparr>off := 0, buf := job_finish (s_feed_steps sn), finished := True\<rparr>)"
    and "finished sn \<Longrightarrow> still_to_send sn = Some []"
proof -
  have "next_row sn = height (s_ras sn)" using assms by (simp add: sending_ok_def)
  moreover have "job_rows b s n n r = Some []" for b s n r by (simp add: job_rows_def)
  ultimately show "\<not> finished sn \<Longrightarrow>
      sending_ok wr (sn\<lparr>off := 0, buf := job_finish (s_feed_steps sn), finished := True\<rparr>)"
    "finished sn \<Longrightarrow> still_to_send sn = Some []"
    using assms by (auto simp: sending_ok_def still_to_send_def)
qed

definition refill_spec :: "u8 list \<Rightarrow> sending \<Rightarrow> bool \<times> sending \<Rightarrow> bool" where
  "refill_spec wr sn r \<longleftrightarrow>
    (case r of (go, sn') \<Rightarrow>
       s_ras sn' = s_ras sn \<and> s_feed_steps sn' = s_feed_steps sn \<and> s_rle sn' = s_rle sn
       \<and> (if go then sending_ok wr sn' \<and> off sn' < length (buf sn') else stream_for sn wr))"

lemma refill_ok: "sending_ok wr sn \<Longrightarrow> \<exists>r. refill sn = Some r \<and> refill_spec wr sn r"
proof (induction sn rule: refill.induct)
  case (1 sn)
  consider (more) "off sn < length (buf sn)"
    | (rows) "\<not> off sn < length (buf sn)" "next_row sn < height (s_ras sn)"
    | (fin) "\<not> off sn < length (buf sn)" "\<not> next_row sn < height (s_ras sn)" "\<not> finished sn"
    | (halt) "\<not> off sn < length (buf sn)" "\<not> next_row sn < height (s_ras sn)" "finished sn"
    by blast
  then show ?case
  proof cases
    case more
    then show ?thesis using "1.prems" by (simp add: refill.simps [of sn] refill_spec_def)
  next
    case rows
    obtain bs where bs: "job_rows (bits (s_ras sn)) (stride (s_ras sn)) (next_row sn)
        (min (next_row sn + ROWS_PER_REFILL) (height (s_ras sn))) (s_rle sn) = Some bs"
      and ok: "sending_ok wr (sn\<lparr>off := 0, buf := bs,
        next_row := min (next_row sn + ROWS_PER_REFILL) (height (s_ras sn))\<rparr>)"
      using refill_rows_ok [OF "1.prems" rows refl] by blast
    obtain r where r: "refill (sn\<lparr>off := 0, buf := bs,
        next_row := min (next_row sn + ROWS_PER_REFILL) (height (s_ras sn))\<rparr>) = Some r"
      and spec: "refill_spec wr (sn\<lparr>off := 0, buf := bs,
        next_row := min (next_row sn + ROWS_PER_REFILL) (height (s_ras sn))\<rparr>) r"
      using "1.IH"(1) [OF rows refl bs ok] by blast
    have "refill sn = Some r" using rows bs r by (simp add: refill.simps [of sn])
    moreover have "refill_spec wr sn r" using spec by (auto simp: refill_spec_def)
    ultimately show ?thesis by blast
  next
    case fin
    then obtain r where r: "refill (sn\<lparr>off := 0, buf := job_finish (s_feed_steps sn), finished := True\<rparr>) = Some r"
      and spec: "refill_spec wr (sn\<lparr>off := 0, buf := job_finish (s_feed_steps sn), finished := True\<rparr>) r"
      using "1.IH"(2) [OF fin refill_finish_ok(1) [OF "1.prems" fin]] by blast
    have "refill sn = Some r" using fin r by (simp add: refill.simps [of sn])
    moreover have "refill_spec wr sn r" using spec by (auto simp: refill_spec_def)
    ultimately show ?thesis by blast
  next
    case halt
    then show ?thesis
      using refill_finish_ok(2) [OF "1.prems" halt(1,2)] "1.prems"
      by (auto simp: refill.simps [of sn] refill_spec_def sending_ok_def)
  qed
qed

lemma inv_sending:
  "inv st \<Longrightarrow> drive st = Sending sn \<Longrightarrow> sending_ok (written (trace st)) sn \<and> pending st = None"
  by (simp add: inv_def core_def link_ok_def)

lemma inv_on_send_complete:
  assumes "host_ok h" and "calm st" and "pending st = None"
  shows "inv (on_send_complete h st)"
proof -
  have fin: "inv ((finish_job h STATUS_DONE (ui u s))\<lparr>drive := Idle\<rparr>)" if "core s = core st" for s u
    using that assms(2,3) finish_job_core [of h STATUS_DONE "ui u s"]
    by (auto simp: inv_def core_def calm_def link_ok_def good_opt_def emit_def)
  have send: "inv (begin_send h (s\<lparr>pending_lines := l, after := a, pending := Some r\<rparr>))"
    if "core s = core st" "good_ras r" for s l a r
    using that assms(2) by (intro inv_begin_send) (auto simp: calm_def core_def)
  have fail: "inv (fail_print h s)" if "core s = core st" for s
    using that assms(2) by (intro inv_fail_print) (auto simp: calm_def core_def)
  have q: "core s' = core st"
    if "hq f (st\<lparr>after := NothingAfter, pending_lines := []\<rparr>) = (x, s')"
    for f s' and x :: "ras option \<times> vcard_line list"
    using core_prims(2) [OF that] by (simp add: core_simps)
  have g: "good_ras r"
    if "hq (compose_lines_page h ls) (st\<lparr>after := NothingAfter, pending_lines := []\<rparr>) = ((Some r, l), s')"
    for ls r l s'
    using that compose_lines_page_good [OF assms(1)]
    by (auto simp: hq_def intro: prod_eqI) (metis prod.collapse)
  show ?thesis
    by (auto simp: on_send_complete_def Let_def core_simps split: after_print.split prod.split option.split
        intro: fin send fail q g)
qed

lemma sending_ok_set [simp]:
  "sending_ok wr (sn\<lparr>gated := b\<rparr>) = sending_ok wr sn"
  "sending_ok wr (sn\<lparr>since_gate := g\<rparr>) = sending_ok wr sn"
  "sending_ok wr (sn\<lparr>paused_since := p\<rparr>) = sending_ok wr sn"
  by (simp_all add: sending_ok_def still_to_send_def)

lemma sending_ok_advance:
  assumes "sending_ok wr sn" and "m = min (off sn + chunk) (length (buf sn))"
  shows "sending_ok (wr @ take (m - off sn) (drop (off sn) (buf sn))) (sn\<lparr>off := m\<rparr>)"
proof -
  let ?data = "take (m - off sn) (drop (off sn) (buf sn))"
  have "drop (off sn) (buf sn) = take chunk (drop (off sn) (buf sn)) @ drop (off sn + chunk) (buf sn)"
    by (metis append_take_drop_id drop_drop add.commute)
  then have "?data @ drop m (buf sn) = drop (off sn) (buf sn)"
    unfolding assms(2) by (auto simp: min_def)
  then have whole: "?data @ drop m (buf sn) @ z = drop (off sn) (buf sn) @ z" for z
    by (metis append_assoc)
  show ?thesis
    using assms(1) by (auto simp: sending_ok_def still_to_send_def whole)
qed

lemma inv_write_step:
  assumes "inv st" and "drive st = Sending sn"
  shows "inv (write_step h chunk props sn st)"
proof -
  define sn1 where "sn1 = sn\<lparr>paused_since := None\<rparr>"
  define m where "m = min (off sn1 + chunk) (length (buf sn1))"
  define data where "data = take (m - off sn1) (drop (off sn1) (buf sn1))"
  define rsp where "rsp = needs_response props sn1 (finished sn1 \<and> m = length (buf sn1))"
  have ok: "sending_ok (written (trace st)) sn1" and c: "calm st" and p: "pending st = None"
    using inv_sending [OF assms] inv_calm [OF assms(1)] by (auto simp: sn1_def)
  have adv: "sending_ok (written (trace st) @ data) (sn1\<lparr>off := m\<rparr>)"
    using sending_ok_advance [OF ok m_def] by (simp add: data_def)
  show ?thesis
  proof (cases "hq (ble_write_char h (conn st) (tx_handle st) data rsp) (st\<lparr>drive := Sending sn1\<rparr>)")
    case (Pair b st1)
    have st1: "calm st1" "pending st1 = None" "written (trace st1) = written (trace st)"
      using c p hq_frame [OF Pair] core_fields [OF core_prims(2) [OF Pair]] by (auto simp: calm_def)
    have ws: "write_step h chunk props sn st =
      (if b then (emit (Wrote data rsp) st1)\<lparr>drive := Sending (if rsp then sn1\<lparr>off := m, gated := True, since_gate := 0\<rparr>
           else sn1\<lparr>off := m, since_gate := since_gate sn1 + 1\<rparr>)\<rparr>
       else fail_print h st1)"
      using Pair by (simp add: write_step_def Let_def sn1_def [symmetric] m_def [symmetric]
          data_def [symmetric] rsp_def [symmetric])
    have "inv ((emit (Wrote data rsp) st1)\<lparr>drive := Sending s\<rparr>)"
      if "sending_ok (written (trace st) @ data) s" for s
      using st1 that by (auto simp: inv_def core_def calm_def good_opt_def link_ok_def emit_def)
    then show ?thesis
      unfolding ws using adv by (simp add: inv_fail_print [OF st1(1)])
  qed
qed

lemma inv_pump_send:
  assumes "host_ok h" and "inv st"
  shows "inv (pump_send h st)"
proof (cases "chunk_size h st")
  case (Pair k st1)
  have "core st1 = core st"
    using Pair by (auto simp: chunk_size_def Let_def core_simps split: prod.splits)
  then have i: "inv st1" using assms(2) inv_core by blast
  show ?thesis
  proof (cases "drive st1")
    case (Sending sn)
    obtain go sn' where r: "refill sn = Some (go, sn')" and spec: "refill_spec (written (trace st1)) sn (go, sn')"
      using refill_ok inv_sending [OF i Sending] by fast
    have f: "refill_send_buffer st1 = (go, st1\<lparr>drive := Sending sn'\<rparr>)"
      using Sending r by (simp add: refill_send_buffer_def)
    have c: "calm st1" "pending st1 = None" using inv_calm [OF i] inv_sending [OF i Sending] by auto
    have t: "\<not> trapped st1" using c by (simp add: calm_def)
    have "inv (on_send_complete h (st1\<lparr>drive := Sending sn'\<rparr>))"
      using c by (intro inv_on_send_complete [OF assms(1)]) (auto simp: calm_def)
    moreover have "inv (st1\<lparr>drive := Sending sn'\<rparr>)" if go
      using i that spec Sending by (auto simp: refill_spec_def inv_def core_def link_ok_def)
    ultimately show ?thesis
      using Pair Sending f t i
      by (auto simp: pump_send_def Let_def intro!: inv_write_step)
  qed (use Pair i in \<open>auto simp: pump_send_def Let_def\<close>)
qed

section \<open>The other operations\<close>

lemma inv_scan_finished:
  assumes "inv st" and "drive st = Scanning"
  shows "inv (scan_finished h st)"
proof -
  have fail: "inv (clear_queue h (ui u s\<lparr>drive := Idle\<rparr>))" if "core s = core st" for s u
    using that inv_calm [OF assms(1)] by (intro inv_clear_queue) (auto simp: calm_def core_def emit_def)
  have conn: "inv (s\<lparr>drive := Connecting t\<rparr>)" if "core s = core st" "pending st \<noteq> None" for s t
    using that assms by (auto simp: inv_def core_def link_ok_def)
  have idle: "inv (s\<lparr>drive := Idle, last_scan_ms := t\<rparr>)" if "core s = core st" "pending st = None" for s t
    using that assms by (auto simp: inv_def core_def link_ok_def)
  have idle': "inv (render_scan_list h (s\<lparr>drive := Idle, last_scan_ms := t\<rparr>))"
    if "core s = core st" "pending st = None" for s t
    using idle [OF that] inv_core [OF core_menus(9)] by blast
  have q: "core s' = core s" if "hq f s = (a, s')" for f s a and s' :: "'a pst"
    using core_prims(2) [OF that] .
  show ?thesis
    by (auto simp: scan_finished_def Let_def core_simps hq_frame dest: q
        intro!: fail conn idle idle' split: prod.split bool.split option.split)
qed

lemma inv_on_connected:
  assumes "inv st" and "pending st \<noteq> None" and "\<forall>sn. drive st \<noteq> Sending sn"
  shows "inv (on_connected h st)"
proof -
  have fail: "inv (fail_print h s)" if "core s = core st" for s
    using that inv_calm [OF assms(1)] by (intro inv_fail_print) (auto simp: calm_def core_def)
  have disc: "inv (s\<lparr>drive := Discovering t\<rparr>)" if "core s = core st" for s t
    using that assms by (auto simp: inv_def core_def link_ok_def)
  have same: "inv s" if "core s = core st" for s using that assms(1) inv_core by blast
  have q: "core s' = core st" if "hq f s = (a, s')" "core s = core st" for f s a and s' :: "'a pst"
    using core_prims(2) [OF that(1)] that(2) by simp
  show ?thesis
    by (auto simp: on_connected_def Let_def core_simps dest!: q
        intro!: fail disc intro: same split: prod.split bool.split)
qed

lemma core_pick_chars: "core (foldl pick_char st cs) = core st"
proof (induction cs arbitrary: st)
  case (Cons c cs)
  show ?case by (simp add: Cons.IH) (simp add: pick_char_def core_simps)
qed simp

lemma inv_on_discovered:
  assumes "inv st" and "\<forall>sn. drive st \<noteq> Sending sn"
  shows "inv (on_discovered h st)"
proof -
  have fail: "inv (fail_print h s)" if "core s = core st" for s
    using that inv_calm [OF assms(1)] by (intro inv_fail_print) (auto simp: calm_def core_def)
  have send: "inv (begin_send h s)" if "core s = core st" for s
  proof -
    have s: "inv s" "calm s" "\<forall>sn. drive s \<noteq> Sending sn"
      using that assms inv_core inv_calm core_fields(1) [OF that] by auto
    show ?thesis
    proof (cases "pending s")
      case None
      then have "\<not> job_active s" using s(1,3) by (auto simp: inv_def core_def link_ok_def split: drive.splits)
      then show ?thesis using inv_begin_send_none [OF s(2) None] by simp
    next
      case (Some r)
      then have "good_ras r" using s(1) by (simp add: inv_def core_def good_opt_def)
      then show ?thesis using inv_begin_send [OF s(2) Some] by simp
    qed
  qed
  show ?thesis
    by (auto simp: on_discovered_def Let_def core_simps core_pick_chars
        intro!: fail send split: prod.split)
qed

text \<open>\<open>print_text\<close> either leaves the core alone or starts a print.\<close>

lemma print_text_cases:
  assumes "host_ok h" and "calm st"
  shows "core (snd (print_text h t st)) = core st \<and> \<not> fst (print_text h t st)
    \<or> inv (snd (print_text h t st)) \<and> fst (print_text h t st)"
proof (cases "drive st = Idle")
  case True
  let ?ls = "map (\<lambda>l. \<lparr>headline = False, vtext = l\<rparr>) (str_lines t)"
  obtain r ls st1 where q: "hq (compose_lines_page h ?ls) st = ((r, ls), st1)" by (metis prod.exhaust)
  have c: "core st1 = core st" by (rule core_prims(2) [OF q])
  show ?thesis
  proof (cases r)
    case None
    then show ?thesis using True q c by (simp add: print_text_def drive_idle_def)
  next
    case (Some ras)
    have "compose_lines_page h ?ls (world st) = ((Some ras, ls), snd (compose_lines_page h ?ls (world st)))"
      using q Some by (auto simp: hq_def intro: prod_eqI)
    then have g: "good_ras ras" by (rule compose_lines_page_good [OF assms(1)])
    have "calm (st1\<lparr>pending_lines := ls\<rparr>)" "drive (st1\<lparr>pending_lines := ls\<rparr>) = Idle"
      using c assms(2) True core_fields [OF c] by (auto simp: calm_def)
    then have "inv (snd (start_print h ras a (st1\<lparr>pending_lines := ls\<rparr>)))"
      and "fst (start_print h ras a (st1\<lparr>pending_lines := ls\<rparr>))" for a
      using inv_start_print_idle [OF _ _ g] by blast+
    then show ?thesis
      using q Some True by (simp add: print_text_def drive_idle_def)
  qed
qed (simp add: print_text_def drive_idle_def)

lemma inv_print_text:
  assumes "host_ok h" and "inv st" shows "inv (snd (print_text h t st))"
  using print_text_cases [OF assms(1) inv_calm [OF assms(2)], of t] assms(2) inv_core by blast

lemma inv_print_text' [dest]:
  "print_text h t st = (b, st') \<Longrightarrow> host_ok h \<Longrightarrow> inv st \<Longrightarrow> inv st'"
  using inv_print_text [of h st t] by simp

lemma inv_print_file:
  assumes "host_ok h" and "inv st" shows "inv (print_file h n st)"
  using assms
  by (auto simp: print_file_def Let_def intro: inv_start_print_ui render_image_good
      split: option.split prod.split bool.split)

lemma ras_of_job_good: "raster_parse p = Some j \<Longrightarrow> good_ras (ras_of_job j)"
  using raster_parse_ok [of p j] by (simp add: good_ras_def ras_fits_def ras_of_job_def raster_ok_def)

lemma inv_handle_job_frame:
  assumes "host_ok h" and "inv st" shows "inv (snd (handle_job_frame h f st))"
  using assms
  by (auto simp: handle_job_frame_def intro: inv_print_text inv_start_print render_image_good ras_of_job_good
      split: option.split)

lemma receive_job_no_panic:
  "host_ok h \<Longrightarrow> fst (receive_job h s d bs want w) \<noteq> Panicked"
proof (induction h s d bs want w rule: receive_job.induct)
  case (1 h s d bs want w)
  show ?case
  proof (cases "uptime_ms h w")
    case (Pair now w1)
    show ?thesis
    proof (cases "tcp_read h s 2048 NET_READ_TIMEOUT_MS w1")
      case p: (Pair rd w2)
      have len: "length c \<le> 2048" if "rd = Some c" for c
        using "1.prems" p that unfolding host_ok_def by blast
      show ?thesis
        using "1.IH" [OF Pair [symmetric] _ p [symmetric]] "1.prems" Pair p len
        by (subst receive_job.simps) (auto split: option.split)
    qed
  qed
qed

lemma inv_serve_net_job:
  assumes "host_ok h" and "inv st" shows "inv (serve_net_job h s st)"
proof -
  have np: "fst (receive_job h s d [] None w) \<noteq> Panicked" for d w
    by (rule receive_job_no_panic [OF assms(1)])
  have rp: "inv (reply h s m st') = inv st'" for m st' by (rule inv_core) (rule core_simps)
  have hj: "handle_job_frame h f st1 = (b, st') \<Longrightarrow> inv st1 \<Longrightarrow> inv st'" for f st1 b st'
    using inv_handle_job_frame [OF assms(1), of st1 f] by simp
  have "hq (receive_job h s d [] None) st1 \<noteq> (Panicked, st2)" for d st1 st2
    using np [of d "world st1"] by (auto simp: hq_def)
  then show ?thesis
    using assms(2) by (auto simp: serve_net_job_def rp dest: hj split: prod.split receive.split)
qed

lemma inv_exit: "inv st \<Longrightarrow> inv (plugin_on_exit h st)"
proof -
  assume i: "inv st"
  have c: "core (reset_link h s) = core s" for s by (rule core_simps)
  have e: "inv (clear_queue h (reset_link h (st\<lparr>scan_menu := False\<rparr>)\<lparr>drive := Idle\<rparr>))"
    using inv_calm [OF i] core_fields(3,5) [OF c, of "st\<lparr>scan_menu := False\<rparr>"]
    by (intro inv_clear_queue) (auto simp: calm_def)
  have s: "inv (st\<lparr>scan_menu := False\<rparr>)" using i inv_core [OF core_sets(11)] by blast
  show ?thesis
    by (cases "drive st") (auto simp: plugin_on_exit_def Let_def e s)
qed

lemma inv_tick:
  assumes "host_ok h" and "inv st" shows "inv (plugin_on_tick h t st)"
proof -
  let ?s = "st\<lparr>now_ms := t\<rparr>"
  have i: "inv ?s" using assms(2) inv_core [OF core_sets(10)] by blast
  have same: "inv s" if "core s = core ?s" for s using that i inv_core by blast
  have fail: "inv (fail_print h s)" if "core s = core ?s" for s
    using that inv_calm [OF same [OF that]] by (rule_tac inv_fail_print)
  have q: "core s' = core ?s" if "hq f s = (a, s')" "core s = core ?s" for f s a and s' :: "'a pst"
    using core_prims(2) [OF that(1)] that(2) by simp
  show ?thesis
  proof (cases "drive st")
    case Idle
    have "inv (s\<lparr>drive := Scanning\<rparr>)" if "core s = core ?s" for s
      using that i Idle by (auto simp: inv_def core_def link_ok_def)
    then show ?thesis
      using Idle i by (auto simp: plugin_on_tick_def Let_def dest!: q intro: same split: prod.split)
  next
    case Scanning
    have "inv (scan_finished h s)" if "core s = core ?s" for s
      using inv_scan_finished [OF same [OF that]] core_fields(1) [OF that] Scanning by simp
    then show ?thesis
      using Scanning i
      by (auto simp: plugin_on_tick_def Let_def core_simps dest!: core_prims(2) intro: same split: prod.split)
  next
    case (Connecting since)
    have con: "inv (on_connected h s)" if "core s = core ?s" for s
      using that core_fields(1,2) [OF that] i Connecting
      by (intro inv_on_connected [OF same [OF that]]) (auto simp: inv_def core_def link_ok_def)
    have sp: "core s' = core ?s" if "is_saved_printer h c s = (b, s')" "core s = core ?s" for c s b s'
      using core_server(4) [of h c s] that by simp
    have "inv (case (if c \<noteq> 0 then is_saved_printer h c s else (False, s)) of
                 (True, st) \<Rightarrow> on_connected h st
               | (False, st) \<Rightarrow> if sat_sub t since > CONNECT_TIMEOUT_MS then fail_print h st else st)"
      if "core s = core ?s" for c s
      using that by (auto dest: sp intro: con fail same split: prod.split bool.split)
    moreover obtain c s where "hq (ble_conn_handle h) ?s = (c, s)" by (rule prod.exhaust)
    moreover have "core s = core ?s" by (rule core_prims(2)) fact
    moreover have "drive ?s = Connecting since" using Connecting by simp
    ultimately show ?thesis
      by (simp only: plugin_on_tick_def Let_def drive.case prod.case)
  next
    case (Discovering since)
    then show ?thesis using i fail by (auto simp: plugin_on_tick_def Let_def)
  next
    case (Sending sn)
    then show ?thesis using inv_pump_send [OF assms(1) i] by (simp add: plugin_on_tick_def Let_def)
  qed
qed

lemma inv_notify:
  assumes "host_ok h" and "inv st" shows "inv (act_notify h st)"
proof -
  have stat: "inv (on_status now s st)" if "inv st" for now s and st :: "'a pst"
    using that by (auto simp: on_status_def inv_def core_def link_ok_def split: drive.split)
  have loop: "inv (snd (notify_loop now ns k st))"
    if "inv st" "\<forall>n\<in>set ns. length n \<le> 64" for now ns k and st :: "'a pst"
    using that
    by (induction now ns k st rule: notify_loop.induct) (auto simp: stat split: option.split)
  have "inv (hx f st) = inv st" for f and st :: "'a pst" by (rule inv_core) (rule core_simps)
  moreover have "\<forall>n\<in>set (ble_notifications h (world st)). length n \<le> 64"
    using assms(1) by (simp add: host_ok_def)
  ultimately show ?thesis
    using loop [OF assms(2)] by (auto simp: act_notify_def split: prod.split) (metis snd_conv)
qed

lemma inv_write_done: "inv st \<Longrightarrow> inv (act_write_done h i u st)"
  using inv_fail_print [OF inv_calm, of st h]
  by (auto simp: act_write_done_def inv_def core_def link_ok_def split: drive.split)

lemma inv_print_vcard:
  assumes "host_ok h" and "inv st" shows "inv (print_vcard h r m st)"
proof (cases "hq (compose_vcard h r m) st")
  case (Pair x st1)
  have "compose_vcard h r m (world st) = (x, snd (compose_vcard h r m (world st)))"
    using Pair by (auto simp: hq_def intro: prod_eqI)
  then obtain p where "x = Some p" "good_opt p" using compose_vcard_good [OF assms(1)] by blast
  then show ?thesis
    using Pair assms(2) inv_hq [OF Pair]
    by (auto simp: print_vcard_def good_opt_def intro: inv_start_print_ui split: option.splits)
qed

lemma inv_offer: "inv st \<Longrightarrow> good_ras r \<Longrightarrow> inv (offer_output h r j st)"
  by (simp add: offer_output_def Let_def) (simp add: inv_def core_def good_opt_def)

lemma inv_t9:
  assumes "host_ok h" and "inv st" shows "inv (act_t9_qr h st)"
proof -
  have "inv (compose_and_offer_qr h d s)" if "inv s" for d s
  proof (cases "hq (compose_qr_surface h d True) s")
    case (Pair x s1)
    have "compose_qr_surface h d True (world s) = (x, snd (compose_qr_surface h d True (world s)))"
      using Pair by (auto simp: hq_def intro: prod_eqI)
    then show ?thesis
      using Pair that inv_hq [OF Pair] compose_qr_surface_good [OF assms(1)]
      by (auto simp: compose_and_offer_qr_def intro!: inv_offer split: option.split)
  qed
  then show ?thesis
    using assms(2) by (auto simp: act_t9_qr_def Let_def split: prod.split option.split)
qed

lemma inv_output: "inv st \<Longrightarrow> inv (act_output h u st)"
proof -
  assume i: "inv st"
  let ?s = "st\<lparr>composed := None, composed_jpg := None\<rparr>"
  have s: "inv ?s" using i by (simp add: inv_def core_def good_opt_def)
  have g: "composed st = Some r \<Longrightarrow> good_ras r" for r
    using i by (simp add: inv_def core_def good_opt_def)
  have "inv (hx f s') = inv s'" for f and s' :: "'a pst" by (rule inv_core) (rule core_simps)
  then show ?thesis
    using s by (auto simp: act_output_def Let_def intro!: inv_start_print_ui g
        split: prod.split option.split bool.split)
qed

lemma inv_job:
  assumes "host_ok h" and "inv st" shows "inv (act_job h st)"
proof (cases "hq (feature_consume_job h FEATURE_PAYLOAD_MAX) st")
  case (Pair d st0)
  define st1 where "st1 = emit Took_job st0"
  have i: "inv st1" "inv st0"
    using assms(2) inv_hq [OF Pair] inv_core [OF core_prims(6)] by (auto simp: st1_def)
  have rep: "inv (emit (Report k) (hx f s)) = inv s" for k f and s :: "'a pst"
    by (rule inv_core) (simp add: core_simps)
  let ?j = "st1\<lparr>job_active := True\<rparr>"
  have c: "calm ?j" using inv_calm [OF i(1)] by (simp add: calm_def)
  have fin: "inv (finish_job h k s)" if "core s = core ?j" "drive st1 = Idle" for k s
    using that i(1) finish_job_core [of h k s]
    by (auto simp: inv_def core_def link_ok_def)
  have "inv (case (case raster_parse x of
                  Some j \<Rightarrow> start_print h (ras_of_job j) NothingAfter ?j
                | None \<Rightarrow> (case parse_text x of Some t \<Rightarrow> print_text h t ?j | None \<Rightarrow> (False, ?j))) of
            (started, st) \<Rightarrow> if started then st else finish_job h STATUS_ERROR st)"
    if idle: "drive st1 = Idle" for x
  proof (cases "raster_parse x")
    case (Some j)
    then show ?thesis
      using inv_start_print_idle [OF c _ ras_of_job_good [OF Some], of h NothingAfter] idle
      by (auto split: prod.split)
  next
    case None
    have "inv (if started then s else finish_job h STATUS_ERROR s)"
      if "print_text h t ?j = (started, s)" for t started s
      using print_text_cases [OF assms(1) c, of t] that fin [OF _ idle] by auto
    then show ?thesis using None fin [OF refl idle] by (auto split: option.split prod.split)
  qed
  then show ?thesis
    using Pair i rep by (auto simp: act_job_def Let_def st1_def [symmetric] drive_idle_def split: option.split)
qed

lemma inv_action:
  assumes "host_ok h" and "inv st" and "a = ACT_DISCOVERED \<longrightarrow> (\<forall>sn. drive st \<noteq> Sending sn)"
  shows "inv (plugin_on_action h a i u st)"
proof -
  have n: "inv (case hq (net_accept h) st of (Some stream, st) \<Rightarrow>
            let st = serve_net_job h stream st
            in if trapped st then st else hx (socket_close h stream) st
        | (None, st) \<Rightarrow> st)"
  proof -
    have "inv (hx f s) = inv s" for f and s :: "'a pst" by (rule inv_core) (rule core_simps)
    then show ?thesis
      using assms(2) inv_serve_net_job [OF assms(1)]
      by (auto simp: Let_def split: prod.split option.split)
  qed
  have v: "inv (case x of Some raw \<Rightarrow> print_vcard h raw m st | None \<Rightarrow> st)" for x m
    using assms inv_print_vcard by (auto split: option.split)
  have neutral: "core s = core st \<Longrightarrow> inv s" for s using assms(2) inv_core by blast
  have scan: "inv (act_printer_menu h u st)"
  proof -
    have "inv (start_scan h False (st\<lparr>scan_menu := False\<rparr>))" if "drive st = Idle"
      using that assms(2) inv_idle [OF assms(2) that]
      by (intro inv_start_scan) (auto simp: calm_def inv_def core_def)
    moreover have "inv (st\<lparr>scan_menu := False\<rparr>)" by (rule neutral) (rule core_simps)
    moreover have "inv (ui x (toggle_server h (st\<lparr>scan_menu := False\<rparr>)))" for x
      by (rule neutral) (simp add: core_simps)
    ultimately show ?thesis
      by (simp add: act_printer_menu_def Let_def drive_idle_def)
  qed
  have jpeg: "inv (act_msg_jpeg h st)"
    using assms by (auto simp: act_msg_jpeg_def intro: inv_start_print_ui render_image_good
        split: prod.split option.split)
  have fil: "inv (print_file h x st)" for x by (rule inv_print_file [OF assms(1,2)])
  have acts: "inv (act_top h u st)" "inv (act_print_menu h u st)"
    "inv (mode_menu h ACT_MODE_RECV (st\<lparr>picked_vcard := ucast i\<rparr>))" "inv (act_scan_list h i st)"
    "inv (st\<lparr>scan_menu := False\<rparr>)" "inv (st\<lparr>scan_menu := True, last_scan_ms := 0\<rparr>)"
    "inv (act_settings h u st)" "inv (act_port_input h st)" "inv (act_slider h a st)"
    by (rule neutral, simp add: core_simps)+
  note rest = inv_t9 [OF assms(1,2)] inv_job [OF assms(1,2)] inv_output [OF assms(2)]
    inv_notify [OF assms(1,2)] inv_write_done [OF assms(2)] assms(2)
  have inv_if: "inv (if c then x else y) = (if c then inv x else inv y)" for c x y by simp
  show ?thesis
  proof (cases "a = ACT_DISCOVERED")
    case True
    then have "plugin_on_action h a i u st = on_discovered h st"
      by (simp add: plugin_on_action_def act_defs)
    then show ?thesis using inv_on_discovered [OF assms(2)] assms(3) True by simp
  next
    case False
    then show ?thesis
      unfolding plugin_on_action_def
      by (simp only: inv_if scan jpeg n v fil acts rest if_cancel if_False)
  qed
qed

lemma inv_cmd:
  assumes "host_ok h" and "inv st" shows "inv (plugin_on_cmd h st)"
  using assms
  by (auto simp: plugin_on_cmd_def Let_def intro: inv_print_text inv_print_file
      split: prod.split option.split)

definition expected :: "'w pst \<Rightarrow> entry \<Rightarrow> bool" where
  "expected st e \<longleftrightarrow> (\<forall>i u. e = Act ACT_DISCOVERED i u \<longrightarrow> (\<forall>sn. drive st \<noteq> Sending sn))"

lemma inv_call:
  assumes "host_ok h" and "inv st" and "expected st e"
  shows "inv (call h e st)"
proof (cases e)
  case Init
  have "core (plugin_init h st) = core st" by (simp add: plugin_init_def core_simps)
  then show ?thesis using Init assms(2) inv_core by fastforce
next
  case Enter
  have "core (plugin_on_enter h st) = core st" by (simp add: plugin_on_enter_def core_simps)
  then show ?thesis using Enter assms(2) inv_core by fastforce
next
  case (Act a i u)
  then show ?thesis using inv_action [OF assms(1,2)] assms(3) by (auto simp: expected_def)
qed (use assms inv_exit inv_cmd inv_tick in simp_all)

section \<open>Runs of the plugin\<close>

text \<open>States reached from the initial one by expected calls.\<close>

inductive reach :: "'w phost \<Rightarrow> 'w pst \<Rightarrow> bool" for h where
  reach_init: "reach h (defaults w)"
| reach_step: "reach h st \<Longrightarrow> expected st e \<Longrightarrow> step h st e st' \<Longrightarrow> reach h st'"

lemma inv_step:
  assumes "host_ok h" and "inv st" and "expected st e" and "step h st e st'"
  shows "inv st'"
proof -
  obtain w where st': "st' = call h e (st\<lparr>world := w\<rparr>)" using assms(4) by (cases rule: step.cases) blast
  have "inv (st\<lparr>world := w\<rparr>)" by (simp add: inv_core [OF core_sets(17)] assms(2))
  moreover have "expected (st\<lparr>world := w\<rparr>) e" using assms(3) by (simp add: expected_def)
  ultimately show ?thesis unfolding st' by (rule inv_call [OF assms(1)])
qed

lemma reach_inv: "reach h st \<Longrightarrow> host_ok h \<Longrightarrow> inv st"
proof (induction rule: reach.induct)
  case (reach_step st e st')
  show ?case by (rule inv_step [OF reach_step(5) reach_step(4) [OF reach_step(5)] reach_step(2,3)])
qed (simp add: inv_defaults)

lemma reach_balance: "reach h st \<Longrightarrow> host_ok h \<Longrightarrow> balance st = 0"
proof (induction rule: reach.induct)
  case (reach_init w)
  show ?case by (simp add: balance_def defaults_def)
next
  case (reach_step st e st')
  obtain w where st': "st' = call h e (st\<lparr>world := w\<rparr>)" using reach_step(3) by (cases rule: step.cases) blast
  have "inv st" by (rule reach_inv [OF reach_step(1,5)])
  then have "drive_idle (st\<lparr>world := w\<rparr>) \<longrightarrow> \<not> job_active (st\<lparr>world := w\<rparr>)"
    by (auto simp: drive_idle_def inv_def core_def link_ok_def)
  then have "balance st' = balance (st\<lparr>world := w\<rparr>)" unfolding st' by (rule balance_call)
  then show ?case using reach_step(4) [OF reach_step(5)] by (simp add: frame_simps)
qed

end
