(* ===== verification/Printer_Flow.thy ===== *)
theory Printer_Flow
  imports Printer_Inv
begin

text \<open>
  The flow of one transfer and of the calls around it: what a tick writes, that an accepting
  printer receives everything in boundedly many ticks, that nothing but the printer's own
  actions touches a running transfer, the timeouts of the link, and the bound on a network job.
\<close>

section \<open>Progress of a transfer\<close>

definition bytes_left :: "sending \<Rightarrow> nat" where
  "bytes_left sn = (case still_to_send sn of Some bs \<Rightarrow> length bs | None \<Rightarrow> 0)"

definition accepts :: "'w phost \<Rightarrow> bool" where
  "accepts h \<longleftrightarrow> (\<forall>c x d b w. fst (ble_write_char h c x d b w))"

lemma bytes_left_set [simp]:
  "bytes_left (sn\<lparr>gated := b\<rparr>) = bytes_left sn" "bytes_left (sn\<lparr>since_gate := g\<rparr>) = bytes_left sn"
  "bytes_left (sn\<lparr>paused_since := p\<rparr>) = bytes_left sn"
  by (simp_all add: bytes_left_def still_to_send_def split: option.split)

lemma bytes_left_advance:
  assumes "sending_ok wr sn" and "off sn < length (buf sn)" and "0 < chunk"
    and "m = min (off sn + chunk) (length (buf sn))"
  shows "bytes_left (sn\<lparr>off := m\<rparr>) < bytes_left sn"
  using assms
  by (auto simp: sending_ok_def bytes_left_def still_to_send_def)

lemma write_step_accepted:
  assumes "accepts h" and "sn1 = sn\<lparr>paused_since := None\<rparr>"
    and "m = min (off sn1 + chunk) (length (buf sn1))"
    and "rsp = needs_response props sn1 (finished sn1 \<and> m = length (buf sn1))"
  shows "drive (write_step h chunk props sn st)
      = Sending (if rsp then sn1\<lparr>off := m, gated := True, since_gate := 0\<rparr>
                 else sn1\<lparr>off := m, since_gate := since_gate sn1 + 1\<rparr>)"
    and "tx_props (write_step h chunk props sn st) = tx_props st"
    and "written (trace (write_step h chunk props sn st))
      = written (trace st) @ take (m - off sn) (drop (off sn) (buf sn))"
  using assms(1) unfolding assms(2-4)
  by (simp_all add: write_step_def Let_def hq_def emit_def accepts_def)

text \<open>The first refill leaves the bytes still to be sent unchanged.\<close>

lemma refill_bytes_left:
  "sending_ok wr sn \<Longrightarrow> refill sn = Some (True, sn') \<Longrightarrow>
    bytes_left sn' = bytes_left sn \<and> gated sn' = gated sn"
proof (induction sn rule: refill.induct)
  case (1 sn)
  consider (more) "off sn < length (buf sn)"
    | (rows) "\<not> off sn < length (buf sn)" "next_row sn < height (s_ras sn)"
    | (fin) "\<not> off sn < length (buf sn)" "\<not> next_row sn < height (s_ras sn)" "\<not> finished sn"
    | (halt) "\<not> off sn < length (buf sn)" "\<not> next_row sn < height (s_ras sn)" "finished sn"
    by blast
  then show ?case
  proof cases
    case more
    then show ?thesis using "1.prems" by (simp add: refill.simps [of sn])
  next
    case rows
    let ?stop = "min (next_row sn + ROWS_PER_REFILL) (height (s_ras sn))"
    have g: "good_ras (s_ras sn)" and le: "next_row sn \<le> ?stop" "?stop \<le> height (s_ras sn)"
      using "1.prems" rows by (auto simp: sending_ok_def)
    obtain a b where ab: "job_rows (bits (s_ras sn)) (stride (s_ras sn)) (next_row sn) ?stop (s_rle sn) = Some a"
      "job_rows (bits (s_ras sn)) (stride (s_ras sn)) ?stop (height (s_ras sn)) (s_rle sn) = Some b"
      "job_rows (bits (s_ras sn)) (stride (s_ras sn)) (next_row sn) (height (s_ras sn)) (s_rle sn) = Some (a @ b)"
      by (rule job_rows_good [OF g le])
    obtain bs where bs: "job_rows (bits (s_ras sn)) (stride (s_ras sn)) (next_row sn) ?stop (s_rle sn) = Some bs"
      and ok: "sending_ok wr (sn\<lparr>off := 0, buf := bs, next_row := ?stop\<rparr>)"
      using refill_rows_ok [OF "1.prems"(1) rows refl] by blast
    have "refill (sn\<lparr>off := 0, buf := bs, next_row := ?stop\<rparr>) = Some (True, sn')"
      using "1.prems"(2) rows bs by (simp add: refill.simps [of sn])
    moreover have "bytes_left (sn\<lparr>off := 0, buf := bs, next_row := ?stop\<rparr>) = bytes_left sn"
      using ab bs rows by (simp add: bytes_left_def still_to_send_def)
    ultimately show ?thesis using "1.IH"(1) [OF rows refl bs ok] by simp
  next
    case fin
    have "refill (sn\<lparr>off := 0, buf := job_finish (s_feed_steps sn), finished := True\<rparr>) = Some (True, sn')"
      using "1.prems"(2) fin by (simp add: refill.simps [of sn])
    moreover have "bytes_left (sn\<lparr>off := 0, buf := job_finish (s_feed_steps sn), finished := True\<rparr>) = bytes_left sn"
      using fin by (auto simp: bytes_left_def still_to_send_def split: option.split)
    ultimately show ?thesis
      using "1.IH"(2) [OF fin refill_finish_ok(1) [OF "1.prems"(1) fin]] by simp
  next
    case halt
    then show ?thesis using "1.prems" by (simp add: refill.simps [of sn])
  qed
qed

text \<open>One tick of a transfer that is not waiting, on a printer that accepts every write.\<close>

lemma tick_progress:
  assumes "accepts h" and "inv st" and "drive st = Sending sn" and "\<not> is_waiting t sn"
  shows "stream_for sn (written (trace st)) \<or>
    (\<exists>sn'. drive (plugin_on_tick h t st) = Sending sn' \<and> bytes_left sn' < bytes_left sn
      \<and> s_ras sn' = s_ras sn \<and> s_feed_steps sn' = s_feed_steps sn \<and> s_rle sn' = s_rle sn
      \<and> tx_props (plugin_on_tick h t st) = tx_props st \<and> paused_since sn' = None
      \<and> (gated sn' \<longrightarrow> gated sn \<or> (tx_props st AND PROP_WRITE \<noteq> 0) \<or> \<not> (tx_props st AND PROP_WRITE_NO_RSP \<noteq> 0 \<or> tx_props st = 0)))"
proof -
  obtain go sn1 where r: "refill sn = Some (go, sn1)" and spec: "refill_spec (written (trace st)) sn (go, sn1)"
    using refill_ok inv_sending [OF assms(2,3)] by fast
  show ?thesis
  proof (cases go)
    case False
    then show ?thesis using spec by (simp add: refill_spec_def)
  next
    case True
    have ok: "sending_ok (written (trace st)) sn1" and lt: "off sn1 < length (buf sn1)"
      and same: "s_ras sn1 = s_ras sn" "s_feed_steps sn1 = s_feed_steps sn" "s_rle sn1 = s_rle sn"
      using spec True by (auto simp: refill_spec_def)
    have left: "bytes_left sn1 = bytes_left sn" "gated sn1 = gated sn"
      using refill_bytes_left [of "written (trace st)" sn sn1] inv_sending [OF assms(2,3)] r True by auto
    define sn2 where "sn2 = sn1\<lparr>paused_since := None\<rparr>"
    obtain k w where ch: "chunk_size h (st\<lparr>now_ms := t\<rparr>) = (k, st\<lparr>now_ms := t, world := w\<rparr>)"
      by (simp add: chunk_size_def hq_def Let_def)
    define m where "m = min (off sn2 + max k 20) (length (buf sn2))"
    define rsp where "rsp = needs_response (tx_props st) sn2 (finished sn2 \<and> m = length (buf sn2))"
    have nt: "\<not> trapped st" using inv_calm [OF assms(2)] by (simp add: calm_def)
    have tick: "plugin_on_tick h t st
        = write_step h (max k 20) (tx_props st) sn1 (st\<lparr>now_ms := t, world := w, drive := Sending sn1\<rparr>)"
      using assms(3,4) r True ch nt
      by (simp add: plugin_on_tick_def pump_send_def refill_send_buffer_def Let_def)
    have d: "drive (plugin_on_tick h t st)
        = Sending (if rsp then sn2\<lparr>off := m, gated := True, since_gate := 0\<rparr>
                   else sn2\<lparr>off := m, since_gate := since_gate sn2 + 1\<rparr>)"
      unfolding tick by (rule write_step_accepted [OF assms(1) sn2_def m_def rsp_def])
    have p: "tx_props (plugin_on_tick h t st) = tx_props st"
      unfolding tick write_step_accepted(2) [OF assms(1) sn2_def m_def rsp_def] by simp
    have "bytes_left (sn2\<lparr>off := m\<rparr>) < bytes_left sn2"
      using ok lt by (intro bytes_left_advance [where wr = "written (trace st)" and chunk = "max k 20"])
        (simp_all add: sn2_def m_def)
    then have "bytes_left (sn2\<lparr>off := m\<rparr>) < bytes_left sn" by (simp add: sn2_def left)
    moreover have "rsp \<Longrightarrow> (tx_props st AND PROP_WRITE \<noteq> 0) \<or> \<not> (tx_props st AND PROP_WRITE_NO_RSP \<noteq> 0 \<or> tx_props st = 0)"
      by (auto simp: rsp_def needs_response_def Let_def)
    ultimately show ?thesis
      using d p same left by (auto simp: sn2_def)
  qed
qed

text \<open>Iterated: without response-gating every transfer completes within \<open>bytes_left\<close> ticks.\<close>

lemma transfer_finishes:
  assumes "accepts h" and "host_ok h" and "inv st" and "drive st = Sending sn" and "\<not> gated sn"
    and "paused_since sn = None" and "tx_props st = 0 \<or> tx_props st = PROP_WRITE_NO_RSP"
    and "bytes_left sn \<le> length ts"
  shows "\<exists>k \<le> length ts. \<exists>sn'. drive (fold (plugin_on_tick h) (take k ts) st) = Sending sn'
    \<and> s_ras sn' = s_ras sn \<and> stream_for sn' (written (trace (fold (plugin_on_tick h) (take k ts) st)))"
  using assms(3-)
proof (induction ts arbitrary: st sn)
  case Nil
  obtain r where "still_to_send sn = Some r" "stream_for sn (written (trace st) @ r)"
    using inv_sending [OF Nil(1,2)] by (auto simp: sending_ok_def)
  then show ?case using Nil by (auto simp: bytes_left_def)
next
  case (Cons t ts)
  have nw: "\<not> is_waiting t sn" using Cons.prems by (simp add: is_waiting_def)
  have pr: "\<not> ((tx_props st AND PROP_WRITE \<noteq> 0) \<or> \<not> (tx_props st AND PROP_WRITE_NO_RSP \<noteq> 0 \<or> tx_props st = 0))"
    using Cons.prems(5) by (auto simp: PROP_WRITE_def PROP_WRITE_NO_RSP_def)
  from tick_progress [OF assms(1) Cons.prems(1,2) nw] show ?case
  proof (elim disjE exE)
    assume "stream_for sn (written (trace st))"
    then show ?thesis using Cons.prems(2) by (intro exI [of _ 0]) auto
  next
    fix sn'
    assume p: "drive (plugin_on_tick h t st) = Sending sn' \<and> bytes_left sn' < bytes_left sn
      \<and> s_ras sn' = s_ras sn \<and> s_feed_steps sn' = s_feed_steps sn \<and> s_rle sn' = s_rle sn
      \<and> tx_props (plugin_on_tick h t st) = tx_props st \<and> paused_since sn' = None
      \<and> (gated sn' \<longrightarrow> gated sn \<or> (tx_props st AND PROP_WRITE \<noteq> 0) \<or> \<not> (tx_props st AND PROP_WRITE_NO_RSP \<noteq> 0 \<or> tx_props st = 0))"
    have i: "inv (plugin_on_tick h t st)" by (rule inv_tick [OF assms(2) Cons.prems(1)])
    have "\<not> gated sn'" and "bytes_left sn' \<le> length ts"
      and "tx_props (plugin_on_tick h t st) = 0 \<or> tx_props (plugin_on_tick h t st) = PROP_WRITE_NO_RSP"
      using p pr Cons.prems(3,5,6) by auto
    with Cons.IH [OF i] p obtain k sn2 where k: "k \<le> length ts"
      "drive (fold (plugin_on_tick h) (take k ts) (plugin_on_tick h t st)) = Sending sn2" "s_ras sn2 = s_ras sn'"
      "stream_for sn2 (written (trace (fold (plugin_on_tick h) (take k ts) (plugin_on_tick h t st))))"
      by blast
    show ?thesis
      using k p by (intro exI [of _ "Suc k"] conjI exI [of _ sn2]) simp_all
  qed
qed

section \<open>Other calls leave a transfer alone\<close>

definition link :: "'w pst \<Rightarrow> drive \<times> ras option \<times> u8 list" where
  "link st = (drive st, pending st, written (trace st))"

lemma link_core: "core s' = core s \<Longrightarrow> link s' = link s"
  by (simp add: link_def core_def)

lemma link_prims [simp]:
  "link (hx f st) = link st" "link (ui u st) = link st" "link (trap st) = link st"
  "link (emit (Report k) st) = link st" "link (emit Took_job st) = link st"
  "link (reply h s m st) = link st" "link (mode_menu h a st) = link st"
  "link (st\<lparr>composed := c\<rparr>) = link st" "link (st\<lparr>composed_jpg := j\<rparr>) = link st"
  "link (st\<lparr>picked_vcard := v\<rparr>) = link st" "link (st\<lparr>scan_menu := b\<rparr>) = link st"
  "link (st\<lparr>last_scan_ms := t\<rparr>) = link st"
  by (simp_all add: link_def hx_def trap_def emit_def reply_def mode_menu_def Let_def)

lemma link_hq [dest]: "hq f st = (r, st') \<Longrightarrow> link st' = link st"
  by (rule link_core) (rule core_prims(2))

definition busy :: "drive \<times> ras option \<times> u8 list \<Rightarrow> bool" where
  "busy l \<longleftrightarrow> fst l \<noteq> Idle"

lemma drive_idle_busy [simp]: "busy (link st) \<Longrightarrow> \<not> drive_idle st" "busy (link st) \<Longrightarrow> drive st \<noteq> Idle"
  by (simp_all add: busy_def link_def drive_idle_def)

lemma busy_ops:
  assumes "busy (link st)"
  shows "start_print h r a st = (False, st)" "link (start_print_ui h r a st) = link st"
    "print_text h t st = (False, st)" "link (print_file h n st) = link st"
    "link (snd (handle_job_frame h f st)) = link st"
  using assms
  by (auto simp: start_print_def start_print_ui_def print_text_def print_file_def handle_job_frame_def
      split: option.split)

lemma busy_serve:
  assumes "busy (link st)" shows "link (serve_net_job h s st) = link st"
proof -
  have "handle_job_frame h f st1 = (b, st') \<Longrightarrow> link st1 = link st \<Longrightarrow> link st' = link st" for f st1 b st'
    using busy_ops(5) [of st1 h f] assms by simp
  then show ?thesis
    by (auto simp: serve_net_job_def dest!: link_hq split: prod.split receive.split)
qed

lemma busy_acts:
  assumes "busy (link st)"
  shows "link (act_printer_menu h u st) = link st" "link (act_msg_jpeg h st) = link st"
    "link (act_t9_qr h st) = link st" "link (print_vcard h r m st) = link st"
    "link (act_output h u st) = link st" "link (act_job h st) = link st"
proof -
  have b: "link s = link st \<Longrightarrow> busy (link s)" for s using assms by simp
  have ts: "link (toggle_server h s) = link s" for s by (rule link_core) (rule core_simps)
  show "link (act_printer_menu h u st) = link st"
    using assms by (simp add: act_printer_menu_def Let_def drive_idle_def ts)
  show "link (act_msg_jpeg h st) = link st"
    by (auto simp: act_msg_jpeg_def busy_ops b dest!: link_hq split: prod.split option.split)
  have o: "link (offer_output h r j s) = link s" for r j s
    by (simp add: offer_output_def Let_def)
  show "link (act_t9_qr h st) = link st"
    by (auto simp: act_t9_qr_def compose_and_offer_qr_def Let_def o dest!: link_hq
        split: prod.split option.split)
  show "link (print_vcard h r m st) = link st"
    by (auto simp: print_vcard_def busy_ops b dest!: link_hq split: prod.split option.split)
  show "link (act_output h u st) = link st"
    using assms by (auto simp: act_output_def Let_def busy_ops dest!: link_hq
        split: prod.split option.split bool.split)
  show "link (act_job h st) = link st"
  proof -
    have "\<not> drive_idle (emit Took_job s)" if "link s = link st" for s
      using that b [OF that] by (intro drive_idle_busy) simp
    then show ?thesis by (auto simp: act_job_def Let_def dest!: link_hq split: prod.split option.split)
  qed
qed

lemma busy_action:
  assumes "busy (link st)" and "a \<notin> {ACT_DISCOVERED, ACT_NOTIFY, ACT_WRITE_DONE}"
  shows "link (plugin_on_action h a i u st) = link st"
proof -
  have n: "link (case hq (net_accept h) st of (Some stream, st) \<Rightarrow>
            let st = serve_net_job h stream st
            in if trapped st then st else hx (socket_close h stream) st
        | (None, st) \<Rightarrow> st) = link st"
  proof -
    have "link (serve_net_job h r s) = link st" if "link s = link st" for r s
      using busy_serve [of s h r] assms(1) that by simp
    then show ?thesis by (auto simp: Let_def dest!: link_hq split: prod.split option.split)
  qed
  have v: "link (case x of Some raw \<Rightarrow> print_vcard h raw m st | None \<Rightarrow> st) = link st" for x m
    using busy_acts(4) [OF assms(1)] by (auto split: option.split)
  have neutral: "link (act_top h u st) = link st" "link (act_print_menu h u st) = link st"
    "link (act_scan_list h i st) = link st" "link (act_settings h u st) = link st"
    "link (act_port_input h st) = link st" "link (act_slider h a st) = link st"
    by (rule link_core, rule core_simps)+
  have link_if: "link (if c then x else y) = (if c then link x else link y)" for c x y by simp
  have "a \<noteq> ACT_DISCOVERED" "a \<noteq> ACT_NOTIFY" "a \<noteq> ACT_WRITE_DONE" using assms(2) by auto
  then show ?thesis
    unfolding plugin_on_action_def
    by (simp only: link_if n v neutral busy_acts [OF assms(1)] busy_ops [OF assms(1)] link_prims
        if_cancel if_False)
qed

lemma busy_call:
  assumes "drive st \<noteq> Idle" and "\<forall>t. e \<noteq> Tick t"
    and "\<forall>a i u. e = Act a i u \<longrightarrow> a \<notin> {ACT_DISCOVERED, ACT_NOTIFY, ACT_WRITE_DONE}"
    and "e = Exit \<longrightarrow> (\<exists>sn. drive st = Sending sn)"
  shows "link (call h e st) = link st"
proof -
  have b: "busy (link st)" using assms(1) by (simp add: busy_def link_def)
  show ?thesis
  proof (cases e)
    case Init
    have "link (plugin_init h st) = link st"
      by (rule link_core) (simp add: plugin_init_def core_simps)
    then show ?thesis using Init by simp
  next
    case Cmd
    have "link (snd (print_text h x s)) = link st" "link (print_file h x s) = link st"
      if "link s = link st" for s x
      using busy_ops(3,4) [of s h x] b that by simp_all
    then show ?thesis
      using Cmd by (auto simp: plugin_on_cmd_def Let_def dest!: link_hq
          split: prod.split option.split)
  next
    case Exit
    then show ?thesis using assms(4) by (auto simp: plugin_on_exit_def Let_def link_def)
  next
    case (Act a i u)
    then show ?thesis using busy_action [OF b] assms(3) by simp
  qed (use assms(2) in \<open>simp_all add: plugin_on_enter_def push_menu_def\<close>)
qed

section \<open>Timeouts and waiting\<close>

lemma fail_print_fields:
  "drive (fail_print h st) = Idle" "pending (fail_print h st) = None"
  "pending_lines (fail_print h st) = []" "after (fail_print h st) = NothingAfter"
  "conn (fail_print h st) = 0" "tx_handle (fail_print h st) = 0" "\<not> job_active (fail_print h st)"
  by (simp_all add: fail_print_def clear_queue_def finish_job_def reset_link_def Let_def emit_def hx_def)

lemma tick_discover_timeout:
  "drive st = Discovering since \<Longrightarrow> plugin_on_tick h t st =
    (if sat_sub t since > DISCOVER_TIMEOUT_MS then fail_print h (st\<lparr>now_ms := t\<rparr>) else st\<lparr>now_ms := t\<rparr>)"
  by (simp add: plugin_on_tick_def Let_def)

lemma tick_connect_timeout:
  assumes "drive st = Connecting since" and "fst (ble_conn_handle h (world st)) = 0"
  shows "\<exists>w. plugin_on_tick h t st =
    (if sat_sub t since > CONNECT_TIMEOUT_MS then fail_print h (st\<lparr>now_ms := t, world := w\<rparr>)
     else st\<lparr>now_ms := t, world := w\<rparr>)"
  using assms by (auto simp: plugin_on_tick_def Let_def hq_def)

text \<open>A waiting transfer: the tick changes nothing but the clock and the world.\<close>

lemma tick_waiting:
  assumes "drive st = Sending sn" and "is_waiting t sn"
  shows "\<exists>w. plugin_on_tick h t st = st\<lparr>now_ms := t, world := w\<rparr>"
  using assms by (auto simp: plugin_on_tick_def pump_send_def chunk_size_def hq_def Let_def)

lemma ticks_gated:
  assumes "drive st = Sending sn" and "gated sn"
  shows "drive (fold (plugin_on_tick h) ts st) = Sending sn
    \<and> trace (fold (plugin_on_tick h) ts st) = trace st
    \<and> job_active (fold (plugin_on_tick h) ts st) = job_active st"
  using assms(1)
proof (induction ts arbitrary: st)
  case (Cons t ts)
  obtain w where "plugin_on_tick h t st = st\<lparr>now_ms := t, world := w\<rparr>"
    using tick_waiting [OF Cons.prems] assms(2) by (auto simp: is_waiting_def)
  then show ?case using Cons.IH [of "st\<lparr>now_ms := t, world := w\<rparr>"] Cons.prems by simp
qed simp

section \<open>The bound on a network job\<close>

lemma receive_job_bound:
  "fst (receive_job h s d bs want w) = Received out \<Longrightarrow>
    (case want of None \<Rightarrow> length bs < 8 | Some n \<Rightarrow> length bs < n \<and> n \<le> MAX_JOB) \<Longrightarrow>
    length out < MAX_JOB + 2048"
proof (induction h s d bs want w rule: receive_job.induct)
  case (1 h s d bs want w)
  have start: "length bs < MAX_JOB + 2048"
    using "1.prems"(2) by (auto simp: MAX_JOB_def FILE_MAX_def split: option.splits)
  obtain now w1 where up: "uptime_ms h w = (now, w1)" by fastforce
  obtain rd w2 where rd: "tcp_read h s 2048 NET_READ_TIMEOUT_MS w1 = (rd, w2)" by fastforce
  consider (stop) "now \<ge> d \<or> rd = None \<or> rd = Some []"
    | (go) c where "\<not> now \<ge> d" "rd = Some c" "c \<noteq> []" by (cases rd) auto
  then show ?case
  proof cases
    case stop
    then show ?thesis
      using "1.prems"(1) start up rd by (subst (asm) receive_job.simps) (auto split: if_splits)
  next
    case (go c)
    show ?thesis
    proof (cases "length c > 2048 \<or> want_frame (bs @ c) want = None")
      case True
      then show ?thesis
        using "1.prems"(1) up rd go by (subst (asm) receive_job.simps) (auto split: if_splits)
    next
      case False
      then obtain bs' want' where wf: "want_frame (bs @ c) want = Some (bs', want')" by fastforce
      have len: "length bs' < MAX_JOB + 2048"
        using wf False "1.prems"(2)
        by (auto simp: want_frame_def Let_def MAX_JOB_def FILE_MAX_def PJ_HEADER_LEN_def
            split: if_splits option.splits)
      show ?thesis
      proof (cases "frame_complete bs' want'")
        case True
        then show ?thesis
          using "1.prems"(1) up rd go False wf len by (subst (asm) receive_job.simps) auto
      next
        case more: False
        have "fst (receive_job h s d bs' want' w2) = Received out"
          using "1.prems"(1) up rd go False wf more by (subst (asm) receive_job.simps) auto
        moreover have "case want' of None \<Rightarrow> length bs' < 8 | Some n \<Rightarrow> length bs' < n \<and> n \<le> MAX_JOB"
          using wf more "1.prems"(2)
          by (auto simp: want_frame_def Let_def frame_complete_def MAX_JOB_def FILE_MAX_def PJ_HEADER_LEN_def
              split: if_splits option.splits)
        ultimately show ?thesis
          using "1.IH" [OF up [symmetric] _ rd [symmetric] go(2,3) _ wf refl] go(1) False more
          by auto
      qed
    qed
  qed
qed

end
