(* ===== verification/Printer_Bench.thy ===== *)
theory Printer_Bench
  imports Printer_Inv
begin

text \<open>
  A small concrete host for the printer plugin: a saved printer that connects and is
  discovered at once, accepts every write, and an ext-feature job of one raster row. The
  witnesses of the properties run the plugin on it.
\<close>

definition demo_row :: "u8 list" where
  "demo_row = 0x81 # replicate 46 0 @ [0xFF]"

definition demo_job :: raster_job where
  "demo_job = \<lparr>width_px = 384, height_px = 1, stride_bytes = 48, rows = demo_row\<rparr>"

definition bench_host :: "unit phost" where
  "bench_host = \<lparr>
     nvs_get_u32 = \<lambda>k w. None, nvs_set_u32 = \<lambda>k v w. w,
     nvs_get_blob = \<lambda>k n w. Some [1, 2, 3, 4, 5, 6, 0], nvs_set_blob = \<lambda>k b w. w,
     nvs_erase = \<lambda>k w. w, ble_is_enabled = \<lambda>w. (True, w), ble_connect = \<lambda>a t w. (True, w),
     ble_disconnect = \<lambda>c w. w, ble_on_write_complete = \<lambda>a w. w, ble_scan_start = \<lambda>n w. (True, w),
     ble_scan_done = \<lambda>w. (True, w), ble_scan_results = \<lambda>n w. ([], w), ble_conn_handle = \<lambda>w. (1, w),
     ble_conn_peer = \<lambda>c w. (Some [1, 2, 3, 4, 5, 6], w), ble_discover = \<lambda>c s a w. (True, w),
     ble_consume_discovery = \<lambda>n w.
       ([\<lparr>gc_uuid = TX_UUID_LE, gc_value_handle = 5, gc_properties = 4\<rparr>], w),
     ble_subscribe_char = \<lambda>c x a w. w, ble_write_char = \<lambda>c x d b w. (True, w),
     ble_get_mtu = \<lambda>c w. (0, w), ble_notifications = \<lambda>w. [],
     ble_take_notifications = \<lambda>n w. w,
     feature_consume_job = \<lambda>n w. (Some (raster_build 384 1 48 demo_row), w),
     feature_register = \<lambda>k a w. w, feature_report_result = \<lambda>s w. w, msg_register = \<lambda>k a w. w,
     msg_consume = \<lambda>n w. (None, w), msg_send_interactive = \<lambda>k d w. w,
     cmd_consume = \<lambda>n w. (None, w), ui_consume_input_text = \<lambda>n w. (None, w),
     ui_consume_input_int = \<lambda>w. (None, w), tr_key = lit, tr_meta = lit, fs_list = \<lambda>n w. [],
     fs_size = \<lambda>k w. None, fs_read = \<lambda>k n w. None, fs_read_str = \<lambda>k n w. None,
     fs_write = \<lambda>k d w. (True, w), vcard_own = \<lambda>w. None, vcard_received_count = \<lambda>w. 0,
     vcard_received_display = \<lambda>i w. None, vcard_received = \<lambda>i w. None,
     image_info = \<lambda>d. Some (384, 1),
     image_render = \<lambda>d wd. Some \<lparr>bits = demo_row, stride = 48, height = 1\<rparr>,
     qr_measure = \<lambda>d. None, qr_render = \<lambda>d s. None, surf_create = \<lambda>a b w. (Some 1, w),
     surf_set_font = \<lambda>s f w. (True, w), surf_measure_text = \<lambda>s t w. Some (of_nat (8 * length t)),
     surf_draw_text = \<lambda>s x y t w. (True, w), surf_draw_bitmap = \<lambda>s x y a b d w. (True, w),
     surf_export = \<lambda>s w. Some \<lparr>bits = demo_row, stride = 48, height = 1\<rparr>,
     surf_export_jpg = \<lambda>s q w. None, surf_drop = \<lambda>s w. w, net_listen = \<lambda>p a w. (True, w),
     net_close = \<lambda>p w. w, net_accept = \<lambda>w. (None, w), tcp_read = \<lambda>s n t w. (None, w),
     socket_close = \<lambda>s w. w, tcp_write = \<lambda>s d t w. w, wifi_request = \<lambda>w. w, wifi_ip = \<lambda>w. None,
     set_resident = \<lambda>b w. w, uptime_ms = \<lambda>w. (0, w)\<rparr>"

lemma bench_host_ok: "host_ok bench_host"
  by (simp add: host_ok_def bench_host_def good_opt_def good_ras_def ras_fits_def demo_row_def)

lemma bench_simps [simp]:
  "nvs_get_u32 bench_host k1 w1 = None"
  "nvs_set_u32 bench_host k2 v2 w2 = w2"
  "nvs_get_blob bench_host k3 n3 w3 = Some [1, 2, 3, 4, 5, 6, 0]"
  "nvs_set_blob bench_host k4 b4 w4 = w4"
  "nvs_erase bench_host k5 w5 = w5"
  "ble_is_enabled bench_host w6 = (True, w6)"
  "ble_connect bench_host a7 t7 w7 = (True, w7)"
  "ble_disconnect bench_host c8 w8 = w8"
  "ble_on_write_complete bench_host a9 w9 = w9"
  "ble_scan_start bench_host n10 w10 = (True, w10)"
  "ble_scan_done bench_host w11 = (True, w11)"
  "ble_scan_results bench_host n12 w12 = ([], w12)"
  "ble_conn_handle bench_host w13 = (1, w13)"
  "ble_conn_peer bench_host c14 w14 = (Some [1, 2, 3, 4, 5, 6], w14)"
  "ble_discover bench_host c15 s15 a15 w15 = (True, w15)"
  "ble_consume_discovery bench_host n16 w16 = ([\<lparr>gc_uuid = TX_UUID_LE, gc_value_handle = 5, gc_properties = 4\<rparr>], w16)"
  "ble_subscribe_char bench_host c17 x17 a17 w17 = w17"
  "ble_write_char bench_host c18 x18 d18 b18 w18 = (True, w18)"
  "ble_get_mtu bench_host c19 w19 = (0, w19)"
  "ble_notifications bench_host w20 = []"
  "ble_take_notifications bench_host n21 w21 = w21"
  "feature_consume_job bench_host n22 w22 = (Some (raster_build 384 1 48 demo_row), w22)"
  "feature_register bench_host k23 a23 w23 = w23"
  "feature_report_result bench_host s24 w24 = w24"
  "msg_register bench_host k25 a25 w25 = w25"
  "msg_consume bench_host n26 w26 = (None, w26)"
  "msg_send_interactive bench_host k27 d27 w27 = w27"
  "cmd_consume bench_host n28 w28 = (None, w28)"
  "ui_consume_input_text bench_host n29 w29 = (None, w29)"
  "ui_consume_input_int bench_host w30 = (None, w30)"
  "tr_key bench_host = lit"
  "tr_meta bench_host = lit"
  "fs_list bench_host n33 w33 = []"
  "fs_size bench_host k34 w34 = None"
  "fs_read bench_host k35 n35 w35 = None"
  "fs_read_str bench_host k36 n36 w36 = None"
  "fs_write bench_host k37 d37 w37 = (True, w37)"
  "vcard_own bench_host w38 = None"
  "vcard_received_count bench_host w39 = 0"
  "vcard_received_display bench_host i40 w40 = None"
  "vcard_received bench_host i41 w41 = None"
  "image_info bench_host d42 = Some (384, 1)"
  "image_render bench_host d43 wd43 = Some \<lparr>bits = demo_row, stride = 48, height = 1\<rparr>"
  "qr_measure bench_host d44 = None"
  "qr_render bench_host d45 s45 = None"
  "surf_create bench_host a46 b46 w46 = (Some 1, w46)"
  "surf_set_font bench_host s47 f47 w47 = (True, w47)"
  "surf_measure_text bench_host s48 t48 w48 = Some (of_nat (8 * length t48))"
  "surf_draw_text bench_host s49 x49 y49 t49 w49 = (True, w49)"
  "surf_draw_bitmap bench_host s50 x50 y50 a50 b50 d50 w50 = (True, w50)"
  "surf_export bench_host s51 w51 = Some \<lparr>bits = demo_row, stride = 48, height = 1\<rparr>"
  "surf_export_jpg bench_host s52 q52 w52 = None"
  "surf_drop bench_host s53 w53 = w53"
  "net_listen bench_host p54 a54 w54 = (True, w54)"
  "net_close bench_host p55 w55 = w55"
  "net_accept bench_host w56 = (None, w56)"
  "tcp_read bench_host s57 n57 t57 w57 = (None, w57)"
  "socket_close bench_host s58 w58 = w58"
  "tcp_write bench_host s59 d59 t59 w59 = w59"
  "wifi_request bench_host w60 = w60"
  "wifi_ip bench_host w61 = None"
  "set_resident bench_host b62 w62 = w62"
  "uptime_ms bench_host w63 = (0, w63)"
  by (simp_all add: bench_host_def)

text \<open>The run of one ext-feature job up to the transfer, and one tick further.\<close>

definition run :: "entry list \<Rightarrow> unit pst" where
  "run es = fold (call bench_host) es (defaults ())"

definition start_job :: "entry list" where
  "start_job = [Init, Act ACT_JOB 0 0, Tick 10, Act ACT_DISCOVERED 0 0]"

lemma reach_run:
  assumes "reach bench_host st" and "expected st e" and "\<not> trapped st"
  shows "reach bench_host (call bench_host e st)"
proof -
  have "step bench_host st e (call bench_host e (st\<lparr>world := ()\<rparr>))" by (rule step.intros) fact
  moreover have "st\<lparr>world := ()\<rparr> = st" by simp
  ultimately show ?thesis using reach_step [OF assms(1,2)] by metis
qed

text \<open>A run is expected when no discovery result meets a transfer.\<close>

fun sending :: "drive \<Rightarrow> bool" where
  "sending (Sending _) = True"
| "sending _ = False"

fun expected_run :: "entry list \<Rightarrow> unit pst \<Rightarrow> bool" where
  "expected_run [] st = True"
| "expected_run (e # es) st =
    (\<not> trapped st \<and> (case e of Act a _ _ \<Rightarrow> a = ACT_DISCOVERED \<longrightarrow> \<not> sending (drive st) | _ \<Rightarrow> True)
     \<and> expected_run es (call bench_host e st))"

lemma reach_expected_run:
  "reach bench_host st \<Longrightarrow> expected_run es st \<Longrightarrow> reach bench_host (fold (call bench_host) es st)"
proof (induction es arbitrary: st)
  case (Cons e es)
  have "expected st e"
    using Cons.prems(2) by (cases e; cases "drive st") (auto simp: expected_def)
  then have "reach bench_host (call bench_host e st)"
    using Cons.prems by (intro reach_run) auto
  then show ?case using Cons by simp
qed simp

lemma demo_job_ok: "raster_ok demo_job"
  by (simp add: demo_job_def raster_ok_def demo_row_def MAX_WIDTH_PX_def MAX_HEIGHT_PX_def div_ceil_def)

lemma parse_demo_job: "raster_parse (raster_build 384 1 48 demo_row) = Some demo_job"
  using raster_parse_frame [OF demo_job_ok, of "[]"] by (simp add: demo_job_def)

lemmas bench_run_defs = plugin_init_def restore_server_def defaults_def nvs_or_def prim_defs act_job_def
  parse_demo_job drive_idle_def start_print_def connect_or_scan_def saved_printer_def
  plugin_on_tick_def is_saved_printer_def on_connected_def on_discovered_def pick_char_def
  begin_send_def energy_def feed_steps_def speed_def rle_enabled_def ras_of_job_def demo_job_def

definition demo_sending :: sending where
  "demo_sending = \<lparr>s_ras = \<lparr>bits = demo_row, stride = 48, height = 1\<rparr>, next_row = 0,
     finished = False, s_feed_steps = DEFAULT_FEED_STEPS, s_rle = False,
     buf = job_setup DEFAULT_ENERGY DEFAULT_SPEED, off = 0, gated = False, since_gate = 0,
     paused_since = None\<rparr>"

lemma run_start_job:
  "drive (run start_job) = Sending demo_sending" "pending (run start_job) = None"
  "written (trace (run start_job)) = []" "job_active (run start_job)"
  "tx_props (run start_job) = 4" "now_ms (run start_job) = 10"
  by (simp_all add: run_def start_job_def demo_sending_def bench_run_defs written_def)

lemma reach_start_job: "reach bench_host (run start_job)"
  unfolding run_def
  by (rule reach_expected_run [OF reach_init]) (simp add: start_job_def bench_run_defs)

text \<open>The three ticks that write set-up, row and feed; after them everything is sent.\<close>

lemma bench_tick:
  assumes "drive st = Sending sn" and "\<not> trapped st" and "\<not> is_waiting t sn"
    and "refill sn = Some (True, sn1)" and "length (buf sn1) \<le> 180" and "off sn1 = 0"
    and "tx_props st = 4" and "paused_since sn1 = None"
  shows "call bench_host (Tick t) st = (st\<lparr>now_ms := t, trace := trace st @ [Wrote (buf sn1) False],
    drive := Sending (sn1\<lparr>off := length (buf sn1), since_gate := since_gate sn1 + 1\<rparr>)\<rparr>)"
proof -
  have n: "needs_response 4 sn1 b = False" for b
    by (simp add: needs_response_def Let_def PROP_WRITE_NO_RSP_def PROP_WRITE_def)
  have p: "sn1\<lparr>paused_since := None\<rparr> = sn1" using assms(8) by (cases sn1) simp
  show ?thesis
    using assms(1-7)
    by (simp add: plugin_on_tick_def pump_send_def refill_send_buffer_def chunk_size_def hq_def Let_def
        nvs_or_def DEFAULT_CHUNK_def write_step_def n p emit_def min_def)
qed

definition demo_rows :: "u8 list" where "demo_rows = frame_row demo_row False"

definition done_sending :: sending where
  "done_sending = demo_sending\<lparr>next_row := 1, finished := True, buf := job_finish DEFAULT_FEED_STEPS,
     off := length (job_finish DEFAULT_FEED_STEPS), since_gate := 3\<rparr>"

definition sent_run :: "entry list" where
  "sent_run = start_job @ [Tick 20, Tick 30, Tick 40]"

lemma demo_job_rows: "job_rows demo_row 48 0 (Suc 0) False = Some demo_rows"
  by (simp add: job_rows_def job_row_def slice_get_def demo_row_def demo_rows_def ROW_BYTES_def)

lemma demo_lengths:
  "length (job_setup e s) = 84" "length demo_rows = 56" "length (job_finish DEFAULT_FEED_STEPS) = 10"
  by (simp_all add: job_setup_def demo_rows_def frame_row_def frame_row_plain_def frame_def Let_def
      ROW_BYTES_def to_le16_def job_finish_def DEFAULT_FEED_STEPS_def demo_row_def)

lemma not_waiting_demo: "\<not> gated sn \<Longrightarrow> paused_since sn = None \<Longrightarrow> \<not> is_waiting t sn"
  by (simp add: is_waiting_def)

lemma run_sent:
  "drive (run sent_run) = Sending done_sending" "reach bench_host (run sent_run)"
proof -
  let ?s0 = "run start_job"
  let ?n1 = "demo_sending\<lparr>off := 84, since_gate := 1\<rparr>"
  let ?n2 = "demo_sending\<lparr>off := 56, buf := demo_rows, next_row := 1, since_gate := 2\<rparr>"
  have t0: "\<not> trapped ?s0" by (simp add: run_def start_job_def bench_run_defs)
  have r0: "refill demo_sending = Some (True, demo_sending)"
    by (subst refill.simps) (simp add: demo_sending_def demo_lengths)
  have r1: "refill ?n1 = Some (True, demo_sending\<lparr>off := 0, buf := demo_rows, next_row := 1, since_gate := 1\<rparr>)"
    by (subst refill.simps, subst refill.simps)
      (simp add: demo_sending_def demo_lengths demo_job_rows ROWS_PER_REFILL_def)
  have r2: "refill ?n2 = Some (True, demo_sending\<lparr>off := 0, buf := job_finish DEFAULT_FEED_STEPS,
      next_row := 1, finished := True, since_gate := 2\<rparr>)"
    by (subst refill.simps, subst refill.simps)
      (simp add: demo_sending_def demo_lengths)
  have 1: "call bench_host (Tick 20) ?s0 = ?s0\<lparr>now_ms := 20, trace := trace ?s0 @ [Wrote (job_setup DEFAULT_ENERGY DEFAULT_SPEED) False],
      drive := Sending ?n1\<rparr>" (is "_ = ?s1")
    by (subst bench_tick [OF run_start_job(1) t0 _ r0])
      (simp_all add: run_start_job demo_sending_def demo_lengths is_waiting_def)
  have 2: "call bench_host (Tick 30) ?s1 = ?s1\<lparr>now_ms := 30, trace := trace ?s1 @ [Wrote demo_rows False],
      drive := Sending ?n2\<rparr>" (is "_ = ?s2")
    by (subst bench_tick [OF _ _ _ r1])
      (simp_all add: t0 run_start_job demo_sending_def demo_lengths is_waiting_def)
  have 3: "call bench_host (Tick 40) ?s2 = ?s2\<lparr>now_ms := 40,
      trace := trace ?s2 @ [Wrote (job_finish DEFAULT_FEED_STEPS) False], drive := Sending done_sending\<rparr>"
    by (subst bench_tick [OF _ _ _ r2])
      (simp_all add: t0 run_start_job demo_sending_def done_sending_def demo_lengths is_waiting_def)
  have run: "run sent_run = call bench_host (Tick 40) (call bench_host (Tick 30) (call bench_host (Tick 20) ?s0))"
    by (simp add: run_def sent_run_def)
  show "drive (run sent_run) = Sending done_sending"
    unfolding run 1 2 3 by simp
  have "reach bench_host (call bench_host (Tick 20) ?s0)"
    by (rule reach_run [OF reach_start_job _ t0]) (simp add: expected_def)
  then have "reach bench_host (call bench_host (Tick 30) (call bench_host (Tick 20) ?s0))"
    by (rule reach_run) (simp_all add: expected_def 1 t0 del: call.simps)
  then show "reach bench_host (run sent_run)"
    unfolding run by (rule reach_run) (simp_all add: expected_def 1 2 t0 del: call.simps)
qed

lemma refill_done_sending: "refill done_sending = Some (False, done_sending\<lparr>off := 0\<rparr>)"
  by (subst refill.simps) (simp add: done_sending_def demo_sending_def)

end
