(* ===== verification/Layout_Laws.thy ===== *)
theory Layout_Laws
  imports Layout
begin

text \<open>
  What the layout code promises: wrapped lines fit and carry every visible character of the
  text in order, wrapping a wrapped line again changes nothing, and pagination splits the
  wrapped rows into pages without losing or repeating one.
\<close>

section \<open>Wrapped lines fit\<close>

definition fits :: "measure \<Rightarrow> u16 \<Rightarrow> ustr \<Rightarrow> bool" where
  "fits msr max_w l \<longleftrightarrow> l = [] \<or> length l = 1 \<or> msr l \<le> max_w"

text \<open>The characters of a text that are not white space.\<close>

abbreviation visible :: "ustr \<Rightarrow> ustr" where
  "visible s \<equiv> filter (\<lambda>c. \<not> is_whitespace c) s"

text \<open>A laid-out line: words joined by single blanks.\<close>

definition word :: "ustr \<Rightarrow> bool" where
  "word w \<longleftrightarrow> w \<noteq> [] \<and> (\<forall>c\<in>set w. \<not> is_whitespace c)"

definition wf_line :: "measure \<Rightarrow> u16 \<Rightarrow> ustr \<Rightarrow> bool" where
  "wf_line msr max_w l \<longleftrightarrow> fits msr max_w l \<and> (\<exists>ws. l = join [32] ws \<and> (\<forall>w\<in>set ws. word w))"

definition st_ok :: "measure \<Rightarrow> u16 \<Rightarrow> ustr list \<times> ustr \<Rightarrow> bool" where
  "st_ok msr max_w st \<longleftrightarrow> (\<forall>l\<in>set (fst st). wf_line msr max_w l) \<and> wf_line msr max_w (snd st)"

abbreviation st_text :: "ustr list \<times> ustr \<Rightarrow> ustr" where
  "st_text st \<equiv> concat (fst st) @ snd st"

lemma is_whitespace_32 [simp]: "is_whitespace 32" and is_whitespace_10 [simp]: "is_whitespace 10"
  by (simp_all add: is_whitespace_def)

lemma wf_line_Nil [simp]: "wf_line msr max_w []"
  by (auto simp: wf_line_def fits_def intro: exI [of _ "[]"])

lemma wf_line_word: "word w \<Longrightarrow> fits msr max_w w \<Longrightarrow> wf_line msr max_w w"
  by (auto simp: wf_line_def intro: exI [of _ "[w]"])

lemma join_snoc: "ws \<noteq> [] \<Longrightarrow> join sep (ws @ [w]) = join sep ws @ sep @ w"
  by (induction sep ws rule: join.induct) auto

lemma wf_line_candidate:
  assumes "wf_line msr max_w line" "word w" "msr (if line = [] then w else line @ [32] @ w) \<le> max_w"
  shows "wf_line msr max_w (if line = [] then w else line @ [32] @ w)"
proof (cases "line = []")
  case True
  with assms show ?thesis by (simp add: wf_line_word fits_def)
next
  case False
  from assms(1) obtain ws where ws: "line = join [32] ws" "\<forall>w\<in>set ws. word w"
    by (auto simp: wf_line_def)
  with False have "ws \<noteq> []" by auto
  then have "line @ [32] @ w = join [32] (ws @ [w])" using ws by (simp add: join_snoc)
  with ws assms False show ?thesis
    unfolding wf_line_def fits_def by (auto intro!: exI [of _ "ws @ [w]"])
qed

lemma break_char_ok:
  assumes "\<forall>l\<in>set (fst st). wf_line msr max_w l" and "snd st = [] \<or> word (snd st) \<and> fits msr max_w (snd st)"
    and "\<not> is_whitespace ch"
  shows "(\<forall>l\<in>set (fst (break_char msr max_w st ch)). wf_line msr max_w l)
    \<and> word (snd (break_char msr max_w st ch)) \<and> fits msr max_w (snd (break_char msr max_w st ch))
    \<and> st_text (break_char msr max_w st ch) = st_text st @ [ch]"
  using assms
  by (cases st) (auto simp: break_char_def Let_def word_def fits_def wf_line_word)

lemma break_chars_ok:
  assumes "\<forall>l\<in>set (fst st). wf_line msr max_w l" and "snd st = [] \<or> word (snd st) \<and> fits msr max_w (snd st)"
    and "\<forall>c\<in>set w. \<not> is_whitespace c"
  shows "st_ok msr max_w (foldl (break_char msr max_w) st w)
    \<and> st_text (foldl (break_char msr max_w) st w) = st_text st @ w"
  using assms
proof (induction w arbitrary: st)
  case Nil
  then show ?case by (auto simp: st_ok_def wf_line_word)
next
  case (Cons c w)
  then have c: "\<not> is_whitespace c" by simp
  note b = break_char_ok [OF Cons.prems(1,2) c]
  have "st_ok msr max_w (foldl (break_char msr max_w) (break_char msr max_w st c) w)
    \<and> st_text (foldl (break_char msr max_w) (break_char msr max_w st c) w)
      = st_text (break_char msr max_w st c) @ w"
    by (rule Cons.IH) (use b Cons.prems in auto)
  with b show ?case by simp
qed

lemma wrap_word_ok:
  assumes "st_ok msr max_w st" and "word w"
  shows "st_ok msr max_w (wrap_word msr max_w st w)
    \<and> visible (st_text (wrap_word msr max_w st w)) = visible (st_text st) @ w"
proof -
  obtain lines line where st: "st = (lines, line)" by (cases st)
  have wv: "visible w = w" using assms(2) by (auto simp: word_def filter_id_conv)
  let ?cand = "if line = [] then w else line @ [32] @ w"
  show ?thesis
  proof (cases "msr ?cand \<le> max_w")
    case True
    then have "wrap_word msr max_w st w = (lines, ?cand)"
      by (simp add: st wrap_word_def Let_def)
    moreover have "wf_line msr max_w ?cand"
      using assms True by (intro wf_line_candidate) (auto simp: st st_ok_def)
    ultimately show ?thesis using assms wv by (auto simp: st st_ok_def)
  next
    case False
    let ?l = "if line \<noteq> [] then lines @ [line] else lines"
    have e: "wrap_word msr max_w st w = foldl (break_char msr max_w) (?l, []) w"
      using False by (simp add: st wrap_word_def Let_def)
    have "st_ok msr max_w (foldl (break_char msr max_w) (?l, []) w)
      \<and> st_text (foldl (break_char msr max_w) (?l, []) w) = st_text (?l, []) @ w"
      by (rule break_chars_ok) (use assms in \<open>auto simp: st st_ok_def word_def\<close>)
    then show ?thesis unfolding e using wv by (auto simp: st)
  qed
qed

lemma wrap_words_ok:
  assumes "st_ok msr max_w st" and "\<forall>w\<in>set ws. word w"
  shows "st_ok msr max_w (foldl (wrap_word msr max_w) st ws)
    \<and> visible (st_text (foldl (wrap_word msr max_w) st ws)) = visible (st_text st) @ concat ws"
  using assms
proof (induction ws arbitrary: st)
  case (Cons w ws)
  then show ?case using wrap_word_ok [of msr max_w st w] by simp
qed simp

lemma split_words: "\<forall>w\<in>set (split_whitespace p). word w"
  by (auto simp: word_def dest: split_whitespace_word)

lemma wrap_paragraph_ok:
  assumes "\<forall>l\<in>set lines. wf_line msr max_w l"
  shows "(\<forall>l\<in>set (wrap_paragraph msr max_w lines p). wf_line msr max_w l)
    \<and> visible (concat (wrap_paragraph msr max_w lines p)) = visible (concat lines) @ visible p"
  using wrap_words_ok [OF _ split_words, of msr max_w "(lines, [])" p] assms
  by (auto simp: wrap_paragraph_def st_ok_def concat_split_whitespace split: prod.splits)

lemma wrap_paragraphs_ok:
  assumes "\<forall>l\<in>set lines. wf_line msr max_w l"
  shows "(\<forall>l\<in>set (foldl (wrap_paragraph msr max_w) lines ps). wf_line msr max_w l)
    \<and> visible (concat (foldl (wrap_paragraph msr max_w) lines ps))
      = visible (concat lines) @ visible (concat ps)"
  using assms
proof (induction ps arbitrary: lines)
  case (Cons p ps)
  note w = wrap_paragraph_ok [OF Cons.prems, of p]
  from Cons.IH [OF conjunct1 [OF w]] w show ?case by simp
qed simp

lemma wrap_text_ok:
  "(\<forall>l\<in>set (wrap_text msr max_w t). wf_line msr max_w l)
    \<and> visible (concat (wrap_text msr max_w t)) = visible t"
proof -
  let ?lines = "foldl (wrap_paragraph msr max_w) [] (split_on (\<lambda>c. c = 10) t)"
  have v: "visible (concat (split_on (\<lambda>c. c = 10) t)) = visible t"
    by (auto simp: concat_split_on intro: filter_cong)
  have w: "(\<forall>l\<in>set ?lines. wf_line msr max_w l) \<and> visible (concat ?lines) = visible t"
    using wrap_paragraphs_ok [of "[]" msr max_w "split_on (\<lambda>c. c = 10) t"] v by simp
  have c: "concat L = []" if "length L = 1 \<and> L ! 0 = []" for L :: "ustr list"
    using that by (cases L) auto
  show ?thesis
  proof (cases "length ?lines = 1 \<and> ?lines ! 0 = []")
    case True
    then have "wrap_text msr max_w t = []" by (simp only: wrap_text_def Let_def if_True simp_thms)
    moreover have "visible t = []" using w c [OF True] by simp
    ultimately show ?thesis by simp
  next
    case False
    then have "wrap_text msr max_w t = ?lines" by (simp only: wrap_text_def Let_def if_False)
    with w show ?thesis by simp
  qed
qed

section \<open>Wrapping is stable\<close>

text \<open>A measuring function for which a prefix is never wider than the whole.\<close>

definition mono_measure :: "measure \<Rightarrow> bool" where
  "mono_measure msr \<longleftrightarrow> (\<forall>s t. msr s \<le> msr (s @ t))"

lemma split_on_ws_join:
  "ws \<noteq> [] \<Longrightarrow> \<forall>w\<in>set ws. word w \<Longrightarrow> split_on is_whitespace (join [32] ws) = ws"
proof (induction "[32] :: ustr" ws rule: join.induct)
  case (2 x)
  then show ?case by (simp add: split_on_id word_def)
next
  case (3 x y zs)
  then show ?case by (simp add: split_on_append word_def)
qed simp

lemma split_whitespace_join:
  assumes "\<forall>w\<in>set ws. word w"
  shows "split_whitespace (join [32] ws) = ws"
proof (cases "ws = []")
  case True
  then show ?thesis by (simp add: split_whitespace_def)
next
  case False
  then show ?thesis
    using assms by (simp add: split_whitespace_def split_on_ws_join word_def filter_id_conv)
qed

lemma set_join: "set (join sep ws) \<subseteq> set sep \<union> (\<Union>w\<in>set ws. set w)"
  by (induction sep ws rule: join.induct) auto

lemma join_prefix_le:
  assumes "mono_measure msr" and "msr (join [32] (ws @ vs)) \<le> m"
  shows "msr (join [32] ws) \<le> m"
proof -
  have "\<exists>t. join [32] (ws @ vs) = join [32] ws @ t"
  proof (induction vs rule: rev_induct)
    case (snoc v vs)
    then obtain t where t: "join [32] (ws @ vs) = join [32] ws @ t" by blast
    show ?case
    proof (cases "ws @ vs = []")
      case False
      then have "join [32] ((ws @ vs) @ [v]) = join [32] (ws @ vs) @ [32] @ v" by (rule join_snoc)
      then show ?thesis by (simp add: t)
    qed simp
  qed simp
  with assms show ?thesis by (metis mono_measure_def order_trans)
qed

lemma join_nonempty: "ws \<noteq> [] \<Longrightarrow> \<forall>w\<in>set ws. word w \<Longrightarrow> join [32] ws \<noteq> []"
  by (cases ws; cases "tl ws") (auto simp: word_def)

lemma wrap_words_fit:
  assumes "mono_measure msr" and "\<forall>w\<in>set ws. word w" and "msr (join [32] ws) \<le> m"
  shows "foldl (wrap_word msr m) (lines, []) ws = (lines, join [32] ws)"
  using assms(2,3)
proof (induction ws rule: rev_induct)
  case (snoc w ws)
  have le: "msr (join [32] ws) \<le> m" using join_prefix_le [OF assms(1) snoc.prems(2)] .
  have IH: "foldl (wrap_word msr m) (lines, []) ws = (lines, join [32] ws)"
    using snoc le by simp
  show ?case
  proof (cases "ws = []")
    case True
    with snoc.prems show ?thesis by (simp add: wrap_word_def)
  next
    case False
    then have "join [32] ws \<noteq> []" using snoc.prems by (intro join_nonempty) auto
    then have "wrap_word msr m (lines, join [32] ws) w = (lines, join [32] (ws @ [w]))"
      using False snoc.prems by (simp add: wrap_word_def Let_def join_snoc)
    then show ?thesis by (simp add: IH)
  qed
qed simp

lemma wrap_text_stable:
  assumes "mono_measure msr" and "wf_line msr m l" and "l \<noteq> []"
  shows "wrap_text msr m l = [l]"
proof -
  from assms(2) obtain ws where ws: "l = join [32] ws" "\<forall>w\<in>set ws. word w" and f: "fits msr m l"
    by (auto simp: wf_line_def)
  have "c \<noteq> 10" if "c \<in> set l" for c
  proof
    assume "c = 10"
    with that have "\<exists>w\<in>set ws. 10 \<in> set w" using ws set_join [of "[32]" ws] by auto
    with ws(2) is_whitespace_10 show False unfolding word_def by blast
  qed
  then have p: "split_on (\<lambda>c. c = 10) l = [l]" by (intro split_on_id) auto
  have "foldl (wrap_word msr m) ([], []) ws = ([], l)"
  proof (cases "msr l \<le> m")
    case True
    then show ?thesis using wrap_words_fit [OF assms(1) ws(2), of m "[]"] ws(1) by simp
  next
    case False
    with f assms(3) obtain c where c: "l = [c]" by (auto simp: fits_def length_Suc_conv)
    have "ws = [[c]]"
    proof (cases ws)
      case (Cons x xs)
      then show ?thesis using ws c by (cases xs) (auto simp: word_def neq_Nil_conv)
    qed (use ws c in auto)
    with False c show ?thesis by (simp add: wrap_word_def break_char_def Let_def)
  qed
  then have "wrap_paragraph msr m [] l = [l]"
    using ws by (simp add: wrap_paragraph_def split_whitespace_join)
  then show ?thesis using assms(3) by (simp add: wrap_text_def p)
qed

section \<open>Pagination\<close>

text \<open>The page rows a source line occupies: one empty row for a line that wraps to nothing.\<close>

definition line_rows :: "(bool \<Rightarrow> ustr \<Rightarrow> ustr list) \<Rightarrow> vcard_line \<Rightarrow> page_line list" where
  "line_rows wrap l = (let w = wrap (headline l) (vtext l) in
     if w = [] then [(headline l, [])] else map (Pair (headline l)) w)"

definition all_rows :: "(bool \<Rightarrow> ustr \<Rightarrow> ustr list) \<Rightarrow> vcard_line list \<Rightarrow> page_line list" where
  "all_rows wrap ls = concat (map (line_rows wrap) ls)"

text \<open>A wrapped row is a row of its own when it is wrapped again.\<close>

definition stable_wrap :: "(bool \<Rightarrow> ustr \<Rightarrow> ustr list) \<Rightarrow> bool" where
  "stable_wrap wrap \<longleftrightarrow>
     (\<forall>hl t. \<forall>w\<in>set (wrap hl t). line_rows wrap \<lparr>headline = hl, vtext = w\<rparr> = [(hl, w)])"

lemma all_rows_simps [simp]:
  "all_rows wrap [] = []"
  "all_rows wrap (l # ls) = line_rows wrap l @ all_rows wrap ls"
  "all_rows wrap (ls @ ms) = all_rows wrap ls @ all_rows wrap ms"
  by (simp_all add: all_rows_def)

lemma all_rows_wrapped:
  assumes "stable_wrap wrap" and "set ws \<subseteq> set (wrap hl t)"
  shows "all_rows wrap (map (\<lambda>w. \<lparr>headline = hl, vtext = w\<rparr>) ws) = map (Pair hl) ws"
  using assms(2) by (induction ws) (use assms(1) in \<open>auto simp: stable_wrap_def\<close>)

text \<open>The four outcomes of one source line, as equations of the loop.\<close>

definition row_h :: "(bool \<Rightarrow> int) \<Rightarrow> vcard_line \<Rightarrow> int" where
  "row_h line_h line = max (line_h (headline line)) 1"

definition fit_rows :: "int \<Rightarrow> (bool \<Rightarrow> int) \<Rightarrow> int \<Rightarrow> vcard_line \<Rightarrow> nat" where
  "fit_rows max_rows line_h y line = nat (max ((max_rows - y) div row_h line_h line) 0)"

definition wrapped :: "(bool \<Rightarrow> ustr \<Rightarrow> ustr list) \<Rightarrow> vcard_line \<Rightarrow> ustr list" where
  "wrapped wrap line = wrap (headline line) (vtext line)"

lemma paginate_line:
  "wrapped wrap line = [] \<Longrightarrow>
     paginate_loop max_rows line_h wrap page y first (line # rest) =
     paginate_loop max_rows line_h wrap (page @ [(headline line, [])]) (y + row_h line_h line) False rest"
  "wrapped wrap line \<noteq> [] \<Longrightarrow> length (wrapped wrap line) \<le> fit_rows max_rows line_h y line \<Longrightarrow>
     paginate_loop max_rows line_h wrap page y first (line # rest) =
     paginate_loop max_rows line_h wrap (page @ map (Pair (headline line)) (wrapped wrap line))
       (y + row_h line_h line * int (length (wrapped wrap line))) False rest"
  "wrapped wrap line \<noteq> [] \<Longrightarrow> \<not> length (wrapped wrap line) \<le> fit_rows max_rows line_h y line \<Longrightarrow>
     paginate_loop max_rows line_h wrap page y True (line # rest) =
       (let tk = max (fit_rows max_rows line_h y line) 1; out = take tk (wrapped wrap line) in
        (page @ map (Pair (headline line)) out, y + row_h line_h line * int (length out),
         map (\<lambda>w. \<lparr>headline = headline line, vtext = w\<rparr>) (drop tk (wrapped wrap line)) @ rest))"
  "wrapped wrap line \<noteq> [] \<Longrightarrow> \<not> length (wrapped wrap line) \<le> fit_rows max_rows line_h y line \<Longrightarrow>
     paginate_loop max_rows line_h wrap page y False (line # rest) = (page, y, line # rest)"
  by (simp_all add: wrapped_def fit_rows_def row_h_def Let_def)

declare paginate_loop.simps(2) [simp del]

lemma line_outcome:
  obtains (blank) "wrapped wrap line = []"
  | (all) "wrapped wrap line \<noteq> []" "length (wrapped wrap line) \<le> fit_rows max_rows line_h y line"
  | (cut) "wrapped wrap line \<noteq> []" "\<not> length (wrapped wrap line) \<le> fit_rows max_rows line_h y line" first
  | (stop) "wrapped wrap line \<noteq> []" "\<not> length (wrapped wrap line) \<le> fit_rows max_rows line_h y line" "\<not> first"
  by blast

lemma line_rows_wrapped:
  "line_rows wrap line = (if wrapped wrap line = [] then [(headline line, [])]
     else map (Pair (headline line)) (wrapped wrap line))"
  by (simp add: line_rows_def wrapped_def Let_def)

lemma paginate_loop_conserves:
  assumes "stable_wrap wrap"
  shows "paginate_loop max_rows line_h wrap page y first lines = (page', y', rest) \<Longrightarrow>
    page' @ all_rows wrap rest = page @ all_rows wrap lines"
proof (induction lines arbitrary: page y first)
  case (Cons line lines)
  show ?case
  proof (cases rule: line_outcome [where wrap = wrap and line = line and max_rows = max_rows and line_h = line_h and y = y and first = first])
    case blank
    with Cons show ?thesis by (simp add: paginate_line line_rows_wrapped)
  next
    case all
    with Cons show ?thesis by (simp add: paginate_line line_rows_wrapped)
  next
    case cut
    let ?tk = "max (fit_rows max_rows line_h y line) 1"
    have "set (drop ?tk (wrapped wrap line)) \<subseteq> set (wrap (headline line) (vtext line))"
      unfolding wrapped_def by (rule set_drop_subset)
    from all_rows_wrapped [OF assms this] cut Cons.prems show ?thesis
      by (auto simp: paginate_line line_rows_wrapped Let_def simp flip: map_append)
  next
    case stop
    with Cons.prems show ?thesis by (simp add: paginate_line)
  qed
qed simp

definition rows_height :: "(bool \<Rightarrow> int) \<Rightarrow> page_line list \<Rightarrow> int" where
  "rows_height line_h page = sum_list (map (\<lambda>r. max (line_h (fst r)) 1) page)"

lemma rows_height_simps [simp]:
  "rows_height line_h [] = 0"
  "rows_height line_h (r # rs) = max (line_h (fst r)) 1 + rows_height line_h rs"
  "rows_height line_h (rs @ qs) = rows_height line_h rs + rows_height line_h qs"
  "rows_height line_h (map (Pair hl) ws) = max (line_h hl) 1 * int (length ws)"
proof -
  show "rows_height line_h (map (Pair hl) ws) = max (line_h hl) 1 * int (length ws)"
    by (induction ws) (simp_all add: rows_height_def algebra_simps)
qed (simp_all add: rows_height_def)

lemma paginate_loop_extends:
  "paginate_loop max_rows line_h wrap page y first lines = (page', y', rest) \<Longrightarrow>
     \<exists>x. page' = page @ x \<and> y' = y + rows_height line_h x"
proof (induction lines arbitrary: page y first)
  case (Cons line lines)
  show ?case
  proof (cases rule: line_outcome [where wrap = wrap and line = line and max_rows = max_rows and line_h = line_h and y = y and first = first])
    case blank
    from Cons.IH [OF Cons.prems [unfolded paginate_line(1) [OF blank]]]
    obtain x where "page' = (page @ [(headline line, [])]) @ x"
      "y' = y + row_h line_h line + rows_height line_h x" by blast
    then show ?thesis by (intro exI [of _ "(headline line, []) # x"]) (simp add: row_h_def)
  next
    case all
    from Cons.IH [OF Cons.prems [unfolded paginate_line(2) [OF all]]]
    obtain x where "page' = (page @ map (Pair (headline line)) (wrapped wrap line)) @ x"
      "y' = y + row_h line_h line * int (length (wrapped wrap line)) + rows_height line_h x" by blast
    then show ?thesis
      by (intro exI [of _ "map (Pair (headline line)) (wrapped wrap line) @ x"]) (simp add: row_h_def)
  next
    case cut
    with Cons.prems show ?thesis
      by (intro exI [of _ "map (Pair (headline line)) (take (max (fit_rows max_rows line_h y line) 1) (wrapped wrap line))"])
        (auto simp: paginate_line Let_def row_h_def)
  next
    case stop
    with Cons.prems show ?thesis by (simp add: paginate_line)
  qed
qed simp

lemma paginate_progress:
  assumes "lines \<noteq> []" and "paginate lines y0 max_rows line_h wrap = (page, y, rest)"
  shows "page \<noteq> []"
proof -
  obtain l ls where l: "lines = l # ls" using assms(1) by (cases lines) auto
  show ?thesis
  proof (cases rule: line_outcome [where wrap = wrap and line = l and max_rows = max_rows and line_h = line_h and y = y0 and first = True])
    case blank
    with assms(2) show ?thesis
      by (auto simp: paginate_def l paginate_line dest!: paginate_loop_extends)
  next
    case all
    with assms(2) show ?thesis
      by (auto simp: paginate_def l paginate_line dest!: paginate_loop_extends)
  qed (use assms(2) in \<open>auto simp: paginate_def l paginate_line Let_def\<close>)
qed

text \<open>Printing page after page until no line is left, as the print driver does.\<close>

fun paginate_all ::
  "nat \<Rightarrow> vcard_line list \<Rightarrow> int \<Rightarrow> int \<Rightarrow> (bool \<Rightarrow> int) \<Rightarrow> (bool \<Rightarrow> ustr \<Rightarrow> ustr list) \<Rightarrow>
     page_line list list option" where
  "paginate_all 0 lines y0 max_rows line_h wrap = (if lines = [] then Some [] else None)"
| "paginate_all (Suc n) lines y0 max_rows line_h wrap =
    (if lines = [] then Some []
     else case paginate lines y0 max_rows line_h wrap of
       (page, _, rest) \<Rightarrow> map_option ((#) page) (paginate_all n rest y0 max_rows line_h wrap))"

lemma paginate_all_complete:
  assumes "stable_wrap wrap" and "length (all_rows wrap lines) \<le> n"
  shows "\<exists>pages. paginate_all n lines y0 max_rows line_h wrap = Some pages \<and>
    concat pages = all_rows wrap lines \<and> (\<forall>p\<in>set pages. p \<noteq> [])"
  using assms(2)
proof (induction n arbitrary: lines)
  case 0
  have "line_rows wrap l \<noteq> []" for l by (simp add: line_rows_def Let_def)
  with 0 have "lines = []" by (cases lines) auto
  then show ?case by simp
next
  case (Suc n)
  show ?case
  proof (cases "lines = []")
    case False
    obtain page y rest where p: "paginate lines y0 max_rows line_h wrap = (page, y, rest)"
      by (metis prod_cases3)
    have c: "page @ all_rows wrap rest = all_rows wrap lines"
      using paginate_loop_conserves [OF assms(1), of max_rows line_h "[]" y0 True lines page y rest] p
      by (simp add: paginate_def)
    have ne: "page \<noteq> []" using paginate_progress [OF False p] .
    have "length (all_rows wrap rest) \<le> n"
      using c ne Suc.prems by (cases page) (auto simp flip: c)
    with Suc.IH c ne p False show ?thesis by fastforce
  qed simp
qed

text \<open>The height cap: without lines that wrap to nothing a page never passes \<open>max_rows\<close>.\<close>

lemma fit_rows_height:
  assumes "y \<le> max_rows" and "k \<le> fit_rows max_rows line_h y line"
  shows "y + row_h line_h line * int k \<le> max_rows"
proof -
  let ?h = "row_h line_h line"
  have h: "1 \<le> ?h" by (simp add: row_h_def)
  have "int k \<le> (max_rows - y) div ?h"
    using assms h by (cases "k = 0") (auto simp: fit_rows_def pos_imp_zdiv_nonneg_iff)
  then have "?h * int k \<le> ?h * ((max_rows - y) div ?h)" using h by (intro mult_left_mono) auto
  also have "\<dots> = max_rows - y - (max_rows - y) mod ?h" by (simp add: minus_mod_eq_mult_div)
  also have "\<dots> \<le> max_rows - y" using h by simp
  finally show ?thesis by simp
qed

lemma fit_rows_pos:
  assumes "y + row_h line_h line \<le> max_rows"
  shows "1 \<le> fit_rows max_rows line_h y line"
proof -
  let ?h = "row_h line_h line"
  have h: "1 \<le> ?h" by (simp add: row_h_def)
  then have "?h div ?h \<le> (max_rows - y) div ?h" using assms by (intro zdiv_mono1) auto
  then show ?thesis using h by (simp add: fit_rows_def)
qed

lemma paginate_loop_cap:
  assumes "\<forall>l\<in>set lines. wrapped wrap l \<noteq> []"
    and "\<forall>l\<in>set lines. first \<longrightarrow> y + row_h line_h l \<le> max_rows" and "y \<le> max_rows"
    and "paginate_loop max_rows line_h wrap page y first lines = (page', y', rest)"
  shows "y' \<le> max_rows"
  using assms
proof (induction lines arbitrary: page y first)
  case (Cons line lines)
  then have w: "wrapped wrap line \<noteq> []" by simp
  show ?case
  proof (cases rule: line_outcome [where wrap = wrap and line = line and max_rows = max_rows and line_h = line_h and y = y and first = first])
    case blank
    with w show ?thesis by simp
  next
    case all
    note le = fit_rows_height [OF Cons.prems(3) all(2)]
    show ?thesis
      by (rule Cons.IH [OF _ _ le Cons.prems(4) [unfolded paginate_line(2) [OF all]]])
        (use Cons.prems(1) in auto)
  next
    case cut
    have "max (fit_rows max_rows line_h y line) 1 = fit_rows max_rows line_h y line"
      using fit_rows_pos [of y line_h line max_rows] Cons.prems(2) cut(3) by auto
    then have "y' = y + row_h line_h line *
        int (length (take (fit_rows max_rows line_h y line) (wrapped wrap line)))"
      using cut Cons.prems(4) by (auto simp: paginate_line Let_def)
    then show ?thesis using fit_rows_height [OF Cons.prems(3)] by simp
  next
    case stop
    with Cons.prems show ?thesis by (simp add: paginate_line)
  qed
qed simp

lemma paginate_loop_blanks:
  "wrap False [] = [] \<Longrightarrow>
   paginate_loop max_rows line_h wrap page y first (replicate n \<lparr>headline = False, vtext = []\<rparr>)
     = (page @ replicate n (False, []), y + int n * max (line_h False) 1, [])"
  by (induction n arbitrary: page y first)
    (auto simp: paginate_line wrapped_def row_h_def algebra_simps)

end
