(* ===== verification/Thermo_Claims.thy ===== *)
theory Thermo_Claims
  imports Printer_Flow Printer_Bench Layout_Laws
begin

text \<open>
  The properties of the thermo_printer plugin, each with a witness: the wire and raster
  formats, the printer protocol, text layout, and the print driver.
\<close>

section \<open>Helper facts\<close>

lemma trim_id: "s \<noteq> [] \<Longrightarrow> \<not> is_whitespace (hd s) \<Longrightarrow> \<not> is_whitespace (last s) \<Longrightarrow> trim s = s"
proof -
  assume "s \<noteq> []" and h: "\<not> is_whitespace (hd s)" and l: "\<not> is_whitespace (last s)"
  then have "dropWhile is_whitespace s = s" by (cases s) auto
  moreover have "dropWhile is_whitespace (rev s) = rev s"
    using \<open>s \<noteq> []\<close> l by (cases s rule: rev_cases) auto
  ultimately show ?thesis by (simp add: trim_def trim_start_matches_def trim_end_matches_def)
qed

lemma trim_ends:
  "trim t \<noteq> [] \<Longrightarrow> \<not> is_whitespace (hd (trim t)) \<and> \<not> is_whitespace (last (trim t))"
proof -
  let ?u = "trim_start_matches is_whitespace t"
  have e: "trim_end_matches is_whitespace u = rev (dropWhile is_whitespace (rev u))" for u
    by (simp add: trim_end_matches_def)
  have pre: "\<exists>r. u = trim_end_matches is_whitespace u @ r" for u
    unfolding e by (metis rev_append rev_rev_ident takeWhile_dropWhile_id)
  assume ne: "trim t \<noteq> []"
  then have t: "trim t = trim_end_matches is_whitespace ?u" by (simp add: trim_def)
  obtain r where r: "?u = trim t @ r" using pre [of ?u] t by metis
  then have "hd (trim t) = hd ?u" using ne by simp
  moreover have "?u \<noteq> []" using r ne by auto
  ultimately have "\<not> is_whitespace (hd (trim t))"
    by (metis hd_dropWhile trim_start_matches_def)
  moreover have "\<not> is_whitespace (last (trim t))"
    using ne unfolding t e by (metis hd_dropWhile last_rev rev_is_Nil_conv)
  ultimately show ?thesis by blast
qed

lemma trim_trim: "trim (trim t) = trim t"
proof (cases "trim t = []")
  case True
  have "trim [] = []" by (simp add: trim_def trim_start_matches_def trim_end_matches_def)
  then show ?thesis using True by simp
next
  case False
  then show ?thesis using trim_ends [OF False] by (intro trim_id) auto
qed

lemma wrap_text_rows_stable:
  assumes "\<And>hl. mono_measure (msr hl)"
  shows "stable_wrap (\<lambda>hl. wrap_text (msr hl) m)"
proof -
  have "line_rows (\<lambda>hl. wrap_text (msr hl) m) \<lparr>headline = hl, vtext = w\<rparr> = [(hl, w)]"
    if "w \<in> set (wrap_text (msr hl) m t)" for hl t w
  proof (cases "w = []")
    case True
    then show ?thesis by (simp add: line_rows_def wrap_text_def wrap_paragraph_def split_whitespace_def)
  next
    case False
    have "wf_line (msr hl) m w" using wrap_text_ok [of "msr hl" m t] that by blast
    then show ?thesis using wrap_text_stable [OF assms _ False] by (simp add: line_rows_def)
  qed
  then show ?thesis by (simp add: stable_wrap_def)
qed

section \<open>Formats\<close>

text \<open>A print-job frame parses back to its kind, flags and payload whatever bytes follow it,
  and nothing else is accepted: every accepted buffer is such a frame with a tail.\<close>
theorem wire_parse_exact: "wire_parse bs = Some j \<longleftrightarrow> wire_ok j \<and> (\<exists>rest. bs = wire_frame j @ rest)"
  using wire_parse_frame wire_parse_Some by blast

text \<open>An accepted raster job satisfies the format's bounds, and every pixel of it lies inside
  its row bytes, so a reader that indexes rows by stride never leaves the buffer.\<close>
theorem raster_pixels_inside:
  assumes "raster_parse p = Some j" and "x < unat (width_px j)" and "y < unat (height_px j)"
  shows "y * unat (stride_bytes j) + x div 8 < length (rows j)"
  using raster_pixel_in_range [OF raster_parse_ok [OF assms(1)] assms(2,3)] .

theorem raster_pixels_inside_witness: "(0 :: nat) * unat (stride_bytes demo_job) + 383 div 8 < length (rows demo_job)"
proof -
  have "383 < unat (width_px demo_job)" "0 < unat (height_px demo_job)"
    by (simp_all add: demo_job_def)
  from raster_pixels_inside [OF parse_demo_job this] show ?thesis .
qed

text \<open>Building and parsing a raster job is a round trip, also with bytes after it, and a
  raster job is never mistaken for a text job.\<close>
theorem raster_roundtrip:
  assumes "raster_ok j"
  shows "raster_parse (raster_build (width_px j) (height_px j) (stride_bytes j) (rows j) @ rest) = Some j
    \<and> parse_text (raster_build (width_px j) (height_px j) (stride_bytes j) (rows j) @ rest) = None"
  using raster_parse_frame [OF assms, of rest] raster_not_text by blast

theorem raster_roundtrip_witness:
  "raster_parse (raster_build 384 1 48 demo_row @ [7]) = Some demo_job
    \<and> parse_text (raster_build 384 1 48 demo_row @ [7]) = None"
  using raster_roundtrip [OF demo_job_ok, of "[7]"] by (simp add: demo_job_def)

section \<open>The printer protocol\<close>

text \<open>C7: the byte stream of a job makes the printer show exactly the raster: one blank row, then
  every raster row, cut or padded to the print width, whether or not rows are run-length coded.\<close>
theorem job_prints_raster:
  assumes "ras_fits img w n"
  shows "\<exists>bytes. build_job img w n e s f rle = Some bytes \<and>
    printed_rows bytes
      = Some (replicate 384 False # map (\<lambda>y. pad_row (ras_row img w y)) [0..<n])"
  by (rule printed_build_job [OF assms])

theorem job_prints_raster_witness:
  "\<exists>bytes. build_job (replicate 96 0xF0) 48 2 24000 16 112 True = Some bytes \<and>
    printed_rows bytes
      = Some (replicate 384 False # map (\<lambda>y. pad_row (ras_row (replicate 96 0xF0) 48 y)) [0..<2])"
  by (rule job_prints_raster) (simp add: ras_fits_def)

text \<open>C8: the run-length code of a row decodes to the pixels of the row and is strictly shorter
  than the row; a row it cannot shorten is sent plain.\<close>
theorem rle_row_roundtrip:
  assumes "rle_encode_row row = Some runs"
  shows "rle_decode runs = row_pixels row \<and> length runs < length row"
  using rle_decode_encode_row [OF assms] by blast

theorem rle_row_roundtrip_witness:
  "rle_decode [24] = row_pixels [0, 0, 0] \<and> length [24 :: u8] < length [0, 0, 0 :: u8]"
proof -
  have "rle_encode_row [0, 0, 0] = Some [24]" by code_simp
  from rle_row_roundtrip [OF this]
  show "rle_decode [24] = row_pixels [0, 0, 0] \<and> length [24 :: u8] < length [0, 0, 0 :: u8]" by simp
qed

text \<open>A frame whose payload differs in one byte has another checksum.\<close>
theorem checksum_detects_byte: "crc8 (p @ a # q) = crc8 (p @ b # q) \<longleftrightarrow> a = b"
  by (rule crc8_single_byte)

text \<open>Of all byte strings exactly one is taken as the printer's pause notification and exactly
  one as its resume notification.\<close>
theorem status_frames:
  "(parse_status d = Some BufferFull \<longleftrightarrow> d = [0x51, 0x78, 0xAE, 1, 1, 0, 0x10, 0x70, 0xFF])
    \<and> (parse_status d = Some Ready \<longleftrightarrow> d = [0x51, 0x78, 0xAE, 1, 1, 0, 0x00, 0x00, 0xFF])"
  using parse_status_iff [of d] by blast

section \<open>Text layout\<close>

text \<open>Wrapping loses no visible character and every line fits the width (or is a single
  character that does not fit on its own).\<close>
theorem wrap_keeps_text:
  "(\<forall>l\<in>set (wrap_text msr max_w t). fits msr max_w l) \<and> visible (concat (wrap_text msr max_w t)) = visible t"
  using wrap_text_ok [of msr max_w t] by (auto simp: wf_line_def)

theorem wrap_keeps_text_witness:
  "visible (concat (wrap_text (\<lambda>t. of_nat (length t)) 3 [97, 98, 32, 99, 100, 101, 102]))
    = visible [97, 98, 32, 99, 100, 101, 102]"
  using wrap_keeps_text by blast

text \<open>C9: printing page after page with the plugin's wrapping prints every row of the text, in
  order and exactly once, and ends: no page is empty.\<close>
theorem pages_cover_text:
  assumes "\<And>hl. mono_measure (msr hl)"
    and "length (all_rows (\<lambda>hl. wrap_text (msr hl) m) lines) \<le> n"
  shows "\<exists>pages. paginate_all n lines y0 max_rows line_h (\<lambda>hl. wrap_text (msr hl) m) = Some pages \<and>
    concat pages = all_rows (\<lambda>hl. wrap_text (msr hl) m) lines \<and> (\<forall>p\<in>set pages. p \<noteq> [])"
  by (rule paginate_all_complete [OF wrap_text_rows_stable [OF assms(1)] assms(2)])

theorem pages_cover_text_witness:
  "\<exists>pages. paginate_all 1 [\<lparr>headline = True, vtext = [72, 105]\<rparr>] 4 1200 (\<lambda>_. 20)
      (\<lambda>hl. wrap_text (\<lambda>t. 0) 376) = Some pages \<and>
    concat pages = all_rows (\<lambda>hl. wrap_text (\<lambda>t. 0) 376) [\<lparr>headline = True, vtext = [72, 105]\<rparr>]"
proof -
  have "mono_measure (\<lambda>t. 0)" by (simp add: mono_measure_def)
  moreover have "length (all_rows (\<lambda>hl. wrap_text (\<lambda>t. 0) 376) [\<lparr>headline = True, vtext = [72, 105]\<rparr>]) \<le> 1"
    by (simp add: all_rows_def line_rows_def wrap_text_def wrap_paragraph_def wrap_word_def
        split_whitespace_def is_whitespace_def Let_def)
  ultimately show ?thesis
    using pages_cover_text [of "\<lambda>hl t. 0" 376 "[\<lparr>headline = True, vtext = [72, 105]\<rparr>]" 1 4 1200 "\<lambda>_. 20"]
    by blast
qed

text \<open>When every line has something to print and one row fits, a page never grows past the
  height cap.\<close>
theorem page_height_cap:
  assumes "\<forall>l\<in>set lines. wrap (headline l) (vtext l) \<noteq> []"
    and "\<forall>l\<in>set lines. y0 + max (line_h (headline l)) 1 \<le> max_rows" and "y0 \<le> max_rows"
    and "paginate lines y0 max_rows line_h wrap = (page, y, rest)"
  shows "y \<le> max_rows"
  using assms paginate_loop_cap [of lines wrap True y0 line_h max_rows "[]" page y rest]
  by (simp add: paginate_def wrapped_def row_h_def)

theorem page_height_cap_witness:
  "snd (snd (paginate (replicate 3 \<lparr>headline = False, vtext = [65]\<rparr>) 4 30 (\<lambda>_. 12) (\<lambda>_ t. [t])))
      = [\<lparr>headline = False, vtext = [65]\<rparr>] \<and> (28 :: int) \<le> 30"
proof -
  have p: "paginate (replicate 3 \<lparr>headline = False, vtext = [65]\<rparr>) 4 30 (\<lambda>_. 12) (\<lambda>_ t. [t])
      = ([(False, [65]), (False, [65])], 28, [\<lparr>headline = False, vtext = [65]\<rparr>])"
    by (simp add: numeral_3_eq_3 paginate_def)
  have "(28 :: int) \<le> 30"
    by (rule page_height_cap [OF _ _ _ p]) auto
  then show ?thesis unfolding p by simp
qed

text \<open>Blank lines are not counted against the cap: a page of blank lines takes all of them.\<close>
theorem blank_lines_uncapped:
  "paginate (replicate n \<lparr>headline = False, vtext = []\<rparr>) y0 max_rows line_h (\<lambda>hl. wrap_text (msr hl) m)
     = (replicate n (False, []), y0 + int n * max (line_h False) 1, [])"
proof -
  have "wrap_text (msr False) m [] = []"
    by (simp add: wrap_text_def wrap_paragraph_def split_whitespace_def)
  then show ?thesis
    using paginate_loop_blanks [of "\<lambda>hl. wrap_text (msr hl) m"] by (simp add: paginate_def)
qed

text \<open>A normalised URL is a fixed point: offering it again changes nothing.\<close>
theorem normalize_fixed: "normalize t = Url u \<Longrightarrow> normalize u = Url u"
proof -
  assume n: "normalize t = Url u"
  have "trim (lit ''https://'' @ trim t) = lit ''https://'' @ trim t" if "looks_like_domain (trim t)"
  proof (rule trim_id)
    have "trim t \<noteq> []" using that by (auto simp: looks_like_domain_def)
    then show "\<not> is_whitespace (last (lit ''https://'' @ trim t))" using trim_ends by simp
    show "\<not> is_whitespace (hd (lit ''https://'' @ trim t))"
      by (simp add: lit_def is_whitespace_def)
  qed (simp add: lit_def)
  with n show ?thesis
    by (auto simp: normalize_def Let_def trim_trim split: if_splits)
qed

theorem normalize_fixed_witness: "normalize (lit ''https://a.de'') = Url (lit ''https://a.de'')"
proof -
  have "normalize (lit '' a.de'') = Url (lit ''https://a.de'')"
    by (simp add: normalize_def Let_def lit_def trim_def trim_start_matches_def trim_end_matches_def
        starts_with_def ends_with_def looks_like_domain_def valid_label_def is_whitespace_def
        is_ascii_alphanumeric_def is_ascii_alphabetic_def is_ascii_digit_def utf8_char_def)
  then show ?thesis by (rule normalize_fixed)
qed

section \<open>The print driver\<close>



text \<open>C2: when a transfer completes, the printer has been sent bytes that show the raster.\<close>
theorem transfer_prints_raster:
  assumes "host_ok h" and "reach h st" and "drive st = Sending sn" and "refill sn = Some (False, sn')"
  shows "printed_rows (written (trace st)) = Some (replicate 384 False #
    map (\<lambda>y. pad_row (ras_row (bits (s_ras sn)) (stride (s_ras sn)) y)) [0..<height (s_ras sn)])"
proof -
  have ok: "sending_ok (written (trace st)) sn"
    using inv_sending [OF reach_inv [OF assms(2,1)] assms(3)] by blast
  from refill_ok [OF this] assms(4) have "stream_for sn (written (trace st))"
    by (auto simp: refill_spec_def)
  moreover have "ras_fits (bits (s_ras sn)) (stride (s_ras sn)) (height (s_ras sn))"
    using ok by (simp add: sending_ok_def good_ras_def)
  moreover obtain e s where "build_job (bits (s_ras sn)) (stride (s_ras sn)) (height (s_ras sn)) e s
      (s_feed_steps sn) (s_rle sn) = Some (written (trace st))"
    using calculation by (auto simp: stream_for_def)
  ultimately show ?thesis using printed_build_job [of "bits (s_ras sn)" "stride (s_ras sn)"
      "height (s_ras sn)" e s "s_feed_steps sn" "s_rle sn"] by simp
qed

theorem transfer_prints_raster_witness:
  "printed_rows (written (trace (run sent_run)))
    = Some [replicate 384 False, pad_row (ras_row demo_row 48 0)]"
  using transfer_prints_raster [OF bench_host_ok run_sent(2,1) refill_done_sending]
  by (simp add: done_sending_def demo_sending_def)

text \<open>C3: on a printer that accepts every write and needs no response, a transfer that is not
  waiting has sent its whole stream after at most one tick per byte.\<close>
theorem transfer_terminates:
  assumes "accepts h" and "host_ok h" and "reach h st" and "drive st = Sending sn" and "\<not> gated sn"
    and "paused_since sn = None" and "tx_props st = 0 \<or> tx_props st = PROP_WRITE_NO_RSP"
    and "bytes_left sn \<le> length ts"
  shows "\<exists>k \<le> length ts. \<exists>sn'. drive (fold (plugin_on_tick h) (take k ts) st) = Sending sn'
    \<and> s_ras sn' = s_ras sn \<and> stream_for sn' (written (trace (fold (plugin_on_tick h) (take k ts) st)))"
  by (rule transfer_finishes [OF assms(1,2) reach_inv [OF assms(3,2)] assms(4-)])

theorem transfer_terminates_witness:
  "\<exists>k \<le> 1000. \<exists>sn'. drive (fold (plugin_on_tick bench_host) (take k (replicate 1000 20)) (run start_job)) = Sending sn'
    \<and> s_ras sn' = s_ras demo_sending
    \<and> stream_for sn' (written (trace (fold (plugin_on_tick bench_host) (take k (replicate 1000 20)) (run start_job))))"
proof -
  have a: "accepts bench_host" by (simp add: accepts_def)
  have d: "\<not> gated demo_sending" "paused_since demo_sending = None"
    by (simp_all add: demo_sending_def)
  have p: "tx_props (run start_job) = 0 \<or> tx_props (run start_job) = PROP_WRITE_NO_RSP"
    by (simp add: run_start_job PROP_WRITE_NO_RSP_def)
  have "bytes_left demo_sending \<le> length (replicate 1000 (20 :: u64))"
    by (simp add: bytes_left_def still_to_send_def demo_sending_def demo_job_rows demo_lengths)
  from transfer_terminates [OF a bench_host_ok reach_start_job run_start_job(1) d p this]
  show ?thesis by simp
qed







text \<open>A discovery that takes longer than its limit ends in the idle state with the queue
  emptied, the job answered and the link forgotten.\<close>
theorem discover_timeout:
  assumes "drive st = Discovering since" and "sat_sub t since > DISCOVER_TIMEOUT_MS"
  shows "let st' = plugin_on_tick h t st in drive st' = Idle \<and> pending st' = None \<and> pending_lines st' = []
    \<and> conn st' = 0 \<and> tx_handle st' = 0 \<and> \<not> job_active st'"
  using assms by (simp add: tick_discover_timeout fail_print_fields Let_def)

theorem discover_timeout_witness:
  "drive (plugin_on_tick bench_host 9000 ((defaults ())\<lparr>drive := Discovering 10, pending := Some \<lparr>bits = [], stride = 0, height = 0\<rparr>\<rparr>)) = Idle"
  using discover_timeout [of "(defaults ())\<lparr>drive := Discovering 10, pending := Some \<lparr>bits = [], stride = 0, height = 0\<rparr>\<rparr>" 10 9000 bench_host]
  by (simp add: Let_def sat_sub_def DISCOVER_TIMEOUT_MS_def)

text \<open>One network job never buffers more than the job cap and one read, for any client.\<close>
theorem net_job_bounded:
  assumes "fst (receive_job h stream deadline [] None w) = Received bs"
  shows "length bs < MAX_JOB + 2048"
  using receive_job_bound [OF assms] by simp

theorem net_job_bounded_witness: "length ([] :: u8 list) < MAX_JOB + 2048"
proof -
  have "fst (receive_job bench_host 1 5000 [] None ()) = Received []"
    by (subst receive_job.simps) simp
  then show ?thesis by (rule net_job_bounded)
qed

text \<open>A transfer waiting for a write completion writes nothing and never ends by ticks alone,
  however much time passes: a completion that is lost keeps the driver busy for good.\<close>
theorem gated_forever:
  assumes "drive st = Sending sn" and "gated sn"
  shows "drive (fold (plugin_on_tick h) ts st) = Sending sn
    \<and> trace (fold (plugin_on_tick h) ts st) = trace st"
  using ticks_gated [OF assms, of h ts] by blast

theorem gated_forever_witness:
  "drive (fold (plugin_on_tick bench_host) [10, 100000000] ((run start_job)\<lparr>drive := Sending (demo_sending\<lparr>gated := True\<rparr>)\<rparr>))
    = Sending (demo_sending\<lparr>gated := True\<rparr>)"
  using gated_forever [of "(run start_job)\<lparr>drive := Sending (demo_sending\<lparr>gated := True\<rparr>)\<rparr>"
      "demo_sending\<lparr>gated := True\<rparr>" bench_host "[10, 100000000]"] by simp

text \<open>A discovery result that arrives while a transfer runs abandons it: the driver goes idle
  with the rest unsent and the ext-feature job unanswered.\<close>
theorem stale_discovery:
  assumes "drive st = Sending sn" and "pending st = None"
    and "fst (ble_consume_discovery h 8 (world st)) = [\<lparr>gc_uuid = TX_UUID_LE, gc_value_handle = v, gc_properties = p\<rparr>]"
    and "v \<noteq> 0"
  shows "drive (plugin_on_action h ACT_DISCOVERED i u st) = Idle
    \<and> job_active (plugin_on_action h ACT_DISCOVERED i u st) = job_active st"
  using assms by (simp add: on_discovered_def hq_def hx_def pick_char_def begin_send_def Let_def)

theorem stale_discovery_witness:
  "drive (plugin_on_action bench_host ACT_DISCOVERED 0 0 (run start_job)) = Idle
    \<and> job_active (plugin_on_action bench_host ACT_DISCOVERED 0 0 (run start_job))"
  using stale_discovery [OF run_start_job(1,2), of bench_host 5 4 0 0] by (simp add: run_start_job)

end
