(* ===== verification/Snake.thy ===== *)
theory Snake
  imports Prelude
begin

text \<open>
  The rules of the snake plugin (\<open>plugins/snake/src/game.rs\<close>): directions, the xorshift
  generator, the round state and its operations \<open>new\<close>, \<open>steer\<close>, \<open>step\<close> and \<open>spawn_food\<close>.
  Deques are lists with the front first; cells are pairs of \<open>u8\<close>.
\<close>

section \<open>Constants and directions\<close>

definition POINTS_PER_FOOD :: u32 where "POINTS_PER_FOOD = 10"
definition START_LENGTH :: nat where "START_LENGTH = 3"
definition SPEED_LEVELS :: u8 where "SPEED_LEVELS = 5"
definition STEP_INTERVAL_MS :: "u32 list" where "STEP_INTERVAL_MS = [1600, 1200, 900, 650, 450]"
definition MAX_PENDING :: nat where "MAX_PENDING = 2"
definition HIGHSCORE_KEYS :: "string list" where
  "HIGHSCORE_KEYS = [''hs_1'', ''hs_2'', ''hs_3'', ''hs_4'', ''hs_5'']"
definition MIN_GRID_W :: u8 where "MIN_GRID_W = 8"
definition MIN_GRID_H :: u8 where "MIN_GRID_H = 4"

datatype direction = North | East | South | West

fun opposite :: "direction \<Rightarrow> direction" where
  "opposite North = South"
| "opposite East = West"
| "opposite South = North"
| "opposite West = East"

fun delta :: "direction \<Rightarrow> int \<times> int" where
  "delta North = (0, -1)"
| "delta East = (1, 0)"
| "delta South = (0, 1)"
| "delta West = (-1, 0)"

datatype step_outcome = Moved | Ate | Crashed

section \<open>The generator\<close>

definition xorshift_new :: "u32 \<Rightarrow> u32" where
  "xorshift_new seed = (if seed = 0 then 0x9E3779B9 else seed)"

definition xorshift_next :: "u32 \<Rightarrow> u32" where
  "xorshift_next x =
    (let x = x XOR push_bit 13 x;
         x = x XOR drop_bit 17 x;
         x = x XOR push_bit 5 x
     in x)"

section \<open>A round\<close>

type_synonym cell = "u8 \<times> u8"

record game =
  gw :: u8
  gh :: u8
  snake :: "cell list"
  dir :: direction
  turns :: "direction list"
  food :: "cell option"
  score :: u32
  alive :: bool
  rng :: u32

definition head :: "game \<Rightarrow> cell" where
  "head g = (case snake g of c # _ \<Rightarrow> c | [] \<Rightarrow> (0, 0))"

text \<open>The cells in the order of the two loops of \<open>spawn_food\<close>.\<close>

definition grid_cells :: "u8 \<Rightarrow> u8 \<Rightarrow> cell list" where
  "grid_cells w h = concat (map (\<lambda>y. map (\<lambda>x. (of_nat x, of_nat y)) [0..<unat w]) [0..<unat h])"

fun scan_food :: "cell list \<Rightarrow> u32 \<Rightarrow> cell list \<Rightarrow> cell option" where
  "scan_food body target [] = None"
| "scan_food body target (c # cs) =
    (if c \<in> set body then scan_food body target cs
     else if target = 0 then Some c
     else scan_food body (target - 1) cs)"

definition spawn_food :: "game \<Rightarrow> game" where
  "spawn_food g =
    (let total = ucast (gw g) * ucast (gh g) :: u32;
         free = total - of_nat (length (snake g))
     in if free = 0 then g\<lparr>food := None\<rparr>
        else
          let r = xorshift_next (rng g)
          in g\<lparr>rng := r, food := scan_food (snake g) (r mod free) (grid_cells (gw g) (gh g))\<rparr>)"

definition new_game :: "u8 \<Rightarrow> u8 \<Rightarrow> u32 \<Rightarrow> game option" where
  "new_game w h seed =
    (if w < MIN_GRID_W \<or> h < MIN_GRID_H then None
     else
       let cx = w div 2; cy = h div 2 in
       Some (spawn_food \<lparr>gw = w, gh = h,
         snake = map (\<lambda>i. (cx - of_nat i, cy)) [0..<START_LENGTH], dir = East, turns = [],
         food = None, score = 0, alive = True, rng = xorshift_new seed\<rparr>))"

definition steer :: "direction \<Rightarrow> game \<Rightarrow> game" where
  "steer d g =
    (if \<not> alive g then g
     else
       let effective = (if turns g = [] then dir g else last (turns g)) in
       if d = effective \<or> d = opposite effective then g
       else
         let q = turns g @ [d] in
         g\<lparr>turns := (if length q > MAX_PENDING then tl q else q)\<rparr>)"

text \<open>The loop that takes the next legal turn; the heading and the turns left.\<close>

fun next_turn :: "direction \<Rightarrow> direction list \<Rightarrow> direction \<times> direction list" where
  "next_turn cur [] = (cur, [])"
| "next_turn cur (d # ds) =
    (if d = cur \<or> d = opposite cur then next_turn cur ds else (d, ds))"

definition hits_body :: "cell list \<Rightarrow> cell \<Rightarrow> bool \<Rightarrow> bool" where
  "hits_body body c eats \<longleftrightarrow> list_ex (\<lambda>b. b = c \<and> (eats \<or> b \<noteq> last body)) body"

definition game_step :: "game \<Rightarrow> step_outcome \<times> game" where
  "game_step g =
    (if \<not> alive g then (Crashed, g)
     else
       let (d, rest) = next_turn (dir g) (turns g);
           g = g\<lparr>dir := d, turns := rest\<rparr>;
           nx = uint (fst (head g)) + fst (delta d);
           ny = uint (snd (head g)) + snd (delta d)
       in if nx < 0 \<or> ny < 0 \<or> nx \<ge> uint (gw g) \<or> ny \<ge> uint (gh g)
          then (Crashed, g\<lparr>alive := False\<rparr>)
          else
            let c = (of_int nx, of_int ny);
                eats = (food g = Some c)
            in if hits_body (snake g) c eats then (Crashed, g\<lparr>alive := False\<rparr>)
               else
                 let g = g\<lparr>snake := c # snake g\<rparr> in
                 if eats then (Ate, spawn_food (g\<lparr>score := score g + POINTS_PER_FOOD\<rparr>))
                 else (Moved, g\<lparr>snake := butlast (snake g)\<rparr>))"

definition clamp_speed_level :: "u32 \<Rightarrow> u8" where
  "clamp_speed_level level = ucast (max 1 (min (ucast SPEED_LEVELS) level))"

definition step_interval_ms :: "u8 \<Rightarrow> u32" where
  "step_interval_ms level = STEP_INTERVAL_MS ! unat (clamp_speed_level (ucast level) - 1)"

fun rank :: "direction \<Rightarrow> nat" where
  "rank North = 0"
| "rank East = 1"
| "rank South = 2"
| "rank West = 3"

instantiation direction :: linorder
begin

definition less_eq_direction :: "direction \<Rightarrow> direction \<Rightarrow> bool" where
  "less_eq_direction a b \<longleftrightarrow> rank a \<le> rank b"

definition less_direction :: "direction \<Rightarrow> direction \<Rightarrow> bool" where
  "less_direction a b \<longleftrightarrow> a \<le> b \<and> \<not> b \<le> (a :: direction)"

instance
proof
  fix a b :: direction
  show "a \<le> b \<Longrightarrow> b \<le> a \<Longrightarrow> a = b"
    by (cases a; cases b) (simp_all add: less_eq_direction_def)
qed (auto simp: less_eq_direction_def less_direction_def)

end

section \<open>Well-formed rounds\<close>

abbreviation pos :: "cell \<Rightarrow> int \<times> int" where
  "pos c \<equiv> (uint (fst c), uint (snd c))"

definition move :: "int \<times> int \<Rightarrow> direction \<Rightarrow> int \<times> int" where
  "move p d = (fst p + fst (delta d), snd p + snd (delta d))"

definition in_grid :: "u8 \<Rightarrow> u8 \<Rightarrow> cell \<Rightarrow> bool" where
  "in_grid w h c \<longleftrightarrow> fst c < w \<and> snd c < h"

definition linked :: "cell list \<Rightarrow> bool" where
  "linked = successively (\<lambda>a b. \<exists>d. pos a = move (pos b) d)"

text \<open>
  The body is a path of distinct cells of the grid, the food is on a free cell and missing
  only when there is none, the score counts the growth, the head points away from the neck,
  and the generator is not stuck at zero.
\<close>

definition round_ok :: "game \<Rightarrow> bool" where
  "round_ok g \<longleftrightarrow>
     START_LENGTH \<le> length (snake g) \<and> distinct (snake g) \<and> linked (snake g)
     \<and> (\<forall>c\<in>set (snake g). in_grid (gw g) (gh g) c)
     \<and> (case food g of Some c \<Rightarrow> in_grid (gw g) (gh g) c \<and> c \<notin> set (snake g)
        | None \<Rightarrow> length (snake g) = unat (gw g) * unat (gh g))
     \<and> unat (score g) = unat POINTS_PER_FOOD * (length (snake g) - START_LENGTH)
     \<and> (alive g \<longrightarrow> pos (head g) = move (pos (snake g ! 1)) (dir g))
     \<and> length (turns g) \<le> MAX_PENDING \<and> rng g \<noteq> 0
     \<and> MIN_GRID_W \<le> gw g \<and> MIN_GRID_H \<le> gh g"

end
