(* ===== verification/Snake_Laws.thy ===== *)
theory Snake_Laws
  imports Snake
begin

text \<open>
  Laws of the snake rules: the generator never reaches zero, the food lands on the free cell
  the generator picks, and every operation keeps the round well-formed.
\<close>

section \<open>The generator\<close>

lemma xor_push_zero:
  fixes x :: u32
  assumes "x XOR push_bit k x = 0" and "0 < k"
  shows "x = 0"
proof -
  have "\<not> bit x n" for n
  proof (induction n rule: less_induct)
    case (less n)
    have "bit x n = bit (push_bit k x) n"
      using arg_cong [OF assms(1), of "\<lambda>v. bit v n"] by (simp add: bit_xor_iff)
    then show ?case using less assms(2) by (auto simp: bit_push_bit_iff)
  qed
  then show ?thesis by (simp add: bit_eq_iff)
qed

lemma xor_drop_zero:
  fixes x :: u32
  assumes "x XOR drop_bit k x = 0" and "0 < k"
  shows "x = 0"
proof -
  have e: "bit x n = bit x (k + n)" for n
    using arg_cong [OF assms(1), of "\<lambda>v. bit v n"] by (simp add: bit_xor_iff bit_drop_bit_eq)
  have "\<not> bit x n" if "32 - n = m" for m n
    using that
  proof (induction m arbitrary: n rule: less_induct)
    case (less m)
    show ?case
    proof
      assume b: "bit x n"
      then have "n < 32" using bit_imp_le_length [OF b] by simp
      moreover have "bit x (k + n)" using b e by simp
      ultimately show False using less.IH [of "32 - (k + n)" "k + n"] less.prems assms(2) by auto
    qed
  qed
  then show ?thesis by (auto simp: bit_eq_iff)
qed

lemma xorshift_nonzero: "x \<noteq> 0 \<Longrightarrow> xorshift_next x \<noteq> 0"
  unfolding xorshift_next_def Let_def
  by (meson xor_push_zero xor_drop_zero zero_less_numeral)

section \<open>Food\<close>

abbreviation free_cells :: "cell list \<Rightarrow> cell list \<Rightarrow> cell list" where
  "free_cells body cs \<equiv> filter (\<lambda>c. c \<notin> set body) cs"

lemma scan_food_nth:
  "scan_food body t cs = (if unat t < length (free_cells body cs)
     then Some (free_cells body cs ! unat t) else None)"
proof (induction body t cs rule: scan_food.induct)
  case (2 body t c cs)
  show ?case
  proof (cases "c \<in> set body \<or> t = 0")
    case False
    then have "unat (t - 1) = unat t - 1" "0 < unat t"
      by (simp_all add: unat_minus_one unat_gt_0)
    then show ?thesis using 2 False by auto
  qed (use 2 in auto)
qed simp

lemma unat_of_nat_less: "x < unat (w :: u8) \<Longrightarrow> unat (of_nat x :: u8) = x"
  using unat_u8 [of w] by (simp add: unat_of_nat take_bit_nat_eq_self)

lemma set_grid_cells: "set (grid_cells w h) = {x. x < w} \<times> {y. y < h}"
proof (intro equalityI subsetI)
  fix c assume "c \<in> set (grid_cells w h)"
  then show "c \<in> {x. x < w} \<times> {y. y < h}"
    by (auto simp: grid_cells_def word_less_nat_alt unat_of_nat_less)
next
  fix c :: cell assume "c \<in> {x. x < w} \<times> {y. y < h}"
  then obtain a b where c: "c = (a, b)" "unat a < unat w" "unat b < unat h"
    by (auto simp: word_less_nat_alt)
  have "(a, b) \<in> (\<lambda>x. (of_nat x, of_nat (unat b))) ` {0..<unat w}"
    using c(2) by (intro image_eqI [of _ _ "unat a"]) auto
  then show "c \<in> set (grid_cells w h)"
    using c by (auto simp: grid_cells_def intro!: bexI [of _ "unat b"])
qed

lemma in_set_grid_cells: "c \<in> set (grid_cells w h) \<longleftrightarrow> in_grid w h c"
  by (cases c) (simp add: set_grid_cells in_grid_def)

lemma length_grid_cells: "length (grid_cells w h) = unat w * unat h"
  by (simp add: grid_cells_def length_concat comp_def sum_list_triv)

lemma card_below: "card {x :: u8. x < w} = unat w"
proof -
  have "unat ` {x :: u8. x < w} = {..<unat w}"
  proof (intro equalityI subsetI)
    fix k assume "k \<in> {..<unat w}"
    then show "k \<in> unat ` {x :: u8. x < w}"
      by (intro image_eqI [of _ _ "of_nat k"]) (simp_all add: unat_of_nat_less word_less_nat_alt)
  qed (auto simp: word_less_nat_alt)
  moreover have "inj_on unat {x :: u8. x < w}" by (auto simp: inj_on_def intro: word_eq_iff_unsigned [THEN iffD2])
  ultimately show ?thesis by (metis card_image card_lessThan)
qed

lemma distinct_grid_cells: "distinct (grid_cells w h)"
  by (rule card_distinct) (simp add: set_grid_cells card_cartesian_product card_below length_grid_cells)

lemma length_free_cells:
  assumes "distinct body" and "\<forall>c\<in>set body. in_grid w h c"
  shows "length (free_cells body (grid_cells w h)) = unat w * unat h - length body"
    and "length body \<le> unat w * unat h"
proof -
  have sub: "set body \<subseteq> set (grid_cells w h)" using assms(2) by (auto simp: in_set_grid_cells)
  have d: "card (set (grid_cells w h)) = unat w * unat h"
    using distinct_card [OF distinct_grid_cells] by (simp add: length_grid_cells)
  have c: "card (set body) = length body" by (rule distinct_card [OF assms(1)])
  have "length (free_cells body (grid_cells w h)) = card (set (grid_cells w h) - set body)"
    by (subst distinct_card [symmetric]) (auto simp: distinct_grid_cells intro: arg_cong [of _ _ card])
  then show "length (free_cells body (grid_cells w h)) = unat w * unat h - length body"
    using card_Diff_subset [OF _ sub] d c by simp
  show "length body \<le> unat w * unat h" using card_mono [OF _ sub] d c by simp
qed

text \<open>The cell \<open>spawn_food\<close> chooses: the free cell at the generator's next value, modulo their number.\<close>

lemma spawn_food_cell:
  assumes "distinct (snake g)" and "\<forall>c\<in>set (snake g). in_grid (gw g) (gh g) c"
  defines "fs \<equiv> free_cells (snake g) (grid_cells (gw g) (gh g))"
  shows "food (spawn_food g)
    = (if fs = [] then None else Some (fs ! (unat (xorshift_next (rng g)) mod length fs)))"
    and "rng (spawn_food g) = (if fs = [] then rng g else xorshift_next (rng g))"
proof -
  have le: "length (snake g) \<le> unat (gw g) * unat (gh g)"
    and len: "length fs = unat (gw g) * unat (gh g) - length (snake g)"
    using length_free_cells [OF assms(1,2)] by (auto simp: fs_def)
  have p: "unat (gw g) * unat (gh g) < 2 ^ 32"
  proof -
    have "unat (gw g) * unat (gh g) \<le> 256 * 256"
      using unat_u8 [of "gw g"] unat_u8 [of "gh g"] by (intro mult_le_mono) auto
    then show ?thesis by simp
  qed
  have t: "unat (ucast (gw g) * ucast (gh g) :: u32) = unat (gw g) * unat (gh g)"
  proof -
    have "(ucast a :: u32) = of_nat (unat a)" for a :: u8 by simp
    then have "ucast (gw g) * ucast (gh g) = (of_nat (unat (gw g) * unat (gh g)) :: u32)"
      by (simp del: of_nat_unat)
    then show ?thesis using p by (simp only: unat_of_nat take_bit_nat_eq_self) (simp add: take_bit_nat_eq_self)
  qed
  have "unat (of_nat (length (snake g)) :: u32) = length (snake g)"
    using le p by (simp add: unat_of_nat take_bit_nat_eq_self)
  then have fr: "unat (ucast (gw g) * ucast (gh g) - of_nat (length (snake g)) :: u32) = length fs"
    using le t len by (subst unat_sub) (auto simp: word_le_nat_alt)
  have z: "(ucast (gw g) * ucast (gh g) - of_nat (length (snake g)) = (0 :: u32)) \<longleftrightarrow> fs = []"
    using fr by (metis length_0_conv unat_eq_zero)
  note z = z z [unfolded right_minus_eq]
  show "rng (spawn_food g) = (if fs = [] then rng g else xorshift_next (rng g))"
    by (simp add: spawn_food_def Let_def z)
  have "unat (xorshift_next (rng g)) mod length fs < length fs" if "fs \<noteq> []"
    using that by simp
  then show "food (spawn_food g)
    = (if fs = [] then None else Some (fs ! (unat (xorshift_next (rng g)) mod length fs)))"
    using fr by (auto simp: spawn_food_def Let_def z scan_food_nth unat_mod fs_def)
qed

section \<open>The operations keep a round well-formed\<close>

text \<open>A well-formed round without its food: what \<open>spawn_food\<close> needs and completes.\<close>

definition body_ok :: "game \<Rightarrow> bool" where
  "body_ok g \<longleftrightarrow>
     START_LENGTH \<le> length (snake g) \<and> distinct (snake g) \<and> linked (snake g)
     \<and> (\<forall>c\<in>set (snake g). in_grid (gw g) (gh g) c)
     \<and> unat (score g) = unat POINTS_PER_FOOD * (length (snake g) - START_LENGTH)
     \<and> (alive g \<longrightarrow> pos (head g) = move (pos (snake g ! 1)) (dir g))
     \<and> length (turns g) \<le> MAX_PENDING \<and> rng g \<noteq> 0
     \<and> MIN_GRID_W \<le> gw g \<and> MIN_GRID_H \<le> gh g"

definition food_ok :: "game \<Rightarrow> bool" where
  "food_ok g \<longleftrightarrow>
    (case food g of Some c \<Rightarrow> in_grid (gw g) (gh g) c \<and> c \<notin> set (snake g)
     | None \<Rightarrow> length (snake g) = unat (gw g) * unat (gh g))"

lemma round_ok_split: "round_ok g \<longleftrightarrow> body_ok g \<and> food_ok g"
  by (auto simp: round_ok_def body_ok_def food_ok_def)

lemma spawn_food_fields [simp]:
  "snake (spawn_food g) = snake g" "gw (spawn_food g) = gw g" "gh (spawn_food g) = gh g"
  "score (spawn_food g) = score g" "alive (spawn_food g) = alive g" "dir (spawn_food g) = dir g"
  "turns (spawn_food g) = turns g" "head (spawn_food g) = head g"
  by (simp_all add: spawn_food_def Let_def head_def)

lemma spawn_food_ok:
  assumes "body_ok g" shows "round_ok (spawn_food g)"
proof -
  let ?fs = "free_cells (snake g) (grid_cells (gw g) (gh g))"
  have b: "distinct (snake g)" "\<forall>c\<in>set (snake g). in_grid (gw g) (gh g) c" "rng g \<noteq> 0"
    using assms by (auto simp: body_ok_def)
  have "rng (spawn_food g) \<noteq> 0"
    using spawn_food_cell(2) [OF b(1,2)] b(3) xorshift_nonzero by simp
  then have "body_ok (spawn_food g)" using assms by (simp add: body_ok_def)
  moreover have "food_ok (spawn_food g)"
  proof (cases "?fs = []")
    case True
    then show ?thesis
      using spawn_food_cell(1) [OF b(1,2)] length_free_cells [OF b(1,2)] by (simp add: food_ok_def)
  next
    case False
    then have "?fs ! (unat (xorshift_next (rng g)) mod length ?fs) \<in> set ?fs"
      by (intro nth_mem) simp
    then show ?thesis
      using spawn_food_cell(1) [OF b(1,2)] False by (simp add: food_ok_def in_set_grid_cells)
  qed
  ultimately show ?thesis by (simp add: round_ok_split)
qed

lemma uint_ge_nat: "numeral k \<le> (w :: u8) \<Longrightarrow> uint (numeral k :: u8) \<le> uint w"
  by (simp add: word_le_def)

lemma new_game_ok:
  assumes "new_game w h seed = Some g" shows "round_ok g"
proof -
  have ge: "MIN_GRID_W \<le> w" "MIN_GRID_H \<le> h"
    using assms by (auto simp: new_game_def not_less split: if_splits)
  then have wh: "8 \<le> uint w" "4 \<le> uint h"
    by (simp_all add: MIN_GRID_W_def MIN_GRID_H_def word_le_def)
  define cx where "cx = w div 2"
  define cy where "cy = h div 2"
  have c: "uint cx = uint w div 2" "uint cy = uint h div 2"
    by (simp_all add: cx_def cy_def uint_div_distrib)
  have ucx: "4 \<le> uint cx" "uint cx < uint w" "uint cy < uint h" using c wh by auto
  have s1: "uint (cx - 1) = uint cx - 1" and s2: "uint (cx - 2) = uint cx - 2"
    using ucx by (simp_all add: uint_sub_lem [THEN iffD1] word_le_def)
  define g0 where "g0 = \<lparr>gw = w, gh = h, snake = [(cx, cy), (cx - 1, cy), (cx - 2, cy)], dir = East,
    turns = [], food = None, score = 0, alive = True, rng = xorshift_new seed\<rparr>"
  have d: "cx \<noteq> cx - 1" "cx \<noteq> cx - 2" "cx - 1 \<noteq> cx - 2" using s1 s2 by auto
  have l: "linked [(cx, cy), (cx - 1, cy), (cx - 2, cy)]"
    using s1 s2 by (auto simp: linked_def move_def intro: exI [of _ East])
  have "body_ok g0"
    using d l s1 s2 ucx ge
    by (auto simp: body_ok_def g0_def START_LENGTH_def in_grid_def word_less_def head_def move_def
        xorshift_new_def POINTS_PER_FOOD_def MAX_PENDING_def)
  moreover have "g = spawn_food g0"
    using assms
    by (auto simp: new_game_def g0_def cx_def cy_def START_LENGTH_def Let_def upt_rec split: if_splits)
  ultimately show ?thesis using spawn_food_ok by simp
qed

lemma steer_cases:
  assumes "length (turns g) \<le> MAX_PENDING"
  shows "steer d g = g \<or> (\<exists>q. length q \<le> MAX_PENDING \<and> steer d g = g\<lparr>turns := q\<rparr>)"
proof -
  let ?q = "turns g @ [d]"
  let ?r = "if length ?q > MAX_PENDING then tl ?q else ?q"
  have "length ?r \<le> MAX_PENDING" using assms by (simp add: MAX_PENDING_def)
  moreover have "steer d g = g \<or> steer d g = g\<lparr>turns := ?r\<rparr>" by (simp add: steer_def Let_def)
  ultimately show ?thesis by blast
qed

lemma steer_ok:
  assumes "round_ok g" shows "round_ok (steer d g)"
proof -
  have "length (turns g) \<le> MAX_PENDING" using assms by (simp add: round_ok_def)
  moreover have "round_ok (g\<lparr>turns := q\<rparr>)" if "length q \<le> MAX_PENDING" for q
    using assms that by (simp add: round_ok_def head_def cong: option.case_cong)
  ultimately show ?thesis using steer_cases [of g d] assms by metis
qed

lemma next_turn_legal:
  "next_turn cur ds = (d, rest) \<Longrightarrow> d \<noteq> opposite cur \<and> length rest \<le> length ds"
proof (induction cur ds rule: next_turn.induct)
  case (1 cur)
  then show ?case by (cases cur) auto
next
  case (2 cur t ts)
  then show ?case by (auto split: if_splits)
qed

text \<open>One step of a running round: the heading taken, the cell aimed at, and the three outcomes.\<close>

definition heading :: "game \<Rightarrow> direction" where
  "heading g = fst (next_turn (dir g) (turns g))"

definition target :: "game \<Rightarrow> int \<times> int" where
  "target g = move (pos (head g)) (heading g)"

definition inside :: "game \<Rightarrow> int \<times> int \<Rightarrow> bool" where
  "inside g p \<longleftrightarrow> 0 \<le> fst p \<and> fst p < uint (gw g) \<and> 0 \<le> snd p \<and> snd p < uint (gh g)"

definition target_cell :: "game \<Rightarrow> cell" where
  "target_cell g = (of_int (fst (target g)), of_int (snd (target g)))"

definition turned :: "game \<Rightarrow> game" where
  "turned g = g\<lparr>dir := heading g, turns := snd (next_turn (dir g) (turns g))\<rparr>"

lemma uint_u8: "uint (v :: u8) < 256"
  by (rule order_less_le_trans [OF unsigned_less]) simp

lemma uint_of_int_u8: "0 \<le> i \<Longrightarrow> i < uint (w :: u8) \<Longrightarrow> uint (of_int i :: u8) = i"
proof -
  assume "0 \<le> i" "i < uint w"
  moreover have "uint w < 256" by (rule uint_u8)
  ultimately show ?thesis by (simp add: unsigned_of_int take_bit_int_eq_self)
qed

lemma pos_target_cell: "inside g (target g) \<Longrightarrow> pos (target_cell g) = target g"
  by (simp add: target_cell_def inside_def prod_eq_iff uint_of_int_u8 [of _ "gw g"]
      uint_of_int_u8 [of _ "gh g"])

lemma pos_inj: "pos a = pos b \<Longrightarrow> a = b"
  by (cases a; cases b) (auto intro: word_eq_iff_unsigned [THEN iffD2])

lemma inside_in_grid: "inside g (pos c) \<longleftrightarrow> in_grid (gw g) (gh g) c"
  by (simp add: inside_def in_grid_def word_less_def)

lemma game_step_alive:
  "alive g \<Longrightarrow> snake g \<noteq> [] \<Longrightarrow> game_step g =
    (if \<not> inside g (target g) \<or> hits_body (snake g) (target_cell g) (food g = Some (target_cell g))
     then (Crashed, (turned g)\<lparr>alive := False\<rparr>)
     else if food g = Some (target_cell g)
     then (Ate, spawn_food ((turned g)\<lparr>snake := target_cell g # snake g, score := score g + POINTS_PER_FOOD\<rparr>))
     else (Moved, (turned g)\<lparr>snake := target_cell g # butlast (snake g)\<rparr>))"
  by (cases "next_turn (dir g) (turns g)"; cases "snake g")
    (auto simp: game_step_def Let_def heading_def target_def move_def inside_def turned_def
      target_cell_def head_def hits_body_def not_less not_le)

text \<open>The head may enter the cell of the tail exactly when the snake does not grow.\<close>

lemma hits_body_iff:
  assumes "distinct body" and "body \<noteq> []"
  shows "hits_body body c eats \<longleftrightarrow> c \<in> set (if eats then body else butlast body)"
proof -
  obtain b l where "body = b @ [l]" using assms(2) by (cases body rule: rev_cases) auto
  then show ?thesis using assms(1) by (auto simp: hits_body_def list_ex_iff)
qed

lemma round_ok_snake: "round_ok g \<Longrightarrow> \<exists>a b c r. snake g = a # b # c # r"
  by (auto simp: round_ok_def START_LENGTH_def numeral_3_eq_3 Suc_le_length_iff)

lemma linked_Cons: "linked (c # a # r) \<longleftrightarrow> (\<exists>d. pos c = move (pos a) d) \<and> linked (a # r)"
  by (simp add: linked_def)

lemma linked_butlast: "linked xs \<Longrightarrow> linked (butlast xs)"
  by (cases xs rule: rev_cases) (auto simp: linked_def successively_append_iff)

lemma turned_fields [simp]:
  "snake (turned g) = snake g" "gw (turned g) = gw g" "gh (turned g) = gh g" "food (turned g) = food g"
  "score (turned g) = score g" "alive (turned g) = alive g" "rng (turned g) = rng g"
  "dir (turned g) = heading g"
  by (simp_all add: turned_def)

lemma turned_turns: "length (turns g) \<le> MAX_PENDING \<Longrightarrow> length (turns (turned g)) \<le> MAX_PENDING"
  using next_turn_legal [of "dir g" "turns g"]
  by (cases "next_turn (dir g) (turns g)") (auto simp: turned_def)

lemma score_grows:
  assumes "unat s = 10 * (n - 3)" and "3 \<le> n" and "n \<le> 65536"
  shows "unat (s + 10 :: u32) = 10 * (Suc n - 3)"
proof -
  have "unat s + unat (10 :: u32) < 2 ^ 32" using assms by simp
  then have "unat (s + 10) = unat s + 10"
    by (simp add: unat_add_lem [THEN iffD1])
  then show ?thesis using assms by (simp add: Suc_diff_le)
qed

lemma round_length: "round_ok g \<Longrightarrow> length (snake g) \<le> 65536"
proof -
  assume "round_ok g"
  then have "length (snake g) \<le> unat (gw g) * unat (gh g)"
    by (intro length_free_cells(2)) (auto simp: round_ok_def)
  also have "\<dots> \<le> 256 * 256"
    using unat_u8 [of "gw g"] unat_u8 [of "gh g"] by (intro mult_le_mono) auto
  finally show ?thesis by simp
qed

lemma game_step_ok:
  assumes "round_ok g" shows "round_ok (snd (game_step g))"
proof (cases "alive g")
  case False
  then show ?thesis using assms by (simp add: game_step_def)
next
  case True
  obtain a b c r where s: "snake g = a # b # c # r" using round_ok_snake [OF assms] by blast
  have "snake g \<noteq> []" by (simp add: s)
  note st = game_step_alive [OF True this]
  have hd: "head g = a" by (simp add: head_def s)
  have tt: "length (turns (turned g)) \<le> MAX_PENDING"
    using assms by (intro turned_turns) (simp add: round_ok_def)
  let ?t = "target_cell g"
  consider (crash) "\<not> inside g (target g) \<or> hits_body (snake g) ?t (food g = Some ?t)"
    | (eat) "inside g (target g)" "\<not> hits_body (snake g) ?t True" "food g = Some ?t"
    | (move) "inside g (target g)" "\<not> hits_body (snake g) ?t False" "food g \<noteq> Some ?t"
    by (cases "food g = Some ?t") auto
  then show ?thesis
  proof cases
    case crash
    then show ?thesis
      using assms tt True unfolding st by (simp add: round_ok_def cong: option.case_cong)
  next
    case eat
    have p: "pos ?t = move (pos a) (heading g)"
      using pos_target_cell [OF eat(1)] by (simp add: target_def hd)
    have "?t \<notin> set (snake g)"
      using eat(2) hits_body_iff [of "snake g" ?t True] assms s by (simp add: round_ok_def)
    moreover have "in_grid (gw g) (gh g) ?t"
      using eat(1) pos_target_cell [OF eat(1)] by (simp add: flip: inside_in_grid)
    moreover have "unat (score g + POINTS_PER_FOOD) = unat POINTS_PER_FOOD * (Suc (length (snake g)) - START_LENGTH)"
      using assms score_grows [of "score g" "length (snake g)"] round_length [OF assms]
      by (simp add: round_ok_def POINTS_PER_FOOD_def START_LENGTH_def)
    ultimately have "body_ok ((turned g)\<lparr>snake := ?t # snake g, score := score g + POINTS_PER_FOOD\<rparr>)"
      using assms tt p s
      by (auto simp: body_ok_def round_ok_def head_def linked_Cons turned_def)
    then show ?thesis
      unfolding st using eat by (simp add: spawn_food_ok)
  next
    case move
    have p: "pos ?t = Snake.move (pos a) (heading g)"
      using pos_target_cell [OF move(1)] by (simp add: target_def hd)
    have "?t \<notin> set (butlast (snake g))"
      using move(2) hits_body_iff [of "snake g" ?t False] assms s by (simp add: round_ok_def)
    moreover have "in_grid (gw g) (gh g) ?t"
      using move(1) pos_target_cell [OF move(1)] by (simp add: flip: inside_in_grid)
    moreover have "distinct (butlast (snake g))" "linked (butlast (snake g))"
      using assms by (auto simp: round_ok_def distinct_butlast linked_butlast)
    moreover have "set (butlast (snake g)) \<subseteq> set (snake g)" by (auto dest: in_set_butlastD)
    moreover have "butlast (snake g) = a # b # butlast (c # r)" by (simp add: s)
    moreover have "snd (game_step g) = (turned g)\<lparr>snake := ?t # butlast (snake g)\<rparr>"
      unfolding st using move by simp
    ultimately show ?thesis
      using assms tt p move True s
      by (auto simp: round_ok_def head_def linked_Cons turned_def split: option.splits)
  qed
qed

end
