(* ===== verification/Snake_App.thy ===== *)
theory Snake_App
  imports Snake_Laws
begin

text \<open>
  The snake plugin around the rules: \<open>plugins/snake/src/lib.rs\<close> (screens, input, the step
  clock, high scores, the refresh pause) and the playfield geometry of \<open>render.rs\<close>.

  The firmware's calls are the fields of \<open>'w snake_host\<close>; the calls of the drawing routines of
  \<open>render.rs\<close> (theory \<open>Snake_Screen\<close>) appear as the events of \<open>draws\<close>. \<open>strapped\<close> is set by a panic.
\<close>

section \<open>Playfield geometry\<close>

definition CELL :: u16 where "CELL = 8"
definition HEADER_H :: u16 where "HEADER_H = 12"
definition BORDER :: u16 where "BORDER = 1"

record layout =
  grid_w :: u8
  grid_h :: u8
  field_x :: u16
  field_y :: u16

text \<open>\<open>i16\<close> values are 16-bit words read with \<open>sint\<close>; \<open>quot16\<close> is the division that truncates to zero.\<close>

definition quot16 :: "u16 \<Rightarrow> u16 \<Rightarrow> u16" where
  "quot16 a b = of_int (sgn (sint a) * sgn (sint b) * (\<bar>sint a\<bar> div \<bar>sint b\<bar>))"

definition clamp_u8 :: "u16 \<Rightarrow> u8" where
  "clamp_u8 a = of_int (max 0 (min 255 (sint a)))"

definition compute_layout :: "u16 \<Rightarrow> u16 \<Rightarrow> layout" where
  "compute_layout body_w body_h =
    (let avail_w = body_w - 2 * BORDER;
         avail_h = body_h - HEADER_H - 2 * BORDER;
         gw = clamp_u8 (quot16 avail_w CELL);
         gh = clamp_u8 (quot16 avail_h CELL);
         used_w = ucast gw * CELL;
         used_h = ucast gh * CELL
     in \<lparr>grid_w = gw, grid_h = gh, field_x = quot16 (body_w - used_w) 2,
         field_y = HEADER_H + BORDER + quot16 (avail_h - used_h) 2\<rparr>)"

definition cell_px :: "layout \<Rightarrow> cell \<Rightarrow> u16 \<times> u16" where
  "cell_px l c = (field_x l + ucast (fst c) * CELL, field_y l + ucast (snd c) * CELL)"

definition cell_offset :: "cell \<Rightarrow> u16 \<times> u16" where
  "cell_offset c = (ucast (fst c) * CELL, ucast (snd c) * CELL)"

section \<open>Host and state\<close>

record 'w snake_host =
  sh_nvs_get_u32 :: "string \<Rightarrow> 'w \<Rightarrow> u32 option"
  sh_nvs_set_u32 :: "string \<Rightarrow> u32 \<Rightarrow> 'w \<Rightarrow> 'w"
  sh_random_u32 :: "'w \<Rightarrow> u32 option \<times> 'w"
  sh_uptime_ms :: "'w \<Rightarrow> u64 \<times> 'w"
  sh_canvas_push :: "'w \<Rightarrow> 'w"
  sh_subscribe :: "'w \<Rightarrow> u32 option \<times> 'w"
  sh_unsubscribe :: "u32 \<Rightarrow> 'w \<Rightarrow> 'w"
  sh_body_size :: "'w \<Rightarrow> (u16 \<times> u16) \<times> 'w"

datatype screen = Title | Playing | Paused | Crashing | GameOver

datatype draw =
  Draw_title u8 u32
| Draw_title_info u8 u32
| Draw_round cell u32
| Draw_step cell bool u32 u32
| Draw_pause bool
| Draw_crash cell
| Draw_game_over u32 u32 bool
| Toast_too_small
| Pop

record 'w sst =
  screen :: screen
  sgame :: "game option"
  slayout :: "layout option"
  body_size :: "u16 \<times> u16"
  level :: u8
  best :: u32
  last_step_ms :: u64
  new_best :: bool
  crash_ms :: u64
  refresh_busy :: bool
  refresh_since :: u64
  refresh_sub :: u32
  sworld :: 'w
  draws :: "draw list"
  strapped :: bool

definition ACT_KEY :: u32 where "ACT_KEY = 9200"
definition ACT_BOOM_DONE :: u32 where "ACT_BOOM_DONE = 9201"
definition ACT_REFRESH :: u32 where "ACT_REFRESH = 9202"
definition NVS_SNAKE_SPEED :: string where "NVS_SNAKE_SPEED = ''speed''"
definition SNAKE_DEFAULT_SPEED :: u8 where "SNAKE_DEFAULT_SPEED = 3"
definition K_Y :: u32 where "K_Y = 89"
definition K_N :: u32 where "K_N = 78"
definition K_UP :: u32 where "K_UP = 50"
definition K_LEFT :: u32 where "K_LEFT = 52"
definition K_RIGHT :: u32 where "K_RIGHT = 54"
definition K_DOWN :: u32 where "K_DOWN = 56"
definition K_PAUSE :: u32 where "K_PAUSE = 53"
definition CRASH_FX_TIMEOUT_MS :: u64 where "CRASH_FX_TIMEOUT_MS = 1500"
definition REFRESH_WATCHDOG_MS :: u64 where "REFRESH_WATCHDOG_MS = 2000"

definition snake_defaults :: "'w \<Rightarrow> 'w sst" where
  "snake_defaults w = \<lparr>screen = Title, sgame = None, slayout = None, body_size = (0, 0),
     level = SNAKE_DEFAULT_SPEED, best = 0, last_step_ms = 0, new_best = False, crash_ms = 0,
     refresh_busy = False, refresh_since = 0, refresh_sub = 0, sworld = w, draws = [],
     strapped = False\<rparr>"

definition shq :: "('w \<Rightarrow> 'a \<times> 'w) \<Rightarrow> 'w sst \<Rightarrow> 'a \<times> 'w sst" where
  "shq f st = (fst (f (sworld st)), st\<lparr>sworld := snd (f (sworld st))\<rparr>)"

definition draw :: "draw \<Rightarrow> 'w sst \<Rightarrow> 'w sst" where
  "draw d st = st\<lparr>draws := draws st @ [d]\<rparr>"

section \<open>High scores\<close>

text \<open>Indexing the key table outside 1..=5 panics: the value is then \<open>None\<close>.\<close>

definition highscore_key :: "u8 \<Rightarrow> string option" where
  "highscore_key lvl =
    (let i = unat (lvl - 1) in if i < length HIGHSCORE_KEYS then Some (HIGHSCORE_KEYS ! i) else None)"

definition load_best :: "'w snake_host \<Rightarrow> u8 \<Rightarrow> 'w \<Rightarrow> u32 option" where
  "load_best h lvl w =
     map_option (\<lambda>k. case sh_nvs_get_u32 h k w of Some v \<Rightarrow> v | None \<Rightarrow> 0) (highscore_key lvl)"

definition save_best_if_beaten :: "'w snake_host \<Rightarrow> u8 \<Rightarrow> u32 \<Rightarrow> 'w sst \<Rightarrow> bool \<times> 'w sst" where
  "save_best_if_beaten h lvl sc st =
    (if sc \<le> best st then (False, st)
     else
       let st = st\<lparr>best := sc\<rparr> in
       case highscore_key lvl of
         None \<Rightarrow> (False, st\<lparr>strapped := True\<rparr>)
       | Some k \<Rightarrow> (True, st\<lparr>sworld := sh_nvs_set_u32 h k sc (sworld st)\<rparr>))"

section \<open>Rounds\<close>

definition start_round :: "'w snake_host \<Rightarrow> 'w sst \<Rightarrow> 'w sst" where
  "start_round h st =
    (case slayout st of
       None \<Rightarrow> st
     | Some l \<Rightarrow>
       (case shq (sh_random_u32 h) st of
          (r, st) \<Rightarrow>
            (case shq (sh_uptime_ms h) st of
               (now, st) \<Rightarrow>
                 let seed = (case r of Some v \<Rightarrow> v | None \<Rightarrow> ucast now) in
                 (case new_game (grid_w l) (grid_h l) seed of
                    None \<Rightarrow> draw Pop (draw Toast_too_small st)
                  | Some g \<Rightarrow>
                    let st = draw (Draw_round (head g) (best st)) st;
                        st = st\<lparr>sgame := Some g\<rparr>
                    in case shq (sh_uptime_ms h) st of
                         (t, st) \<Rightarrow> st\<lparr>last_step_ms := t, screen := Playing\<rparr>))))"

definition back_to_title :: "'w sst \<Rightarrow> 'w sst" where
  "back_to_title st =
     (draw (Draw_title (level st) (best st)) (st\<lparr>sgame := None\<rparr>))\<lparr>screen := Title\<rparr>"

definition step_game :: "'w snake_host \<Rightarrow> 'w sst \<Rightarrow> 'w sst" where
  "step_game h st =
    (case (slayout st, sgame st) of
       (Some l, Some g) \<Rightarrow>
         let old_head = head g in
         (case game_step g of
            (out, g) \<Rightarrow>
              let st = st\<lparr>sgame := Some g\<rparr> in
              if out = Crashed then
                (case save_best_if_beaten h (level st) (score g) st of
                   (nb, st) \<Rightarrow>
                     if strapped st then st
                     else
                       let st = st\<lparr>new_best := nb, screen := Crashing\<rparr> in
                       (case shq (sh_uptime_ms h) st of
                          (t, st) \<Rightarrow> draw (Draw_crash old_head) (st\<lparr>crash_ms := t\<rparr>)))
              else draw (Draw_step old_head (out = Ate) (best st) (step_interval_ms (level st))) st)
     | _ \<Rightarrow> st)"

definition show_game_over_panel :: "'w sst \<Rightarrow> 'w sst" where
  "show_game_over_panel st =
    (let sc = (case sgame st of Some g \<Rightarrow> score g | None \<Rightarrow> 0)
     in (draw (Draw_game_over sc (best st) (new_best st)) st)\<lparr>screen := GameOver\<rparr>)"

section \<open>Keys\<close>

definition handle_title_key :: "'w snake_host \<Rightarrow> u32 \<Rightarrow> 'w sst \<Rightarrow> 'w sst" where
  "handle_title_key h k st =
    (if k = K_Y then start_round h st
     else if k = K_N then draw Pop st
     else if 49 \<le> k \<and> k \<le> 53 then
       (let lvl = clamp_speed_level (k - 48);
            st = st\<lparr>level := lvl\<rparr>
        in case load_best h lvl (sworld st) of
             None \<Rightarrow> st\<lparr>strapped := True\<rparr>
           | Some b \<Rightarrow>
             let st = st\<lparr>best := b\<rparr>;
                 st = st\<lparr>sworld := sh_nvs_set_u32 h NVS_SNAKE_SPEED (ucast lvl) (sworld st)\<rparr>
             in draw (Draw_title_info (level st) (best st)) st)
     else st)"

definition key_direction :: "u32 \<Rightarrow> direction option" where
  "key_direction k =
    (if k = K_UP then Some North else if k = K_DOWN then Some South
     else if k = K_LEFT then Some West else if k = K_RIGHT then Some East else None)"

definition handle_playing_key :: "u32 \<Rightarrow> 'w sst \<Rightarrow> 'w sst" where
  "handle_playing_key k st =
    (case key_direction k of
       Some d \<Rightarrow> st\<lparr>sgame := map_option (steer d) (sgame st)\<rparr>
     | None \<Rightarrow>
       if k = K_PAUSE then (draw (Draw_pause True) st)\<lparr>screen := Paused\<rparr>
       else if k = K_N then back_to_title st
       else st)"

definition handle_paused_key :: "'w snake_host \<Rightarrow> u32 \<Rightarrow> 'w sst \<Rightarrow> 'w sst" where
  "handle_paused_key h k st =
    (if k = K_PAUSE \<or> k = K_Y then
       (case shq (sh_uptime_ms h) (draw (Draw_pause False) st) of
          (t, st) \<Rightarrow> st\<lparr>last_step_ms := t, screen := Playing\<rparr>)
     else if k = K_N then back_to_title st
     else st)"

definition handle_game_over_key :: "'w snake_host \<Rightarrow> u32 \<Rightarrow> 'w sst \<Rightarrow> 'w sst" where
  "handle_game_over_key h k st = (if k = K_Y then start_round h st else back_to_title st)"

section \<open>Lifecycle\<close>

definition snake_on_enter :: "'w snake_host \<Rightarrow> 'w sst \<Rightarrow> 'w sst" where
  "snake_on_enter h st =
    (let st = st\<lparr>sworld := sh_canvas_push h (sworld st)\<rparr> in
     case shq (sh_subscribe h) st of
       (sub, st) \<Rightarrow>
         let st = (case sub of Some i \<Rightarrow> st\<lparr>refresh_sub := i\<rparr> | None \<Rightarrow> st) in
         (case shq (sh_body_size h) st of
            ((bw, bh), st) \<Rightarrow>
              let st = st\<lparr>body_size := (bw, bh), slayout := Some (compute_layout bw bh)\<rparr>;
                  lvl = clamp_speed_level
                    (case sh_nvs_get_u32 h NVS_SNAKE_SPEED (sworld st) of
                       Some v \<Rightarrow> v | None \<Rightarrow> ucast SNAKE_DEFAULT_SPEED);
                  st = st\<lparr>level := lvl\<rparr>
              in case load_best h lvl (sworld st) of
                   None \<Rightarrow> st\<lparr>strapped := True\<rparr>
                 | Some b \<Rightarrow>
                   (draw (Draw_title lvl b) (st\<lparr>best := b\<rparr>))\<lparr>screen := Title\<rparr>))"

definition snake_on_exit :: "'w snake_host \<Rightarrow> 'w sst \<Rightarrow> 'w sst" where
  "snake_on_exit h st =
    (let sub = refresh_sub st;
         st = (if sub \<noteq> 0 then st\<lparr>sworld := sh_unsubscribe h sub (sworld st), refresh_sub := 0\<rparr> else st)
     in st\<lparr>refresh_busy := False, sgame := None\<rparr>)"

definition snake_on_tick :: "'w snake_host \<Rightarrow> u64 \<Rightarrow> 'w sst \<Rightarrow> 'w sst" where
  "snake_on_tick h up st =
    (case screen st of
       Playing \<Rightarrow>
         if refresh_busy st \<and> sat_sub up (refresh_since st) < REFRESH_WATCHDOG_MS then st
         else
           let st = st\<lparr>refresh_busy := False\<rparr>;
               interval = ucast (step_interval_ms (level st))
           in if sat_sub up (last_step_ms st) \<ge> interval
              then step_game h (st\<lparr>last_step_ms := up\<rparr>) else st
     | Crashing \<Rightarrow>
         if sat_sub up (crash_ms st) \<ge> CRASH_FX_TIMEOUT_MS then show_game_over_panel st else st
     | _ \<Rightarrow> st)"

definition snake_on_action :: "'w snake_host \<Rightarrow> u32 \<Rightarrow> u32 \<Rightarrow> 'w sst \<Rightarrow> 'w sst" where
  "snake_on_action h action ud st =
    (if action = ACT_REFRESH then
       (let busy = (ud \<noteq> 0); st = st\<lparr>refresh_busy := busy\<rparr> in
        if busy then (case shq (sh_uptime_ms h) st of (t, st) \<Rightarrow> st\<lparr>refresh_since := t\<rparr>) else st)
     else if action = ACT_BOOM_DONE then
       (if screen st = Crashing then show_game_over_panel st else st)
     else if action = ACT_KEY then
       (case screen st of
          Title \<Rightarrow> handle_title_key h ud st
        | Playing \<Rightarrow> handle_playing_key ud st
        | Paused \<Rightarrow> handle_paused_key h ud st
        | Crashing \<Rightarrow> if ud = K_N then back_to_title st else show_game_over_panel st
        | GameOver \<Rightarrow> handle_game_over_key h ud st)
     else st)"

datatype snake_entry = S_Enter | S_Exit | S_Tick u64 | S_Act u32 u32

fun snake_call :: "'w snake_host \<Rightarrow> snake_entry \<Rightarrow> 'w sst \<Rightarrow> 'w sst" where
  "snake_call h S_Enter st = snake_on_enter h st"
| "snake_call h S_Exit st = snake_on_exit h st"
| "snake_call h (S_Tick t) st = snake_on_tick h t st"
| "snake_call h (S_Act a u) st = snake_on_action h a u st"

inductive snake_reach :: "'w snake_host \<Rightarrow> 'w sst \<Rightarrow> bool" for h where
  snake_init: "snake_reach h (snake_defaults w)"
| snake_step: "snake_reach h st \<Longrightarrow> \<not> strapped st \<Longrightarrow> snake_reach h (snake_call h e (st\<lparr>sworld := w\<rparr>))"

end
