(* ===== verification/Sdk.thy ===== *)
theory Sdk
  imports Rust_Str "HOL-Library.State_Monad"
begin

text \<open>
  What the plugins share of the SDK crate (\<open>sdk/cdc-badge-plugin/src/lib.rs\<close>): the error type
  of host calls, and the vocabulary for effectful code.

  A function with effects is a program of the library's state monad. \<open>hoare P m Q\<close> says that
  from a state with \<open>P\<close> the program ends in a state (and with a result) with \<open>Q\<close>; \<open>keeps I m\<close>
  that it preserves \<open>I\<close>. The rules in \<open>keeps_intro\<close> follow the structure of a program.
\<close>

section \<open>Errors of host calls\<close>

datatype sdk_error =
  Generic | InvalidArg | NoCapability | NotFound | Timeout | NoMemory | Busy | NotSupported
| RmemFull | Other int

type_synonym 'a sdk_result = "sdk_error + 'a"

abbreviation is_ok :: "'a sdk_result \<Rightarrow> bool" where
  "is_ok r \<equiv> (case r of Inr _ \<Rightarrow> True | Inl _ \<Rightarrow> False)"

abbreviation ok :: "'a sdk_result \<Rightarrow> 'a option" where
  "ok r \<equiv> (case r of Inr x \<Rightarrow> Some x | Inl _ \<Rightarrow> None)"

text \<open>The codes are those of \<open>host_api.h\<close>.\<close>

definition from_code :: "int \<Rightarrow> sdk_error" where
  "from_code code =
    (if code = -1 then Generic
     else if code = -2 then InvalidArg
     else if code = -3 then NoCapability
     else if code = -4 then NotFound
     else if code = -5 then Timeout
     else if code = -6 then NoMemory
     else if code = -7 then Busy
     else if code = -8 then NotSupported
     else if code = -9 then RmemFull
     else if code = 0 then Generic
     else Other code)"

fun error_code :: "sdk_error \<Rightarrow> int" where
  "error_code Generic = -1"
| "error_code InvalidArg = -2"
| "error_code NoCapability = -3"
| "error_code NotFound = -4"
| "error_code Timeout = -5"
| "error_code NoMemory = -6"
| "error_code Busy = -7"
| "error_code NotSupported = -8"
| "error_code RmemFull = -9"
| "error_code (Other c) = c"

definition check :: "int \<Rightarrow> unit sdk_result" where
  "check code = (if code = 0 then Inr () else Inl (from_code code))"

lemma code_from_code [simp]: "c \<noteq> 0 \<Longrightarrow> error_code (from_code c) = c"
  by (simp add: from_code_def)

text \<open>\<open>unwrap_or_default\<close> on strings and lists, and \<open>filter(|s| !s.is_empty())\<close>.\<close>

abbreviation or_empty :: "'a list option \<Rightarrow> 'a list" where
  "or_empty x \<equiv> (case x of Some s \<Rightarrow> s | None \<Rightarrow> [])"

abbreviation nonempty :: "'a list option \<Rightarrow> 'a list option" where
  "nonempty x \<equiv> (case x of Some s \<Rightarrow> if s \<noteq> [] then Some s else None | None \<Rightarrow> None)"

section \<open>Programs with effects\<close>

named_theorems keeps_intro \<open>preservation rules that follow the structure of a program\<close>

abbreviation ret :: "'a \<Rightarrow> ('s, 'a) state" where
  "ret \<equiv> State_Monad.return"

definition gets :: "('s \<Rightarrow> 'a) \<Rightarrow> ('s, 'a) state" where
  "gets f = State (\<lambda>s. (f s, s))"

definition modify :: "('s \<Rightarrow> 's) \<Rightarrow> ('s, unit) state" where
  "modify f = State (\<lambda>s. ((), f s))"

definition whenM :: "bool \<Rightarrow> ('s, unit) state \<Rightarrow> ('s, unit) state" where
  "whenM b m = (if b then m else ret ())"

text \<open>A \<open>for\<close> loop over a list.\<close>

fun for_each :: "'a list \<Rightarrow> ('a \<Rightarrow> ('s, unit) state) \<Rightarrow> ('s, unit) state" where
  "for_each [] f = ret ()"
| "for_each (x # xs) f = do { f x; for_each xs f }"

lemma run_gets [simp]: "run_state (gets f) s = (f s, s)"
  by (simp add: gets_def)

lemma run_modify [simp]: "run_state (modify f) s = ((), f s)"
  by (simp add: modify_def)

lemma whenM_True [simp]: "whenM True m = m"
  by (simp add: whenM_def)

lemma whenM_False [simp]: "whenM False m = ret ()"
  by (simp add: whenM_def)

definition hoare :: "('s \<Rightarrow> bool) \<Rightarrow> ('s, 'a) state \<Rightarrow> ('a \<Rightarrow> 's \<Rightarrow> bool) \<Rightarrow> bool" where
  "hoare P m Q \<longleftrightarrow> (\<forall>s. P s \<longrightarrow> (case run_state m s of (x, t) \<Rightarrow> Q x t))"

definition keeps :: "('s \<Rightarrow> bool) \<Rightarrow> ('s, 'a) state \<Rightarrow> bool" where
  "keeps I m \<longleftrightarrow> (\<forall>s. I s \<longrightarrow> I (snd (run_state m s)))"

lemma hoareI: "(\<And>s x t. P s \<Longrightarrow> run_state m s = (x, t) \<Longrightarrow> Q x t) \<Longrightarrow> hoare P m Q"
  by (simp add: hoare_def split: prod.split)

lemma hoareD: "hoare P m Q \<Longrightarrow> run_state m s = (x, t) \<Longrightarrow> P s \<Longrightarrow> Q x t"
  by (auto simp: hoare_def split: prod.splits)

lemma hoare_bind:
  assumes "hoare P m Q" and "\<And>x. hoare (Q x) (f x) R"
  shows "hoare P (m \<bind> f) R"
  by (rule hoareI) (auto split: prod.splits dest: hoareD [OF assms(1)] hoareD [OF assms(2)])

lemma hoare_weaken: "hoare P m Q \<Longrightarrow> (\<And>s. P' s \<Longrightarrow> P s) \<Longrightarrow> (\<And>x s. Q x s \<Longrightarrow> Q' x s) \<Longrightarrow> hoare P' m Q'"
  by (rule hoareI) (meson hoareD)

lemma keeps_hoare: "keeps I m \<longleftrightarrow> hoare I m (\<lambda>_. I)"
  by (auto simp: keeps_def hoare_def split_beta)

lemma hoare_side: "(Q \<Longrightarrow> keeps I m) \<Longrightarrow> hoare (\<lambda>s. I s \<and> Q) m (\<lambda>_. I)"
  by (auto simp: hoare_def keeps_hoare)

lemma keepsI: "(\<And>s x t. I s \<Longrightarrow> run_state m s = (x, t) \<Longrightarrow> I t) \<Longrightarrow> keeps I m"
  by (metis keeps_def prod.collapse)

lemma keepsD: "keeps I m \<Longrightarrow> run_state m s = (x, t) \<Longrightarrow> I s \<Longrightarrow> I t"
  by (metis keeps_def snd_conv)

lemma keeps_return [keeps_intro]: "keeps I (ret x)"
  by (simp add: keeps_def)

lemma keeps_gets [keeps_intro]: "keeps I (gets f)"
  by (simp add: keeps_def)

lemma keeps_bind [keeps_intro]: "keeps I m \<Longrightarrow> (\<And>x. keeps I (f x)) \<Longrightarrow> keeps I (m \<bind> f)"
  unfolding keeps_hoare by (rule hoare_bind)

lemma keeps_modify [keeps_intro]: "(\<And>s. I s \<Longrightarrow> I (f s)) \<Longrightarrow> keeps I (modify f)"
  by (simp add: keeps_def)

lemma keeps_if [keeps_intro]: "(b \<Longrightarrow> keeps I m) \<Longrightarrow> (\<not> b \<Longrightarrow> keeps I n) \<Longrightarrow> keeps I (if b then m else n)"
  by simp

lemma keeps_when [keeps_intro]: "(b \<Longrightarrow> keeps I m) \<Longrightarrow> keeps I (whenM b m)"
  by (simp add: whenM_def keeps_return)

lemma keeps_option [keeps_intro]:
  "(x = None \<Longrightarrow> keeps I m) \<Longrightarrow> (\<And>a. x = Some a \<Longrightarrow> keeps I (f a)) \<Longrightarrow> keeps I (case x of None \<Rightarrow> m | Some a \<Rightarrow> f a)"
  by (cases x) simp_all

lemma keeps_sum [keeps_intro]:
  "(\<And>a. x = Inl a \<Longrightarrow> keeps I (f a)) \<Longrightarrow> (\<And>b. x = Inr b \<Longrightarrow> keeps I (g b))
   \<Longrightarrow> keeps I (case x of Inl a \<Rightarrow> f a | Inr b \<Rightarrow> g b)"
  by (cases x) simp_all

lemma keeps_prod [keeps_intro]:
  "(\<And>a b. x = (a, b) \<Longrightarrow> keeps I (f a b)) \<Longrightarrow> keeps I (case x of (a, b) \<Rightarrow> f a b)"
  by (cases x) simp

lemma keeps_for_each [keeps_intro]: "(\<And>x. x \<in> set xs \<Longrightarrow> keeps I (f x)) \<Longrightarrow> keeps I (for_each xs f)"
  by (induction xs) (auto intro: keeps_return keeps_bind)

lemma keeps_let [keeps_intro]: "keeps I (f x) \<Longrightarrow> keeps I (Let x f)"
  by simp

end
