(* ===== verification/Sdk_Ui.thy ===== *)
theory Sdk_Ui
  imports Sdk
begin

text \<open>
  The view and canvas helpers of the SDK (\<open>sdk/cdc-badge-plugin/src/ui.rs\<close> and
  \<open>canvas.rs\<close>). A call into the firmware that returns nothing is a value of \<open>ui_call\<close>, and a
  helper is the list of calls it makes; text crosses the border as a C string, so a helper given
  text with a NUL makes no call, or passes an empty string, as the code does. The helpers that read
  something back take the firmware's import as an argument.

  A builder's \<open>push\<close> passes the number of items as a \<open>u16\<close>, and the firmware sees as many items
  of the array.
\<close>

section \<open>Calls\<close>

record ui_item =
  it_label :: ustr
  it_icon :: u8
  it_disabled :: bool
  it_id :: u32

datatype ui_call =
  Ui_toast ustr u8 u16
| Ui_message ustr u8 u32
| Ui_confirm ustr u8 u32
| Ui_info ustr ustr
| Ui_push_list ustr "ui_item list" u32 u32
| Ui_replace_list ustr "ui_item list" u32 u32
| Ui_pop
| Ui_footer ustr
| Ui_empty ustr
| Ui_lifecycle u32 u32
| Ui_update_item u16 ui_item
| Ui_insert_item u16 ui_item
| Ui_remove_item u16
| Ui_context_menu ustr "ui_item list" u32
| Ui_pop_to_plugin
| Ui_repaint
| Ui_slider ustr int int int int ustr u32
| Ui_color u8 u8 u8 u32
| Ui_t9 ustr "ustr option" u16 u32
| Ui_password ustr "ustr option" u16 u32
| Ui_date ustr u8 u8 u16 u32
| Ui_time ustr u8 u8 u32
| Ui_pin ustr u8 u8 u32
| Ui_inactivity u32 u32
| Ui_wink u8 u16
| Cv_push ustr u32 u32
| Cv_footer ustr
| Cv_clear
| Cv_text_size u8
| Cv_inverted bool
| Cv_shade u8
| Cv_text int int ustr
| Cv_text_aligned int int int ustr u8
| Cv_rect int int int int bool
| Cv_commit bool
| Cv_slider u32 int int int int
| Cv_text_widget u32 u16 "ustr option"
| Cv_set_text u32 ustr
| Cv_focus u32
| Cv_key_repeat u16 u16

text \<open>The codes of \<open>host_api.h\<close>.\<close>

definition UI_ICON_NONE :: u8 where "UI_ICON_NONE = 0"
definition UI_ICON_ERROR :: u8 where "UI_ICON_ERROR = 1"
definition UI_ICON_SUCCESS :: u8 where "UI_ICON_SUCCESS = 2"
definition UI_ICON_HEART :: u8 where "UI_ICON_HEART = 3"
definition UI_ICON_DIAMOND :: u8 where "UI_ICON_DIAMOND = 4"
definition UI_ICON_REMOVE :: u8 where "UI_ICON_REMOVE = 8"
definition UI_ICON_CIRCLE :: u8 where "UI_ICON_CIRCLE = 9"
definition UI_ICON_INVERSE_CIRCLE :: u8 where "UI_ICON_INVERSE_CIRCLE = 0x0A"
definition UI_ICON_MALE :: u8 where "UI_ICON_MALE = 0x0B"
definition UI_ICON_INFO :: u8 where "UI_ICON_INFO = UI_ICON_CIRCLE"
definition UI_ICON_MUSIC :: u8 where "UI_ICON_MUSIC = 0x0D"
definition UI_ICON_NOTES :: u8 where "UI_ICON_NOTES = 0x0E"
definition UI_ICON_SCENE :: u8 where "UI_ICON_SCENE = UI_ICON_NOTES"
definition UI_ICON_SUN :: u8 where "UI_ICON_SUN = 0x0F"
definition UI_ICON_LIGHT :: u8 where "UI_ICON_LIGHT = UI_ICON_SUN"
definition UI_ICON_PLAY :: u8 where "UI_ICON_PLAY = 0x10"
definition UI_ICON_SWITCH :: u8 where "UI_ICON_SWITCH = UI_ICON_PLAY"
definition UI_ICON_UPDOWN :: u8 where "UI_ICON_UPDOWN = 0x12"
definition UI_ICON_COVER :: u8 where "UI_ICON_COVER = UI_ICON_UPDOWN"
definition UI_ICON_ALERT :: u8 where "UI_ICON_ALERT = 0x13"
definition UI_ICON_PARAGRAPH :: u8 where "UI_ICON_PARAGRAPH = 0x14"
definition UI_ICON_SECTION :: u8 where "UI_ICON_SECTION = 0x15"
definition UI_ICON_BAR :: u8 where "UI_ICON_BAR = 0x16"
definition UI_ICON_SENSOR :: u8 where "UI_ICON_SENSOR = UI_ICON_BAR"
definition UI_ICON_ARROW_RIGHT :: u8 where "UI_ICON_ARROW_RIGHT = 0x1A"
definition UI_ICON_ANGLE :: u8 where "UI_ICON_ANGLE = 0x1C"
definition UI_ICON_LEFTRIGHT :: u8 where "UI_ICON_LEFTRIGHT = 0x1D"

definition ALIGN_LEFT :: u8 where "ALIGN_LEFT = 0"
definition ALIGN_CENTER :: u8 where "ALIGN_CENTER = 1"
definition ALIGN_RIGHT :: u8 where "ALIGN_RIGHT = 2"
definition WIDGET_CHANGED :: u32 where "WIDGET_CHANGED = 1"
definition WIDGET_COMMITTED :: u32 where "WIDGET_COMMITTED = 2"
definition WIDGET_CANCELLED :: u32 where "WIDGET_CANCELLED = 3"

section \<open>Views\<close>

definition to_cstring :: "ustr \<Rightarrow> ustr option" where
  "to_cstring s = (if 0 \<in> set s then None else Some s)"

abbreviation c_or_default :: "ustr \<Rightarrow> ustr" where
  "c_or_default s \<equiv> (case to_cstring s of Some c \<Rightarrow> c | None \<Rightarrow> [])"

abbreviation with_cstring :: "ustr \<Rightarrow> (ustr \<Rightarrow> ui_call list) \<Rightarrow> ui_call list" where
  "with_cstring s f \<equiv> (case to_cstring s of Some c \<Rightarrow> f c | None \<Rightarrow> [])"

definition push_toast :: "ustr \<Rightarrow> u8 \<Rightarrow> u16 \<Rightarrow> ui_call list" where
  "push_toast text icon ms = with_cstring text (\<lambda>c. [Ui_toast c icon ms])"

definition push_message :: "ustr \<Rightarrow> u8 \<Rightarrow> u32 \<Rightarrow> ui_call list" where
  "push_message text icon ms = with_cstring text (\<lambda>c. [Ui_message c icon ms])"

definition push_confirm :: "ustr \<Rightarrow> u8 \<Rightarrow> u32 \<Rightarrow> ui_call list" where
  "push_confirm text icon act = with_cstring text (\<lambda>c. [Ui_confirm c icon act])"

definition push_info :: "ustr \<Rightarrow> ustr \<Rightarrow> ui_call list" where
  "push_info title body = with_cstring title (\<lambda>t. with_cstring body (\<lambda>b. [Ui_info t b]))"

definition ui_pop :: "ui_call list" where
  "ui_pop = [Ui_pop]"

definition set_footer :: "ustr \<Rightarrow> ui_call list" where
  "set_footer text = with_cstring text (\<lambda>c. [Ui_footer c])"

definition set_list_empty :: "ustr \<Rightarrow> ui_call list" where
  "set_list_empty text = with_cstring text (\<lambda>c. [Ui_empty c])"

definition set_view_lifecycle :: "u32 \<Rightarrow> u32 \<Rightarrow> ui_call list" where
  "set_view_lifecycle hide visible = [Ui_lifecycle hide visible]"

section \<open>Lists and menus\<close>

definition ui_item_of :: "ustr \<Rightarrow> u32 \<Rightarrow> u8 \<Rightarrow> ui_item" where
  "ui_item_of c i icon = \<lparr>it_label = c, it_icon = icon, it_disabled = False, it_id = i\<rparr>"

text \<open>\<open>items.len() as u16\<close> and the items the firmware reads.\<close>

definition counted :: "ui_item list \<Rightarrow> ui_item list" where
  "counted its = take (length its mod 2 ^ 16) its"

record list_builder =
  lb_title :: ustr
  lb_items :: "ui_item list"
  lb_select :: u32
  lb_menu :: u32

definition list_new :: "ustr \<Rightarrow> list_builder" where
  "list_new title = \<lparr>lb_title = c_or_default title, lb_items = [], lb_select = 0, lb_menu = 0\<rparr>"

definition list_on_select :: "u32 \<Rightarrow> list_builder \<Rightarrow> list_builder" where
  "list_on_select act b = b\<lparr>lb_select := act\<rparr>"

definition list_on_menu :: "u32 \<Rightarrow> list_builder \<Rightarrow> list_builder" where
  "list_on_menu act b = b\<lparr>lb_menu := act\<rparr>"

definition list_item :: "ustr \<Rightarrow> u32 \<Rightarrow> u8 \<Rightarrow> list_builder \<Rightarrow> list_builder" where
  "list_item label i icon b =
    (case to_cstring label of
       Some c \<Rightarrow> b\<lparr>lb_items := lb_items b @ [ui_item_of c i icon]\<rparr>
     | None \<Rightarrow> b)"

definition list_push :: "list_builder \<Rightarrow> ui_call list" where
  "list_push b = [Ui_push_list (lb_title b) (counted (lb_items b)) (lb_select b) (lb_menu b)]"

definition list_replace :: "list_builder \<Rightarrow> ui_call list" where
  "list_replace b = [Ui_replace_list (lb_title b) (counted (lb_items b)) (lb_select b) (lb_menu b)]"

definition update_list_item :: "u16 \<Rightarrow> ustr \<Rightarrow> u32 \<Rightarrow> u8 \<Rightarrow> ui_call list" where
  "update_list_item n label i icon = with_cstring label (\<lambda>c. [Ui_update_item n (ui_item_of c i icon)])"

definition insert_list_item :: "u16 \<Rightarrow> ustr \<Rightarrow> u32 \<Rightarrow> u8 \<Rightarrow> ui_call list" where
  "insert_list_item n label i icon = with_cstring label (\<lambda>c. [Ui_insert_item n (ui_item_of c i icon)])"

definition remove_list_item :: "u16 \<Rightarrow> ui_call list" where
  "remove_list_item n = [Ui_remove_item n]"

record menu_builder =
  mb_title :: ustr
  mb_items :: "ui_item list"
  mb_select :: u32

definition menu_new :: "ustr \<Rightarrow> menu_builder" where
  "menu_new title = \<lparr>mb_title = c_or_default title, mb_items = [], mb_select = 0\<rparr>"

definition menu_on_select :: "u32 \<Rightarrow> menu_builder \<Rightarrow> menu_builder" where
  "menu_on_select act b = b\<lparr>mb_select := act\<rparr>"

definition menu_item :: "ustr \<Rightarrow> u32 \<Rightarrow> u8 \<Rightarrow> menu_builder \<Rightarrow> menu_builder" where
  "menu_item label i icon b =
    (case to_cstring label of
       Some c \<Rightarrow> b\<lparr>mb_items := mb_items b @ [ui_item_of c i icon]\<rparr>
     | None \<Rightarrow> b)"

definition menu_push :: "menu_builder \<Rightarrow> ui_call list" where
  "menu_push b = [Ui_context_menu (mb_title b) (counted (mb_items b)) (mb_select b)]"

section \<open>Sliders and input\<close>

record slider_builder =
  sb_title :: ustr
  sb_unit :: ustr
  sb_min :: int
  sb_max :: int
  sb_initial :: int
  sb_step :: int
  sb_action :: u32

definition slider_new :: "ustr \<Rightarrow> slider_builder" where
  "slider_new title = \<lparr>sb_title = c_or_default title, sb_unit = [], sb_min = 0, sb_max = 100,
     sb_initial = 0, sb_step = 1, sb_action = 0\<rparr>"

definition slider_range :: "int \<Rightarrow> int \<Rightarrow> slider_builder \<Rightarrow> slider_builder" where
  "slider_range lo hi b = b\<lparr>sb_min := lo, sb_max := hi\<rparr>"

definition slider_initial :: "int \<Rightarrow> slider_builder \<Rightarrow> slider_builder" where
  "slider_initial v b = b\<lparr>sb_initial := v\<rparr>"

definition slider_step :: "int \<Rightarrow> slider_builder \<Rightarrow> slider_builder" where
  "slider_step s b = b\<lparr>sb_step := max s 1\<rparr>"

definition slider_unit :: "ustr \<Rightarrow> slider_builder \<Rightarrow> slider_builder" where
  "slider_unit u b = b\<lparr>sb_unit := c_or_default u\<rparr>"

definition slider_on_save :: "u32 \<Rightarrow> slider_builder \<Rightarrow> slider_builder" where
  "slider_on_save act b = b\<lparr>sb_action := act\<rparr>"

definition slider_push :: "slider_builder \<Rightarrow> ui_call list" where
  "slider_push b =
     [Ui_slider (sb_title b) (sb_min b) (sb_max b) (sb_initial b) (sb_step b) (sb_unit b) (sb_action b)]"

definition push_color_picker :: "u8 \<Rightarrow> u8 \<Rightarrow> u8 \<Rightarrow> u32 \<Rightarrow> ui_call list" where
  "push_color_picker r g b act = [Ui_color r g b act]"

definition consume_input_int :: "('w \<Rightarrow> (int \<times> int) \<times> 'w) \<Rightarrow> ('w, int option) state" where
  "consume_input_int host = do {
     (rc, out) \<leftarrow> State host;
     ret (if rc = 0 then Some out else None)
   }"

definition push_text_input ::
  "(ustr \<Rightarrow> ustr option \<Rightarrow> u16 \<Rightarrow> u32 \<Rightarrow> ui_call) \<Rightarrow> ustr \<Rightarrow> ustr option \<Rightarrow> u16 \<Rightarrow> u32 \<Rightarrow> ui_call list" where
  "push_text_input host_fn title initial max_len act =
     with_cstring title (\<lambda>t.
       case initial of
         None \<Rightarrow> [host_fn t None max_len act]
       | Some s \<Rightarrow> with_cstring s (\<lambda>i. [host_fn t (Some i) max_len act]))"

definition push_t9_input :: "ustr \<Rightarrow> ustr option \<Rightarrow> u16 \<Rightarrow> u32 \<Rightarrow> ui_call list" where
  "push_t9_input = push_text_input Ui_t9"

definition push_password :: "ustr \<Rightarrow> ustr option \<Rightarrow> u16 \<Rightarrow> u32 \<Rightarrow> ui_call list" where
  "push_password = push_text_input Ui_password"

text \<open>The firmware returns a code and the contents of the buffer of \<open>cap\<close> bytes.\<close>

definition sdk_consume_input_text ::
  "(nat \<Rightarrow> 'w \<Rightarrow> (int \<times> u8 list) \<times> 'w) \<Rightarrow> nat \<Rightarrow> ('w, ustr option) state" where
  "sdk_consume_input_text host max_len = do {
     let cap = min (min (max_len * 4) (2 ^ 32 - 1) + 1) (2 ^ 32 - 1);
     (rc, buf) \<leftarrow> State (host cap);
     ret (if rc \<le> 0 then None else utf8_decode (takeWhile (\<lambda>b. b \<noteq> 0) buf))
   }"

definition push_date :: "ustr \<Rightarrow> u8 \<Rightarrow> u8 \<Rightarrow> u16 \<Rightarrow> u32 \<Rightarrow> ui_call list" where
  "push_date title day month year act = with_cstring title (\<lambda>t. [Ui_date t day month year act])"

definition push_time :: "ustr \<Rightarrow> u8 \<Rightarrow> u8 \<Rightarrow> u32 \<Rightarrow> ui_call list" where
  "push_time title hour minute act = with_cstring title (\<lambda>t. [Ui_time t hour minute act])"

definition push_pin_entry :: "ustr \<Rightarrow> u8 \<Rightarrow> u8 \<Rightarrow> u32 \<Rightarrow> ui_call list" where
  "push_pin_entry title max_len attempts act = with_cstring title (\<lambda>t. [Ui_pin t max_len attempts act])"

section \<open>Canvas\<close>

definition canvas_push :: "ustr \<Rightarrow> u32 \<Rightarrow> u32 \<Rightarrow> ui_call list" where
  "canvas_push title key_act widget_act = [Cv_push (c_or_default title) key_act widget_act]"

definition canvas_set_footer :: "ustr \<Rightarrow> ui_call list" where
  "canvas_set_footer hint = with_cstring hint (\<lambda>c. [Cv_footer c])"

definition draw_text :: "int \<Rightarrow> int \<Rightarrow> ustr \<Rightarrow> ui_call list" where
  "draw_text x y text = with_cstring text (\<lambda>c. [Cv_text x y c])"

definition draw_text_aligned :: "int \<Rightarrow> int \<Rightarrow> int \<Rightarrow> ustr \<Rightarrow> u8 \<Rightarrow> ui_call list" where
  "draw_text_aligned x y w text align = with_cstring text (\<lambda>c. [Cv_text_aligned x y w c align])"

definition canvas_add_text :: "u32 \<Rightarrow> u16 \<Rightarrow> ustr option \<Rightarrow> ui_call list" where
  "canvas_add_text i max_len initial = [Cv_text_widget i max_len (Option.bind initial to_cstring)]"

definition canvas_set_text :: "u32 \<Rightarrow> ustr \<Rightarrow> ui_call list" where
  "canvas_set_text i text = with_cstring text (\<lambda>c. [Cv_set_text i c])"

section \<open>Laws\<close>

lemma to_cstring_Some: "to_cstring s = Some c \<longleftrightarrow> c = s \<and> 0 \<notin> set s"
  by (auto simp: to_cstring_def)

lemma list_builder_simps [simp]:
  "lb_items (list_new t) = []" "lb_items (list_on_select a b) = lb_items b"
  "lb_items (list_on_menu a b) = lb_items b" "lb_title (list_on_select a b) = lb_title b"
  "lb_title (list_on_menu a b) = lb_title b" "lb_select (list_on_select a b) = a"
  "lb_select (list_on_menu a b) = lb_select b" "lb_menu (list_on_menu a b) = a"
  "lb_menu (list_on_select a b) = lb_menu b"
  "lb_title (list_new t) = c_or_default t"
  by (simp_all add: list_new_def list_on_select_def list_on_menu_def)

lemma list_item_simps [simp]:
  "lb_title (list_item l i c b) = lb_title b" "lb_select (list_item l i c b) = lb_select b"
  "lb_menu (list_item l i c b) = lb_menu b"
  "lb_items (list_item l i c b) = lb_items b @ (if 0 \<in> set l then [] else [ui_item_of l i c])"
  by (simp_all add: list_item_def to_cstring_def)

text \<open>The rows of a list filled in a loop are those whose label has no NUL, in order.\<close>

lemma fold_list_item:
  "lb_items (fold (\<lambda>x. list_item (f x) (g x) (h x)) xs b)
     = lb_items b @ map (\<lambda>x. ui_item_of (f x) (g x) (h x)) (filter (\<lambda>x. 0 \<notin> set (f x)) xs)"
  "lb_title (fold (\<lambda>x. list_item (f x) (g x) (h x)) xs b) = lb_title b"
  "lb_select (fold (\<lambda>x. list_item (f x) (g x) (h x)) xs b) = lb_select b"
  "lb_menu (fold (\<lambda>x. list_item (f x) (g x) (h x)) xs b) = lb_menu b"
  by (induction xs arbitrary: b) simp_all

lemma counted_id: "length its < 2 ^ 16 \<Longrightarrow> counted its = its"
  by (simp add: counted_def)

end
