(* ===== verification/Sdk_Canvas.thy ===== *)
theory Sdk_Canvas
  imports Sdk_Ui
begin

text \<open>
  Canvas elements, tweens, sprites and offscreen surfaces of the SDK (\<open>canvas.rs\<close>, \<open>anim.rs\<close>,
  \<open>sprite.rs\<close>, \<open>surface.rs\<close> and \<open>display.rs\<close> of \<open>sdk/cdc-badge-plugin/src\<close>). A call into the
  firmware is a value of \<open>cv_call\<close>; the wrappers take the function that makes a call and returns
  its result code. Coordinates (\<open>i16\<close>) are integers; \<open>i16\<close> wraps a sum to their range.
\<close>

section \<open>Calls\<close>

definition i16 :: "int \<Rightarrow> int" where
  "i16 x = signed_take_bit 15 x"

record host_anim =
  an_elem :: u32
  an_from_x :: int
  an_from_y :: int
  an_to_x :: int
  an_to_y :: int
  an_duration :: u16
  an_delay :: u16
  an_repeat :: u16
  an_easing :: u8
  an_flags :: u8
  an_done :: u32
  an_start_after :: u32

datatype cv_call =
  Cv_ui ui_call
| Cv_font u8
| Cv_ink bool
| Cv_policy u8 u8
| Cv_bitmap int int int int "u8 list"
| Cv_hline int int int
| Cv_vline int int int
| Cv_round_rect int int int int int bool
| Cv_sprite int int u32
| Cv_marquee int int int ustr u16 u16
| Cv_elem_begin u32
| Cv_elem_end
| Cv_elem_offset u32 int int
| Cv_elem_show u32 bool
| Cv_elem_clear u32
| Cv_elem_z u32 int
| Cv_elem_remove u32
| Cv_clear_ex u32
| An_start host_anim
| An_cancel u32
| An_blink u32 u16 u16 u32
| Sp_create u16 u16 u16 "u8 list"
| Sp_mask u32 "u8 list"
| Sp_flags u32 u8
| Sp_durations u32 "u16 list"
| Sp_frame u32 u16
| Sp_play u32 u8 u16 u16 u32
| Sf_create u16 u16
| Sf_destroy u32
| Sf_font u32 u8
| Sf_text u32 int int ustr
| Ds_backlight u16

type_synonym 's caller = "cv_call \<Rightarrow> ('s, int) state"

text \<open>Calls whose result is dropped.\<close>

definition does :: "'s caller \<Rightarrow> cv_call list \<Rightarrow> ('s, unit) state" where
  "does call cs = for_each cs (\<lambda>c. do { _ \<leftarrow> call c; ret () })"

definition checked :: "'s caller \<Rightarrow> cv_call \<Rightarrow> ('s, unit sdk_result) state" where
  "checked call c = do { rc \<leftarrow> call c; ret (check rc) }"

text \<open>Calls that return a handle.\<close>

definition handle_of :: "'s caller \<Rightarrow> cv_call \<Rightarrow> ('s, u32 sdk_result) state" where
  "handle_of call c = do { rc \<leftarrow> call c; ret (if rc \<le> 0 then Inl (from_code rc) else Inr (of_int rc)) }"

section \<open>Tweens\<close>

definition REPEAT_FOREVER :: u16 where "REPEAT_FOREVER = 0xFFFF"
definition FLAG_FROM_CURRENT :: u8 where "FLAG_FROM_CURRENT = 1"
definition FLAG_YOYO :: u8 where "FLAG_YOYO = 2"
definition FLAG_SHOW_START :: u8 where "FLAG_SHOW_START = 8"

datatype ease = Linear | QuadIn | QuadOut | QuadInOut | CubicIn | CubicOut | CubicInOut | Overshoot | Bounce | Step | Elastic

fun ease_raw :: "ease \<Rightarrow> u8" where
  "ease_raw Linear = 0" | "ease_raw QuadIn = 1" | "ease_raw QuadOut = 2" | "ease_raw QuadInOut = 3"
| "ease_raw CubicIn = 4" | "ease_raw CubicOut = 5" | "ease_raw CubicInOut = 6" | "ease_raw Overshoot = 7"
| "ease_raw Bounce = 8" | "ease_raw Step = 9" | "ease_raw Elastic = 10"

definition anim_element :: "u32 \<Rightarrow> host_anim" where
  "anim_element i = \<lparr>an_elem = i, an_from_x = 0, an_from_y = 0, an_to_x = 0, an_to_y = 0, an_duration = 500,
     an_delay = 0, an_repeat = 0, an_easing = ease_raw Linear, an_flags = FLAG_FROM_CURRENT, an_done = 0,
     an_start_after = 0\<rparr>"

definition anim_from :: "int \<Rightarrow> int \<Rightarrow> host_anim \<Rightarrow> host_anim" where
  "anim_from x y a = a\<lparr>an_from_x := x, an_from_y := y, an_flags := an_flags a AND NOT FLAG_FROM_CURRENT\<rparr>"

definition anim_to :: "int \<Rightarrow> int \<Rightarrow> host_anim \<Rightarrow> host_anim" where
  "anim_to x y a = a\<lparr>an_to_x := x, an_to_y := y\<rparr>"

definition anim_duration :: "u16 \<Rightarrow> host_anim \<Rightarrow> host_anim" where
  "anim_duration ms a = a\<lparr>an_duration := ms\<rparr>"

definition anim_delay :: "u16 \<Rightarrow> host_anim \<Rightarrow> host_anim" where
  "anim_delay ms a = a\<lparr>an_delay := ms\<rparr>"

definition anim_repeat :: "u16 \<Rightarrow> host_anim \<Rightarrow> host_anim" where
  "anim_repeat n a = a\<lparr>an_repeat := n\<rparr>"

definition anim_yoyo :: "host_anim \<Rightarrow> host_anim" where
  "anim_yoyo a = a\<lparr>an_flags := an_flags a OR FLAG_YOYO\<rparr>"

definition anim_show_on_start :: "host_anim \<Rightarrow> host_anim" where
  "anim_show_on_start a = a\<lparr>an_flags := an_flags a OR FLAG_SHOW_START\<rparr>"

definition anim_ease :: "ease \<Rightarrow> host_anim \<Rightarrow> host_anim" where
  "anim_ease e a = a\<lparr>an_easing := ease_raw e\<rparr>"

definition anim_on_done :: "u32 \<Rightarrow> host_anim \<Rightarrow> host_anim" where
  "anim_on_done act a = a\<lparr>an_done := act\<rparr>"

definition anim_after :: "u32 \<Rightarrow> host_anim \<Rightarrow> host_anim" where
  "anim_after prev a = a\<lparr>an_start_after := prev\<rparr>"

definition anim_start :: "'s caller \<Rightarrow> host_anim \<Rightarrow> ('s, u32 sdk_result) state" where
  "anim_start call a = handle_of call (An_start a)"

definition anim_blink :: "'s caller \<Rightarrow> u32 \<Rightarrow> u16 \<Rightarrow> u16 \<Rightarrow> u32 \<Rightarrow> ('s, u32 sdk_result) state" where
  "anim_blink call i ms n act = handle_of call (An_blink i ms n act)"

text \<open>\<open>.start().ok()\<close>.\<close>

definition animate :: "'s caller \<Rightarrow> host_anim \<Rightarrow> ('s, unit) state" where
  "animate call a = do { _ \<leftarrow> anim_start call a; ret () }"

section \<open>Sprites\<close>

datatype play_mode = Once | Loop | PingPong

fun mode_raw :: "play_mode \<Rightarrow> u8" where
  "mode_raw Once = 0" | "mode_raw Loop = 1" | "mode_raw PingPong = 2"

definition FLAG_OPAQUE :: u8 where "FLAG_OPAQUE = 1"
definition FLAG_FLIP_H :: u8 where "FLAG_FLIP_H = 2"
definition FLAG_FLIP_V :: u8 where "FLAG_FLIP_V = 4"
definition FLAG_ROT_90 :: u8 where "FLAG_ROT_90 = 8"

definition sprite_from_sheet :: "'s caller \<Rightarrow> u16 \<Rightarrow> u16 \<Rightarrow> u16 \<Rightarrow> u8 list \<Rightarrow> ('s, u32 sdk_result) state" where
  "sprite_from_sheet call w h n sheet = handle_of call (Sp_create w h n sheet)"

section \<open>Surfaces\<close>

record surface =
  sf_handle :: u32
  sf_width :: u16
  sf_height :: u16

record raster_img =
  ri_data :: "u8 list"
  ri_stride :: u16
  ri_width :: u16
  ri_height :: u16

definition surface_create :: "'s caller \<Rightarrow> u16 \<Rightarrow> u16 \<Rightarrow> ('s, surface sdk_result) state" where
  "surface_create call w h = do {
     r \<leftarrow> handle_of call (Sf_create w h);
     ret (case r of Inl e \<Rightarrow> Inl e | Inr i \<Rightarrow> Inr \<lparr>sf_handle = i, sf_width = w, sf_height = h\<rparr>)
   }"

definition surface_drop :: "'s caller \<Rightarrow> surface \<Rightarrow> ('s, unit) state" where
  "surface_drop call s = does call [Sf_destroy (sf_handle s)]"

definition surface_set_font :: "'s caller \<Rightarrow> surface \<Rightarrow> u8 \<Rightarrow> ('s, unit sdk_result) state" where
  "surface_set_font call s font = checked call (Sf_font (sf_handle s) font)"

definition surface_draw_text :: "'s caller \<Rightarrow> surface \<Rightarrow> int \<Rightarrow> int \<Rightarrow> ustr \<Rightarrow> ('s, unit sdk_result) state" where
  "surface_draw_text call s x y text =
    (case to_cstring text of
       None \<Rightarrow> ret (Inl InvalidArg)
     | Some c \<Rightarrow> checked call (Sf_text (sf_handle s) x y c))"

text \<open>The firmware's answer to a measurement is a code and the size, to an export the number of bytes
  written, the buffer and the stride.\<close>

definition surface_measure_text ::
  "(u32 \<Rightarrow> ustr \<Rightarrow> 'w \<Rightarrow> int \<times> u16 \<times> u16) \<Rightarrow> surface \<Rightarrow> ustr \<Rightarrow> 'w \<Rightarrow> (u16 \<times> u16) sdk_result" where
  "surface_measure_text host s text w =
    (case to_cstring text of
       None \<Rightarrow> Inl InvalidArg
     | Some c \<Rightarrow> (case host (sf_handle s) c w of (rc, wh) \<Rightarrow> if rc = 0 then Inr wh else Inl (from_code rc)))"

definition surface_export :: "(u32 \<Rightarrow> nat \<Rightarrow> 'w \<Rightarrow> int \<times> u8 list \<times> u16) \<Rightarrow> surface \<Rightarrow> 'w \<Rightarrow> raster_img sdk_result" where
  "surface_export host s w =
    (let bytes = div_ceil (unat (sf_width s)) 8 * unat (sf_height s)
     in case host (sf_handle s) bytes w of
          (n, buf, stride) \<Rightarrow>
            if n < 0 then Inl (from_code n)
            else Inr \<lparr>ri_data = take (nat n) (take bytes buf), ri_stride = stride, ri_width = sf_width s,
                      ri_height = sf_height s\<rparr>)"

section \<open>Canvas\<close>

definition FONT_BUILTIN :: u8 where "FONT_BUILTIN = 0"
definition FONT_BOLD_9PT :: u8 where "FONT_BOLD_9PT = 1"
definition FONT_BOLD_12PT :: u8 where "FONT_BOLD_12PT = 2"
definition FONT_BOLD_18PT :: u8 where "FONT_BOLD_18PT = 3"
definition FONT_BOLD_24PT :: u8 where "FONT_BOLD_24PT = 4"
definition SHADE_SOLID :: u8 where "SHADE_SOLID = 255"
definition CLEAR_KEEP_SPRITES :: u32 where "CLEAR_KEEP_SPRITES = 1"
definition ANIM_REFRESH_AUTO :: u8 where "ANIM_REFRESH_AUTO = 0"

definition pick_font_that_fits ::
  "(ustr \<Rightarrow> int \<Rightarrow> u8 list \<Rightarrow> 'w \<Rightarrow> int \<times> u8) \<Rightarrow> ustr \<Rightarrow> int \<Rightarrow> u8 list \<Rightarrow> 'w \<Rightarrow> u8 option" where
  "pick_font_that_fits host text width candidates w =
     Option.bind (to_cstring text) (\<lambda>c.
       case host c width candidates w of (rc, font) \<Rightarrow> if rc = 0 then Some font else None)"

definition marquee :: "int \<Rightarrow> int \<Rightarrow> int \<Rightarrow> ustr \<Rightarrow> u16 \<Rightarrow> u16 \<Rightarrow> cv_call list" where
  "marquee x y width text step_px frame_ms = [Cv_marquee x y width (c_or_default text) step_px frame_ms]"

abbreviation drawn_ui :: "ui_call list \<Rightarrow> cv_call list" where
  "drawn_ui \<equiv> map Cv_ui"

section \<open>Laws\<close>

lemma i16_id: "- 32768 \<le> x \<Longrightarrow> x < 32768 \<Longrightarrow> i16 x = x"
  by (simp add: i16_def signed_take_bit_int_eq_self)

lemma i16_range: "- 32768 \<le> i16 x" "i16 x < 32768"
  using signed_take_bit_int_greater_eq_minus_exp [of 15 x] signed_take_bit_int_less_exp [of 15 x]
  by (simp_all add: i16_def)

lemma does_keeps [keeps_intro]:
  assumes "\<And>c. c \<in> set cs \<Longrightarrow> keeps I (call c)"
  shows "keeps I (does call cs)"
  unfolding does_def using assms by (intro keeps_intro)

lemma does_append: "does call (xs @ ys) = do { does call xs; does call ys }"
  by (induction xs) (simp_all add: does_def)

end
