(* ===== verification/Snake_Screen.thy ===== *)
theory Snake_Screen
  imports Snake_App Sdk_Canvas "HOL-Library.Signed_Division"
begin

text \<open>
  What the snake plugin draws (\<open>render.rs\<close> and \<open>sprites.rs\<close> of \<open>plugins/snake/src\<close>), as programs that
  call the firmware's canvas. The sprite handles and the line of the title block are statics of
  \<open>render.rs\<close>; \<open>r_calls\<close> are the calls made so far with their result codes.
\<close>

section \<open>Sprite sheets\<close>

definition HEAD_FRAME_COUNT :: u16 where "HEAD_FRAME_COUNT = 2"

definition HEAD_SHEET :: "u8 list" where
  "HEAD_SHEET = [0x7E, 0xFF, 0xF9, 0xF9, 0xFF, 0xFC, 0xFF, 0x7E,
     0x7E, 0xFF, 0xFF, 0xF9, 0xFF, 0xFC, 0xFF, 0x7E]"

definition HEAD_FRAME_MS :: "u16 list" where "HEAD_FRAME_MS = [1400, 160]"
definition BODY_FRAME_COUNT :: u16 where "BODY_FRAME_COUNT = 1"

definition BODY_SHEET :: "u8 list" where
  "BODY_SHEET = [0x7E, 0xD5, 0xAB, 0xD5, 0xAB, 0xD5, 0xAB, 0x7E]"

definition FOOD_FRAME_COUNT :: u16 where "FOOD_FRAME_COUNT = 3"

definition FOOD_SHEET :: "u8 list" where
  "FOOD_SHEET = [0x00, 0x08, 0x00, 0x3C, 0x3C, 0x3C, 0x18, 0x00,
     0x08, 0x08, 0x3C, 0x7E, 0x7E, 0x7E, 0x3C, 0x18,
     0x08, 0x1C, 0x7E, 0xFF, 0xFF, 0xFF, 0x7E, 0x3C]"

definition BOOM_FRAME_COUNT :: u16 where "BOOM_FRAME_COUNT = 4"

definition BOOM_SHEET :: "u8 list" where
  "BOOM_SHEET = [
     0x00, 0x00, 0x00, 0x00, 0x00, 0x00, 0x00, 0x00, 0x01, 0x80, 0x03, 0xC0, 0x03, 0xC0, 0x01, 0x80,
     0x00, 0x00, 0x00, 0x00, 0x00, 0x00, 0x00, 0x00, 0x00, 0x00, 0x00, 0x00, 0x00, 0x00, 0x00, 0x00,
     0x00, 0x00, 0x01, 0x80, 0x01, 0x80, 0x00, 0x00, 0x04, 0x20, 0x02, 0x40, 0x0F, 0xF0, 0x1F, 0xF8,
     0x1F, 0xF8, 0x0F, 0xF0, 0x02, 0x40, 0x04, 0x20, 0x00, 0x00, 0x01, 0x80, 0x01, 0x80, 0x00, 0x00,
     0x01, 0x80, 0x01, 0x80, 0x0C, 0x30, 0x1E, 0x78, 0x30, 0x0C, 0x60, 0x06, 0xC1, 0x83, 0xC1, 0x83,
     0xC1, 0x83, 0xC1, 0x83, 0x60, 0x06, 0x30, 0x0C, 0x1E, 0x78, 0x0C, 0x30, 0x01, 0x80, 0x01, 0x80,
     0x80, 0x01, 0x20, 0x08, 0x00, 0x00, 0x08, 0x20, 0x00, 0x00, 0x40, 0x02, 0x00, 0x00, 0x02, 0x00,
     0x00, 0x40, 0x00, 0x00, 0x10, 0x04, 0x00, 0x00, 0x04, 0x10, 0x00, 0x00, 0x40, 0x02, 0x80, 0x01]"

definition BOOM_FRAME_MS :: u16 where "BOOM_FRAME_MS = 220"
definition BOOM_SIZE :: int where "BOOM_SIZE = 16"

section \<open>Elements\<close>

definition ELEM_HEAD :: u32 where "ELEM_HEAD = 1"
definition ELEM_BODY :: u32 where "ELEM_BODY = 2"
definition ELEM_FOOD :: u32 where "ELEM_FOOD = 3"
definition ELEM_SCORE :: u32 where "ELEM_SCORE = 4"
definition ELEM_FX :: u32 where "ELEM_FX = 5"
definition ELEM_OVERLAY :: u32 where "ELEM_OVERLAY = 6"
definition ELEM_PAUSE :: u32 where "ELEM_PAUSE = 7"
definition ELEM_T_TITLE :: u32 where "ELEM_T_TITLE = 10"
definition ELEM_T_INFO :: u32 where "ELEM_T_INFO = 11"
definition ELEM_T_PRESS :: u32 where "ELEM_T_PRESS = 12"
definition ELEM_T_APPLE :: u32 where "ELEM_T_APPLE = 13"
definition ELEM_T_HEAD :: u32 where "ELEM_T_HEAD = 14"
definition Z_FIELD :: int where "Z_FIELD = 2"
definition Z_HEAD :: int where "Z_HEAD = 3"
definition Z_FX :: int where "Z_FX = 5"
definition Z_PAUSE :: int where "Z_PAUSE = 8"
definition Z_OVERLAY :: int where "Z_OVERLAY = 10"
definition FALLBACK_ASCENT :: int where "FALLBACK_ASCENT = 24"

section \<open>State\<close>

record 'w rst =
  rw :: 'w
  r_calls :: "(cv_call \<times> int) list"
  head_sprite :: u32
  body_sprite :: u32
  food_sprite :: u32
  boom_sprite :: u32
  title_info_y :: int

record 'w render_host =
  rh_call :: "cv_call \<Rightarrow> 'w \<Rightarrow> int \<times> 'w"
  rh_measure :: "u32 \<Rightarrow> ustr \<Rightarrow> 'w \<Rightarrow> int \<times> u16 \<times> u16"

definition render_defaults :: "'w \<Rightarrow> 'w rst" where
  "render_defaults w = \<lparr>rw = w, r_calls = [], head_sprite = 0, body_sprite = 0, food_sprite = 0, boom_sprite = 0,
     title_info_y = 40\<rparr>"

definition canvas :: "'w render_host \<Rightarrow> 'w rst caller" where
  "canvas h c = State (\<lambda>st. case rh_call h c (rw st) of
     (rc, w) \<Rightarrow> (rc, st\<lparr>rw := w, r_calls := r_calls st @ [(c, rc)]\<rparr>))"

definition paint :: "'w render_host \<Rightarrow> cv_call list \<Rightarrow> ('w rst, unit) state" where
  "paint h = does (canvas h)"

text \<open>The pixels of a cell and its offset from the corner of the field, as \<open>i16\<close> values.\<close>

definition px :: "u16 \<times> u16 \<Rightarrow> int \<times> int" where
  "px p = (sint (fst p), sint (snd p))"

definition create_sprites :: "'w render_host \<Rightarrow> ('w rst, unit) state" where
  "create_sprites h = do {
     r \<leftarrow> sprite_from_sheet (canvas h) 8 8 HEAD_FRAME_COUNT HEAD_SHEET;
     (case r of
        Inr s \<Rightarrow> do {
          paint h [Sp_flags s FLAG_OPAQUE, Sp_durations s HEAD_FRAME_MS];
          modify (\<lambda>st. st\<lparr>head_sprite := s\<rparr>)
        }
      | Inl e \<Rightarrow> modify (\<lambda>st. st\<lparr>head_sprite := 0\<rparr>));
     r \<leftarrow> sprite_from_sheet (canvas h) 8 8 BODY_FRAME_COUNT BODY_SHEET;
     modify (\<lambda>st. st\<lparr>body_sprite := (case r of Inr s \<Rightarrow> s | Inl e \<Rightarrow> 0)\<rparr>);
     r \<leftarrow> sprite_from_sheet (canvas h) 8 8 FOOD_FRAME_COUNT FOOD_SHEET;
     modify (\<lambda>st. st\<lparr>food_sprite := (case r of Inr s \<Rightarrow> s | Inl e \<Rightarrow> 0)\<rparr>);
     r \<leftarrow> sprite_from_sheet (canvas h) 16 16 BOOM_FRAME_COUNT BOOM_SHEET;
     modify (\<lambda>st. st\<lparr>boom_sprite := (case r of Inr s \<Rightarrow> s | Inl e \<Rightarrow> 0)\<rparr>)
   }"

definition font_ascent :: "'w render_host \<Rightarrow> u8 \<Rightarrow> ('w rst, int) state" where
  "font_ascent h font = do {
     r \<leftarrow> surface_create (canvas h) 8 8;
     case r of
       Inl e \<Rightarrow> ret FALLBACK_ASCENT
     | Inr s \<Rightarrow> do {
         f \<leftarrow> surface_set_font (canvas h) s font;
         m \<leftarrow> gets (\<lambda>st. surface_measure_text (rh_measure h) s (lit ''A'') (rw st));
         surface_drop (canvas h) s;
         ret (if \<not> is_ok f then FALLBACK_ASCENT
              else case m of Inr (_, ht) \<Rightarrow> sint ht | Inl e \<Rightarrow> FALLBACK_ASCENT)
       }
   }"

definition reset_draw_state :: "cv_call list" where
  "reset_draw_state = [Cv_font FONT_BUILTIN, Cv_ui (Cv_text_size 1), Cv_ui (Cv_inverted False), Cv_ui (Cv_shade SHADE_SOLID),
     Cv_ink False]"

section \<open>Title screen\<close>

text \<open>The speed gauge has five boxes, the first \<open>lvl\<close> filled.\<close>

definition record_title_info :: "'w render_host \<Rightarrow> int \<Rightarrow> int \<Rightarrow> u8 \<Rightarrow> u32 \<Rightarrow> ('w rst, unit) state" where
  "record_title_info h w y lvl highscore = do {
     let gauge_w = 60;
     let gx = i16 (w - gauge_w) sdiv 2;
     paint h ([Cv_elem_begin ELEM_T_INFO] @
       drawn_ui (draw_text_aligned 0 y (i16 (w sdiv 2 - gauge_w sdiv 2 - 4)) (lit ''speed'') ALIGN_RIGHT) @
       map (\<lambda>i. Cv_ui (Cv_rect (i16 (gx + i * 12)) y 10 8 (i < uint lvl))) [0, 1, 2, 3, 4] @
       drawn_ui (draw_text (i16 (gx + gauge_w + 6)) y (lit ''best '' @ show_nat (unat highscore))) @
       [Cv_elem_end])
   }"

definition update_title_info :: "'w render_host \<Rightarrow> u16 \<Rightarrow> u8 \<Rightarrow> u32 \<Rightarrow> ('w rst, unit) state" where
  "update_title_info h body_w lvl highscore = do {
     paint h [Cv_elem_clear ELEM_T_INFO];
     y \<leftarrow> gets title_info_y;
     record_title_info h (sint body_w) y lvl highscore;
     paint h [Cv_ui (Cv_commit False)]
   }"

definition wobble :: "host_anim \<Rightarrow> host_anim" where
  "wobble a = anim_repeat REPEAT_FOREVER (anim_yoyo (anim_ease QuadInOut (anim_duration 1600 (anim_to 0 2 (anim_from 0 (-2) a)))))"

definition show_title :: "'w render_host \<Rightarrow> u16 \<Rightarrow> u16 \<Rightarrow> u8 \<Rightarrow> u32 \<Rightarrow> ('w rst, unit) state" where
  "show_title h body_w body_h lvl highscore = do {
     let (w, ht) = (sint body_w, sint body_h);
     paint h (Cv_clear_ex CLEAR_KEEP_SPRITES # reset_draw_state);
     let logo_top = 4;
     ascent \<leftarrow> font_ascent h FONT_BOLD_24PT;
     let info_y = i16 (logo_top + ascent + 10);
     modify (\<lambda>st. st\<lparr>title_info_y := info_y\<rparr>);
     paint h ([Cv_elem_begin ELEM_T_TITLE, Cv_font FONT_BOLD_24PT] @
       drawn_ui (draw_text_aligned 0 (i16 (logo_top + ascent)) w (lit ''SNAKE'') ALIGN_CENTER) @
       [Cv_elem_end, Cv_font FONT_BUILTIN]);
     animate (canvas h) (wobble (anim_element ELEM_T_TITLE));
     let deco_y = i16 (logo_top + i16 (ascent - sint CELL) sdiv 2);
     apple \<leftarrow> gets food_sprite;
     whenM (apple \<noteq> 0) (paint h [Cv_elem_begin ELEM_T_APPLE, Cv_sprite (i16 (w sdiv 2 - 78)) deco_y apple, Cv_elem_end,
       Sp_play apple (mode_raw PingPong) 260 REPEAT_FOREVER 0]);
     hd_spr \<leftarrow> gets head_sprite;
     whenM (hd_spr \<noteq> 0) (paint h [Cv_elem_begin ELEM_T_HEAD, Cv_sprite (i16 (w sdiv 2 + 70)) deco_y hd_spr, Cv_elem_end,
       Sp_play hd_spr (mode_raw Loop) 700 REPEAT_FOREVER 0]);
     record_title_info h w info_y lvl highscore;
     paint h ([Cv_elem_begin ELEM_T_PRESS] @
       drawn_ui (draw_text_aligned 0 (i16 (ht - 26)) w (lit ''press Y to play'') ALIGN_CENTER) @ [Cv_elem_end]);
     _ \<leftarrow> anim_blink (canvas h) ELEM_T_PRESS 900 REPEAT_FOREVER 0;
     paint h (drawn_ui (draw_text_aligned 0 (i16 (ht - 12)) w (lit ''2/4/6/8 turn   5 pause'') ALIGN_CENTER) @
       [Cv_ui (Cv_commit True)])
   }"

section \<open>Game screen\<close>

definition head_flags :: "direction \<Rightarrow> u8" where
  "head_flags d = FLAG_OPAQUE OR (case d of
     East \<Rightarrow> 0
   | South \<Rightarrow> FLAG_ROT_90
   | West \<Rightarrow> FLAG_FLIP_H OR FLAG_FLIP_V
   | North \<Rightarrow> FLAG_ROT_90 OR FLAG_FLIP_H OR FLAG_FLIP_V)"

definition stamp :: "u32 \<Rightarrow> layout \<Rightarrow> cell \<Rightarrow> cv_call" where
  "stamp spr l c = (case px (cell_px l c) of (x, y) \<Rightarrow>
     if spr \<noteq> 0 then Cv_sprite x y spr
     else Cv_ui (Cv_rect (i16 (x + 1)) (i16 (y + 1)) (sint CELL - 2) (sint CELL - 2) True))"

definition record_body :: "'w render_host \<Rightarrow> layout \<Rightarrow> game \<Rightarrow> ('w rst, unit) state" where
  "record_body h l g = do { spr \<leftarrow> gets body_sprite; paint h (map (stamp spr l) (tl (snake g))) }"

text \<open>What \<open>record_score\<close> records.\<close>

definition score_line :: "int \<Rightarrow> u32 \<Rightarrow> u32 \<Rightarrow> cv_call list" where
  "score_line w sc b =
     drawn_ui (draw_text 2 2 (lit ''score '' @ show_nat (unat sc))) @
     drawn_ui (draw_text_aligned (w sdiv 2) 2 (i16 (w sdiv 2 - 2)) (lit ''best '' @ show_nat (unat b)) ALIGN_RIGHT)"

definition record_score :: "'w render_host \<Rightarrow> int \<Rightarrow> u32 \<Rightarrow> u32 \<Rightarrow> ('w rst, unit) state" where
  "record_score h w sc b = paint h ([Cv_elem_begin ELEM_SCORE] @ score_line w sc b @ [Cv_elem_end])"

definition move_food :: "'w render_host \<Rightarrow> game \<Rightarrow> ('w rst, unit) state" where
  "move_food h g = (case food g of
     Some c \<Rightarrow> (case px (cell_offset c) of (ox, oy) \<Rightarrow> paint h [Cv_elem_offset ELEM_FOOD ox oy, Cv_elem_show ELEM_FOOD True])
   | None \<Rightarrow> paint h [Cv_elem_show ELEM_FOOD False])"

text \<open>The static background: the header's line and the border of the field.\<close>

definition field_frame :: "layout \<Rightarrow> int \<Rightarrow> cv_call list" where
  "field_frame l w =
    (let field_w = i16 (uint (grid_w l) * sint CELL);
         field_h = i16 (uint (grid_h l) * sint CELL);
         b = sint BORDER
     in [Cv_hline 0 (sint HEADER_H - 2) w,
         Cv_ui (Cv_rect (i16 (sint (field_x l) - b)) (i16 (sint (field_y l) - b)) (i16 (field_w + 2 * b))
           (i16 (field_h + 2 * b)) False)])"

definition put_food :: "'w render_host \<Rightarrow> layout \<Rightarrow> game \<Rightarrow> u32 \<Rightarrow> ('w rst, unit) state" where
  "put_food h l g spr = (case px (cell_px l (0, 0)) of (x, y) \<Rightarrow> do {
     paint h [Cv_elem_begin ELEM_FOOD, Cv_sprite x y spr, Cv_elem_end, Cv_elem_z ELEM_FOOD Z_FIELD];
     move_food h g;
     paint h [Sp_play spr (mode_raw PingPong) 260 REPEAT_FOREVER 0]
   })"

definition put_head :: "'w render_host \<Rightarrow> layout \<Rightarrow> game \<Rightarrow> u32 \<Rightarrow> ('w rst, unit) state" where
  "put_head h l g spr =
    (case px (cell_px l (0, 0)) of (x, y) \<Rightarrow>
     case px (cell_offset (head g)) of (ox, oy) \<Rightarrow>
       paint h [Sp_flags spr (head_flags (dir g)), Cv_elem_begin ELEM_HEAD, Cv_sprite x y spr, Cv_elem_end,
         Cv_elem_z ELEM_HEAD Z_HEAD, Cv_elem_offset ELEM_HEAD ox oy])"

definition put_boom :: "'w render_host \<Rightarrow> layout \<Rightarrow> u32 \<Rightarrow> ('w rst, unit) state" where
  "put_boom h l spr =
    (case px (cell_px l (0, 0)) of (x, y) \<Rightarrow>
     let d = (BOOM_SIZE - sint CELL) sdiv 2 in
       paint h [Cv_elem_begin ELEM_FX, Cv_sprite (i16 (x - d)) (i16 (y - d)) spr, Cv_elem_end,
         Cv_elem_z ELEM_FX Z_FX, Cv_elem_show ELEM_FX False])"

definition render_round :: "'w render_host \<Rightarrow> u16 \<Rightarrow> layout \<Rightarrow> game \<Rightarrow> u32 \<Rightarrow> ('w rst, unit) state" where
  "render_round h body_w l g b = do {
     paint h (Cv_clear_ex CLEAR_KEEP_SPRITES # reset_draw_state @ field_frame l (sint body_w));
     record_score h (sint body_w) (score g) b;
     paint h [Cv_elem_begin ELEM_BODY];
     record_body h l g;
     paint h [Cv_elem_end, Cv_elem_z ELEM_BODY Z_FIELD];
     fs \<leftarrow> gets food_sprite;
     whenM (fs \<noteq> 0) (put_food h l g fs);
     hs \<leftarrow> gets head_sprite;
     whenM (hs \<noteq> 0) (put_head h l g hs);
     bs \<leftarrow> gets boom_sprite;
     whenM (bs \<noteq> 0) (put_boom h l bs);
     paint h [Cv_ui (Cv_commit True)]
   }"

definition head_tween :: "cell \<Rightarrow> cell \<Rightarrow> u32 \<Rightarrow> host_anim" where
  "head_tween old new step_ms =
    (case px (cell_offset old) of (fx, fy) \<Rightarrow>
     case px (cell_offset new) of (tx, ty) \<Rightarrow>
       anim_ease Linear (anim_duration (ucast (min step_ms 0xFFFF)) (anim_to tx ty (anim_from fx fy (anim_element ELEM_HEAD)))))"

definition render_step :: "'w render_host \<Rightarrow> u16 \<Rightarrow> layout \<Rightarrow> game \<Rightarrow> cell \<Rightarrow> bool \<Rightarrow> u32 \<Rightarrow> u32 \<Rightarrow> ('w rst, unit) state" where
  "render_step h body_w l g old_head ate b step_ms = do {
     hs \<leftarrow> gets head_sprite;
     whenM (hs \<noteq> 0) (paint h [Sp_flags hs (head_flags (dir g))]);
     animate (canvas h) (head_tween old_head (head g) step_ms);
     paint h [Cv_elem_clear ELEM_BODY, Cv_elem_begin ELEM_BODY];
     record_body h l g;
     paint h [Cv_elem_end];
     whenM ate (do {
       paint h [Cv_elem_clear ELEM_SCORE];
       record_score h (sint body_w) (score g) b;
       move_food h g
     });
     paint h [Cv_ui (Cv_commit False)]
   }"

section \<open>Pause, crash, game over\<close>

definition show_pause :: "'w render_host \<Rightarrow> u16 \<Rightarrow> u16 \<Rightarrow> bool \<Rightarrow> ('w rst, unit) state" where
  "show_pause h body_w body_h paused =
    (if \<not> paused then paint h [Cv_elem_remove ELEM_PAUSE, Cv_ui (Cv_commit False)]
     else do {
       let (pw, ph) = (72, 22);
       let (x, y) = (i16 (sint body_w - pw) sdiv 2, i16 (sint body_h - ph) sdiv 2);
       paint h ([Cv_elem_begin ELEM_PAUSE, Cv_ink True, Cv_round_rect x y pw ph 4 True, Cv_ink False,
         Cv_round_rect x y pw ph 4 False] @
         drawn_ui (draw_text_aligned x (i16 (y + 7)) pw (lit ''PAUSE'') ALIGN_CENTER) @
         [Cv_elem_end, Cv_elem_z ELEM_PAUSE Z_PAUSE]);
       _ \<leftarrow> anim_blink (canvas h) ELEM_PAUSE 900 REPEAT_FOREVER 0;
       paint h [Cv_ui (Cv_commit False)]
     })"

definition play_crash_fx :: "'w render_host \<Rightarrow> cell \<Rightarrow> ('w rst, unit) state" where
  "play_crash_fx h c = do {
     bs \<leftarrow> gets boom_sprite;
     whenM (bs \<noteq> 0) (case px (cell_offset c) of (ox, oy) \<Rightarrow>
       paint h [Cv_elem_offset ELEM_FX ox oy, Cv_elem_show ELEM_FX True, Sp_frame bs 0,
         Sp_play bs (mode_raw Once) BOOM_FRAME_MS 1 ACT_BOOM_DONE, Cv_ui (Cv_commit False)])
   }"

definition show_game_over :: "'w render_host \<Rightarrow> u16 \<Rightarrow> u16 \<Rightarrow> u32 \<Rightarrow> u32 \<Rightarrow> bool \<Rightarrow> ('w rst, unit) state" where
  "show_game_over h body_w body_h sc b nb = do {
     let (pw, ph) = (150, 64);
     let (x, y) = (i16 (sint body_w - pw) sdiv 2, i16 (sint body_h - ph) sdiv 2);
     let line = (if nb then lit ''NEW BEST '' @ show_nat (unat sc)
       else lit ''score '' @ show_nat (unat sc) @ lit ''   best '' @ show_nat (unat b));
     paint h ([Cv_elem_remove ELEM_OVERLAY, Cv_elem_begin ELEM_OVERLAY, Cv_ink True, Cv_round_rect x y pw ph 5 True,
         Cv_ink False, Cv_round_rect x y pw ph 5 False, Cv_ui (Cv_rect x y pw 16 True), Cv_ui (Cv_inverted True)] @
       drawn_ui (draw_text_aligned x (i16 (y + 4)) pw (lit ''GAME OVER'') ALIGN_CENTER) @ [Cv_ui (Cv_inverted False)] @
       drawn_ui (draw_text_aligned x (i16 (y + 24)) pw line ALIGN_CENTER) @
       drawn_ui (draw_text_aligned x (i16 (y + 44)) pw (lit ''Y again   N title'') ALIGN_CENTER) @
       [Cv_elem_end, Cv_elem_z ELEM_OVERLAY Z_OVERLAY, Cv_elem_show ELEM_OVERLAY False]);
     animate (canvas h) (anim_show_on_start (anim_ease Bounce (anim_duration 900 (anim_to 0 0
       (anim_from 0 (i16 (- (y + ph))) (anim_element ELEM_OVERLAY))))));
     paint h [Cv_ui (Cv_commit False)]
   }"

section \<open>The drawing of a call\<close>

text \<open>\<open>lib.rs\<close> calls \<open>render.rs\<close> with the body size, the layout and the round it has then: those after the
  call of the firmware, in which no drawing is followed by a change of them.\<close>

definition render_event :: "'v render_host \<Rightarrow> 'w sst \<Rightarrow> draw \<Rightarrow> ('v rst, unit) state" where
  "render_event h st d =
    (let (bw, bh) = body_size st in
     case d of
       Draw_title lvl b \<Rightarrow> show_title h bw bh lvl b
     | Draw_title_info lvl b \<Rightarrow> update_title_info h bw lvl b
     | Draw_round c b \<Rightarrow> (case (slayout st, sgame st) of (Some l, Some g) \<Rightarrow> render_round h bw l g b | _ \<Rightarrow> ret ())
     | Draw_step c ate b ms \<Rightarrow>
         (case (slayout st, sgame st) of (Some l, Some g) \<Rightarrow> render_step h bw l g c ate b ms | _ \<Rightarrow> ret ())
     | Draw_pause p \<Rightarrow> show_pause h bw bh p
     | Draw_crash c \<Rightarrow> play_crash_fx h c
     | Draw_game_over sc b nb \<Rightarrow> show_game_over h bw bh sc b nb
     | Toast_too_small \<Rightarrow> ret ()
     | Pop \<Rightarrow> ret ())"

definition render_call :: "'v render_host \<Rightarrow> snake_entry \<Rightarrow> 'w sst \<Rightarrow> 'w sst \<Rightarrow> ('v rst, unit) state" where
  "render_call h e st st' = do {
     whenM (e = S_Enter) (create_sprites h);
     for_each (drop (length (draws st)) (draws st')) (render_event h st')
   }"

end
