(* ===== verification/Snake_Claims.thy ===== *)
theory Snake_Claims
  imports Snake_App
begin

text \<open>Properties of the snake plugin, with their witnesses.\<close>

section \<open>The plugin keeps its round well-formed\<close>

definition app_ok :: "'w sst \<Rightarrow> bool" where
  "app_ok st \<longleftrightarrow> \<not> strapped st \<and> 1 \<le> unat (level st) \<and> unat (level st) \<le> 5
     \<and> (case sgame st of Some g \<Rightarrow> round_ok g | None \<Rightarrow> True)"

lemma clamp_level: "1 \<le> unat (clamp_speed_level k)" "unat (clamp_speed_level k) \<le> 5"
proof -
  have m: "1 \<le> unat (max 1 (min 5 k))" "unat (max 1 (min 5 k)) \<le> 5"
    by (auto simp: max_def min_def word_le_nat_alt)
  then have "unat (clamp_speed_level k) = unat (max 1 (min 5 k))"
    by (simp add: clamp_speed_level_def SPEED_LEVELS_def unsigned_ucast_eq take_bit_nat_eq_self)
  with m show "1 \<le> unat (clamp_speed_level k)" "unat (clamp_speed_level k) \<le> 5" by simp_all
qed

lemma highscore_key_Some: "1 \<le> unat lvl \<Longrightarrow> unat lvl \<le> 5 \<Longrightarrow> \<exists>k. highscore_key lvl = Some k"
proof -
  assume "1 \<le> unat lvl" "unat lvl \<le> 5"
  then have "unat (lvl - 1) < 5" by (subst unat_sub) (auto simp: word_le_nat_alt)
  then show ?thesis by (simp add: highscore_key_def HIGHSCORE_KEYS_def)
qed

lemma app_ok_set [simp]:
  "app_ok (st\<lparr>last_step_ms := t\<rparr>) = app_ok st" "app_ok (st\<lparr>screen := s\<rparr>) = app_ok st"
  "app_ok (st\<lparr>new_best := b\<rparr>) = app_ok st" "app_ok (st\<lparr>crash_ms := t\<rparr>) = app_ok st"
  "app_ok (st\<lparr>refresh_busy := b\<rparr>) = app_ok st" "app_ok (st\<lparr>refresh_since := t\<rparr>) = app_ok st"
  "app_ok (st\<lparr>refresh_sub := k\<rparr>) = app_ok st" "app_ok (st\<lparr>sworld := w\<rparr>) = app_ok st"
  "app_ok (st\<lparr>best := v\<rparr>) = app_ok st" "app_ok (st\<lparr>slayout := l\<rparr>) = app_ok st"
  "app_ok (st\<lparr>body_size := bs\<rparr>) = app_ok st" "app_ok (draw d st) = app_ok st"
  by (simp_all add: app_ok_def draw_def)

lemma app_ok_game: "app_ok st \<Longrightarrow> round_ok g \<Longrightarrow> app_ok (st\<lparr>sgame := Some g\<rparr>)"
  "app_ok st \<Longrightarrow> app_ok (st\<lparr>sgame := None\<rparr>)"
  by (simp_all add: app_ok_def)

lemma app_ok_shq [simp]: "shq f st = (r, st') \<Longrightarrow> app_ok st' = app_ok st"
  by (auto simp: shq_def)

lemma app_ok_rounds:
  assumes "app_ok st"
  shows "app_ok (start_round h st)" "app_ok (back_to_title st)" "app_ok (show_game_over_panel st)"
proof -
  show "app_ok (start_round h st)"
    using assms by (auto simp: start_round_def Let_def intro!: app_ok_game new_game_ok
        split: option.split prod.split)
  show "app_ok (back_to_title st)" using assms by (simp add: back_to_title_def app_ok_game)
  show "app_ok (show_game_over_panel st)" using assms by (simp add: show_game_over_panel_def Let_def)
qed

lemma save_best_gen:
  assumes "1 \<le> unat (level st)" "unat (level st) \<le> 5"
    and "save_best_if_beaten h (level st) sc st = (nb, st')"
  shows "app_ok st' = app_ok st \<and> strapped st' = strapped st \<and> best st' = max (best st) sc
    \<and> nb = (best st < sc)"
proof -
  obtain k where k: "highscore_key (level st) = Some k"
    using highscore_key_Some assms(1,2) by blast
  show ?thesis
  proof (cases "sc \<le> best st")
    case True
    then have "nb = False" "st' = st" using assms(3) by (simp_all add: save_best_if_beaten_def)
    then show ?thesis using True by (simp add: max_def not_less)
  next
    case False
    then have "nb = True" "st' = (st\<lparr>best := sc\<rparr>)\<lparr>sworld := sh_nvs_set_u32 h k sc (sworld st)\<rparr>"
      using assms(3) k by (simp_all add: save_best_if_beaten_def Let_def)
    then show ?thesis using False by (auto simp: max_def)
  qed
qed

lemma app_ok_step_game:
  assumes ok: "app_ok st" shows "app_ok (step_game h st)"
proof (cases "\<exists>l g. slayout st = Some l \<and> sgame st = Some g")
  case True
  then obtain l g out g' where g: "slayout st = Some l" "sgame st = Some g" "game_step g = (out, g')"
    by (metis surj_pair)
  then have "round_ok g'" using game_step_ok [of g] ok by (simp add: app_ok_def)
  note ok' = app_ok_game(1) [OF ok this]
  obtain nb st' where s: "save_best_if_beaten h (level st) (score g') (st\<lparr>sgame := Some g'\<rparr>) = (nb, st')"
    by fastforce
  then have "app_ok st'" using save_best_gen [of "st\<lparr>sgame := Some g'\<rparr>" h "score g'" nb st'] ok' ok by (simp add: app_ok_def [of st])
  then show ?thesis using ok' s g by (simp add: step_game_def Let_def split: prod.split)
next
  case False
  then show ?thesis using ok by (auto simp: step_game_def split: option.split)
qed

lemma app_ok_level: "app_ok st \<Longrightarrow> app_ok (st\<lparr>level := clamp_speed_level v\<rparr>)"
  using clamp_level [of v] by (simp add: app_ok_def)

lemma load_best_Some: "\<exists>b. load_best h (clamp_speed_level v) w = Some b"
  using highscore_key_Some [OF clamp_level] by (auto simp: load_best_def)

lemma app_ok_enter: assumes "app_ok st" shows "app_ok (snake_on_enter h st)"
proof -
  define st1 where "st1 = (let st = st\<lparr>sworld := sh_canvas_push h (sworld st)\<rparr> in
     case shq (sh_subscribe h) st of
       (sub, st) \<Rightarrow> case sub of Some i \<Rightarrow> st\<lparr>refresh_sub := i\<rparr> | None \<Rightarrow> st)"
  have "app_ok st1" using assms by (auto simp: st1_def Let_def split: option.split prod.split)
  obtain bw bh st2 where s2: "shq (sh_body_size h) st1 = ((bw, bh), st2)" by (metis surj_pair)
  define st3 where "st3 = st2\<lparr>body_size := (bw, bh), slayout := Some (compute_layout bw bh)\<rparr>"
  define v where "v = (case sh_nvs_get_u32 h NVS_SNAKE_SPEED (sworld st3) of
    Some v \<Rightarrow> v | None \<Rightarrow> ucast SNAKE_DEFAULT_SPEED)"
  have ok: "app_ok (st3\<lparr>level := clamp_speed_level v\<rparr>)"
    using \<open>app_ok st1\<close> s2 by (intro app_ok_level) (simp add: st3_def)
  obtain b where "load_best h (clamp_speed_level v) (sworld (st3\<lparr>level := clamp_speed_level v\<rparr>)) = Some b"
    by (rule exE [OF load_best_Some])
  then have "snake_on_enter h st = (draw (Draw_title (clamp_speed_level v) b)
    ((st3\<lparr>level := clamp_speed_level v\<rparr>)\<lparr>best := b\<rparr>))\<lparr>screen := Title\<rparr>"
    using s2 by (simp add: snake_on_enter_def Let_def st1_def v_def st3_def split_beta)
  then show ?thesis using ok by simp
qed

lemma app_ok_title_key: assumes "app_ok st" shows "app_ok (handle_title_key h k st)"
proof -
  obtain b where b: "load_best h (clamp_speed_level (k - 48)) (sworld st) = Some b"
    by (rule exE [OF load_best_Some])
  show ?thesis
    using assms app_ok_level [OF assms, of "k - 48"] b
    by (simp add: handle_title_key_def Let_def app_ok_rounds)
qed

lemma app_ok_call:
  assumes "app_ok st" shows "app_ok (snake_call h e st)"
proof (cases e)
  case S_Enter
  then show ?thesis using app_ok_enter [OF assms] by simp
next
  case S_Exit
  then show ?thesis using assms by (simp add: snake_on_exit_def Let_def app_ok_game)
next
  case (S_Tick t)
  then show ?thesis
    using assms by (cases "screen st") (simp_all add: snake_on_tick_def Let_def app_ok_step_game app_ok_rounds)
next
  case (S_Act a u)
  have "app_ok (st\<lparr>sgame := map_option (steer d) (sgame st)\<rparr>)" for d
    using assms steer_ok by (auto simp: app_ok_def split: option.splits)
  then have p: "app_ok (handle_playing_key u st)"
    using assms by (auto simp: handle_playing_key_def app_ok_rounds split: option.split)
  have pa: "app_ok (handle_paused_key h u st)"
    using assms by (auto simp: handle_paused_key_def app_ok_rounds split: prod.split)
  have r: "app_ok (snake_on_action h ACT_REFRESH u st)"
    using assms by (simp add: snake_on_action_def Let_def split: prod.split)
  have k: "app_ok (snake_on_action h a u st)" if "a \<noteq> ACT_REFRESH"
    using that assms app_ok_title_key [OF assms] p pa app_ok_rounds [OF assms]
    by (cases "screen st") (simp_all add: snake_on_action_def handle_game_over_key_def)
  show ?thesis using S_Act r k by (cases "a = ACT_REFRESH") simp_all
qed

lemma snake_reach_ok: "snake_reach h st \<Longrightarrow> app_ok st"
proof (induction rule: snake_reach.induct)
  case (snake_init w)
  show ?case by (simp add: app_ok_def snake_defaults_def SNAKE_DEFAULT_SPEED_def)
next
  case (snake_step st e w)
  then show ?case by (intro app_ok_call) simp
qed

section \<open>Geometry\<close>

lemma sint_small: "uint (v :: u16) < 32768 \<Longrightarrow> sint v = uint v"
  by (simp add: sint_uint signed_take_bit_int_eq_self order.trans [OF _ unsigned_greater_eq])

lemma uint_of_int_u16: "0 \<le> i \<Longrightarrow> i < 65536 \<Longrightarrow> uint (of_int i :: u16) = i"
  by (simp add: unsigned_of_int take_bit_int_eq_self)

lemma uint_quot16:
  assumes "uint a < 32768" and "uint b < 32768"
  shows "uint (quot16 a b) = uint a div uint b"
proof -
  have "uint (of_int (uint a div uint b) :: u16) = uint a div uint b"
    by (metis uint_div_distrib word_of_int_uint)
  moreover have "quot16 a b = of_int (uint a div uint b)"
    using assms by (cases "uint a = 0"; cases "uint b = 0") (simp_all add: quot16_def sint_small sgn_if order_less_le)
  ultimately show ?thesis by simp
qed

lemma uint_clamp_u8: "uint a < 32768 \<Longrightarrow> uint (clamp_u8 a) = min 255 (uint a)"
  by (simp add: clamp_u8_def sint_small unsigned_of_int take_bit_int_eq_self)

lemma uint_ucast_u16: "uint (ucast (v :: u8) :: u16) = uint v"
  using uint_u8 [of v] by (simp add: unsigned_ucast_eq take_bit_int_eq_self)

lemma uint_sub16: "uint b \<le> uint a \<Longrightarrow> uint (a - b :: u16) = uint a - uint b"
  by (simp add: uint_sub_lem [THEN iffD1])

lemma uint_add16: "uint a + uint b < 65536 \<Longrightarrow> uint (a + b :: u16) = uint a + uint b"
  by (simp add: uint_add_lem [THEN iffD1])

lemma uint_mult8: "uint a < 256 \<Longrightarrow> uint (a * CELL :: u16) = 8 * uint a"
  by (simp add: CELL_def uint_mult_lem [THEN iffD1])

lemma layout_values:
  assumes "uint bw < 32768" and "uint bh < 32768" and "2 \<le> uint bw" and "14 \<le> uint bh"
  defines "l \<equiv> compute_layout bw bh"
  defines "nw \<equiv> min 255 ((uint bw - 2) div 8)" and "nh \<equiv> min 255 ((uint bh - 14) div 8)"
  shows "uint (grid_w l) = nw" "uint (grid_h l) = nh"
    "uint (field_x l) = (uint bw - 8 * nw) div 2"
    "uint (field_y l) = 13 + (uint bh - 14 - 8 * nh) div 2"
proof -
  have aw: "uint (bw - 2) = uint bw - 2" using assms(3) by (simp add: uint_sub16)
  have ah1: "uint (bh - 12) = uint bh - 12" using assms(4) by (simp add: uint_sub16)
  then have ah: "uint (bh - 12 - 2) = uint bh - 14" using assms(4) by (simp add: uint_sub16)
  define gw where "gw = clamp_u8 (quot16 (bw - 2) CELL)"
  define gh where "gh = clamp_u8 (quot16 (bh - 12 - 2) CELL)"
  have q: "uint (quot16 (bw - 2) CELL) = (uint bw - 2) div 8" "uint (quot16 (bh - 12 - 2) CELL) = (uint bh - 14) div 8"
    using assms(1,2) aw ah by (simp_all add: uint_quot16 CELL_def)
  have g: "uint gw = nw" "uint gh = nh"
    using q assms(1,2) by (simp_all add: gw_def gh_def nw_def nh_def uint_clamp_u8)
  have u: "uint (ucast gw * CELL :: u16) = 8 * nw" "uint (ucast gh * CELL :: u16) = 8 * nh"
    using g uint_u8 [of gw] uint_u8 [of gh] by (simp_all add: uint_mult8 uint_ucast_u16)
  have le: "8 * nw \<le> uint bw - 2" "8 * nh \<le> uint bh - 14" by (auto simp: nw_def nh_def)
  have nn: "0 \<le> nw" "0 \<le> nh" using g by (metis unsigned_greater_eq)+
  have sw: "uint (bw - ucast gw * CELL) = uint bw - 8 * nw"
    using u le by (subst uint_sub16) auto
  have sh: "uint (bh - 12 - 2 - ucast gh * CELL) = uint bh - 14 - 8 * nh"
    using u le ah by (subst uint_sub16) auto
  have fx: "uint (quot16 (bw - ucast gw * CELL) 2) = (uint bw - 8 * nw) div 2"
    using sw assms(1) nn by (subst uint_quot16) auto
  have fy: "uint (quot16 (bh - 12 - 2 - ucast gh * CELL) 2) = (uint bh - 14 - 8 * nh) div 2"
    using sh assms(2) nn by (subst uint_quot16) auto
  have l: "l = \<lparr>grid_w = gw, grid_h = gh, field_x = quot16 (bw - ucast gw * CELL) 2,
      field_y = 13 + quot16 (bh - 12 - 2 - ucast gh * CELL) 2\<rparr>"
    by (simp add: l_def compute_layout_def Let_def gw_def gh_def BORDER_def HEADER_H_def)
  show "uint (grid_w l) = nw" "uint (grid_h l) = nh" "uint (field_x l) = (uint bw - 8 * nw) div 2"
    using g fx l by simp_all
  have "uint (13 + quot16 (bh - 12 - 2 - ucast gh * CELL) 2) = 13 + (uint bh - 14 - 8 * nh) div 2"
    using fy assms(2) nn by (subst uint_add16) auto
  then show "uint (field_y l) = 13 + (uint bh - 14 - 8 * nh) div 2" using l by simp
qed

section \<open>A concrete badge\<close>

definition demo_badge :: "unit snake_host" where
  "demo_badge = \<lparr>sh_nvs_get_u32 = \<lambda>k w. None, sh_nvs_set_u32 = \<lambda>k v w. w, sh_random_u32 = \<lambda>w. (Some 7, w),
     sh_uptime_ms = \<lambda>w. (1000, w), sh_canvas_push = \<lambda>w. w, sh_subscribe = \<lambda>w. (Some 1, w),
     sh_unsubscribe = \<lambda>i w. w, sh_body_size = \<lambda>w. ((200, 120), w)\<rparr>"

definition demo_round :: game where
  "demo_round = \<lparr>gw = 8, gh = 4, snake = [(6, 1), (5, 1), (4, 1)], dir = East, turns = [],
     food = Some (7, 1), score = 0, alive = True, rng = 1\<rparr>"

lemma demo_round_ok: "round_ok demo_round"
  by (simp add: round_ok_def demo_round_def START_LENGTH_def linked_def move_def in_grid_def head_def
      POINTS_PER_FOOD_def MAX_PENDING_def MIN_GRID_W_def MIN_GRID_H_def exI [of _ East])

section \<open>Properties\<close>

text \<open>C10: in every state the plugin can reach, the round is well-formed (the body is a path of
  distinct cells of the grid, the food lies on a free cell and is missing only on a full grid, the
  score counts the growth) and no panic has happened.\<close>
theorem snake_round_invariant:
  assumes "snake_reach h st"
  shows "\<not> strapped st \<and> (case sgame st of Some g \<Rightarrow> round_ok g | None \<Rightarrow> True)"
  using snake_reach_ok [OF assms] by (simp add: app_ok_def)

theorem snake_round_invariant_witness:
  "\<not> strapped (snake_call demo_badge S_Enter (snake_defaults ()))"
proof -
  have "snake_reach demo_badge (snake_call demo_badge S_Enter ((snake_defaults ())\<lparr>sworld := ()\<rparr>))"
    by (intro snake_step snake_init) (simp add: snake_defaults_def)
  moreover have "(snake_defaults ())\<lparr>sworld := ()\<rparr> = snake_defaults ()" by simp
  ultimately show ?thesis using snake_round_invariant [of demo_badge "snake_call demo_badge S_Enter (snake_defaults ())"]
    by metis
qed

text \<open>A step of a running round crashes exactly when the cell ahead is outside the grid or part
  of the body, where the tail's cell counts only if the snake grows; otherwise the head enters that
  cell, and the tail leaves unless the cell held the food, which scores ten points.\<close>
theorem step_outcomes:
  assumes "round_ok g" and "alive g"
  shows "game_step g =
    (let c = target_cell g; eats = (food g = Some c) in
     if \<not> inside g (target g) \<or> c \<in> set (if eats then snake g else butlast (snake g))
     then (Crashed, (turned g)\<lparr>alive := False\<rparr>)
     else if eats
     then (Ate, spawn_food ((turned g)\<lparr>snake := c # snake g, score := score g + 10\<rparr>))
     else (Moved, (turned g)\<lparr>snake := c # butlast (snake g)\<rparr>))"
proof -
  have ne: "snake g \<noteq> []" "distinct (snake g)"
    using round_ok_snake [OF assms(1)] assms(1) by (auto simp: round_ok_def)
  show ?thesis
    unfolding game_step_alive [OF assms(2) ne(1)] hits_body_iff [OF ne(2,1)] Let_def POINTS_PER_FOOD_def
    by (simp split: if_split)
qed

theorem step_outcomes_witness: "fst (game_step demo_round) = Ate"
  using step_outcomes [OF demo_round_ok]
  by (simp add: demo_round_def target_cell_def target_def heading_def move_def head_def inside_def Let_def)

text \<open>A step never turns the snake into its own neck, whatever turns were queued.\<close>
theorem no_turn_into_neck:
  assumes "round_ok g" and "alive g"
  shows "target g \<noteq> pos (snake g ! 1)"
proof -
  have h: "pos (head g) = move (pos (snake g ! 1)) (dir g)"
    using assms by (simp add: round_ok_def)
  have n: "heading g \<noteq> opposite (dir g)"
    using next_turn_legal by (cases "next_turn (dir g) (turns g)") (auto simp: heading_def)
  show ?thesis
    unfolding target_def h using n by (cases "dir g"; cases "heading g") (auto simp: move_def prod_eq_iff)
qed

theorem no_turn_into_neck_witness: "target demo_round \<noteq> pos (5, 1)"
  using no_turn_into_neck [OF demo_round_ok] by (simp add: demo_round_def)

text \<open>C11: food is placed on the free cell whose number, in reading order, is the generator's next
  value modulo the number of free cells; with no free cell there is no food.\<close>
theorem food_placement:
  assumes "distinct (snake g)" and "list_all (in_grid (gw g) (gh g)) (snake g)"
  shows "food (spawn_food g) =
    (let fs = free_cells (snake g) (grid_cells (gw g) (gh g)) in
     if fs = [] then None else Some (fs ! (unat (xorshift_next (rng g)) mod length fs)))"
  using spawn_food_cell(1) [of g] assms by (simp add: list_all_iff Let_def)

theorem food_placement_witness:
  "food (spawn_food demo_round) = Some (free_cells (snake demo_round) (grid_cells 8 4) ! (unat (xorshift_next 1) mod 29))"
proof -
  have d: "distinct (snake demo_round)" "list_all (in_grid (gw demo_round) (gh demo_round)) (snake demo_round)"
    by (simp_all add: demo_round_def in_grid_def)
  have i: "\<forall>c\<in>set (snake demo_round). in_grid (gw demo_round) (gh demo_round) c"
    using d(2) by (simp add: list_all_iff)
  have "length (free_cells (snake demo_round) (grid_cells 8 4)) = 29"
    using length_free_cells(1) [OF d(1) i] by (simp add: demo_round_def)
  moreover from this have "free_cells (snake demo_round) (grid_cells 8 4) \<noteq> []" by auto
  ultimately show ?thesis
    using food_placement [OF d] by (simp add: demo_round_def Let_def)
qed

text \<open>A tick advances the round only on the playing screen, outside a panel refresh (or after
  its watchdog), and at least one step interval after the last step.\<close>
theorem tick_pace:
  assumes "sgame (snake_on_tick h t st) \<noteq> sgame st"
  shows "screen st = Playing \<and> sat_sub t (last_step_ms st) \<ge> ucast (step_interval_ms (level st))
    \<and> (refresh_busy st \<longrightarrow> sat_sub t (refresh_since st) \<ge> REFRESH_WATCHDOG_MS)"
proof -
  have "sgame (show_game_over_panel st) = sgame st"
    by (simp add: show_game_over_panel_def draw_def Let_def)
  then show ?thesis
    using assms by (auto simp: snake_on_tick_def Let_def not_less split: screen.splits if_splits)
qed

definition demo_playing :: "unit sst" where
  "demo_playing = (snake_defaults ())\<lparr>screen := Playing, sgame := Some demo_round,
     slayout := Some (compute_layout 200 120), last_step_ms := 1000\<rparr>"

lemma demo_playing_tick: "sgame (snake_on_tick demo_badge 1900 demo_playing) \<noteq> sgame demo_playing"
proof -
  have i: "step_interval_ms 3 = 900"
    by (simp add: step_interval_ms_def clamp_speed_level_def SPEED_LEVELS_def STEP_INTERVAL_MS_def max_def min_def)
  let ?g = "(turned demo_round)\<lparr>snake := (7, 1) # snake demo_round, score := 10\<rparr>"
  have "snake (spawn_food ?g) \<noteq> snake demo_round" by (simp add: demo_round_def)
  then have n: "spawn_food ?g \<noteq> demo_round" by metis
  have t: "target demo_round = (7, 1)"
    by (simp add: demo_round_def target_def heading_def move_def head_def)
  have d: "alive demo_round" "snake demo_round = [(6, 1), (5, 1), (4, 1)]" "food demo_round = Some (7, 1)"
    "score demo_round = 0" "gw demo_round = 8" "gh demo_round = 4"
    by (simp_all add: demo_round_def)
  have "game_step demo_round = (Ate, spawn_food ?g)"
    using game_step_alive [of demo_round] d t
    by (simp add: target_cell_def inside_def hits_body_def POINTS_PER_FOOD_def)
  then show ?thesis
    using i n by (simp add: snake_on_tick_def demo_playing_def snake_defaults_def SNAKE_DEFAULT_SPEED_def sat_sub_def
        step_game_def Let_def draw_def)
qed

theorem tick_pace_witness: "sat_sub 1900 (last_step_ms demo_playing) \<ge> ucast (step_interval_ms (level demo_playing))"
  using tick_pace [OF demo_playing_tick] by blast

text \<open>When a step crashes, the best score becomes the larger of the old best and the score, the
  record flag tells whether it was beaten, and the explosion screen starts.\<close>
theorem crash_keeps_best:
  assumes "1 \<le> unat (level st)" and "unat (level st) \<le> 5" and "\<not> strapped st"
    and "slayout st = Some l" and "sgame st = Some g" and "game_step g = (Crashed, g')"
  shows "best (step_game h st) = max (best st) (score g')
    \<and> new_best (step_game h st) = (best st < score g') \<and> screen (step_game h st) = Crashing"
proof -
  let ?st = "st\<lparr>sgame := Some g'\<rparr>"
  obtain nb st1 where sv: "save_best_if_beaten h (level st) (score g') ?st = (nb, st1)"
    by fastforce
  have "best st1 = max (best st) (score g') \<and> nb = (best st < score g') \<and> \<not> strapped st1"
    using save_best_gen [of ?st h "score g'" nb st1] sv assms(1-3) by simp
  then show ?thesis
    using assms(4-6) sv by (simp add: step_game_def Let_def shq_def draw_def)
qed

theorem crash_keeps_best_witness:
  "screen (step_game demo_badge (demo_playing\<lparr>sgame := Some (demo_round\<lparr>alive := False\<rparr>)\<rparr>)) = Crashing"
  using crash_keeps_best [of "demo_playing\<lparr>sgame := Some (demo_round\<lparr>alive := False\<rparr>)\<rparr>"
      "compute_layout 200 120" "demo_round\<lparr>alive := False\<rparr>" "demo_round\<lparr>alive := False\<rparr>" demo_badge]
  by (simp add: demo_playing_def snake_defaults_def SNAKE_DEFAULT_SPEED_def game_step_def)

text \<open>The explosion screen never hangs: the first tick a fixed time after the crash brings the
  game-over panel, with or without the animation's completion action.\<close>
theorem crash_screen_ends:
  assumes "screen st = Crashing" and "sat_sub t (crash_ms st) \<ge> CRASH_FX_TIMEOUT_MS"
  shows "screen (snake_on_tick h t st) = GameOver"
  using assms by (simp add: snake_on_tick_def show_game_over_panel_def Let_def)

theorem crash_screen_ends_witness:
  "screen (snake_on_tick demo_badge 2500 ((snake_defaults ())\<lparr>screen := Crashing, crash_ms := 1000\<rparr>)) = GameOver"
  by (rule crash_screen_ends) (simp_all add: sat_sub_def CRASH_FX_TIMEOUT_MS_def)

text \<open>On a body of at least 2 by 14 pixels every cell of the playfield is drawn inside the body,
  below the header.\<close>
theorem cells_inside_body:
  assumes "uint bw < 32768" and "uint bh < 32768" and "2 \<le> uint bw" and "14 \<le> uint bh"
    and "in_grid (grid_w (compute_layout bw bh)) (grid_h (compute_layout bw bh)) c"
    and "cell_px (compute_layout bw bh) c = (x, y)"
  shows "uint BORDER \<le> uint x \<and> uint x + uint CELL + uint BORDER \<le> uint bw
    \<and> uint HEADER_H + uint BORDER \<le> uint y \<and> uint y + uint CELL + uint BORDER \<le> uint bh"
proof -
  let ?l = "compute_layout bw bh"
  note v = layout_values [OF assms(1-4)]
  define nw where "nw = min 255 ((uint bw - 2) div 8)"
  define nh where "nh = min 255 ((uint bh - 14) div 8)"
  have c: "uint (fst c) < nw" "uint (snd c) < nh"
    using assms(5) v(1,2) by (simp_all add: in_grid_def word_less_def nw_def nh_def)
  have le: "8 * nw \<le> uint bw - 2" "8 * nh \<le> uint bh - 14" by (auto simp: nw_def nh_def)
  have p: "0 \<le> uint (fst c)" "0 \<le> uint (snd c)" by simp_all
  have m: "uint (ucast (fst c) * CELL) = 8 * uint (fst c)" "uint (ucast (snd c) * CELL) = 8 * uint (snd c)"
    using uint_u8 [of "fst c"] uint_u8 [of "snd c"] by (simp_all add: uint_mult8 uint_ucast_u16)
  have xy: "x = field_x ?l + ucast (fst c) * CELL" "y = field_y ?l + ucast (snd c) * CELL"
    using assms(6) by (simp_all add: cell_px_def)
  have ex: "uint x = (uint bw - 8 * nw) div 2 + 8 * uint (fst c)"
    unfolding xy using v(3) m(1) c le assms(1) by (subst uint_add16) (auto simp: nw_def)
  have ey: "uint y = 13 + (uint bh - 14 - 8 * nh) div 2 + 8 * uint (snd c)"
    unfolding xy using v(4) m(2) c le assms(2) by (subst uint_add16) (auto simp: nh_def)
  have fw: "2 * ((uint bw - 8 * nw) div 2) \<le> uint bw - 8 * nw" "2 * ((uint bh - 14 - 8 * nh) div 2) \<le> uint bh - 14 - 8 * nh"
    "2 \<le> 2 * ((uint bw - 8 * nw) div 2)" "0 \<le> (uint bh - 14 - 8 * nh) div 2"
    using le by presburger+
  have k: "uint CELL = 8" "uint BORDER = 1" "uint HEADER_H = 12"
    by (simp_all add: CELL_def BORDER_def HEADER_H_def)
  show ?thesis unfolding k using ex ey c p le fw by linarith
qed

theorem cells_inside_body_witness: "uint (fst (cell_px (compute_layout 200 120) (23, 12))) + 9 \<le> 200"
proof -
  have v: "uint (grid_w (compute_layout 200 120)) = 24" "uint (grid_h (compute_layout 200 120)) = 13"
    using layout_values(1,2) [of 200 120] by simp_all
  have "in_grid (grid_w (compute_layout 200 120)) (grid_h (compute_layout 200 120)) (23, 12)"
    using v by (simp add: in_grid_def word_less_def)
  from cells_inside_body [OF _ _ _ _ this, of "fst (cell_px (compute_layout 200 120) (23, 12))"
      "snd (cell_px (compute_layout 200 120) (23, 12))"]
  show ?thesis by (simp add: CELL_def BORDER_def)
qed

end
