(* ===== verification/Http.thy ===== *)
theory Http
  imports Rust_Str
begin

text \<open>
  The HTTP helpers of the webserver plugin (\<open>plugins/webserver/src/http.rs\<close>): parsing of the
  request line, mapping of a path to a file of the flat folder, content types and percent
  decoding.
\<close>

section \<open>Percent decoding\<close>

definition hex_val :: "u8 \<Rightarrow> u8 option" where
  "hex_val b =
    (if 48 \<le> b \<and> b \<le> 57 then Some (b - 48)
     else if 97 \<le> b \<and> b \<le> 102 then Some (b - 97 + 10)
     else if 65 \<le> b \<and> b \<le> 70 then Some (b - 65 + 10)
     else None)"

text \<open>The loop over the bytes; an escape that is cut off or not hexadecimal stands for itself.\<close>

fun percent_bytes :: "u8 list \<Rightarrow> u8 list" where
  "percent_bytes (p # a # b # r) =
    (if p = 37 then
       (case (hex_val a, hex_val b) of
          (Some h, Some l) \<Rightarrow> (push_bit 4 h OR l) # percent_bytes r
        | _ \<Rightarrow> p # percent_bytes (a # b # r))
     else p # percent_bytes (a # b # r))"
| "percent_bytes bs = bs"

definition percent_decode :: "ustr \<Rightarrow> ustr option" where
  "percent_decode s = utf8_decode (percent_bytes (utf8_encode s))"

section \<open>Requests\<close>

datatype request = Get ustr | OtherMethod | Bad

definition parse_request :: "ustr \<Rightarrow> request" where
  "parse_request req =
    (let line = hd (split_on (\<lambda>c. c = 13 \<or> c = 10) req) in
     case split_on (\<lambda>c. c = 32) line of
       meth # target # _ \<Rightarrow>
         if \<not> eq_ignore_ascii_case meth (lit ''GET'') then
           (if list_all is_ascii_alphabetic meth \<and> meth \<noteq> [] then OtherMethod else Bad)
         else
           let path = hd (split_on (\<lambda>c. c = 63) target) in
           if path = [] \<or> \<not> starts_with [47] path then Bad
           else (case percent_decode path of Some p \<Rightarrow> Get p | None \<Rightarrow> Bad)
     | _ \<Rightarrow> Bad)"

definition name_byte :: "u8 \<Rightarrow> bool" where
  "name_byte b \<longleftrightarrow> is_ascii_alphanumeric (unat b) \<or> b \<in> {46, 95, 45}"

definition resolve_file :: "ustr \<Rightarrow> ustr option" where
  "resolve_file path =
    (let trimmed = trim_start_matches (\<lambda>c. c = 47) path;
         name = (if trimmed = [] then lit ''index.html'' else trimmed)
     in if name = lit ''.'' \<or> name = lit ''..'' \<or> \<not> list_all name_byte (utf8_encode name)
        then None else Some name)"

definition content_type :: "ustr \<Rightarrow> ustr" where
  "content_type name =
    (let ext = to_ascii_lowercase (last (split_on (\<lambda>c. c = 46) name)) in
     if ext = lit ''html'' \<or> ext = lit ''htm'' then lit ''text/html''
     else if ext = lit ''txt'' \<or> ext = lit ''md'' then lit ''text/plain''
     else if ext = lit ''css'' then lit ''text/css''
     else if ext = lit ''js'' then lit ''application/javascript''
     else if ext = lit ''json'' then lit ''application/json''
     else if ext = lit ''png'' then lit ''image/png''
     else if ext = lit ''jpg'' \<or> ext = lit ''jpeg'' then lit ''image/jpeg''
     else if ext = lit ''gif'' then lit ''image/gif''
     else if ext = lit ''svg'' then lit ''image/svg+xml''
     else if ext = lit ''ico'' then lit ''image/x-icon''
     else lit ''application/octet-stream'')"

section \<open>Laws\<close>

lemma utf8_char_ascii: "c < 128 \<Longrightarrow> utf8_char c = [of_nat c]"
  by (simp add: utf8_char_def)

lemma utf8_encode_ascii: "list_all (\<lambda>c. c < 128) s \<Longrightarrow> utf8_encode s = map of_nat s"
  by (induction s) (simp_all add: utf8_char_ascii)

lemma high_byte: "128 \<le> a \<Longrightarrow> a + k < 256 \<Longrightarrow> 128 \<le> unat (of_nat (a + k) :: u8)"
  by (simp only: unat_of_nat_u8)

lemma utf8_char_high: "128 \<le> c \<Longrightarrow> c < 0x110000 \<Longrightarrow> b \<in> set (utf8_char c) \<Longrightarrow> 128 \<le> unat b"
  unfolding utf8_char_def
  by (auto simp del: of_nat_add split: if_splits intro!: high_byte)

lemma of_nat_u8_eq:
  assumes "c < 128" and "d < 128"
  shows "(of_nat c :: u8) = of_nat d \<longleftrightarrow> c = d"
proof
  assume "(of_nat c :: u8) = of_nat d"
  then have "unat (of_nat c :: u8) = unat (of_nat d :: u8)" by simp
  then show "c = d" using assms by (simp add: unat_of_nat_u8)
qed simp

lemma name_byte_ascii:
  "c < 128 \<Longrightarrow> name_byte (of_nat c) \<longleftrightarrow> is_ascii_alphanumeric c \<or> c \<in> {46, 95, 45}"
  using of_nat_u8_eq [of c 46] of_nat_u8_eq [of c 95] of_nat_u8_eq [of c 45]
  by (simp add: name_byte_def unat_of_nat_u8)

lemma name_byte_less: "name_byte b \<Longrightarrow> unat b < 128"
  by (auto simp: name_byte_def is_ascii_alphanumeric_def is_ascii_digit_def is_ascii_alphabetic_def)

lemma list_all_utf8_ascii:
  assumes "list_all name_byte (utf8_encode s)" and "valid_ustr s"
  shows "list_all (\<lambda>c. is_ascii_alphanumeric c \<or> c \<in> {46, 95, 45}) s"
  using assms
proof (induction s)
  case (Cons c s)
  have s: "c < 0x110000" using Cons.prems(2) by (auto simp: scalar_def)
  have "utf8_char c \<noteq> []" by (simp add: utf8_char_def)
  then obtain b where b: "b \<in> set (utf8_char c)" by (meson list.set_sel(1))
  then have "unat b < 128" using Cons.prems(1) name_byte_less by (simp add: list_all_iff)
  then have c: "c < 128" using utf8_char_high [OF _ s b] by linarith
  have "name_byte (of_nat c)" using Cons.prems(1) by (simp add: utf8_char_ascii [OF c])
  then show ?case using Cons name_byte_ascii [OF c] by simp
qed simp

end
