(* ===== verification/Web.thy ===== *)
theory Web
  imports Http
begin

text \<open>
  The webserver plugin (\<open>plugins/webserver/src/lib.rs\<close>): the listener's lifecycle and the
  serving of one accepted connection.

  The firmware's calls are the fields of \<open>'w web_host\<close>; a call that fails gives \<open>None\<close> (or
  \<open>False\<close>). \<open>sent\<close> records the bytes the socket accepted on the current connection and
  \<open>wtrapped\<close> a panic. Log lines are not modelled.
\<close>

section \<open>Constants, host and state\<close>

definition DEFAULT_PORT :: u16 where "DEFAULT_PORT = 80"
definition ACT_HTTP :: u32 where "ACT_HTTP = 1"
definition READ_TIMEOUT_MS :: u32 where "READ_TIMEOUT_MS = 250"
definition WRITE_TIMEOUT_MS :: u32 where "WRITE_TIMEOUT_MS = 1000"
definition SERVE_BUDGET_MS :: u64 where "SERVE_BUDGET_MS = 2000"
definition INDEX :: ustr where "INDEX = lit ''index.html''"
definition REQ_MAX :: nat where "REQ_MAX = 2048"
definition WEB_FILE_MAX :: nat where "WEB_FILE_MAX = 64 * 1024"

definition DEFAULT_INDEX :: ustr where
  "DEFAULT_INDEX =
     lit ''<!doctype html><html><head><meta charset=\"utf-8\">'' @
     lit ''<title>CDC Badge</title></head><body style=\"font-family:sans-serif\">'' @
     lit ''<h1>CDC Badge webserver</h1><p>Serving files from the plugin vFAT folder.</p>'' @
     lit ''</body></html>'' @ [10]"

record 'w web_host =
  wh_nvs_get_u32 :: "string \<Rightarrow> 'w \<Rightarrow> u32 option"
  wh_fs_size :: "ustr \<Rightarrow> 'w \<Rightarrow> nat option"
  wh_fs_write :: "ustr \<Rightarrow> u8 list \<Rightarrow> 'w \<Rightarrow> 'w"
  wh_fs_read :: "ustr \<Rightarrow> nat \<Rightarrow> 'w \<Rightarrow> u8 list option"
  wh_wifi_request :: "u32 \<Rightarrow> 'w \<Rightarrow> 'w"
  wh_wifi_release :: "'w \<Rightarrow> 'w"
  wh_wifi_ip :: "'w \<Rightarrow> ustr option"
  wh_listen :: "u16 \<Rightarrow> u32 \<Rightarrow> 'w \<Rightarrow> bool \<times> 'w"
  wh_close :: "u16 \<Rightarrow> 'w \<Rightarrow> 'w"
  wh_set_resident :: "bool \<Rightarrow> 'w \<Rightarrow> 'w"
  wh_uptime :: "'w \<Rightarrow> u64 \<times> 'w"
  wh_accept :: "'w \<Rightarrow> bool \<times> 'w"
  wh_read :: "nat \<Rightarrow> u32 \<Rightarrow> 'w \<Rightarrow> u8 list option \<times> 'w"
  wh_write :: "u8 list \<Rightarrow> u32 \<Rightarrow> 'w \<Rightarrow> nat option \<times> 'w"
  wh_drop :: "'w \<Rightarrow> 'w"
  wh_tr_key :: "string \<Rightarrow> ustr"
  wh_tr_meta :: "string \<Rightarrow> ustr"
  wh_push_info :: "ustr \<Rightarrow> ustr \<Rightarrow> 'w \<Rightarrow> 'w"

record 'w wst =
  served :: u32
  bound_port :: u16
  wworld :: 'w
  sent :: "u8 list"
  wtrapped :: bool

definition web_init :: "'w \<Rightarrow> 'w wst" where
  "web_init w = \<lparr>served = 0, bound_port = 0, wworld = w, sent = [], wtrapped = False\<rparr>"

definition wq :: "('w \<Rightarrow> 'a \<times> 'w) \<Rightarrow> 'w wst \<Rightarrow> 'a \<times> 'w wst" where
  "wq f st = (fst (f (wworld st)), st\<lparr>wworld := snd (f (wworld st))\<rparr>)"

definition wx :: "('w \<Rightarrow> 'w) \<Rightarrow> 'w wst \<Rightarrow> 'w wst" where
  "wx f st = st\<lparr>wworld := f (wworld st)\<rparr>"

section \<open>Starting the server\<close>

definition configured_port :: "'w web_host \<Rightarrow> 'w \<Rightarrow> u16" where
  "configured_port h w =
    (case wh_nvs_get_u32 h ''port'' w of
       Some v \<Rightarrow> if 1 \<le> v \<and> v \<le> 65535 then ucast v else DEFAULT_PORT
     | None \<Rightarrow> DEFAULT_PORT)"

definition ensure_index :: "'w web_host \<Rightarrow> 'w wst \<Rightarrow> 'w wst" where
  "ensure_index h st =
    (if wh_fs_size h INDEX (wworld st) = None
     then wx (wh_fs_write h INDEX (utf8_encode DEFAULT_INDEX)) st else st)"

definition start_server :: "'w web_host \<Rightarrow> 'w wst \<Rightarrow> 'w wst" where
  "start_server h st =
    (let st = wx (wh_wifi_request h 0) (ensure_index h st);
         p = configured_port h (wworld st)
     in case wq (wh_listen h p ACT_HTTP) st of
          (ok, st) \<Rightarrow>
            if ok then wx (wh_set_resident h True) (st\<lparr>bound_port := p\<rparr>) else st)"

section \<open>Serving a connection\<close>

text \<open>\<open>windows(2).position(|w| w == b"\r\n")\<close>.\<close>

fun crlf_at :: "u8 list \<Rightarrow> nat option" where
  "crlf_at (a # b # r) = (if a = 13 \<and> b = 10 then Some 0 else map_option Suc (crlf_at (b # r)))"
| "crlf_at bs = None"

text \<open>
  The read loop, \<open>k\<close> rounds left, \<open>got\<close> the filled part of the buffer. A read that reports
  more bytes than the rest of the buffer makes the next slice panic.
\<close>

fun read_loop :: "'w web_host \<Rightarrow> nat \<Rightarrow> u8 list \<Rightarrow> 'w wst \<Rightarrow> u8 list \<times> 'w wst" where
  "read_loop h 0 got st = (got, st)"
| "read_loop h (Suc k) got st =
    (case wq (wh_read h (REQ_MAX - length got) READ_TIMEOUT_MS) st of
       (r, st) \<Rightarrow>
         (case r of
            None \<Rightarrow> (got, st)
          | Some bs \<Rightarrow>
            if bs = [] then (got, st)
            else if length got + length bs > REQ_MAX then (got, st\<lparr>wtrapped := True\<rparr>)
            else
              let got = got @ bs in
              if crlf_at got \<noteq> None \<or> length got = REQ_MAX then (got, st)
              else read_loop h k got st))"

definition read_request_line :: "'w web_host \<Rightarrow> 'w wst \<Rightarrow> u8 list \<times> 'w wst" where
  "read_request_line h st = read_loop h 4 [] st"

text \<open>The write loop: every round advances by at least one byte.\<close>

function write_loop :: "'w web_host \<Rightarrow> u64 \<Rightarrow> u8 list \<Rightarrow> nat \<Rightarrow> 'w wst \<Rightarrow> 'w wst" where
  "write_loop h deadline bs offset st =
    (if offset < length bs then
       (case wq (wh_uptime h) st of
          (now, st) \<Rightarrow>
            if now < deadline then
              (case wq (wh_write h (drop offset bs) WRITE_TIMEOUT_MS) st of
                 (r, st) \<Rightarrow>
                   (case r of
                      None \<Rightarrow> st
                    | Some k \<Rightarrow>
                      if k = 0 then st
                      else write_loop h deadline bs (offset + k)
                             (st\<lparr>sent := sent st @ take k (drop offset bs)\<rparr>)))
            else st)
     else st)"
  by auto

termination by (relation "measure (\<lambda>(h, d, bs, k, st). length bs - k)") auto

declare write_loop.simps [simp del]

definition write_all :: "'w web_host \<Rightarrow> u8 list \<Rightarrow> u64 \<Rightarrow> 'w wst \<Rightarrow> 'w wst" where
  "write_all h bs deadline st = write_loop h deadline bs 0 st"

definition crlf :: ustr where "crlf = [13, 10]"

definition error_head :: "ustr \<Rightarrow> ustr \<Rightarrow> ustr" where
  "error_head status extra =
     lit ''HTTP/1.0 '' @ status @ crlf @ lit ''Content-Type: text/plain'' @ crlf @
     lit ''Content-Length: '' @ show_nat (length (utf8_encode status) + 1) @ crlf @
     extra @ lit ''Connection: close'' @ crlf @ crlf"

definition send_error :: "'w web_host \<Rightarrow> ustr \<Rightarrow> ustr \<Rightarrow> u64 \<Rightarrow> 'w wst \<Rightarrow> 'w wst" where
  "send_error h status extra deadline st =
     write_all h [10] deadline
       (write_all h (utf8_encode status) deadline
         (write_all h (utf8_encode (error_head status extra)) deadline st))"

definition ok_head :: "ustr \<Rightarrow> u8 list \<Rightarrow> ustr" where
  "ok_head name body =
     lit ''HTTP/1.0 200 OK'' @ crlf @ lit ''Content-Type: '' @ content_type name @ crlf @
     lit ''Content-Length: '' @ show_nat (length body) @ crlf @
     lit ''Connection: close'' @ crlf @ crlf"

text \<open>The file a request path names, and its bytes.\<close>

definition load_file :: "'w web_host \<Rightarrow> 'w \<Rightarrow> ustr \<Rightarrow> (ustr \<times> u8 list) option" where
  "load_file h w path =
    (case resolve_file path of
       None \<Rightarrow> None
     | Some f \<Rightarrow>
       (case wh_fs_size h f w of
          None \<Rightarrow> None
        | Some sz \<Rightarrow>
          if sz \<le> WEB_FILE_MAX then map_option (\<lambda>d. (f, d)) (wh_fs_read h f sz w) else None))"

text \<open>The request in the bytes received: only the first line counts.\<close>

definition request_of :: "u8 list \<Rightarrow> request" where
  "request_of got =
    (let line_end = (case crlf_at got of Some i \<Rightarrow> i | None \<Rightarrow> length got);
         req = (case utf8_decode (take line_end got) of Some s \<Rightarrow> s | None \<Rightarrow> [])
     in parse_request req)"

definition serve :: "'w web_host \<Rightarrow> 'w wst \<Rightarrow> 'w wst" where
  "serve h st =
    (case wq (wh_uptime h) st of
       (now, st) \<Rightarrow>
         let deadline = now + SERVE_BUDGET_MS in
         (case read_request_line h st of
            (got, st) \<Rightarrow>
              if wtrapped st \<or> got = [] then st
              else
                (case request_of got of
                   OtherMethod \<Rightarrow>
                     send_error h (lit ''405 Method Not Allowed'') (lit ''Allow: GET'' @ crlf) deadline st
                 | Bad \<Rightarrow> send_error h (lit ''400 Bad Request'') [] deadline st
                 | Get path \<Rightarrow>
                   (case load_file h (wworld st) path of
                      Some (name, body) \<Rightarrow>
                        let st = write_all h (utf8_encode (ok_head name body)) deadline st;
                            st = write_all h body deadline st
                        in st\<lparr>served := served st + 1\<rparr>
                    | None \<Rightarrow> send_error h (lit ''404 Not Found'') [] deadline st))))"

section \<open>Exports\<close>

definition web_plugin_init :: "'w web_host \<Rightarrow> 'w wst \<Rightarrow> 'w wst" where
  "web_plugin_init h st = start_server h st"

definition web_plugin_deinit :: "'w web_host \<Rightarrow> 'w wst \<Rightarrow> 'w wst" where
  "web_plugin_deinit h st = wx (wh_wifi_release h) ((wx (wh_close h 0) st)\<lparr>bound_port := 0\<rparr>)"

definition web_url :: "'w web_host \<Rightarrow> 'w wst \<Rightarrow> ustr" where
  "web_url h st =
    (let p = (if bound_port st = 0 then configured_port h (wworld st) else bound_port st) in
     case wh_wifi_ip h (wworld st) of
       Some ip \<Rightarrow>
         if p = 80 then lit ''http://'' @ ip @ lit ''/''
         else lit ''http://'' @ ip @ lit '':'' @ show_nat (unat p) @ lit ''/''
     | None \<Rightarrow> wh_tr_key h ''no_ip'')"

definition web_on_enter :: "'w web_host \<Rightarrow> 'w wst \<Rightarrow> 'w wst" where
  "web_on_enter h st =
     wx (wh_push_info h (wh_tr_meta h ''name'')
          (web_url h st @ [10] @ wh_tr_key h ''served'' @ lit '': '' @ show_nat (unat (served st)))) st"

definition web_on_action :: "'w web_host \<Rightarrow> u32 \<Rightarrow> 'w wst \<Rightarrow> 'w wst" where
  "web_on_action h action st =
    (if action = ACT_HTTP then
       (case wq (wh_accept h) st of
          (ok, st) \<Rightarrow> if ok then wx (wh_drop h) (serve h (st\<lparr>sent := []\<rparr>)) else st)
     else st)"

datatype web_entry = W_Init | W_Deinit | W_Enter | W_Exit | W_Tick u64 | W_Act u32

fun web_call :: "'w web_host \<Rightarrow> web_entry \<Rightarrow> 'w wst \<Rightarrow> 'w wst" where
  "web_call h W_Init st = web_plugin_init h st"
| "web_call h W_Deinit st = web_plugin_deinit h st"
| "web_call h W_Enter st = web_on_enter h st"
| "web_call h W_Exit st = st"
| "web_call h (W_Tick t) st = st"
| "web_call h (W_Act a) st = web_on_action h a st"

end
