(* ===== verification/Web_Claims.thy ===== *)
theory Web_Claims
  imports Web
begin

text \<open>Properties of the webserver plugin, with their witnesses.\<close>

section \<open>File names\<close>

definition name_char :: "nat \<Rightarrow> bool" where
  "name_char c \<longleftrightarrow> is_ascii_alphanumeric c \<or> c \<in> {46, 95, 45}"

definition file_name :: "ustr \<Rightarrow> bool" where
  "file_name n \<longleftrightarrow> n \<noteq> [] \<and> list_all name_char n \<and> n \<noteq> lit ''.'' \<and> n \<noteq> lit ''..''"

lemma name_char_ascii: "name_char c \<Longrightarrow> c < 128 \<and> c \<notin> {10, 13, 32, 37, 47, 63}"
  by (auto simp: name_char_def is_ascii_alphanumeric_def is_ascii_digit_def is_ascii_alphabetic_def)

lemma name_chars_bytes:
  assumes "list_all name_char s"
  shows "utf8_encode s = map of_nat s" and "list_all name_byte (utf8_encode s)" and "valid_ustr s"
proof -
  have "list_all (\<lambda>c. c < 128) s" using assms name_char_ascii by (auto simp: list_all_iff)
  then show e: "utf8_encode s = map of_nat s" by (rule utf8_encode_ascii)
  have "name_byte (of_nat c)" if "name_char c" for c
    using name_byte_ascii [of c] that name_char_ascii [OF that] by (simp add: name_char_def)
  then show "list_all name_byte (utf8_encode s)" using assms by (auto simp: e list_all_iff)
  show "valid_ustr s"
    using assms name_char_ascii by (force simp: valid_ustr_def list_all_iff scalar_def)
qed

lemma name_bytes_chars: "valid_ustr s \<Longrightarrow> list_all name_byte (utf8_encode s) \<longleftrightarrow> list_all name_char s"
  using name_chars_bytes(2) list_all_utf8_ascii by (auto simp: name_char_def [abs_def])

lemma drop_slashes: "\<exists>k. p = replicate k 47 @ trim_start_matches (\<lambda>c. c = 47) p"
proof (induction p)
  case (Cons c p)
  then obtain k where "p = replicate k 47 @ trim_start_matches (\<lambda>c. c = 47) p" by blast
  then show ?case
    by (cases "c = 47") (auto simp: trim_start_matches_def intro: exI [of _ "Suc k"] exI [of _ 0])
qed (simp add: trim_start_matches_def)

lemma trim_slashes_append:
  "trim_start_matches (\<lambda>c. c = 47) (replicate k 47 @ n) = trim_start_matches (\<lambda>c. c = 47) n"
  by (induction k) (simp_all add: trim_start_matches_def)

lemma index_name: "file_name INDEX" "lit ''index.html'' = INDEX"
  by (simp_all add: file_name_def INDEX_def lit_def name_char_def is_ascii_alphanumeric_def
      is_ascii_digit_def is_ascii_alphabetic_def)

lemma trim_name: "file_name n \<Longrightarrow> trim_start_matches (\<lambda>c. c = 47) (replicate k 47 @ n) = n"
proof -
  assume f: "file_name n"
  then obtain c r where "n = c # r" "name_char c" by (cases n) (auto simp: file_name_def)
  then have "trim_start_matches (\<lambda>c. c = 47) n = n"
    using name_char_ascii [of c] by (simp add: trim_start_matches_def)
  then show ?thesis by (simp add: trim_slashes_append)
qed

lemma trim_only: "trim_start_matches (\<lambda>c. c = 47) (replicate k 47) = []"
  by (simp add: trim_start_matches_def)

lemma resolve_iff:
  assumes "valid_ustr p"
  shows "resolve_file p = Some n \<longleftrightarrow>
    file_name n \<and> n = (if trim_start_matches (\<lambda>c. c = 47) p = [] then INDEX
                        else trim_start_matches (\<lambda>c. c = 47) p)"
proof -
  let ?t = "trim_start_matches (\<lambda>c. c = 47) p"
  obtain k where "p = replicate k 47 @ ?t" using drop_slashes by blast
  then have v: "valid_ustr ?t" using assms by (metis valid_ustr_simps(3))
  show ?thesis
    using name_bytes_chars [OF v] index_name
    by (cases "?t = []") (auto simp: resolve_file_def Let_def file_name_def name_chars_bytes(2))
qed

text \<open>A path resolves to a file exactly when it is a run of slashes, possibly empty, before an
  allowed name (letters, digits, dot, underscore and dash, not one of the two dot directories), or
  nothing but slashes, which names the index; so no request leaves the folder.\<close>
theorem resolve_exact:
  assumes "valid_ustr p"
  shows "resolve_file p = Some n \<longleftrightarrow>
    file_name n \<and> (\<exists>k. p = replicate k 47 @ n \<or> p = replicate k 47 \<and> n = lit ''index.html'')"
proof -
  let ?t = "trim_start_matches (\<lambda>c. c = 47) p"
  obtain k where k: "p = replicate k 47 @ ?t" using drop_slashes by blast
  have "n = (if ?t = [] then INDEX else ?t)
    \<longleftrightarrow> (\<exists>k. p = replicate k 47 @ n \<or> p = replicate k 47 \<and> n = INDEX)" if "file_name n"
  proof
    assume "n = (if ?t = [] then INDEX else ?t)"
    then show "\<exists>k. p = replicate k 47 @ n \<or> p = replicate k 47 \<and> n = INDEX"
      using k by (auto split: if_splits)
  next
    assume "\<exists>k. p = replicate k 47 @ n \<or> p = replicate k 47 \<and> n = INDEX"
    then show "n = (if ?t = [] then INDEX else ?t)"
      using trim_name [OF that] trim_only that by (auto simp: file_name_def)
  qed
  then show ?thesis unfolding resolve_iff [OF assms] index_name(2) by blast
qed

theorem resolve_exact_witness: "resolve_file (lit ''/../secret'') = None"
proof -
  have v: "valid_ustr (lit ''/../secret'')" by (simp add: lit_def scalar_def)
  have "resolve_file (lit ''/../secret'') \<noteq> Some n" for n
  proof
    assume "resolve_file (lit ''/../secret'') = Some n"
    from resolve_exact [OF v, THEN iffD1, OF this] obtain k where
      n: "list_all name_char n" and k: "lit ''/../secret'' = replicate k 47 @ n \<or> lit ''/../secret'' = replicate k 47"
      by (auto simp: file_name_def)
    have "k < 2"
    proof (rule ccontr)
      assume "\<not> k < 2"
      then have "replicate k 47 = 47 # 47 # replicate (k - 2) (47 :: nat)"
        by (cases k; cases "k - 1") auto
      then show False using k by (auto simp: lit_def)
    qed
    then have "k = 0 \<or> k = 1" by auto
    then show False using k n name_char_ascii [of 47] by (auto simp: lit_def)
  qed
  then show ?thesis by (cases "resolve_file (lit ''/../secret'')") auto
qed

section \<open>Requests\<close>

lemma percent_bytes_id: "37 \<notin> set bs \<Longrightarrow> percent_bytes bs = bs"
  by (induction bs rule: percent_bytes.induct) auto

lemma percent_decode_name:
  assumes "list_all name_char n"
  shows "percent_decode (47 # n) = Some (47 # n)"
proof -
  have v: "valid_ustr (47 # n)" using name_chars_bytes(3) [OF assms] by (simp add: scalar_def)
  have "(of_nat c :: u8) \<noteq> 37" if "c \<in> set n" for c
    using of_nat_u8_eq [of c 37] that assms name_char_ascii [of c] by (auto simp: list_all_iff)
  then have "37 \<notin> set (utf8_encode (47 # n))"
    by (auto simp: name_chars_bytes(1) [OF assms] utf8_char_ascii)
  then have "percent_bytes (utf8_encode (47 # n)) = utf8_encode (47 # n)" by (rule percent_bytes_id)
  then show ?thesis unfolding percent_decode_def using utf8_decode_encode [OF v] by metis
qed

lemma hd_split_prefix:
  "(\<And>c. c \<in> set w \<Longrightarrow> \<not> p c) \<Longrightarrow> \<exists>m. hd (split_on p (w @ s)) = w @ m"
  by (simp add: hd_split_on)

lemma request_names_file:
  assumes "file_name n"
  shows "parse_request (lit ''GET /'' @ n @ lit '' '' @ rest) = Get (47 # n)
    \<and> resolve_file (47 # n) = Some n"
proof -
  have n: "list_all name_char n" using assms by (simp add: file_name_def)
  have c: "c \<in> set n \<Longrightarrow> c \<notin> {10, 13, 32, 37, 47, 63}" for c
    using n name_char_ascii by (auto simp: list_all_iff)
  let ?req = "lit ''GET /'' @ n @ lit '' '' @ rest"
  have l: "lit ''GET /'' = [71, 69, 84, 32, 47]" "lit '' '' = [32]" "lit ''GET'' = [71, 69, 84]"
    by (simp_all add: lit_def)
  obtain m where m: "hd (split_on (\<lambda>c. c = 13 \<or> c = 10) ?req) = [71, 69, 84] @ 32 # (47 # n) @ 32 # m"
  proof -
    have "\<not> (x = 13 \<or> x = 10)" if "x \<in> set ([71, 69, 84, 32, 47] @ n @ [32])" for x
      using that c by auto
    from hd_split_prefix [of "[71, 69, 84, 32, 47] @ n @ [32]" "\<lambda>c. c = 13 \<or> c = 10" rest, OF this] obtain m where
      "hd (split_on (\<lambda>c. c = 13 \<or> c = 10) (([71, 69, 84, 32, 47] @ n @ [32]) @ rest))
        = ([71, 69, 84, 32, 47] @ n @ [32]) @ m" by blast
    then show ?thesis by (intro that [of m]) (simp add: l del: split_on.simps)
  qed
  have p: "split_on (\<lambda>c. c = 32) ([71, 69, 84] @ 32 # (47 # n) @ 32 # m)
      = [71, 69, 84] # (47 # n) # split_on (\<lambda>c. c = 32) m"
  proof -
    have "split_on (\<lambda>c. c = 32) ((47 # n) @ 32 # m) = (47 # n) # split_on (\<lambda>c. c = 32) m"
      by (rule split_on_append) (use c in auto)
    moreover have "split_on (\<lambda>c. c = 32) ([71, 69, 84] @ 32 # (47 # n) @ 32 # m)
      = [71, 69, 84] # split_on (\<lambda>c. c = 32) ((47 # n) @ 32 # m)"
      by (rule split_on_append) auto
    ultimately show ?thesis by metis
  qed
  have q: "split_on (\<lambda>c. c = 63) (47 # n) = [47 # n]" by (rule split_on_id) (use c in auto)
  have "parse_request ?req = Get (47 # n)"
    unfolding parse_request_def m Let_def p
    by (simp add: l q percent_decode_name [OF n] starts_with_def eq_ignore_ascii_case_def del: split_on.simps)
  moreover have "valid_ustr (47 # n)" using name_chars_bytes(3) [OF n] by (simp add: scalar_def)
  from this have "resolve_file (47 # n) = Some n"
    using assms trim_name [OF assms, of 1] by (subst resolve_iff) (auto simp: file_name_def)
  ultimately show ?thesis by blast
qed

section \<open>Replies\<close>

text \<open>The parts of the reply to the bytes received, each written by one call of \<open>write_all\<close>.\<close>

definition error_parts :: "ustr \<Rightarrow> ustr \<Rightarrow> u8 list list" where
  "error_parts status extra = [utf8_encode (error_head status extra), utf8_encode status, [10]]"

definition reply_parts :: "'w web_host \<Rightarrow> 'w \<Rightarrow> u8 list \<Rightarrow> u8 list list" where
  "reply_parts h w got =
    (case request_of got of
       OtherMethod \<Rightarrow> error_parts (lit ''405 Method Not Allowed'') (lit ''Allow: GET'' @ crlf)
     | Bad \<Rightarrow> error_parts (lit ''400 Bad Request'') []
     | Get path \<Rightarrow>
       (case load_file h w path of
          Some (name, body) \<Rightarrow> [utf8_encode (ok_head name body), body]
        | None \<Rightarrow> error_parts (lit ''404 Not Found'') []))"

definition write_parts :: "'w web_host \<Rightarrow> u64 \<Rightarrow> u8 list list \<Rightarrow> 'w wst \<Rightarrow> 'w wst" where
  "write_parts h deadline ps st = foldl (\<lambda>st p. write_all h p deadline st) st ps"

lemma served_frame: "(st\<lparr>served := n\<rparr>)\<lparr>sent := b\<rparr> = (st\<lparr>sent := b\<rparr>)\<lparr>served := n\<rparr>"
  by simp

lemma sent_serve:
  assumes "wq (wh_uptime h) st = (now, st1)" and "read_request_line h st1 = (got, st2)"
    and "\<not> wtrapped st2" and "got \<noteq> []"
  shows "sent (serve h st)
    = sent (write_parts h (now + SERVE_BUDGET_MS) (reply_parts h (wworld st2) got) st2)"
  using assms
  by (simp add: serve_def reply_parts_def write_parts_def error_parts_def send_error_def Let_def
      split: request.split option.split prod.split)

text \<open>A set of worlds in which writes are accepted and the clock has not reached the deadline.\<close>

definition prompt :: "'w web_host \<Rightarrow> u64 \<Rightarrow> 'w set \<Rightarrow> bool" where
  "prompt h deadline W \<longleftrightarrow>
    (\<forall>w\<in>W. fst (wh_uptime h w) < deadline \<and> snd (wh_uptime h w) \<in> W
      \<and> (\<forall>bs t. bs \<noteq> [] \<longrightarrow> (\<exists>k>0. fst (wh_write h bs t w) = Some k) \<and> snd (wh_write h bs t w) \<in> W))"

lemma write_loop_full:
  assumes "prompt h deadline W" and "wworld st \<in> W"
  shows "sent (write_loop h deadline bs k st) = sent st @ drop k bs
    \<and> wworld (write_loop h deadline bs k st) \<in> W"
  using assms
proof (induction h deadline bs k st rule: write_loop.induct)
  case (1 h deadline bs k st)
  show ?case
  proof (cases "k < length bs")
    case True
    let ?w = "snd (wh_uptime h (wworld st))"
    have u: "fst (wh_uptime h (wworld st)) < deadline" "?w \<in> W"
      using "1.prems" by (auto simp: prompt_def)
    have ne: "drop k bs \<noteq> []" using True by simp
    obtain n where n: "0 < n" "fst (wh_write h (drop k bs) WRITE_TIMEOUT_MS ?w) = Some n"
      and w: "snd (wh_write h (drop k bs) WRITE_TIMEOUT_MS ?w) \<in> W"
      using "1.prems"(1) u(2) ne unfolding prompt_def by metis
    let ?st = "st\<lparr>wworld := snd (wh_write h (drop k bs) WRITE_TIMEOUT_MS ?w),
      sent := sent st @ take n (drop k bs)\<rparr>"
    have step: "write_loop h deadline bs k st = write_loop h deadline bs (k + n) ?st"
      by (subst write_loop.simps) (use True u n in \<open>simp add: wq_def\<close>)
    have "sent (write_loop h deadline bs (k + n) ?st) = sent ?st @ drop (k + n) bs
      \<and> wworld (write_loop h deadline bs (k + n) ?st) \<in> W"
    proof -
      have a: "(fst (wh_uptime h (wworld st)), st\<lparr>wworld := ?w\<rparr>) = wq (wh_uptime h) st"
        by (simp add: wq_def)
      have b: "(Some n, st\<lparr>wworld := snd (wh_write h (drop k bs) WRITE_TIMEOUT_MS ?w)\<rparr>)
        = wq (wh_write h (drop k bs) WRITE_TIMEOUT_MS) (st\<lparr>wworld := ?w\<rparr>)"
        using n by (simp add: wq_def)
      show ?thesis using "1.IH" [OF True a u(1) b refl _ "1.prems"(1)] n w by simp
    qed
    moreover have "take n (drop k bs) @ drop (k + n) bs = drop k bs"
      by (metis add.commute append_take_drop_id drop_drop)
    ultimately show ?thesis unfolding step by simp
  next
    case False
    then show ?thesis using "1.prems" by (subst (1 2) write_loop.simps) simp
  qed
qed

lemma write_parts_full:
  assumes "prompt h deadline W" and "wworld st \<in> W"
  shows "sent (write_parts h deadline ps st) = sent st @ concat ps
    \<and> wworld (write_parts h deadline ps st) \<in> W"
  using assms(2)
proof (induction ps arbitrary: st)
  case (Cons p ps)
  then show ?case
    using write_loop_full [OF assms(1) Cons.prems, of p 0] by (simp add: write_parts_def write_all_def)
qed (simp add: write_parts_def)

text \<open>A client of the server: the bytes after the first blank line are the body.\<close>

fun client_body :: "u8 list \<Rightarrow> u8 list option" where
  "client_body (a # b # c # d # r) =
    (if [a, b, c, d] = [13, 10, 13, 10] then Some r else client_body (b # c # d # r))"
| "client_body bs = None"

lemma client_body_skip: "x \<noteq> 13 \<Longrightarrow> client_body (x # s) = client_body s"
proof -
  assume "x \<noteq> 13"
  moreover have "client_body s = None" if "length s \<le> 3"
    using that by (cases s rule: client_body.cases) auto
  ultimately show ?thesis
    by (cases "x # s" rule: client_body.cases) auto
qed

lemma client_body_line:
  assumes "13 \<notin> set l" and "y \<noteq> 13"
  shows "client_body (l @ 13 # 10 # y # s) = client_body (y # s)"
  using assms(1)
proof (induction l)
  case Nil
  have "client_body (13 # 10 # y # s) = client_body (10 # y # s)"
    using assms(2) by (cases s) simp_all
  then show ?case using client_body_skip [of 10 "y # s"] by simp
next
  case (Cons a l)
  then show ?case using client_body_skip [of a "l @ 13 # 10 # y # s"] by simp
qed

lemma client_body_end: "13 \<notin> set l \<Longrightarrow> client_body (l @ 13 # 10 # 13 # 10 # s) = Some s"
  by (induction l) (simp_all add: client_body_skip)

definition head_line :: "ustr \<Rightarrow> bool" where
  "head_line l \<longleftrightarrow> l \<noteq> [] \<and> list_all (\<lambda>c. c < 128 \<and> c \<noteq> 13) l"

lemma head_line_bytes:
  assumes "head_line l"
  shows "13 \<notin> set (utf8_encode l)" and "\<exists>y r. utf8_encode l = y # r \<and> y \<noteq> 13"
proof -
  have "list_all (\<lambda>c. c < 128) l" using assms by (auto simp: head_line_def list_all_iff)
  then have e: "utf8_encode l = map of_nat l" by (rule utf8_encode_ascii)
  show n: "13 \<notin> set (utf8_encode l)"
    using assms of_nat_u8_eq [of _ 13] by (fastforce simp: e head_line_def list_all_iff)
  show "\<exists>y r. utf8_encode l = y # r \<and> y \<noteq> 13"
    using assms n by (cases l) (auto simp: e head_line_def utf8_char_ascii)
qed

lemma utf8_crlf: "utf8_encode crlf = [13, 10]"
  by (simp add: crlf_def utf8_char_ascii)

lemma client_body_head:
  assumes "ls \<noteq> []" and "list_all head_line ls"
  shows "client_body (utf8_encode (concat (map (\<lambda>l. l @ crlf) ls) @ crlf) @ body) = Some body"
  using assms
proof (induction ls)
  case (Cons l ls)
  note l = head_line_bytes [of l]
  show ?case
  proof (cases ls)
    case Nil
    then show ?thesis using client_body_end [of "utf8_encode l"] l(1) Cons.prems by (simp add: utf8_crlf)
  next
    case (Cons m ms)
    then obtain y r where "utf8_encode m = y # r" "y \<noteq> 13"
      using head_line_bytes(2) [of m] \<open>list_all head_line (l # ls)\<close> by auto
    then have "client_body (utf8_encode l @ 13 # 10 # utf8_encode (concat (map (\<lambda>l. l @ crlf) ls) @ crlf) @ body)
      = client_body (utf8_encode (concat (map (\<lambda>l. l @ crlf) ls) @ crlf) @ body)"
      using client_body_line [of "utf8_encode l" y] l(1) Cons.prems Cons by simp
    then show ?thesis using Cons.IH Cons.prems Cons by (simp add: utf8_crlf)
  qed
qed simp

lemma show_nat_plain: "list_all (\<lambda>c. c < 128 \<and> c \<noteq> 13) (show_nat n)"
  using show_nat_digits [of n] by (auto simp: list_all_iff is_ascii_digit_def)

lemma content_type_plain: "list_all (\<lambda>c. c < 128 \<and> c \<noteq> 13) (content_type n)"
  by (simp add: content_type_def Let_def lit_def)

lemma ok_head_lines: "ok_head name body = concat (map (\<lambda>l. l @ crlf)
    [lit ''HTTP/1.0 200 OK'', lit ''Content-Type: '' @ content_type name,
     lit ''Content-Length: '' @ show_nat (length body), lit ''Connection: close'']) @ crlf"
  by (simp add: ok_head_def)

lemma client_body_ok: "client_body (utf8_encode (ok_head name body) @ body) = Some body"
  unfolding ok_head_lines
  by (rule client_body_head)
    (simp_all add: head_line_def show_nat_plain content_type_plain, simp_all add: lit_def)


lemma crlf_at_line: "13 \<notin> set l \<Longrightarrow> crlf_at (l @ 13 # 10 # s) = Some (length l)"
proof (induction l)
  case (Cons a l)
  then show ?case by (cases l) auto
qed simp

lemma write_loop_served: "served (write_loop h d bs k st) = served st"
proof (induction h d bs k st rule: write_loop.induct)
  case (1 h d bs k st)
  show ?case
    by (subst write_loop.simps)
      (use 1 in \<open>auto simp: wq_def split: option.split\<close>)
qed

lemma read_loop_frame:
  "read_loop h n got st = (got', st') \<Longrightarrow> served st' = served st \<and> sent st' = sent st \<and> bound_port st' = bound_port st"
proof (induction h n got st arbitrary: got' st' rule: read_loop.induct)
  case (2 h k got st)
  then show ?case by (auto simp: wq_def Let_def split: option.splits if_splits)
qed simp

text \<open>A connection whose request arrives, on a host that keeps up: what the properties below assume.\<close>

definition connection :: "'w web_host \<Rightarrow> 'w wst \<Rightarrow> u8 list \<Rightarrow> 'w wst \<Rightarrow> 'w set \<Rightarrow> bool" where
  "connection h st got st2 W \<longleftrightarrow>
    read_request_line h (snd (wq (wh_uptime h) st)) = (got, st2) \<and> \<not> wtrapped st2 \<and> got \<noteq> []
    \<and> sent st = [] \<and> prompt h (fst (wh_uptime h (wworld st)) + SERVE_BUDGET_MS) W \<and> wworld st2 \<in> W"

lemma connection_reply:
  assumes "connection h st got st2 W"
  shows "sent (serve h st) = concat (reply_parts h (wworld st2) got)"
proof -
  let ?now = "fst (wh_uptime h (wworld st))"
  obtain st1 where a: "wq (wh_uptime h) st = (?now, st1)" and f: "sent st1 = sent st"
    by (simp add: wq_def)
  have r: "read_request_line h st1 = (got, st2)" and n: "\<not> wtrapped st2" "got \<noteq> []" "sent st = []"
    and p: "prompt h (?now + SERVE_BUDGET_MS) W" "wworld st2 \<in> W"
    using assms a by (simp_all add: connection_def)
  have "sent st2 = []" using read_loop_frame [OF r [unfolded read_request_line_def]] f n by simp
  then show ?thesis unfolding sent_serve [OF a r n(1,2)] using write_parts_full [OF p] by simp
qed

text \<open>C13: a GET of a stored file delivers exactly the file's bytes as the body of the reply, whatever
  headers follow the request line, and is counted.\<close>
theorem get_delivers_file:
  assumes "connection h st got st2 W"
    and "got = utf8_encode (lit ''GET /'' @ n @ lit '' HTTP/1.1'') @ [13, 10] @ headers"
    and "file_name n" and "wh_fs_size h n (wworld st2) = Some sz" and "sz \<le> WEB_FILE_MAX"
    and "wh_fs_read h n sz (wworld st2) = Some body"
  shows "client_body (sent (serve h st)) = Some body \<and> served (serve h st) = served st + 1"
proof -
  let ?line = "lit ''GET /'' @ n @ lit '' HTTP/1.1''"
  have n: "list_all name_char n" using assms(3) by (simp add: file_name_def)
  have hl: "head_line ?line"
    using n name_char_ascii by (fastforce simp: head_line_def list_all_iff lit_def)
  have v: "valid_ustr ?line" using name_chars_bytes(3) [OF n] by (simp add: lit_def scalar_def)
  have sp: "lit '' HTTP/1.1'' = lit '' '' @ lit ''HTTP/1.1''" by (simp add: lit_def)
  have "crlf_at got = Some (length (utf8_encode ?line))"
    using crlf_at_line [OF head_line_bytes(1) [OF hl]] assms(2) by simp
  then have "request_of got = parse_request ?line"
    using utf8_decode_encode [OF v] by (simp add: request_of_def assms(2) del: utf8_encode_simps)
  then have rq: "request_of got = Get (47 # n)"
    using request_names_file [OF assms(3), of "lit ''HTTP/1.1''"] by (simp add: sp)
  have lf: "load_file h (wworld st2) (47 # n) = Some (n, body)"
    using request_names_file [OF assms(3)] assms(4-6) by (simp add: load_file_def)
  have "client_body (sent (serve h st)) = Some body"
    unfolding connection_reply [OF assms(1)] using rq lf client_body_ok by (simp add: reply_parts_def)
  moreover have "served (serve h st) = served st + 1"
  proof -
    obtain st1 where a: "wq (wh_uptime h) st = (fst (wh_uptime h (wworld st)), st1)"
      and f: "served st1 = served st" by (simp add: wq_def)
    have r: "read_request_line h st1 = (got, st2)" and t: "\<not> wtrapped st2" "got \<noteq> []"
      using assms(1) a by (simp_all add: connection_def)
    have "served st2 = served st" using read_loop_frame [OF r [unfolded read_request_line_def]] f by simp
    then show ?thesis
      using a r t rq lf by (simp add: serve_def Let_def write_all_def write_loop_served)
  qed
  ultimately show ?thesis ..
qed

section \<open>A concrete host\<close>

text \<open>The world is the number of writes so far; the first \<open>k\<close> of them time out.\<close>

definition demo_request :: "u8 list" where
  "demo_request = utf8_encode (lit ''GET /'' @ lit ''a'' @ lit '' HTTP/1.1'') @ [13, 10]"

definition demo_web :: "nat \<Rightarrow> nat web_host" where
  "demo_web k = \<lparr>wh_nvs_get_u32 = \<lambda>_ _. None, wh_fs_size = \<lambda>_ _. Some 2, wh_fs_write = \<lambda>_ _ w. w,
     wh_fs_read = \<lambda>_ _ _. Some [104, 105], wh_wifi_request = \<lambda>_ w. w, wh_wifi_release = \<lambda>w. w,
     wh_wifi_ip = \<lambda>_. None, wh_listen = \<lambda>_ _ w. (True, w), wh_close = \<lambda>_ w. w,
     wh_set_resident = \<lambda>_ w. w, wh_uptime = \<lambda>w. (1000 * of_nat w, w), wh_accept = \<lambda>w. (True, w),
     wh_read = \<lambda>_ _ w. (Some demo_request, w),
     wh_write = \<lambda>bs _ w. (if w < k then (None, Suc w) else (Some (length bs), w)), wh_drop = \<lambda>w. w,
     wh_tr_key = \<lambda>_. [], wh_tr_meta = \<lambda>_. [], wh_push_info = \<lambda>_ _ w. w\<rparr>"

lemma demo_web_simps [simp]:
  "wh_uptime (demo_web k) w = (1000 * of_nat w, w)" "wh_read (demo_web k) m t w = (Some demo_request, w)"
  "wh_write (demo_web k) bs t w = (if w < k then (None, Suc w) else (Some (length bs), w))"
  "wh_fs_size (demo_web k) n w = Some 2" "wh_fs_read (demo_web k) n m w = Some [104, 105]"
  by (simp_all add: demo_web_def)

lemma demo_request_bytes: "demo_request = [71, 69, 84, 32, 47, 97, 32, 72, 84, 84, 80, 47, 49, 46, 49, 13, 10]"
  by (simp add: demo_request_def lit_def utf8_char_def)

lemma demo_read:
  "read_request_line (demo_web k) st = (demo_request, st)"
  by (simp add: read_request_line_def numeral_eq_Suc wq_def demo_request_bytes REQ_MAX_def Let_def)

lemma demo_connection: "connection (demo_web 0) (web_init 0) demo_request (web_init 0) {0}"
  by (simp add: connection_def demo_read wq_def prompt_def web_init_def SERVE_BUDGET_MS_def
      demo_request_bytes)

lemma demo_name: "file_name (lit ''a'')"
  by (simp add: file_name_def lit_def name_char_def is_ascii_alphanumeric_def is_ascii_digit_def
      is_ascii_alphabetic_def)

theorem get_delivers_file_witness:
  "client_body (sent (serve (demo_web 0) (web_init 0))) = Some [104, 105]"
proof -
  have "wh_fs_size (demo_web 0) (lit ''a'') (wworld (web_init 0)) = Some 2"
    "wh_fs_read (demo_web 0) (lit ''a'') 2 (wworld (web_init 0)) = Some [104, 105]"
    by simp_all
  moreover have "demo_request = utf8_encode (lit ''GET /'' @ lit ''a'' @ lit '' HTTP/1.1'') @ [13, 10] @ []"
    by (simp add: demo_request_def)
  ultimately show ?thesis
    using get_delivers_file [OF demo_connection _ demo_name] by (simp add: WEB_FILE_MAX_def)
qed



text \<open>The two parts of a reply are written independently: when the write of the head times out,
  the body is sent without it and the request is counted as served.\<close>
theorem headless_reply:
  "sent (serve (demo_web 1) (web_init 0)) = [104, 105] \<and> served (serve (demo_web 1) (web_init 0)) = 1
    \<and> client_body (sent (serve (demo_web 1) (web_init 0))) = None"
proof -
  have rq: "request_of demo_request = Get [47, 97]"
    by (simp add: request_of_def demo_request_bytes Let_def parse_request_def lit_def
        eq_ignore_ascii_case_def to_ascii_lowercase_def starts_with_def percent_decode_def utf8_char_def)
  have lf: "load_file (demo_web 1) w [47, 97] = Some ([97], [104, 105])" for w
    by (simp add: load_file_def resolve_file_def trim_start_matches_def lit_def utf8_char_def name_byte_def
        is_ascii_alphanumeric_def is_ascii_digit_def is_ascii_alphabetic_def WEB_FILE_MAX_def Let_def)
  let ?head = "utf8_encode (ok_head [97] [104, 105])"
  have ne: "?head \<noteq> []" by (simp add: ok_head_def lit_def utf8_char_def)
  have h: "write_all (demo_web 1) ?head 2000 (web_init 0) = (web_init 0)\<lparr>wworld := 1\<rparr>"
    using ne by (simp add: write_all_def write_loop.simps [of _ _ ?head] wq_def web_init_def)
  have b: "write_all (demo_web 1) [104, 105] 2000 ((web_init 0)\<lparr>wworld := 1\<rparr>)
    = (web_init 0)\<lparr>wworld := 1, sent := [104, 105]\<rparr>"
    unfolding write_all_def
    by (subst write_loop.simps, subst write_loop.simps) (simp add: wq_def web_init_def)
  have "serve (demo_web 1) (web_init 0) = (web_init 0)\<lparr>wworld := 1, sent := [104, 105], served := 1\<rparr>"
    using rq lf h b
    by (simp add: serve_def demo_read wq_def Let_def SERVE_BUDGET_MS_def)
      (simp add: web_init_def demo_request_bytes)
  then show ?thesis by simp
qed

end
