(* ===== verification/Serde.thy ===== *)
theory Serde
  imports Sdk Complex_Main
begin

text \<open>
  The JSON library. The crate \<open>serde_json\<close> is not part of the repository. Its values are the
  type variable \<open>'v\<close>, and the functions the plugins call are the fields of \<open>'v serde\<close>:
  \<open>from_str\<close>, \<open>Value::get\<close> with a string key, \<open>as_str\<close>, \<open>as_array\<close>, \<open>as_u64\<close>,
  \<open>as_object\<close>, whose map is the list of its entries in iteration order, and \<open>as_f64\<close>, whose
  results are finite and given as the rational number they stand for.
\<close>

record 'v serde =
  from_str :: "ustr \<Rightarrow> 'v option"
  jget :: "'v \<Rightarrow> ustr \<Rightarrow> 'v option"
  as_str :: "'v \<Rightarrow> ustr option"
  as_array :: "'v \<Rightarrow> 'v list option"
  as_object :: "'v \<Rightarrow> (ustr \<times> 'v) list option"
  as_u64 :: "'v \<Rightarrow> u64 option"
  as_f64 :: "'v \<Rightarrow> rat option"

text \<open>\<open>parent.and_then(|p| p.get(key))\<close> and the chains that end in a typed access.\<close>

abbreviation field :: "'v serde \<Rightarrow> 'v option \<Rightarrow> string \<Rightarrow> 'v option" where
  "field j p k \<equiv> Option.bind p (\<lambda>v. jget j v (lit k))"

abbreviation str_field :: "'v serde \<Rightarrow> 'v option \<Rightarrow> string \<Rightarrow> ustr option" where
  "str_field j p k \<equiv> Option.bind (field j p k) (as_str j)"

abbreviation obj_field :: "'v serde \<Rightarrow> 'v option \<Rightarrow> string \<Rightarrow> (ustr \<times> 'v) list option" where
  "obj_field j p k \<equiv> Option.bind (field j p k) (as_object j)"

abbreviation arr_field :: "'v serde \<Rightarrow> 'v option \<Rightarrow> string \<Rightarrow> 'v list option" where
  "arr_field j p k \<equiv> Option.bind (field j p k) (as_array j)"

end
