(* ===== verification/Matrix_Json.thy ===== *)
theory Matrix_Json
  imports Serde
begin

text \<open>
  The Matrix plugin's data types (\<open>plugins/matrix/src/model.rs\<close>) and its JSON layer
  (\<open>plugins/matrix/src/json.rs\<close>): escaping, URL encoding and the extraction of typed results
  from response bodies.

  The JSON library is a parameter (\<open>Serde\<close>).
\<close>

section \<open>Data types\<close>

definition RETAIN :: nat where "RETAIN = 30"

record config =
  cfg_server :: ustr
  cfg_user :: ustr

record session =
  base_url :: ustr
  token :: ustr
  user_id :: ustr
  device_id :: ustr
  next_batch :: ustr

record enc_info =
  ei_session :: ustr
  ei_ciphertext :: ustr
  ei_sender_key :: ustr

record message =
  msg_sender :: ustr
  msg_body :: ustr
  msg_encrypted :: bool
  msg_enc :: "enc_info option"

record room =
  r_id :: ustr
  r_name :: ustr
  r_encrypted :: bool
  r_messages :: "message list"
  r_members :: "ustr list"
  r_last_ts :: u64
  r_unread :: bool
  r_is_dm :: bool
  r_invited :: bool

definition room_new :: "ustr \<Rightarrow> room" where
  "room_new i = \<lparr>r_id = i, r_name = i, r_encrypted = False, r_messages = [], r_members = [],
     r_last_ts = 0, r_unread = False, r_is_dm = False, r_invited = False\<rparr>"

definition push_messages :: "message list \<Rightarrow> message list \<Rightarrow> nat \<Rightarrow> message list" where
  "push_messages buf incoming retain =
    (let buf = buf @ incoming in
     if length buf > retain then drop (length buf - retain) buf else buf)"

section \<open>Encoding\<close>

definition from_digit :: "nat \<Rightarrow> nat" where
  "from_digit k = (if k < 10 then 48 + k else 87 + k)"

definition escape_char :: "nat \<Rightarrow> ustr" where
  "escape_char c =
    (if c = 34 then [92, 34]
     else if c = 92 then [92, 92]
     else if c = 10 then [92, 110]
     else if c = 13 then [92, 114]
     else if c = 9 then [92, 116]
     else if c < 32 then
       [92, 117] @ map (\<lambda>k. from_digit (c div 2 ^ k mod 16)) [12, 8, 4, 0]
     else [c])"

definition json_escape :: "ustr \<Rightarrow> ustr" where
  "json_escape s = concat (map escape_char s)"

definition unreserved :: "u8 \<Rightarrow> bool" where
  "unreserved b \<longleftrightarrow> is_ascii_alphanumeric (unat b) \<or> b \<in> {45, 95, 46, 126}"

definition upper_digit :: "u8 \<Rightarrow> nat" where
  "upper_digit b = hd (to_ascii_uppercase [from_digit (unat b)])"

definition enc_byte :: "u8 \<Rightarrow> ustr" where
  "enc_byte b =
    (if unreserved b then [unat b]
     else [37, upper_digit (drop_bit 4 b), upper_digit (b AND 0xf)])"

definition urlencode :: "ustr \<Rightarrow> ustr" where
  "urlencode s = concat (map enc_byte (utf8_encode s))"

definition short_sender :: "ustr \<Rightarrow> ustr" where
  "short_sender mxid =
    (let no_at = (case strip_prefix [64] mxid of Some r \<Rightarrow> r | None \<Rightarrow> mxid) in
     case split_first 58 no_at of Some (a, _) \<Rightarrow> a | None \<Rightarrow> no_at)"

section \<open>Login\<close>

record login_result =
  lr_user_id :: ustr
  lr_device_id :: ustr
  lr_token :: ustr

definition parse_login :: "'v serde \<Rightarrow> ustr \<Rightarrow> login_result option" where
  "parse_login j body =
     Option.bind (from_str j body) (\<lambda>v.
       Option.bind (str_field j (Some v) ''access_token'') (\<lambda>tok.
         Some \<lparr>lr_user_id = or_empty (str_field j (Some v) ''user_id''),
               lr_device_id = or_empty (str_field j (Some v) ''device_id''),
               lr_token = tok\<rparr>))"

section \<open>Sync\<close>

record room_update =
  ru_id :: ustr
  ru_name :: "ustr option"
  ru_encrypted :: bool
  ru_messages :: "message list"
  ru_members :: "ustr list"
  ru_left :: "ustr list"
  ru_names :: "(ustr \<times> ustr) list"
  ru_last_ts :: u64
  ru_invited :: bool

record to_device_olm =
  td_sender_key :: ustr
  td_recipient :: ustr
  td_msg_type :: u8
  td_body :: ustr

record sync_result =
  sr_next_batch :: ustr
  sr_rooms :: "room_update list"
  sr_to_device :: "to_device_olm list"
  sr_otk_count :: "u32 option"
  sr_left :: "ustr list"

definition event_array :: "'v serde \<Rightarrow> 'v option \<Rightarrow> string \<Rightarrow> 'v list" where
  "event_array j parent section = or_empty (arr_field j (field j parent section) ''events'')"

abbreviation event_type :: "'v serde \<Rightarrow> 'v \<Rightarrow> ustr" where
  "event_type j e \<equiv> or_empty (str_field j (Some e) ''type'')"

text \<open>One event of \<open>name_from_events\<close>: an explicit name wins over an alias seen before or after.\<close>

definition name_event :: "'v serde \<Rightarrow> 'v \<Rightarrow> ustr option \<Rightarrow> ustr option" where
  "name_event j e found =
    (let ty = event_type j e; content = field j (Some e) ''content'' in
     if ty = lit ''m.room.name'' then
       (case str_field j content ''name'' of
          Some n \<Rightarrow> if n \<noteq> [] then Some n else found
        | None \<Rightarrow> found)
     else if ty = lit ''m.room.canonical_alias'' \<and> found = None then
       (case str_field j content ''alias'' of
          Some a \<Rightarrow> if a \<noteq> [] then Some a else found
        | None \<Rightarrow> found)
     else found)"

definition name_from_events :: "'v serde \<Rightarrow> 'v list \<Rightarrow> ustr option" where
  "name_from_events j events = fold (name_event j) events None"

definition hero_name :: "(ustr \<times> ustr) list \<Rightarrow> ustr \<Rightarrow> ustr" where
  "hero_name names mxid =
    (case map_of names mxid of
       Some dn \<Rightarrow> if dn \<noteq> [] then dn else short_sender mxid
     | None \<Rightarrow> short_sender mxid)"

definition name_from_heroes :: "'v serde \<Rightarrow> 'v \<Rightarrow> (ustr \<times> ustr) list \<Rightarrow> ustr option" where
  "name_from_heroes j room names =
     Option.bind (arr_field j (field j (Some room) ''summary'') ''m.heroes'') (\<lambda>heroes.
       if heroes = [] then None
       else
         let ns = map (hero_name names) (List.map_filter (as_str j) heroes) in
         if ns = [] then None else Some (join (lit '', '') ns))"

definition parse_message_event :: "'v serde \<Rightarrow> 'v \<Rightarrow> message option" where
  "parse_message_event j e =
    (let ty = event_type j e;
         sender = short_sender (or_empty (str_field j (Some e) ''sender''));
         content = field j (Some e) ''content''
     in if ty = lit ''m.room.message'' then
          (if str_field j content ''msgtype'' \<noteq> Some (lit ''m.text'') then None
           else Some \<lparr>msg_sender = sender, msg_body = or_empty (str_field j content ''body''),
                      msg_encrypted = False, msg_enc = None\<rparr>)
        else if ty = lit ''m.room.encrypted'' then
          (let enc = (case (str_field j content ''session_id'', str_field j content ''ciphertext'') of
                        (Some sid, Some ct) \<Rightarrow>
                          Some \<lparr>ei_session = sid, ei_ciphertext = ct,
                                ei_sender_key = or_empty (str_field j content ''sender_key'')\<rparr>
                      | _ \<Rightarrow> None)
           in Some \<lparr>msg_sender = sender, msg_body = [], msg_encrypted = True, msg_enc = enc\<rparr>)
        else None)"

text \<open>The loop over state and timeline events of \<open>parse_room\<close>.\<close>

record room_scan =
  rs_encrypted :: bool
  rs_members :: "ustr list"
  rs_left :: "ustr list"
  rs_names :: "(ustr \<times> ustr) list"

definition push_new :: "ustr \<Rightarrow> ustr list \<Rightarrow> ustr list" where
  "push_new u us = (if u \<in> set us then us else us @ [u])"

definition push_name :: "ustr \<Rightarrow> ustr \<Rightarrow> (ustr \<times> ustr) list \<Rightarrow> (ustr \<times> ustr) list" where
  "push_name u dn ns = (if u \<in> fst ` set ns then ns else ns @ [(u, dn)])"

definition scan_event :: "'v serde \<Rightarrow> 'v \<Rightarrow> room_scan \<Rightarrow> room_scan" where
  "scan_event j e rs =
    (let ty = str_field j (Some e) ''type'';
         rs = (if ty = Some (lit ''m.room.encryption'') then rs\<lparr>rs_encrypted := True\<rparr> else rs)
     in if ty = Some (lit ''m.room.member'') then
          (let content = field j (Some e) ''content'';
               membership = or_empty (str_field j content ''membership'')
           in case str_field j (Some e) ''state_key'' of
                None \<Rightarrow> rs
              | Some uid \<Rightarrow>
                if uid = [] then rs
                else if membership = lit ''join'' then
                  rs\<lparr>rs_left := filter (\<lambda>m. m \<noteq> uid) (rs_left rs),
                     rs_members := push_new uid (rs_members rs),
                     rs_names := push_name uid (or_empty (str_field j content ''displayname'')) (rs_names rs)\<rparr>
                else if membership = lit ''leave'' \<or> membership = lit ''ban'' then
                  rs\<lparr>rs_members := filter (\<lambda>m. m \<noteq> uid) (rs_members rs),
                     rs_left := push_new uid (rs_left rs)\<rparr>
                else rs)
        else rs)"

definition scan_events :: "'v serde \<Rightarrow> 'v list \<Rightarrow> room_scan" where
  "scan_events j es =
     fold (scan_event j) es \<lparr>rs_encrypted = False, rs_members = [], rs_left = [], rs_names = []\<rparr>"

text \<open>The timeline loop: the newest message time, and whether an encrypted event was seen.\<close>

definition timeline_ts :: "'v serde \<Rightarrow> 'v \<Rightarrow> u64 \<Rightarrow> u64" where
  "timeline_ts j e newest =
    (let ty = event_type j e;
         ts = (case Option.bind (field j (Some e) ''origin_server_ts'') (as_u64 j) of
                 Some t \<Rightarrow> t | None \<Rightarrow> 0)
     in if ty = lit ''m.room.message'' \<or> ty = lit ''m.room.encrypted'' then max newest ts else newest)"

definition parse_room :: "'v serde \<Rightarrow> ustr \<Rightarrow> 'v \<Rightarrow> room_update" where
  "parse_room j i room =
    (let state = event_array j (Some room) ''state'';
         timeline = event_array j (Some room) ''timeline'';
         rs = scan_events j (state @ timeline);
         name = (case name_from_events j timeline of
                   Some n \<Rightarrow> Some n
                 | None \<Rightarrow>
                   (case name_from_events j state of
                      Some n \<Rightarrow> Some n
                    | None \<Rightarrow> name_from_heroes j room (rs_names rs)))
     in \<lparr>ru_id = i, ru_name = name,
         ru_encrypted = (rs_encrypted rs
           \<or> list_ex (\<lambda>e. event_type j e = lit ''m.room.encrypted'') timeline),
         ru_messages = List.map_filter (parse_message_event j) timeline,
         ru_members = rs_members rs, ru_left = rs_left rs, ru_names = rs_names rs,
         ru_last_ts = fold (timeline_ts j) timeline 0, ru_invited = False\<rparr>)"

definition parse_messages_chunk :: "'v serde \<Rightarrow> ustr \<Rightarrow> message list" where
  "parse_messages_chunk j body =
    (case from_str j body of
       None \<Rightarrow> []
     | Some v \<Rightarrow> rev (List.map_filter (parse_message_event j) (or_empty (arr_field j (Some v) ''chunk''))))"

definition invite_event :: "'v serde \<Rightarrow> 'v \<Rightarrow> room_scan \<Rightarrow> room_scan" where
  "invite_event j e rs =
    (let ty = str_field j (Some e) ''type'';
         rs = (if ty = Some (lit ''m.room.encryption'') then rs\<lparr>rs_encrypted := True\<rparr> else rs)
     in if ty = Some (lit ''m.room.member'') then
          (case str_field j (Some e) ''state_key'' of
             None \<Rightarrow> rs
           | Some uid \<Rightarrow>
             if uid = [] then rs
             else
               let dn = or_empty (str_field j (field j (Some e) ''content'') ''displayname'') in
               rs\<lparr>rs_members := push_new uid (rs_members rs), rs_names := push_name uid dn (rs_names rs)\<rparr>)
        else rs)"

definition parse_invite :: "'v serde \<Rightarrow> ustr \<Rightarrow> 'v \<Rightarrow> room_update" where
  "parse_invite j i room =
    (let events = event_array j (Some room) ''invite_state'';
         rs = fold (invite_event j) events
                \<lparr>rs_encrypted = False, rs_members = [], rs_left = [], rs_names = []\<rparr>
     in \<lparr>ru_id = i, ru_name = name_from_events j events, ru_encrypted = rs_encrypted rs,
         ru_messages = [], ru_members = rs_members rs, ru_left = [], ru_names = rs_names rs,
         ru_last_ts = 0, ru_invited = True\<rparr>)"

text \<open>The entries of one to-device event, one per recipient key.\<close>

definition to_device_entries :: "'v serde \<Rightarrow> 'v \<Rightarrow> to_device_olm list" where
  "to_device_entries j e =
    (if str_field j (Some e) ''type'' \<noteq> Some (lit ''m.room.encrypted'') then []
     else
       (case field j (Some e) ''content'' of
          None \<Rightarrow> []
        | Some content \<Rightarrow>
          if str_field j (Some content) ''algorithm'' \<noteq> Some (lit ''m.olm.v1.curve25519-aes-sha2'') then []
          else
            (case str_field j (Some content) ''sender_key'' of
               None \<Rightarrow> []
             | Some sk \<Rightarrow>
               List.map_filter (\<lambda>(recipient, entry).
                 map_option (\<lambda>b. \<lparr>td_sender_key = sk, td_recipient = recipient,
                     td_msg_type = (case Option.bind (field j (Some entry) ''type'') (as_u64 j) of
                        Some t \<Rightarrow> ucast t | None \<Rightarrow> 0),
                     td_body = b\<rparr>)
                   (str_field j (Some entry) ''body''))
                 (or_empty (obj_field j (Some content) ''ciphertext'')))))"

definition parse_to_device :: "'v serde \<Rightarrow> 'v \<Rightarrow> to_device_olm list" where
  "parse_to_device j v = concat (map (to_device_entries j) (event_array j (Some v) ''to_device''))"

definition parse_sync :: "'v serde \<Rightarrow> ustr \<Rightarrow> sync_result option" where
  "parse_sync j body =
     Option.bind (from_str j body) (\<lambda>v.
       let rooms = field j (Some v) ''rooms'';
           joined = map (\<lambda>(i, r). parse_room j i r) (or_empty (obj_field j rooms ''join''));
           invited = map (\<lambda>(i, r). parse_invite j i r) (or_empty (obj_field j rooms ''invite''))
       in Some \<lparr>sr_next_batch = or_empty (str_field j (Some v) ''next_batch''),
                sr_rooms = joined @ invited,
                sr_to_device = parse_to_device j v,
                sr_otk_count = map_option ucast
                  (Option.bind (field j (field j (Some v) ''device_one_time_keys_count'') ''signed_curve25519'')
                     (as_u64 j)),
                sr_left = map fst (or_empty (obj_field j rooms ''leave''))\<rparr>)"

section \<open>Members, secrets and keys\<close>

definition parse_members :: "'v serde \<Rightarrow> ustr \<Rightarrow> ustr list" where
  "parse_members j body =
    (case from_str j body of
       None \<Rightarrow> []
     | Some v \<Rightarrow>
       filter (\<lambda>s. s \<noteq> [])
         (List.map_filter (\<lambda>e. str_field j (Some e) ''state_key'')
           (or_empty (arr_field j (Some v) ''chunk''))))"

definition parse_ssss_secret :: "'v serde \<Rightarrow> ustr \<Rightarrow> (ustr \<times> ustr \<times> ustr \<times> ustr) list" where
  "parse_ssss_secret j body =
     List.map_filter (\<lambda>(key_id, entry).
       (case (str_field j (Some entry) ''ciphertext'', str_field j (Some entry) ''iv'',
              str_field j (Some entry) ''mac'') of
          (Some ct, Some iv, Some mac) \<Rightarrow> Some (key_id, ct, iv, mac)
        | _ \<Rightarrow> None))
     (or_empty (obj_field j (from_str j body) ''encrypted''))"

record device_key =
  dk_user_id :: ustr
  dk_device_id :: ustr
  dk_curve :: ustr
  dk_ed :: ustr

definition device_entries :: "'v serde \<Rightarrow> ustr \<Rightarrow> (ustr \<times> 'v) list \<Rightarrow> device_key list" where
  "device_entries j uid devices =
     List.map_filter (\<lambda>(did, dk).
       let keys = field j (Some dk) ''keys'' in
       (case (Option.bind (Option.bind keys (\<lambda>k. jget j k (lit ''curve25519:'' @ did))) (as_str j),
              Option.bind (Option.bind keys (\<lambda>k. jget j k (lit ''ed25519:'' @ did))) (as_str j)) of
          (Some curve, Some ed) \<Rightarrow>
            Some \<lparr>dk_user_id = uid, dk_device_id = did, dk_curve = curve, dk_ed = ed\<rparr>
        | _ \<Rightarrow> None)) devices"

definition parse_keys_query :: "'v serde \<Rightarrow> ustr \<Rightarrow> device_key list" where
  "parse_keys_query j body =
     concat (map (\<lambda>(uid, devices). device_entries j uid (or_empty (as_object j devices)))
       (or_empty (obj_field j (from_str j body) ''device_keys'')))"

record claimed_otk =
  co_user_id :: ustr
  co_device_id :: ustr
  co_key :: ustr

definition claim_entries :: "'v serde \<Rightarrow> ustr \<Rightarrow> (ustr \<times> 'v) list \<Rightarrow> claimed_otk list" where
  "claim_entries j uid devices =
     List.map_filter (\<lambda>(did, keys).
       (case as_object j keys of
          Some ((_, entry) # _) \<Rightarrow>
            map_option (\<lambda>k. \<lparr>co_user_id = uid, co_device_id = did, co_key = k\<rparr>)
              (str_field j (Some entry) ''key'')
        | _ \<Rightarrow> None)) devices"

definition parse_keys_claim :: "'v serde \<Rightarrow> ustr \<Rightarrow> claimed_otk list" where
  "parse_keys_claim j body =
     concat (map (\<lambda>(uid, devices). claim_entries j uid (or_empty (as_object j devices)))
       (or_empty (obj_field j (from_str j body) ''one_time_keys'')))"

record backup_session =
  bs_room_id :: ustr
  bs_session_id :: ustr
  bs_ciphertext :: ustr
  bs_mac :: ustr
  bs_ephemeral :: ustr

definition backup_entries :: "'v serde \<Rightarrow> ustr \<Rightarrow> (ustr \<times> 'v) list \<Rightarrow> backup_session list" where
  "backup_entries j rid sessions =
     List.map_filter (\<lambda>(sid, entry).
       let data = field j (Some entry) ''session_data'' in
       (case (str_field j data ''ciphertext'', str_field j data ''mac'', str_field j data ''ephemeral'') of
          (Some ct, Some mac, Some eph) \<Rightarrow>
            Some \<lparr>bs_room_id = rid, bs_session_id = sid, bs_ciphertext = ct, bs_mac = mac,
                  bs_ephemeral = eph\<rparr>
        | _ \<Rightarrow> None)) sessions"

definition parse_backup :: "'v serde \<Rightarrow> ustr \<Rightarrow> backup_session list" where
  "parse_backup j body =
     concat (map (\<lambda>(rid, room). backup_entries j rid (or_empty (obj_field j (Some room) ''sessions'')))
       (or_empty (obj_field j (from_str j body) ''rooms'')))"

record room_key =
  rk_room_id :: ustr
  rk_session_id :: ustr
  rk_session_key :: ustr

definition parse_room_key :: "'v serde \<Rightarrow> ustr \<Rightarrow> room_key option" where
  "parse_room_key j plain =
     Option.bind (from_str j plain) (\<lambda>v.
     Option.bind (str_field j (Some v) ''type'') (\<lambda>ty.
       if ty \<noteq> lit ''m.room_key'' then None
       else
         Option.bind (field j (Some v) ''content'') (\<lambda>content.
         Option.bind (str_field j (Some content) ''algorithm'') (\<lambda>alg.
           if alg \<noteq> lit ''m.megolm.v1.aes-sha2'' then None
           else
             (case (str_field j (Some content) ''room_id'', str_field j (Some content) ''session_id'',
                    str_field j (Some content) ''session_key'') of
                (Some r, Some s, Some k) \<Rightarrow>
                  Some \<lparr>rk_room_id = r, rk_session_id = s, rk_session_key = k\<rparr>
              | _ \<Rightarrow> None)))))"

end
