(* ===== verification/Matrix_Json_Laws.thy ===== *)
theory Matrix_Json_Laws
  imports Matrix_Json Http
begin

text \<open>
  Laws of the Matrix JSON layer: escaped text reads back through a JSON string reader, encoded
  URL segments decode, and the membership scan of a room agrees with the last membership event
  of each user.
\<close>

section \<open>A reader of JSON string literals\<close>

definition hex_digit_val :: "nat \<Rightarrow> nat option" where
  "hex_digit_val c =
    (if 48 \<le> c \<and> c \<le> 57 then Some (c - 48)
     else if 97 \<le> c \<and> c \<le> 102 then Some (c - 87)
     else if 65 \<le> c \<and> c \<le> 70 then Some (c - 55) else None)"

definition hex4 :: "nat \<Rightarrow> nat \<Rightarrow> nat \<Rightarrow> nat \<Rightarrow> nat option" where
  "hex4 a b c d =
    (case (hex_digit_val a, hex_digit_val b, hex_digit_val c, hex_digit_val d) of
       (Some a, Some b, Some c, Some d) \<Rightarrow> Some (((a * 16 + b) * 16 + c) * 16 + d)
     | _ \<Rightarrow> None)"

definition simple_escape :: "nat \<Rightarrow> nat option" where
  "simple_escape e =
    (if e \<in> {34, 92, 47} then Some e
     else if e = 98 then Some 8 else if e = 102 then Some 12 else if e = 110 then Some 10
     else if e = 114 then Some 13 else if e = 116 then Some 9 else None)"

text \<open>From after the opening quote: the text up to the closing quote and what follows it. Raw
  control characters are errors, as the JSON grammar requires; surrogate escapes are not read.\<close>

fun read_string :: "ustr \<Rightarrow> (ustr \<times> ustr) option" where
  "read_string [] = None"
| "read_string (c # s) =
    (if c = 34 then Some ([], s)
     else if c = 92 then
       (case s of
          [] \<Rightarrow> None
        | e # r \<Rightarrow>
          if e = 117 then
            (case r of
               h1 # h2 # h3 # h4 # r' \<Rightarrow>
                 (case hex4 h1 h2 h3 h4 of
                    Some v \<Rightarrow> if scalar v then map_option (\<lambda>(t, q). (v # t, q)) (read_string r') else None
                  | None \<Rightarrow> None)
             | _ \<Rightarrow> None)
          else
            (case simple_escape e of
               Some v \<Rightarrow> map_option (\<lambda>(t, q). (v # t, q)) (read_string r)
             | None \<Rightarrow> None))
     else if c < 32 then None
     else map_option (\<lambda>(t, q). (c # t, q)) (read_string s))"

lemma hex_from_digit: "k < 16 \<Longrightarrow> hex_digit_val (from_digit k) = Some k"
  by (auto simp: hex_digit_val_def from_digit_def)

lemma read_escape_char:
  "read_string (escape_char c @ s) = map_option (\<lambda>(t, q). (c # t, q)) (read_string s)"
proof (cases "c < 32 \<and> c \<notin> {9, 10, 13}")
  case True
  then have e: "escape_char c = [92, 117, from_digit (c div 4096 mod 16), from_digit (c div 256 mod 16),
      from_digit (c div 16 mod 16), from_digit (c mod 16)]"
    by (auto simp: escape_char_def)
  have "hex4 (from_digit (c div 4096 mod 16)) (from_digit (c div 256 mod 16))
      (from_digit (c div 16 mod 16)) (from_digit (c mod 16)) = Some c"
  proof -
    have "c div 4096 mod 16 = 0" "c div 256 mod 16 = 0" "c div 16 mod 16 * 16 + c mod 16 = c"
    proof -
      have "c div 16 < 16" using True by linarith
      then have "c div 16 mod 16 = c div 16" by (rule mod_less)
      then show "c div 16 mod 16 * 16 + c mod 16 = c" by (simp only: div_mult_mod_eq)
    qed (use True in simp_all)
    then show ?thesis by (simp add: hex4_def hex_from_digit)
  qed
  moreover have "scalar c" using True by (simp add: scalar_def)
  ultimately show ?thesis unfolding e by simp
next
  case False
  then consider "c = 34" | "c = 92" | "c = 10" | "c = 13" | "c = 9"
    | "32 \<le> c" "c \<noteq> 34" "c \<noteq> 92" by force
  then show ?thesis by cases (simp_all add: escape_char_def simple_escape_def)
qed

lemma read_json_escape: "read_string (json_escape s @ 34 # rest) = Some (s, rest)"
proof (induction s)
  case (Cons c s)
  have "json_escape (c # s) @ 34 # rest = escape_char c @ (json_escape s @ 34 # rest)"
    by (simp add: json_escape_def)
  then show ?case using Cons by (simp only: read_escape_char) simp
qed (simp add: json_escape_def)

section \<open>URL segments\<close>

lemma upper_digit_eq: "unat b < 16 \<Longrightarrow> upper_digit b = (if unat b < 10 then 48 + unat b else 55 + unat b)"
  by (simp add: upper_digit_def from_digit_def to_ascii_uppercase_def)

lemma nibbles: "unat (drop_bit 4 b :: u8) < 16" "unat (b AND 0xf :: u8) < 16"
proof -
  have "unat b < 256" by (rule order_less_le_trans [OF unsigned_less]) simp
  moreover have "unat (drop_bit 4 b) = unat b div 16"
  proof -
    have "unat (drop_bit 4 b) = drop_bit 4 (unat b)" using \<open>unat b < 256\<close> by (simp only: unsigned_drop_bit_eq) (simp add: take_bit_nat_eq_self)
    then show ?thesis by (simp only: drop_bit_eq_div) simp
  qed
  ultimately show "unat (drop_bit 4 b) < 16" by simp
  have "(b AND 0xf) = take_bit 4 b" by (simp add: take_bit_eq_mask mask_eq_exp_minus_1)
  then have "unat (b AND 0xf) = take_bit 4 (unat b)" by (simp only: unsigned_take_bit_eq)
  moreover have "take_bit 4 (unat b) < 16" by (simp only: take_bit_eq_mod) simp
  ultimately show "unat (b AND 0xf) < 16" by simp
qed

lemma nibbles_join: "push_bit 4 (drop_bit 4 b) OR (b AND 0xf) = (b :: u8)"
proof -
  have "(b AND 0xf) = take_bit 4 b" by (simp add: take_bit_eq_mask mask_eq_exp_minus_1)
  then have "bit (push_bit 4 (drop_bit 4 b) OR (b AND 0xf)) n = bit b n" for n
    by (auto simp: bit_simps dest: bit_imp_le_length)
  then show ?thesis by (simp add: bit_eq_iff)
qed

lemma hex_val_digit:
  assumes "k < 16"
  shows "hex_val (of_nat (if k < 10 then 48 + k else 55 + k)) = Some (of_nat k)"
proof -
  have u: "unat (of_nat (48 + k) :: u8) = 48 + k" "unat (of_nat (55 + k) :: u8) = 55 + k"
    using assms by (simp_all add: unat_of_nat_u8 del: of_nat_add)
  have a: "(of_nat (48 + k) :: u8) - 48 = of_nat k" "(of_nat (55 + k) :: u8) - 65 + 10 = of_nat k"
    by simp_all
  show ?thesis
    using assms u a by (simp add: hex_val_def word_le_nat_alt del: of_nat_add)
qed

lemma hex_val_upper:
  assumes "unat b < 16" shows "hex_val (of_nat (upper_digit b)) = Some b"
  using hex_val_digit [OF assms] by (simp only: upper_digit_eq [OF assms]) simp

lemma enc_byte_ascii: "list_all (\<lambda>c. c < 128) (enc_byte b)"
  using nibbles [of b] by (auto simp: enc_byte_def upper_digit_eq unreserved_def is_ascii_alphanumeric_def
      is_ascii_digit_def is_ascii_alphabetic_def)

lemma percent_bytes_plain: "b \<noteq> 37 \<Longrightarrow> percent_bytes (b # r) = b # percent_bytes r"
  by (cases "b # r" rule: percent_bytes.cases) auto

lemma percent_enc_byte: "percent_bytes (map of_nat (enc_byte b) @ r) = b # percent_bytes r"
proof (cases "unreserved b")
  case True
  then have "b \<noteq> 37" by (auto simp: unreserved_def is_ascii_alphanumeric_def is_ascii_digit_def
        is_ascii_alphabetic_def)
  then show ?thesis using True by (simp add: enc_byte_def percent_bytes_plain)
next
  case False
  then show ?thesis
    using hex_val_upper [OF nibbles(1) [of b]] hex_val_upper [OF nibbles(2) [of b]] nibbles_join [of b]
    by (simp add: enc_byte_def)
qed

lemma percent_urlencode:
  "percent_bytes (utf8_encode (urlencode s)) = utf8_encode s"
proof -
  have a: "list_all (\<lambda>c. c < 128) (urlencode s)"
    using enc_byte_ascii by (auto simp: urlencode_def list_all_iff)
  have "percent_bytes (map of_nat (concat (map enc_byte bs))) = bs" for bs
    by (induction bs) (simp_all only: list.map concat.simps map_append percent_enc_byte, simp)
  from this [of "utf8_encode s"] show ?thesis by (simp only: utf8_encode_ascii [OF a]) (simp only: urlencode_def)
qed

lemma enc_byte_chars:
  "c \<in> set (enc_byte b) \<Longrightarrow> c = 37 \<or> is_ascii_alphanumeric c \<or> c \<in> {45, 95, 46, 126}"
proof -
  have d: "is_ascii_alphanumeric (upper_digit k)" if "unat k < 16" for k
    using that by (auto simp: upper_digit_eq is_ascii_alphanumeric_def is_ascii_digit_def is_ascii_alphabetic_def)
  assume "c \<in> set (enc_byte b)"
  then show ?thesis
    using d [OF nibbles(1) [of b]] d [OF nibbles(2) [of b]]
    by (cases "unreserved b") (auto simp: enc_byte_def unreserved_def)
qed

lemma urlencode_chars:
  "c \<in> set (urlencode s) \<Longrightarrow> c = 37 \<or> is_ascii_alphanumeric c \<or> c \<in> {45, 95, 46, 126}"
  using enc_byte_chars by (fastforce simp: urlencode_def)

section \<open>Membership\<close>

text \<open>What one event says about the membership of \<open>uid\<close>: joined, gone, or nothing.\<close>

definition membership_event :: "'v serde \<Rightarrow> ustr \<Rightarrow> 'v \<Rightarrow> bool option" where
  "membership_event j uid e =
    (if str_field j (Some e) ''type'' = Some (lit ''m.room.member'')
        \<and> str_field j (Some e) ''state_key'' = Some uid then
       (let m = or_empty (str_field j (field j (Some e) ''content'') ''membership'') in
        if m = lit ''join'' then Some True
        else if m = lit ''leave'' \<or> m = lit ''ban'' then Some False else None)
     else None)"

definition last_membership :: "'v serde \<Rightarrow> ustr \<Rightarrow> 'v list \<Rightarrow> bool option" where
  "last_membership j uid es = fold (\<lambda>e acc. case membership_event j uid e of Some b \<Rightarrow> Some b | None \<Rightarrow> acc) es None"

lemma set_push_new [simp]: "set (push_new u us) = insert u (set us)"
  by (auto simp: push_new_def)

lemma distinct_push_new: "distinct us \<Longrightarrow> distinct (push_new u us)"
  by (simp add: push_new_def)

definition scan_ok :: "'v serde \<Rightarrow> 'v list \<Rightarrow> room_scan \<Rightarrow> bool" where
  "scan_ok j es rs \<longleftrightarrow> distinct (rs_members rs) \<and> distinct (rs_left rs)
    \<and> [] \<notin> set (rs_members rs) \<union> set (rs_left rs)
    \<and> (\<forall>uid. uid \<noteq> [] \<longrightarrow> (uid \<in> set (rs_members rs) \<longleftrightarrow> last_membership j uid es = Some True)
        \<and> (uid \<in> set (rs_left rs) \<longleftrightarrow> last_membership j uid es = Some False))"

lemma scan_event_none:
  assumes "\<And>uid. uid \<noteq> [] \<Longrightarrow> membership_event j uid e = None"
  shows "rs_members (scan_event j e rs) = rs_members rs" "rs_left (scan_event j e rs) = rs_left rs"
proof -
  have "rs_members (scan_event j e rs) = rs_members rs \<and> rs_left (scan_event j e rs) = rs_left rs"
  proof (cases "str_field j (Some e) ''state_key''")
    case None
    then show ?thesis by (simp add: scan_event_def Let_def)
  next
    case (Some u)
    then show ?thesis
      using assms [of u] by (cases "u = []") (auto simp: scan_event_def membership_event_def Let_def split: if_splits)
  qed
  then show "rs_members (scan_event j e rs) = rs_members rs" "rs_left (scan_event j e rs) = rs_left rs"
    by simp_all
qed

lemma scan_event_some:
  assumes "membership_event j uid e = Some b" and "uid \<noteq> []"
  shows "rs_members (scan_event j e rs) =
      (if b then push_new uid (rs_members rs) else filter (\<lambda>m. m \<noteq> uid) (rs_members rs))"
    and "rs_left (scan_event j e rs) =
      (if b then filter (\<lambda>m. m \<noteq> uid) (rs_left rs) else push_new uid (rs_left rs))"
  using assms
  by (auto simp: scan_event_def membership_event_def Let_def split: if_splits)

lemma membership_event_key:
  "membership_event j uid e = Some b \<Longrightarrow> str_field j (Some e) ''state_key'' = Some uid"
  by (auto simp: membership_event_def split: if_splits)

lemma last_membership_snoc:
  "last_membership j uid (es @ [e])
    = (case membership_event j uid e of Some b \<Rightarrow> Some b | None \<Rightarrow> last_membership j uid es)"
  by (simp add: last_membership_def split: option.split)

lemma scan_ok_step:
  assumes "scan_ok j es rs" shows "scan_ok j (es @ [e]) (scan_event j e rs)"
proof (cases "\<exists>uid b. uid \<noteq> [] \<and> membership_event j uid e = Some b")
  case True
  then obtain uid b where u: "uid \<noteq> []" "membership_event j uid e = Some b" by blast
  have o: "membership_event j v e = None" if "v \<noteq> uid" for v
    using that membership_event_key [OF u(2)] membership_event_key [of j v e]
    by (cases "membership_event j v e") auto
  have l: "last_membership j v (es @ [e]) = (if v = uid then Some b else last_membership j v es)" for v
    using u(2) o by (simp add: last_membership_snoc)
  note f = scan_event_some [OF u(2,1), of rs]
  show ?thesis
    unfolding scan_ok_def f l
    using assms u(1) by (cases b) (simp_all add: scan_ok_def distinct_push_new)
next
  case False
  then have n: "membership_event j uid e = None" if "uid \<noteq> []" for uid using that by auto
  have "rs_members (scan_event j e rs) = rs_members rs" by (rule scan_event_none(1), rule n)
  moreover have "rs_left (scan_event j e rs) = rs_left rs" by (rule scan_event_none(2), rule n)
  ultimately show ?thesis using assms n by (simp add: scan_ok_def last_membership_snoc)
qed

lemma scan_events_ok: "scan_ok j es (scan_events j es)"
proof (induction es rule: rev_induct)
  case Nil
  show ?case by (simp add: scan_ok_def scan_events_def last_membership_def)
next
  case (snoc e es)
  then show ?case using scan_ok_step by (simp add: scan_events_def)
qed

end
