(* ===== verification/Sdk_Store.thy ===== *)
theory Sdk_Store
  imports Sdk
begin

text \<open>
  Persistent storage and the cryptographic calls as the SDK wraps them (\<open>nvs.rs\<close>, \<open>rmem.rs\<close>,
  \<open>random.rs\<close> and \<open>crypto.rs\<close> of \<open>sdk/cdc-badge-plugin/src\<close>): the fields of
  \<open>'w store_host\<close>, where \<open>'w\<close> is the firmware's storage.

  The locale \<open>storage\<close> is the contract the plugins rely on: a successful write is read back, a
  successful erase removes the key, a failed call changes nothing, and no call touches another key
  or the other store. \<open>text_store\<close> adds the laws of string values.
\<close>

section \<open>Interface\<close>

record 'w store_host =
  nvs_get_str :: "string \<Rightarrow> nat \<Rightarrow> 'w \<Rightarrow> ustr option"
  nvs_set_str :: "string \<Rightarrow> ustr \<Rightarrow> 'w \<Rightarrow> unit sdk_result \<times> 'w"
  nvs_get_u32 :: "string \<Rightarrow> 'w \<Rightarrow> u32 option"
  nvs_set_u32 :: "string \<Rightarrow> u32 \<Rightarrow> 'w \<Rightarrow> unit sdk_result \<times> 'w"
  nvs_get_blob :: "string \<Rightarrow> nat \<Rightarrow> 'w \<Rightarrow> u8 list option"
  nvs_set_blob :: "string \<Rightarrow> u8 list \<Rightarrow> 'w \<Rightarrow> unit sdk_result \<times> 'w"
  nvs_erase :: "string \<Rightarrow> 'w \<Rightarrow> unit sdk_result \<times> 'w"
  nvs_erase_all :: "'w \<Rightarrow> unit sdk_result \<times> 'w"
  rmem_read :: "string \<Rightarrow> nat \<Rightarrow> 'w \<Rightarrow> u8 list sdk_result"
  rmem_write :: "string \<Rightarrow> u8 list \<Rightarrow> 'w \<Rightarrow> unit sdk_result \<times> 'w"
  rmem_erase :: "string \<Rightarrow> 'w \<Rightarrow> unit sdk_result \<times> 'w"
  random_fill :: "nat \<Rightarrow> 'w \<Rightarrow> u8 list sdk_result \<times> 'w"
  sha256 :: "u8 list \<Rightarrow> u8 list sdk_result"
  aes_gcm_encrypt :: "u8 list \<Rightarrow> u8 list \<Rightarrow> u8 list \<Rightarrow> u8 list \<Rightarrow> (u8 list \<times> u8 list) sdk_result"
  aes_gcm_decrypt :: "u8 list \<Rightarrow> u8 list \<Rightarrow> u8 list \<Rightarrow> u8 list \<Rightarrow> u8 list \<Rightarrow> u8 list sdk_result"

section \<open>Contract\<close>

text \<open>Two storages that read alike: everywhere in the slots, and in NVS except at the keys \<open>ks\<close>.\<close>

definition same_slots :: "'w store_host \<Rightarrow> 'w \<Rightarrow> 'w \<Rightarrow> bool" where
  "same_slots h w w' \<longleftrightarrow> (\<forall>s c. rmem_read h s c w' = rmem_read h s c w)"

definition same_nvs :: "'w store_host \<Rightarrow> string set \<Rightarrow> 'w \<Rightarrow> 'w \<Rightarrow> bool" where
  "same_nvs h ks w w' \<longleftrightarrow> (\<forall>k c. k \<notin> ks \<longrightarrow>
     nvs_get_str h k c w' = nvs_get_str h k c w \<and> nvs_get_blob h k c w' = nvs_get_blob h k c w
     \<and> nvs_get_u32 h k w' = nvs_get_u32 h k w)"

lemma same_slots_read: "same_slots h w w' \<Longrightarrow> rmem_read h s c w' = rmem_read h s c w"
  by (simp add: same_slots_def)

lemma same_nvs_get:
  assumes "same_nvs h ks w w'" and "k \<notin> ks"
  shows "nvs_get_str h k c w' = nvs_get_str h k c w" "nvs_get_blob h k c w' = nvs_get_blob h k c w"
    "nvs_get_u32 h k w' = nvs_get_u32 h k w"
  using assms by (auto simp: same_nvs_def)

lemma same_slots_trans: "same_slots h a b \<Longrightarrow> same_slots h b c \<Longrightarrow> same_slots h a c"
  by (simp add: same_slots_def)

lemma same_nvs_trans: "same_nvs h ks a b \<Longrightarrow> same_nvs h ls b c \<Longrightarrow> same_nvs h (ks \<union> ls) a c"
  by (simp add: same_nvs_def)

locale storage =
  fixes h :: "'w store_host"
  assumes rmem_write_ok: "rmem_write h slot bs w = (Inr u, w') \<Longrightarrow> length bs \<le> c \<Longrightarrow> rmem_read h slot c w' = Inr bs"
    and rmem_write_nvs: "rmem_write h slot bs w = (r, w') \<Longrightarrow> same_nvs h {} w w'"
    and rmem_write_fail: "rmem_write h slot bs w = (Inl e, w') \<Longrightarrow> same_slots h w w'"
    and erase_ok: "nvs_erase h k w = (Inr u, w') \<Longrightarrow> nvs_get_str h k c w' = None \<and> nvs_get_blob h k c w' = None"
    and erase_slots: "nvs_erase h k w = (r, w') \<Longrightarrow> same_slots h w w'"
    and erase_others: "nvs_erase h k w = (r, w') \<Longrightarrow> same_nvs h {k} w w'"
    and set_blob_ok: "nvs_set_blob h k bs w = (Inr u, w') \<Longrightarrow>
      nvs_get_blob h k c w' = (if length bs \<le> c then Some bs else None)"
    and set_blob_frame: "nvs_set_blob h k bs w = (r, w') \<Longrightarrow> same_slots h w w' \<and> same_nvs h {k} w w'"
    and set_u32_ok: "nvs_set_u32 h k v w = (Inr u, w') \<Longrightarrow> nvs_get_u32 h k w' = Some v"
    and set_u32_frame: "nvs_set_u32 h k v w = (r, w') \<Longrightarrow> same_slots h w w' \<and> same_nvs h {k} w w'"
    and get_str_bound: "nvs_get_str h k c w = Some s \<Longrightarrow> length (utf8_encode s) \<le> c \<and> valid_ustr s"
    and random_frame: "random_fill h n w = (rnd, w') \<Longrightarrow> same_slots h w w' \<and> same_nvs h {} w w'"
    and random_length: "random_fill h n w = (Inr bs, w') \<Longrightarrow> length bs = n"
begin

lemma erase_any: "snd (nvs_erase h k w) = w' \<Longrightarrow> same_slots h w w' \<and> same_nvs h {k} w w'"
  using erase_slots erase_others by (cases "nvs_erase h k w") auto

end

text \<open>String values: a string that was stored is read back where it fits.\<close>

locale text_store = storage +
  assumes set_str_ok: "nvs_set_str h k s w = (Inr u, w') \<Longrightarrow> valid_ustr s \<Longrightarrow> length (utf8_encode s) \<le> c \<Longrightarrow>
      nvs_get_str h k c w' = Some s"
    and set_str_frame: "nvs_set_str h k s w = (r, w') \<Longrightarrow> same_slots h w w' \<and> same_nvs h {k} w w'"
    and set_str_fail: "nvs_set_str h k s w = (Inl e, w') \<Longrightarrow> same_nvs h {} w w'"
    and set_u32_fail: "nvs_set_u32 h k v w = (Inl e, w') \<Longrightarrow> same_nvs h {} w w'"
begin

lemma set_str_any: "snd (nvs_set_str h k s w) = w' \<Longrightarrow> same_slots h w w' \<and> same_nvs h {k} w w'"
  using set_str_frame by (cases "nvs_set_str h k s w") auto

end

end
