(* ===== verification/Matrix_Store.thy ===== *)
theory Matrix_Store
  imports Matrix_Json Sdk_Store
begin

text \<open>
  Persistence of the Matrix plugin (\<open>plugins/matrix/src/store.rs\<close>): settings in NVS, secrets
  in retained-memory slots, and the sealed account and session blobs.

  The host calls are those of \<open>Sdk_Store\<close>. The in-memory stand-ins of \<open>store_test_stubs.rs\<close>, under the SDK's
  wrappers, are modelled at the end as one such host.
\<close>

section \<open>Keys and limits\<close>

definition K_SRV :: string where "K_SRV = ''srv''"
definition K_USER :: string where "K_USER = ''user''"
definition K_UID :: string where "K_UID = ''uid''"
definition K_DEVICE :: string where "K_DEVICE = ''device''"
definition K_SYNCTOK :: string where "K_SYNCTOK = ''synctok''"
definition K_TOKEN_FB :: string where "K_TOKEN_FB = ''tok_fb''"
definition K_PASS_FB :: string where "K_PASS_FB = ''pass_fb''"
definition K_RECKEY_FB :: string where "K_RECKEY_FB = ''reckey_fb''"
definition R_TOKEN :: string where "R_TOKEN = ''mtx_token''"
definition R_PASS :: string where "R_PASS = ''mtx_pass''"
definition R_RECKEY :: string where "R_RECKEY = ''mtx_reckey''"
definition R_PICKLE :: string where "R_PICKLE = ''mtx_pickle''"
definition K_PICKLE_FB :: string where "K_PICKLE_FB = ''pickle_fb''"
definition K_ACCOUNT :: string where "K_ACCOUNT = ''acct''"
definition K_ACCOUNT_LEN :: string where "K_ACCOUNT_LEN = ''acct_len''"
definition K_MG_STATE :: string where "K_MG_STATE = ''mg_state''"
definition K_MG_LEN :: string where "K_MG_LEN = ''mg_len''"
definition STR_CAP :: nat where "STR_CAP = 1024"
definition PICKLE_KEY_LEN :: nat where "PICKLE_KEY_LEN = 32"
definition ACCOUNT_CAP :: nat where "ACCOUNT_CAP = 65536"
definition MG_STATE_CAP :: nat where "MG_STATE_CAP = 262144"
definition SEAL_IV_LEN :: nat where "SEAL_IV_LEN = 12"
definition SEAL_TAG_LEN :: nat where "SEAL_TAG_LEN = 16"
definition SEAL_HEADER_LEN :: nat where "SEAL_HEADER_LEN = SEAL_IV_LEN + SEAL_TAG_LEN"

section \<open>Secrets\<close>

definition secret_write :: "'w store_host \<Rightarrow> string \<Rightarrow> string \<Rightarrow> ustr \<Rightarrow> 'w \<Rightarrow> unit sdk_result \<times> 'w" where
  "secret_write h slot fallback val w =
    (case rmem_write h slot (utf8_encode val) w of
       (Inl e, w) \<Rightarrow> (Inl e, w)
     | (Inr _, w) \<Rightarrow> (Inr (), snd (nvs_erase h fallback w)))"

definition secret_read :: "'w store_host \<Rightarrow> string \<Rightarrow> string \<Rightarrow> 'w \<Rightarrow> ustr option \<times> 'w" where
  "secret_read h slot fallback w =
    (let legacy = (case nonempty (nvs_get_str h fallback STR_CAP w) of
           None \<Rightarrow> (None, w)
         | Some s \<Rightarrow>
           (case rmem_write h slot (utf8_encode s) w of
              (r, w) \<Rightarrow> (Some s, if is_ok r then snd (nvs_erase h fallback w) else w)))
     in case rmem_read h slot STR_CAP w of
          Inr bytes \<Rightarrow> if bytes \<noteq> [] then (utf8_decode bytes, w) else legacy
        | Inl _ \<Rightarrow> legacy)"

definition secret_erase :: "'w store_host \<Rightarrow> string \<Rightarrow> string \<Rightarrow> 'w \<Rightarrow> 'w" where
  "secret_erase h slot fallback w = snd (nvs_erase h fallback (snd (rmem_erase h slot w)))"

section \<open>Settings and session\<close>

definition load_config :: "'w store_host \<Rightarrow> 'w \<Rightarrow> config" where
  "load_config h w =
     \<lparr>cfg_server = or_empty (nvs_get_str h K_SRV 256 w), cfg_user = or_empty (nvs_get_str h K_USER 256 w)\<rparr>"

definition save_server :: "'w store_host \<Rightarrow> ustr \<Rightarrow> 'w \<Rightarrow> 'w" where
  "save_server h v w = snd (nvs_set_str h K_SRV v w)"

definition save_user :: "'w store_host \<Rightarrow> ustr \<Rightarrow> 'w \<Rightarrow> 'w" where
  "save_user h v w = snd (nvs_set_str h K_USER v w)"

definition save_password :: "'w store_host \<Rightarrow> ustr \<Rightarrow> 'w \<Rightarrow> unit sdk_result \<times> 'w" where
  "save_password h v w = secret_write h R_PASS K_PASS_FB v w"

definition load_password :: "'w store_host \<Rightarrow> 'w \<Rightarrow> ustr option \<times> 'w" where
  "load_password h w = secret_read h R_PASS K_PASS_FB w"

definition save_recovery_key :: "'w store_host \<Rightarrow> ustr \<Rightarrow> 'w \<Rightarrow> unit sdk_result \<times> 'w" where
  "save_recovery_key h v w = secret_write h R_RECKEY K_RECKEY_FB v w"

definition load_recovery_key :: "'w store_host \<Rightarrow> 'w \<Rightarrow> ustr option \<times> 'w" where
  "load_recovery_key h w = secret_read h R_RECKEY K_RECKEY_FB w"

definition save_login :: "'w store_host \<Rightarrow> ustr \<Rightarrow> ustr \<Rightarrow> ustr \<Rightarrow> 'w \<Rightarrow> unit sdk_result \<times> 'w" where
  "save_login h uid device tok w =
     secret_write h R_TOKEN K_TOKEN_FB tok
       (snd (nvs_set_str h K_DEVICE device (snd (nvs_set_str h K_UID uid w))))"

definition load_device_id :: "'w store_host \<Rightarrow> 'w \<Rightarrow> ustr option" where
  "load_device_id h w = nonempty (nvs_get_str h K_DEVICE 256 w)"

definition save_sync_token :: "'w store_host \<Rightarrow> ustr \<Rightarrow> 'w \<Rightarrow> 'w" where
  "save_sync_token h v w = snd (nvs_set_str h K_SYNCTOK v w)"

definition load_session :: "'w store_host \<Rightarrow> 'w \<Rightarrow> session option \<times> 'w" where
  "load_session h w =
    (case nonempty (nvs_get_str h K_SRV 256 w) of
       None \<Rightarrow> (None, w)
     | Some url \<Rightarrow>
       (case secret_read h R_TOKEN K_TOKEN_FB w of
          (None, w) \<Rightarrow> (None, w)
        | (Some tok, w) \<Rightarrow>
          (Some \<lparr>base_url = url, token = tok, user_id = or_empty (nvs_get_str h K_UID 256 w),
                 device_id = or_empty (load_device_id h w),
                 next_batch = or_empty (nvs_get_str h K_SYNCTOK 256 w)\<rparr>, w)))"

definition reset_all :: "'w store_host \<Rightarrow> 'w \<Rightarrow> 'w" where
  "reset_all h w =
    (let w = secret_erase h R_TOKEN K_TOKEN_FB w;
         w = secret_erase h R_PASS K_PASS_FB w;
         w = secret_erase h R_RECKEY K_RECKEY_FB w;
         w = snd (rmem_erase h R_PICKLE w)
     in snd (nvs_erase_all h w))"

section \<open>The sealing key\<close>

definition key_from :: "u8 list \<Rightarrow> u8 list option" where
  "key_from bs = (if length bs \<noteq> PICKLE_KEY_LEN then None else Some bs)"

definition mint_key :: "'w store_host \<Rightarrow> 'w \<Rightarrow> u8 list option \<times> 'w" where
  "mint_key h w =
    (case random_fill h PICKLE_KEY_LEN w of
       (Inl _, w) \<Rightarrow> (None, w)
     | (Inr k, w) \<Rightarrow>
       (case rmem_write h R_PICKLE k w of
          (Inl _, w) \<Rightarrow> (None, w)
        | (Inr _, w) \<Rightarrow> (Some k, w)))"

definition pickle_key :: "'w store_host \<Rightarrow> 'w \<Rightarrow> u8 list option \<times> 'w" where
  "pickle_key h w =
    (case rmem_read h R_PICKLE PICKLE_KEY_LEN w of
       Inr bs \<Rightarrow>
         (case key_from bs of
            Some k \<Rightarrow> (Some k, snd (nvs_erase h K_PICKLE_FB w))
          | None \<Rightarrow> (None, w))
     | Inl e \<Rightarrow>
         if e \<noteq> NotFound then (None, w)
         else
           (case Option.bind (nvs_get_blob h K_PICKLE_FB PICKLE_KEY_LEN w) key_from of
              Some k \<Rightarrow>
                (case rmem_write h R_PICKLE k w of
                   (r, w) \<Rightarrow> (Some k, if is_ok r then snd (nvs_erase h K_PICKLE_FB w) else w))
            | None \<Rightarrow> mint_key h w))"

section \<open>Sealed blobs\<close>

definition seal :: "'w store_host \<Rightarrow> u8 list \<Rightarrow> 'w \<Rightarrow> u8 list option \<times> 'w" where
  "seal h plain w =
    (case pickle_key h w of
       (None, w) \<Rightarrow> (None, w)
     | (Some pk, w) \<Rightarrow>
       (case sha256 h pk of
          Inl _ \<Rightarrow> (None, w)
        | Inr key \<Rightarrow>
          (case random_fill h SEAL_IV_LEN w of
             (Inl _, w) \<Rightarrow> (None, w)
           | (Inr iv, w) \<Rightarrow>
             (case aes_gcm_encrypt h key iv [] plain of
                Inl _ \<Rightarrow> (None, w)
              | Inr (ct, tag) \<Rightarrow> (Some (iv @ tag @ ct), w)))))"

definition unseal :: "'w store_host \<Rightarrow> u8 list \<Rightarrow> 'w \<Rightarrow> u8 list option \<times> 'w" where
  "unseal h data w =
    (if length data < SEAL_HEADER_LEN then (None, w)
     else
       (case pickle_key h w of
          (None, w) \<Rightarrow> (None, w)
        | (Some pk, w) \<Rightarrow>
          (case sha256 h pk of
             Inl _ \<Rightarrow> (None, w)
           | Inr key \<Rightarrow>
             (ok (aes_gcm_decrypt h key (take SEAL_IV_LEN data) [] (drop SEAL_HEADER_LEN data)
                    (take (SEAL_HEADER_LEN - SEAL_IV_LEN) (drop SEAL_IV_LEN data))), w))))"

definition set_sized_blob :: "'w store_host \<Rightarrow> string \<Rightarrow> string \<Rightarrow> u8 list \<Rightarrow> 'w \<Rightarrow> unit sdk_result \<times> 'w" where
  "set_sized_blob h key len_key val w =
    (case nvs_set_blob h key val w of
       (Inl e, w) \<Rightarrow> (Inl e, w)
     | (Inr _, w) \<Rightarrow> nvs_set_u32 h len_key (of_nat (length val)) w)"

definition get_sized_blob :: "'w store_host \<Rightarrow> string \<Rightarrow> string \<Rightarrow> nat \<Rightarrow> 'w \<Rightarrow> u8 list option" where
  "get_sized_blob h key len_key legacy_cap w =
     nvs_get_blob h key (case nvs_get_u32 h len_key w of Some n \<Rightarrow> unat n | None \<Rightarrow> legacy_cap) w"

definition save_account :: "'w store_host \<Rightarrow> u8 list \<Rightarrow> 'w \<Rightarrow> bool \<times> 'w" where
  "save_account h pickle w =
    (case seal h pickle w of
       (None, w) \<Rightarrow> (False, w)
     | (Some sealed, w) \<Rightarrow>
       (case set_sized_blob h K_ACCOUNT K_ACCOUNT_LEN sealed w of (r, w) \<Rightarrow> (is_ok r, w)))"

definition load_account :: "'w store_host \<Rightarrow> 'w \<Rightarrow> u8 list option \<times> 'w" where
  "load_account h w =
    (case get_sized_blob h K_ACCOUNT K_ACCOUNT_LEN ACCOUNT_CAP w of
       None \<Rightarrow> (None, w)
     | Some sealed \<Rightarrow> unseal h sealed w)"

definition has_account :: "'w store_host \<Rightarrow> 'w \<Rightarrow> bool" where
  "has_account h w \<longleftrightarrow>
     nvs_get_u32 h K_ACCOUNT_LEN w \<noteq> None \<or> nvs_get_blob h K_ACCOUNT ACCOUNT_CAP w \<noteq> None"

definition save_crypto_state :: "'w store_host \<Rightarrow> u8 list \<Rightarrow> 'w \<Rightarrow> 'w" where
  "save_crypto_state h state w =
    (case seal h state w of
       (None, w) \<Rightarrow> w
     | (Some sealed, w) \<Rightarrow> snd (set_sized_blob h K_MG_STATE K_MG_LEN sealed w))"

definition load_crypto_state :: "'w store_host \<Rightarrow> 'w \<Rightarrow> u8 list option \<times> 'w" where
  "load_crypto_state h w =
    (case get_sized_blob h K_MG_STATE K_MG_LEN MG_STATE_CAP w of
       None \<Rightarrow> (None, w)
     | Some sealed \<Rightarrow> unseal h sealed w)"

section \<open>The stand-in storage\<close>

text \<open>\<open>store_test_stubs.rs\<close> under the SDK wrappers: two maps from keys to bytes.\<close>

record stub =
  stub_nvs :: "string \<rightharpoonup> u8 list"
  stub_rmem :: "string \<rightharpoonup> u8 list"

definition RMEM_SLOT_LEN :: nat where "RMEM_SLOT_LEN = 1024"
definition RMEM_NAME_MAX :: nat where "RMEM_NAME_MAX = 15"

definition copy_out :: "u8 list \<Rightarrow> nat \<Rightarrow> u8 list sdk_result" where
  "copy_out src cap = (if length src > cap then Inl Generic else Inr src)"

definition stub_get_blob :: "string \<Rightarrow> nat \<Rightarrow> stub \<Rightarrow> u8 list option" where
  "stub_get_blob k cap w = (case stub_nvs w k of Some v \<Rightarrow> ok (copy_out v cap) | None \<Rightarrow> None)"

definition stub_set_blob :: "string \<Rightarrow> u8 list \<Rightarrow> stub \<Rightarrow> unit sdk_result \<times> stub" where
  "stub_set_blob k v w = (Inr (), w\<lparr>stub_nvs := (stub_nvs w)(k \<mapsto> v)\<rparr>)"

definition stub_get_str :: "string \<Rightarrow> nat \<Rightarrow> stub \<Rightarrow> ustr option" where
  "stub_get_str k max_len w =
    (case stub_nvs w k of
       Some v \<Rightarrow> if length v < max_len + 1 then utf8_decode (takeWhile (\<lambda>b. b \<noteq> 0) v) else None
     | None \<Rightarrow> None)"

definition stub_set_str :: "string \<Rightarrow> ustr \<Rightarrow> stub \<Rightarrow> unit sdk_result \<times> stub" where
  "stub_set_str k v w =
    (if 0 \<in> set v then (Inl InvalidArg, w)
     else (Inr (), w\<lparr>stub_nvs := (stub_nvs w)(k \<mapsto> utf8_encode v)\<rparr>))"

definition stub_get_u32 :: "string \<Rightarrow> stub \<Rightarrow> u32 option" where
  "stub_get_u32 k w =
    (case stub_nvs w k of
       Some v \<Rightarrow> (case v of [a, b, c, d] \<Rightarrow> Some (from_le32 a b c d) | _ \<Rightarrow> None)
     | None \<Rightarrow> None)"

definition stub_set_u32 :: "string \<Rightarrow> u32 \<Rightarrow> stub \<Rightarrow> unit sdk_result \<times> stub" where
  "stub_set_u32 k v w = (Inr (), w\<lparr>stub_nvs := (stub_nvs w)(k \<mapsto> to_le32 v)\<rparr>)"

definition stub_erase :: "string \<Rightarrow> stub \<Rightarrow> unit sdk_result \<times> stub" where
  "stub_erase k w = (Inr (), w\<lparr>stub_nvs := (stub_nvs w)(k := None)\<rparr>)"

definition stub_erase_all :: "stub \<Rightarrow> unit sdk_result \<times> stub" where
  "stub_erase_all w = (Inr (), w\<lparr>stub_nvs := Map.empty\<rparr>)"

text \<open>The name check of \<open>rmem.rs\<close>.\<close>

definition slot_name_ok :: "string \<Rightarrow> bool" where
  "slot_name_ok name \<longleftrightarrow> name \<noteq> [] \<and> length name \<le> RMEM_NAME_MAX"

definition stub_rmem_read :: "string \<Rightarrow> nat \<Rightarrow> stub \<Rightarrow> u8 list sdk_result" where
  "stub_rmem_read name cap w =
    (if \<not> slot_name_ok name then Inl InvalidArg
     else case stub_rmem w name of Some v \<Rightarrow> copy_out v cap | None \<Rightarrow> Inl NotFound)"

definition stub_rmem_write :: "string \<Rightarrow> u8 list \<Rightarrow> stub \<Rightarrow> unit sdk_result \<times> stub" where
  "stub_rmem_write name v w =
    (if \<not> slot_name_ok name then (Inl InvalidArg, w)
     else if length v > RMEM_SLOT_LEN then (Inl Generic, w)
     else (Inr (), w\<lparr>stub_rmem := (stub_rmem w)(name \<mapsto> v)\<rparr>))"

definition stub_rmem_erase :: "string \<Rightarrow> stub \<Rightarrow> unit sdk_result \<times> stub" where
  "stub_rmem_erase name w =
    (if \<not> slot_name_ok name then (Inl InvalidArg, w)
     else (Inr (), w\<lparr>stub_rmem := (stub_rmem w)(name := None)\<rparr>))"

text \<open>The generator of \<open>host_random\<close>, restarted on every call.\<close>

fun stub_random_bytes :: "u32 \<Rightarrow> nat \<Rightarrow> u8 list" where
  "stub_random_bytes x 0 = []"
| "stub_random_bytes x (Suc n) =
    (let x = x XOR push_bit 13 x;
         x = x XOR drop_bit 17 x;
         x = x XOR push_bit 5 x
     in ucast x # stub_random_bytes x n)"

definition stub_random :: "nat \<Rightarrow> stub \<Rightarrow> u8 list sdk_result \<times> stub" where
  "stub_random n w = (Inr (stub_random_bytes 0x9e3779b9 n), w)"

text \<open>The stub host, with the digest and the cipher as parameters.\<close>

definition stub_host ::
  "(u8 list \<Rightarrow> u8 list sdk_result) \<Rightarrow> (u8 list \<Rightarrow> u8 list \<Rightarrow> u8 list \<Rightarrow> u8 list \<Rightarrow> (u8 list \<times> u8 list) sdk_result)
   \<Rightarrow> (u8 list \<Rightarrow> u8 list \<Rightarrow> u8 list \<Rightarrow> u8 list \<Rightarrow> u8 list \<Rightarrow> u8 list sdk_result) \<Rightarrow> stub store_host" where
  "stub_host sha enc dec =
    \<lparr>nvs_get_str = stub_get_str, nvs_set_str = stub_set_str, nvs_get_u32 = stub_get_u32,
     nvs_set_u32 = stub_set_u32, nvs_get_blob = stub_get_blob, nvs_set_blob = stub_set_blob,
     nvs_erase = stub_erase, nvs_erase_all = stub_erase_all, rmem_read = stub_rmem_read,
     rmem_write = stub_rmem_write, rmem_erase = stub_rmem_erase, random_fill = stub_random,
     sha256 = sha, aes_gcm_encrypt = enc, aes_gcm_decrypt = dec\<rparr>"

end
