(* ===== verification/Matrix_Store_Laws.thy ===== *)
theory Matrix_Store_Laws
  imports Matrix_Store
begin

text \<open>
  The laws of the plugin's persistence, proved from the contract \<open>storage\<close> of the SDK's
  storage, and the proof that the stub host satisfies it and its extension \<open>text_store\<close>.
\<close>

context storage
begin

text \<open>A stored secret is in its slot, and reads back.\<close>

lemma secret_write_slot:
  assumes "secret_write h slot fb v w = (Inr u, w')" and "length (utf8_encode v) \<le> c"
  shows "rmem_read h slot c w' = Inr (utf8_encode v)"
proof -
  obtain w1 u1 where a: "rmem_write h slot (utf8_encode v) w = (Inr u1, w1)" "w' = snd (nvs_erase h fb w1)"
    using assms(1) by (auto simp: secret_write_def split: prod.splits sum.splits)
  then show ?thesis
    using rmem_write_ok [OF a(1) assms(2)] same_slots_read erase_any [of fb w1] by metis
qed

lemma secret_read_back:
  assumes "secret_write h slot fb v w = (Inr u, w')" and "valid_ustr v" and "v \<noteq> []"
    and "length (utf8_encode v) \<le> STR_CAP"
  shows "secret_read h slot fb w' = (Some v, w')"
proof -
  have "utf8_encode v \<noteq> []" using assms(3) by (cases v) (simp_all add: utf8_char_def)
  then show ?thesis
    using secret_write_slot [OF assms(1,4)] utf8_decode_encode [OF assms(2)]
    by (simp add: secret_read_def Let_def)
qed

text \<open>A secret write adds nothing to NVS: at most the legacy key disappears.\<close>

lemma secret_write_nvs:
  assumes "secret_write h slot fb v w = (r, w')"
  shows "same_nvs h {fb} w w' \<and> (\<forall>e. r = Inl e \<longrightarrow> same_nvs h {} w w')"
proof -
  obtain r1 w1 where a: "rmem_write h slot (utf8_encode v) w = (r1, w1)" by fastforce
  have n: "same_nvs h {} w w1" by (rule rmem_write_nvs [OF a])
  then show ?thesis
    using assms a erase_any [of fb w1] same_nvs_trans [OF n, of "{fb}" "snd (nvs_erase h fb w1)"]
    by (cases r1) (auto simp: secret_write_def same_nvs_def)
qed

text \<open>Reading a secret twice gives the same value.\<close>

lemma secret_read_stable:
  assumes "secret_read h slot fb w = (Some v, w')"
  shows "fst (secret_read h slot fb w') = Some v"
proof (cases "\<exists>bs. rmem_read h slot STR_CAP w = Inr bs \<and> bs \<noteq> []")
  case True
  then have "w' = w" using assms by (auto simp: secret_read_def Let_def)
  then show ?thesis using assms by simp
next
  case False
  let ?leg = "nonempty (nvs_get_str h fb STR_CAP w)"
  obtain s r w1 where s: "nvs_get_str h fb STR_CAP w = Some s" "s \<noteq> []"
    and rw: "rmem_write h slot (utf8_encode s) w = (r, w1)"
    and v: "v = s" "w' = (if is_ok r then snd (nvs_erase h fb w1) else w1)"
    using assms False
    by (cases "nvs_get_str h fb STR_CAP w"; cases "rmem_read h slot STR_CAP w")
      (auto simp: secret_read_def Let_def split: prod.splits if_splits)
  note b = get_str_bound [OF s(1)]
  have ne: "utf8_encode s \<noteq> []" using s(2) by (cases s) (simp_all add: utf8_char_def)
  show ?thesis
  proof (cases r)
    case (Inr u)
    have "rmem_read h slot STR_CAP w' = Inr (utf8_encode s)"
      using rmem_write_ok [OF rw [unfolded Inr]] b v(2) Inr erase_any [of fb w1] same_slots_read by (metis sum.case(2))
    then show ?thesis using ne utf8_decode_encode b v(1) by (simp add: secret_read_def)
  next
    case (Inl e)
    then have w: "w' = w1" using v(2) by simp
    have "same_slots h w w1" "same_nvs h {} w w1"
      using rmem_write_fail rw rmem_write_nvs Inl by auto
    then have "rmem_read h slot STR_CAP w' = rmem_read h slot STR_CAP w"
      "nvs_get_str h fb STR_CAP w' = Some s"
      using same_slots_read same_nvs_get(1) s(1) w by fastforce+
    then show ?thesis
      using False s(2) v(1)
      by (cases "rmem_read h slot STR_CAP w") (auto simp: secret_read_def Let_def split: prod.split)
  qed
qed

text \<open>The sealing key never changes once it was given out.\<close>

lemma pickle_key_slots:
  assumes "pickle_key h w = (Some k, w')"
  shows "length k = PICKLE_KEY_LEN \<and> (rmem_read h R_PICKLE PICKLE_KEY_LEN w' = Inr k
    \<or> rmem_read h R_PICKLE PICKLE_KEY_LEN w' = Inl NotFound
      \<and> nvs_get_blob h K_PICKLE_FB PICKLE_KEY_LEN w' = Some k)"
proof (cases "rmem_read h R_PICKLE PICKLE_KEY_LEN w")
  case (Inr bs)
  then have "bs = k" "w' = snd (nvs_erase h K_PICKLE_FB w)" "length k = PICKLE_KEY_LEN"
    using assms by (auto simp: pickle_key_def key_from_def split: if_splits)
  then show ?thesis using Inr erase_any [of K_PICKLE_FB w] same_slots_read by metis
next
  case (Inl e)
  then have e: "e = NotFound" using assms by (auto simp: pickle_key_def split: if_splits)
  show ?thesis
  proof (cases "Option.bind (nvs_get_blob h K_PICKLE_FB PICKLE_KEY_LEN w) key_from")
    case None
    then have "mint_key h w = (Some k, w')" using assms Inl e by (simp add: pickle_key_def)
    then obtain w1 u where r: "random_fill h PICKLE_KEY_LEN w = (Inr k, w1)"
      and rw: "rmem_write h R_PICKLE k w1 = (Inr u, w')"
      by (auto simp: mint_key_def split: prod.splits sum.splits)
    then show ?thesis using random_length [OF r] rmem_write_ok [OF rw] by simp
  next
    case (Some k')
    then have len: "length k' = PICKLE_KEY_LEN" and g: "nvs_get_blob h K_PICKLE_FB PICKLE_KEY_LEN w = Some k'"
      by (auto simp: key_from_def bind_eq_Some_conv split: if_splits)
    obtain r w1 where rw: "rmem_write h R_PICKLE k' w = (r, w1)" by fastforce
    have k: "k = k'" and w: "w' = (if is_ok r then snd (nvs_erase h K_PICKLE_FB w1) else w1)"
      using assms Inl e Some rw by (auto simp: pickle_key_def)
    show ?thesis
    proof (cases r)
      case (Inr u)
      have "rmem_read h R_PICKLE PICKLE_KEY_LEN w1 = Inr k"
        using rmem_write_ok [OF rw [unfolded Inr]] k len by simp
      then show ?thesis using w Inr len k erase_any [of K_PICKLE_FB w1] same_slots_read by (metis sum.case(2))
    next
      case (Inl e')
      have "same_slots h w w1" "same_nvs h {} w w1"
        using rmem_write_fail rw rmem_write_nvs Inl by auto
      then have "rmem_read h R_PICKLE PICKLE_KEY_LEN w1 = Inl NotFound"
        "nvs_get_blob h K_PICKLE_FB PICKLE_KEY_LEN w1 = Some k"
        using \<open>rmem_read h R_PICKLE PICKLE_KEY_LEN w = Inl e\<close> e g k
        by (auto simp: same_slots_def same_nvs_def)
      then show ?thesis using w Inl len k by simp
    qed
  qed
qed

lemma pickle_key_keeps:
  assumes "length k = PICKLE_KEY_LEN" and "rmem_read h R_PICKLE PICKLE_KEY_LEN w = Inr k
    \<or> rmem_read h R_PICKLE PICKLE_KEY_LEN w = Inl NotFound
      \<and> nvs_get_blob h K_PICKLE_FB PICKLE_KEY_LEN w = Some k"
  shows "fst (pickle_key h w) = Some k"
  using assms by (auto simp: pickle_key_def key_from_def split: prod.split)

lemma pickle_key_stable:
  "pickle_key h w = (Some k, w') \<Longrightarrow> same_slots h w' w'' \<Longrightarrow>
     same_nvs h (- {K_PICKLE_FB}) w' w'' \<Longrightarrow> fst (pickle_key h w'') = Some k"
  using pickle_key_slots [of w k w'] pickle_key_keeps [of k w'']
  by (auto simp: same_slots_def same_nvs_def)

end

lemma same_nvs_mono: "same_nvs h ks w w' \<Longrightarrow> ks \<subseteq> ls \<Longrightarrow> same_nvs h ls w w'"
  by (auto simp: same_nvs_def)

text \<open>The cipher: decryption undoes encryption, the tag has its size and the text keeps its length.\<close>

definition gcm_ok :: "'w store_host \<Rightarrow> bool" where
  "gcm_ok h \<longleftrightarrow> (\<forall>key iv aad p ct tag. aes_gcm_encrypt h key iv aad p = Inr (ct, tag) \<longrightarrow>
     length tag = SEAL_TAG_LEN \<and> length ct = length p \<and> aes_gcm_decrypt h key iv aad ct tag = Inr p)"

context storage
begin

lemma seal_parts:
  assumes "seal h p w = (Some sealed, w2)" and "gcm_ok h"
  obtains pk key iv tag ct w1 where "pickle_key h w = (Some pk, w1)" "sha256 h pk = Inr key"
    "sealed = iv @ tag @ ct" "length iv = SEAL_IV_LEN" "length tag = SEAL_TAG_LEN" "length ct = length p"
    "aes_gcm_decrypt h key iv [] ct tag = Inr p" "same_slots h w1 w2" "same_nvs h {} w1 w2"
proof -
  obtain pk w1 where a: "pickle_key h w = (Some pk, w1)"
    using assms(1) by (auto simp: seal_def split: prod.splits option.splits)
  obtain key where b: "sha256 h pk = Inr key"
    using assms(1) a by (auto simp: seal_def split: sum.splits)
  obtain iv where c: "random_fill h SEAL_IV_LEN w1 = (Inr iv, w2)"
    and d: "\<exists>ct tag. aes_gcm_encrypt h key iv [] p = Inr (ct, tag) \<and> sealed = iv @ tag @ ct"
    using assms(1) a b by (auto simp: seal_def split: prod.splits sum.splits)
  then obtain ct tag where e: "aes_gcm_encrypt h key iv [] p = Inr (ct, tag)" "sealed = iv @ tag @ ct"
    by blast
  show ?thesis
    using that [OF a b e(2) random_length [OF c]] assms(2) e(1) random_frame [OF c]
    unfolding gcm_ok_def by blast
qed

text \<open>What was sealed unseals, as long as the slots and the legacy key read the same.\<close>

lemma unseal_seal:
  assumes "seal h p w = (Some sealed, w2)" and "gcm_ok h"
    and "same_slots h w2 w3" and "same_nvs h ks w2 w3" and "K_PICKLE_FB \<notin> ks"
  shows "fst (unseal h sealed w3) = Some p" and "length sealed = SEAL_HEADER_LEN + length p"
proof -
  obtain pk key iv tag ct w1 where s: "pickle_key h w = (Some pk, w1)" "sha256 h pk = Inr key"
    "sealed = iv @ tag @ ct" "length iv = SEAL_IV_LEN" "length tag = SEAL_TAG_LEN" "length ct = length p"
    "aes_gcm_decrypt h key iv [] ct tag = Inr p" "same_slots h w1 w2" "same_nvs h {} w1 w2"
    by (rule seal_parts [OF assms(1,2)])
  show l: "length sealed = SEAL_HEADER_LEN + length p" using s by (simp add: SEAL_HEADER_LEN_def)
  have "same_nvs h (- {K_PICKLE_FB}) w1 w3"
    using same_nvs_trans [OF s(9) assms(4)] assms(5) by (auto elim: same_nvs_mono)
  then have "fst (pickle_key h w3) = Some pk"
    using pickle_key_stable [OF s(1) same_slots_trans [OF s(8) assms(3)]] by blast
  then obtain w4 where k: "pickle_key h w3 = (Some pk, w4)" by (cases "pickle_key h w3") auto
  have "take SEAL_IV_LEN sealed = iv" "drop SEAL_HEADER_LEN sealed = ct"
    "take (SEAL_HEADER_LEN - SEAL_IV_LEN) (drop SEAL_IV_LEN sealed) = tag"
    using s(3-5) by (simp_all add: SEAL_HEADER_LEN_def)
  then show "fst (unseal h sealed w3) = Some p" using l k s(2,7) by (simp add: unseal_def)
qed

lemma sized_blob_back:
  assumes "set_sized_blob h key len_key v w = (Inr u, w')" and "key \<noteq> len_key" and "length v < 2 ^ 32"
  shows "get_sized_blob h key len_key cap w' = Some v"
    and "same_slots h w w' \<and> same_nvs h {key, len_key} w w'"
proof -
  obtain w1 where a: "nvs_set_blob h key v w = (Inr (), w1)"
    and b: "nvs_set_u32 h len_key (of_nat (length v)) w1 = (Inr u, w')"
    using assms(1) by (auto simp: set_sized_blob_def split: prod.splits sum.splits)
  note fa = set_blob_frame [OF a] and fb = set_u32_frame [OF b]
  have "nvs_get_u32 h len_key w' = Some (of_nat (length v))" by (rule set_u32_ok [OF b])
  moreover have "nvs_get_blob h key (length v) w' = Some v"
    using set_blob_ok [OF a, of "length v"] same_nvs_get(2) [OF conjunct2 [OF fb]] assms(2) by simp
  ultimately show "get_sized_blob h key len_key cap w' = Some v"
    using assms(3) by (simp add: get_sized_blob_def unat_of_nat take_bit_nat_eq_self)
  show "same_slots h w w' \<and> same_nvs h {key, len_key} w w'"
    using fa fb same_slots_trans same_nvs_trans [of h "{key}" w w1 "{len_key}" w'] by (auto simp: insert_commute)
qed

lemma account_back:
  assumes "save_account h p w = (True, w')" and "gcm_ok h" and "SEAL_HEADER_LEN + length p < 2 ^ 32"
  shows "fst (load_account h w') = Some p \<and> has_account h w'"
proof -
  obtain sealed w2 where s: "seal h p w = (Some sealed, w2)"
    using assms(1) by (auto simp: save_account_def split: prod.splits option.splits)
  obtain r where b: "set_sized_blob h K_ACCOUNT K_ACCOUNT_LEN sealed w2 = (Inr r, w')"
    using assms(1) s by (auto simp: save_account_def split: prod.splits sum.splits)
  have ne: "K_ACCOUNT \<noteq> K_ACCOUNT_LEN" by (simp add: K_ACCOUNT_def K_ACCOUNT_LEN_def)
  have fb: "K_PICKLE_FB \<notin> {K_ACCOUNT, K_ACCOUNT_LEN}"
    by (simp add: K_ACCOUNT_def K_ACCOUNT_LEN_def K_PICKLE_FB_def)
  have "same_slots h w2 w2" by (simp add: same_slots_def)
  have "same_nvs h {} w2 w2" by (simp add: same_nvs_def)
  have len: "length sealed < 2 ^ 32"
    using unseal_seal(2) [OF s assms(2) \<open>same_slots h w2 w2\<close> \<open>same_nvs h {} w2 w2\<close>] assms(3) by simp
  note f = sized_blob_back [OF b ne len]
  have g: "get_sized_blob h K_ACCOUNT K_ACCOUNT_LEN ACCOUNT_CAP w' = Some sealed" by (rule f(1))
  have "fst (unseal h sealed w') = Some p"
    using unseal_seal(1) [OF s assms(2) _ _ fb] f(2) by blast
  moreover have "has_account h w'"
    using g by (auto simp: has_account_def get_sized_blob_def split: option.splits)
  ultimately show ?thesis using g by (simp add: load_account_def)
qed

lemma torn_blob:
  assumes "nvs_get_u32 h len_key w = Some n" and "key \<noteq> len_key"
    and "nvs_set_blob h key v w = (Inr u, w')" and "unat n < length v"
  shows "get_sized_blob h key len_key cap w' = None" and "nvs_get_u32 h len_key w' = Some n"
proof -
  show g: "nvs_get_u32 h len_key w' = Some n"
    using same_nvs_get(3) [OF conjunct2 [OF set_blob_frame [OF assms(3)]]] assms(1,2) by simp
  then show "get_sized_blob h key len_key cap w' = None"
    using set_blob_ok [OF assms(3)] assms(4) by (simp add: get_sized_blob_def)
qed

end

section \<open>The stub storage satisfies the contract\<close>

lemma stub_host_simps [simp]:
  "nvs_get_str (stub_host sha enc dec) = stub_get_str" "nvs_set_str (stub_host sha enc dec) = stub_set_str"
  "nvs_get_u32 (stub_host sha enc dec) = stub_get_u32" "nvs_set_u32 (stub_host sha enc dec) = stub_set_u32"
  "nvs_get_blob (stub_host sha enc dec) = stub_get_blob" "nvs_set_blob (stub_host sha enc dec) = stub_set_blob"
  "nvs_erase (stub_host sha enc dec) = stub_erase" "nvs_erase_all (stub_host sha enc dec) = stub_erase_all"
  "rmem_read (stub_host sha enc dec) = stub_rmem_read" "rmem_write (stub_host sha enc dec) = stub_rmem_write"
  "rmem_erase (stub_host sha enc dec) = stub_rmem_erase" "random_fill (stub_host sha enc dec) = stub_random"
  "sha256 (stub_host sha enc dec) = sha" "aes_gcm_encrypt (stub_host sha enc dec) = enc"
  "aes_gcm_decrypt (stub_host sha enc dec) = dec"
  by (simp_all add: stub_host_def)

lemma length_stub_random: "length (stub_random_bytes x n) = n"
  by (induction n arbitrary: x) (simp_all add: Let_def)

lemma stub_get_str_bound:
  assumes "stub_get_str k c w = Some s"
  shows "length (utf8_encode s) \<le> c \<and> valid_ustr s"
proof -
  obtain v where v: "length v \<le> c" "utf8_decode (takeWhile (\<lambda>b. b \<noteq> 0) v) = Some s"
    using assms by (auto simp: stub_get_str_def less_Suc_eq_le split: option.splits if_splits)
  have "utf8_encode s = takeWhile (\<lambda>b. b \<noteq> 0) v" by (rule utf8_encode_decode [OF v(2)])
  then show ?thesis using v(1) length_takeWhile_le [of "\<lambda>b. b \<noteq> 0" v] valid_utf8_decode [OF v(2)] by simp
qed

lemmas stub_defs = stub_get_str_def stub_get_blob_def stub_get_u32_def stub_set_blob_def stub_set_u32_def
  stub_erase_def stub_rmem_read_def stub_rmem_write_def stub_random_def same_slots_def same_nvs_def

interpretation stub: storage "stub_host sha enc dec"
proof unfold_locales
  fix k c w s
  show "nvs_get_str (stub_host sha enc dec) k c w = Some s \<Longrightarrow> length (utf8_encode s) \<le> c \<and> valid_ustr s"
    by (simp add: stub_get_str_bound)
qed (auto simp: stub_defs copy_out_def to_le32_def length_stub_random split: if_splits)

lemma utf8_char_nonzero: "scalar c \<Longrightarrow> c \<noteq> 0 \<Longrightarrow> 0 \<notin> set (utf8_char c)"
proof -
  have nz: False if "(of_nat k :: u8) = 0" "0 < k" "k < 256" for k
    using that unat_of_nat_u8 [of k] by simp
  assume "scalar c" "c \<noteq> 0"
  then have "c < 0x110000" "0 < c" by (auto simp: scalar_def)
  then show ?thesis
    unfolding utf8_char_def
    apply (auto simp del: of_nat_add)
             apply (erule nz; linarith)+
    done
qed

lemma utf8_encode_nonzero: "valid_ustr s \<Longrightarrow> 0 \<notin> set s \<Longrightarrow> 0 \<notin> set (utf8_encode s)"
  by (induction s) (auto simp: utf8_char_nonzero)

lemma stub_set_get:
  assumes "stub_set_str k s w = (Inr u, w')" and "valid_ustr s" and "length (utf8_encode s) \<le> c"
  shows "stub_get_str k c w' = Some s"
proof -
  have s: "0 \<notin> set s" "w' = w\<lparr>stub_nvs := (stub_nvs w)(k \<mapsto> utf8_encode s)\<rparr>"
    using assms(1) by (auto simp: stub_set_str_def split: if_splits)
  have tw: "takeWhile (\<lambda>b. b \<noteq> 0) (utf8_encode s) = utf8_encode s"
    using utf8_encode_nonzero [OF assms(2) s(1)] by (auto simp: takeWhile_eq_all_conv)
  show ?thesis using assms(2,3) s(2) by (simp add: stub_get_str_def utf8_decode_encode tw)
qed

interpretation stub_text: text_store "stub_host sha enc dec"
proof unfold_locales
  fix k s w u w' c
  assume "nvs_set_str (stub_host sha enc dec) k s w = (Inr u, w')" "valid_ustr s" "length (utf8_encode s) \<le> c"
  then show "nvs_get_str (stub_host sha enc dec) k c w' = Some s" by (simp add: stub_set_get)
qed (auto simp: stub_set_str_def stub_set_u32_def same_slots_def same_nvs_def stub_rmem_read_def stub_get_str_def
  stub_get_blob_def stub_get_u32_def split: if_splits)

end
