(* ===== verification/Sdk_Http.thy ===== *)
theory Sdk_Http
  imports Sdk
begin

text \<open>
  The HTTP client of the SDK (\<open>sdk/cdc-badge-plugin/src/http.rs\<close>). The firmware's imports are
  the fields of \<open>'w http_host\<close>; a request is its handle. \<open>Drop\<close>, which closes the handle when
  the request goes out of scope, is part of \<open>with_request\<close>.
\<close>

record 'w http_host =
  host_http_open :: "u8 \<Rightarrow> ustr \<Rightarrow> nat \<Rightarrow> 'w \<Rightarrow> int \<times> 'w"
  host_http_set_header :: "int \<Rightarrow> ustr \<Rightarrow> ustr \<Rightarrow> 'w \<Rightarrow> int \<times> 'w"
  host_http_set_body :: "int \<Rightarrow> u8 list \<Rightarrow> 'w \<Rightarrow> int \<times> 'w"
  host_http_perform :: "int \<Rightarrow> 'w \<Rightarrow> int \<times> 'w"
  host_http_status :: "int \<Rightarrow> 'w \<Rightarrow> int \<times> 'w"
  host_http_read_chunk :: "int \<Rightarrow> nat \<Rightarrow> 'w \<Rightarrow> (int + u8 list) \<times> 'w"
  host_http_close :: "int \<Rightarrow> 'w \<Rightarrow> int \<times> 'w"

definition GET :: u8 where "GET = 0"
definition POST :: u8 where "POST = 1"
definition PUT :: u8 where "PUT = 2"
definition BODY_MAX :: nat where "BODY_MAX = 1024 * 1024"
definition READ_CHUNK :: nat where "READ_CHUNK = 1024"

definition req_open :: "'w http_host \<Rightarrow> u8 \<Rightarrow> ustr \<Rightarrow> nat \<Rightarrow> ('w, int sdk_result) state" where
  "req_open hh meth url timeout =
    (if 0 \<in> set url then ret (Inl InvalidArg)
     else do {
       rc \<leftarrow> State (host_http_open hh meth url timeout);
       ret (if rc \<le> 0 then Inl (from_code rc) else Inr rc)
     })"

definition req_header :: "'w http_host \<Rightarrow> int \<Rightarrow> ustr \<Rightarrow> ustr \<Rightarrow> ('w, unit sdk_result) state" where
  "req_header hh r key val =
    (if list_ex (\<lambda>c. c \<in> {13, 10, 58}) key \<or> list_ex (\<lambda>c. c \<in> {13, 10}) val then ret (Inl InvalidArg)
     else if 0 \<in> set key then ret (Inl InvalidArg)
     else if 0 \<in> set val then ret (Inl InvalidArg)
     else do { rc \<leftarrow> State (host_http_set_header hh r key val); ret (check rc) })"

definition req_body :: "'w http_host \<Rightarrow> int \<Rightarrow> u8 list \<Rightarrow> ('w, unit sdk_result) state" where
  "req_body hh r body = do { rc \<leftarrow> State (host_http_set_body hh r body); ret (check rc) }"

definition req_perform :: "'w http_host \<Rightarrow> int \<Rightarrow> ('w, int sdk_result) state" where
  "req_perform hh r = do {
     rc \<leftarrow> State (host_http_perform hh r);
     case check rc of
       Inl e \<Rightarrow> ret (Inl e)
     | Inr _ \<Rightarrow> do { st \<leftarrow> State (host_http_status hh r); ret (Inr st) }
   }"

text \<open>The read loop: chunks until the body ends, an error, or \<open>max\<close> bytes.\<close>

function read_loop_max :: "'w http_host \<Rightarrow> int \<Rightarrow> nat \<Rightarrow> u8 list \<Rightarrow> 'w \<Rightarrow> u8 list sdk_result \<times> 'w" where
  "read_loop_max hh r mx out w =
    (if length out \<ge> mx then (Inr out, w)
     else
       (case host_http_read_chunk hh r (min READ_CHUNK (mx - length out)) w of
          (Inl n, w) \<Rightarrow> (Inl (from_code n), w)
        | (Inr bs, w) \<Rightarrow> if bs = [] then (Inr out, w) else read_loop_max hh r mx (out @ bs) w))"
  by pat_completeness auto
termination
  by (relation "measure (\<lambda>(hh, r, mx, out, w). mx - length out)") (auto simp flip: length_greater_0_conv)

declare read_loop_max.simps [simp del]

definition read_to_vec_max :: "'w http_host \<Rightarrow> int \<Rightarrow> nat \<Rightarrow> ('w, u8 list sdk_result) state" where
  "read_to_vec_max hh r mx = State (read_loop_max hh r mx [])"

definition read_to_string_max :: "'w http_host \<Rightarrow> int \<Rightarrow> nat \<Rightarrow> ('w, ustr sdk_result) state" where
  "read_to_string_max hh r mx = do {
     b \<leftarrow> read_to_vec_max hh r mx;
     ret (case b of Inl e \<Rightarrow> Inl e
          | Inr bs \<Rightarrow> (case utf8_decode bs of None \<Rightarrow> Inl Generic | Some s \<Rightarrow> Inr s))
   }"

definition read_to_string :: "'w http_host \<Rightarrow> int \<Rightarrow> ('w, ustr sdk_result) state" where
  "read_to_string hh r = read_to_string_max hh r BODY_MAX"

text \<open>Open, use, drop: \<open>fail\<close> is the result when the request cannot be opened.\<close>

definition with_request ::
  "'w http_host \<Rightarrow> u8 \<Rightarrow> ustr \<Rightarrow> nat \<Rightarrow> 'a \<Rightarrow> (int \<Rightarrow> ('w, 'a) state) \<Rightarrow> ('w, 'a) state" where
  "with_request hh meth url timeout fail body = do {
     r \<leftarrow> req_open hh meth url timeout;
     case r of
       Inl _ \<Rightarrow> ret fail
     | Inr h \<Rightarrow> do {
         x \<leftarrow> body h;
         State (host_http_close hh h);
         ret x
       }
   }"

end
