(* ===== verification/Matrix_Client.thy ===== *)
theory Matrix_Client
  imports Matrix_Json Sdk_Http
begin

text \<open>
  The Matrix client-server API calls (\<open>plugins/matrix/src/client.rs\<close>): each builds a URL and a
  body, sends one request with the session's access token and reads the reply. Log lines are not
  modelled. A function \<open>f\<close> of the source is \<open>client_f\<close> here where the name is taken.
\<close>

definition SYNC_FILTER :: ustr where
  "SYNC_FILTER =
     lit ''{\"room\":{\"timeline\":{\"limit\":10},\"state\":{\"lazy_load_members\":true}},'' @
     lit ''\"presence\":{\"types\":[]},\"account_data\":{\"types\":[]}}''"

definition SYNC_BODY_MAX :: nat where "SYNC_BODY_MAX = 256 * 1024"

definition auth :: "'w http_host \<Rightarrow> int \<Rightarrow> ustr \<Rightarrow> ('w, unit) state" where
  "auth hh r tok = do { req_header hh r (lit ''Authorization'') (lit ''Bearer '' @ tok); ret () }"

definition json_header :: "'w http_host \<Rightarrow> int \<Rightarrow> ('w, unit) state" where
  "json_header hh r = do { req_header hh r (lit ''Content-Type'') (lit ''application/json''); ret () }"

definition set_body :: "'w http_host \<Rightarrow> int \<Rightarrow> ustr \<Rightarrow> ('w, unit) state" where
  "set_body hh r body = do { req_body hh r (utf8_encode body); ret () }"

abbreviation api :: "ustr \<Rightarrow> string \<Rightarrow> ustr" where
  "api base path \<equiv> base @ lit ''/_matrix/client/v3/'' @ lit path"

abbreviation success :: "int \<Rightarrow> bool" where
  "success status \<equiv> status div 100 = 2"

text \<open>\<open>perform().ok()?\<close> followed by \<open>read_to_string..().ok()?\<close>: the status and the body.\<close>

definition exchange :: "'w http_host \<Rightarrow> int \<Rightarrow> nat \<Rightarrow> ('w, (int \<times> ustr) option) state" where
  "exchange hh r mx = do {
     s \<leftarrow> req_perform hh r;
     case s of
       Inl _ \<Rightarrow> ret None
     | Inr status \<Rightarrow> do {
         t \<leftarrow> read_to_string_max hh r mx;
         ret (case t of Inl _ \<Rightarrow> None | Inr text \<Rightarrow> Some (status, text))
       }
   }"

text \<open>A \<open>GET\<close> that needs status 200: the shape of the fetching functions.\<close>

definition fetch :: "'w http_host \<Rightarrow> session \<Rightarrow> ustr \<Rightarrow> nat \<Rightarrow> nat \<Rightarrow> ('w, ustr option) state" where
  "fetch hh s url timeout mx =
     with_request hh GET url timeout None (\<lambda>r. do {
       auth hh r (token s);
       x \<leftarrow> exchange hh r mx;
       ret (case x of None \<Rightarrow> None | Some (status, text) \<Rightarrow> if status \<noteq> 200 then None else Some text)
     })"

section \<open>Login, sync, history\<close>

definition device_field :: "ustr option \<Rightarrow> ustr" where
  "device_field d =
     (case d of
        None \<Rightarrow> []
      | Some d \<Rightarrow> if d = [] then [] else lit ''\"device_id\":\"'' @ json_escape d @ lit ''\",'')"

definition login_body :: "ustr \<Rightarrow> ustr \<Rightarrow> ustr option \<Rightarrow> ustr" where
  "login_body user password device =
     lit ''{\"type\":\"m.login.password\",'' @ device_field device @
     lit ''\"identifier\":{\"type\":\"m.id.user\",\"user\":\"'' @ json_escape user @
     lit ''\"},\"password\":\"'' @ json_escape password @
     lit ''\",\"initial_device_display_name\":\"CDC Badge\"}''"

definition login ::
  "'w http_host \<Rightarrow> 'v serde \<Rightarrow> ustr \<Rightarrow> ustr \<Rightarrow> ustr \<Rightarrow> ustr option \<Rightarrow> ('w, login_result option) state" where
  "login hh j base user password device =
     with_request hh POST (api base ''login'') 15000 None (\<lambda>r. do {
       json_header hh r;
       set_body hh r (login_body user password device);
       x \<leftarrow> exchange hh r BODY_MAX;
       ret (case x of None \<Rightarrow> None
            | Some (status, text) \<Rightarrow> if \<not> success status then None else parse_login j text)
     })"

definition sync_url :: "session \<Rightarrow> bool \<Rightarrow> ustr" where
  "sync_url s full =
    (if full \<or> next_batch s = []
     then api (base_url s) ''sync?timeout=0&filter='' @ urlencode SYNC_FILTER
     else api (base_url s) ''sync?since='' @ urlencode (next_batch s) @ lit ''&timeout=0&filter='' @
          urlencode SYNC_FILTER)"

definition client_sync :: "'w http_host \<Rightarrow> 'v serde \<Rightarrow> session \<Rightarrow> bool \<Rightarrow> ('w, sync_result option) state" where
  "client_sync hh j s full = do {
     t \<leftarrow> fetch hh s (sync_url s full) 20000 SYNC_BODY_MAX;
     ret (Option.bind t (parse_sync j))
   }"

definition room_members :: "'w http_host \<Rightarrow> 'v serde \<Rightarrow> session \<Rightarrow> ustr \<Rightarrow> ('w, ustr list option) state" where
  "room_members hh j s room = do {
     t \<leftarrow> fetch hh s (api (base_url s) ''rooms/'' @ urlencode room @ lit ''/members?membership=join'')
           20000 SYNC_BODY_MAX;
     ret (map_option (parse_members j) t)
   }"

definition room_messages :: "'w http_host \<Rightarrow> session \<Rightarrow> ustr \<Rightarrow> nat \<Rightarrow> ('w, ustr option) state" where
  "room_messages hh s room limit =
     fetch hh s (api (base_url s) ''rooms/'' @ urlencode room @ lit ''/messages?dir=b&limit='' @ show_nat limit)
       20000 SYNC_BODY_MAX"

definition account_data :: "'w http_host \<Rightarrow> session \<Rightarrow> ustr \<Rightarrow> ('w, ustr option) state" where
  "account_data hh s ty =
     fetch hh s (api (base_url s) ''user/'' @ urlencode (user_id s) @ lit ''/account_data/'' @ urlencode ty)
       10000 BODY_MAX"

definition backup_version :: "'w http_host \<Rightarrow> 'v serde \<Rightarrow> session \<Rightarrow> ('w, ustr option) state" where
  "backup_version hh j s = do {
     t \<leftarrow> fetch hh s (api (base_url s) ''room_keys/version'') 10000 BODY_MAX;
     ret (Option.bind t (\<lambda>text. Option.bind (from_str j text) (\<lambda>v. str_field j (Some v) ''version'')))
   }"

definition backup_keys :: "'w http_host \<Rightarrow> session \<Rightarrow> ustr \<Rightarrow> ('w, ustr option) state" where
  "backup_keys hh s version =
     fetch hh s (api (base_url s) ''room_keys/keys?version='' @ urlencode version) 25000 SYNC_BODY_MAX"

section \<open>Requests with a body\<close>

definition post_empty :: "'w http_host \<Rightarrow> session \<Rightarrow> ustr \<Rightarrow> ('w, bool) state" where
  "post_empty hh s url =
     with_request hh POST url 10000 False (\<lambda>r. do {
       auth hh r (token s);
       json_header hh r;
       set_body hh r (lit ''{}'');
       x \<leftarrow> req_perform hh r;
       ret (case x of Inl _ \<Rightarrow> False | Inr status \<Rightarrow> success status)
     })"

definition request_json ::
  "'w http_host \<Rightarrow> u8 \<Rightarrow> session \<Rightarrow> ustr \<Rightarrow> ustr \<Rightarrow> ('w, (int \<times> ustr) option) state" where
  "request_json hh meth s url body =
     with_request hh meth url 15000 None (\<lambda>r. do {
       auth hh r (token s);
       json_header hh r;
       set_body hh r body;
       exchange hh r BODY_MAX
     })"

abbreviation status_ok :: "(int \<times> ustr) option \<Rightarrow> bool" where
  "status_ok x \<equiv> (case x of None \<Rightarrow> False | Some (status, _) \<Rightarrow> success status)"

definition logout :: "'w http_host \<Rightarrow> session \<Rightarrow> ('w, bool) state" where
  "logout hh s = post_empty hh s (api (base_url s) ''logout'')"

definition client_invite :: "'w http_host \<Rightarrow> session \<Rightarrow> ustr \<Rightarrow> ustr \<Rightarrow> ('w, bool) state" where
  "client_invite hh s room mxid = do {
     x \<leftarrow> request_json hh POST s (api (base_url s) ''rooms/'' @ urlencode room @ lit ''/invite'')
           (lit ''{\"user_id\":\"'' @ json_escape mxid @ lit ''\"}'');
     ret (status_ok x)
   }"

definition send_text :: "'w http_host \<Rightarrow> session \<Rightarrow> ustr \<Rightarrow> ustr \<Rightarrow> u64 \<Rightarrow> ('w, bool) state" where
  "send_text hh s room text txn =
     with_request hh PUT
       (api (base_url s) ''rooms/'' @ urlencode room @ lit ''/send/m.room.message/'' @ show_nat (unat txn))
       10000 False (\<lambda>r. do {
       auth hh r (token s);
       json_header hh r;
       set_body hh r (lit ''{\"msgtype\":\"m.text\",\"body\":\"'' @ json_escape text @ lit ''\"}'');
       x \<leftarrow> req_perform hh r;
       ret (case x of Inl _ \<Rightarrow> False | Inr status \<Rightarrow> success status)
     })"

text \<open>A \<open>POST\<close> whose reply names a room.\<close>

definition post_for_room ::
  "'w http_host \<Rightarrow> 'v serde \<Rightarrow> session \<Rightarrow> ustr \<Rightarrow> ustr \<Rightarrow> (ustr option \<Rightarrow> ustr option)
   \<Rightarrow> ('w, ustr option) state" where
  "post_for_room hh j s url body pick =
     with_request hh POST url 15000 None (\<lambda>r. do {
       auth hh r (token s);
       json_header hh r;
       set_body hh r body;
       x \<leftarrow> exchange hh r BODY_MAX;
       ret (case x of
              None \<Rightarrow> None
            | Some (status, text) \<Rightarrow>
              if \<not> success status then None
              else Option.bind (from_str j text) (\<lambda>v. pick (str_field j (Some v) ''room_id'')))
     })"

definition client_join :: "'w http_host \<Rightarrow> 'v serde \<Rightarrow> session \<Rightarrow> ustr \<Rightarrow> ('w, ustr option) state" where
  "client_join hh j s alias =
     post_for_room hh j s (api (base_url s) ''join/'' @ urlencode alias) (lit ''{}'')
       (\<lambda>r. Some (case r of Some i \<Rightarrow> i | None \<Rightarrow> alias))"

abbreviation encryption_state :: ustr where
  "encryption_state \<equiv>
     lit ''\"initial_state\":[{\"type\":\"m.room.encryption\",\"state_key\":\"\",'' @
     lit ''\"content\":{\"algorithm\":\"m.megolm.v1.aes-sha2\"}}]}''"

definition create_dm :: "'w http_host \<Rightarrow> 'v serde \<Rightarrow> session \<Rightarrow> ustr \<Rightarrow> ('w, ustr option) state" where
  "create_dm hh j s mxid =
     post_for_room hh j s (api (base_url s) ''createRoom'')
       (lit ''{\"is_direct\":true,\"preset\":\"trusted_private_chat\",\"invite\":[\"'' @ json_escape mxid @
        lit ''\"],'' @ encryption_state) id"

definition client_create_room :: "'w http_host \<Rightarrow> 'v serde \<Rightarrow> session \<Rightarrow> ustr \<Rightarrow> ('w, ustr option) state" where
  "client_create_room hh j s name =
     post_for_room hh j s (api (base_url s) ''createRoom'')
       (lit ''{\"name\":\"'' @ json_escape name @ lit ''\",\"preset\":\"private_chat\",'' @ encryption_state) id"

definition leave :: "'w http_host \<Rightarrow> session \<Rightarrow> ustr \<Rightarrow> ('w, bool) state" where
  "leave hh s room = do {
     left \<leftarrow> post_empty hh s (api (base_url s) ''rooms/'' @ urlencode room @ lit ''/leave'');
     if left then do {
       post_empty hh s (api (base_url s) ''rooms/'' @ urlencode room @ lit ''/forget'');
       ret left
     } else ret left
   }"

section \<open>Keys\<close>

definition put_backup_keys :: "'w http_host \<Rightarrow> session \<Rightarrow> ustr \<Rightarrow> ustr \<Rightarrow> ('w, bool) state" where
  "put_backup_keys hh s version body = do {
     x \<leftarrow> request_json hh PUT s (api (base_url s) ''room_keys/keys?version='' @ urlencode version) body;
     ret (status_ok x)
   }"

definition keys_upload :: "'w http_host \<Rightarrow> session \<Rightarrow> ustr \<Rightarrow> ustr \<Rightarrow> ('w, int) state" where
  "keys_upload hh s device_keys one_time_keys = do {
     x \<leftarrow> request_json hh POST s (api (base_url s) ''keys/upload'')
           (lit ''{\"device_keys\":'' @ device_keys @ lit '',\"one_time_keys\":'' @ one_time_keys @ lit ''}'');
     ret (case x of Some (status, _) \<Rightarrow> status | None \<Rightarrow> -1)
   }"

abbreviation text_200 :: "(int \<times> ustr) option \<Rightarrow> ustr option" where
  "text_200 x \<equiv> (case x of None \<Rightarrow> None | Some (status, text) \<Rightarrow> if status = 200 then Some text else None)"

definition keys_query :: "'w http_host \<Rightarrow> session \<Rightarrow> ustr list \<Rightarrow> ('w, ustr option) state" where
  "keys_query hh s users = do {
     x \<leftarrow> request_json hh POST s (api (base_url s) ''keys/query'')
           (lit ''{\"device_keys\":{'' @
            join (lit '','') (map (\<lambda>u. lit ''\"'' @ json_escape u @ lit ''\":[]'') users) @ lit ''}}'');
     ret (text_200 x)
   }"

definition keys_claim :: "'w http_host \<Rightarrow> session \<Rightarrow> ustr \<Rightarrow> ('w, ustr option) state" where
  "keys_claim hh s claims = do {
     x \<leftarrow> request_json hh POST s (api (base_url s) ''keys/claim'') (lit ''{\"one_time_keys\":'' @ claims @ lit ''}'');
     ret (text_200 x)
   }"

definition send_to_device :: "'w http_host \<Rightarrow> session \<Rightarrow> ustr \<Rightarrow> u64 \<Rightarrow> ('w, bool) state" where
  "send_to_device hh s messages txn = do {
     x \<leftarrow> request_json hh PUT s
           (api (base_url s) ''sendToDevice/m.room.encrypted/'' @ show_nat (unat txn))
           (lit ''{\"messages\":'' @ messages @ lit ''}'');
     ret (status_ok x)
   }"

definition send_encrypted :: "'w http_host \<Rightarrow> session \<Rightarrow> ustr \<Rightarrow> ustr \<Rightarrow> u64 \<Rightarrow> ('w, bool) state" where
  "send_encrypted hh s room content txn = do {
     x \<leftarrow> request_json hh PUT s
           (api (base_url s) ''rooms/'' @ urlencode room @ lit ''/send/m.room.encrypted/'' @ show_nat (unat txn))
           content;
     ret (status_ok x)
   }"

end
