(* ===== verification/Matrix_Crypto.thy ===== *)
theory Matrix_Crypto
  imports Matrix_Json
begin

text \<open>
  The end-to-end encryption state of the Matrix plugin (\<open>plugins/matrix/src/crypto.rs\<close>): the
  recovery key, the bookkeeping of Megolm and Olm sessions, and the objects uploaded to the
  server.

  The crate \<open>vodozemac\<close>, the AES cipher and the firmware's codecs are not part of the
  repository: they are the fields of \<open>voz\<close>, over types of accounts, inbound and outbound group
  sessions, Olm sessions and backup keys. Calls that draw random numbers take and return the
  world \<open>'w\<close>; calls on a \<open>&mut\<close> session return it. A message that does not parse is a call
  that gives \<open>None\<close>. The \<open>BTreeMap\<close>s are maps.
\<close>

section \<open>Base58 and the recovery key\<close>

definition B58 :: ustr where
  "B58 = lit ''123456789ABCDEFGHJKLMNPQRSTUVWXYZabcdefghijkmnopqrstuvwxyz''"

text \<open>\<open>B58.iter().position(|&a| a == c)\<close>.\<close>

fun position_from :: "nat \<Rightarrow> 'a \<Rightarrow> 'a list \<Rightarrow> nat option" where
  "position_from k c [] = None"
| "position_from k c (a # s) = (if a = c then Some k else position_from (Suc k) c s)"

definition b58_digit :: "u8 \<Rightarrow> nat option" where
  "b58_digit c = position_from 0 (unat c) B58"

text \<open>The inner loops: multiply the little endian number by 58 and add the digit, then push what is
  left of the carry. The carry stays below \<open>2 ^ 16\<close>.\<close>

fun mul58 :: "nat \<Rightarrow> u8 list \<Rightarrow> u8 list \<times> nat" where
  "mul58 carry [] = ([], carry)"
| "mul58 carry (b # bs) =
    (let c = carry + unat b * 58;
         (r, out) = mul58 (c div 256) bs
     in (of_nat (c mod 256) # r, out))"

fun push_carry :: "nat \<Rightarrow> u8 list" where
  "push_carry c = (if c = 0 then [] else of_nat (c mod 256) # push_carry (c div 256))"

declare push_carry.simps [simp del]

definition b58_step :: "u8 list \<Rightarrow> nat \<Rightarrow> u8 list" where
  "b58_step num digit = (let (r, c) = mul58 digit num in r @ push_carry c)"

fun b58_loop :: "u8 list \<Rightarrow> u8 list \<Rightarrow> u8 list option" where
  "b58_loop num [] = Some num"
| "b58_loop num (c # s) =
    (case b58_digit c of None \<Rightarrow> None | Some d \<Rightarrow> b58_loop (b58_step num d) s)"

definition base58_decode :: "ustr \<Rightarrow> u8 list option" where
  "base58_decode s =
     map_option (\<lambda>num. rev (num @ map (\<lambda>_. 0) (takeWhile (\<lambda>c. c = 49) (utf8_encode s))))
       (b58_loop [] (utf8_encode s))"

definition parse_recovery_key :: "ustr \<Rightarrow> u8 list option" where
  "parse_recovery_key s =
    (case base58_decode (filter (\<lambda>c. \<not> is_whitespace c) s) of
       None \<Rightarrow> None
     | Some bs \<Rightarrow>
       if length bs \<noteq> 35 \<or> bs ! 0 \<noteq> 0x8b \<or> bs ! 1 \<noteq> 0x01 then None
       else if foldl (\<lambda>acc b. acc XOR b) 0 bs \<noteq> 0 then None
       else Some (take 32 (drop 2 bs)))"

text \<open>The encoders of the module's tests, against which the decoders are checked.\<close>

fun mul256 :: "nat \<Rightarrow> u8 list \<Rightarrow> u8 list \<times> nat" where
  "mul256 carry [] = ([], carry)"
| "mul256 carry (d # ds) =
    (let c = carry + unat d * 256;
         (r, out) = mul256 (c div 58) ds
     in (of_nat (c mod 58) # r, out))"

fun push58 :: "nat \<Rightarrow> u8 list" where
  "push58 c = (if c = 0 then [] else of_nat (c mod 58) # push58 (c div 58))"

declare push58.simps [simp del]

definition enc58_step :: "u8 list \<Rightarrow> u8 \<Rightarrow> u8 list" where
  "enc58_step digits b = (let (r, c) = mul256 (unat b) digits in r @ push58 c)"

definition base58_encode :: "u8 list \<Rightarrow> ustr" where
  "base58_encode data =
     map (\<lambda>_. 49) (takeWhile (\<lambda>b. b = 0) data) @
     map (\<lambda>d. B58 ! unat d) (rev (foldl enc58_step [] data))"

definition encode_recovery_key :: "u8 list \<Rightarrow> ustr" where
  "encode_recovery_key key =
    (let bytes = [0x8b, 0x01] @ key
     in base58_encode (bytes @ [foldl (\<lambda>acc b. acc XOR b) 0 bytes]))"

section \<open>External cryptography\<close>

datatype session_ordering = Equal | Better | Worse | Unconnected

record ('ib) inbound_entry =
  ie_session :: 'ib
  ie_room_id :: ustr
  ie_sender_key :: ustr

record ('w, 'acc, 'ib, 'gs, 'os, 'pk) voz =
  account_new :: "'w \<Rightarrow> 'acc \<times> 'w"
  account_from_json :: "u8 list \<Rightarrow> 'acc option"
  account_to_json :: "'acc \<Rightarrow> u8 list"
  curve25519_key :: "'acc \<Rightarrow> ustr"
  ed25519_key :: "'acc \<Rightarrow> ustr"
  sign_b64 :: "'acc \<Rightarrow> u8 list \<Rightarrow> ustr"
  generate_otks :: "nat \<Rightarrow> 'acc \<Rightarrow> 'w \<Rightarrow> 'acc \<times> 'w"
  otks_b64 :: "'acc \<Rightarrow> (ustr \<times> ustr) list"
  mark_published :: "'acc \<Rightarrow> 'acc"
  outbound_session :: "'acc \<Rightarrow> ustr \<Rightarrow> ustr \<Rightarrow> 'w \<Rightarrow> 'os option \<times> 'w"
  inbound_session :: "'acc \<Rightarrow> ustr \<Rightarrow> u8 list \<Rightarrow> ('os \<times> u8 list) option \<times> 'acc"
  key_ok :: "ustr \<Rightarrow> bool"
  olm_message_ok :: "u8 \<Rightarrow> u8 list \<Rightarrow> bool"
  os_encrypt :: "'os \<Rightarrow> u8 list \<Rightarrow> 'w \<Rightarrow> (u8 \<times> u8 list) option \<times> 'os \<times> 'w"
  os_decrypt :: "'os \<Rightarrow> u8 \<Rightarrow> u8 list \<Rightarrow> u8 list option \<times> 'os"
  ib_from_key :: "ustr \<Rightarrow> 'ib option"
  ib_from_export :: "ustr \<Rightarrow> 'ib option"
  ib_of_outbound :: "'gs \<Rightarrow> 'ib"
  ib_id :: "'ib \<Rightarrow> ustr"
  ib_compare :: "'ib \<Rightarrow> 'ib \<Rightarrow> session_ordering"
  ib_export :: "'ib \<Rightarrow> ustr"
  ib_decrypt :: "'ib \<Rightarrow> ustr \<Rightarrow> u8 list option \<times> 'ib"
  gs_new :: "'w \<Rightarrow> 'gs \<times> 'w"
  gs_id :: "'gs \<Rightarrow> ustr"
  gs_key :: "'gs \<Rightarrow> ustr"
  gs_encrypt :: "'gs \<Rightarrow> u8 list \<Rightarrow> ustr \<times> 'gs"
  pk_from_key :: "u8 list \<Rightarrow> 'pk"
  pk_encrypt :: "'pk \<Rightarrow> u8 list \<Rightarrow> 'w \<Rightarrow> (u8 list \<times> u8 list \<times> ustr) option \<times> 'w"
  pk_decrypt :: "'pk \<Rightarrow> ustr \<Rightarrow> ustr \<Rightarrow> ustr \<Rightarrow> u8 list option"
  state_to_json :: "(ustr \<rightharpoonup> 'ib inbound_entry) \<Rightarrow> (ustr \<rightharpoonup> 'os list) \<Rightarrow> u8 list"
  state_from_json :: "u8 list \<Rightarrow> ((ustr \<rightharpoonup> 'ib inbound_entry) \<times> (ustr \<rightharpoonup> 'os list)) option"
  base64_encode :: "u8 list \<Rightarrow> ustr option"
  base64_decode :: "ustr \<Rightarrow> u8 list option"
  hmac_sha256 :: "u8 list \<Rightarrow> u8 list \<Rightarrow> u8 list option"
  aes_ctr :: "u8 list \<Rightarrow> u8 list \<Rightarrow> u8 list \<Rightarrow> u8 list"

section \<open>Secret storage\<close>

definition hkdf_sha256_64 ::
  "('w, 'acc, 'ib, 'gs, 'os, 'pk) voz \<Rightarrow> u8 list \<Rightarrow> u8 list \<Rightarrow> u8 list \<Rightarrow> u8 list option" where
  "hkdf_sha256_64 z ikm salt info =
     Option.bind (hmac_sha256 z salt ikm) (\<lambda>prk.
     Option.bind (hmac_sha256 z prk (info @ [0x01])) (\<lambda>t1.
     Option.bind (hmac_sha256 z prk (t1 @ info @ [0x02])) (\<lambda>t2. Some (t1 @ t2))))"

definition ssss_decrypt_backup_key ::
  "('w, 'acc, 'ib, 'gs, 'os, 'pk) voz \<Rightarrow> u8 list \<Rightarrow> ustr \<Rightarrow> ustr \<Rightarrow> ustr \<Rightarrow> u8 list option" where
  "ssss_decrypt_backup_key z ssss_key ct_b64 iv_b64 mac_b64 =
     Option.bind (hkdf_sha256_64 z ssss_key (replicate 32 0) (utf8_encode (lit ''m.megolm_backup.v1''))) (\<lambda>okm.
     Option.bind (base64_decode z ct_b64) (\<lambda>ct.
     Option.bind (base64_decode z iv_b64) (\<lambda>iv.
     Option.bind (base64_decode z mac_b64) (\<lambda>expected.
       if length iv \<noteq> 16 then None
       else
         Option.bind (hmac_sha256 z (drop 32 okm) ct) (\<lambda>mac.
           if mac \<noteq> expected then None
           else
             Option.bind (utf8_decode (aes_ctr z (take 32 okm) iv ct)) (\<lambda>b64.
             Option.bind (base64_decode z (trim b64)) (\<lambda>key.
               if length key \<noteq> 32 then None else Some key)))))))"

section \<open>State\<close>

definition MAX_OLM_SESSIONS_PER_PEER :: nat where "MAX_OLM_SESSIONS_PER_PEER = 3"

record ('acc, 'ib, 'gs, 'os, 'pk) crypto =
  c_account :: 'acc
  c_backup :: "'pk option"
  c_inbound :: "ustr \<rightharpoonup> 'ib inbound_entry"
  c_outbound :: "ustr \<rightharpoonup> 'gs"
  c_olm :: "ustr \<rightharpoonup> 'os list"

definition crypto_new :: "'acc \<Rightarrow> ('acc, 'ib, 'gs, 'os, 'pk) crypto" where
  "crypto_new acc = \<lparr>c_account = acc, c_backup = None, c_inbound = Map.empty,
     c_outbound = Map.empty, c_olm = Map.empty\<rparr>"

definition crypto_create ::
  "('w, 'acc, 'ib, 'gs, 'os, 'pk) voz \<Rightarrow> 'w \<Rightarrow> ('acc, 'ib, 'gs, 'os, 'pk) crypto \<times> 'w" where
  "crypto_create z w = (case account_new z w of (a, w) \<Rightarrow> (crypto_new a, w))"

definition from_account_pickle ::
  "('w, 'acc, 'ib, 'gs, 'os, 'pk) voz \<Rightarrow> u8 list \<Rightarrow> ('acc, 'ib, 'gs, 'os, 'pk) crypto option" where
  "from_account_pickle z bs = map_option crypto_new (account_from_json z bs)"

definition account_pickle ::
  "('w, 'acc, 'ib, 'gs, 'os, 'pk) voz \<Rightarrow> ('acc, 'ib, 'gs, 'os, 'pk) crypto \<Rightarrow> u8 list" where
  "account_pickle z c = account_to_json z (c_account c)"

definition export_state ::
  "('w, 'acc, 'ib, 'gs, 'os, 'pk) voz \<Rightarrow> ('acc, 'ib, 'gs, 'os, 'pk) crypto \<Rightarrow> u8 list" where
  "export_state z c = state_to_json z (c_inbound c) (c_olm c)"

definition import_state ::
  "('w, 'acc, 'ib, 'gs, 'os, 'pk) voz \<Rightarrow> u8 list
   \<Rightarrow> ('acc, 'ib, 'gs, 'os, 'pk) crypto \<Rightarrow> ('acc, 'ib, 'gs, 'os, 'pk) crypto" where
  "import_state z bs c =
    (case state_from_json z bs of
       None \<Rightarrow> c
     | Some (inb, olm) \<Rightarrow> c\<lparr>c_inbound := c_inbound c ++ inb, c_olm := c_olm c ++ olm\<rparr>)"

definition set_backup_key ::
  "('w, 'acc, 'ib, 'gs, 'os, 'pk) voz \<Rightarrow> u8 list
   \<Rightarrow> ('acc, 'ib, 'gs, 'os, 'pk) crypto \<Rightarrow> ('acc, 'ib, 'gs, 'os, 'pk) crypto" where
  "set_backup_key z key c = c\<lparr>c_backup := Some (pk_from_key z key)\<rparr>"

definition has_backup :: "('acc, 'ib, 'gs, 'os, 'pk) crypto \<Rightarrow> bool" where
  "has_backup c \<longleftrightarrow> c_backup c \<noteq> None"

definition session_count :: "('acc, 'ib, 'gs, 'os, 'pk) crypto \<Rightarrow> nat" where
  "session_count c = card (dom (c_inbound c))"

definition identity_curve25519 ::
  "('w, 'acc, 'ib, 'gs, 'os, 'pk) voz \<Rightarrow> ('acc, 'ib, 'gs, 'os, 'pk) crypto \<Rightarrow> ustr" where
  "identity_curve25519 z c = curve25519_key z (c_account c)"

definition identity_ed25519 ::
  "('w, 'acc, 'ib, 'gs, 'os, 'pk) voz \<Rightarrow> ('acc, 'ib, 'gs, 'os, 'pk) crypto \<Rightarrow> ustr" where
  "identity_ed25519 z c = ed25519_key z (c_account c)"

text \<open>A quoted, escaped JSON string.\<close>

definition quoted :: "ustr \<Rightarrow> ustr" where
  "quoted s = [34] @ json_escape s @ [34]"

definition backup_session_blob ::
  "('w, 'acc, 'ib, 'gs, 'os, 'pk) voz \<Rightarrow> ustr \<Rightarrow> ('acc, 'ib, 'gs, 'os, 'pk) crypto \<Rightarrow> 'w
   \<Rightarrow> (ustr \<times> ustr \<times> ustr) option \<times> 'w" where
  "backup_session_blob z sid c w =
    (case (c_backup c, c_inbound c sid) of
       (Some backup, Some entry) \<Rightarrow>
         let data =
           lit ''{\"algorithm\":\"m.megolm.v1.aes-sha2\",\"forwarding_curve25519_key_chain\":[],'' @
           lit ''\"sender_claimed_keys\":{\"ed25519\":'' @ quoted (identity_ed25519 z c) @
           lit ''},\"sender_key\":'' @ quoted (identity_curve25519 z c) @
           lit '',\"session_key\":'' @ quoted (ib_export z (ie_session entry)) @ lit ''}''
         in (case pk_encrypt z backup (utf8_encode data) w of
               (None, w) \<Rightarrow> (None, w)
             | (Some (ct, mac, eph), w) \<Rightarrow>
               (case (base64_encode z ct, base64_encode z mac) of
                  (Some ct, Some mac) \<Rightarrow> (Some (ct, mac, eph), w)
                | _ \<Rightarrow> (None, w)))
     | _ \<Rightarrow> (None, w))"

section \<open>Inbound sessions\<close>

definition binding_matches :: "ustr \<Rightarrow> ustr \<Rightarrow> bool" where
  "binding_matches held offered \<longleftrightarrow> held = [] \<or> offered = [] \<or> held = offered"

definition insert_inbound ::
  "('w, 'acc, 'ib, 'gs, 'os, 'pk) voz \<Rightarrow> ustr \<Rightarrow> 'ib \<Rightarrow> ustr \<Rightarrow> ustr
   \<Rightarrow> ('acc, 'ib, 'gs, 'os, 'pk) crypto \<Rightarrow> bool \<times> ('acc, 'ib, 'gs, 'os, 'pk) crypto" where
  "insert_inbound z sid session room sender c =
    (if ib_id z session \<noteq> sid then (False, c)
     else
       (case c_inbound c sid of
          None \<Rightarrow>
            (True, c\<lparr>c_inbound := (c_inbound c)(sid \<mapsto>
               \<lparr>ie_session = session, ie_room_id = room, ie_sender_key = sender\<rparr>)\<rparr>)
        | Some held \<Rightarrow>
          if \<not> binding_matches (ie_room_id held) room \<or> \<not> binding_matches (ie_sender_key held) sender
          then (False, c)
          else
            let ordering = ib_compare z (ie_session held) session in
            if ordering = Unconnected then (False, c)
            else
              let ch1 = (ordering = Worse);
                  held1 = (if ch1 then held\<lparr>ie_session := session\<rparr> else held);
                  ch2 = (ie_room_id held1 = [] \<and> room \<noteq> []);
                  held2 = (if ch2 then held1\<lparr>ie_room_id := room\<rparr> else held1);
                  ch3 = (ie_sender_key held2 = [] \<and> sender \<noteq> []);
                  held3 = (if ch3 then held2\<lparr>ie_sender_key := sender\<rparr> else held2)
              in (ch1 \<or> ch2 \<or> ch3, c\<lparr>c_inbound := (c_inbound c)(sid \<mapsto> held3)\<rparr>)))"

definition session_key_from_backup :: "'v serde \<Rightarrow> (u8 list \<Rightarrow> 'v option) \<Rightarrow> u8 list \<Rightarrow> (ustr \<times> ustr) option" where
  "session_key_from_backup j from_slice plain =
     Option.bind (from_slice plain) (\<lambda>v.
     Option.bind (str_field j (Some v) ''session_key'') (\<lambda>k.
       Some (k, or_empty (str_field j (Some v) ''sender_key''))))"

definition import_backup_session ::
  "('w, 'acc, 'ib, 'gs, 'os, 'pk) voz \<Rightarrow> 'v serde \<Rightarrow> (u8 list \<Rightarrow> 'v option) \<Rightarrow> ustr \<Rightarrow> ustr \<Rightarrow> ustr \<Rightarrow> ustr \<Rightarrow> ustr
   \<Rightarrow> ('acc, 'ib, 'gs, 'os, 'pk) crypto \<Rightarrow> bool \<times> ('acc, 'ib, 'gs, 'os, 'pk) crypto" where
  "import_backup_session z j from_slice room sid ct mac eph c =
    (case Option.bind (c_backup c) (\<lambda>b. pk_decrypt z b ct mac eph) of
       None \<Rightarrow> (False, c)
     | Some plain \<Rightarrow>
       (case session_key_from_backup j from_slice plain of
          None \<Rightarrow> (False, c)
        | Some (key, sender) \<Rightarrow>
          (case ib_from_export z key of
             None \<Rightarrow> (False, c)
           | Some session \<Rightarrow> insert_inbound z sid session room sender c)))"

definition import_room_key ::
  "('w, 'acc, 'ib, 'gs, 'os, 'pk) voz \<Rightarrow> ustr \<Rightarrow> ustr \<Rightarrow> ustr \<Rightarrow> ustr
   \<Rightarrow> ('acc, 'ib, 'gs, 'os, 'pk) crypto \<Rightarrow> bool \<times> ('acc, 'ib, 'gs, 'os, 'pk) crypto" where
  "import_room_key z sid key room sender c =
    (case ib_from_key z key of
       None \<Rightarrow> (False, c)
     | Some session \<Rightarrow> insert_inbound z sid session room sender c)"

definition decrypt_megolm ::
  "('w, 'acc, 'ib, 'gs, 'os, 'pk) voz \<Rightarrow> 'v serde \<Rightarrow> (u8 list \<Rightarrow> 'v option) \<Rightarrow> ustr \<Rightarrow> ustr \<Rightarrow> ustr \<Rightarrow> ustr
   \<Rightarrow> ('acc, 'ib, 'gs, 'os, 'pk) crypto \<Rightarrow> ustr option \<times> ('acc, 'ib, 'gs, 'os, 'pk) crypto" where
  "decrypt_megolm z j from_slice sid ct room sender c =
    (case c_inbound c sid of
       None \<Rightarrow> (None, c)
     | Some entry \<Rightarrow>
       if ie_room_id entry = [] \<or> ie_room_id entry \<noteq> room
          \<or> (ie_sender_key entry \<noteq> [] \<and> ie_sender_key entry \<noteq> sender)
       then (None, c)
       else
         (case ib_decrypt z (ie_session entry) ct of
            (plain, session) \<Rightarrow>
              let c = c\<lparr>c_inbound := (c_inbound c)(sid \<mapsto> entry\<lparr>ie_session := session\<rparr>)\<rparr> in
              (case Option.bind plain from_slice of
                 None \<Rightarrow> (None, c)
               | Some v \<Rightarrow>
                 if str_field j (Some v) ''room_id'' \<noteq> Some room then (None, c)
                 else (str_field j (field j (Some v) ''content'') ''body'', c))))"

section \<open>Uploads\<close>

definition device_keys_core :: "ustr \<Rightarrow> ustr \<Rightarrow> ustr \<Rightarrow> ustr" where
  "device_keys_core dev curve ed =
     lit ''{\"algorithms\":[\"m.olm.v1.curve25519-aes-sha2\",\"m.megolm.v1.aes-sha2\"],\"device_id\":\"'' @
     json_escape dev @ lit ''\",\"keys\":{\"curve25519:'' @ json_escape dev @ lit ''\":\"'' @ json_escape curve @
     lit ''\",\"ed25519:'' @ json_escape dev @ lit ''\":\"'' @ json_escape ed @ lit ''\"},''"

definition device_keys_json ::
  "('w, 'acc, 'ib, 'gs, 'os, 'pk) voz \<Rightarrow> ustr \<Rightarrow> ustr \<Rightarrow> ('acc, 'ib, 'gs, 'os, 'pk) crypto \<Rightarrow> ustr" where
  "device_keys_json z uid dev c =
    (let head = device_keys_core dev (identity_curve25519 z c) (identity_ed25519 z c);
         tail = lit ''\"user_id\":\"'' @ json_escape uid @ lit ''\"}'';
         sig = sign_b64 z (c_account c) (utf8_encode (head @ tail))
     in head @ lit ''\"signatures\":{\"'' @ json_escape uid @ lit ''\":{\"ed25519:'' @ json_escape dev @
        lit ''\":\"'' @ json_escape sig @ lit ''\"}},'' @ tail)"

definition otk_entry ::
  "('w, 'acc, 'ib, 'gs, 'os, 'pk) voz \<Rightarrow> 'acc \<Rightarrow> ustr \<Rightarrow> ustr \<Rightarrow> ustr \<times> ustr \<Rightarrow> ustr" where
  "otk_entry z acc uid dev p =
    (let (kid, key) = p;
         sig = sign_b64 z acc (utf8_encode (lit ''{\"key\":\"'' @ json_escape key @ lit ''\"}''))
     in lit ''\"signed_curve25519:'' @ json_escape kid @ lit ''\":{\"key\":\"'' @ json_escape key @
        lit ''\",\"signatures\":{\"'' @ json_escape uid @ lit ''\":{\"ed25519:'' @ json_escape dev @
        lit ''\":\"'' @ json_escape sig @ lit ''\"}}}'')"

definition one_time_keys_json ::
  "('w, 'acc, 'ib, 'gs, 'os, 'pk) voz \<Rightarrow> ustr \<Rightarrow> ustr \<Rightarrow> nat \<Rightarrow> ('acc, 'ib, 'gs, 'os, 'pk) crypto \<Rightarrow> 'w
   \<Rightarrow> ustr \<times> ('acc, 'ib, 'gs, 'os, 'pk) crypto \<times> 'w" where
  "one_time_keys_json z uid dev n c w =
    (case generate_otks z n (c_account c) w of
       (acc, w) \<Rightarrow>
         let entries = map (otk_entry z acc uid dev) (otks_b64 z acc) in
         (lit ''{'' @ join (lit '','') entries @ lit ''}'', c\<lparr>c_account := mark_published z acc\<rparr>, w))"

section \<open>Olm sessions\<close>

definition has_olm_session :: "ustr \<Rightarrow> ('acc, 'ib, 'gs, 'os, 'pk) crypto \<Rightarrow> bool" where
  "has_olm_session curve c \<longleftrightarrow> (case c_olm c curve of Some v \<Rightarrow> v \<noteq> [] | None \<Rightarrow> False)"

text \<open>\<open>entry(..).or_default()\<close>, the push, and the loop that drops the oldest sessions.\<close>

definition push_olm :: "ustr \<Rightarrow> 'os \<Rightarrow> (ustr \<rightharpoonup> 'os list) \<Rightarrow> (ustr \<rightharpoonup> 'os list)" where
  "push_olm curve s m =
    (let v = (case m curve of Some v \<Rightarrow> v | None \<Rightarrow> []) @ [s]
     in m(curve \<mapsto> drop (length v - MAX_OLM_SESSIONS_PER_PEER) v))"

definition establish_olm ::
  "('w, 'acc, 'ib, 'gs, 'os, 'pk) voz \<Rightarrow> ustr \<Rightarrow> ustr \<Rightarrow> ('acc, 'ib, 'gs, 'os, 'pk) crypto \<Rightarrow> 'w
   \<Rightarrow> bool \<times> ('acc, 'ib, 'gs, 'os, 'pk) crypto \<times> 'w" where
  "establish_olm z curve otk c w =
    (if \<not> key_ok z curve \<or> \<not> key_ok z otk then (False, c, w)
     else
       (case outbound_session z (c_account c) curve otk w of
          (None, w) \<Rightarrow> (False, c, w)
        | (Some s, w) \<Rightarrow> (True, c\<lparr>c_olm := push_olm curve s (c_olm c)\<rparr>, w)))"

definition olm_encrypt ::
  "('w, 'acc, 'ib, 'gs, 'os, 'pk) voz \<Rightarrow> ustr \<Rightarrow> ustr \<Rightarrow> ('acc, 'ib, 'gs, 'os, 'pk) crypto \<Rightarrow> 'w
   \<Rightarrow> (u8 \<times> ustr) option \<times> ('acc, 'ib, 'gs, 'os, 'pk) crypto \<times> 'w" where
  "olm_encrypt z curve plain c w =
    (case c_olm c curve of
       None \<Rightarrow> (None, c, w)
     | Some v \<Rightarrow>
       if v = [] then (None, c, w)
       else
         (case os_encrypt z (last v) (utf8_encode plain) w of
            (r, s, w) \<Rightarrow>
              let c = c\<lparr>c_olm := (c_olm c)(curve \<mapsto> butlast v @ [s])\<rparr> in
              (case r of
                 None \<Rightarrow> (None, c, w)
               | Some (kind, bs) \<Rightarrow>
                 (map_option (\<lambda>b. (kind, b)) (base64_encode z bs), c, w))))"

text \<open>The loop over a peer's sessions: the first that decrypts, and the sessions as it leaves them.\<close>

fun try_sessions ::
  "('w, 'acc, 'ib, 'gs, 'os, 'pk) voz \<Rightarrow> u8 \<Rightarrow> u8 list \<Rightarrow> 'os list \<Rightarrow> u8 list option \<times> 'os list" where
  "try_sessions z kind bs [] = (None, [])"
| "try_sessions z kind bs (s # ss) =
    (case os_decrypt z s kind bs of
       (Some p, s) \<Rightarrow> (Some p, s # ss)
     | (None, s) \<Rightarrow> (case try_sessions z kind bs ss of (r, ss) \<Rightarrow> (r, s # ss)))"

definition olm_decrypt ::
  "('w, 'acc, 'ib, 'gs, 'os, 'pk) voz \<Rightarrow> ustr \<Rightarrow> u8 \<Rightarrow> ustr
   \<Rightarrow> ('acc, 'ib, 'gs, 'os, 'pk) crypto \<Rightarrow> ustr option \<times> ('acc, 'ib, 'gs, 'os, 'pk) crypto" where
  "olm_decrypt z sender kind body c =
    (if \<not> key_ok z sender then (None, c)
     else
       (case base64_decode z body of
          None \<Rightarrow> (None, c)
        | Some bs \<Rightarrow>
          if \<not> olm_message_ok z kind bs then (None, c)
          else
            (case (case c_olm c sender of
                     None \<Rightarrow> (None, c)
                   | Some v \<Rightarrow>
                     (case try_sessions z kind bs v of
                        (r, v) \<Rightarrow> (r, c\<lparr>c_olm := (c_olm c)(sender \<mapsto> v)\<rparr>))) of
               (Some p, c) \<Rightarrow> (utf8_decode p, c)
             | (None, c) \<Rightarrow>
               if kind = 0 then
                 (case inbound_session z (c_account c) sender bs of
                    (None, acc) \<Rightarrow> (None, c\<lparr>c_account := acc\<rparr>)
                  | (Some (s, p), acc) \<Rightarrow>
                    (utf8_decode p, c\<lparr>c_account := acc, c_olm := push_olm sender s (c_olm c)\<rparr>))
               else (None, c))))"

section \<open>Outbound sessions\<close>

definition drop_outbound :: "ustr \<Rightarrow> ('acc, 'ib, 'gs, 'os, 'pk) crypto \<Rightarrow> ('acc, 'ib, 'gs, 'os, 'pk) crypto" where
  "drop_outbound room c = c\<lparr>c_outbound := (c_outbound c)(room := None)\<rparr>"

definition outbound_key ::
  "('w, 'acc, 'ib, 'gs, 'os, 'pk) voz \<Rightarrow> ustr \<Rightarrow> ('acc, 'ib, 'gs, 'os, 'pk) crypto \<Rightarrow> (ustr \<times> ustr) option" where
  "outbound_key z room c = map_option (\<lambda>g. (gs_id z g, gs_key z g)) (c_outbound c room)"

definition ensure_outbound ::
  "('w, 'acc, 'ib, 'gs, 'os, 'pk) voz \<Rightarrow> ustr \<Rightarrow> ('acc, 'ib, 'gs, 'os, 'pk) crypto \<Rightarrow> 'w
   \<Rightarrow> (ustr \<times> ustr \<times> bool) \<times> ('acc, 'ib, 'gs, 'os, 'pk) crypto \<times> 'w" where
  "ensure_outbound z room c w =
    (case c_outbound c room of
       Some g \<Rightarrow> ((gs_id z g, gs_key z g, False), c, w)
     | None \<Rightarrow>
       (case gs_new z w of
          (g, w) \<Rightarrow>
            ((gs_id z g, gs_key z g, True),
             c\<lparr>c_outbound := (c_outbound c)(room \<mapsto> g),
               c_inbound := (c_inbound c)(gs_id z g \<mapsto> \<lparr>ie_session = ib_of_outbound z g, ie_room_id = room,
                 ie_sender_key = identity_curve25519 z c\<rparr>)\<rparr>, w)))"

definition encrypt_megolm ::
  "('w, 'acc, 'ib, 'gs, 'os, 'pk) voz \<Rightarrow> ustr \<Rightarrow> ustr
   \<Rightarrow> ('acc, 'ib, 'gs, 'os, 'pk) crypto \<Rightarrow> ustr option \<times> ('acc, 'ib, 'gs, 'os, 'pk) crypto" where
  "encrypt_megolm z room plain c =
    (case c_outbound c room of
       None \<Rightarrow> (None, c)
     | Some g \<Rightarrow>
       (case gs_encrypt z g (utf8_encode plain) of
          (ct, g) \<Rightarrow> (Some ct, c\<lparr>c_outbound := (c_outbound c)(room \<mapsto> g)\<rparr>)))"

end
