(* ===== verification/Matrix_Views.thy ===== *)
theory Matrix_Views
  imports Matrix_Json Matrix_Store "HOL-Library.Product_Lexorder" "HOL-Library.List_Lexorder"
begin

text \<open>
  Action ids and views of the Matrix plugin (\<open>plugins/matrix/src/actions.rs\<close> and
  \<open>ui_views.rs\<close>). A call of the firmware's user interface is a value of \<open>mx_ui\<close>; a view is the
  list of calls that shows it. \<open>tr\<close> stands for \<open>i18n::tr_key\<close>, \<open>title\<close> for
  \<open>i18n::tr_meta("name")\<close>.
\<close>

section \<open>Action ids\<close>

definition ACT_ROOM_SELECT :: u32 where "ACT_ROOM_SELECT = 10"
definition ACT_ROOM_MENU :: u32 where "ACT_ROOM_MENU = 11"
definition ACT_ROOM_CTX_PICK :: u32 where "ACT_ROOM_CTX_PICK = 12"
definition CTX_JOIN :: u32 where "CTX_JOIN = 1"
definition CTX_DELETE :: u32 where "CTX_DELETE = 2"
definition CTX_SYSTEM :: u32 where "CTX_SYSTEM = 3"
definition CTX_CREATE :: u32 where "CTX_CREATE = 4"
definition CTX_ACCEPT :: u32 where "CTX_ACCEPT = 5"
definition CTX_REJECT :: u32 where "CTX_REJECT = 6"
definition CTX_INVITE :: u32 where "CTX_INVITE = 7"
definition ACT_NEW_ROOM_DONE :: u32 where "ACT_NEW_ROOM_DONE = 20"
definition ACT_DEL_CONFIRM :: u32 where "ACT_DEL_CONFIRM = 21"
definition ACT_CREATE_ROOM_DONE :: u32 where "ACT_CREATE_ROOM_DONE = 22"
definition ACT_INVITE_CONFIRM :: u32 where "ACT_INVITE_CONFIRM = 23"
definition ACT_INVITE_USER_DONE :: u32 where "ACT_INVITE_USER_DONE = 24"
definition ACT_SYS_SELECT :: u32 where "ACT_SYS_SELECT = 30"
definition ACT_SYS_USER_DONE :: u32 where "ACT_SYS_USER_DONE = 31"
definition ACT_SYS_PASS_DONE :: u32 where "ACT_SYS_PASS_DONE = 32"
definition ACT_SYS_SRV_DONE :: u32 where "ACT_SYS_SRV_DONE = 33"
definition ACT_SYS_KEY_DONE :: u32 where "ACT_SYS_KEY_DONE = 34"
definition ACT_SYS_RESET_CONFIRM :: u32 where "ACT_SYS_RESET_CONFIRM = 35"
definition SYS_USER :: u32 where "SYS_USER = 1"
definition SYS_PASS :: u32 where "SYS_PASS = 2"
definition SYS_SRV :: u32 where "SYS_SRV = 3"
definition SYS_KEY :: u32 where "SYS_KEY = 4"
definition SYS_LOGIN :: u32 where "SYS_LOGIN = 5"
definition SYS_RESET :: u32 where "SYS_RESET = 6"
definition ACT_CHAT_KEY :: u32 where "ACT_CHAT_KEY = 40"
definition ACT_CHAT_REPLY_DONE :: u32 where "ACT_CHAT_REPLY_DONE = 41"
definition ACT_KEY_EVENT :: u32 where "ACT_KEY_EVENT = 50"

section \<open>User interface calls\<close>

datatype mx_icon =
  Ico_none | Ico_info | Ico_error | Ico_success | Ico_alert | Ico_remove | Ico_play | Ico_task
| Ico_arrow_right | Ico_inverse_bullet | Ico_circle | Ico_male | Ico_paragraph | Ico_angle | Ico_diamond

type_synonym mx_items = "(ustr \<times> u32 \<times> mx_icon) list"

text \<open>Canvas coordinates: 16-bit two's complement.\<close>

type_synonym i16 = "16 word"

datatype mx_ui =
  Toast ustr mx_icon nat
| Confirm ustr mx_icon u32
| Input_t9 ustr "ustr option" nat u32
| Input_password ustr "ustr option" nat u32
| List_replace ustr u32 "u32 option" mx_items
| List_push ustr u32 "u32 option" mx_items
| Menu_push ustr u32 mx_items
| Footer ustr
| Pop_top
| Pop_to_plugin
| Subscribe_keys u32
| Canvas_push ustr u32
| Canvas_footer ustr
| Canvas_clear
| Canvas_text i16 i16 ustr
| Canvas_commit

section \<open>Room list\<close>

text \<open>\<open>order.sort_by(..)\<close> on the storage indices: a stable sort, invitations first, then newest
  first (\<open>- 1 - t\<close> reverses the order of the timestamps).\<close>

definition room_rank :: "room \<Rightarrow> bool \<times> u64" where
  "room_rank r = (\<not> r_invited r, - 1 - r_last_ts r)"

definition room_order :: "room list \<Rightarrow> nat list" where
  "room_order rooms = sort_key (\<lambda>i. room_rank (rooms ! i)) [0..<length rooms]"

definition room_icon :: "room \<Rightarrow> mx_icon" where
  "room_icon r =
    (if r_invited r then Ico_alert
     else if r_unread r then Ico_inverse_bullet
     else if r_is_dm r then Ico_success
     else if r_encrypted r then Ico_circle
     else Ico_none)"

definition room_items :: "(string \<Rightarrow> ustr) \<Rightarrow> room list \<Rightarrow> bool \<Rightarrow> mx_items" where
  "room_items tr rooms configured =
    (if rooms = [] then [(tr (if configured then ''no_rooms'' else ''not_configured''), 0, Ico_info)]
     else map (\<lambda>i. (r_name (rooms ! i), of_nat i, room_icon (rooms ! i))) (room_order rooms))"

definition render_room_list :: "(string \<Rightarrow> ustr) \<Rightarrow> ustr \<Rightarrow> room list \<Rightarrow> bool \<Rightarrow> mx_ui list" where
  "render_room_list tr title rooms configured =
     [List_replace title ACT_ROOM_SELECT (Some ACT_ROOM_MENU) (room_items tr rooms configured),
      Footer (tr ''hint_rooms'')]"

section \<open>Menus\<close>

definition open_room_menu :: "(string \<Rightarrow> ustr) \<Rightarrow> ustr \<Rightarrow> bool \<Rightarrow> mx_ui list" where
  "open_room_menu tr title invited =
     [Menu_push title ACT_ROOM_CTX_PICK
       ((if invited
         then [(tr ''menu_accept'', CTX_ACCEPT, Ico_success), (tr ''menu_reject'', CTX_REJECT, Ico_remove)]
         else [(tr ''menu_join'', CTX_JOIN, Ico_arrow_right), (tr ''menu_create'', CTX_CREATE, Ico_play),
               (tr ''menu_delete'', CTX_DELETE, Ico_remove)])
        @ [(tr ''menu_system'', CTX_SYSTEM, Ico_task)])]"

definition open_chat_menu :: "(string \<Rightarrow> ustr) \<Rightarrow> ustr \<Rightarrow> mx_ui list" where
  "open_chat_menu tr title =
     [Menu_push title ACT_ROOM_CTX_PICK [(tr ''menu_invite'', CTX_INVITE, Ico_arrow_right)]]"

section \<open>System screen\<close>

abbreviation or_dash :: "ustr \<Rightarrow> ustr" where
  "or_dash s \<equiv> (if s = [] then lit ''-'' else s)"

definition render_system :: "(string \<Rightarrow> ustr) \<Rightarrow> config \<Rightarrow> bool \<Rightarrow> mx_ui list" where
  "render_system tr cfg rep =
    (let items =
       [(tr ''sys_user'' @ lit '': '' @ or_dash (cfg_user cfg), SYS_USER, Ico_male),
        (tr ''sys_pass'' @ lit '': ****'', SYS_PASS, Ico_paragraph),
        (tr ''sys_server'' @ lit '': '' @ or_dash (cfg_server cfg), SYS_SRV, Ico_angle),
        (tr ''sys_key'' @ lit '': ****'', SYS_KEY, Ico_diamond),
        (tr ''sys_login'', SYS_LOGIN, Ico_play),
        (tr ''sys_reset'', SYS_RESET, Ico_alert)]
     in [if rep then List_replace (tr ''sys_title'') ACT_SYS_SELECT None items
         else List_push (tr ''sys_title'') ACT_SYS_SELECT None items,
         Footer (tr ''hint_system'')])"

text \<open>The view it opens, if the row is a field; reading a secret may migrate it.\<close>

definition open_field_editor ::
  "'w store_host \<Rightarrow> (string \<Rightarrow> ustr) \<Rightarrow> u32 \<Rightarrow> config \<Rightarrow> 'w \<Rightarrow> mx_ui option \<times> 'w" where
  "open_field_editor h tr fld cfg w =
    (if fld = SYS_USER then (Some (Input_t9 (tr ''sys_user'') (Some (cfg_user cfg)) 128 ACT_SYS_USER_DONE), w)
     else if fld = SYS_PASS then
       (case load_password h w of
          (p, w) \<Rightarrow> (Some (Input_password (tr ''sys_pass'') (Some (or_empty p)) 128 ACT_SYS_PASS_DONE), w))
     else if fld = SYS_SRV then
       (Some (Input_t9 (tr ''sys_server'') (Some (cfg_server cfg)) 200 ACT_SYS_SRV_DONE), w)
     else if fld = SYS_KEY then
       (case load_recovery_key h w of
          (k, w) \<Rightarrow> (Some (Input_password (tr ''sys_key'') (Some (or_empty k)) 120 ACT_SYS_KEY_DONE), w))
     else (None, w))"

section \<open>Chat\<close>

definition CHAR_W :: nat where "CHAR_W = 6"
definition CHAT_LINE_H :: nat where "CHAT_LINE_H = 10"

text \<open>\<open>chunks(cols)\<close> of a line, an empty line staying one line.\<close>

function chunks :: "nat \<Rightarrow> 'a list \<Rightarrow> 'a list list" where
  "chunks n xs = (if xs = [] \<or> n = 0 then [] else take n xs # chunks n (drop n xs))"
  by pat_completeness auto
termination
  by (relation "measure (\<lambda>(n, xs). length xs)") auto

declare chunks.simps [simp del]

definition message_line :: "(string \<Rightarrow> ustr) \<Rightarrow> message \<Rightarrow> ustr" where
  "message_line tr m =
     msg_sender m @ lit '': '' @ (if msg_encrypted m then tr ''decrypt_failed'' else msg_body m)"

definition wrap_line :: "nat \<Rightarrow> ustr \<Rightarrow> ustr list" where
  "wrap_line cols line = (if line = [] then [[]] else chunks cols line)"

definition chat_lines :: "(string \<Rightarrow> ustr) \<Rightarrow> nat \<Rightarrow> message list \<Rightarrow> ustr list" where
  "chat_lines tr cols ms = concat (map (\<lambda>m. wrap_line cols (message_line tr m)) ms)"

text \<open>The calls and the clamped scroll offset; \<open>(w, h)\<close> is \<open>canvas::body_size()\<close>.\<close>

definition draw_chat :: "(string \<Rightarrow> ustr) \<Rightarrow> u16 \<times> u16 \<Rightarrow> room \<Rightarrow> nat \<Rightarrow> mx_ui list \<times> nat" where
  "draw_chat tr area room scroll =
    (let cols = max (unat (fst area) div CHAR_W) 1;
         rows = max (unat (snd area) div CHAT_LINE_H) 1;
         lines = chat_lines tr cols (r_messages room)
     in if lines = [] then ([Canvas_clear, Canvas_text 0 2 (tr ''no_messages''), Canvas_commit], 0)
        else
          let total = length lines;
              scroll = min scroll (total - rows);
              stop = total - scroll;
              start = stop - rows;
              visible = take (stop - start) (drop start lines);
              base = snd area;
              text = (\<lambda>i. Canvas_text 0 (base - of_nat (length visible - i) * of_nat CHAT_LINE_H) (visible ! i))
          in (Canvas_clear # map text [0..<length visible] @ [Canvas_commit], scroll))"

definition push_chat :: "(string \<Rightarrow> ustr) \<Rightarrow> u16 \<times> u16 \<Rightarrow> room \<Rightarrow> mx_ui list" where
  "push_chat tr area room =
     [Canvas_push (r_name room) ACT_CHAT_KEY, Canvas_footer (tr ''hint_chat'')] @
     fst (draw_chat tr area room 0)"

end
