(* ===== verification/Matrix_App.thy ===== *)
theory Matrix_App
  imports Matrix_Client Matrix_Crypto Matrix_Views
begin

text \<open>
  The Matrix plugin itself (\<open>plugins/matrix/src/lib.rs\<close>): session, rooms, sync, sending, the
  background distribution of room keys, and the exports the firmware calls.

  The statics of the file are the record \<open>mst\<close>; its first field is the world of the host calls,
  its second the user interface calls made so far. A static \<open>PluginCell\<close> is borrowed only within
  one statement or block of the single thread, so the cells are plain fields. \<open>mx_host\<close> collects
  the firmware's calls and the external crates. Log lines are not modelled.
\<close>

section \<open>State\<close>

datatype view = RoomList | System | Chat | Composing | EditingField

record olm_target =
  ot_user_id :: ustr
  ot_device_id :: ustr
  ot_curve :: ustr
  ot_ed :: ustr
  ot_otk :: "ustr option"

record pending_dist =
  pd_sess :: session
  pd_room_id :: ustr
  pd_session_id :: ustr
  pd_session_key :: ustr
  pd_my_curve :: ustr
  pd_my_ed :: ustr
  pd_targets :: "olm_target list"
  pd_next :: nat
  pd_msgs :: "(ustr \<times> ustr list) list"
  pd_retries :: u8

record ('w, 'acc, 'ib, 'gs, 'os, 'pk) mst =
  world :: 'w
  mx_ui :: "mx_ui list"
  session :: "session option"
  rooms :: "room list"
  open_room :: "ustr option"
  menu_target :: "ustr option"
  pending_delete :: "ustr option"
  cur_view :: view
  txn :: u64
  crypto :: "('acc, 'ib, 'gs, 'os, 'pk) crypto option"
  uploaded :: bool
  otk_count :: u32
  crypto_hash :: u64
  last_poll_ms :: u64
  scroll :: nat
  pending_dists :: "pending_dist list"

record ('w, 'v, 'acc, 'ib, 'gs, 'os, 'pk) mx_host =
  hhttp :: "'w http_host"
  hstore :: "'w store_host"
  hjson :: "'v serde"
  hslice :: "u8 list \<Rightarrow> 'v option"
  hvoz :: "('w, 'acc, 'ib, 'gs, 'os, 'pk) voz"
  uptime_ms :: "'w \<Rightarrow> u64"
  consume_input_text :: "nat \<Rightarrow> 'w \<Rightarrow> ustr option \<times> 'w"
  body_area :: "'w \<Rightarrow> u16 \<times> u16"
  tr :: "string \<Rightarrow> ustr"
  app_title :: ustr

definition KEY_Y :: u32 where "KEY_Y = 89"
definition KEY_N :: u32 where "KEY_N = 78"
definition KEY_SYNC :: u32 where "KEY_SYNC = 49"
definition KEY_UP :: u32 where "KEY_UP = 50"
definition KEY_DOWN :: u32 where "KEY_DOWN = 56"
definition KEY_MENU :: u32 where "KEY_MENU = 51"
definition MX_POLL_INTERVAL_MS :: u64 where "MX_POLL_INTERVAL_MS = 6000"
definition OTK_TARGET :: u32 where "OTK_TARGET = 20"
definition DIST_CHUNK :: nat where "DIST_CHUNK = 4"
definition DIST_MAX_RETRIES :: u8 where "DIST_MAX_RETRIES = 3"

text \<open>The plugin's statics as they are initialised.\<close>

definition init_mst :: "'w \<Rightarrow> ('w, 'acc, 'ib, 'gs, 'os, 'pk) mst" where
  "init_mst w = \<lparr>world = w, mx_ui = [], session = None, rooms = [], open_room = None,
     menu_target = None, pending_delete = None, cur_view = RoomList, txn = 0, crypto = None,
     uploaded = False, otk_count = 0, crypto_hash = 0, last_poll_ms = 0, scroll = 0,
     pending_dists = []\<rparr>"

section \<open>Access to the host and the cells\<close>

definition hostM :: "('w \<Rightarrow> 'r \<times> 'w) \<Rightarrow> (('w, 'acc, 'ib, 'gs, 'os, 'pk) mst, 'r) state" where
  "hostM f = State (\<lambda>st. case f (world st) of (r, w) \<Rightarrow> (r, st\<lparr>world := w\<rparr>))"

definition hostU :: "('w \<Rightarrow> 'w) \<Rightarrow> (('w, 'acc, 'ib, 'gs, 'os, 'pk) mst, unit) state" where
  "hostU f = hostM (\<lambda>w. ((), f w))"

definition net :: "('w, 'r) state \<Rightarrow> (('w, 'acc, 'ib, 'gs, 'os, 'pk) mst, 'r) state" where
  "net m = hostM (run_state m)"

definition ui :: "mx_ui list \<Rightarrow> (('w, 'acc, 'ib, 'gs, 'os, 'pk) mst, unit) state" where
  "ui es = modify (\<lambda>st. st\<lparr>mx_ui := mx_ui st @ es\<rparr>)"

text \<open>\<open>CRYPTO.borrow_mut().as_mut()\<close>: \<open>d\<close> is the result without a live instance.\<close>

definition on_crypto ::
  "'r \<Rightarrow> (('acc, 'ib, 'gs, 'os, 'pk) crypto \<Rightarrow> 'w \<Rightarrow> 'r \<times> ('acc, 'ib, 'gs, 'os, 'pk) crypto \<times> 'w)
   \<Rightarrow> (('w, 'acc, 'ib, 'gs, 'os, 'pk) mst, 'r) state" where
  "on_crypto d f = State (\<lambda>st.
     case crypto st of
       None \<Rightarrow> (d, st)
     | Some c \<Rightarrow> (case f c (world st) of (r, c, w) \<Rightarrow> (r, st\<lparr>crypto := Some c, world := w\<rparr>)))"

definition read_crypto ::
  "'r \<Rightarrow> (('acc, 'ib, 'gs, 'os, 'pk) crypto \<Rightarrow> 'r) \<Rightarrow> (('w, 'acc, 'ib, 'gs, 'os, 'pk) mst, 'r) state" where
  "read_crypto d f = gets (\<lambda>st. case crypto st of None \<Rightarrow> d | Some c \<Rightarrow> f c)"

definition toast :: "('w, 'v, 'acc, 'ib, 'gs, 'os, 'pk) mx_host \<Rightarrow> string \<Rightarrow> mx_icon \<Rightarrow> nat
   \<Rightarrow> (('w, 'acc, 'ib, 'gs, 'os, 'pk) mst, unit) state" where
  "toast h key icon ms = ui [Toast (tr h key) icon ms]"

definition set_view :: "view \<Rightarrow> (('w, 'acc, 'ib, 'gs, 'os, 'pk) mst, unit) state" where
  "set_view v = modify (\<lambda>st. st\<lparr>cur_view := v\<rparr>)"

definition find_room :: "ustr \<Rightarrow> room list \<Rightarrow> room option" where
  "find_room i rs = find (\<lambda>r. r_id r = i) rs"

text \<open>\<open>rooms.iter_mut().find(|r| r.id == i)\<close> and a change of the room found.\<close>

fun change_room :: "ustr \<Rightarrow> (room \<Rightarrow> room) \<Rightarrow> room list \<Rightarrow> room list" where
  "change_room i f [] = []"
| "change_room i f (r # rs) = (if r_id r = i then f r # rs else r # change_room i f rs)"

definition update_room ::
  "ustr \<Rightarrow> (room \<Rightarrow> room) \<Rightarrow> (('w, 'acc, 'ib, 'gs, 'os, 'pk) mst, unit) state" where
  "update_room i f = modify (\<lambda>st. st\<lparr>rooms := change_room i f (rooms st)\<rparr>)"

definition room_name_or_id :: "ustr \<Rightarrow> ('w, 'acc, 'ib, 'gs, 'os, 'pk) mst \<Rightarrow> ustr" where
  "room_name_or_id i st = (case find_room i (rooms st) of Some r \<Rightarrow> r_name r | None \<Rightarrow> i)"

definition fnv1a :: "u8 list \<Rightarrow> u64" where
  "fnv1a bs = foldl (\<lambda>h b. (h XOR ucast b) * 0x100000001b3) 0xcbf29ce484222325 bs"

section \<open>Crypto state and backup\<close>

definition persist_crypto where
  "persist_crypto h = do {
     bytes \<leftarrow> read_crypto None (\<lambda>c. Some (export_state (hvoz h) c));
     case bytes of
       None \<Rightarrow> ret ()
     | Some bs \<Rightarrow> do {
         old \<leftarrow> gets crypto_hash;
         if fnv1a bs = old then ret ()
         else do {
           hostU (save_crypto_state (hstore h) bs);
           modify (\<lambda>st. st\<lparr>crypto_hash := fnv1a bs\<rparr>)
         }
       }
   }"

text \<open>The first secret entry that authenticates under the recovery key.\<close>

fun first_backup_key ::
  "('w, 'acc, 'ib, 'gs, 'os, 'pk) voz \<Rightarrow> u8 list \<Rightarrow> (ustr \<times> ustr \<times> ustr \<times> ustr) list \<Rightarrow> u8 list option" where
  "first_backup_key z ssss [] = None"
| "first_backup_key z ssss ((_, ct, iv, mac) # es) =
    (case ssss_decrypt_backup_key z ssss ct iv mac of
       Some key \<Rightarrow> Some key
     | None \<Rightarrow> first_backup_key z ssss es)"

definition setup_backup where
  "setup_backup h = do {
     reckey \<leftarrow> hostM (load_recovery_key (hstore h));
     case nonempty reckey of
       None \<Rightarrow> ret ()
     | Some k \<Rightarrow>
       (case parse_recovery_key k of
          None \<Rightarrow> ret ()
        | Some ssss \<Rightarrow> do {
            sess \<leftarrow> gets session;
            case sess of
              None \<Rightarrow> ret ()
            | Some s \<Rightarrow> do {
                body \<leftarrow> net (account_data (hhttp h) s (lit ''m.megolm_backup.v1''));
                case body of
                  None \<Rightarrow> ret ()
                | Some b \<Rightarrow>
                  (case first_backup_key (hvoz h) ssss (parse_ssss_secret (hjson h) b) of
                     None \<Rightarrow> ret ()
                   | Some key \<Rightarrow> on_crypto () (\<lambda>c w. ((), set_backup_key (hvoz h) key c, w)))
              }
          })
   }"

definition import_backup_all ::
  "('w, 'v, 'acc, 'ib, 'gs, 'os, 'pk) mx_host \<Rightarrow> backup_session list
   \<Rightarrow> ('acc, 'ib, 'gs, 'os, 'pk) crypto \<Rightarrow> ('acc, 'ib, 'gs, 'os, 'pk) crypto" where
  "import_backup_all h bss c =
     fold (\<lambda>bs c. snd (import_backup_session (hvoz h) (hjson h) (hslice h) (bs_room_id bs)
       (bs_session_id bs) (bs_ciphertext bs) (bs_mac bs) (bs_ephemeral bs) c)) bss c"

definition refresh_backup where
  "refresh_backup h = do {
     sess \<leftarrow> gets session;
     armed \<leftarrow> read_crypto False has_backup;
     case sess of
       None \<Rightarrow> ret ()
     | Some s \<Rightarrow>
       if \<not> armed then ret ()
       else do {
         version \<leftarrow> net (backup_version (hhttp h) (hjson h) s);
         case version of
           None \<Rightarrow> ret ()
         | Some v \<Rightarrow> do {
             body \<leftarrow> net (backup_keys (hhttp h) s v);
             case body of
               None \<Rightarrow> ret ()
             | Some b \<Rightarrow> do {
                 on_crypto () (\<lambda>c w. ((), import_backup_all h (parse_backup (hjson h) b) c, w));
                 persist_crypto h
               }
           }
       }
   }"

text \<open>\<open>init_crypto\<close>: a live instance only repeats the backup setup; otherwise the account is
  loaded, or created when none is stored.\<close>

definition load_or_create where
  "load_or_create h = do {
     acct \<leftarrow> hostM (load_account (hstore h));
     case Option.bind acct (from_account_pickle (hvoz h)) of
       Some c \<Rightarrow> ret (Some c)
     | None \<Rightarrow> do {
         w \<leftarrow> gets world;
         if has_account (hstore h) w then ret None
         else do {
           fresh \<leftarrow> hostM (crypto_create (hvoz h));
           saved \<leftarrow> hostM (save_account (hstore h) (account_pickle (hvoz h) fresh));
           if saved then ret (Some fresh)
           else do { toast h ''crypto_init_failed'' Ico_error 2500; ret None }
         }
       }
   }"

definition init_crypto where
  "init_crypto h = do {
     live \<leftarrow> gets crypto;
     case live of
       Some c \<Rightarrow> do {
         setup_backup h;
         n \<leftarrow> read_crypto 0 session_count;
         if 0 < n then ret () else refresh_backup h
       }
     | None \<Rightarrow> do {
         oc \<leftarrow> load_or_create h;
         case oc of
           None \<Rightarrow> ret ()
         | Some c \<Rightarrow> do {
             saved \<leftarrow> hostM (load_crypto_state (hstore h));
             c \<leftarrow> (case saved of
                     None \<Rightarrow> ret c
                   | Some bs \<Rightarrow> do {
                       modify (\<lambda>st. st\<lparr>crypto_hash := fnv1a bs\<rparr>);
                       ret (import_state (hvoz h) bs c)
                     });
             modify (\<lambda>st. st\<lparr>crypto := Some c\<rparr>);
             setup_backup h;
             if 0 < session_count c then ret () else refresh_backup h
           }
       }
   }"

definition backup_body :: "ustr \<Rightarrow> ustr \<Rightarrow> ustr \<times> ustr \<times> ustr \<Rightarrow> ustr" where
  "backup_body room sid blob =
    (case blob of
       (ct, mac, eph) \<Rightarrow>
         lit ''{\"rooms\":{'' @ quoted room @ lit '':{\"sessions\":{'' @ quoted sid @
         lit '':{\"first_message_index\":0,\"forwarded_count\":0,\"is_verified\":false,'' @
         lit ''\"session_data\":{\"ciphertext\":'' @ quoted ct @ lit '',\"mac\":'' @ quoted mac @
         lit '',\"ephemeral\":'' @ quoted eph @ lit ''}}}}}}'')"

definition backup_room_key where
  "backup_room_key h s room sid = do {
     version \<leftarrow> net (backup_version (hhttp h) (hjson h) s);
     case version of
       None \<Rightarrow> ret ()
     | Some v \<Rightarrow> do {
         blob \<leftarrow> on_crypto None (\<lambda>c w. case backup_session_blob (hvoz h) sid c w of (r, w) \<Rightarrow> (r, c, w));
         case blob of
           None \<Rightarrow> ret ()
         | Some b \<Rightarrow> do { net (put_backup_keys (hhttp h) s v (backup_body room sid b)); ret () }
       }
   }"

definition next_txn where
  "next_txn h = do {
     modify (\<lambda>st. st\<lparr>txn := txn st + 1\<rparr>);
     gets (\<lambda>st. uptime_ms h (world st) * 1000 + txn st)
   }"

definition normalize_server :: "ustr \<Rightarrow> ustr" where
  "normalize_server raw =
    (let s = trim_end_matches (\<lambda>c. c = 47) (trim raw);
         host = (case strip_prefix (lit ''http://'') s of Some r \<Rightarrow> r | None \<Rightarrow> s)
     in if host = [] then []
        else if starts_with (lit ''https://'') host then host
        else lit ''https://'' @ host)"

definition render_rooms where
  "render_rooms h = do {
     set_view RoomList;
     rs \<leftarrow> gets rooms;
     sess \<leftarrow> gets session;
     ui (render_room_list (tr h) (app_title h) rs (sess \<noteq> None))
   }"

section \<open>Key distribution\<close>

text \<open>\<open>BTreeMap::entry(k).or_default().push(v)\<close>; the map is the list of its entries by key.\<close>

fun btree_push :: "ustr \<Rightarrow> 'a \<Rightarrow> (ustr \<times> 'a list) list \<Rightarrow> (ustr \<times> 'a list) list" where
  "btree_push k v [] = [(k, [v])]"
| "btree_push k v ((k', vs) # m) =
    (if k = k' then (k', vs @ [v]) # m
     else if k < k' then (k, [v]) # (k', vs) # m
     else (k', vs) # btree_push k v m)"

definition build_claim_json :: "device_key list \<Rightarrow> ustr" where
  "build_claim_json devices =
    (let by_user = fold (\<lambda>d m. btree_push (dk_user_id d) (dk_device_id d) m) devices [];
         users = map (\<lambda>(u, devs).
           quoted u @ lit '':{'' @ join (lit '','') (map (\<lambda>d. quoted d @ lit '':\"signed_curve25519\"'') devs) @
           lit ''}'') by_user
     in lit ''{'' @ join (lit '','') users @ lit ''}'')"

definition room_key_plaintext :: "session \<Rightarrow> ustr \<Rightarrow> ustr \<Rightarrow> ustr \<Rightarrow> ustr \<Rightarrow> ustr \<Rightarrow> ustr \<Rightarrow> ustr" where
  "room_key_plaintext s to_user to_ed room sid skey my_ed =
     lit ''{\"type\":\"m.room_key\",\"content\":{\"algorithm\":\"m.megolm.v1.aes-sha2\",\"room_id\":'' @ quoted room @
     lit '',\"session_id\":'' @ quoted sid @ lit '',\"session_key\":'' @ quoted skey @
     lit ''},\"sender\":'' @ quoted (user_id s) @ lit '',\"sender_device\":'' @ quoted (device_id s) @
     lit '',\"keys\":{\"ed25519\":'' @ quoted my_ed @ lit ''},\"recipient\":'' @ quoted to_user @
     lit '',\"recipient_keys\":{\"ed25519\":'' @ quoted to_ed @ lit ''}}''"

text \<open>The one-time keys claimed, by the curve key of the device they belong to.\<close>

definition claimed_keys :: "device_key list \<Rightarrow> claimed_otk list \<Rightarrow> (ustr \<rightharpoonup> ustr)" where
  "claimed_keys devices otks =
     fold (\<lambda>otk m.
       case find (\<lambda>d. dk_user_id d = co_user_id otk \<and> dk_device_id d = co_device_id otk) devices of
         None \<Rightarrow> m
       | Some d \<Rightarrow> m(dk_curve d \<mapsto> co_key otk)) otks Map.empty"

text \<open>The recipients: reuse a session, or take the claimed key out of the map; others are dropped.\<close>

fun build_targets :: "(ustr \<Rightarrow> bool) \<Rightarrow> device_key list \<Rightarrow> (ustr \<rightharpoonup> ustr) \<Rightarrow> olm_target list" where
  "build_targets has [] m = []"
| "build_targets has (d # ds) m =
    (let target = (\<lambda>otk. \<lparr>ot_user_id = dk_user_id d, ot_device_id = dk_device_id d,
           ot_curve = dk_curve d, ot_ed = dk_ed d, ot_otk = otk\<rparr>)
     in if has (dk_curve d) then target None # build_targets has ds m
        else
          (case m (dk_curve d) of
             None \<Rightarrow> build_targets has ds m
           | Some k \<Rightarrow> target (Some k) # build_targets has ds (m(dk_curve d := None))))"

definition enqueue_distribution where
  "enqueue_distribution h s room members sid skey my_curve my_ed = do {
     body \<leftarrow> net (keys_query (hhttp h) s members);
     let devices = filter (\<lambda>d. dk_curve d \<noteq> my_curve)
           (case body of None \<Rightarrow> [] | Some b \<Rightarrow> parse_keys_query (hjson h) b);
     has \<leftarrow> read_crypto (\<lambda>_. False) (\<lambda>c k. has_olm_session k c);
     let need = filter (\<lambda>d. \<not> has (dk_curve d)) devices;
     otks \<leftarrow> (if need = [] then ret Map.empty
             else do {
               claim \<leftarrow> net (keys_claim (hhttp h) s (build_claim_json need));
               ret (case claim of
                      None \<Rightarrow> Map.empty
                    | Some b \<Rightarrow> claimed_keys devices (parse_keys_claim (hjson h) b))
             });
     let targets = build_targets has devices otks;
     if targets = [] then ret ()
     else modify (\<lambda>st. st\<lparr>pending_dists := pending_dists st @
       [\<lparr>pd_sess = s, pd_room_id = room, pd_session_id = sid, pd_session_key = skey,
         pd_my_curve = my_curve, pd_my_ed = my_ed, pd_targets = targets, pd_next = 0,
         pd_msgs = [], pd_retries = 0\<rparr>]\<rparr>)
   }"

text \<open>One recipient: a session is established if there is none, the room key wrapped and added to
  the messages.\<close>

definition olm_content :: "pending_dist \<Rightarrow> olm_target \<Rightarrow> u8 \<Rightarrow> ustr \<Rightarrow> ustr" where
  "olm_content pd t kind body =
     lit ''{\"algorithm\":\"m.olm.v1.curve25519-aes-sha2\",\"sender_key\":'' @ quoted (pd_my_curve pd) @
     lit '',\"ciphertext\":{'' @ quoted (ot_curve t) @ lit '':{\"type\":'' @ show_nat (unat kind) @
     lit '',\"body\":'' @ quoted body @ lit ''}}}''"

definition ensure_olm ::
  "('w, 'acc, 'ib, 'gs, 'os, 'pk) voz \<Rightarrow> olm_target \<Rightarrow> ('acc, 'ib, 'gs, 'os, 'pk) crypto \<Rightarrow> 'w
   \<Rightarrow> bool \<times> ('acc, 'ib, 'gs, 'os, 'pk) crypto \<times> 'w" where
  "ensure_olm z t c w =
    (if has_olm_session (ot_curve t) c then (True, c, w)
     else
       (case ot_otk t of
          None \<Rightarrow> (False, c, w)
        | Some otk \<Rightarrow>
          (case establish_olm z (ot_curve t) otk c w of
             (_, c, w) \<Rightarrow> (has_olm_session (ot_curve t) c, c, w))))"

definition wrap_target ::
  "('w, 'acc, 'ib, 'gs, 'os, 'pk) voz \<Rightarrow> pending_dist \<Rightarrow> olm_target \<Rightarrow> (ustr \<times> ustr list) list
   \<Rightarrow> ('acc, 'ib, 'gs, 'os, 'pk) crypto \<Rightarrow> 'w
   \<Rightarrow> (ustr \<times> ustr list) list \<times> ('acc, 'ib, 'gs, 'os, 'pk) crypto \<times> 'w" where
  "wrap_target z pd t msgs c w =
    (case ensure_olm z t c w of
       (go, c, w) \<Rightarrow>
         if \<not> go then (msgs, c, w)
         else
           let plain = room_key_plaintext (pd_sess pd) (ot_user_id t) (ot_ed t) (pd_room_id pd)
                 (pd_session_id pd) (pd_session_key pd) (pd_my_ed pd) in
           (case olm_encrypt z (ot_curve t) plain c w of
              (None, c, w) \<Rightarrow> (msgs, c, w)
            | (Some (kind, body), c, w) \<Rightarrow>
              (btree_push (ot_user_id t) (quoted (ot_device_id t) @ lit '':'' @ olm_content pd t kind body) msgs,
               c, w)))"

fun wrap_targets where
  "wrap_targets z pd [] msgs c w = (msgs, c, w)"
| "wrap_targets z pd (t # ts) msgs c w =
    (case wrap_target z pd t msgs c w of (msgs, c, w) \<Rightarrow> wrap_targets z pd ts msgs c w)"

definition messages_json :: "(ustr \<times> ustr list) list \<Rightarrow> ustr" where
  "messages_json msgs =
     lit ''{'' @ join (lit '','') (map (\<lambda>(u, devs). quoted u @ lit '':{'' @ join (lit '','') devs @ lit ''}'') msgs) @
     lit ''}''"

definition set_front :: "pending_dist \<Rightarrow> (('w, 'acc, 'ib, 'gs, 'os, 'pk) mst, unit) state" where
  "set_front pd = modify (\<lambda>st. st\<lparr>pending_dists := pd # tl (pending_dists st)\<rparr>)"

text \<open>The end of \<open>process_distribution\<close>: a finished job leaves the queue.\<close>

definition finish_front where
  "finish_front h pd =
    (if length (pd_targets pd) \<le> pd_next pd then do {
       modify (\<lambda>st. st\<lparr>pending_dists := tl (pending_dists st)\<rparr>);
       q \<leftarrow> gets pending_dists;
       if q = [] then toast h ''distributed'' Ico_success 1500 else ret ()
     } else ret ())"

text \<open>Sending the collected messages: the snapshot is written first; \<open>True\<close> to go on, \<open>False\<close> for
  the early return that leaves the messages for the next tick.\<close>

definition send_front where
  "send_front h pd = do {
     persist_crypto h;
     t \<leftarrow> next_txn h;
     sent \<leftarrow> net (send_to_device (hhttp h) (pd_sess pd) (messages_json (pd_msgs pd)) t);
     if sent then do { set_front (pd\<lparr>pd_msgs := [], pd_retries := 0\<rparr>); ret True }
     else if pd_retries pd < DIST_MAX_RETRIES then do {
       set_front (pd\<lparr>pd_retries := pd_retries pd + 1\<rparr>);
       ret False
     } else do { set_front (pd\<lparr>pd_msgs := []\<rparr>); ret True }
   }"

definition process_distribution where
  "process_distribution h = do {
     q \<leftarrow> gets pending_dists;
     case q of
       [] \<Rightarrow> ret ()
     | pd # _ \<Rightarrow> do {
         let stop = min (pd_next pd + DIST_CHUNK) (length (pd_targets pd));
         ui [Toast (tr h ''distributing'' @ [10] @ show_nat (pd_next pd) @ lit ''/'' @
               show_nat (length (pd_targets pd))) Ico_none 0];
         wrapped \<leftarrow> on_crypto None (\<lambda>c w.
           case wrap_targets (hvoz h) pd (take (stop - pd_next pd) (drop (pd_next pd) (pd_targets pd)))
                  (pd_msgs pd) c w of
             (msgs, c, w) \<Rightarrow> (Some msgs, c, w));
         case wrapped of
           None \<Rightarrow> modify (\<lambda>st. st\<lparr>pending_dists := []\<rparr>)
         | Some msgs \<Rightarrow> do {
             let pd = pd\<lparr>pd_msgs := msgs, pd_next := stop\<rparr>;
             set_front pd;
             go \<leftarrow> (if msgs = [] then ret True else send_front h pd);
             whenM go (finish_front h pd)
           }
       }
   }"

definition share_outbound_key where
  "share_outbound_key h s room members = do {
     keys \<leftarrow> read_crypto None (\<lambda>c. map_option (\<lambda>(sid, skey).
         (sid, skey, identity_curve25519 (hvoz h) c, identity_ed25519 (hvoz h) c))
       (outbound_key (hvoz h) room c));
     case keys of
       None \<Rightarrow> ret ()
     | Some (sid, skey, my_curve, my_ed) \<Rightarrow>
       enqueue_distribution h s room members sid skey my_curve my_ed
   }"

section \<open>Sync\<close>

text \<open>Room keys among the to-device messages addressed to this device; counts the imported ones.\<close>

definition import_to_device ::
  "('w, 'v, 'acc, 'ib, 'gs, 'os, 'pk) mx_host \<Rightarrow> to_device_olm
   \<Rightarrow> nat \<times> ('acc, 'ib, 'gs, 'os, 'pk) crypto \<Rightarrow> nat \<times> ('acc, 'ib, 'gs, 'os, 'pk) crypto" where
  "import_to_device h td nc =
    (case nc of
       (n, c) \<Rightarrow>
         (case olm_decrypt (hvoz h) (td_sender_key td) (td_msg_type td) (td_body td) c of
            (None, c) \<Rightarrow> (n, c)
          | (Some plain, c) \<Rightarrow>
            (case parse_room_key (hjson h) plain of
               None \<Rightarrow> (n, c)
             | Some k \<Rightarrow>
               (case import_room_key (hvoz h) (rk_session_id k) (rk_session_key k) (rk_room_id k)
                       (td_sender_key td) c of
                  (b, c) \<Rightarrow> (if b then n + 1 else n, c)))))"

definition import_keys ::
  "('w, 'v, 'acc, 'ib, 'gs, 'os, 'pk) mx_host \<Rightarrow> to_device_olm list
   \<Rightarrow> ('acc, 'ib, 'gs, 'os, 'pk) crypto \<Rightarrow> bool \<times> ('acc, 'ib, 'gs, 'os, 'pk) crypto" where
  "import_keys h tds c =
    (case fold (import_to_device h)
            (filter (\<lambda>t. td_recipient t = identity_curve25519 (hvoz h) c) tds) (0, c) of
       (n, c) \<Rightarrow> (0 < n, c))"

text \<open>The timeline: a message with a Megolm payload is replaced by its plaintext if it decrypts.\<close>

definition decrypt_message ::
  "('w, 'v, 'acc, 'ib, 'gs, 'os, 'pk) mx_host \<Rightarrow> ustr \<Rightarrow> message
   \<Rightarrow> ('acc, 'ib, 'gs, 'os, 'pk) crypto \<Rightarrow> message \<times> ('acc, 'ib, 'gs, 'os, 'pk) crypto" where
  "decrypt_message h room m c =
    (case msg_enc m of
       None \<Rightarrow> (m, c)
     | Some e \<Rightarrow>
       (case decrypt_megolm (hvoz h) (hjson h) (hslice h) (ei_session e) (ei_ciphertext e) room
               (ei_sender_key e) c of
          (None, c) \<Rightarrow> (m, c)
        | (Some body, c) \<Rightarrow> (m\<lparr>msg_body := body, msg_encrypted := False, msg_enc := None\<rparr>, c)))"

fun decrypt_messages where
  "decrypt_messages h room [] c = ([], c)"
| "decrypt_messages h room (m # ms) c =
    (case decrypt_message h room m c of
       (m, c) \<Rightarrow> (case decrypt_messages h room ms c of (ms, c) \<Rightarrow> (m # ms, c)))"

fun decrypt_updates where
  "decrypt_updates h [] c = ([], c)"
| "decrypt_updates h (u # us) c =
    (case decrypt_messages h (ru_id u) (ru_messages u) c of
       (ms, c) \<Rightarrow> (case decrypt_updates h us c of (us, c) \<Rightarrow> (u\<lparr>ru_messages := ms\<rparr> # us, c)))"

text \<open>Merging one room update. A room whose name is its id takes the name of the other member.\<close>

definition rename_room :: "ustr \<Rightarrow> room_update \<Rightarrow> room \<Rightarrow> room" where
  "rename_room uid up r =
    (let r = (case ru_name up of Some n \<Rightarrow> r\<lparr>r_name := n, r_is_dm := False\<rparr> | None \<Rightarrow> r)
     in if r_name r = r_id r
        then (case find (\<lambda>(u, _). u \<noteq> uid) (ru_names up) of
                Some (u, dn) \<Rightarrow> r\<lparr>r_name := (if dn = [] then short_sender u else dn), r_is_dm := True\<rparr>
              | None \<Rightarrow> r)
        else r)"

text \<open>The members not yet known, in order, are appended and returned.\<close>

fun add_members :: "ustr list \<Rightarrow> ustr list \<Rightarrow> ustr list \<times> ustr list" where
  "add_members have [] = (have, [])"
| "add_members have (m # ms) =
    (if m \<in> set have then add_members have ms
     else (case add_members (have @ [m]) ms of (have, joined) \<Rightarrow> (have, m # joined)))"

definition merge_members :: "room_update \<Rightarrow> room \<Rightarrow> room \<times> ustr list" where
  "merge_members up r =
    (case add_members (r_members r) (ru_members up) of
       (have, joined) \<Rightarrow> (r\<lparr>r_members := filter (\<lambda>m. m \<notin> set (ru_left up)) have\<rparr>, joined))"

text \<open>What a membership change means for the room's outbound session: it is dropped when someone
  left, and is to be shared with the members who joined.\<close>

definition rotate_or_share ::
  "('w, 'acc, 'ib, 'gs, 'os, 'pk) voz \<Rightarrow> room_update \<Rightarrow> ustr list \<Rightarrow> room
   \<Rightarrow> ('acc, 'ib, 'gs, 'os, 'pk) crypto option
   \<Rightarrow> (ustr \<times> ustr list) list \<times> ('acc, 'ib, 'gs, 'os, 'pk) crypto option" where
  "rotate_or_share z up joined r oc =
    (if \<not> r_encrypted r then ([], oc)
     else
       (case oc of
          None \<Rightarrow> ([], oc)
        | Some c \<Rightarrow>
          if ru_left up \<noteq> [] then ([], Some (drop_outbound (r_id r) c))
          else if joined \<noteq> [] \<and> outbound_key z (r_id r) c \<noteq> None then ([(r_id r, joined)], oc)
          else ([], oc)))"

definition merge_room ::
  "('w, 'acc, 'ib, 'gs, 'os, 'pk) voz \<Rightarrow> bool \<Rightarrow> ustr \<Rightarrow> ustr option \<Rightarrow> room_update
   \<Rightarrow> ('acc, 'ib, 'gs, 'os, 'pk) crypto option \<Rightarrow> room
   \<Rightarrow> room \<times> (ustr \<times> ustr list) list \<times> ('acc, 'ib, 'gs, 'os, 'pk) crypto option" where
  "merge_room z full uid open_id up oc r =
    (let r = rename_room uid up r;
         r = (if ru_encrypted up then r\<lparr>r_encrypted := True\<rparr> else r);
         r = r\<lparr>r_invited := ru_invited up\<rparr>
     in case merge_members up r of
          (r, joined) \<Rightarrow>
            (case rotate_or_share z up joined r oc of
               (late, oc) \<Rightarrow>
                 let r = r\<lparr>r_last_ts := max (r_last_ts r) (ru_last_ts up)\<rparr>;
                     r = (if \<not> full \<and> ru_messages up \<noteq> [] \<and> open_id \<noteq> Some (r_id r)
                          then r\<lparr>r_unread := True\<rparr> else r);
                     r = (if full then r\<lparr>r_messages := []\<rparr> else r)
                 in (r\<lparr>r_messages := push_messages (r_messages r) (ru_messages up) RETAIN\<rparr>, late, oc)))"

text \<open>The loop over the updates: each goes to the first room of its id, or to a new room.\<close>

fun merge_into where
  "merge_into z full uid open_id up oc [] =
    (case merge_room z full uid open_id up oc (room_new (ru_id up)) of (r, late, oc) \<Rightarrow> ([r], late, oc))"
| "merge_into z full uid open_id up oc (r # rs) =
    (if r_id r = ru_id up
     then (case merge_room z full uid open_id up oc r of (r, late, oc) \<Rightarrow> (r # rs, late, oc))
     else (case merge_into z full uid open_id up oc rs of (rs, late, oc) \<Rightarrow> (r # rs, late, oc)))"

fun merge_all where
  "merge_all z full uid open_id [] oc rs = (rs, [], oc)"
| "merge_all z full uid open_id (up # ups) oc rs =
    (case merge_into z full uid open_id up oc rs of
       (rs, late, oc) \<Rightarrow>
         (case merge_all z full uid open_id ups oc rs of (rs, later, oc) \<Rightarrow> (rs, late @ later, oc)))"

definition forget_rooms :: "ustr list \<Rightarrow> room list \<Rightarrow> room list" where
  "forget_rooms ids rs = fold (\<lambda>i rs. filter (\<lambda>r. r_id r \<noteq> i) rs) ids rs"

definition merge_updates where
  "merge_updates h full uid ups left = do {
     late \<leftarrow> State (\<lambda>st.
       case merge_all (hvoz h) full uid (open_room st) ups (crypto st) (rooms st) of
         (rs, late, oc) \<Rightarrow> (late, st\<lparr>rooms := rs, crypto := oc\<rparr>));
     modify (\<lambda>st. st\<lparr>rooms := forget_rooms left (rooms st)\<rparr>);
     modify (\<lambda>st. case open_room st of
                    None \<Rightarrow> st
                  | Some i \<Rightarrow> if i \<in> set left then st\<lparr>open_room := None\<rparr> else st);
     ret late
   }"

definition sync_now where
  "sync_now h full = do {
     sess \<leftarrow> gets session;
     case sess of
       None \<Rightarrow> ret ()
     | Some s \<Rightarrow> do {
         result \<leftarrow> net (client_sync (hhttp h) (hjson h) s full);
         case result of
           None \<Rightarrow> ret ()
         | Some sr \<Rightarrow> do {
             (case sr_otk_count sr of None \<Rightarrow> ret () | Some n \<Rightarrow> modify (\<lambda>st. st\<lparr>otk_count := n\<rparr>));
             whenM (sr_next_batch sr \<noteq> [])
               (modify (\<lambda>st. st\<lparr>session := map_option (\<lambda>s. s\<lparr>next_batch := sr_next_batch sr\<rparr>) (session st)\<rparr>));
             imported \<leftarrow> on_crypto False (\<lambda>c w. case import_keys h (sr_to_device sr) c of (b, c) \<Rightarrow> (b, c, w));
             whenM imported (persist_crypto h);
             ups \<leftarrow> on_crypto (sr_rooms sr) (\<lambda>c w.
               case decrypt_updates h (sr_rooms sr) c of (us, c) \<Rightarrow> (us, c, w));
             late \<leftarrow> merge_updates h full (user_id s) ups (sr_left sr);
             for_each late (\<lambda>(room, members). share_outbound_key h s room members)
           }
       }
   }"

section \<open>Opening a chat\<close>

definition show_open_chat where
  "show_open_chat h = do {
     i \<leftarrow> gets open_room;
     case i of
       None \<Rightarrow> ret ()
     | Some i \<Rightarrow> do {
         set_view Chat;
         sc \<leftarrow> gets scroll;
         r \<leftarrow> gets (\<lambda>st. find_room i (rooms st));
         area \<leftarrow> gets (\<lambda>st. body_area h (world st));
         case r of
           None \<Rightarrow> ret ()
         | Some r \<Rightarrow>
           (case draw_chat (tr h) area r sc of
              (calls, sc) \<Rightarrow> do { ui calls; modify (\<lambda>st. st\<lparr>scroll := sc\<rparr>) })
       }
   }"

definition backfill_history where
  "backfill_history h i = do {
     sess \<leftarrow> gets session;
     case sess of
       None \<Rightarrow> ret ()
     | Some s \<Rightarrow> do {
         body \<leftarrow> net (room_messages (hhttp h) s i 20);
         case body of
           None \<Rightarrow> ret ()
         | Some b \<Rightarrow> do {
             let msgs = parse_messages_chunk (hjson h) b;
             if msgs = [] then ret ()
             else do {
               msgs \<leftarrow> on_crypto msgs (\<lambda>c w. case decrypt_messages h i msgs c of (ms, c) \<Rightarrow> (ms, c, w));
               update_room i (\<lambda>r. if r_messages r = []
                 then r\<lparr>r_messages := push_messages (r_messages r) msgs RETAIN\<rparr> else r)
             }
           }
       }
   }"

definition prompt_accept_invite where
  "prompt_accept_invite h i = do {
     name \<leftarrow> gets (room_name_or_id i);
     modify (\<lambda>st. st\<lparr>menu_target := Some i\<rparr>);
     ui [Confirm (name @ lit '': '' @ tr h ''invite_confirm'') Ico_alert ACT_INVITE_CONFIRM]
   }"

definition open_chat where
  "open_chat h index = do {
     rs \<leftarrow> gets rooms;
     if length rs \<le> unat index then ret ()
     else do {
       let i = r_id (rs ! unat index);
       if r_invited (rs ! unat index) then prompt_accept_invite h i
       else do {
         modify (\<lambda>st. st\<lparr>open_room := Some i\<rparr>);
         set_view Chat;
         modify (\<lambda>st. st\<lparr>scroll := 0\<rparr>);
         update_room i (\<lambda>r. r\<lparr>r_unread := False\<rparr>);
         blank \<leftarrow> gets (\<lambda>st. case find_room i (rooms st) of Some r \<Rightarrow> r_messages r = [] | None \<Rightarrow> False);
         whenM blank (backfill_history h i);
         r \<leftarrow> gets (\<lambda>st. find_room i (rooms st));
         area \<leftarrow> gets (\<lambda>st. body_area h (world st));
         case r of None \<Rightarrow> ret () | Some r \<Rightarrow> ui (push_chat (tr h) area r)
       }
     }
   }"

section \<open>Rooms\<close>

definition accept_invite where
  "accept_invite h = do {
     i \<leftarrow> gets menu_target;
     sess \<leftarrow> gets session;
     (case (i, sess) of
        (Some i, Some s) \<Rightarrow> do {
          joined \<leftarrow> net (client_join (hhttp h) (hjson h) s i);
          case joined of
            Some _ \<Rightarrow> do {
              update_room i (\<lambda>r. r\<lparr>r_invited := False\<rparr>);
              sync_now h True;
              toast h ''joined'' Ico_success 1000
            }
          | None \<Rightarrow> toast h ''join_failed'' Ico_error 1500
        }
      | _ \<Rightarrow> ret ());
     render_rooms h
   }"

definition invite_user where
  "invite_user h mxid = do {
     room \<leftarrow> gets open_room;
     sess \<leftarrow> gets session;
     (case (room, sess) of
        (Some i, Some s) \<Rightarrow> do {
          done \<leftarrow> net (client_invite (hhttp h) s i mxid);
          if done then toast h ''invited'' Ico_success 1000 else toast h ''invite_failed'' Ico_error 1500
        }
      | _ \<Rightarrow> ret ())
   }"

text \<open>\<open>rooms.retain(|r| r.id != id)\<close> after telling the server.\<close>

definition leave_room where
  "leave_room h i = do {
     sess \<leftarrow> gets session;
     (case sess of None \<Rightarrow> ret () | Some s \<Rightarrow> do { net (leave (hhttp h) s i); ret () });
     modify (\<lambda>st. st\<lparr>rooms := filter (\<lambda>r. r_id r \<noteq> i) (rooms st)\<rparr>)
   }"

text \<open>A joined or created room is listed at once, then the server is asked.\<close>

definition add_room_and_sync where
  "add_room_and_sync h i msg = do {
     modify (\<lambda>st. if list_ex (\<lambda>r. r_id r = i) (rooms st) then st
                  else st\<lparr>rooms := rooms st @ [room_new i]\<rparr>);
     sync_now h True;
     toast h msg Ico_success 1000
   }"

definition new_room where
  "new_room h alias = do {
     sess \<leftarrow> gets session;
     case sess of
       None \<Rightarrow> ret ()
     | Some s \<Rightarrow> do {
         result \<leftarrow> (if starts_with [64] alias then net (create_dm (hhttp h) (hjson h) s alias)
                   else net (client_join (hhttp h) (hjson h) s alias));
         case result of
           Some i \<Rightarrow> add_room_and_sync h i ''joined''
         | None \<Rightarrow> toast h ''join_failed'' Ico_error 1500
       }
   }"

definition create_room where
  "create_room h name = do {
     sess \<leftarrow> gets session;
     case sess of
       None \<Rightarrow> ret ()
     | Some s \<Rightarrow> do {
         result \<leftarrow> net (client_create_room (hhttp h) (hjson h) s name);
         case result of
           Some i \<Rightarrow> add_room_and_sync h i ''created''
         | None \<Rightarrow> toast h ''join_failed'' Ico_error 1500
       }
   }"

definition delete_confirmed where
  "delete_confirmed h = do {
     i \<leftarrow> gets pending_delete;
     modify (\<lambda>st. st\<lparr>pending_delete := None\<rparr>);
     case i of None \<Rightarrow> ret () | Some i \<Rightarrow> leave_room h i
   }"

definition ctx_pick where
  "ctx_pick h item =
    (if item = CTX_JOIN then do {
       set_view Composing;
       ui [Input_t9 (tr h ''new_room_prompt'') None 200 ACT_NEW_ROOM_DONE]
     } else if item = CTX_CREATE then do {
       set_view Composing;
       ui [Input_t9 (tr h ''create_prompt'') None 200 ACT_CREATE_ROOM_DONE]
     } else if item = CTX_INVITE then do {
       set_view Composing;
       ui [Input_t9 (tr h ''invite_user_prompt'') None 200 ACT_INVITE_USER_DONE]
     } else if item = CTX_ACCEPT then accept_invite h
     else if item = CTX_REJECT then do {
       i \<leftarrow> gets menu_target;
       (case i of None \<Rightarrow> ret () | Some i \<Rightarrow> leave_room h i);
       render_rooms h
     } else if item = CTX_DELETE then do {
       i \<leftarrow> gets menu_target;
       (case i of
          None \<Rightarrow> ret ()
        | Some i \<Rightarrow> do {
            name \<leftarrow> gets (room_name_or_id i);
            modify (\<lambda>st. st\<lparr>pending_delete := Some i\<rparr>);
            ui [Confirm (name @ lit '': '' @ tr h ''delete_confirm'') Ico_alert ACT_DEL_CONFIRM]
          })
     } else if item = CTX_SYSTEM then do {
       cfg \<leftarrow> gets (\<lambda>st. load_config (hstore h) (world st));
       ui (render_system (tr h) cfg False);
       set_view System
     } else ret ())"

section \<open>Login and key upload\<close>

text \<open>The two objects are rendered before the account is pickled, so the pickle has the new keys.\<close>

definition ensure_uploaded where
  "ensure_uploaded h s = do {
     up \<leftarrow> gets uploaded;
     if up then ret ()
     else do {
       n \<leftarrow> gets otk_count;
       if OTK_TARGET \<le> n then modify (\<lambda>st. st\<lparr>uploaded := True\<rparr>)
       else do {
         payload \<leftarrow> on_crypto None (\<lambda>c w.
           case one_time_keys_json (hvoz h) (user_id s) (device_id s) 30 c w of
             (otks, c', w) \<Rightarrow>
               (Some (device_keys_json (hvoz h) (user_id s) (device_id s) c, otks,
                      account_pickle (hvoz h) c'), c', w));
         case payload of
           None \<Rightarrow> ret ()
         | Some (dk, otks, pickle) \<Rightarrow> do {
             status \<leftarrow> net (keys_upload (hhttp h) s dk otks);
             hostM (save_account (hstore h) pickle);
             whenM (success status) (modify (\<lambda>st. st\<lparr>uploaded := True\<rparr>))
           }
       }
     }
   }"

definition upload_if_session where
  "upload_if_session h = do {
     sess \<leftarrow> gets session;
     case sess of None \<Rightarrow> ret () | Some s \<Rightarrow> ensure_uploaded h s
   }"

definition do_login where
  "do_login h = do {
     cfg \<leftarrow> gets (\<lambda>st. load_config (hstore h) (world st));
     p \<leftarrow> hostM (load_password (hstore h));
     let pass = or_empty p;
     if cfg_server cfg = [] \<or> cfg_user cfg = [] \<or> pass = [] then toast h ''login_failed'' Ico_error 1500
     else do {
       toast h ''connecting'' Ico_none 0;
       device \<leftarrow> gets (\<lambda>st. load_device_id (hstore h) (world st));
       result \<leftarrow> net (login (hhttp h) (hjson h) (cfg_server cfg) (cfg_user cfg) pass device);
       case result of
         None \<Rightarrow> toast h ''login_failed'' Ico_error 1500
       | Some r \<Rightarrow> do {
           saved \<leftarrow> hostM (save_login (hstore h) (lr_user_id r) (lr_device_id r) (lr_token r));
           if \<not> is_ok saved then toast h ''secret_save_failed'' Ico_error 2500
           else do {
             sess \<leftarrow> hostM (load_session (hstore h));
             modify (\<lambda>st. st\<lparr>session := sess\<rparr>);
             modify (\<lambda>st. st\<lparr>uploaded := False\<rparr>);
             ui [Pop_to_plugin];
             set_view RoomList;
             init_crypto h;
             sync_now h True;
             upload_if_session h;
             render_rooms h;
             toast h ''logged_in'' Ico_success 1000
           }
         }
     }
   }"

definition sys_select where
  "sys_select h item = do {
     cfg \<leftarrow> gets (\<lambda>st. load_config (hstore h) (world st));
     editor \<leftarrow> hostM (open_field_editor (hstore h) (tr h) item cfg);
     case editor of
       Some e \<Rightarrow> do { ui [e]; set_view EditingField }
     | None \<Rightarrow>
       if item = SYS_LOGIN then do_login h
       else if item = SYS_RESET then ui [Confirm (tr h ''reset_confirm'') Ico_alert ACT_SYS_RESET_CONFIRM]
       else ret ()
   }"

section \<open>Sending\<close>

definition event_json :: "ustr \<Rightarrow> ustr \<Rightarrow> ustr" where
  "event_json room text =
     lit ''{\"type\":\"m.room.message\",\"content\":{\"msgtype\":\"m.text\",\"body\":'' @ quoted text @
     lit ''},\"room_id\":'' @ quoted room @ lit ''}''"

definition encrypted_content :: "session \<Rightarrow> ustr \<Rightarrow> ustr \<Rightarrow> ustr \<Rightarrow> ustr" where
  "encrypted_content s my_curve ct sid =
     lit ''{\"algorithm\":\"m.megolm.v1.aes-sha2\",\"sender_key\":'' @ quoted my_curve @
     lit '',\"ciphertext\":'' @ quoted ct @ lit '',\"session_id\":'' @ quoted sid @
     lit '',\"device_id\":'' @ quoted (device_id s) @ lit ''}''"

text \<open>The recipients of a fresh room key: the members the server names, remembered as members, or
  those already known.\<close>

definition recipients where
  "recipients h s room = do {
     fetched \<leftarrow> net (room_members (hhttp h) (hjson h) s room);
     case fetched of
       Some ms \<Rightarrow> do {
         update_room room (\<lambda>r. r\<lparr>r_members := fst (add_members (r_members r) ms)\<rparr>);
         ret ms
       }
     | None \<Rightarrow> gets (\<lambda>st. case find_room room (rooms st) of Some r \<Rightarrow> r_members r | None \<Rightarrow> [])
   }"

definition e2ee_send where
  "e2ee_send h room text = do {
     sess \<leftarrow> gets session;
     keys \<leftarrow> read_crypto None (\<lambda>c.
       if has_backup c then Some (identity_curve25519 (hvoz h) c, identity_ed25519 (hvoz h) c) else None);
     case (sess, keys) of
       (Some s, Some (my_curve, my_ed)) \<Rightarrow> do {
         out \<leftarrow> on_crypto None (\<lambda>c w.
           case ensure_outbound (hvoz h) room c w of (r, c, w) \<Rightarrow> (Some r, c, w));
         case out of
           None \<Rightarrow> ret False
         | Some (sid, skey, is_new) \<Rightarrow> do {
             ct \<leftarrow> on_crypto None (\<lambda>c w.
               case encrypt_megolm (hvoz h) room (event_json room text) c of (r, c) \<Rightarrow> (r, c, w));
             case ct of
               None \<Rightarrow> ret False
             | Some ct \<Rightarrow> do {
                 t \<leftarrow> next_txn h;
                 sent \<leftarrow> net (send_encrypted (hhttp h) s room (encrypted_content s my_curve ct sid) t);
                 whenM is_new (do {
                   persist_crypto h;
                   ensure_uploaded h s;
                   backup_room_key h s room sid;
                   members \<leftarrow> recipients h s room;
                   enqueue_distribution h s room members sid skey my_curve my_ed
                 });
                 ret sent
               }
           }
       }
     | _ \<Rightarrow> ret False
   }"

definition reply_done where
  "reply_done h = do {
     t \<leftarrow> hostM (consume_input_text h 400);
     i \<leftarrow> gets open_room;
     case (t, i) of
       (Some t, Some i) \<Rightarrow> do {
         let text = trim t;
         whenM (text \<noteq> []) (do {
           enc \<leftarrow> gets (\<lambda>st. case find_room i (rooms st) of Some r \<Rightarrow> r_encrypted r | None \<Rightarrow> False);
           toast h ''sending'' Ico_none 1500;
           sent \<leftarrow> (if enc then e2ee_send h i text
                   else do {
                     sess \<leftarrow> gets session;
                     case sess of
                       None \<Rightarrow> ret False
                     | Some s \<Rightarrow> do { n \<leftarrow> next_txn h; net (send_text (hhttp h) s i text n) }
                   });
           if sent then sync_now h False else toast h ''send_failed'' Ico_error 1500
         });
         modify (\<lambda>st. st\<lparr>scroll := 0\<rparr>);
         show_open_chat h
       }
     | _ \<Rightarrow> set_view Chat
   }"

section \<open>Keys and ticks\<close>

definition key_event where
  "key_event h key = do {
     v \<leftarrow> gets cur_view;
     if key = KEY_N \<and> v = System then set_view RoomList
     else if key = KEY_SYNC \<and> v = RoomList then do {
       refresh_backup h;
       sync_now h False;
       render_rooms h
     } else ret ()
   }"

definition e2ee_reply_blocked :: "('w, 'acc, 'ib, 'gs, 'os, 'pk) mst \<Rightarrow> bool" where
  "e2ee_reply_blocked st =
    ((case Option.bind (open_room st) (\<lambda>i. find_room i (rooms st)) of
        Some r \<Rightarrow> r_encrypted r | None \<Rightarrow> False)
     \<and> \<not> (case crypto st of Some c \<Rightarrow> has_backup c | None \<Rightarrow> False))"

definition chat_key where
  "chat_key h key = do {
     v \<leftarrow> gets cur_view;
     if v \<noteq> Chat then ret ()
     else if key = KEY_Y then do {
       blocked \<leftarrow> gets e2ee_reply_blocked;
       if blocked then toast h ''e2ee_no_key'' Ico_error 2500
       else do {
         ui [Input_t9 (tr h ''reply_prompt'') None 400 ACT_CHAT_REPLY_DONE];
         set_view Composing
       }
     } else if key = KEY_N then do {
       ui [Pop_top];
       modify (\<lambda>st. st\<lparr>open_room := None\<rparr>);
       render_rooms h
     } else if key = KEY_UP \<or> key = KEY_DOWN then do {
       modify (\<lambda>st. st\<lparr>scroll := (if key = KEY_UP then scroll st + 1 else scroll st - 1)\<rparr>);
       show_open_chat h
     } else if key = KEY_MENU then do {
       modify (\<lambda>st. st\<lparr>menu_target := open_room st\<rparr>);
       ui (open_chat_menu (tr h) (app_title h))
     } else ret ()
   }"

definition mx_on_enter where
  "mx_on_enter h = do {
     ui [Subscribe_keys ACT_KEY_EVENT];
     sess \<leftarrow> hostM (load_session (hstore h));
     modify (\<lambda>st. st\<lparr>session := sess\<rparr>);
     set_view RoomList;
     whenM (sess \<noteq> None) (do {
       init_crypto h;
       sync_now h True;
       upload_if_session h
     });
     modify (\<lambda>st. st\<lparr>last_poll_ms := uptime_ms h (world st)\<rparr>);
     render_rooms h
   }"

definition open_room_len :: "('w, 'acc, 'ib, 'gs, 'os, 'pk) mst \<Rightarrow> nat" where
  "open_room_len st =
    (case open_room st of
       None \<Rightarrow> 0
     | Some i \<Rightarrow> (case find_room i (rooms st) of Some r \<Rightarrow> length (r_messages r) | None \<Rightarrow> 0))"

definition le64 :: "nat \<Rightarrow> u8 list" where
  "le64 n = map (\<lambda>k. of_nat (n div 256 ^ k)) [0..<8]"

definition mix_in :: "u64 \<Rightarrow> u64 \<Rightarrow> u64" where
  "mix_in h x = (h XOR x) * 0x100000001b3"

definition rooms_sig :: "room list \<Rightarrow> u64" where
  "rooms_sig rs =
     foldl (\<lambda>h r.
       mix_in (mix_in (mix_in h (fnv1a (utf8_encode (r_name r)))) (r_last_ts r))
         (of_bool (r_unread r) OR push_bit 1 (of_bool (r_invited r)) OR push_bit 2 (of_bool (r_is_dm r))))
       (fnv1a (le64 (length rs))) rs"

definition poll where
  "poll h now v = do {
     modify (\<lambda>st. st\<lparr>last_poll_ms := now\<rparr>);
     before \<leftarrow> gets open_room_len;
     before_sig \<leftarrow> gets (\<lambda>st. rooms_sig (rooms st));
     sync_now h False;
     if v = Chat then do {
       n \<leftarrow> gets open_room_len;
       whenM (n \<noteq> before) (show_open_chat h)
     } else do {
       s \<leftarrow> gets (\<lambda>st. rooms_sig (rooms st));
       whenM (s \<noteq> before_sig) (render_rooms h)
     }
   }"

definition mx_on_tick where
  "mx_on_tick h now = do {
     q \<leftarrow> gets pending_dists;
     if q \<noteq> [] then process_distribution h
     else do {
       v \<leftarrow> gets cur_view;
       sess \<leftarrow> gets session;
       last \<leftarrow> gets last_poll_ms;
       whenM ((v = RoomList \<or> v = Chat) \<and> sess \<noteq> None \<and> MX_POLL_INTERVAL_MS \<le> now - last) (poll h now v)
     }
   }"

definition mx_on_exit where
  "mx_on_exit h = do {
     sess \<leftarrow> gets session;
     (case sess of
        None \<Rightarrow> ret ()
      | Some s \<Rightarrow> whenM (next_batch s \<noteq> []) (hostU (save_sync_token (hstore h) (next_batch s))));
     persist_crypto h;
     modify (\<lambda>st. st\<lparr>rooms := [], open_room := None, menu_target := None, pending_delete := None,
                      pending_dists := [], crypto := None\<rparr>);
     set_view RoomList
   }"

section \<open>Actions\<close>

text \<open>The text of a confirmed input, trimmed, if it is not blank.\<close>

definition with_input where
  "with_input h cap f = do {
     t \<leftarrow> hostM (consume_input_text h cap);
     case t of None \<Rightarrow> ret () | Some t \<Rightarrow> if trim t = [] then ret () else f (trim t)
   }"

text \<open>Each handler of a System field ends by showing the System list again.\<close>

definition sys_done where
  "sys_done h confirmed cap f = do {
     whenM confirmed (do {
       t \<leftarrow> hostM (consume_input_text h cap);
       case t of None \<Rightarrow> ret () | Some t \<Rightarrow> f t
     });
     cfg \<leftarrow> gets (\<lambda>st. load_config (hstore h) (world st));
     ui (render_system (tr h) cfg True);
     set_view System
   }"

definition act_room_menu where
  "act_room_menu h item = do {
     target \<leftarrow> gets (\<lambda>st. if unat item < length (rooms st) then Some (rooms st ! unat item) else None);
     modify (\<lambda>st. st\<lparr>menu_target := map_option r_id target\<rparr>);
     ui (open_room_menu (tr h) (app_title h) (case target of Some r \<Rightarrow> r_invited r | None \<Rightarrow> False))
   }"

definition act_save_key where
  "act_save_key h t = do {
     saved \<leftarrow> hostM (save_recovery_key (hstore h) (trim t));
     if is_ok saved then init_crypto h else toast h ''secret_save_failed'' Ico_error 2500
   }"

definition act_save_pass where
  "act_save_pass h t = do {
     saved \<leftarrow> hostM (save_password (hstore h) t);
     if is_ok saved then ret () else toast h ''secret_save_failed'' Ico_error 2500
   }"

definition act_reset where
  "act_reset h = do {
     sess \<leftarrow> gets session;
     (case sess of None \<Rightarrow> ret () | Some s \<Rightarrow> do { net (logout (hhttp h) s); ret () });
     hostU (reset_all (hstore h));
     modify (\<lambda>st. st\<lparr>session := None, crypto := None, uploaded := False, crypto_hash := 0, rooms := []\<rparr>);
     ui [Pop_to_plugin];
     set_view RoomList;
     render_rooms h;
     toast h ''reset_done'' Ico_success 1000
   }"

definition mx_on_action where
  "mx_on_action h action item =
    (if action = ACT_ROOM_SELECT then open_chat h item
     else if action = ACT_ROOM_MENU then act_room_menu h item
     else if action = ACT_ROOM_CTX_PICK then ctx_pick h item
     else if action = ACT_NEW_ROOM_DONE then do {
       whenM (item = 1) (with_input h 200 (new_room h));
       render_rooms h
     } else if action = ACT_CREATE_ROOM_DONE then do {
       whenM (item = 1) (with_input h 200 (create_room h));
       render_rooms h
     } else if action = ACT_DEL_CONFIRM then do {
       (if item = 1 then delete_confirmed h else modify (\<lambda>st. st\<lparr>pending_delete := None\<rparr>));
       render_rooms h
     } else if action = ACT_INVITE_CONFIRM then (if item = 1 then accept_invite h else render_rooms h)
     else if action = ACT_INVITE_USER_DONE then do {
       whenM (item = 1) (with_input h 200 (invite_user h));
       show_open_chat h
     } else if action = ACT_SYS_SELECT then sys_select h item
     else if action = ACT_SYS_USER_DONE then
       sys_done h (item = 1) 128 (\<lambda>t. hostU (save_user (hstore h) (trim t)))
     else if action = ACT_SYS_PASS_DONE then sys_done h (item = 1) 128 (act_save_pass h)
     else if action = ACT_SYS_SRV_DONE then
       sys_done h (item = 1) 200 (\<lambda>t. hostU (save_server (hstore h) (normalize_server t)))
     else if action = ACT_SYS_KEY_DONE then sys_done h (item = 1) 120 (act_save_key h)
     else if action = ACT_SYS_RESET_CONFIRM \<and> item = 1 then act_reset h
     else if action = ACT_CHAT_KEY then chat_key h item
     else if action = ACT_CHAT_REPLY_DONE then (if item = 1 then reply_done h else show_open_chat h)
     else if action = ACT_KEY_EVENT then key_event h item
     else ret ())"

end
