(* ===== verification/Matrix_Bench.thy ===== *)
theory Matrix_Bench
  imports Matrix_Store_Laws Matrix_App
begin

text \<open>
  Concrete instances of what the Matrix plugin's model is parametric in, for the witnesses: a JSON
  library over trees, the stand-in storage with a transparent cipher, a transparent
  cryptography, and a host without a network.
\<close>

section \<open>JSON\<close>

text \<open>A small instance of the JSON library: trees with string leaves.\<close>

datatype tree = Txt ustr | Arr "tree list" | Obj "(ustr \<times> tree) list"

definition tree_serde :: "tree serde" where
  "tree_serde = \<lparr>from_str = \<lambda>s. None,
     jget = \<lambda>v k. (case v of Obj kvs \<Rightarrow> map_of kvs k | _ \<Rightarrow> None),
     as_str = \<lambda>v. (case v of Txt s \<Rightarrow> Some s | _ \<Rightarrow> None),
     as_array = \<lambda>v. (case v of Arr vs \<Rightarrow> Some vs | _ \<Rightarrow> None),
     as_object = \<lambda>v. (case v of Obj kvs \<Rightarrow> Some kvs | _ \<Rightarrow> None),
     as_u64 = \<lambda>v. None, as_f64 = \<lambda>v. None\<rparr>"

section \<open>Storage\<close>

definition no_sha :: "u8 list \<Rightarrow> u8 list sdk_result" where
  "no_sha bs = Inr bs"

definition no_enc :: "u8 list \<Rightarrow> u8 list \<Rightarrow> u8 list \<Rightarrow> u8 list \<Rightarrow> (u8 list \<times> u8 list) sdk_result" where
  "no_enc key iv aad p = Inr (p, replicate SEAL_TAG_LEN 0)"

definition no_dec :: "u8 list \<Rightarrow> u8 list \<Rightarrow> u8 list \<Rightarrow> u8 list \<Rightarrow> u8 list \<Rightarrow> u8 list sdk_result" where
  "no_dec key iv aad ct tag = Inr ct"

definition stub0 :: "stub store_host" where
  "stub0 = stub_host no_sha no_enc no_dec"

definition empty_stub :: stub where
  "empty_stub = \<lparr>stub_nvs = Map.empty, stub_rmem = Map.empty\<rparr>"

lemma storage_stub0: "storage stub0"
  unfolding stub0_def by (rule stub.storage_axioms)

lemma gcm_stub0: "gcm_ok stub0"
  by (simp add: gcm_ok_def stub0_def no_enc_def no_dec_def)

section \<open>Cryptography\<close>

text \<open>An account is its identity key, an inbound session its id, an outbound session an id and a
  counter, an Olm session a counter; messages are sent in clear.\<close>

definition clear_voz :: "('w, ustr, ustr, ustr \<times> nat, nat, unit) voz" where
  "clear_voz = \<lparr>
     account_new = \<lambda>w. (lit ''id'', w),
     account_from_json = utf8_decode,
     account_to_json = utf8_encode,
     curve25519_key = \<lambda>a. a,
     ed25519_key = \<lambda>a. a,
     sign_b64 = \<lambda>a bs. [],
     generate_otks = \<lambda>n a w. (a, w),
     otks_b64 = \<lambda>a. [],
     mark_published = \<lambda>a. a,
     outbound_session = \<lambda>a k otk w. (Some 0, w),
     inbound_session = \<lambda>a k bs. (Some (0, bs), a),
     key_ok = \<lambda>k. k \<noteq> [],
     olm_message_ok = \<lambda>k bs. True,
     os_encrypt = \<lambda>s p w. (Some (1, p), Suc s, w),
     os_decrypt = \<lambda>s k bs. (if k = 1 then Some bs else None, Suc s),
     ib_from_key = \<lambda>k. Some k,
     ib_from_export = \<lambda>k. Some k,
     ib_of_outbound = fst,
     ib_id = \<lambda>i. i,
     ib_compare = \<lambda>a b. if a = b then Equal else Unconnected,
     ib_export = \<lambda>i. i,
     ib_decrypt = \<lambda>i ct. (Some (utf8_encode ct), i),
     gs_new = \<lambda>w. ((lit ''gs'', 0), w),
     gs_id = fst,
     gs_key = fst,
     gs_encrypt = \<lambda>g bs. (or_empty (utf8_decode bs), (fst g, Suc (snd g))),
     pk_from_key = \<lambda>k. (),
     pk_encrypt = \<lambda>k bs w. (Some (bs, [], []), w),
     pk_decrypt = \<lambda>k ct m e. Some (utf8_encode ct),
     state_to_json = \<lambda>inb olm. [1],
     state_from_json = \<lambda>bs. None,
     base64_encode = \<lambda>bs. Some (map unat bs),
     base64_decode = \<lambda>s. Some (map of_nat s),
     hmac_sha256 = \<lambda>k bs. Some (replicate 32 0),
     aes_ctr = \<lambda>k iv ct. ct\<rparr>"

lemma clear_voz_simps [simp]:
  "curve25519_key clear_voz a = a" "ed25519_key clear_voz a = a" "key_ok clear_voz k = (k \<noteq> [])"
  "os_encrypt clear_voz s p w = (Some (1, p), Suc s, w)" "base64_encode clear_voz bs = Some (map unat bs)"
  "ib_from_key clear_voz k = Some k" "ib_id clear_voz i = i" "state_to_json clear_voz inb olm = [1]"
  "ib_decrypt clear_voz i ct = (Some (utf8_encode ct), i)"
  by (simp_all add: clear_voz_def)

section \<open>Host\<close>

text \<open>No request can be opened.\<close>

definition dead_http :: "'w http_host" where
  "dead_http = \<lparr>
     host_http_open = \<lambda>m url t w. (-1, w),
     host_http_set_header = \<lambda>r k v w. (-1, w),
     host_http_set_body = \<lambda>r b w. (-1, w),
     host_http_perform = \<lambda>r w. (-1, w),
     host_http_status = \<lambda>r w. (0, w),
     host_http_read_chunk = \<lambda>r n w. (Inl (-1), w),
     host_http_close = \<lambda>r w. (0, w)\<rparr>"

definition demo_host :: "(stub, tree, ustr, ustr, ustr \<times> nat, nat, unit) mx_host" where
  "demo_host = \<lparr>hhttp = dead_http, hstore = stub0, hjson = tree_serde, hslice = \<lambda>bs. None, hvoz = clear_voz,
     uptime_ms = \<lambda>w. 0, consume_input_text = \<lambda>n w. (None, w), body_area = \<lambda>w. (296, 100),
     tr = \<lambda>k. lit k, app_title = lit ''Matrix''\<rparr>"

lemma demo_host_simps [simp]:
  "hhttp demo_host = dead_http" "hstore demo_host = stub0" "hvoz demo_host = clear_voz"
  "uptime_ms demo_host w = 0"
  by (simp_all add: demo_host_def)

lemma dead_request: "run_state (with_request dead_http m url t d f) w = (d, w)"
  by (simp add: with_request_def req_open_def dead_http_def)

text \<open>A distribution to the devices \<open>d\<close> of one user, each with an Olm session.\<close>

definition demo_session :: session where
  "demo_session = \<lparr>base_url = lit ''https://m'', token = lit ''t'', user_id = lit ''@a:m'', device_id = lit ''D'',
     next_batch = []\<rparr>"

definition demo_target :: "ustr \<Rightarrow> olm_target" where
  "demo_target k = \<lparr>ot_user_id = lit ''@b:m'', ot_device_id = k, ot_curve = k, ot_ed = k, ot_otk = None\<rparr>"

definition demo_job :: "nat \<Rightarrow> pending_dist" where
  "demo_job n = \<lparr>pd_sess = demo_session, pd_room_id = lit ''!r'', pd_session_id = lit ''s'',
     pd_session_key = lit ''k'', pd_my_curve = lit ''me'', pd_my_ed = lit ''me'',
     pd_targets = map (\<lambda>i. demo_target [i]) [1..<Suc n], pd_next = 0, pd_msgs = [], pd_retries = 0\<rparr>"

definition demo_crypto :: "(ustr, ustr, ustr \<times> nat, nat, unit) crypto" where
  "demo_crypto = (crypto_new (lit ''me''))\<lparr>c_olm := (\<lambda>k. if length k = 1 then Some [0] else None)\<rparr>"

definition demo_state :: "nat \<Rightarrow> (stub, ustr, ustr, ustr \<times> nat, nat, unit) mst" where
  "demo_state n = (init_mst empty_stub)\<lparr>crypto := Some demo_crypto, session := Some demo_session,
     pending_dists := [demo_job n]\<rparr>"

end
