(* ===== verification/Matrix_Claims.thy ===== *)
theory Matrix_Claims
  imports Matrix_Json_Laws Matrix_Bench
begin

text \<open>Properties of the Matrix plugin's JSON layer and storage, with their witnesses.\<close>

section \<open>JSON\<close>

text \<open>Text spliced into a JSON string literal cannot end it: a JSON reader gets the text back
  and continues after the closing quote.\<close>
theorem json_literal_safe: "read_string (json_escape s @ 34 # rest) = Some (s, rest)"
  by (rule read_json_escape)

text \<open>A URL segment uses only unreserved characters and percent escapes, so it cannot add a
  path separator, query or fragment; percent decoding gives the bytes back.\<close>
theorem url_segment:
  "list_all (\<lambda>c. c = 37 \<or> is_ascii_alphanumeric c \<or> c \<in> {45, 95, 46, 126}) (urlencode s)
    \<and> percent_bytes (utf8_encode (urlencode s)) = utf8_encode s"
  using percent_urlencode urlencode_chars by (auto simp: list_all_iff)

text \<open>A room update lists a user as joined exactly when the user's last membership event in the
  state and timeline is a join, and as gone exactly when it is a leave or a ban; no user is listed
  twice or in both lists.\<close>
theorem last_membership_wins:
  assumes "uid \<noteq> []"
  shows "let es = event_array j (Some rm) ''state'' @ event_array j (Some rm) ''timeline'' in
    (uid \<in> set (ru_members (parse_room j i rm)) \<longleftrightarrow> last_membership j uid es = Some True)
    \<and> (uid \<in> set (ru_left (parse_room j i rm)) \<longleftrightarrow> last_membership j uid es = Some False)
    \<and> distinct (ru_members (parse_room j i rm) @ ru_left (parse_room j i rm))"
proof -
  let ?es = "event_array j (Some rm) ''state'' @ event_array j (Some rm) ''timeline''"
  have s: "scan_ok j ?es (scan_events j ?es)" by (rule scan_events_ok)
  have m: "ru_members (parse_room j i rm) = rs_members (scan_events j ?es)"
    "ru_left (parse_room j i rm) = rs_left (scan_events j ?es)"
    by (simp_all add: parse_room_def Let_def)
  have "set (rs_members (scan_events j ?es)) \<inter> set (rs_left (scan_events j ?es)) = {}"
  proof (rule ccontr)
    assume "\<not> ?thesis"
    then obtain v where "v \<in> set (rs_members (scan_events j ?es))" "v \<in> set (rs_left (scan_events j ?es))"
      by blast
    then show False using s by (cases "v = []") (auto simp: scan_ok_def)
  qed
  then show ?thesis using s assms(1) unfolding m Let_def by (simp add: scan_ok_def)
qed

definition member_event :: "string \<Rightarrow> string \<Rightarrow> tree" where
  "member_event uid m = Obj [(lit ''type'', Txt (lit ''m.room.member'')), (lit ''state_key'', Txt (lit uid)),
     (lit ''content'', Obj [(lit ''membership'', Txt (lit m))])]"

definition demo_room :: tree where
  "demo_room = Obj [(lit ''timeline'', Obj [(lit ''events'',
     Arr [member_event ''@a:x'' ''join'', member_event ''@b:x'' ''join'', member_event ''@a:x'' ''leave''])])]"

theorem last_membership_wins_witness:
  "lit ''@a:x'' \<in> set (ru_left (parse_room tree_serde [] demo_room))"
proof -
  have "lit ''@a:x'' \<noteq> []" by (simp add: lit_def)
  moreover have "last_membership tree_serde (lit ''@a:x'')
      (event_array tree_serde (Some demo_room) ''state'' @ event_array tree_serde (Some demo_room) ''timeline'')
    = Some False"
    by (simp add: last_membership_def membership_event_def event_array_def tree_serde_def demo_room_def
        member_event_def lit_def)
  ultimately show ?thesis using last_membership_wins [of "lit ''@a:x''" tree_serde demo_room "[]"]
    unfolding Let_def by blast
qed

section \<open>Storage\<close>



text \<open>C17: a sealing key once handed out stays the key as long as its slot and the legacy key read the
  same, and a read error other than a missing slot never mints another one.\<close>
theorem pickle_key_permanent:
  assumes "storage h"
  shows "(pickle_key h w = (Some k, w') \<and> same_slots h w' w'' \<and> same_nvs h (- {K_PICKLE_FB}) w' w''
      \<longrightarrow> fst (pickle_key h w'') = Some k)
    \<and> (rmem_read h R_PICKLE PICKLE_KEY_LEN w = Inl e \<and> e \<noteq> NotFound \<longrightarrow> pickle_key h w = (None, w))"
  using storage.pickle_key_stable [OF assms, of w k w' w''] by (simp add: pickle_key_def)

theorem pickle_key_permanent_witness:
  "fst (pickle_key stub0 (snd (pickle_key stub0 empty_stub))) = fst (pickle_key stub0 empty_stub)"
proof -
  obtain k w' where p: "pickle_key stub0 empty_stub = (Some k, w')"
    by (simp add: pickle_key_def mint_key_def stub0_def empty_stub_def stub_rmem_read_def stub_rmem_write_def
        stub_get_blob_def stub_random_def slot_name_ok_def R_PICKLE_def RMEM_NAME_MAX_def RMEM_SLOT_LEN_def
        PICKLE_KEY_LEN_def length_stub_random)
  then show ?thesis
    using pickle_key_permanent [OF storage_stub0, of empty_stub k w' w'] by (simp add: same_slots_def same_nvs_def)
qed

text \<open>C15: a saved Olm account loads back, through the seal, the cipher and the sized blob.\<close>
theorem account_roundtrip:
  assumes "storage h" and "gcm_ok h" and "SEAL_HEADER_LEN + length p < 2 ^ 32"
    and "save_account h p w = (True, w')"
  shows "fst (load_account h w') = Some p \<and> has_account h w'"
  by (rule storage.account_back [OF assms(1,4,2,3)])

theorem account_roundtrip_witness:
  "fst (load_account stub0 (snd (save_account stub0 [1, 2, 3] empty_stub))) = Some [1, 2, 3]"
proof -
  have "fst (save_account stub0 [1, 2, 3] empty_stub) = True"
    by (simp add: save_account_def seal_def pickle_key_def mint_key_def stub0_def empty_stub_def
        stub_rmem_read_def stub_rmem_write_def stub_get_blob_def stub_random_def slot_name_ok_def R_PICKLE_def
        RMEM_NAME_MAX_def RMEM_SLOT_LEN_def PICKLE_KEY_LEN_def length_stub_random no_sha_def no_enc_def
        set_sized_blob_def stub_set_blob_def stub_set_u32_def)
  then obtain w' where s: "save_account stub0 [1, 2, 3] empty_stub = (True, w')" by (metis prod.collapse)
  have "SEAL_HEADER_LEN + length [1, 2, 3 :: u8] < 2 ^ 32"
    by (simp add: SEAL_HEADER_LEN_def SEAL_IV_LEN_def SEAL_TAG_LEN_def)
  from account_roundtrip [OF storage_stub0 gcm_stub0 this s] s show ?thesis by simp
qed

text \<open>The account blob and its length are two writes. When a longer blob is stored and the
  length is not (a failure or a reset in between), the account no longer loads, although it is still
  reported as present.\<close>
theorem torn_account:
  assumes "storage h" and "nvs_get_u32 h K_ACCOUNT_LEN w = Some n" and "unat n < length sealed"
    and "nvs_set_blob h K_ACCOUNT sealed w = (Inr (), w')"
  shows "fst (load_account h w') = None \<and> has_account h w'"
proof -
  have ne: "K_ACCOUNT \<noteq> K_ACCOUNT_LEN" by (simp add: K_ACCOUNT_def K_ACCOUNT_LEN_def)
  show ?thesis
    using storage.torn_blob [OF assms(1,2) ne assms(4,3)] by (simp add: load_account_def has_account_def)
qed

theorem torn_account_witness:
  "fst (load_account stub0 (snd (nvs_set_blob stub0 K_ACCOUNT [1, 2] (snd (nvs_set_u32 stub0 K_ACCOUNT_LEN 1 empty_stub))))) = None"
proof -
  let ?w = "snd (nvs_set_u32 stub0 K_ACCOUNT_LEN 1 empty_stub)"
  have a: "nvs_get_u32 stub0 K_ACCOUNT_LEN ?w = Some 1"
    using from_to_le32 [of 1] by (simp add: stub0_def stub_set_u32_def stub_get_u32_def to_le32_def)
  have b: "nvs_set_blob stub0 K_ACCOUNT [1, 2] ?w = (Inr (), snd (nvs_set_blob stub0 K_ACCOUNT [1, 2] ?w))"
    by (simp add: stub0_def stub_set_blob_def)
  show ?thesis using torn_account [OF storage_stub0 a _ b] by simp
qed

end
