(* ===== verification/Matrix_Crypto_Laws.thy ===== *)
theory Matrix_Crypto_Laws
  imports Matrix_Crypto
begin

text \<open>
  Laws of the Matrix plugin's crypto layer: base 58 as positional notation (both loops of the
  codec are instances of one change of base), the bindings of inbound sessions, and the bound on
  Olm sessions.
\<close>

section \<open>Change of base\<close>

text \<open>The value of little endian digits, and digits without a leading zero.\<close>

fun le_value :: "nat \<Rightarrow> nat list \<Rightarrow> nat" where
  "le_value b [] = 0"
| "le_value b (d # ds) = d + b * le_value b ds"

definition canonical :: "nat \<Rightarrow> nat list \<Rightarrow> bool" where
  "canonical b ds \<longleftrightarrow> list_all (\<lambda>d. d < b) ds \<and> (ds = [] \<or> last ds \<noteq> 0)"

fun scale :: "nat \<Rightarrow> nat \<Rightarrow> nat \<Rightarrow> nat list \<Rightarrow> nat list \<times> nat" where
  "scale b m c [] = ([], c)"
| "scale b m c (d # ds) =
    (case scale b m ((c + d * m) div b) ds of (r, out) \<Rightarrow> ((c + d * m) mod b # r, out))"

fun spill :: "nat \<Rightarrow> nat \<Rightarrow> nat list" where
  "spill b c = (if c = 0 \<or> b < 2 then [] else c mod b # spill b (c div b))"

declare spill.simps [simp del]

definition shift_in :: "nat \<Rightarrow> nat \<Rightarrow> nat list \<Rightarrow> nat \<Rightarrow> nat list" where
  "shift_in b m ds x = (case scale b m x ds of (r, out) \<Rightarrow> r @ spill b out)"

lemma le_value_append: "le_value b (xs @ ys) = le_value b xs + b ^ length xs * le_value b ys"
  by (induction xs) (simp_all add: algebra_simps)

lemma le_value_bound: "list_all (\<lambda>d. d < b) ds \<Longrightarrow> le_value b ds < b ^ length ds"
proof (induction ds)
  case (Cons d ds)
  then have "d < b" and "Suc (le_value b ds) \<le> b ^ length ds" by simp_all
  then have "b * Suc (le_value b ds) \<le> b * b ^ length ds" by (simp only: mult_le_mono2)
  then show ?case using \<open>d < b\<close> by simp
qed simp

lemma canonical_Cons: "canonical b (d # ds) \<Longrightarrow> canonical b ds"
  by (auto simp: canonical_def split: if_splits)

lemma canonical_pos: "canonical b ds \<Longrightarrow> ds \<noteq> [] \<Longrightarrow> 0 < le_value b ds"
proof (induction ds)
  case (Cons d ds)
  show ?case
  proof (cases "ds = []")
    case False
    then have "0 < le_value b ds" using Cons canonical_Cons by blast
    moreover have "0 < b" using Cons.prems(1) by (auto simp: canonical_def)
    ultimately show ?thesis by simp
  qed (use Cons.prems in \<open>simp add: canonical_def\<close>)
qed simp

text \<open>A number has one canonical representation.\<close>

lemma canonical_unique:
  "canonical b xs \<Longrightarrow> canonical b ys \<Longrightarrow> le_value b xs = le_value b ys \<Longrightarrow> xs = ys"
proof (induction xs arbitrary: ys)
  case Nil
  then show ?case using canonical_pos [of b ys] by auto
next
  case (Cons x xs)
  have b: "x < b" using Cons.prems(1) by (simp add: canonical_def)
  obtain y ys' where ys: "ys = y # ys'"
    using Cons.prems canonical_pos [of b "x # xs"] by (cases ys) auto
  have yb: "y < b" using Cons.prems(2) ys by (simp add: canonical_def)
  have v: "x + b * le_value b xs = y + b * le_value b ys'" using Cons.prems(3) ys by simp
  then have "(x + b * le_value b xs) mod b = (y + b * le_value b ys') mod b" by simp
  then have xy: "x = y" using b yb by simp
  then have "le_value b xs = le_value b ys'" using v b by simp
  then have "xs = ys'"
    using Cons.IH Cons.prems(1,2) ys canonical_Cons by blast
  then show ?case using xy ys by simp
qed

lemma spill_value: "1 < b \<Longrightarrow> le_value b (spill b c) = c"
proof (induction c rule: less_induct)
  case (less c)
  show ?case
  proof (cases "c = 0")
    case False
    then have "c div b < c" using less.prems by simp
    then show ?thesis using less False by (subst spill.simps) simp
  qed (simp add: spill.simps)
qed

lemma spill_canonical: "1 < b \<Longrightarrow> canonical b (spill b c)"
proof (induction c rule: less_induct)
  case (less c)
  show ?case
  proof (cases "c = 0")
    case False
    then have lt: "c div b < c" using less.prems by simp
    then have ih: "canonical b (spill b (c div b))" using less by blast
    have "c mod b \<noteq> 0" if "spill b (c div b) = []"
    proof -
      have "c div b = 0" using spill_value [OF less.prems, of "c div b"] that by simp
      then show ?thesis using False less.prems by (metis div_mult_mod_eq add_0 mult_0)
    qed
    then show ?thesis using ih False less.prems
      by (subst spill.simps) (auto simp: canonical_def)
  qed (simp add: spill.simps canonical_def)
qed

lemma scale_value:
  assumes "0 < b"
  shows "scale b m c ds = (r, out) \<Longrightarrow>
    length r = length ds \<and> list_all (\<lambda>d. d < b) r \<and>
    le_value b r + b ^ length ds * out = c + m * le_value b ds"
proof (induction ds arbitrary: c r out)
  case (Cons d ds)
  obtain r' out' where s: "scale b m ((c + d * m) div b) ds = (r', out')" by fastforce
  then have r: "r = (c + d * m) mod b # r'" "out = out'" using Cons.prems by simp_all
  have ih: "length r' = length ds" "list_all (\<lambda>d. d < b) r'"
    "le_value b r' + b ^ length ds * out' = (c + d * m) div b + m * le_value b ds"
    using Cons.IH [OF s] by simp_all
  have "le_value b r + b ^ length (d # ds) * out =
      (c + d * m) mod b + b * (le_value b r' + b ^ length ds * out')"
    using r by (simp add: algebra_simps)
  also have "\<dots> = (c + d * m) mod b + b * ((c + d * m) div b) + b * (m * le_value b ds)"
    unfolding ih(3) by (simp add: algebra_simps)
  also have "\<dots> = c + d * m + b * (m * le_value b ds)"
    by simp
  finally show ?case using r ih assms by (simp add: algebra_simps)
qed simp

lemma shift_in_value: "1 < b \<Longrightarrow> le_value b (shift_in b m ds x) = x + m * le_value b ds"
  using scale_value [of b m x ds]
  by (auto simp: shift_in_def le_value_append spill_value split: prod.splits)

lemma shift_in_canonical:
  assumes b: "1 < b" and m: "0 < m" and c: "canonical b ds"
  shows "canonical b (shift_in b m ds x)"
proof -
  obtain r out where s: "scale b m x ds = (r, out)" by fastforce
  have r: "length r = length ds" "list_all (\<lambda>d. d < b) r"
    "le_value b r + b ^ length ds * out = x + m * le_value b ds"
    using scale_value [of b, OF _ s] b by auto
  show ?thesis
  proof (cases "out = 0")
    case False
    have "spill b out \<noteq> []" using False b by (simp add: spill.simps)
    then show ?thesis using spill_canonical [OF b, of out] r(2) s
      by (auto simp: shift_in_def canonical_def)
  next
    case True
    have "last r \<noteq> 0" if ne: "ds \<noteq> []"
    proof
      assume z: "last r = 0"
      obtain n where n: "length ds = Suc n" using ne by (cases ds) simp_all
      have rr: "r = butlast r @ [0]" using z r(1) n by (metis append_butlast_last_id length_0_conv nat.distinct(1))
      have bl: "list_all (\<lambda>d. d < b) (butlast r)" using r(2) by (auto simp: list_all_iff dest: in_set_butlastD)
      have "le_value b r = le_value b (butlast r)"
        by (subst rr) (simp add: le_value_append)
      also have "\<dots> < b ^ n" using le_value_bound [OF bl] r(1) n by simp
      finally have small: "le_value b r < b ^ n" .
      have dd: "ds = butlast ds @ [last ds]" using ne by simp
      have "le_value b ds = le_value b (butlast ds) + b ^ n * last ds"
        using n by (subst dd) (simp add: le_value_append)
      moreover have "b ^ n \<le> b ^ n * last ds" using c ne by (simp add: canonical_def)
      ultimately have "b ^ n \<le> le_value b ds" by linarith
      also have "\<dots> \<le> m * le_value b ds" using m by simp
      also have "\<dots> \<le> le_value b r" using r(3) True by simp
      finally show False using small by simp
    qed
    then show ?thesis using r s True
      by (cases "ds = []") (auto simp: shift_in_def canonical_def spill.simps)
  qed
qed

lemma shift_in_zero [simp]: "shift_in b m [] 0 = []"
  by (simp add: shift_in_def spill.simps)

text \<open>Feeding big endian digits one by one.\<close>

lemma le_value_rev: "le_value m (rev (xs @ [x])) = x + m * le_value m (rev xs)"
  by simp

lemma fold_shift_in:
  assumes "1 < b" and "0 < m"
  shows "canonical b (foldl (shift_in b m) [] xs) \<and>
    le_value b (foldl (shift_in b m) [] xs) = le_value m (rev xs)"
proof (induction xs rule: rev_induct)
  case Nil
  then show ?case by (simp add: canonical_def)
next
  case (snoc x xs)
  then show ?case using assms by (simp add: shift_in_value shift_in_canonical)
qed

lemma fold_shift_zeros: "foldl (shift_in b m) [] (replicate n 0 @ xs) = foldl (shift_in b m) [] xs"
  by (induction n) simp_all

text \<open>Changing the base twice gives the digits back.\<close>

lemma change_base_back:
  assumes b: "1 < b" and m: "1 < m" and xs: "canonical m (rev xs)"
  shows "foldl (shift_in m b) [] (rev (foldl (shift_in b m) [] xs)) = rev xs"
proof (rule canonical_unique)
  let ?ds = "foldl (shift_in b m) [] xs"
  have b0: "0 < b" and m0: "0 < m" using b m by simp_all
  show "canonical m (foldl (shift_in m b) [] (rev ?ds))" using fold_shift_in [OF m b0] by blast
  show "canonical m (rev xs)" by (rule xs)
  show "le_value m (foldl (shift_in m b) [] (rev ?ds)) = le_value m (rev xs)"
    using fold_shift_in [OF m b0, of "rev ?ds"] fold_shift_in [OF b m0, of xs] by simp
qed

section \<open>The two loops of the codec\<close>

lemma mul58_scale:
  "mul58 c bs = (map of_nat (fst (scale 256 58 c (map unat bs))), snd (scale 256 58 c (map unat bs)))"
  by (induction c bs rule: mul58.induct) (simp_all add: split_beta Let_def)

lemma mul256_scale:
  "mul256 c ds = (map of_nat (fst (scale 58 256 c (map unat ds))), snd (scale 58 256 c (map unat ds)))"
  by (induction c ds rule: mul256.induct) (simp_all add: split_beta Let_def)

lemma push_carry_spill: "push_carry c = map of_nat (spill 256 c)"
  by (induction c rule: push_carry.induct) (subst push_carry.simps, subst spill.simps, simp)

lemma push58_spill: "push58 c = map of_nat (spill 58 c)"
  by (induction c rule: push58.induct) (subst push58.simps, subst spill.simps, simp)

lemma unat_digits: "list_all (\<lambda>d. d < 256) ds \<Longrightarrow> map unat (map of_nat ds :: u8 list) = ds"
  by (induction ds) (simp_all add: unat_of_nat_u8)

lemma shift_in_digits: "1 < b \<Longrightarrow> list_all (\<lambda>d. d < b) (shift_in b m ds x)"
  using scale_value [of b m x ds] spill_canonical [of b]
  by (auto simp: shift_in_def canonical_def split: prod.splits)

lemma b58_step_shift: "map unat (b58_step bs d) = shift_in 256 58 (map unat bs) d"
proof -
  have "b58_step bs d = map of_nat (shift_in 256 58 (map unat bs) d)"
    by (simp add: b58_step_def shift_in_def mul58_scale push_carry_spill split_beta)
  then show ?thesis using shift_in_digits [of 256 58 "map unat bs" d] by (simp only: unat_digits)
qed

lemma enc58_step_shift: "map unat (enc58_step ds b) = shift_in 58 256 (map unat ds) (unat b)"
proof -
  have "enc58_step ds b = map of_nat (shift_in 58 256 (map unat ds) (unat b))"
    by (simp add: enc58_step_def shift_in_def mul256_scale push58_spill split_beta)
  moreover have "list_all (\<lambda>d. d < 256) (shift_in 58 256 (map unat ds) (unat b))"
    using shift_in_digits [of 58 256 "map unat ds" "unat b"] by (auto simp: list_all_iff)
  ultimately show ?thesis by (simp only: unat_digits)
qed

lemma enc58_fold: "map unat (foldl enc58_step [] bs) = foldl (shift_in 58 256) [] (map unat bs)"
  by (induction bs rule: rev_induct) (simp_all add: enc58_step_shift)

section \<open>Base 58 text\<close>

lemma B58_digits:
  "length B58 = 58 \<and> list_all (\<lambda>d. position_from 0 (B58 ! d) B58 = Some d \<and> B58 ! d < 128) [0..<58]"
  by code_simp

lemma B58_pos: "d < 58 \<Longrightarrow> position_from 0 (B58 ! d) B58 = Some d \<and> B58 ! d < 128"
  using B58_digits by (auto simp: list_all_iff)

lemma B58_zero: "B58 ! 0 = 49"
  by (simp add: B58_def lit_def)

lemma B58_one: "d < 58 \<Longrightarrow> B58 ! d = 49 \<longleftrightarrow> d = 0"
  using B58_pos [of d] B58_pos [of 0] B58_zero by auto

lemma b58_loop_digits:
  "list_all (\<lambda>d. d < 58) ds \<Longrightarrow>
   b58_loop num (map (\<lambda>d. of_nat (B58 ! d)) ds) = Some (foldl b58_step num ds)"
proof (induction ds arbitrary: num)
  case (Cons d ds)
  have "unat (of_nat (B58 ! d) :: u8) = B58 ! d"
    using B58_pos [of d] Cons.prems by (simp add: unat_of_nat_u8)
  then have "b58_digit (of_nat (B58 ! d)) = Some d"
    using B58_pos [of d] Cons.prems by (simp add: b58_digit_def)
  then show ?case using Cons by simp
qed simp

lemma b58_fold_shift:
  "map unat (foldl b58_step num ds) = foldl (shift_in 256 58) (map unat num) ds"
  by (induction ds arbitrary: num) (simp_all add: b58_step_shift)

lemma utf8_ascii: "list_all (\<lambda>c. c < 128) s \<Longrightarrow> utf8_encode s = map of_nat s"
  by (induction s) (simp_all add: utf8_encode_def utf8_char_def)

text \<open>Text of the base 58 digits \<open>ds\<close>, most significant first.\<close>

definition b58_text :: "nat list \<Rightarrow> ustr" where
  "b58_text ds = map (\<lambda>d. B58 ! d) ds"

lemma b58_text_bytes:
  "list_all (\<lambda>d. d < 58) ds \<Longrightarrow> utf8_encode (b58_text ds) = map (\<lambda>d. of_nat (B58 ! d)) ds"
  using B58_pos by (subst utf8_ascii) (auto simp: b58_text_def list_all_iff)

lemma leading_ones:
  "list_all (\<lambda>d. d < 58) ds \<Longrightarrow>
   length (takeWhile (\<lambda>c. c = 49) (map (\<lambda>d. of_nat (B58 ! d) :: u8) ds)) = length (takeWhile (\<lambda>d. d = 0) ds)"
proof (induction ds)
  case (Cons d ds)
  have "(of_nat (B58 ! d) = (49 :: u8)) \<longleftrightarrow> unat (of_nat (B58 ! d) :: u8) = 49"
    by (simp add: word_unat_eq_iff)
  then have "(of_nat (B58 ! d) = (49 :: u8)) \<longleftrightarrow> d = 0"
    using B58_pos [of d] B58_one [of d] Cons.prems by (simp add: unat_of_nat_u8)
  then show ?case using Cons by simp
qed simp

lemma base58_decode_text:
  assumes "list_all (\<lambda>d. d < 58) ds"
  shows "map_option (map unat) (base58_decode (b58_text ds)) =
    Some (replicate (length (takeWhile (\<lambda>d. d = 0) ds)) 0 @ rev (foldl (shift_in 256 58) [] ds))"
proof -
  have m: "map (\<lambda>_. 0 :: u8) xs = replicate (length xs) 0" for xs :: "u8 list"
    by (simp add: map_replicate_const)
  show ?thesis
    using b58_fold_shift [of "[]" ds]
    by (simp add: base58_decode_def b58_text_bytes [OF assms] b58_loop_digits [OF assms] m
          leading_ones [OF assms] flip: rev_map)
qed

text \<open>The encoder writes the digits of the number, after one \<open>1\<close> per leading zero byte.\<close>

lemma base58_encode_text:
  "base58_encode data = b58_text (replicate (length (takeWhile (\<lambda>b. b = 0) data)) 0
     @ rev (foldl (shift_in 58 256) [] (map unat data)))"
proof -
  have m: "map (\<lambda>_. 49) xs = replicate (length xs) 49" for xs :: "u8 list"
    by (simp add: map_replicate_const)
  have "map (\<lambda>d. B58 ! unat d) (rev (foldl enc58_step [] data)) =
      map ((!) B58) (rev (map unat (foldl enc58_step [] data)))"
    by (simp add: rev_map)
  then show ?thesis
    by (simp add: base58_encode_def b58_text_def B58_zero m enc58_fold)
qed

lemma takeWhile_zero_unat:
  "length (takeWhile (\<lambda>d. d = 0) (map unat (bs :: u8 list))) = length (takeWhile (\<lambda>b. b = 0) bs)"
  by (induction bs) (simp_all add: unat_eq_0)

lemma zeros_split: "xs = replicate (length (takeWhile (\<lambda>d. d = 0) xs)) 0 @ dropWhile (\<lambda>d. d = (0::nat)) xs"
proof -
  have "takeWhile (\<lambda>d. d = 0) xs = replicate (length (takeWhile (\<lambda>d. d = (0::nat)) xs)) 0"
    by (induction xs) simp_all
  then show ?thesis by (metis takeWhile_dropWhile_id)
qed

lemma takeWhile_zeros:
  "ds = [] \<or> hd ds \<noteq> 0 \<Longrightarrow> takeWhile (\<lambda>d. d = 0) (replicate n 0 @ ds) = replicate n (0::nat)"
  by (induction n) (cases ds; simp_all)+

lemma unat_u8_less: "unat (b :: u8) < 256"
  using unsigned_less [of b] by simp

lemma base58_back: "map_option (map unat) (base58_decode (base58_encode data)) = Some (map unat data)"
proof -
  let ?n = "map unat data"
  let ?z = "length (takeWhile (\<lambda>d. d = 0) ?n)"
  let ?rest = "dropWhile (\<lambda>d. d = 0) ?n"
  let ?ds = "foldl (shift_in 58 256) [] ?n"
  have n: "?n = replicate ?z 0 @ ?rest" by (rule zeros_split)
  have small: "list_all (\<lambda>d. d < 256) ?rest"
    using unat_u8_less by (auto simp: list_all_iff dest!: set_dropWhileD)
  have hd: "?rest = [] \<or> hd ?rest \<noteq> 0" using hd_dropWhile by blast
  then have can: "canonical 256 (rev ?rest)"
    using small by (auto simp: canonical_def last_rev)
  have ds: "?ds = foldl (shift_in 58 256) [] ?rest"
    by (subst n) (rule fold_shift_zeros)
  have cds: "canonical 58 ?ds" using fold_shift_in [of 58 256 ?n] by simp
  have hds: "rev ?ds = [] \<or> hd (rev ?ds) \<noteq> 0" using cds by (auto simp: canonical_def hd_rev)
  have "foldl (shift_in 256 58) [] (rev (foldl (shift_in 58 256) [] ?rest)) = rev ?rest"
    by (rule change_base_back [OF _ _ can]) simp_all
  then have again: "foldl (shift_in 256 58) [] (replicate ?z 0 @ rev ?ds) = rev ?rest"
    by (simp only: fold_shift_zeros ds)
  have digits: "list_all (\<lambda>d. d < 58) (replicate ?z 0 @ rev ?ds)"
    using cds by (auto simp: canonical_def list_all_iff)
  have "base58_encode data = b58_text (replicate ?z 0 @ rev ?ds)"
    by (simp add: base58_encode_text takeWhile_zero_unat)
  then have "map_option (map unat) (base58_decode (base58_encode data)) =
      Some (replicate ?z 0 @ rev (rev ?rest))"
    using base58_decode_text [OF digits] again by (simp add: takeWhile_zeros [OF hds])
  then show ?thesis using n by simp
qed

lemma base58_inverse: "base58_decode (base58_encode data) = Some data"
proof -
  have "inj (map unat :: u8 list \<Rightarrow> nat list)"
    by (rule inj_mapI) (simp add: inj_def word_unat_eq_iff)
  then show ?thesis using base58_back [of data]
    by (auto dest: injD)
qed

lemma b58_text_plain: "c \<in> set (base58_encode data) \<Longrightarrow> \<not> is_whitespace c"
proof -
  assume c: "c \<in> set (base58_encode data)"
  have "list_all (\<lambda>d. d < 58) (foldl (shift_in 58 256) [] (map unat data))"
    using fold_shift_in [of 58 256 "map unat data"] by (simp add: canonical_def)
  then have small: "\<forall>d \<in> insert 0 (set (foldl (shift_in 58 256) [] (map unat data))). d < 58"
    by (simp add: list_all_iff)
  have "c \<in> (!) B58 ` (insert 0 (set (foldl (shift_in 58 256) [] (map unat data))))"
    using c by (auto simp: base58_encode_text b58_text_def)
  then obtain d where d: "d < 58" "c = B58 ! d" using small by (meson imageE)
  moreover have "list_all (\<lambda>c. \<not> is_whitespace c) B58"
    by (simp add: B58_def lit_def is_whitespace_def)
  ultimately show ?thesis using B58_digits by (simp add: list_all_iff)
qed

lemma base58_decode_spaced:
  "filter (\<lambda>c. \<not> is_whitespace c) s = base58_encode data \<Longrightarrow>
   base58_decode (filter (\<lambda>c. \<not> is_whitespace c) s) = Some data"
  by (simp add: base58_inverse)

section \<open>Bindings of inbound sessions\<close>

text \<open>Between two states, no session is lost and no known binding changes.\<close>

definition same_binding :: "'ib inbound_entry \<Rightarrow> 'ib inbound_entry \<Rightarrow> bool" where
  "same_binding e e' \<longleftrightarrow>
     (ie_room_id e = [] \<or> ie_room_id e' = ie_room_id e) \<and>
     (ie_sender_key e = [] \<or> ie_sender_key e' = ie_sender_key e)"

definition bindings_kept ::
  "('acc, 'ib, 'gs, 'os, 'pk) crypto \<Rightarrow> ('acc, 'ib, 'gs, 'os, 'pk) crypto \<Rightarrow> bool" where
  "bindings_kept c c' \<longleftrightarrow>
     (\<forall>sid e. c_inbound c sid = Some e \<longrightarrow> (\<exists>e'. c_inbound c' sid = Some e' \<and> same_binding e e'))"

lemma same_binding_refl [simp]: "same_binding e e"
  by (simp add: same_binding_def)

lemma same_binding_trans: "same_binding a b \<Longrightarrow> same_binding b c \<Longrightarrow> same_binding a c"
  by (auto simp: same_binding_def)

lemma bindings_kept_refl [simp]: "bindings_kept c c"
  by (simp add: bindings_kept_def)

lemma bindings_kept_trans: "bindings_kept a b \<Longrightarrow> bindings_kept b c \<Longrightarrow> bindings_kept a c"
  unfolding bindings_kept_def by (meson same_binding_trans)

lemma bindings_kept_inbound: "c_inbound c' = c_inbound c \<Longrightarrow> bindings_kept c c'"
  by (simp add: bindings_kept_def)

lemma bindings_kept_update:
  assumes "\<And>e. c_inbound c sid = Some e \<Longrightarrow> same_binding e e'"
  shows "bindings_kept c (c\<lparr>c_inbound := (c_inbound c)(sid \<mapsto> e')\<rparr>)"
  using assms by (auto simp: bindings_kept_def)

lemma insert_inbound_kept: "insert_inbound z sid s room sk c = (b, c') \<Longrightarrow> bindings_kept c c'"
proof -
  assume h: "insert_inbound z sid s room sk c = (b, c')"
  show ?thesis
  proof (cases "ib_id z s \<noteq> sid")
    case False
    show ?thesis
    proof (cases "c_inbound c sid")
      case None
      then show ?thesis using h False
        by (auto simp: insert_inbound_def intro: bindings_kept_update)
    next
      case (Some held)
      show ?thesis
      proof (cases "c' = c")
        case False
        then obtain e where "c' = c\<lparr>c_inbound := (c_inbound c)(sid \<mapsto> e)\<rparr>" "same_binding held e"
          using h \<open>\<not> ib_id z s \<noteq> sid\<close> Some
          by (auto simp: insert_inbound_def Let_def binding_matches_def same_binding_def split: if_splits)
        then show ?thesis using Some by (auto intro: bindings_kept_update)
      qed simp
    qed
  qed (use h in \<open>simp add: insert_inbound_def\<close>)
qed

lemma import_room_key_kept: "import_room_key z sid key room sk c = (b, c') \<Longrightarrow> bindings_kept c c'"
  by (auto simp: import_room_key_def split: option.splits dest: insert_inbound_kept)

lemma import_backup_session_kept:
  "import_backup_session z j sl room sid ct mac eph c = (b, c') \<Longrightarrow> bindings_kept c c'"
  by (auto simp: import_backup_session_def split: option.splits prod.splits dest: insert_inbound_kept)

text \<open>What a decryption says: only the ratchet of the session used can change.\<close>

lemma decrypt_megolm_kept: "decrypt_megolm z j sl sid ct room sk c = (r, c') \<Longrightarrow> bindings_kept c c'"
proof (cases "c_inbound c sid")
  case (Some e)
  assume h: "decrypt_megolm z j sl sid ct room sk c = (r, c')"
  have "c' = c \<or> c' = c\<lparr>c_inbound := (c_inbound c)(sid \<mapsto> e\<lparr>ie_session := snd (ib_decrypt z (ie_session e) ct)\<rparr>)\<rparr>"
    using h Some by (auto simp: decrypt_megolm_def Let_def split: if_splits prod.splits option.splits)
  then show ?thesis using Some by (auto intro!: bindings_kept_update simp: same_binding_def)
qed (simp add: decrypt_megolm_def)

lemma decrypt_megolm_bound:
  assumes "decrypt_megolm z j sl sid ct room sk c = (Some body, c')"
  obtains e where "c_inbound c sid = Some e" "ie_room_id e = room" "room \<noteq> []"
    "ie_sender_key e = [] \<or> ie_sender_key e = sk"
  using assms by (auto simp: decrypt_megolm_def split: option.splits if_splits)

lemma olm_decrypt_inbound: "olm_decrypt z k kind body c = (r, c') \<Longrightarrow> c_inbound c' = c_inbound c"
  by (auto simp: olm_decrypt_def split: if_splits option.splits prod.splits)

lemma insert_inbound_bound:
  assumes "insert_inbound z sid s room sk c = (True, c')"
  shows "\<exists>e. c_inbound c' sid = Some e \<and> (room = [] \<or> ie_room_id e = room) \<and> (sk = [] \<or> ie_sender_key e = sk)"
proof (cases "c_inbound c sid")
  case None
  then show ?thesis using assms by (auto simp: insert_inbound_def split: if_splits)
next
  case (Some held)
  then show ?thesis using assms
    by (auto simp: insert_inbound_def Let_def binding_matches_def split: if_splits)
qed

section \<open>Olm sessions\<close>

text \<open>At most three sessions per peer.\<close>

definition olm_bounded :: "('acc, 'ib, 'gs, 'os, 'pk) crypto \<Rightarrow> bool" where
  "olm_bounded c \<longleftrightarrow> (\<forall>k v. c_olm c k = Some v \<longrightarrow> length v \<le> MAX_OLM_SESSIONS_PER_PEER)"

lemma olm_bounded_update:
  "olm_bounded c \<Longrightarrow> length v \<le> MAX_OLM_SESSIONS_PER_PEER \<Longrightarrow> c_olm c' = (c_olm c)(k \<mapsto> v) \<Longrightarrow> olm_bounded c'"
  by (simp add: olm_bounded_def)

lemma olm_bounded_push:
  assumes "olm_bounded c" and "c_olm c' = push_olm k s (c_olm c)"
  shows "olm_bounded c'"
proof -
  let ?v = "(case c_olm c k of Some v \<Rightarrow> v | None \<Rightarrow> []) @ [s]"
  have "length (drop (length ?v - MAX_OLM_SESSIONS_PER_PEER) ?v) \<le> MAX_OLM_SESSIONS_PER_PEER"
    by simp
  then show ?thesis
    by (rule olm_bounded_update [OF assms(1)]) (simp only: assms(2) push_olm_def Let_def)
qed

lemma olm_bounded_same: "olm_bounded c \<Longrightarrow> c_olm c' = c_olm c \<Longrightarrow> olm_bounded c'"
  by (simp add: olm_bounded_def)

lemma try_sessions_length: "length (snd (try_sessions z kind bs v)) = length v"
  by (induction v) (auto split: prod.split option.split)

lemma olm_bounded_tried:
  assumes "olm_bounded c" and "c_olm c k = Some v"
  shows "olm_bounded (c\<lparr>c_olm := (c_olm c)(k \<mapsto> snd (try_sessions z kind bs v))\<rparr>)"
  using assms by (auto intro!: olm_bounded_update [of c] simp: try_sessions_length) (simp add: olm_bounded_def)

lemma olm_decrypt_bounded:
  assumes c: "olm_bounded c" and d: "olm_decrypt z k kind body c = (r, c')"
  shows "olm_bounded c'"
proof (cases "key_ok z k \<and> (\<exists>bs. base64_decode z body = Some bs \<and> olm_message_ok z kind bs)")
  case True
  then obtain bs where guards: "key_ok z k" "base64_decode z body = Some bs" "olm_message_ok z kind bs"
    by blast
  obtain r1 c1 where t: "(case c_olm c k of None \<Rightarrow> (None, c)
      | Some v \<Rightarrow> (case try_sessions z kind bs v of (r, v) \<Rightarrow> (r, c\<lparr>c_olm := (c_olm c)(k \<mapsto> v)\<rparr>))) = (r1, c1)"
    by fastforce
  have b: "olm_bounded c1"
    using t c olm_bounded_tried [OF c] by (auto split: option.splits simp: split_beta)
  show ?thesis
    using d guards by (simp add: olm_decrypt_def t)
      (auto split: if_splits option.splits prod.splits intro: olm_bounded_push [OF b] olm_bounded_same [OF b] b)
next
  case False
  then have "c' = c" using d by (auto simp: olm_decrypt_def split: if_splits option.splits)
  then show ?thesis using c by simp
qed

lemma establish_olm_bounded:
  "olm_bounded c \<Longrightarrow> establish_olm z k otk c w = (b, c', w') \<Longrightarrow> olm_bounded c'"
  by (auto simp: establish_olm_def split: if_splits option.splits prod.splits intro: olm_bounded_push)

lemma olm_encrypt_bounded:
  assumes "olm_bounded c" and "olm_encrypt z k plain c w = (r, c', w')"
  shows "olm_bounded c'"
proof (cases "c_olm c k")
  case (Some v)
  have "c' = c \<or> (\<exists>s. c' = c\<lparr>c_olm := (c_olm c)(k \<mapsto> butlast v @ [s])\<rparr> \<and> v \<noteq> [])"
    using assms(2) Some by (auto simp: olm_encrypt_def Let_def split: if_splits option.splits prod.splits)
  moreover have "length v \<le> MAX_OLM_SESSIONS_PER_PEER" using assms(1) Some by (simp add: olm_bounded_def)
  then have "olm_bounded (c\<lparr>c_olm := (c_olm c)(k \<mapsto> butlast v @ [s])\<rparr>)" if "v \<noteq> []" for s
    using that by (simp add: olm_bounded_update [OF assms(1), of "butlast v @ [s]" _ k])
  ultimately show ?thesis using assms(1) by blast
qed (use assms in \<open>simp add: olm_encrypt_def\<close>)

lemma inbound_ops_olm [simp]:
  "c_olm (snd (insert_inbound z sid s room sk c)) = c_olm c"
  "c_olm (snd (decrypt_megolm z j sl sid ct room sk c)) = c_olm c"
  "c_olm (snd (import_room_key z sid key room sk c)) = c_olm c"
  "c_olm (snd (import_backup_session z j sl room sid ct mac eph c)) = c_olm c"
proof -
  show i: "c_olm (snd (insert_inbound z sid s room sk c)) = c_olm c" for s room sk c
    by (simp add: insert_inbound_def Let_def split: option.split)
  show "c_olm (snd (decrypt_megolm z j sl sid ct room sk c)) = c_olm c"
    by (simp add: decrypt_megolm_def Let_def split: option.split prod.split)
  show "c_olm (snd (import_room_key z sid key room sk c)) = c_olm c"
    by (simp add: import_room_key_def i split: option.split)
  show "c_olm (snd (import_backup_session z j sl room sid ct mac eph c)) = c_olm c"
    by (simp add: import_backup_session_def i split: option.split prod.split)
qed

end
