(* ===== verification/Matrix_App_Laws.thy ===== *)
theory Matrix_App_Laws
  imports Matrix_App Matrix_Crypto_Laws
begin

text \<open>
  Invariants of the Matrix plugin. The locale \<open>sync_laws\<close> states what a property of the rooms,
  the crypto state and the distribution queue must be closed under for sync, sending and key
  distribution to keep it; \<open>app_laws\<close> adds what the remaining handlers do. Preservation by every
  program is proved once in them and interpreted for the well-formedness of rooms and queue and
  for the bound on Olm sessions.
\<close>

section \<open>Running the primitives\<close>

lemma run_hostM [simp]: "run_state (hostM f) st = (fst (f (world st)), st\<lparr>world := snd (f (world st))\<rparr>)"
  by (simp add: hostM_def split_beta)

lemma run_hostU [simp]: "run_state (hostU f) st = ((), st\<lparr>world := f (world st)\<rparr>)"
  by (simp add: hostU_def)

lemma run_net [simp]:
  "run_state (net m) st = (fst (run_state m (world st)), st\<lparr>world := snd (run_state m (world st))\<rparr>)"
  by (simp add: net_def)

lemma run_ui [simp]: "run_state (ui es) st = ((), st\<lparr>mx_ui := mx_ui st @ es\<rparr>)"
  by (simp add: ui_def)

lemma run_toast [simp]: "run_state (toast h k i d) st = ((), st\<lparr>mx_ui := mx_ui st @ [Toast (tr h k) i d]\<rparr>)"
  by (simp add: toast_def)

lemma run_set_view [simp]: "run_state (set_view v) st = ((), st\<lparr>cur_view := v\<rparr>)"
  by (simp add: set_view_def)

lemma run_update_room [simp]:
  "run_state (update_room i f) st = ((), st\<lparr>rooms := change_room i f (rooms st)\<rparr>)"
  by (simp add: update_room_def)

lemma run_set_front [simp]:
  "run_state (set_front pd) st = ((), st\<lparr>pending_dists := pd # tl (pending_dists st)\<rparr>)"
  by (simp add: set_front_def)

lemma run_read_crypto [simp]:
  "run_state (read_crypto d f) st = (case crypto st of None \<Rightarrow> d | Some c \<Rightarrow> f c, st)"
  by (simp add: read_crypto_def)

lemma run_on_crypto:
  "run_state (on_crypto d f) st =
    (case crypto st of
       None \<Rightarrow> (d, st)
     | Some c \<Rightarrow> (fst (f c (world st)),
         st\<lparr>crypto := Some (fst (snd (f c (world st)))), world := snd (snd (f c (world st)))\<rparr>))"
  by (simp add: on_crypto_def split_beta split: option.split)

section \<open>Properties of the rooms, the crypto state and the queue\<close>

type_synonym ('acc, 'ib, 'gs, 'os, 'pk) cell_prop =
  "room list \<Rightarrow> ('acc, 'ib, 'gs, 'os, 'pk) crypto option \<Rightarrow> pending_dist list \<Rightarrow> bool"

definition cells ::
  "('acc, 'ib, 'gs, 'os, 'pk) cell_prop \<Rightarrow> ('w, 'acc, 'ib, 'gs, 'os, 'pk) mst \<Rightarrow> bool" where
  "cells P st \<longleftrightarrow> P (rooms st) (crypto st) (pending_dists st)"

lemma cells_host [keeps_intro]: "keeps (cells P) (hostM f)" "keeps (cells P) (hostU g)" "keeps (cells P) (net m)"
  by (simp_all add: keeps_def cells_def)

lemma cells_ui [keeps_intro]:
  "keeps (cells P) (ui es)" "keeps (cells P) (toast h k i d)" "keeps (cells P) (set_view v)"
  "keeps (cells P) (read_crypto d' f)"
  by (simp_all add: keeps_def cells_def)

lemma cells_on_crypto:
  assumes "\<And>rs ds c w. P rs (Some c) ds \<Longrightarrow> P rs (Some (fst (snd (f c w)))) ds"
  shows "keeps (cells P) (on_crypto d f)"
  using assms by (auto simp: keeps_def cells_def run_on_crypto split: option.splits)

text \<open>Changes of the other cells.\<close>

lemma cells_other [simp]:
  "cells P (st\<lparr>mx_ui := x1\<rparr>) = cells P st"
  "cells P (st\<lparr>world := x2\<rparr>) = cells P st"
  "cells P (st\<lparr>crypto_hash := x3\<rparr>) = cells P st"
  "cells P (st\<lparr>otk_count := x4\<rparr>) = cells P st"
  "cells P (st\<lparr>session := x5\<rparr>) = cells P st"
  "cells P (st\<lparr>uploaded := x6\<rparr>) = cells P st"
  "cells P (st\<lparr>txn := x7\<rparr>) = cells P st"
  "cells P (st\<lparr>scroll := x8\<rparr>) = cells P st"
  "cells P (st\<lparr>last_poll_ms := x9\<rparr>) = cells P st"
  "cells P (st\<lparr>open_room := x10\<rparr>) = cells P st"
  "cells P (st\<lparr>menu_target := x11\<rparr>) = cells P st"
  "cells P (st\<lparr>pending_delete := x12\<rparr>) = cells P st"
  "cells P (st\<lparr>cur_view := x13\<rparr>) = cells P st"
  by (simp_all add: cells_def)

definition fresh_job :: "pending_dist \<Rightarrow> bool" where
  "fresh_job pd \<longleftrightarrow> pd_targets pd \<noteq> [] \<and> pd_next pd = 0 \<and> pd_msgs pd = [] \<and> pd_retries pd = 0"

section \<open>One step of the distribution\<close>

lemma persist_cells:
  assumes "run_state (persist_crypto h) st = (u, st')"
  shows "rooms st' = rooms st" "crypto st' = crypto st" "pending_dists st' = pending_dists st"
  using assms by (auto simp: persist_crypto_def split: option.splits if_splits)

lemma next_txn_cells:
  assumes "run_state (next_txn h) st = (t, st')"
  shows "rooms st' = rooms st" "crypto st' = crypto st" "pending_dists st' = pending_dists st"
  using assms by (auto simp: next_txn_def)

lemma send_front_step:
  assumes "run_state (send_front h pd) st = (go, st')"
  obtains pd' where "rooms st' = rooms st" "crypto st' = crypto st"
    "pending_dists st' = pd' # tl (pending_dists st)"
    "pd_targets pd' = pd_targets pd" "pd_next pd' = pd_next pd"
    "go \<Longrightarrow> pd_msgs pd' = [] \<and> pd_retries pd' \<in> {0, pd_retries pd}"
    "\<not> go \<Longrightarrow> pd_msgs pd' = pd_msgs pd \<and> pd_retries pd < DIST_MAX_RETRIES \<and> pd_retries pd' = pd_retries pd + 1"
proof -
  obtain u st1 where p: "run_state (persist_crypto h) st = (u, st1)" by (rule prod.exhaust)
  obtain t st2 where n: "run_state (next_txn h) st1 = (t, st2)" by (rule prod.exhaust)
  note same = persist_cells [OF p] next_txn_cells [OF n]
  show thesis
    using assms p n same by (auto simp: send_front_def split: if_splits intro: that)
qed

lemma finish_front_step:
  assumes "run_state (finish_front h pd) st = (u, st')"
  shows "rooms st' = rooms st" "crypto st' = crypto st"
    "pending_dists st' = (if length (pd_targets pd) \<le> pd_next pd then tl (pending_dists st) else pending_dists st)"
  using assms by (auto simp: finish_front_def split: if_splits)

lemma process_without_crypto:
  assumes "pending_dists st = pd # ds" "crypto st = None" "run_state (process_distribution h) st = (u, st')"
  shows "rooms st' = rooms st \<and> crypto st' = None \<and> pending_dists st' = []"
  using assms by (auto simp: process_distribution_def run_on_crypto Let_def)

text \<open>With a live instance: the recipients of one chunk are wrapped; the job then leaves the queue,
  goes on with the next chunk, or keeps its messages for one more attempt.\<close>

lemma process_step:
  assumes q: "pending_dists st = pd # ds" and c: "crypto st = Some c"
    and run: "run_state (process_distribution h) st = (u, st')"
  defines "stop \<equiv> min (pd_next pd + DIST_CHUNK) (length (pd_targets pd))"
  obtains pd' c' where "rooms st' = rooms st" "crypto st' = Some c'"
    "\<exists>ts w. c' = fst (snd (wrap_targets (hvoz h) pd ts (pd_msgs pd) c w))"
    "pd_targets pd' = pd_targets pd" "pd_next pd' = stop"
    "pending_dists st' = ds \<and> length (pd_targets pd) \<le> stop \<or>
     pending_dists st' = pd' # ds \<and>
       (stop < length (pd_targets pd) \<or>
        pd_retries pd < DIST_MAX_RETRIES \<and> pd_retries pd' = pd_retries pd + 1)"
    "pd_retries pd \<le> DIST_MAX_RETRIES \<Longrightarrow> pd_retries pd' \<le> DIST_MAX_RETRIES"
proof -
  let ?ts = "take (stop - pd_next pd) (drop (pd_next pd) (pd_targets pd))"
  obtain msgs c' w where w: "wrap_targets (hvoz h) pd ?ts (pd_msgs pd) c (world st) = (msgs, c', w)"
    by (metis prod_cases3)
  let ?pd = "pd\<lparr>pd_msgs := msgs, pd_next := stop\<rparr>"
  have c': "\<exists>ts w. c' = fst (snd (wrap_targets (hvoz h) pd ts (pd_msgs pd) c w))"
    using w by (metis fst_conv snd_conv)
  define st1 where "st1 = st\<lparr>mx_ui := mx_ui st @ [Toast (tr h ''distributing'' @ [10] @ show_nat (pd_next pd) @
      lit ''/'' @ show_nat (length (pd_targets pd))) Ico_none 0],
      crypto := Some c', world := w, pending_dists := ?pd # ds\<rparr>"
  have rest: "run_state (do { go \<leftarrow> (if msgs = [] then ret True else send_front h ?pd);
      whenM go (finish_front h ?pd) }) st1 = (u, st')"
    using run q c w by (simp add: process_distribution_def run_on_crypto Let_def st1_def stop_def cong: if_cong split del: if_split)
  have st1: "rooms st1 = rooms st" "crypto st1 = Some c'" "pending_dists st1 = ?pd # ds"
    by (simp_all add: st1_def)
  show thesis
  proof (cases "msgs = []")
    case True
    then have "run_state (finish_front h ?pd) st1 = (u, st')" using rest by simp
    from finish_front_step [OF this] show thesis
      using that [of c' ?pd] st1 c' by (auto split: if_splits)
  next
    case False
    obtain go st2 where s: "run_state (send_front h ?pd) st1 = (go, st2)" by (rule prod.exhaust)
    obtain pd' where pd': "rooms st2 = rooms st1" "crypto st2 = crypto st1"
      "pending_dists st2 = pd' # tl (pending_dists st1)"
      "pd_targets pd' = pd_targets ?pd" "pd_next pd' = pd_next ?pd"
      "\<not> go \<Longrightarrow> pd_retries ?pd < DIST_MAX_RETRIES \<and> pd_retries pd' = pd_retries ?pd + 1"
      "go \<Longrightarrow> pd_retries pd' \<in> {0, pd_retries ?pd}"
      using send_front_step [OF s] by metis
    have r: "pd_retries pd' \<le> DIST_MAX_RETRIES" if "pd_retries pd \<le> DIST_MAX_RETRIES"
      using pd'(6,7) that by (cases go) (auto simp: inc_le)
    show thesis
    proof (cases go)
      case True
      then have "run_state (finish_front h ?pd) st2 = (u, st')" using rest False s by simp
      from finish_front_step [OF this] show thesis
        using that [of c' pd'] st1 c' pd' r by (auto split: if_splits)
    next
      case go: False
      then have "st' = st2" using rest False s by simp
      then show thesis using that [of c' pd'] st1 c' pd' go r by auto
    qed
  qed
qed

text \<open>A change of a room that keeps its id and the bound on its messages.\<close>

definition mild :: "(room \<Rightarrow> room) \<Rightarrow> bool" where
  "mild f \<longleftrightarrow> (\<forall>r. r_id (f r) = r_id r \<and>
     (r_messages (f r) = r_messages r \<or> length (r_messages (f r)) \<le> RETAIN))"

locale sync_laws =
  fixes P :: "('acc, 'ib, 'gs, 'os, 'pk) cell_prop"
    and h :: "('w, 'v, 'acc, 'ib, 'gs, 'os, 'pk) mx_host"
  assumes import_keys_law: "P rs (Some c) ds \<Longrightarrow> P rs (Some (snd (import_keys h tds c))) ds"
    and decrypt_updates_law: "P rs (Some c) ds \<Longrightarrow> P rs (Some (snd (decrypt_updates h (us :: room_update list) c))) ds"
    and decrypt_messages_law: "P rs (Some c) ds \<Longrightarrow> P rs (Some (snd (decrypt_messages h rid (ms :: message list) c))) ds"
    and merge_law: "P rs oc ds \<Longrightarrow> merge_all (hvoz h) full uid op ups oc rs = (rs', late, oc') \<Longrightarrow> P rs' oc' ds"
    and forget_law: "P rs oc ds \<Longrightarrow> P (forget_rooms ids rs) oc ds"
    and outbound_law: "P rs (Some c) ds \<Longrightarrow> P rs (Some (fst (snd (ensure_outbound (hvoz h) rid c w)))) ds"
    and encrypt_law: "P rs (Some c) ds \<Longrightarrow> P rs (Some (snd (encrypt_megolm (hvoz h) rid txt c))) ds"
    and otks_law: "P rs (Some c) ds \<Longrightarrow> P rs (Some (fst (snd (one_time_keys_json (hvoz h) uid dev n c w)))) ds"
    and wrap_law: "P rs (Some c) ds \<Longrightarrow> P rs (Some (fst (snd (wrap_targets (hvoz h) pd ts msgs c w)))) ds"
    and change_law: "P rs oc ds \<Longrightarrow> mild f \<Longrightarrow> P (change_room i f rs) oc ds"
    and enqueue_law: "P rs oc ds \<Longrightarrow> fresh_job pd \<Longrightarrow> P rs oc (ds @ [pd])"
    and front_law: "P rs oc (pd # ds) \<Longrightarrow> pd_targets pd' = pd_targets pd \<Longrightarrow>
      pd_next pd' \<le> length (pd_targets pd) \<Longrightarrow> P rs oc (pd' # ds)"
    and queue_law: "P rs oc (pd # ds) \<Longrightarrow> P rs oc ds" "P rs oc ds' \<Longrightarrow> P rs oc []"
begin

abbreviation kept :: "(('w, 'acc, 'ib, 'gs, 'os, 'pk) mst, 'r) state \<Rightarrow> bool" where
  "kept m \<equiv> keeps (cells P) m"

lemma kept_on_crypto [keeps_intro]:
  "(\<And>rs ds c w. P rs (Some c) ds \<Longrightarrow> P rs (Some (fst (snd (f c w)))) ds) \<Longrightarrow> kept (on_crypto d f)"
  by (rule cells_on_crypto)

lemma kept_update_room [keeps_intro]: "mild f \<Longrightarrow> kept (update_room i f)"
  by (simp add: keeps_def cells_def change_law)

lemma kept_persist [keeps_intro]: "kept (persist_crypto h)"
  unfolding persist_crypto_def by (intro keeps_intro) simp

lemma kept_next_txn [keeps_intro]: "kept (next_txn h)"
  unfolding next_txn_def by (intro keeps_intro) simp

lemma kept_enqueue [keeps_intro]:
  "kept (enqueue_distribution h s rid members sid skey curve ed)"
  unfolding enqueue_distribution_def Let_def
  by (intro keeps_intro) (auto simp: cells_def fresh_job_def intro!: enqueue_law)

lemma kept_share [keeps_intro]: "kept (share_outbound_key h s rid members)"
  unfolding share_outbound_key_def by (intro keeps_intro)

lemma kept_merge [keeps_intro]: "kept (merge_updates h full uid ups left)"
  unfolding merge_updates_def
  by (intro keeps_intro)
     (auto simp: keeps_def cells_def forget_law split: prod.splits option.splits dest: merge_law)

lemma kept_sync [keeps_intro]: "kept (sync_now h full)"
  unfolding sync_now_def
  by (intro keeps_intro)
     (simp_all add: split_beta import_keys_law decrypt_updates_law)

lemma kept_upload [keeps_intro]: "kept (ensure_uploaded h s)"
  unfolding ensure_uploaded_def
  by (intro keeps_intro) (simp_all add: split_beta otks_law)

lemma kept_backup_room [keeps_intro]: "kept (backup_room_key h s rid sid)"
  unfolding backup_room_key_def by (intro keeps_intro) (simp add: split_beta)

lemma kept_recipients [keeps_intro]: "kept (recipients h s rid)"
  unfolding recipients_def
  by (intro keeps_intro) (simp add: mild_def)

lemma kept_e2ee [keeps_intro]: "kept (e2ee_send h rid txt)"
  unfolding e2ee_send_def
  by (intro keeps_intro) (simp_all add: split_beta outbound_law encrypt_law)

lemma kept_process [keeps_intro]: "kept (process_distribution h)"
proof (rule keepsI)
  fix st u st'
  assume P: "cells P st" and run: "run_state (process_distribution h) st = (u, st')"
  show "cells P st'"
  proof (cases "pending_dists st")
    case Nil
    then show ?thesis using P run by (simp add: process_distribution_def)
  next
    case (Cons pd ds)
    show ?thesis
    proof (cases "crypto st")
      case None
      then show ?thesis using P run Cons process_without_crypto [OF Cons None run] queue_law(2)
        by (auto simp: cells_def)
    next
      case (Some c)
      obtain pd' c' where s: "rooms st' = rooms st" "crypto st' = Some c'"
        "pending_dists st' = ds \<or> pending_dists st' = pd' # ds"
        "pd_targets pd' = pd_targets pd" "pd_next pd' \<le> length (pd_targets pd)"
        "\<exists>ts w. c' = fst (snd (wrap_targets (hvoz h) pd ts (pd_msgs pd) c w))"
        using process_step [OF Cons Some run] by (metis min.cobounded2)
      have "P (rooms st) (Some c') (pd # ds)"
        using P Some Cons s(6) by (auto simp: cells_def intro: wrap_law)
      then show ?thesis using s(1-5) by (auto simp: cells_def intro: queue_law front_law)
    qed
  qed
qed

end

locale app_laws = sync_laws P h
  for P :: "('acc, 'ib, 'gs, 'os, 'pk) cell_prop"
    and h :: "('w, 'v, 'acc, 'ib, 'gs, 'os, 'pk) mx_host" +
  assumes new_law: "P rs oc ds \<Longrightarrow> P rs (Some (crypto_new a)) ds"
    and import_state_law: "P rs oc ds \<Longrightarrow> P rs (Some (import_state (hvoz h) bs (crypto_new a))) ds"
    and none_law: "P rs oc ds \<Longrightarrow> P rs None ds"
    and set_backup_law: "P rs (Some c) ds \<Longrightarrow> P rs (Some (set_backup_key (hvoz h) bs c)) ds"
    and import_backup_law: "P rs (Some c) ds \<Longrightarrow> P rs (Some (import_backup_all h bss c)) ds"
    and no_rooms_law: "P rs oc ds \<Longrightarrow> P [] oc ds"
    and filter_law: "P rs oc ds \<Longrightarrow> P (filter (\<lambda>r. r_id r \<noteq> i) rs) oc ds"
    and add_room_law: "P rs oc ds \<Longrightarrow> \<not> list_ex (\<lambda>r. r_id r = i) rs \<Longrightarrow> P (rs @ [room_new i]) oc ds"
begin

lemma kept_setup_backup [keeps_intro]: "kept (setup_backup h)"
  unfolding setup_backup_def by (intro keeps_intro) (simp add: set_backup_law)

lemma kept_refresh_backup [keeps_intro]: "kept (refresh_backup h)"
  unfolding refresh_backup_def by (intro keeps_intro) (simp add: import_backup_law)

lemma load_or_create_new:
  "run_state (load_or_create h) st = (Some c, st') \<Longrightarrow> \<exists>a. c = crypto_new a"
  by (auto simp: load_or_create_def from_account_pickle_def crypto_create_def Option.bind_eq_Some_conv
      split: option.splits if_splits prod.splits)

lemma kept_load_or_create [keeps_intro]: "kept (load_or_create h)"
  unfolding load_or_create_def by (intro keeps_intro)

lemma kept_init_crypto [keeps_intro]: "kept (init_crypto h)"
proof -
  have live: "kept (do { modify (\<lambda>st. st\<lparr>crypto := Some c\<rparr>); setup_backup h;
      if n then ret () else refresh_backup h })"
    if "\<And>rs oc ds. P rs oc ds \<Longrightarrow> P rs (Some c) ds" for c n
    by (intro keeps_intro) (simp add: cells_def that)
  have fresh: "hoare (cells P) (load_or_create h)
      (\<lambda>oc st. cells P st \<and> (\<forall>c. oc = Some c \<longrightarrow> (\<exists>a. c = crypto_new a)))"
    using kept_load_or_create load_or_create_new by (auto intro!: hoareI dest: keepsD)
  have loaded: "kept (do {
      c \<leftarrow> (case saved of None \<Rightarrow> ret c
            | Some bs \<Rightarrow> do { modify (\<lambda>st. st\<lparr>crypto_hash := fnv1a bs\<rparr>); ret (import_state (hvoz h) bs c) });
      modify (\<lambda>st. st\<lparr>crypto := Some c\<rparr>); setup_backup h;
      if 0 < session_count c then ret () else refresh_backup h })"
    if "c = crypto_new a" for saved c a
  proof (cases saved)
    case None
    then show ?thesis using that by (simp add: live new_law)
  next
    case (Some bs)
    let ?c = "import_state (hvoz h) bs c"
    have "kept (modify (\<lambda>st. st\<lparr>crypto_hash := fnv1a bs\<rparr>) \<bind> (\<lambda>_. do {
        modify (\<lambda>st. st\<lparr>crypto := Some ?c\<rparr>); setup_backup h;
        if 0 < session_count ?c then ret () else refresh_backup h }))"
      using that by (intro keeps_bind keeps_modify live) (simp_all add: import_state_law)
    then show ?thesis by (simp add: Some)
  qed
  have start: "kept (load_or_create h \<bind> (\<lambda>oc. case oc of None \<Rightarrow> ret () | Some c \<Rightarrow> do {
      saved \<leftarrow> hostM (load_crypto_state (hstore h));
      c \<leftarrow> (case saved of None \<Rightarrow> ret c
            | Some bs \<Rightarrow> do { modify (\<lambda>st. st\<lparr>crypto_hash := fnv1a bs\<rparr>); ret (import_state (hvoz h) bs c) });
      modify (\<lambda>st. st\<lparr>crypto := Some c\<rparr>); setup_backup h;
      if 0 < session_count c then ret () else refresh_backup h }))"
    unfolding keeps_hoare
  proof (rule hoare_bind [OF fresh], goal_cases)
    case (1 oc)
    show ?case
    proof (rule hoare_side, goal_cases)
      case 1
      show ?case
      proof (cases oc)
        case (Some c)
        then obtain a where "c = crypto_new a" using 1 by blast
        then show ?thesis
          by (simp only: Some option.case) (rule keeps_bind, rule cells_host, rule loaded, rule refl)
      qed (simp add: keeps_return)
    qed
  qed
  show ?thesis
    unfolding init_crypto_def by (rule keeps_bind [OF keeps_gets], rule keeps_option, rule start, intro keeps_intro)
qed

lemma kept_views [keeps_intro]: "kept (render_rooms h)" "kept (show_open_chat h)"
  unfolding render_rooms_def show_open_chat_def by (intro keeps_intro; simp)+

lemma kept_backfill [keeps_intro]: "kept (backfill_history h i)"
  unfolding backfill_history_def Let_def
  by (intro keeps_intro) (simp_all add: split_beta decrypt_messages_law mild_def push_messages_def Let_def)

lemma kept_open_chat [keeps_intro]: "kept (open_chat h k)"
  unfolding open_chat_def prompt_accept_invite_def Let_def
  by (intro keeps_intro) (simp_all add: mild_def)

lemma kept_invites [keeps_intro]: "kept (accept_invite h)" "kept (invite_user h mxid)"
  unfolding accept_invite_def invite_user_def
  by (intro keeps_intro; simp add: mild_def)+

lemma kept_leave_room [keeps_intro]: "kept (leave_room h i)"
  unfolding leave_room_def by (intro keeps_intro) (simp add: cells_def filter_law)

lemma kept_new_rooms [keeps_intro]: "kept (new_room h alias)" "kept (create_room h name)"
  unfolding new_room_def create_room_def add_room_and_sync_def
  by (intro keeps_intro; simp add: cells_def add_room_law)+

lemma kept_ctx_pick [keeps_intro]: "kept (ctx_pick h item)"
  unfolding ctx_pick_def by (intro keeps_intro) simp_all

lemma kept_delete [keeps_intro]: "kept (delete_confirmed h)"
  unfolding delete_confirmed_def by (intro keeps_intro) simp_all

lemma kept_upload_if [keeps_intro]: "kept (upload_if_session h)"
  unfolding upload_if_session_def by (intro keeps_intro)

lemma kept_login [keeps_intro]: "kept (do_login h)"
  unfolding do_login_def Let_def by (intro keeps_intro) simp_all

lemma kept_sys_select [keeps_intro]: "kept (sys_select h item)"
  unfolding sys_select_def by (intro keeps_intro)

lemma kept_reply [keeps_intro]: "kept (reply_done h)"
  unfolding reply_done_def Let_def by (intro keeps_intro) simp_all

lemma kept_keys [keeps_intro]: "kept (key_event h key)" "kept (chat_key h key)"
  unfolding key_event_def chat_key_def by (intro keeps_intro; simp)+

lemma kept_reset [keeps_intro]: "kept (act_reset h)"
  unfolding act_reset_def by (intro keeps_intro) (auto simp: cells_def intro: none_law no_rooms_law)

lemma kept_inputs [keeps_intro]:
  "(\<And>t. kept (f t)) \<Longrightarrow> kept (with_input h cap f)"
  "(\<And>t. kept (f t)) \<Longrightarrow> kept (sys_done h conf cap f)"
  "kept (act_save_key h t)" "kept (act_save_pass h t)" "kept (act_room_menu h item)"
  unfolding with_input_def sys_done_def act_save_key_def act_save_pass_def act_room_menu_def
  by (intro keeps_intro; simp)+

lemma kept_enter: "kept (mx_on_enter h)"
  unfolding mx_on_enter_def by (intro keeps_intro) simp_all

lemma kept_tick: "kept (mx_on_tick h now)"
  unfolding mx_on_tick_def poll_def by (intro keeps_intro) simp_all

lemma kept_exit: "kept (mx_on_exit h)"
  unfolding mx_on_exit_def
  by (intro keeps_intro) (auto simp: cells_def intro: none_law no_rooms_law queue_law(2))

lemma kept_action: "kept (mx_on_action h action item)"
  unfolding mx_on_action_def by (intro keeps_intro) simp_all

end

section \<open>Well-formed rooms and queue\<close>

text \<open>Room ids are distinct, no room holds more than \<open>RETAIN\<close> messages, and a queued job has
  recipients and a position within them.\<close>

definition rooms_ok :: "room list \<Rightarrow> bool" where
  "rooms_ok rs \<longleftrightarrow> distinct (map r_id rs) \<and> list_all (\<lambda>r. length (r_messages r) \<le> RETAIN) rs"

definition job_ok :: "pending_dist \<Rightarrow> bool" where
  "job_ok pd \<longleftrightarrow> pd_targets pd \<noteq> [] \<and> pd_next pd \<le> length (pd_targets pd)"

definition plugin_ok :: "room list \<Rightarrow> ('acc, 'ib, 'gs, 'os, 'pk) crypto option \<Rightarrow> pending_dist list \<Rightarrow> bool" where
  "plugin_ok rs oc ds \<longleftrightarrow> rooms_ok rs \<and> list_all job_ok ds"

lemma push_messages_bound [simp]: "length (push_messages buf ms n) \<le> n"
  unfolding push_messages_def Let_def length_drop by (auto simp only: length_drop split: if_split)

lemma rename_room_id [simp]: "r_id (rename_room uid up r) = r_id r" "r_messages (rename_room uid up r) = r_messages r"
  by (auto simp: rename_room_def Let_def split: option.split)

lemma merge_room_ok:
  assumes "merge_room z full uid op up oc r = (r', late, oc')"
  shows "r_id r' = r_id r" "length (r_messages r') \<le> RETAIN"
  using assms by (auto simp: merge_room_def merge_members_def Let_def split: prod.splits)

lemma merge_into_ok:
  "merge_into z full uid op up oc rs = (rs', late, oc') \<Longrightarrow> rooms_ok rs \<Longrightarrow>
   rooms_ok rs' \<and> set (map r_id rs') = insert (ru_id up) (set (map r_id rs))"
proof (induction z full uid op up oc rs arbitrary: rs' late oc' rule: merge_into.induct)
  case (1 z full uid op up oc)
  then show ?case
    by (auto simp: rooms_ok_def room_new_def split: prod.splits dest: merge_room_ok)
next
  case (2 z full uid op up oc r rs)
  show ?case
  proof (cases "r_id r = ru_id up")
    case True
    obtain r1 l1 oc1 where m: "merge_room z full uid op up oc r = (r1, l1, oc1)" by (metis prod_cases3)
    then show ?thesis using 2 True merge_room_ok [OF m] by (auto simp: rooms_ok_def)
  next
    case False
    obtain rs1 l1 oc1 where m: "merge_into z full uid op up oc rs = (rs1, l1, oc1)" by (metis prod_cases3)
    have "rooms_ok rs1 \<and> set (map r_id rs1) = insert (ru_id up) (set (map r_id rs))"
      using 2 False m by (simp add: rooms_ok_def)
    moreover have "rs' = r # rs1" using 2(2) False m by simp
    ultimately show ?thesis using 2(3) False by (simp add: rooms_ok_def insert_commute)
  qed
qed

lemma merge_all_ok:
  "merge_all z full uid op ups oc rs = (rs', late, oc') \<Longrightarrow> rooms_ok rs \<Longrightarrow> rooms_ok rs'"
  by (induction z full uid op ups oc rs arbitrary: rs' late oc' rule: merge_all.induct)
     (auto split: prod.splits dest: merge_into_ok)

lemma rooms_ok_filter: "rooms_ok rs \<Longrightarrow> rooms_ok (filter Q rs)"
  by (auto simp: rooms_ok_def list_all_iff distinct_map_filter)

lemma forget_rooms_ok: "rooms_ok rs \<Longrightarrow> rooms_ok (forget_rooms ids rs)"
  unfolding forget_rooms_def by (induction ids arbitrary: rs) (simp_all add: rooms_ok_filter)

lemma change_room_ids: "(\<And>r. r_id (f r) = r_id r) \<Longrightarrow> map r_id (change_room i f rs) = map r_id rs"
  by (induction rs) simp_all

lemma change_room_ok:
  assumes "rooms_ok rs" and "mild f"
  shows "rooms_ok (change_room i f rs)"
proof -
  have "list_all (\<lambda>r. length (r_messages r) \<le> RETAIN) rs \<Longrightarrow>
      list_all (\<lambda>r. length (r_messages r) \<le> RETAIN) (change_room i f rs)"
    using assms(2) by (induction rs) (auto simp: mild_def, metis)
  moreover have "map r_id (change_room i f rs) = map r_id rs"
    using assms(2) by (intro change_room_ids) (simp add: mild_def)
  ultimately show ?thesis using assms(1) by (simp add: rooms_ok_def)
qed

interpretation plugin: app_laws plugin_ok h for h
  by unfold_locales
     (auto simp: plugin_ok_def job_ok_def fresh_job_def rooms_ok_filter forget_rooms_ok change_room_ok
       intro: merge_all_ok, auto simp: rooms_ok_def room_new_def list_all_iff list_ex_iff)

end
