(* ===== verification/Matrix_Sync_Laws.thy ===== *)
theory Matrix_Sync_Laws
  imports Matrix_App_Laws
begin

text \<open>
  What a sync and the distribution of keys do to the crypto state of the Matrix plugin: the
  bindings of inbound sessions, the bound on Olm sessions, and the rotation of outbound sessions
  when a member leaves.
\<close>

section \<open>The crypto state during a sync\<close>

lemma import_to_device_props:
  assumes "import_to_device h td (n, c) = (n', c')"
  shows "bindings_kept c c'" "olm_bounded c \<Longrightarrow> olm_bounded c'"
proof -
  obtain r c1 where d: "olm_decrypt (hvoz h) (td_sender_key td) (td_msg_type td) (td_body td) c = (r, c1)"
    by (rule prod.exhaust)
  have "c' = c1 \<or> (\<exists>sid key rid. c' = snd (import_room_key (hvoz h) sid key rid (td_sender_key td) c1))"
    using assms d by (auto simp: import_to_device_def split: option.splits prod.splits) (metis snd_conv)
  moreover have "bindings_kept c c1" by (rule bindings_kept_inbound [OF olm_decrypt_inbound [OF d]])
  moreover have "bindings_kept c1 (snd (import_room_key z sid key rid sk c1))" for z sid key rid sk
    by (rule import_room_key_kept) (rule prod.collapse [symmetric])
  ultimately show "bindings_kept c c'" by (metis bindings_kept_trans)
  show "olm_bounded c'" if "olm_bounded c"
    using \<open>c' = c1 \<or> _\<close> olm_decrypt_bounded [OF that d] by (auto intro: olm_bounded_same)
qed

lemma fold_import_props:
  "fold (import_to_device h) tds (n, c) = (n', c') \<Longrightarrow> bindings_kept c c' \<and> (olm_bounded c \<longrightarrow> olm_bounded c')"
proof (induction tds arbitrary: n c)
  case (Cons td tds)
  obtain n1 c1 where s: "import_to_device h td (n, c) = (n1, c1)" by (rule prod.exhaust)
  have "bindings_kept c1 c' \<and> (olm_bounded c1 \<longrightarrow> olm_bounded c')" using Cons s by simp
  then show ?case using import_to_device_props [OF s] by (meson bindings_kept_trans)
qed simp

lemma import_keys_props:
  "import_keys h tds c = (b, c') \<Longrightarrow> bindings_kept c c' \<and> (olm_bounded c \<longrightarrow> olm_bounded c')"
  by (auto simp: import_keys_def split: prod.splits dest: fold_import_props)

lemma decrypt_message_props:
  assumes "decrypt_message h rid m c = (m', c')"
  shows "bindings_kept c c' \<and> c_olm c' = c_olm c"
proof (cases "msg_enc m")
  case (Some e)
  obtain r c1 where d: "decrypt_megolm (hvoz h) (hjson h) (hslice h) (ei_session e) (ei_ciphertext e) rid
      (ei_sender_key e) c = (r, c1)" by (rule prod.exhaust)
  have "c' = c1" using assms Some d by (auto simp: decrypt_message_def split: option.splits)
  then show ?thesis using decrypt_megolm_kept [OF d] inbound_ops_olm(2) d by (metis snd_conv)
qed (use assms in \<open>simp add: decrypt_message_def\<close>)

lemma decrypt_messages_props:
  "decrypt_messages h rid ms c = (ms', c') \<Longrightarrow> bindings_kept c c' \<and> c_olm c' = c_olm c"
proof (induction ms arbitrary: c ms' c')
  case (Cons m ms)
  obtain m1 c1 where d: "decrypt_message h rid m c = (m1, c1)" by (rule prod.exhaust)
  obtain ms1 c2 where ds: "decrypt_messages h rid ms c1 = (ms1, c2)" by (rule prod.exhaust)
  show ?case using Cons.IH [OF ds] decrypt_message_props [OF d] Cons.prems d ds
    by (auto intro: bindings_kept_trans)
qed simp

lemma decrypt_updates_props:
  "decrypt_updates h us c = (us', c') \<Longrightarrow> bindings_kept c c' \<and> c_olm c' = c_olm c"
proof (induction us arbitrary: c us' c')
  case (Cons u us)
  obtain ms1 c1 where d: "decrypt_messages h (ru_id u) (ru_messages u) c = (ms1, c1)" by (rule prod.exhaust)
  obtain us1 c2 where ds: "decrypt_updates h us c1 = (us1, c2)" by (rule prod.exhaust)
  show ?case using Cons.IH [OF ds] decrypt_messages_props [OF d] Cons.prems d ds
    by (auto intro: bindings_kept_trans)
qed simp

section \<open>Outbound sessions during the merge\<close>

text \<open>The merge changes the crypto state only by dropping outbound sessions.\<close>

definition only_drops ::
  "('acc, 'ib, 'gs, 'os, 'pk) crypto option \<Rightarrow> ('acc, 'ib, 'gs, 'os, 'pk) crypto option \<Rightarrow> bool" where
  "only_drops oc oc' \<longleftrightarrow>
    (case (oc, oc') of
       (None, None) \<Rightarrow> True
     | (Some c, Some c') \<Rightarrow> c_account c' = c_account c \<and> c_backup c' = c_backup c \<and> c_inbound c' = c_inbound c
         \<and> c_olm c' = c_olm c \<and> c_outbound c' \<subseteq>\<^sub>m c_outbound c
     | _ \<Rightarrow> False)"

lemma only_drops_refl [simp]: "only_drops oc oc"
  by (simp add: only_drops_def split: option.split)

lemma only_drops_trans: "only_drops a b \<Longrightarrow> only_drops b c \<Longrightarrow> only_drops a c"
  by (auto simp: only_drops_def split: option.splits intro: map_le_trans)

lemma only_drops_Some:
  "only_drops (Some c) oc' \<Longrightarrow> \<exists>c'. oc' = Some c' \<and> c_inbound c' = c_inbound c \<and> c_olm c' = c_olm c
     \<and> c_outbound c' \<subseteq>\<^sub>m c_outbound c"
  by (auto simp: only_drops_def split: option.splits)

lemma rotate_drops: "rotate_or_share z up joined r oc = (late, oc') \<Longrightarrow> only_drops oc oc'"
  by (auto simp: rotate_or_share_def drop_outbound_def only_drops_def map_le_def split: if_splits option.splits)

lemma merge_room_drops: "merge_room z full uid op up oc r = (r', late, oc') \<Longrightarrow> only_drops oc oc'"
  by (auto simp: merge_room_def Let_def split: prod.splits dest: rotate_drops)

lemma merge_into_drops: "merge_into z full uid op up oc rs = (rs', late, oc') \<Longrightarrow> only_drops oc oc'"
  by (induction z full uid op up oc rs arbitrary: rs' late oc' rule: merge_into.induct)
     (auto split: prod.splits if_splits dest: merge_room_drops)

lemma merge_all_drops: "merge_all z full uid op ups oc rs = (rs', late, oc') \<Longrightarrow> only_drops oc oc'"
proof (induction ups arbitrary: oc rs rs' late oc')
  case (Cons up ups)
  obtain rs1 l1 oc1 where m: "merge_into z full uid op up oc rs = (rs1, l1, oc1)" by (metis prod_cases3)
  obtain rs2 l2 oc2 where ms: "merge_all z full uid op ups oc1 rs1 = (rs2, l2, oc2)" by (metis prod_cases3)
  have "oc' = oc2" using Cons.prems m ms by simp
  then show ?case using merge_into_drops [OF m] Cons.IH [OF ms] by (auto intro: only_drops_trans)
qed simp

text \<open>Encrypted rooms stay encrypted, and a departure drops the room's session.\<close>

definition encrypted_in :: "room list \<Rightarrow> ustr \<Rightarrow> bool" where
  "encrypted_in rs i \<longleftrightarrow> (\<exists>r. find_room i rs = Some r \<and> r_encrypted r)"

lemma find_room_Cons: "find_room i (r # rs) = (if r_id r = i then Some r else find_room i rs)"
  by (simp add: find_room_def)

lemma rename_room_encrypted [simp]: "r_encrypted (rename_room uid up r) = r_encrypted r"
  by (auto simp: rename_room_def Let_def split: option.split)

lemma merge_room_parts:
  assumes "merge_room z full uid op up oc r = (r', late, oc')"
  obtains joined r1 where "rotate_or_share z up joined r1 oc = (late, oc')" "r_id r1 = r_id r"
    "r_encrypted r1 = (r_encrypted r \<or> ru_encrypted up)" "r_encrypted r' = r_encrypted r1"
  using assms
  by (cases "ru_encrypted up"; cases full)
     (auto simp: merge_room_def merge_members_def Let_def split: prod.splits if_splits intro: that)

lemma merge_room_encrypted:
  "merge_room z full uid op up oc r = (r', late, oc') \<Longrightarrow> r_encrypted r' = (r_encrypted r \<or> ru_encrypted up)"
  by (erule merge_room_parts) simp

lemma merge_room_rotates:
  assumes "merge_room z full uid op up (Some c) r = (r', late, oc')" "r_encrypted r \<or> ru_encrypted up"
    "ru_left up \<noteq> []"
  shows "oc' = Some (drop_outbound (r_id r) c)"
  by (rule merge_room_parts [OF assms(1)]) (use assms(2,3) in \<open>simp add: rotate_or_share_def\<close>)

lemma merge_into_encrypted:
  "merge_into z full uid op up oc rs = (rs', late, oc') \<Longrightarrow> encrypted_in rs i \<Longrightarrow> encrypted_in rs' i"
proof (induction z full uid op up oc rs arbitrary: rs' late oc' rule: merge_into.induct)
  case (1 z full uid op up oc)
  then show ?case by (simp add: encrypted_in_def find_room_def)
next
  case (2 z full uid op up oc r rs)
  show ?case
  proof (cases "r_id r = ru_id up")
    case True
    obtain r1 l1 oc1 where m: "merge_room z full uid op up oc r = (r1, l1, oc1)" by (metis prod_cases3)
    then show ?thesis using 2 True merge_room_ok(1) [OF m] merge_room_encrypted [OF m]
      by (auto simp: encrypted_in_def find_room_Cons split: if_splits)
  next
    case False
    obtain rs1 l1 oc1 where m: "merge_into z full uid op up oc rs = (rs1, l1, oc1)" by (metis prod_cases3)
    then show ?thesis using 2 False by (auto simp: encrypted_in_def find_room_Cons split: if_splits)
  qed
qed

lemma merge_into_rotates:
  "merge_into z full uid op up (Some c) rs = (rs', late, oc') \<Longrightarrow>
   encrypted_in rs (ru_id up) \<or> ru_encrypted up \<Longrightarrow> ru_left up \<noteq> [] \<Longrightarrow>
   oc' = Some (drop_outbound (ru_id up) c)"
proof (induction z full uid op up "Some c" rs arbitrary: rs' late oc' rule: merge_into.induct)
  case (1 z full uid op up)
  then show ?case
    by (auto simp: room_new_def encrypted_in_def find_room_def split: prod.splits dest: merge_room_rotates)
next
  case (2 z full uid op up r rs)
  show ?case
  proof (cases "r_id r = ru_id up")
    case True
    then show ?thesis using 2(2-) by (auto simp: encrypted_in_def find_room_Cons split: prod.splits dest: merge_room_rotates)
  next
    case False
    obtain rs1 l1 oc1 where m: "merge_into z full uid op up (Some c) rs = (rs1, l1, oc1)" by (metis prod_cases3)
    then show ?thesis using 2 False by (auto simp: encrypted_in_def find_room_Cons)
  qed
qed

lemma merge_all_rotates:
  "merge_all z full uid op ups (Some c) rs = (rs', late, oc') \<Longrightarrow> up \<in> set ups \<Longrightarrow>
   encrypted_in rs (ru_id up) \<or> ru_encrypted up \<Longrightarrow> ru_left up \<noteq> [] \<Longrightarrow>
   \<exists>c'. oc' = Some c' \<and> c_outbound c' (ru_id up) = None"
proof (induction ups arbitrary: c rs rs' late oc')
  case (Cons u us)
  obtain rs1 l1 oc1 where m: "merge_into z full uid op u (Some c) rs = (rs1, l1, oc1)" by (metis prod_cases3)
  obtain c1 where c1: "oc1 = Some c1" using only_drops_Some [OF merge_into_drops [OF m]] by blast
  obtain rs2 l2 oc2 where ms: "merge_all z full uid op us (Some c1) rs1 = (rs2, l2, oc2)" by (metis prod_cases3)
  have oc': "oc' = oc2" using Cons.prems(1) m ms c1 by simp
  show ?case
  proof (cases "u = up")
    case True
    then have "c_outbound c1 (ru_id up) = None"
      using merge_into_rotates [OF m] Cons.prems(3,4) c1 by (simp add: drop_outbound_def)
    then show ?thesis using only_drops_Some [OF merge_all_drops [OF ms]] oc'
      by (auto simp: map_le_def) (metis domIff)
  next
    case False
    then show ?thesis
      using Cons.IH [OF ms] Cons.prems(2-4) merge_into_encrypted [OF m] oc' by auto
  qed
qed simp

section \<open>The bound on Olm sessions\<close>

lemma outbound_ops_olm [simp]:
  "c_olm (fst (snd (ensure_outbound z rid c w))) = c_olm c"
  "c_olm (snd (encrypt_megolm z rid txt c)) = c_olm c"
  "c_olm (fst (snd (one_time_keys_json z uid dev n c w))) = c_olm c"
  by (simp_all add: ensure_outbound_def encrypt_megolm_def one_time_keys_json_def Let_def split_beta split: option.split)

lemma ensure_olm_bounded: "olm_bounded c \<Longrightarrow> olm_bounded (fst (snd (ensure_olm z t c w)))"
  by (auto simp: ensure_olm_def split: option.splits prod.splits dest: establish_olm_bounded)

lemma wrap_target_bounded: "olm_bounded c \<Longrightarrow> olm_bounded (fst (snd (wrap_target z pd t msgs c w)))"
  using ensure_olm_bounded [of c z t w]
  by (auto simp: wrap_target_def Let_def split: prod.splits option.splits dest: olm_encrypt_bounded)

lemma wrap_targets_bounded: "olm_bounded c \<Longrightarrow> olm_bounded (fst (snd (wrap_targets z pd ts msgs c w)))"
proof (induction ts arbitrary: msgs c w)
  case (Cons t ts)
  show ?case using Cons.IH wrap_target_bounded [OF Cons.prems, of z pd t msgs w]
    by (auto split: prod.splits)
qed simp

definition olm_prop :: "room list \<Rightarrow> ('acc, 'ib, 'gs, 'os, 'pk) crypto option \<Rightarrow> pending_dist list \<Rightarrow> bool" where
  "olm_prop rs oc ds \<longleftrightarrow> (case oc of None \<Rightarrow> True | Some c \<Rightarrow> olm_bounded c)"

lemma olm_prop_drops: "olm_prop rs oc ds \<Longrightarrow> only_drops oc oc' \<Longrightarrow> olm_prop rs' oc' ds"
  by (auto simp: olm_prop_def only_drops_def olm_bounded_def split: option.splits)

interpretation olm: sync_laws olm_prop h for h
proof unfold_locales
  fix rs ds c tds and h :: "('w, 'v, 'acc, 'ib, 'gs, 'os, 'pk) mx_host"
  show "olm_prop rs (Some c) ds \<Longrightarrow> olm_prop rs (Some (snd (import_keys h tds c))) ds"
    using import_keys_props [of h tds c] by (cases "import_keys h tds c") (auto simp: olm_prop_def)
next
  fix rs oc ds full uid op ups rs' late oc' and h :: "('w, 'v, 'acc, 'ib, 'gs, 'os, 'pk) mx_host"
  show "olm_prop rs oc ds \<Longrightarrow> merge_all (hvoz h) full uid op ups oc rs = (rs', late, oc') \<Longrightarrow> olm_prop rs' oc' ds"
    by (blast intro: olm_prop_drops merge_all_drops)
next
  fix rs ds c and us :: "room_update list" and h :: "('w, 'v, 'acc, 'ib, 'gs, 'os, 'pk) mx_host"
  show "olm_prop rs (Some c) ds \<Longrightarrow> olm_prop rs (Some (snd (decrypt_updates h us c))) ds"
    using decrypt_updates_props [of h us c]
    by (cases "decrypt_updates h us c") (auto simp: olm_prop_def olm_bounded_def)
next
  fix rs ds c rid and ms :: "message list" and h :: "('w, 'v, 'acc, 'ib, 'gs, 'os, 'pk) mx_host"
  show "olm_prop rs (Some c) ds \<Longrightarrow> olm_prop rs (Some (snd (decrypt_messages h rid ms c))) ds"
    using decrypt_messages_props [of h rid ms c]
    by (cases "decrypt_messages h rid ms c") (auto simp: olm_prop_def olm_bounded_def)
qed (auto simp: olm_prop_def wrap_targets_bounded intro: olm_bounded_same)

section \<open>Ticks of the distribution\<close>

text \<open>A bound on the ticks until the first job leaves the queue: one per chunk, then the retries.\<close>

definition ticks_left :: "pending_dist \<Rightarrow> nat" where
  "ticks_left pd =
    (let n = length (pd_targets pd) in
     if pd_next pd < n then div_ceil (n - pd_next pd) DIST_CHUNK + 3 else 4 - unat (pd_retries pd))"

definition ticks :: "('w, 'v, 'acc, 'ib, 'gs, 'os, 'pk) mx_host \<Rightarrow> u64 list
    \<Rightarrow> ('w, 'acc, 'ib, 'gs, 'os, 'pk) mst \<Rightarrow> ('w, 'acc, 'ib, 'gs, 'os, 'pk) mst" where
  "ticks h ts st = foldl (\<lambda>st t. snd (run_state (mx_on_tick h t) st)) st ts"

lemma tick_distributes:
  "pending_dists st \<noteq> [] \<Longrightarrow> run_state (mx_on_tick h t) st = run_state (process_distribution h) st"
  by (simp add: mx_on_tick_def)

lemma div_ceil_4: "div_ceil n 4 = (n + 3) div 4"
  unfolding div_ceil_def by presburger

lemma dist_progress:
  assumes q: "pending_dists st = pd # ds" and c: "crypto st = Some c" and r: "pd_retries pd \<le> DIST_MAX_RETRIES"
    and t: "run_state (mx_on_tick h t) st = (u, st')"
  shows "crypto st' \<noteq> None \<and> (pending_dists st' = ds \<or>
    (\<exists>pd'. pending_dists st' = pd' # ds \<and> pd_retries pd' \<le> DIST_MAX_RETRIES \<and> ticks_left pd' < ticks_left pd))"
proof -
  let ?n = "length (pd_targets pd)" and ?stop = "min (pd_next pd + DIST_CHUNK) (length (pd_targets pd))"
  have run: "run_state (process_distribution h) st = (u, st')" using t q by (simp add: tick_distributes)
  obtain pd' c' where s: "crypto st' = Some c'" "pd_targets pd' = pd_targets pd" "pd_next pd' = ?stop"
    "pending_dists st' = ds \<and> ?n \<le> ?stop \<or> pending_dists st' = pd' # ds \<and>
       (?stop < ?n \<or> pd_retries pd < DIST_MAX_RETRIES \<and> pd_retries pd' = pd_retries pd + 1)"
    "pd_retries pd' \<le> DIST_MAX_RETRIES"
    by (rule process_step [OF q c run]) (use r in blast)
  have "ticks_left pd' < ticks_left pd" if "?stop < ?n"
  proof -
    have st: "?stop = pd_next pd + 4" "pd_next pd + 4 < ?n" using that by (simp_all add: DIST_CHUNK_def)
    then have "(?n - (pd_next pd + 4) + 3) div 4 < (?n - pd_next pd + 3) div 4" by linarith
    then show ?thesis using st s(2,3) by (simp add: ticks_left_def Let_def div_ceil_4 DIST_CHUNK_def)
  qed
  moreover have "ticks_left pd' < ticks_left pd"
    if "\<not> ?stop < ?n" "pd_retries pd < DIST_MAX_RETRIES" "pd_retries pd' = pd_retries pd + 1"
  proof -
    have u: "unat (pd_retries pd') = unat (pd_retries pd) + 1" "unat (pd_retries pd) < 3"
      using that(2,3) by (auto simp: DIST_MAX_RETRIES_def word_less_nat_alt unat_word_ariths)
    have "\<not> pd_next pd' < ?n" using that(1) s(3) by simp
    moreover have "0 < (?n - pd_next pd + 3) div 4" if "pd_next pd < ?n" using that by linarith
    ultimately show ?thesis using u s(2) by (auto simp: ticks_left_def Let_def div_ceil_4 DIST_CHUNK_def)
  qed
  ultimately show ?thesis using s by blast
qed

text \<open>Within that many ticks the job is gone, and the jobs behind it are untouched.\<close>

lemma job_leaves:
  assumes "pending_dists st = pd # ds" "crypto st \<noteq> None" "pd_retries pd \<le> DIST_MAX_RETRIES"
    "ticks_left pd \<le> length ts"
  shows "\<exists>k \<le> ticks_left pd. pending_dists (ticks h (take k ts) st) = ds"
  using assms
proof (induction "ticks_left pd" arbitrary: pd st ts rule: less_induct)
  case less
  have pos: "0 < ticks_left pd"
  proof -
    have "unat (pd_retries pd) \<le> 3" using less.prems(3) by (simp add: DIST_MAX_RETRIES_def word_le_nat_alt)
    then show ?thesis by (simp add: ticks_left_def Let_def)
  qed
  then obtain t ts' where ts: "ts = t # ts'" using less.prems(4) by (cases ts) simp_all
  obtain u st1 where run: "run_state (mx_on_tick h t) st = (u, st1)" by (rule prod.exhaust)
  obtain c where c: "crypto st = Some c" using less.prems(2) by blast
  have step: "ticks h (take (Suc k) ts) st = ticks h (take k ts') st1" for k
    using run ts by (simp add: ticks_def)
  from dist_progress [OF less.prems(1) c less.prems(3) run] show ?case
  proof (elim conjE disjE exE)
    assume "pending_dists st1 = ds"
    then have "pending_dists (ticks h (take (Suc 0) ts) st) = ds" using step [of 0] by (simp add: ticks_def)
    then show ?thesis using pos by (intro exI [of _ "Suc 0"]) simp
  next
    fix pd' assume c1: "crypto st1 \<noteq> None" and q: "pending_dists st1 = pd' # ds"
      and r: "pd_retries pd' \<le> DIST_MAX_RETRIES" and lt: "ticks_left pd' < ticks_left pd"
    have "ticks_left pd' \<le> length ts'" using lt less.prems(4) ts by simp
    from less.hyps [OF lt q c1 r this] obtain k where
      "k \<le> ticks_left pd'" "pending_dists (ticks h (take k ts') st1) = ds" by blast
    then show ?thesis using lt step [of k] by (intro exI [of _ "Suc k"]) simp
  qed
qed

end
