(* ===== verification/Sdk_Http_Laws.thy ===== *)
theory Sdk_Http_Laws
  imports Sdk_Http
begin

text \<open>
  What a client does on the wire. \<open>traced hh\<close> is any HTTP host with a log of the calls it
  received; the laws speak about the log, so they hold for every behaviour of the host.
\<close>

datatype http_event =
  Ev_open u8 ustr int
| Ev_header int ustr ustr
| Ev_body int "u8 list"
| Ev_perform int
| Ev_read int
| Ev_close int

type_synonym 'w logged = "'w \<times> http_event list"

definition log_call :: "('w \<Rightarrow> 'r \<times> 'w) \<Rightarrow> ('r \<Rightarrow> http_event) \<Rightarrow> 'w logged \<Rightarrow> 'r \<times> 'w logged" where
  "log_call f e wl = (case f (fst wl) of (r, w) \<Rightarrow> (r, (w, snd wl @ [e r])))"

definition traced :: "'w http_host \<Rightarrow> 'w logged http_host" where
  "traced hh = \<lparr>
     host_http_open = \<lambda>m url t. log_call (host_http_open hh m url t) (Ev_open m url),
     host_http_set_header = \<lambda>r k v. log_call (host_http_set_header hh r k v) (\<lambda>_. Ev_header r k v),
     host_http_set_body = \<lambda>r b. log_call (host_http_set_body hh r b) (\<lambda>_. Ev_body r b),
     host_http_perform = \<lambda>r. log_call (host_http_perform hh r) (\<lambda>_. Ev_perform r),
     host_http_status = \<lambda>r wl. (case host_http_status hh r (fst wl) of (x, w) \<Rightarrow> (x, (w, snd wl))),
     host_http_read_chunk = \<lambda>r n. log_call (host_http_read_chunk hh r n) (\<lambda>_. Ev_read r),
     host_http_close = \<lambda>r. log_call (host_http_close hh r) (\<lambda>_. Ev_close r)\<rparr>"

text \<open>The handles open after a log.\<close>

definition handle_step :: "int list \<Rightarrow> http_event \<Rightarrow> int list" where
  "handle_step hs e =
    (case e of Ev_open _ _ r \<Rightarrow> if 0 < r then r # hs else hs | Ev_close r \<Rightarrow> remove1 r hs | _ \<Rightarrow> hs)"

definition open_handles :: "http_event list \<Rightarrow> int list" where
  "open_handles es = foldl handle_step [] es"

text \<open>A log whose calls all satisfy \<open>P\<close>, with the handles \<open>hs\<close> open. \<open>follows P m\<close>: a program
  only makes calls that satisfy \<open>P\<close>, and closes what it opens.\<close>

definition log_inv :: "(http_event \<Rightarrow> bool) \<Rightarrow> int list \<Rightarrow> 'w logged \<Rightarrow> bool" where
  "log_inv P hs wl \<longleftrightarrow> list_all P (snd wl) \<and> open_handles (snd wl) = hs"

definition follows :: "(http_event \<Rightarrow> bool) \<Rightarrow> ('w logged, 'r) state \<Rightarrow> bool" where
  "follows P m \<longleftrightarrow> (\<forall>hs. keeps (log_inv P hs) m)"

text \<open>The calls that carry neither a URL nor a header.\<close>

definition permits :: "(http_event \<Rightarrow> bool) \<Rightarrow> bool" where
  "permits P \<longleftrightarrow> (\<forall>r b. P (Ev_body r b) \<and> P (Ev_perform r) \<and> P (Ev_read r) \<and> P (Ev_close r))"

lemma handle_step_simps [simp]:
  "handle_step hs (Ev_open m url r) = (if 0 < r then r # hs else hs)"
  "handle_step hs (Ev_header r k v) = hs" "handle_step hs (Ev_body r b) = hs"
  "handle_step hs (Ev_perform r) = hs" "handle_step hs (Ev_read r) = hs"
  "handle_step hs (Ev_close r) = remove1 r hs"
  by (simp_all add: handle_step_def)

lemma open_handles_snoc [simp]: "open_handles (es @ [e]) = handle_step (open_handles es) e"
  by (simp add: open_handles_def)

lemma log_inv_call:
  "(\<And>r. P (e r) \<and> handle_step hs (e r) = hs') \<Longrightarrow> log_inv P hs wl \<Longrightarrow> log_inv P hs' (snd (log_call f e wl))"
  by (simp add: log_inv_def log_call_def split_beta)

lemma header_logged: "P (Ev_header r k v) \<Longrightarrow> keeps (log_inv P hs) (req_header (traced hh) r k v)"
  unfolding req_header_def
  by (intro keeps_intro) (auto simp: keeps_def traced_def intro!: log_inv_call)

lemma body_logged: "permits P \<Longrightarrow> keeps (log_inv P hs) (req_body (traced hh) r b)"
  unfolding req_body_def
  by (intro keeps_intro) (auto simp: keeps_def traced_def permits_def intro!: log_inv_call)

lemma perform_logged: "permits P \<Longrightarrow> keeps (log_inv P hs) (req_perform (traced hh) r)"
  unfolding req_perform_def
  by (intro keeps_intro)
     (auto simp: keeps_def traced_def log_inv_def permits_def log_call_def split_beta)

lemma read_loop_logged:
  assumes "permits P"
  shows "log_inv P hs wl \<Longrightarrow> log_inv P hs (snd (read_loop_max (traced hh) r mx out wl))"
proof (induction "traced hh" r mx out wl rule: read_loop_max.induct)
  case (1 r mx out wl)
  obtain x wl' where c: "host_http_read_chunk (traced hh) r (min READ_CHUNK (mx - length out)) wl = (x, wl')"
    by (rule prod.exhaust)
  have "wl' = snd (log_call (host_http_read_chunk hh r (min READ_CHUNK (mx - length out))) (\<lambda>_. Ev_read r) wl)"
    using c by (simp add: traced_def)
  then have inv: "log_inv P hs wl'"
    by (simp only:) (rule log_inv_call [OF _ 1(2)], use assms in \<open>simp add: permits_def\<close>)
  show ?case
    by (subst read_loop_max.simps) (auto simp: c inv 1(2) split: sum.split intro!: 1(1) [OF _ c [symmetric]])
qed

lemma read_logged: "permits P \<Longrightarrow> keeps (log_inv P hs) (read_to_string_max (traced hh) r mx)"
  unfolding read_to_string_max_def read_to_vec_max_def
  by (intro keeps_intro) (simp add: keeps_def read_loop_logged)

text \<open>A request opens and closes its handle.\<close>

lemma with_request_logged:
  assumes "permits P" and url: "\<And>r. P (Ev_open m url r)" and body: "\<And>r hs. keeps (log_inv P hs) (f r)"
  shows "keeps (log_inv P hs) (with_request (traced hh) m url t d f)"
proof (rule keepsI)
  fix wl x wl'
  assume inv: "log_inv P hs wl" and run: "run_state (with_request (traced hh) m url t d f) wl = (x, wl')"
  show "log_inv P hs wl'"
  proof (cases "0 \<in> set url")
    case True
    then show ?thesis using run inv by (simp add: with_request_def req_open_def)
  next
    case False
    obtain rc wl1 where o: "host_http_open (traced hh) m url t wl = (rc, wl1)" by (rule prod.exhaust)
    have "snd wl1 = snd wl @ [Ev_open m url rc]"
      using o by (auto simp: traced_def log_call_def split: prod.splits)
    then have inv1: "log_inv P (if 0 < rc then rc # hs else hs) wl1"
      using inv url by (simp add: log_inv_def)
    show ?thesis
    proof (cases "rc \<le> 0")
      case True
      then show ?thesis using run False o inv1 by (simp add: with_request_def req_open_def)
    next
      case pos: False
      obtain y wl2 where b: "run_state (f rc) wl1 = (y, wl2)" by (rule prod.exhaust)
      have inv2: "log_inv P (rc # hs) wl2" using keepsD [OF body b] inv1 pos by simp
      have "wl' = snd (log_call (host_http_close hh rc) (\<lambda>_. Ev_close rc) wl2)"
        using run False o pos b
        by (simp add: with_request_def req_open_def traced_def split_beta)
      then show ?thesis
        by (simp only:) (rule log_inv_call [OF _ inv2], use assms(1) in \<open>simp add: permits_def\<close>)
    qed
  qed
qed

section \<open>Clients of one server\<close>

text \<open>The calls allowed to a client of \<open>base\<close> with token \<open>tok\<close>.\<close>

definition confined :: "ustr \<Rightarrow> ustr \<Rightarrow> http_event \<Rightarrow> bool" where
  "confined base tok e =
    (case e of
       Ev_open _ url _ \<Rightarrow> starts_with base url
     | Ev_header _ k v \<Rightarrow> k = lit ''Authorization'' \<longrightarrow> v = lit ''Bearer '' @ tok
     | _ \<Rightarrow> True)"

abbreviation net_inv :: "ustr \<Rightarrow> ustr \<Rightarrow> int list \<Rightarrow> 'w logged \<Rightarrow> bool" where
  "net_inv base tok \<equiv> log_inv (confined base tok)"

abbreviation disciplined :: "ustr \<Rightarrow> ustr \<Rightarrow> ('w logged, 'r) state \<Rightarrow> bool" where
  "disciplined base tok \<equiv> follows (confined base tok)"

lemma confined_simps [simp]:
  "confined base tok (Ev_open m url r) = starts_with base url"
  "confined base tok (Ev_header r k v) = (k = lit ''Authorization'' \<longrightarrow> v = lit ''Bearer '' @ tok)"
  "permits (confined base tok)"
  by (simp_all add: confined_def permits_def)

lemma header_disciplined:
  "k \<noteq> lit ''Authorization'' \<or> v = lit ''Bearer '' @ tok \<Longrightarrow>
   keeps (net_inv base tok hs) (req_header (traced hh) r k v)"
  by (rule header_logged) auto

lemma request_disciplined [keeps_intro]:
  "keeps (net_inv base tok hs) (req_body (traced hh) r b)" "keeps (net_inv base tok hs) (req_perform (traced hh) r)"
  "keeps (net_inv base tok hs) (read_to_string_max (traced hh) r mx)"
  by (simp_all add: body_logged perform_logged read_logged)

lemma with_request_disciplined [keeps_intro]:
  "starts_with base url \<Longrightarrow> (\<And>r hs. keeps (net_inv base tok hs) (f r)) \<Longrightarrow>
   keeps (net_inv base tok hs) (with_request (traced hh) m url t d f)"
  by (rule with_request_logged) simp_all

lemma disciplinedI: "(\<And>hs. keeps (net_inv base tok hs) m) \<Longrightarrow> disciplined base tok m"
  by (simp add: follows_def)

section \<open>Properties the host keeps\<close>

text \<open>A property of the firmware that every HTTP call of the host keeps is kept by every request.\<close>

definition http_closed :: "'w http_host \<Rightarrow> ('w \<Rightarrow> bool) \<Rightarrow> bool" where
  "http_closed hh W \<longleftrightarrow> (\<forall>w. W w \<longrightarrow>
     (\<forall>m url t. W (snd (host_http_open hh m url t w))) \<and> (\<forall>r k v. W (snd (host_http_set_header hh r k v w)))
     \<and> (\<forall>r b. W (snd (host_http_set_body hh r b w))) \<and> (\<forall>r. W (snd (host_http_perform hh r w)))
     \<and> (\<forall>r. W (snd (host_http_status hh r w))) \<and> (\<forall>r n. W (snd (host_http_read_chunk hh r n w)))
     \<and> (\<forall>r. W (snd (host_http_close hh r w))))"

lemma closed_calls:
  assumes "http_closed hh W"
  shows "keeps W (State (host_http_open hh m url t))" "keeps W (State (host_http_set_header hh r k v))"
    "keeps W (State (host_http_set_body hh r b))" "keeps W (State (host_http_perform hh r))"
    "keeps W (State (host_http_status hh r))" "keeps W (State (host_http_close hh r))"
  using assms by (simp_all add: http_closed_def keeps_def)

lemma closed_read_loop:
  "http_closed hh W \<Longrightarrow> W w \<Longrightarrow> W (snd (read_loop_max hh r mx out w))"
proof (induction hh r mx out w rule: read_loop_max.induct)
  case (1 hh r mx out w)
  obtain x w1 where c: "host_http_read_chunk hh r (min READ_CHUNK (mx - length out)) w = (x, w1)" by (rule prod.exhaust)
  have "W (snd (host_http_read_chunk hh r (min READ_CHUNK (mx - length out)) w))"
    using 1(2,3) by (simp add: http_closed_def)
  then have "W w1" using c by simp
  then show ?case
    using 1(2,3) by (subst read_loop_max.simps) (auto simp: c split: sum.split intro!: 1(1) [OF _ c [symmetric]])
qed

lemma closed_requests:
  assumes "http_closed hh W"
  shows "keeps W (req_header hh r k v)" "keeps W (req_body hh r b)" "keeps W (req_perform hh r)"
    "keeps W (read_to_string_max hh r mx)"
    "(\<And>r. keeps W (f r)) \<Longrightarrow> keeps W (with_request hh m url t d f)"
  unfolding req_header_def req_body_def req_perform_def read_to_string_max_def read_to_vec_max_def with_request_def
    req_open_def
  by (intro keeps_intro closed_calls [OF assms]; simp add: keeps_def closed_read_loop [OF assms])+

end
