(* ===== verification/Matrix_Client_Laws.thy ===== *)
theory Matrix_Client_Laws
  imports Matrix_Client Sdk_Http_Laws
begin

text \<open>What the calls of the Matrix client do on the wire, on a host with a log of the calls.\<close>

lemma exchange_disciplined [keeps_intro]: "keeps (net_inv base tok hs) (exchange (traced hh) r mx)"
  unfolding exchange_def by (intro keeps_intro)

lemma headers_disciplined [keeps_intro]:
  "keeps (net_inv base tok hs) (json_header (traced hh) r)"
  "keeps (net_inv base tok hs) (set_body (traced hh) r b)"
  "keeps (net_inv base tok hs) (auth (traced hh) r tok)"
  unfolding json_header_def set_body_def auth_def
  by (intro keeps_intro header_disciplined; simp add: lit_def)+

lemma fetch_disciplined [keeps_intro]:
  "starts_with (base_url s) url \<Longrightarrow> keeps (net_inv (base_url s) (token s) hs) (fetch (traced hh) s url t mx)"
  unfolding fetch_def by (intro keeps_intro)

lemma post_disciplined [keeps_intro]:
  "starts_with (base_url s) url \<Longrightarrow> keeps (net_inv (base_url s) (token s) hs) (post_empty (traced hh) s url)"
  "starts_with (base_url s) url \<Longrightarrow> keeps (net_inv (base_url s) (token s) hs) (request_json (traced hh) m s url b)"
  "starts_with (base_url s) url \<Longrightarrow> keeps (net_inv (base_url s) (token s) hs) (post_for_room (traced hh) j s url b p)"
  unfolding post_empty_def request_json_def post_for_room_def by (intro keeps_intro; assumption)+

end
