(* ===== verification/Matrix_App_Claims.thy ===== *)
theory Matrix_App_Claims
  imports Matrix_Bench Matrix_Sync_Laws Matrix_Client_Laws
begin

text \<open>Properties of the Matrix plugin's encryption, sync, distribution, requests and views, with
  their witnesses.\<close>

section \<open>Encryption\<close>

lemma xor_parity: "foldl (\<lambda>acc b. acc XOR b) 0 (bs @ [foldl (\<lambda>acc b. acc XOR b) 0 bs]) = (0 :: u8)"
  by simp

text \<open>C23: a recovery key parses back from its text, however the text is spaced.\<close>
theorem recovery_key_roundtrip:
  assumes "length key = 32" and "filter (\<lambda>c. \<not> is_whitespace c) s = encode_recovery_key key"
  shows "parse_recovery_key s = Some key"
proof -
  let ?bytes = "[0x8b, 0x01] @ key"
  let ?data = "?bytes @ [foldl (\<lambda>acc b. acc XOR b) 0 ?bytes]"
  have "base58_decode (filter (\<lambda>c. \<not> is_whitespace c) s) = Some ?data"
    by (rule base58_decode_spaced) (simp add: assms(2) encode_recovery_key_def Let_def)
  then show ?thesis
    using assms(1) xor_parity [of ?bytes] by (simp add: parse_recovery_key_def)
qed

theorem recovery_key_roundtrip_witness:
  "parse_recovery_key ([32] @ encode_recovery_key (replicate 32 7) @ [10]) = Some (replicate 32 7)"
proof -
  have "filter (\<lambda>c. \<not> is_whitespace c) (encode_recovery_key (replicate 32 7)) = encode_recovery_key (replicate 32 7)"
    using b58_text_plain by (simp add: encode_recovery_key_def Let_def filter_id_conv)
  then have "filter (\<lambda>c. \<not> is_whitespace c) ([32] @ encode_recovery_key (replicate 32 7) @ [10])
      = encode_recovery_key (replicate 32 7)"
    by (simp add: is_whitespace_def)
  then show ?thesis by (rule recovery_key_roundtrip [rotated]) simp
qed

text \<open>What changes the inbound sessions after an import: room keys and timelines of a sync, fetched
  history, and a server-side backup.\<close>

datatype inbound_event =
  Keys "to_device_olm list"
| Timeline "room_update list"
| History ustr "message list"
| Backup "backup_session list"

definition inbound_step ::
  "('w, 'v, 'acc, 'ib, 'gs, 'os, 'pk) mx_host \<Rightarrow> inbound_event
   \<Rightarrow> ('acc, 'ib, 'gs, 'os, 'pk) crypto \<Rightarrow> ('acc, 'ib, 'gs, 'os, 'pk) crypto" where
  "inbound_step h e c =
    (case e of
       Keys tds \<Rightarrow> snd (import_keys h tds c)
     | Timeline us \<Rightarrow> snd (decrypt_updates h us c)
     | History rid ms \<Rightarrow> snd (decrypt_messages h rid ms c)
     | Backup bss \<Rightarrow> import_backup_all h bss c)"

lemma import_backup_all_kept: "bindings_kept c (import_backup_all h bss c)"
  unfolding import_backup_all_def
proof (induction bss arbitrary: c)
  case (Cons b bss)
  show ?case
    unfolding fold.simps comp_apply
    by (rule bindings_kept_trans [OF import_backup_session_kept [OF prod.collapse [symmetric]] Cons.IH])
qed simp

lemma inbound_step_kept: "bindings_kept c (inbound_step h e c)"
  unfolding inbound_step_def
  by (cases e)
     (simp_all add: import_backup_all_kept import_keys_props [OF prod.collapse [symmetric]]
       decrypt_updates_props [OF prod.collapse [symmetric]] decrypt_messages_props [OF prod.collapse [symmetric]])

lemma inbound_steps_kept: "bindings_kept c (fold (inbound_step h) es c)"
  by (induction es arbitrary: c) (auto intro: bindings_kept_trans inbound_step_kept)

text \<open>C18: a room key stays bound to the room and sender it was imported for: whatever syncs, history
  and backups bring later, a message only ever decrypts under it in that room and from that sender.\<close>
theorem bound_session:
  assumes "import_room_key z sid key room sender c = (True, c1)" and "room \<noteq> []" and "sender \<noteq> []"
    and "decrypt_megolm z' j sl sid ct room' sender' (fold (inbound_step h) es c1) = (Some body, c2)"
  shows "room' = room \<and> sender' = sender"
proof -
  obtain s where s: "insert_inbound z sid s room sender c = (True, c1)"
    using assms(1) by (auto simp: import_room_key_def split: option.splits)
  then obtain e where e: "c_inbound c1 sid = Some e" "ie_room_id e = room" "ie_sender_key e = sender"
    using insert_inbound_bound [OF s] assms(2,3) by auto
  obtain e' where "c_inbound (fold (inbound_step h) es c1) sid = Some e'" "same_binding e e'"
    using inbound_steps_kept [of c1 h es] e(1) by (auto simp: bindings_kept_def)
  then show ?thesis
    using decrypt_megolm_bound [OF assms(4)] e(2,3) assms(2,3) by (auto simp: same_binding_def)
qed

definition demo_event :: tree where
  "demo_event = Obj [(lit ''room_id'', Txt (lit ''!r'')), (lit ''content'', Obj [(lit ''body'', Txt (lit ''hi''))])]"

definition demo_keyed :: "(ustr, ustr, ustr \<times> nat, nat, unit) crypto" where
  "demo_keyed = snd (import_room_key (hvoz demo_host) [5] [5] (lit ''!r'') (lit ''k'') (crypto_new (lit ''me'')))"

theorem bound_session_witness:
  "fst (decrypt_megolm (hvoz demo_host) tree_serde (\<lambda>_. Some demo_event) [5] [9] (lit ''!r'') (lit ''k'') demo_keyed)
     = Some (lit ''hi'')"
proof -
  have i: "import_room_key (hvoz demo_host) [5] [5] (lit ''!r'') (lit ''k'') (crypto_new (lit ''me'')) = (True, demo_keyed)"
    by (simp add: demo_keyed_def import_room_key_def insert_inbound_def crypto_new_def)
  have f: "fold (inbound_step demo_host) [Keys [], Timeline []] demo_keyed = demo_keyed"
    by (simp add: inbound_step_def import_keys_def)
  have d: "fst (decrypt_megolm (hvoz demo_host) tree_serde (\<lambda>_. Some demo_event) [5] [9] (lit ''!r'') (lit ''k'') demo_keyed)
      = Some (lit ''hi'')"
    by (simp add: demo_keyed_def import_room_key_def insert_inbound_def crypto_new_def decrypt_megolm_def
        demo_event_def tree_serde_def lit_def)
  then obtain c2 where d2: "decrypt_megolm (hvoz demo_host) tree_serde (\<lambda>_. Some demo_event) [5] [9] (lit ''!r'')
      (lit ''k'') (fold (inbound_step demo_host) [Keys [], Timeline []] demo_keyed) = (Some (lit ''hi''), c2)"
    unfolding f by (metis prod.collapse)
  have ne: "lit ''!r'' \<noteq> []" "lit ''k'' \<noteq> []" by (simp_all add: lit_def)
  from bound_session [OF i ne d2] d show ?thesis by simp
qed

section \<open>Sync\<close>




text \<open>The exports of the plugin.\<close>

datatype mx_call = Mx_enter | Mx_tick u64 | Mx_action u32 u32 | Mx_exit

definition mx_export ::
  "('w, 'v, 'acc, 'ib, 'gs, 'os, 'pk) mx_host \<Rightarrow> mx_call \<Rightarrow> (('w, 'acc, 'ib, 'gs, 'os, 'pk) mst, unit) state" where
  "mx_export h c =
    (case c of
       Mx_enter \<Rightarrow> mx_on_enter h
     | Mx_tick now \<Rightarrow> mx_on_tick h now
     | Mx_action action item \<Rightarrow> mx_on_action h action item
     | Mx_exit \<Rightarrow> mx_on_exit h)"

text \<open>C20: after any sequence of exports, room ids are distinct, no room holds more than \<open>RETAIN\<close>
  messages, and every queued key distribution has recipients and a position within them.\<close>
theorem plugin_well_formed:
  "cells plugin_ok (foldl (\<lambda>st c. snd (run_state (mx_export h c) st)) (init_mst w) cs)"
proof (induction cs rule: rev_induct)
  case Nil
  show ?case by (simp add: cells_def init_mst_def plugin_ok_def rooms_ok_def)
next
  case (snoc c cs)
  have "keeps (cells plugin_ok) (mx_export h c)"
    by (cases c) (simp_all add: mx_export_def plugin.kept_enter plugin.kept_tick plugin.kept_action plugin.kept_exit)
  then show ?case using snoc by (simp add: keeps_def)
qed

text \<open>A sync, a step of the distribution and an encrypted send keep every peer's Olm sessions at
  \<open>MAX_OLM_SESSIONS_PER_PEER\<close> or fewer.\<close>
theorem olm_sessions_bounded:
  "keeps (cells olm_prop) (sync_now h full) \<and> keeps (cells olm_prop) (process_distribution h)
    \<and> keeps (cells olm_prop) (e2ee_send h room text)"
  by (intro conjI olm.kept_sync olm.kept_process olm.kept_e2ee)

section \<open>Key distribution\<close>

text \<open>C21: while the encryption is live, the front distribution has left the queue after at most one
  tick per chunk of \<open>DIST_CHUNK\<close> recipients and three retries, whatever the network does, and the
  jobs behind it are untouched.\<close>
theorem distribution_leaves:
  assumes "pending_dists st = pd # ds" and "crypto st \<noteq> None" and "fresh_job pd"
    and "length ts = div_ceil (length (pd_targets pd)) DIST_CHUNK + 3"
  shows "list_ex (\<lambda>k. pending_dists (ticks h (take k ts) st) = ds) [0..<Suc (length ts)]"
proof -
  have "ticks_left pd = length ts" "pd_retries pd \<le> DIST_MAX_RETRIES"
    using assms(3,4) by (auto simp: fresh_job_def ticks_left_def DIST_MAX_RETRIES_def)
  then obtain k where "k \<le> length ts" "pending_dists (ticks h (take k ts) st) = ds"
    using job_leaves [OF assms(1,2), of ts h] by auto
  then show ?thesis unfolding list_ex_iff by (intro bexI [of _ k]) auto
qed

theorem distribution_leaves_witness:
  "list_ex (\<lambda>k. pending_dists (ticks demo_host (take k [1, 2, 3, 4, 5]) (demo_state 8)) = []) [0..<6]"
proof -
  have n: "6 = Suc (length [1, 2, 3, 4, 5 :: u64])" by simp
  show ?thesis
    unfolding n by (rule distribution_leaves [of "demo_state 8" "demo_job 8"])
      (simp_all add: demo_state_def demo_job_def fresh_job_def div_ceil_def DIST_CHUNK_def)
qed

text \<open>How a distribution goes on a network that does not answer. \<open>payloads\<close> counts the device
  messages kept for sending.\<close>

definition payloads :: "(ustr \<times> ustr list) list \<Rightarrow> nat" where
  "payloads msgs = length (concat (map snd msgs))"

lemma payloads_push: "payloads (btree_push k v m) = Suc (payloads m)"
  by (induction k v m rule: btree_push.induct) (simp_all add: payloads_def)

abbreviation peers_known :: "(ustr, ustr, ustr \<times> nat, nat, unit) crypto \<Rightarrow> olm_target list \<Rightarrow> bool" where
  "peers_known c ts \<equiv> list_all (\<lambda>t. has_olm_session (ot_curve t) c) ts"

lemma wrap_target_clear:
  assumes "has_olm_session (ot_curve t) c"
  obtains x c' where "wrap_target clear_voz pd t msgs c w = (btree_push (ot_user_id t) x msgs, c', w)"
    "\<And>k. has_olm_session k c' = has_olm_session k c"
proof -
  obtain v where v: "c_olm c (ot_curve t) = Some v" "v \<noteq> []"
    using assms by (auto simp: has_olm_session_def split: option.splits)
  show thesis
    using v assms
    by (intro that [of _ "c\<lparr>c_olm := (c_olm c)(ot_curve t \<mapsto> butlast v @ [Suc (last v)])\<rparr>"])
       (auto simp: wrap_target_def ensure_olm_def olm_encrypt_def has_olm_session_def Let_def)
qed

lemma wrap_targets_clear:
  assumes "peers_known c ts"
  shows "\<exists>msgs' c'. wrap_targets clear_voz pd ts msgs c w = (msgs', c', w)
    \<and> payloads msgs' = payloads msgs + length ts \<and> (\<forall>k. has_olm_session k c' = has_olm_session k c)"
  using assms
proof (induction ts arbitrary: msgs c)
  case (Cons t ts)
  have t: "has_olm_session (ot_curve t) c" using Cons.prems by simp
  obtain x c1 where w: "wrap_target clear_voz pd t msgs c w = (btree_push (ot_user_id t) x msgs, c1, w)"
    "\<And>k. has_olm_session k c1 = has_olm_session k c"
    by (rule wrap_target_clear [OF t]) blast
  have "peers_known c1 ts" using Cons.prems w(2) by (simp add: list_all_iff)
  from Cons.IH [OF this, of "btree_push (ot_user_id t) x msgs"] show ?case
    by (auto simp: w payloads_push)
qed simp

lemma dead_send: "run_state (send_to_device dead_http s m n) w = (False, w)"
  by (simp add: send_to_device_def request_json_def dead_request)

text \<open>A tick wraps the next chunk; the send fails. With retries left, what was wrapped stays with the
  job and a retry is counted; without, it is dropped.\<close>

lemma send_front_dead:
  assumes "run_state (send_front demo_host pd) st = (go, st')"
  shows "crypto st' = crypto st \<and> go = (\<not> pd_retries pd < DIST_MAX_RETRIES) \<and>
    pending_dists st' = (if pd_retries pd < DIST_MAX_RETRIES then pd\<lparr>pd_retries := pd_retries pd + 1\<rparr>
       else pd\<lparr>pd_msgs := []\<rparr>) # tl (pending_dists st)"
proof -
  obtain u st1 where p: "run_state (persist_crypto demo_host) st = (u, st1)" by (rule prod.exhaust)
  obtain n st2 where t: "run_state (next_txn demo_host) st1 = (n, st2)" by (rule prod.exhaust)
  show ?thesis
    using assms persist_cells [OF p] next_txn_cells [OF t]
    by (simp add: send_front_def p t dead_send split: if_splits) auto
qed

lemma tick_dead:
  assumes q: "pending_dists st = pd # ds" and c: "crypto st = Some c" and k: "peers_known c (pd_targets pd)"
    and n: "pd_next pd + DIST_CHUNK \<le> length (pd_targets pd)"
    and run: "run_state (mx_on_tick demo_host t) st = (u, st')"
  obtains msgs c' where "crypto st' = Some c'" "peers_known c' (pd_targets pd)"
    "payloads msgs = payloads (pd_msgs pd) + DIST_CHUNK"
    "pending_dists st' =
      (if pd_retries pd < DIST_MAX_RETRIES
       then pd\<lparr>pd_msgs := msgs, pd_next := pd_next pd + DIST_CHUNK, pd_retries := pd_retries pd + 1\<rparr> # ds
       else if pd_next pd + DIST_CHUNK < length (pd_targets pd)
       then pd\<lparr>pd_msgs := [], pd_next := pd_next pd + DIST_CHUNK\<rparr> # ds
       else ds)"
proof -
  let ?ts = "take DIST_CHUNK (drop (pd_next pd) (pd_targets pd))"
  have stop: "min (pd_next pd + DIST_CHUNK) (length (pd_targets pd)) = pd_next pd + DIST_CHUNK" using n by simp
  have "peers_known c ?ts" using k by (auto simp: list_all_iff dest!: in_set_takeD in_set_dropD)
  then obtain msgs c' where w: "wrap_targets clear_voz pd ?ts (pd_msgs pd) c (world st) = (msgs, c', world st)"
    "payloads msgs = payloads (pd_msgs pd) + DIST_CHUNK" "\<forall>k. has_olm_session k c' = has_olm_session k c"
    using wrap_targets_clear [of c ?ts pd "pd_msgs pd" "world st"] n by auto
  have ne: "msgs \<noteq> []" using w(2) by (auto simp: payloads_def DIST_CHUNK_def)
  let ?pd = "pd\<lparr>pd_msgs := msgs, pd_next := pd_next pd + DIST_CHUNK\<rparr>"
  define st1 where "st1 = st\<lparr>mx_ui := mx_ui st @ [Toast (tr demo_host ''distributing'' @ [10] @ show_nat (pd_next pd) @
      lit ''/'' @ show_nat (length (pd_targets pd))) Ico_none 0],
      crypto := Some c', world := world st, pending_dists := ?pd # ds\<rparr>"
  obtain go st2 where s: "run_state (send_front demo_host ?pd) st1 = (go, st2)" by (rule prod.exhaust)
  have "run_state (do { go \<leftarrow> send_front demo_host ?pd; whenM go (finish_front demo_host ?pd) }) st1 = (u, st')"
    using run q c w(1) ne stop
    by (simp add: tick_distributes process_distribution_def run_on_crypto Let_def st1_def cong: if_cong split del: if_split)
  then have "run_state (whenM go (finish_front demo_host ?pd)) st2 = (u, st')" using s by simp
  moreover have "crypto st2 = Some c'" "go = (\<not> pd_retries pd < DIST_MAX_RETRIES)"
    "pending_dists st2 = (if pd_retries pd < DIST_MAX_RETRIES then ?pd\<lparr>pd_retries := pd_retries pd + 1\<rparr>
       else ?pd\<lparr>pd_msgs := []\<rparr>) # ds"
    using send_front_dead [OF s] by (simp_all add: st1_def)
  ultimately have "crypto st' = Some c' \<and> pending_dists st' =
      (if pd_retries pd < DIST_MAX_RETRIES
       then pd\<lparr>pd_msgs := msgs, pd_next := pd_next pd + DIST_CHUNK, pd_retries := pd_retries pd + 1\<rparr> # ds
       else if pd_next pd + DIST_CHUNK < length (pd_targets pd)
       then pd\<lparr>pd_msgs := [], pd_next := pd_next pd + DIST_CHUNK\<rparr> # ds
       else ds)"
    using finish_front_step [of demo_host ?pd st2 u st'] n
    by (cases "pd_retries pd < DIST_MAX_RETRIES") auto
  moreover have "peers_known c' (pd_targets pd)" using k w(3) by simp
  ultimately show thesis using that w(2) by blast
qed

text \<open>On a network that does not answer, the messages of failed chunks pile up with those of the
  next ones instead of being retried before the next chunk: a job of sixteen recipients holds twelve
  device messages after three ticks, and the fourth tick drops all sixteen, the last four after a
  single attempt.\<close>
theorem failed_chunks_pile_up:
  "map (\<lambda>pd. (pd_next pd, payloads (pd_msgs pd), pd_retries pd)) (pending_dists (ticks demo_host [1, 2, 3] (demo_state 16)))
     = [(12, 3 * DIST_CHUNK, DIST_MAX_RETRIES)]
   \<and> pending_dists (ticks demo_host [1, 2, 3, 4] (demo_state 16)) = []"
proof -
  define run where "run = (\<lambda>st t. snd (run_state (mx_on_tick demo_host t) st))"
  have r: "run_state (mx_on_tick demo_host t) st = (fst (run_state (mx_on_tick demo_host t) st), run st t)"
    for st t unfolding run_def by (rule prod.collapse [symmetric])
  let ?P = "\<lambda>st k. \<exists>c pd. crypto st = Some c \<and> peers_known c (pd_targets pd) \<and> length (pd_targets pd) = 16
    \<and> pending_dists st = [pd] \<and> pd_next pd = DIST_CHUNK * k \<and> payloads (pd_msgs pd) = DIST_CHUNK * k
    \<and> pd_retries pd = of_nat k"
  have P0: "?P (demo_state 16) 0"
    by (simp add: demo_state_def demo_job_def demo_crypto_def demo_target_def has_olm_session_def payloads_def list_all_iff)
  have step: "?P (run st t) (Suc k)" if "?P st k" "k < 3" for st t k
    using that(1)
  proof (elim exE conjE)
    fix c pd assume a: "crypto st = Some c" "peers_known c (pd_targets pd)" "length (pd_targets pd) = 16"
      "pending_dists st = [pd]" "pd_next pd = DIST_CHUNK * k" "payloads (pd_msgs pd) = DIST_CHUNK * k"
      "pd_retries pd = of_nat k"
    have "pd_next pd + DIST_CHUNK \<le> length (pd_targets pd)" using a(3,5) that(2) by (simp add: DIST_CHUNK_def)
    moreover have "pd_retries pd < DIST_MAX_RETRIES"
      using a(7) that(2) by (simp add: DIST_MAX_RETRIES_def word_less_nat_alt unat_of_nat_u8)
    ultimately show ?thesis
      using a by (elim tick_dead [OF a(4,1,2) _ r]) auto
  qed
  have P3: "?P (run (run (run (demo_state 16) 1) 2) 3) 3"
    using step [OF step [OF step [OF P0]]] by (simp add: numeral_eq_Suc)
  then obtain c pd where a: "crypto (run (run (run (demo_state 16) 1) 2) 3) = Some c" "peers_known c (pd_targets pd)"
    "length (pd_targets pd) = 16" "pending_dists (run (run (run (demo_state 16) 1) 2) 3) = [pd]"
    "pd_next pd = DIST_CHUNK * 3" "payloads (pd_msgs pd) = DIST_CHUNK * 3" "pd_retries pd = 3" by auto
  have "pd_next pd + DIST_CHUNK \<le> length (pd_targets pd)" using a(3,5) by (simp add: DIST_CHUNK_def)
  then have "pending_dists (run (run (run (run (demo_state 16) 1) 2) 3) 4) = []"
    using a by (elim tick_dead [OF a(4,1,2) _ r]) (simp add: DIST_MAX_RETRIES_def DIST_CHUNK_def)
  then show ?thesis using a by (simp add: ticks_def run_def DIST_CHUNK_def DIST_MAX_RETRIES_def)
qed

section \<open>Requests\<close>







end
