(* ===== verification/Matrix_View_Claims.thy ===== *)
theory Matrix_View_Claims
  imports Matrix_Bench Matrix_App_Laws
begin

text \<open>Properties of the Matrix plugin's views, settings and persistence, with their witnesses, and
  the course of a key distribution on a network that does not answer.\<close>

section \<open>Chat\<close>

lemma concat_chunks: "0 < n \<Longrightarrow> concat (chunks n xs) = xs"
  by (induction n xs rule: chunks.induct) (subst chunks.simps, simp)

lemma chunks_bound: "list_all (\<lambda>c. length c \<le> n) (chunks n xs)"
  by (induction n xs rule: chunks.induct) (subst chunks.simps, simp)

lemma concat_wrap: "0 < cols \<Longrightarrow> concat (wrap_line cols line) = line"
  by (simp add: wrap_line_def concat_chunks)

lemma chat_lines_text: "0 < cols \<Longrightarrow> concat (chat_lines label cols ms) = concat (map (message_line label) ms)"
  by (induction ms) (simp_all add: chat_lines_def concat_wrap)

lemma chat_lines_bound: "list_all (\<lambda>l. length l \<le> cols) (chat_lines label cols ms)"
  using chunks_bound by (auto simp: chat_lines_def wrap_line_def list_all_iff split: if_splits)

text \<open>The texts a view draws, with their vertical positions.\<close>

fun drawn :: "mx_ui list \<Rightarrow> (i16 \<times> ustr) list" where
  "drawn [] = []"
| "drawn (Canvas_text x y t # es) = (y, t) # drawn es"
| "drawn (e # es) = drawn es"

lemma drawn_append: "drawn (es @ fs) = drawn es @ drawn fs"
  by (induction es rule: drawn.induct) simp_all

lemma drawn_map: "drawn (map (\<lambda>i. Canvas_text (x i) (y i) (t i)) is) = map (\<lambda>i. (y i, t i)) is"
  by (induction "is") simp_all

lemma sint_row: "unat x < 2 ^ 15 \<Longrightarrow> sint (x :: u16) = int (unat x)"
proof -
  assume "unat x < 2 ^ 15"
  then have "int (unat x) < 2 ^ 15" by (metis of_nat_less_iff of_nat_numeral of_nat_power)
  then have "uint x < 2 ^ 15" by (simp only: uint_nat)
  moreover have "- (2 ^ 15) \<le> uint x" by (rule order_trans [OF _ uint_ge_0]) simp
  ultimately have "sint x = uint x" by (simp add: sint_uint signed_take_bit_int_eq_self)
  then show ?thesis by (simp only: uint_nat)
qed

lemma row_position:
  fixes b :: u16
  assumes "1 \<le> k" and "10 * k \<le> unat b" and "unat b < 2 ^ 15"
  shows "sint (b - of_nat k * of_nat CHAT_LINE_H) = int (unat b) - 10 * int k"
proof -
  have u: "unat (of_nat k * of_nat CHAT_LINE_H :: u16) = 10 * k"
    using assms by (simp add: CHAT_LINE_H_def unat_word_ariths unat_of_nat take_bit_nat_eq_self_iff flip: of_nat_mult)
  then have "of_nat k * of_nat CHAT_LINE_H \<le> b"
    using assms(2) by (simp add: word_le_nat_alt)
  then have d: "unat (b - of_nat k * of_nat CHAT_LINE_H) = unat b - 10 * k"
    using u by (simp add: unat_sub)
  then have "unat (b - of_nat k * of_nat CHAT_LINE_H) < 2 ^ 15" using assms(3) by linarith
  then have "sint (b - of_nat k * of_nat CHAT_LINE_H) = int (unat b - 10 * k)" by (simp only: sint_row d)
  then show ?thesis using assms(2) by (simp only: of_nat_diff of_nat_mult of_nat_numeral)
qed

text \<open>The rows that fit, and the lines shown at scroll offset \<open>sc\<close>.\<close>

definition chat_window_at :: "nat \<Rightarrow> nat \<Rightarrow> ustr list \<Rightarrow> ustr list" where
  "chat_window_at rows sc lines = take rows (drop (length lines - rows - sc) lines)"

lemma draw_chat_calls:
  fixes area :: "u16 \<times> u16" and label :: "string \<Rightarrow> ustr" and r :: room and sc :: nat
  defines "rows \<equiv> unat (snd area) div CHAT_LINE_H" and "cols \<equiv> max (unat (fst area) div CHAR_W) 1"
  defines "lines \<equiv> chat_lines label cols (r_messages r)"
  defines "sc1 \<equiv> min sc (length lines - rows)"
  defines "win \<equiv> chat_window_at rows sc1 lines"
  assumes "1 \<le> rows"
  shows "draw_chat label area r sc =
    (if lines = [] then ([Canvas_clear, Canvas_text 0 2 (label ''no_messages''), Canvas_commit], 0)
     else (Canvas_clear # map (\<lambda>i. Canvas_text 0 (snd area - of_nat (length win - i) * of_nat CHAT_LINE_H) (win ! i))
             [0..<length win] @ [Canvas_commit], sc1))"
proof -
  have m: "max (unat (snd area) div CHAT_LINE_H) 1 = rows" using assms(6) by (simp add: rows_def)
  have w: "take (length lines - sc1 - (length lines - sc1 - rows)) (drop (length lines - sc1 - rows) lines) = win"
  proof (cases "rows \<le> length lines")
    case True
    then have "length lines - sc1 - (length lines - sc1 - rows) = rows"
      "length lines - sc1 - rows = length lines - rows - sc1" by (auto simp: sc1_def)
    then show ?thesis by (simp only: win_def chat_window_at_def)
  next
    case False
    then show ?thesis by (simp add: win_def sc1_def chat_window_at_def)
  qed
  show ?thesis
    unfolding draw_chat_def Let_def m by (simp only: w flip: cols_def lines_def sc1_def)
qed

text \<open>The lines of a window of at most \<open>unat b div CHAT_LINE_H\<close> rows lie inside a body of height
  \<open>b\<close>.\<close>

lemma window_inside:
  fixes b :: u16
  assumes "length win \<le> unat b div CHAT_LINE_H" and "unat b < 2 ^ 15" and "i < length win"
  shows "0 \<le> sint (b - of_nat (length win - i) * of_nat CHAT_LINE_H)
    \<and> sint (b - of_nat (length win - i) * of_nat CHAT_LINE_H) + int CHAT_LINE_H \<le> int (unat b)"
proof -
  have "10 * (unat b div CHAT_LINE_H) \<le> unat b" by (simp add: CHAT_LINE_H_def)
  then have k: "1 \<le> length win - i" "10 * (length win - i) \<le> unat b"
    using assms(1,3) by linarith+
  then have "10 * int (length win - i) \<le> int (unat b)"
    by (metis of_nat_le_iff of_nat_mult of_nat_numeral)
  moreover have "1 \<le> int (length win - i)" "int CHAT_LINE_H = 10" using k(1) by (simp_all add: CHAT_LINE_H_def)
  ultimately show ?thesis unfolding row_position [OF k assms(2)] by linarith
qed

text \<open>C24: the chat shows a window of the wrapped lines: wrapping loses no character and no line is
  wider than the body, the lines drawn are the consecutive ones ending \<open>scroll\<close> lines above the
  newest, the offset is clamped so that the window never runs past the oldest line, and every line
  is drawn inside the body.\<close>
theorem chat_window:
  assumes "12 \<le> unat (snd area)" and "unat (snd area) < 2 ^ 15"
  shows "let rows = unat (snd area) div CHAT_LINE_H;
      cols = max (unat (fst area) div CHAR_W) 1;
      lines = chat_lines label cols (r_messages r);
      (calls, sc') = draw_chat label area r sc
    in concat lines = concat (map (message_line label) (r_messages r))
     \<and> list_all (\<lambda>l. length l \<le> cols) lines
     \<and> sc' = min sc (length lines - rows)
     \<and> (lines \<noteq> [] \<longrightarrow> map snd (drawn calls) = chat_window_at rows sc' lines)
     \<and> list_all (\<lambda>(y, _). 0 \<le> sint y \<and> sint y + int CHAT_LINE_H \<le> int (unat (snd area))) (drawn calls)"
proof -
  let ?rows = "unat (snd area) div CHAT_LINE_H" and ?cols = "max (unat (fst area) div CHAR_W) 1"
  let ?lines = "chat_lines label ?cols (r_messages r)"
  let ?sc = "min sc (length ?lines - ?rows)"
  let ?win = "chat_window_at ?rows ?sc ?lines"
  have draw: "draw_chat label area r sc =
      (if ?lines = [] then ([Canvas_clear, Canvas_text 0 2 (label ''no_messages''), Canvas_commit], 0)
       else (Canvas_clear # map (\<lambda>i. Canvas_text 0 (snd area - of_nat (length ?win - i) * of_nat CHAT_LINE_H) (?win ! i))
               [0..<length ?win] @ [Canvas_commit], ?sc))"
    by (rule draw_chat_calls) (use assms(1) in \<open>simp add: CHAT_LINE_H_def\<close>)
  have win: "length ?win \<le> ?rows" by (simp add: chat_window_at_def)
  have texts: "drawn (fst (draw_chat label area r sc)) =
      (if ?lines = [] then [(2, label ''no_messages'')]
       else map (\<lambda>i. (snd area - of_nat (length ?win - i) * of_nat CHAT_LINE_H, ?win ! i)) [0..<length ?win])"
    unfolding draw by (simp add: drawn_append drawn_map)
  have "12 \<le> int (unat (snd area))" using assms(1) by (metis of_nat_le_iff of_nat_numeral)
  then have "list_all (\<lambda>(y, _). 0 \<le> sint y \<and> sint y + int CHAT_LINE_H \<le> int (unat (snd area)))
      (drawn (fst (draw_chat label area r sc)))"
    unfolding texts list_all_iff using window_inside [OF win assms(2)] by (auto simp: CHAT_LINE_H_def)
  moreover have "?lines \<noteq> [] \<longrightarrow> map snd (drawn (fst (draw_chat label area r sc))) = ?win"
    unfolding texts by (simp add: comp_def map_nth)
  moreover have "snd (draw_chat label area r sc) = ?sc" unfolding draw by simp
  moreover have "concat ?lines = concat (map (message_line label) (r_messages r))"
    by (rule chat_lines_text) simp
  ultimately show ?thesis
    using chat_lines_bound [of ?cols label "r_messages r"] unfolding Let_def split_beta by simp
qed

lemma chunks_short: "xs \<noteq> [] \<Longrightarrow> length xs \<le> n \<Longrightarrow> chunks n xs = [xs]"
  by (subst chunks.simps, subst chunks.simps) (cases n; simp)

definition demo_message :: message where
  "demo_message = \<lparr>msg_sender = lit ''b'', msg_body = lit ''hi'', msg_encrypted = False, msg_enc = None\<rparr>"

definition demo_chat :: room where
  "demo_chat = (room_new (lit ''!r''))\<lparr>r_messages := replicate 12 demo_message\<rparr>"

theorem chat_window_witness: "snd (draw_chat (\<lambda>k. []) (296, 100) demo_chat 7) = 2"
proof -
  have "length (chat_lines (\<lambda>k. []) 49 (r_messages demo_chat)) = 12"
    by (simp add: chat_lines_def wrap_line_def message_line_def demo_chat_def demo_message_def lit_def
        chunks_short numeral_eq_Suc)
  then show ?thesis
    using chat_window [of "(296, 100)" "\<lambda>k. []" demo_chat 7]
    by (simp add: Let_def split_beta CHAT_LINE_H_def CHAR_W_def)
qed

section \<open>Room list\<close>

definition room_before :: "room \<Rightarrow> room \<Rightarrow> bool" where
  "room_before a b \<longleftrightarrow>
     r_invited a \<and> \<not> r_invited b \<or> r_invited a = r_invited b \<and> r_last_ts b \<le> r_last_ts a"

lemma reverse_order: "(- 1 - x \<le> - 1 - y) \<longleftrightarrow> y \<le> (x :: u64)"
proof -
  have "unat (- 1 - z) = unat (- 1 :: u64) - unat z" for z :: u64
    by (rule unat_sub) simp
  moreover have "unat x \<le> unat (- 1 :: u64)" "unat y \<le> unat (- 1 :: u64)"
    by (simp_all flip: word_le_nat_alt)
  ultimately show ?thesis by (simp add: word_le_nat_alt) linarith
qed

lemma room_rank_before: "room_rank a \<le> room_rank b \<longleftrightarrow> room_before a b"
  by (auto simp: room_rank_def room_before_def less_eq_prod_def reverse_order)

text \<open>The room list shows every room once, under its name, with its position in storage as the
  row's action; invitations come first, and within both groups the newest activity.\<close>
theorem room_list_order:
  assumes "rs \<noteq> []" and "length rs < 2 ^ 32"
  shows "let items = room_items label rs configured in
      set (map (\<lambda>(_, i, _). unat i) items) = {..<length rs} \<and> length items = length rs
      \<and> list_all (\<lambda>(name, i, icon). name = r_name (rs ! unat i) \<and> icon = room_icon (rs ! unat i)) items
      \<and> sorted_wrt room_before (map (\<lambda>(_, i, _). rs ! unat i) items)"
proof -
  let ?items = "room_items label rs configured"
  have items: "?items = map (\<lambda>i. (r_name (rs ! i), of_nat i, room_icon (rs ! i))) (room_order rs)"
    using assms(1) by (simp add: room_items_def)
  have small: "unat (of_nat i :: u32) = i" if "i \<in> set (room_order rs)" for i
    using that assms(2) by (simp add: room_order_def unat_of_nat take_bit_nat_eq_self)
  have ids: "map (\<lambda>(_, i, _). unat i) ?items = room_order rs"
    unfolding items by (simp add: small comp_def map_idI)
  have "sorted (map (\<lambda>i. room_rank (rs ! i)) (room_order rs))"
    by (simp add: room_order_def)
  then have "sorted_wrt (\<lambda>i k. room_before (rs ! i) (rs ! k)) (room_order rs)"
    by (simp add: sorted_map room_rank_before)
  then have "sorted_wrt room_before (map (\<lambda>i. rs ! i) (map (\<lambda>(_, i, _). unat i) ?items))"
    unfolding ids by (simp add: sorted_wrt_map)
  moreover have "map (\<lambda>i. rs ! i) (map (\<lambda>(_, i, _). unat i) ?items) = map (\<lambda>(_, i, _). rs ! unat i) ?items"
    by (simp add: split_beta)
  ultimately show ?thesis
    using small unfolding Let_def ids by (simp add: items list_all_iff lessThan_atLeast0) (simp add: room_order_def)
qed

theorem room_list_order_witness:
  "sorted_wrt room_before (map (\<lambda>(_, i, _). [room_new [1], (room_new [2])\<lparr>r_last_ts := 5\<rparr>] ! unat i)
     (room_items (\<lambda>k. []) [room_new [1], (room_new [2])\<lparr>r_last_ts := 5\<rparr>] True))"
  using room_list_order [of "[room_new [1], (room_new [2])\<lparr>r_last_ts := 5\<rparr>]" "\<lambda>k. []" True]
  by (simp add: Let_def)

section \<open>Settings\<close>

lemma last_suffix: "s = p @ t \<Longrightarrow> t \<noteq> [] \<Longrightarrow> last t = last s"
  by simp

text \<open>A server setting is empty or an \<open>https\<close> URL without a trailing slash, so that
  credentials never travel in clear and paths can be appended.\<close>
theorem normalize_https:
  "normalize_server s = [] \<or> starts_with (lit ''https://'') (normalize_server s) \<and> last (normalize_server s) \<noteq> 47"
proof -
  define u where "u = trim_end_matches (\<lambda>c. c = 47) (trim s)"
  define host where "host = (case strip_prefix (lit ''http://'') u of Some r \<Rightarrow> r | None \<Rightarrow> u)"
  have u: "u = [] \<or> last u \<noteq> 47"
  proof (cases "dropWhile (\<lambda>c. c = 47) (rev (trim s)) = []")
    case False
    then show ?thesis using hd_dropWhile [OF False] by (simp add: u_def trim_end_matches_def last_rev)
  qed (simp add: u_def trim_end_matches_def)
  obtain p where p: "u = p @ host"
    by (cases "strip_prefix (lit ''http://'') u") (auto simp: host_def strip_prefix_Some)
  have "host = [] \<or> last host \<noteq> 47" using u last_suffix [OF p] p by auto
  moreover have "normalize_server s =
      (if host = [] then [] else if starts_with (lit ''https://'') host then host else lit ''https://'' @ host)"
    unfolding normalize_server_def host_def u_def Let_def ..
  ultimately show ?thesis by auto
qed

section \<open>Persistence of the encryption state\<close>

text \<open>The snapshot of the sessions is written at most once per state: whether the store took it
  or not, the state is remembered as written, and writing it again does nothing.\<close>
theorem snapshot_not_retried:
  "let st' = snd (run_state (persist_crypto h) st) in
     run_state (persist_crypto h) st' = ((), st')
     \<and> world st' = (case crypto st of
         None \<Rightarrow> world st
       | Some c \<Rightarrow>
         if fnv1a (export_state (hvoz h) c) = crypto_hash st then world st
         else save_crypto_state (hstore h) (export_state (hvoz h) c) (world st))"
  by (auto simp: persist_crypto_def Let_def split: option.split)

end
