(* ===== verification/F64.thy ===== *)
theory F64
  imports Serde "HOL-Library.Signed_Division"
begin

text \<open>
  Floating point and 32-bit signed integers of Rust, as far as the plugins use them.

  A finite \<open>f64\<close> is the rational number it stands for, and an operation is the exact one rounded to
  53 significant bits, ties to even. Exponents are not bounded: a result beyond the range of
  \<open>f64\<close> only ever goes into \<open>as i32\<close>, which saturates for it as it does for an infinity, and one
  too small for a normal number truncates to zero as a subnormal does.

  An \<open>i32\<close> or \<open>i16\<close> is the integer it stands for; \<open>wrap32\<close> and \<open>wrap16\<close> are the wrap-around of
  the release build.
\<close>

section \<open>Signed integers\<close>

definition wrap32 :: "int \<Rightarrow> int" where
  "wrap32 x = (x + 2 ^ 31) mod 2 ^ 32 - 2 ^ 31"

definition wrap16 :: "int \<Rightarrow> int" where
  "wrap16 x = (x + 2 ^ 15) mod 2 ^ 16 - 2 ^ 15"

abbreviation fits32 :: "int \<Rightarrow> bool" where
  "fits32 x \<equiv> - (2 ^ 31) \<le> x \<and> x < 2 ^ 31"

lemma wrap32_id [simp]: "fits32 x \<Longrightarrow> wrap32 x = x"
  by (simp add: wrap32_def)

lemma wrap32_fits: "fits32 (wrap32 x)"
  unfolding wrap32_def by (auto simp: algebra_simps pos_mod_bound)

section \<open>Rounding\<close>

fun log2n :: "nat \<Rightarrow> nat" where
  "log2n n = (if n < 2 then 0 else Suc (log2n (n div 2)))"

declare log2n.simps [simp del]

definition pow2 :: "int \<Rightarrow> rat" where
  "pow2 e = (if 0 \<le> e then 2 ^ nat e else 1 / 2 ^ nat (- e))"

text \<open>The exponent of the leading bit of a positive number.\<close>

definition exponent :: "rat \<Rightarrow> int" where
  "exponent x =
    (case quotient_of x of (p, q) \<Rightarrow>
       let e = int (log2n (nat p)) - int (log2n (nat q)) in
       if pow2 e \<le> x then e else e - 1)"

definition round_half_even :: "rat \<Rightarrow> int" where
  "round_half_even y =
    (let f = \<lfloor>y\<rfloor>; d = y - of_int f in
     if d < 1 / 2 then f
     else if d > 1 / 2 then f + 1
     else if even f then f else f + 1)"

definition f64_round :: "rat \<Rightarrow> rat" where
  "f64_round x =
    (if x = 0 then 0
     else let u = pow2 (exponent \<bar>x\<bar> - 52) in of_int (round_half_even (x / u)) * u)"

definition f64_add :: "rat \<Rightarrow> rat \<Rightarrow> rat" where
  "f64_add a b = f64_round (a + b)"

definition f64_sub :: "rat \<Rightarrow> rat \<Rightarrow> rat" where
  "f64_sub a b = f64_round (a - b)"

definition f64_mul :: "rat \<Rightarrow> rat \<Rightarrow> rat" where
  "f64_mul a b = f64_round (a * b)"

text \<open>\<open>x as i32\<close>: towards zero, saturating.\<close>

definition f64_as_i32 :: "rat \<Rightarrow> int" where
  "f64_as_i32 x = max (- (2 ^ 31)) (min (2 ^ 31 - 1) (if 0 \<le> x then \<lfloor>x\<rfloor> else \<lceil>x\<rceil>))"

lemma f64_as_i32_fits: "fits32 (f64_as_i32 x)"
  by (simp add: f64_as_i32_def)

text \<open>Numbers of at most 53 bits, of any scale, are not changed by rounding.\<close>

lemma log2n_bounds: "0 < n \<Longrightarrow> 2 ^ log2n n \<le> n \<and> n < 2 * 2 ^ log2n n"
proof (induction n rule: log2n.induct)
  case (1 n)
  then show ?case by (cases "n < 2") (subst (1 2) log2n.simps, force)+
qed

lemma pow2_pos [simp]: "0 < pow2 e"
  by (simp add: pow2_def)

lemma pow2_nz [simp]: "pow2 e \<noteq> 0"
  using pow2_pos [of e] by linarith

lemma pow2_nonneg: "0 \<le> e \<Longrightarrow> pow2 e = of_int (2 ^ nat e)"
  by (simp add: pow2_def)

lemma exponent_int: "0 < k \<Longrightarrow> exponent (of_int k) = int (log2n (nat k))"
proof -
  assume "0 < k"
  then have "2 ^ log2n (nat k) \<le> nat k" using log2n_bounds [of "nat k"] \<open>0 < k\<close> by simp
  then have "(2 :: int) ^ log2n (nat k) \<le> k" using \<open>0 < k\<close> by (metis nat_le_iff int_nat_eq of_nat_le_iff of_nat_numeral of_nat_power order_less_imp_le)
  then have "pow2 (int (log2n (nat k))) \<le> of_int k"
    by (simp add: pow2_def)
  moreover have "log2n 1 = 0" by (simp add: log2n.simps)
  ultimately show ?thesis by (simp add: exponent_def Let_def)
qed

text \<open>Integers of at most 53 bits are not changed by rounding.\<close>

lemma f64_round_int:
  assumes "\<bar>k\<bar> < 2 ^ 53"
  shows "f64_round (of_int k) = of_int k"
proof (cases "k = 0")
  case False
  then have p: "0 < \<bar>k\<bar>" by simp
  let ?e = "exponent \<bar>of_int k\<bar>"
  have e: "?e = int (log2n (nat \<bar>k\<bar>))" using exponent_int [OF p] by (simp flip: of_int_abs)
  have "2 ^ log2n (nat \<bar>k\<bar>) \<le> nat \<bar>k\<bar>" using log2n_bounds [of "nat \<bar>k\<bar>"] p by simp
  also have "nat \<bar>k\<bar> < 2 ^ 53" using assms by (simp add: nat_less_iff)
  finally have "log2n (nat \<bar>k\<bar>) < 53" by (rule power_less_imp_less_exp [rotated]) simp
  then have "0 \<le> 52 - ?e" using e by simp
  then have u: "1 / pow2 (?e - 52) = of_int (2 ^ nat (52 - ?e))"
    by (auto simp: pow2_def)
  have "of_int k / pow2 (?e - 52) = of_int (k * 2 ^ nat (52 - ?e))"
    using u by (metis divide_inverse inverse_eq_divide mult_1 of_int_mult)
  then obtain n where n: "of_int k / pow2 (?e - 52) = of_int n" by blast
  then have "of_int n * pow2 (?e - 52) = of_int k" by (simp flip: n)
  moreover have "round_half_even (of_int n) = n" by (simp add: round_half_even_def)
  ultimately show ?thesis using False unfolding f64_round_def Let_def n by simp
qed (simp add: f64_round_def)

text \<open>So whole and half degrees keep their value in tenths.\<close>

lemma f64_half_tenths:
  assumes "\<bar>k\<bar> < 2 ^ 28"
  shows "f64_as_i32 (f64_mul (of_int k / 2) 10) = 5 * k"
proof -
  have "of_int k / 2 * 10 = (of_int (5 * k) :: rat)" by simp
  then have "f64_mul (of_int k / 2) 10 = of_int (5 * k)"
    using f64_round_int [of "5 * k"] assms by (simp add: f64_mul_def abs_mult)
  moreover have "f64_as_i32 (of_int (5 * k)) = 5 * k"
    unfolding f64_as_i32_def floor_of_int ceiling_of_int using assms by simp
  ultimately show ?thesis by simp
qed

end
