(* ===== verification/Home_Model.thy ===== *)
theory Home_Model
  imports F64 Sdk_Http Sdk_Store Sdk_Ui
begin

text \<open>
  The data and the pure functions of the Home Assistant plugin
  (\<open>plugins/home_assistant/src/lib.rs\<close>): entity domains, entities and favorites, the URL parser,
  the text encodings, the parsers of the server's answers, and the arithmetic of the thermostat
  view.
\<close>

section \<open>Domains\<close>

definition MAX_FAVS :: nat where "MAX_FAVS = 24"
definition HTTP_GET_TIMEOUT_MS :: nat where "HTTP_GET_TIMEOUT_MS = 3000"
definition HTTP_BODY_MAX :: nat where "HTTP_BODY_MAX = 64 * 1024"
definition FILTER_ALL :: u32 where "FILTER_ALL = 0xFF"
definition FILTER_SEARCH :: u32 where "FILTER_SEARCH = 0xFE"

datatype domain =
  Light | Switch | InputBoolean | Button | Scene | Script | Automation | Sensor | BinarySensor
| Cover | Climate | Unknown

text \<open>The discriminants of the enum.\<close>

fun domain_idx :: "domain \<Rightarrow> nat" where
  "domain_idx Light = 0"
| "domain_idx Switch = 1"
| "domain_idx InputBoolean = 2"
| "domain_idx Button = 3"
| "domain_idx Scene = 4"
| "domain_idx Script = 5"
| "domain_idx Automation = 6"
| "domain_idx Sensor = 7"
| "domain_idx BinarySensor = 8"
| "domain_idx Cover = 9"
| "domain_idx Climate = 10"
| "domain_idx Unknown = 0xFF"

definition domain_parse :: "ustr \<Rightarrow> domain" where
  "domain_parse entity_id =
    (let prefix = hd (split_on (\<lambda>c. c = 46) entity_id) in
     if prefix = lit ''light'' then Light
     else if prefix = lit ''switch'' then Switch
     else if prefix = lit ''input_boolean'' then InputBoolean
     else if prefix = lit ''button'' then Button
     else if prefix = lit ''scene'' then Scene
     else if prefix = lit ''script'' then Script
     else if prefix = lit ''automation'' then Automation
     else if prefix = lit ''sensor'' then Sensor
     else if prefix = lit ''binary_sensor'' then BinarySensor
     else if prefix = lit ''cover'' then Cover
     else if prefix = lit ''climate'' then Climate
     else Unknown)"

definition from_idx :: "nat \<Rightarrow> domain" where
  "from_idx idx =
    (if idx = 0 then Light
     else if idx = 1 then Switch
     else if idx = 2 then InputBoolean
     else if idx = 3 then Button
     else if idx = 4 then Scene
     else if idx = 5 then Script
     else if idx = 6 then Automation
     else if idx = 7 then Sensor
     else if idx = 8 then BinarySensor
     else if idx = 9 then Cover
     else if idx = 10 then Climate
     else Unknown)"

fun domain_str :: "domain \<Rightarrow> ustr" where
  "domain_str Light = lit ''light''"
| "domain_str Switch = lit ''switch''"
| "domain_str InputBoolean = lit ''input_boolean''"
| "domain_str Button = lit ''button''"
| "domain_str Scene = lit ''scene''"
| "domain_str Script = lit ''script''"
| "domain_str Automation = lit ''automation''"
| "domain_str Sensor = lit ''sensor''"
| "domain_str BinarySensor = lit ''binary_sensor''"
| "domain_str Cover = lit ''cover''"
| "domain_str Climate = lit ''climate''"
| "domain_str Unknown = lit ''?''"

definition is_toggleable :: "domain \<Rightarrow> bool" where
  "is_toggleable d \<longleftrightarrow> d \<in> {Light, Switch, InputBoolean}"

definition is_readonly :: "domain \<Rightarrow> bool" where
  "is_readonly d \<longleftrightarrow> d \<in> {Sensor, BinarySensor}"

definition domain_icon :: "domain \<Rightarrow> u8" where
  "domain_icon d =
    (case d of
       Light \<Rightarrow> UI_ICON_LIGHT
     | Switch \<Rightarrow> UI_ICON_SWITCH | InputBoolean \<Rightarrow> UI_ICON_SWITCH | Button \<Rightarrow> UI_ICON_SWITCH
     | Scene \<Rightarrow> UI_ICON_SCENE | Script \<Rightarrow> UI_ICON_SCENE | Automation \<Rightarrow> UI_ICON_SCENE
     | Sensor \<Rightarrow> UI_ICON_SENSOR | BinarySensor \<Rightarrow> UI_ICON_SENSOR
     | Cover \<Rightarrow> UI_ICON_COVER
     | Climate \<Rightarrow> UI_ICON_SUN
     | Unknown \<Rightarrow> UI_ICON_NONE)"

definition primary_service :: "domain \<Rightarrow> (ustr \<times> ustr) option" where
  "primary_service d =
    (if d \<in> {Light, Switch, InputBoolean} then Some (domain_str d, lit ''toggle'')
     else if d \<in> {Scene, Script, Automation} then Some (domain_str d, lit ''turn_on'')
     else if d = Button then Some (lit ''button'', lit ''press'')
     else None)"

definition state_glyph :: "domain \<Rightarrow> ustr \<Rightarrow> nat" where
  "state_glyph d state =
    (if d \<in> {Scene, Script, Automation} then 62
     else if state = lit ''unavailable'' \<or> state = lit ''unknown'' then 33
     else if state = lit ''on'' then 42
     else if state = lit ''off'' then 111
     else if state = lit ''open'' then 42
     else if state = lit ''closed'' then 111
     else if state = lit ''?'' then 63
     else 63)"

section \<open>Entities and favorites\<close>

record entity =
  e_id :: ustr
  e_name :: ustr
  e_state :: ustr
  e_unit :: ustr
  e_bright :: nat
  e_position :: nat
  e_domain :: domain

definition placeholder :: "ustr \<Rightarrow> domain \<Rightarrow> entity" where
  "placeholder i d = \<lparr>e_id = i, e_name = i, e_state = lit ''?'', e_unit = [], e_bright = 0, e_position = 0,
     e_domain = d\<rparr>"

definition reading :: "entity \<Rightarrow> ustr" where
  "reading e =
    (if e_unit e = [] then e_name e @ lit '': '' @ e_state e
     else e_name e @ lit '': '' @ e_state e @ e_unit e)"

definition label :: "entity \<Rightarrow> ustr" where
  "label e =
    (if e_domain e \<in> {Sensor, BinarySensor} then
       (if e_unit e = [] then e_name e @ lit '': '' @ e_state e
        else e_name e @ lit '': '' @ e_state e @ e_unit e)
     else if e_domain e \<in> {Scene, Script, Automation} then lit ''> '' @ e_name e
     else if e_domain e = Light \<and> e_state e = lit ''on'' \<and> e_bright e > 0 then
       lit ''* '' @ e_name e @ lit '' ('' @ show_nat (e_bright e) @ lit ''%)''
     else if e_domain e = Cover then
       [state_glyph (e_domain e) (e_state e)] @ lit '' '' @ e_name e @ lit '' ('' @ show_nat (e_position e) @ lit ''%)''
     else [state_glyph (e_domain e) (e_state e)] @ lit '' '' @ e_name e)"

record favorite =
  fv_id :: ustr
  fv_name :: ustr
  fv_domain :: domain

record browse_state =
  b_all :: "entity list"
  b_visible :: "nat list"
  b_filter :: u32
  b_search :: ustr

definition browse_new :: browse_state where
  "browse_new = \<lparr>b_all = [], b_visible = [], b_filter = FILTER_ALL, b_search = []\<rparr>"

record wizard_state =
  w_host :: ustr
  w_port :: ustr
  w_https :: bool

definition wizard_new :: wizard_state where
  "wizard_new = \<lparr>w_host = [], w_port = [], w_https = False\<rparr>"

record climate_state =
  cl_entity :: ustr
  cl_current :: int
  cl_target :: int
  cl_cur_mode :: ustr
  cl_mode :: ustr
  cl_cur_fan :: "ustr option"
  cl_fan :: "ustr option"
  cl_fans :: "ustr list"
  cl_min :: int
  cl_max :: int
  cl_step :: int
  cl_spread :: int
  cl_unit :: ustr
  cl_slots :: "ustr option list"
  cl_range :: bool

section \<open>URLs and favorites lines\<close>

definition parse_host_from_url :: "ustr \<Rightarrow> ustr \<times> bool \<times> ustr option" where
  "parse_host_from_url raw =
    (let trimmed = trim raw;
         (rest, https) =
           (case strip_prefix (lit ''https://'') trimmed of
              Some r \<Rightarrow> (r, True)
            | None \<Rightarrow>
              (case strip_prefix (lit ''http://'') trimmed of
                 Some r \<Rightarrow> (r, False)
               | None \<Rightarrow> (trimmed, False)));
         host_and_port = hd (split_on (\<lambda>c. c = 47) rest);
         parts = split_on (\<lambda>c. c = 58) host_and_port
     in (trim (hd parts), https, (case tl parts of p # _ \<Rightarrow> Some (trim p) | [] \<Rightarrow> None)))"

text \<open>\<open>parts.next()\<close>, called for the piece \<open>n\<close>.\<close>

definition piece :: "nat \<Rightarrow> ustr list \<Rightarrow> ustr option" where
  "piece n ps = (if n < length ps then Some (ps ! n) else None)"

abbreviation unwrap_or :: "'a option \<Rightarrow> 'a \<Rightarrow> 'a" where
  "unwrap_or x d \<equiv> (case x of Some y \<Rightarrow> y | None \<Rightarrow> d)"

definition parse_u8 :: "ustr \<Rightarrow> nat option" where
  "parse_u8 s = Option.bind (parse_u32 s) (\<lambda>n. if n < 256 then Some n else None)"

definition parse_fav_line :: "ustr \<Rightarrow> favorite option" where
  "parse_fav_line line =
    (let parts = split_on (\<lambda>c. c = 124) line;
         i = unwrap_or (piece 0 parts) [];
         name = unwrap_or (piece 1 parts) i;
         idx = unwrap_or (Option.bind (piece 2 parts) parse_u8) 0xFF
     in if i = [] then None else Some \<lparr>fv_id = i, fv_name = name, fv_domain = from_idx idx\<rparr>)"

definition parse_favs :: "ustr \<Rightarrow> favorite list" where
  "parse_favs raw = List.map_filter parse_fav_line (filter (\<lambda>l. l \<noteq> []) (split_on (\<lambda>c. c = 10) raw))"

definition favs_field :: "ustr \<Rightarrow> ustr" where
  "favs_field = map (\<lambda>c. if c \<in> {124, 10, 13} then 95 else c)"

definition render_favs :: "favorite list \<Rightarrow> ustr" where
  "render_favs fs = concat (map (\<lambda>f.
     favs_field (fv_id f) @ [124] @ favs_field (fv_name f) @ [124] @ show_nat (domain_idx (fv_domain f)) @ [10]) fs)"

section \<open>Encodings\<close>

definition hex_upper :: "nat \<Rightarrow> nat" where
  "hex_upper k = (if k < 10 then 48 + k else 55 + k)"

definition percent_byte :: "u8 \<Rightarrow> ustr" where
  "percent_byte b =
    (if is_ascii_alphanumeric (unat b) \<or> unat b \<in> {45, 95, 46, 126} then [unat b]
     else [37, hex_upper (unat b div 16), hex_upper (unat b mod 16)])"

definition percent_encode :: "ustr \<Rightarrow> ustr" where
  "percent_encode s = concat (map percent_byte (utf8_encode s))"

definition state_path :: "ustr \<Rightarrow> ustr" where
  "state_path entity_id = lit ''/api/states/'' @ percent_encode entity_id"

definition hex_lower :: "nat \<Rightarrow> nat" where
  "hex_lower k = (if k < 10 then 48 + k else 87 + k)"

definition json_char :: "nat \<Rightarrow> ustr" where
  "json_char c =
    (if c = 34 then [92, 34]
     else if c = 92 then [92, 92]
     else if c = 10 then [92, 110]
     else if c = 13 then [92, 114]
     else if c = 9 then [92, 116]
     else if c < 0x20 then
       [92, 117, hex_lower (c div 4096 mod 16), hex_lower (c div 256 mod 16), hex_lower (c div 16 mod 16),
        hex_lower (c mod 16)]
     else [c])"

definition json_string :: "ustr \<Rightarrow> ustr" where
  "json_string s = [34] @ concat (map json_char s) @ [34]"

section \<open>Answers of the server\<close>

definition brightness_percent :: "nat \<Rightarrow> nat" where
  "brightness_percent b = (min b 255 * 100 + 127) div 255 mod 256"

definition parse_state_json :: "'v serde \<Rightarrow> ustr \<Rightarrow> ustr \<Rightarrow> entity option" where
  "parse_state_json j entity_id body =
     Option.bind (from_str j body) (\<lambda>val.
       let state = unwrap_or (str_field j (Some val) ''state'') (lit ''?'');
           attrs = field j (Some val) ''attributes'';
           name = unwrap_or (str_field j attrs ''friendly_name'') entity_id;
           unit = unwrap_or (str_field j attrs ''unit_of_measurement'') [];
           bright = (case Option.bind (field j attrs ''brightness'') (as_u64 j) of
                       Some b \<Rightarrow> brightness_percent (unat b)
                     | None \<Rightarrow> 0);
           position = (case Option.bind (field j attrs ''current_position'') (as_u64 j) of
                         Some p \<Rightarrow> min (unat p) 100 mod 256
                       | None \<Rightarrow> 0)
       in Some \<lparr>e_id = entity_id, e_name = name, e_state = state, e_unit = unit, e_bright = bright,
                e_position = position, e_domain = domain_parse entity_id\<rparr>)"

definition template_text :: ustr where
  "template_text =
     lit ''{% for s in states %}{{ s.entity_id }}|{{ s.attributes.friendly_name | default(s.entity_id) }}|'' @
     lit ''{{ s.state }}|{{ s.attributes.unit_of_measurement | default('' @ [39, 39] @ lit '') }}|'' @
     lit ''{{ s.attributes.brightness | default(0) }}|{{ s.attributes.current_position | default(0) }}'' @ [10] @
     lit ''{% endfor %}''"

definition parse_template_line :: "ustr \<Rightarrow> entity option" where
  "parse_template_line line =
    (if line = [] then None
     else
       let parts = split_on (\<lambda>c. c = 124) line;
           i = unwrap_or (piece 0 parts) []
       in if i = [] then None
          else
            let name = unwrap_or (piece 1 parts) i;
                state = unwrap_or (piece 2 parts) (lit ''?'');
                unit = unwrap_or (piece 3 parts) [];
                raw = unwrap_or (Option.bind (piece 4 parts) parse_u32) 0;
                position = min (unwrap_or (Option.bind (piece 5 parts) parse_u32) 0) 100 mod 256;
                bright = (if raw > 0 then brightness_percent raw else 0)
            in Some \<lparr>e_id = i, e_name = name, e_state = state, e_unit = unit, e_bright = bright,
                     e_position = position, e_domain = domain_parse i\<rparr>)"

definition parse_template :: "ustr \<Rightarrow> entity list" where
  "parse_template text = List.map_filter parse_template_line (split_on (\<lambda>c. c = 10) text)"

section \<open>Thermostats\<close>

text \<open>The first of the fallbacks that is offered and allowed.\<close>

definition resolve_mode_slots :: "ustr list \<Rightarrow> ustr option list" where
  "resolve_mode_slots modes =
    (let slot1 =
           (if lit ''heat'' \<in> set modes then Some (lit ''heat'')
            else find (\<lambda>fb. fb \<in> set modes) [lit ''heat_cool'', lit ''auto'', lit ''dry'', lit ''fan_only'']);
         slot2 =
           (if lit ''cool'' \<in> set modes then Some (lit ''cool'')
            else find (\<lambda>fb. fb \<in> set modes \<and> slot1 \<noteq> Some fb)
                   [lit ''auto'', lit ''heat_cool'', lit ''dry'', lit ''fan_only''])
     in [Some (lit ''off''), slot1, slot2])"

definition clamp_ordered :: "int \<Rightarrow> int \<Rightarrow> int \<Rightarrow> int" where
  "clamp_ordered v a b = max (min a b) (min v (max a b))"

definition format_temp :: "int \<Rightarrow> ustr \<Rightarrow> ustr" where
  "format_temp tenths u =
    (let int_part = tenths sdiv 10;
         frac = nat (wrap32 \<bar>tenths\<bar> smod 10 mod 2 ^ 32)
     in if tenths < 0 \<and> int_part = 0 then lit ''-0.'' @ show_nat frac @ u
        else show_int int_part @ lit ''.'' @ show_nat frac @ u)"

text \<open>The number that is sent: \<open>format!("{}.{}", t / 10, t.abs() % 10)\<close>.\<close>

definition sent_temp :: "int \<Rightarrow> ustr" where
  "sent_temp t = show_int (t sdiv 10) @ lit ''.'' @ show_int (wrap32 \<bar>t\<bar> smod 10)"

definition str_array :: "'v serde \<Rightarrow> 'v \<Rightarrow> string \<Rightarrow> ustr list" where
  "str_array j attrs k =
    (case arr_field j (Some attrs) k of Some vs \<Rightarrow> List.map_filter (as_str j) vs | None \<Rightarrow> [])"

abbreviation f64_field :: "'v serde \<Rightarrow> 'v option \<Rightarrow> string \<Rightarrow> rat option" where
  "f64_field j p k \<equiv> Option.bind (field j p k) (as_f64 j)"

definition parse_climate_state :: "'v serde \<Rightarrow> ustr \<Rightarrow> ustr \<Rightarrow> climate_state option" where
  "parse_climate_state j entity_id body =
     Option.bind (from_str j body) (\<lambda>val.
       let state = unwrap_or (str_field j (Some val) ''state'') (lit ''off'') in
       Option.bind (field j (Some val) ''attributes'') (\<lambda>attrs.
         let current = unwrap_or (f64_field j (Some attrs) ''current_temperature'') 20;
             target = unwrap_or (f64_field j (Some attrs) ''temperature'') current;
             target_low = f64_field j (Some attrs) ''target_temp_low'';
             target_high = f64_field j (Some attrs) ''target_temp_high'';
             mn = unwrap_or (f64_field j (Some attrs) ''min_temp'') 5;
             mx = unwrap_or (f64_field j (Some attrs) ''max_temp'') 30;
             step = unwrap_or (f64_field j (Some attrs) ''target_temp_step'') (1 / 2);
             unit = unwrap_or (str_field j (Some attrs) ''temperature_unit'') [0xb0, 67];
             modes = str_array j attrs ''hvac_modes'';
             fans = str_array j attrs ''fan_modes'';
             fan = str_field j (Some attrs) ''fan_mode'';
             (has_range, spread, tgt) =
               (case (target_low, target_high) of
                  (Some lo, Some hi) \<Rightarrow>
                    (True, f64_as_i32 (f64_mul (f64_sub hi lo) 10), f64_as_i32 (f64_mul (f64_add lo hi) 5))
                | _ \<Rightarrow> (False, 0, f64_as_i32 (f64_mul target 10)))
         in Some \<lparr>cl_entity = entity_id, cl_current = f64_as_i32 (f64_mul current 10), cl_target = tgt,
                  cl_cur_mode = state, cl_mode = state, cl_cur_fan = fan, cl_fan = fan, cl_fans = fans,
                  cl_min = f64_as_i32 (f64_mul mn 10), cl_max = f64_as_i32 (f64_mul mx 10),
                  cl_step = max (f64_as_i32 (f64_mul step 10)) 1, cl_spread = spread, cl_unit = unit,
                  cl_slots = resolve_mode_slots modes, cl_range = has_range\<rparr>))"

text \<open>The interval of the setpoint when the view opens.\<close>

definition setpoint_bounds :: "climate_state \<Rightarrow> int \<times> int" where
  "setpoint_bounds st =
    (if cl_range st
     then (wrap32 (cl_min st + cl_spread st sdiv 2), wrap32 (cl_max st - cl_spread st sdiv 2))
     else (cl_min st, cl_max st))"

text \<open>The body of the temperature call.\<close>

definition setpoint_extra :: "climate_state \<Rightarrow> int \<Rightarrow> ustr" where
  "setpoint_extra st target =
    (if cl_range st \<and> cl_spread st > 0 then
       (let low = wrap32 (target - cl_spread st sdiv 2);
            high = wrap32 (target + cl_spread st sdiv 2)
        in [34] @ lit ''target_temp_low'' @ [34] @ lit '':'' @ sent_temp low @ lit '','' @
           [34] @ lit ''target_temp_high'' @ [34] @ lit '':'' @ sent_temp high)
     else [34] @ lit ''temperature'' @ [34] @ lit '':'' @ sent_temp target)"

end
