(* ===== verification/Home_App.thy ===== *)
theory Home_App
  imports Home_Model "HOL-Library.Product_Lexorder" "HOL-Library.List_Lexorder"
begin

text \<open>
  The Home Assistant plugin itself (\<open>plugins/home_assistant/src/lib.rs\<close>): storage, requests, the
  setup wizard, the home and browse views, the light, cover and thermostat editors, and the
  exports the firmware calls.

  The statics of the file are the record \<open>hst\<close>; \<open>world\<close> is the firmware as the plugin sees
  it, \<open>ui_log\<close> the user interface calls made so far. A static \<open>PluginCell\<close> is borrowed only
  within one statement or block of the single thread, and no function called while a cell is
  borrowed mutably touches it, so the cells are plain fields. \<open>ha_host\<close> collects the firmware's
  calls, the JSON library, the translations, and \<open>str::to_lowercase\<close>, whose Unicode table is a
  parameter. Log lines are not modelled.
\<close>

section \<open>State\<close>

definition ACT_HOME_SELECT :: u32 where "ACT_HOME_SELECT = 10"
definition ACT_HOME_MENU :: u32 where "ACT_HOME_MENU = 11"
definition ACT_HOME_CTX_PICK :: u32 where "ACT_HOME_CTX_PICK = 12"
definition ACT_BROWSE_SELECT :: u32 where "ACT_BROWSE_SELECT = 20"
definition ACT_BROWSE_MENU :: u32 where "ACT_BROWSE_MENU = 21"
definition ACT_BROWSE_FILTER_PICK :: u32 where "ACT_BROWSE_FILTER_PICK = 22"
definition ACT_BROWSE_SEARCH_DONE :: u32 where "ACT_BROWSE_SEARCH_DONE = 23"
definition ACT_SETUP_HOST_DONE :: u32 where "ACT_SETUP_HOST_DONE = 30"
definition ACT_SETUP_HTTP_CONFIRM :: u32 where "ACT_SETUP_HTTP_CONFIRM = 31"
definition ACT_SETUP_TOKEN_DONE :: u32 where "ACT_SETUP_TOKEN_DONE = 33"
definition ACT_LIGHT_BRIGHT_DONE :: u32 where "ACT_LIGHT_BRIGHT_DONE = 40"
definition ACT_LIGHT_COLOR_PICK :: u32 where "ACT_LIGHT_COLOR_PICK = 41"
definition ACT_COVER_POS_DONE :: u32 where "ACT_COVER_POS_DONE = 50"
definition ACT_REMOVE_FAV_CONFIRM :: u32 where "ACT_REMOVE_FAV_CONFIRM = 60"
definition ACT_RESET_CONFIRM :: u32 where "ACT_RESET_CONFIRM = 61"
definition ACT_CLIMATE_KEY :: u32 where "ACT_CLIMATE_KEY = 70"
definition ACT_CLIMATE_WIDGET :: u32 where "ACT_CLIMATE_WIDGET = 71"
definition W_CLIMATE_SLIDER :: u32 where "W_CLIMATE_SLIDER = 100"
definition CTX_BRIGHTNESS :: u32 where "CTX_BRIGHTNESS = 1"
definition CTX_COLOR :: u32 where "CTX_COLOR = 2"
definition CTX_COVER_POSITION :: u32 where "CTX_COVER_POSITION = 3"
definition CTX_BROWSE :: u32 where "CTX_BROWSE = 4"
definition CTX_REMOVE :: u32 where "CTX_REMOVE = 5"
definition CTX_RESET :: u32 where "CTX_RESET = 6"
definition CTX_SETUP :: u32 where "CTX_SETUP = 7"
definition CTX_EDIT_TOKEN :: u32 where "CTX_EDIT_TOKEN = 8"
definition NVS_HOST :: string where "NVS_HOST = ''url''"
definition NVS_HA_PORT :: string where "NVS_HA_PORT = ''port''"
definition NVS_HTTPS :: string where "NVS_HTTPS = ''https''"
definition NVS_FAVS :: string where "NVS_FAVS = ''favs''"
definition TOKEN_NAME :: string where "TOKEN_NAME = ''ha_token''"

record 'w hst =
  world :: 'w
  ui_log :: "ui_call list"
  favs :: "favorite list"
  entities :: "entity list"
  browse :: browse_state
  wizard :: wizard_state
  selected :: "entity option"
  pending_remove :: "nat option"
  climate :: "climate_state option"

definition init_hst :: "'w \<Rightarrow> 'w hst" where
  "init_hst w = \<lparr>world = w, ui_log = [], favs = [], entities = [], browse = browse_new, wizard = wizard_new,
     selected = None, pending_remove = None, climate = None\<rparr>"

record ('w, 'v) ha_host =
  hh :: "'w http_host"
  hs :: "'w store_host"
  hj :: "'v serde"
  host_ui :: "ui_call \<Rightarrow> 'w \<Rightarrow> 'w"
  host_input_text :: "nat \<Rightarrow> 'w \<Rightarrow> (int \<times> u8 list) \<times> 'w"
  host_input_int :: "'w \<Rightarrow> (int \<times> int) \<times> 'w"
  host_get_value :: "u32 \<Rightarrow> 'w \<Rightarrow> int \<times> int"
  host_body_size :: "'w \<Rightarrow> u16 \<times> u16"
  tr_key :: "string \<Rightarrow> ustr"
  tr_core :: "string \<Rightarrow> ustr"
  tr_meta :: "string \<Rightarrow> ustr"
  lower :: "ustr \<Rightarrow> ustr"

definition onW :: "('w, 'r) state \<Rightarrow> ('w hst, 'r) state" where
  "onW m = State (\<lambda>st. case run_state m (world st) of (r, w) \<Rightarrow> (r, st\<lparr>world := w\<rparr>))"

definition storeM :: "('w \<Rightarrow> 'w) \<Rightarrow> ('w hst, unit) state" where
  "storeM f = onW (modify f)"

definition ui :: "('w, 'v) ha_host \<Rightarrow> ui_call list \<Rightarrow> ('w hst, unit) state" where
  "ui h cs = modify (\<lambda>st. st\<lparr>world := fold (host_ui h) cs (world st), ui_log := ui_log st @ cs\<rparr>)"

definition toast :: "('w, 'v) ha_host \<Rightarrow> string \<Rightarrow> u8 \<Rightarrow> u16 \<Rightarrow> ('w hst, unit) state" where
  "toast h key icon ms = ui h (push_toast (tr_key h key) icon ms)"

section \<open>Storage\<close>

definition stored_host :: "('w, 'v) ha_host \<Rightarrow> 'w \<Rightarrow> ustr option" where
  "stored_host h w =
     Option.bind (nvs_get_str (hs h) NVS_HOST 200 w) (\<lambda>raw.
       let host = fst (parse_host_from_url raw) in if host = [] then None else Some host)"

definition stored_port :: "('w, 'v) ha_host \<Rightarrow> 'w \<Rightarrow> ustr" where
  "stored_port h w =
    (case Option.bind (nvs_get_str (hs h) NVS_HOST 200 w) (\<lambda>raw. snd (snd (parse_host_from_url raw))) of
       Some p \<Rightarrow> p
     | None \<Rightarrow> or_empty (nvs_get_str (hs h) NVS_HA_PORT 16 w))"

definition stored_https :: "('w, 'v) ha_host \<Rightarrow> 'w \<Rightarrow> bool" where
  "stored_https h w =
    ((case nvs_get_str (hs h) NVS_HOST 200 w of Some raw \<Rightarrow> fst (snd (parse_host_from_url raw)) | None \<Rightarrow> False)
     \<or> unwrap_or (nvs_get_u32 (hs h) NVS_HTTPS w) 0 \<noteq> 0)"

definition ha_token :: "('w, 'v) ha_host \<Rightarrow> 'w \<Rightarrow> ustr option" where
  "ha_token h w =
    (case rmem_read (hs h) TOKEN_NAME 320 w of
       Inl _ \<Rightarrow> None
     | Inr bytes \<Rightarrow>
       nonempty (map_option (\<lambda>s. trim (trim_end_matches (\<lambda>c. c = 0) s)) (utf8_decode bytes)))"

definition ha_base_url :: "('w, 'v) ha_host \<Rightarrow> 'w \<Rightarrow> ustr option" where
  "ha_base_url h w =
     Option.bind (stored_host h w) (\<lambda>host.
       let scheme = (if stored_https h w then lit ''https'' else lit ''http'');
           port = stored_port h w
       in if trim port = [] then Some (scheme @ lit ''://'' @ trim host)
          else Some (scheme @ lit ''://'' @ trim host @ lit '':'' @ trim port))"

definition configured :: "('w, 'v) ha_host \<Rightarrow> 'w \<Rightarrow> bool" where
  "configured h w \<longleftrightarrow> stored_host h w \<noteq> None \<and> ha_token h w \<noteq> None"

definition favs_load :: "('w, 'v) ha_host \<Rightarrow> ('w hst, unit) state" where
  "favs_load h = modify (\<lambda>st. st\<lparr>favs := parse_favs (or_empty (nvs_get_str (hs h) NVS_FAVS 4096 (world st)))\<rparr>)"

definition favs_save :: "('w, 'v) ha_host \<Rightarrow> ('w hst, bool) state" where
  "favs_save h = do {
     fs \<leftarrow> gets favs;
     r \<leftarrow> onW (State (nvs_set_str (hs h) NVS_FAVS (render_favs fs)));
     whenM (\<not> is_ok r) (toast h ''favs_save_failed'' UI_ICON_ERROR 1500);
     ret (is_ok r)
   }"

definition favs_contains :: "ustr \<Rightarrow> 'w hst \<Rightarrow> bool" where
  "favs_contains i st \<longleftrightarrow> list_ex (\<lambda>f. fv_id f = i) (favs st)"

section \<open>Requests\<close>

definition bearer :: "('w, 'v) ha_host \<Rightarrow> int \<Rightarrow> ustr \<Rightarrow> ('w, unit sdk_result) state" where
  "bearer h r tok = req_header (hh h) r (lit ''Authorization'') (lit ''Bearer '' @ tok)"

definition http_get :: "('w, 'v) ha_host \<Rightarrow> ustr \<Rightarrow> ('w hst, ustr option) state" where
  "http_get h path = do {
     w \<leftarrow> gets world;
     case ha_base_url h w of
       None \<Rightarrow> ret None
     | Some base \<Rightarrow>
       (case ha_token h w of
          None \<Rightarrow> ret None
        | Some tok \<Rightarrow>
          onW (with_request (hh h) GET (base @ path) HTTP_GET_TIMEOUT_MS None (\<lambda>r. do {
            bearer h r tok;
            req_header (hh h) r (lit ''Accept'') (lit ''application/json'');
            s \<leftarrow> req_perform (hh h) r;
            case s of
              Inl _ \<Rightarrow> ret None
            | Inr status \<Rightarrow>
                if status \<noteq> 200 then ret None
                else do { b \<leftarrow> read_to_string_max (hh h) r HTTP_BODY_MAX; ret (ok b) }
          })))
   }"

definition http_post :: "('w, 'v) ha_host \<Rightarrow> ustr \<Rightarrow> ustr \<Rightarrow> ('w hst, int option) state" where
  "http_post h path body = do {
     w \<leftarrow> gets world;
     case ha_base_url h w of
       None \<Rightarrow> ret None
     | Some base \<Rightarrow>
       (case ha_token h w of
          None \<Rightarrow> ret None
        | Some tok \<Rightarrow>
          onW (with_request (hh h) POST (base @ path) 6000 None (\<lambda>r. do {
            bearer h r tok;
            req_header (hh h) r (lit ''Content-Type'') (lit ''application/json'');
            req_body (hh h) r (utf8_encode body);
            s \<leftarrow> req_perform (hh h) r;
            ret (case s of Inl _ \<Rightarrow> None | Inr status \<Rightarrow> if status sdiv 100 = 2 then Some status else None)
          })))
   }"

definition fetch_one :: "('w, 'v) ha_host \<Rightarrow> ustr \<Rightarrow> ('w hst, entity option) state" where
  "fetch_one h entity_id = do {
     b \<leftarrow> http_get h (state_path entity_id);
     ret (Option.bind b (parse_state_json (hj h) entity_id))
   }"

definition fetch_template_all :: "('w, 'v) ha_host \<Rightarrow> ('w hst, entity list option) state" where
  "fetch_template_all h = do {
     w \<leftarrow> gets world;
     case ha_base_url h w of
       None \<Rightarrow> ret None
     | Some base \<Rightarrow>
       (case ha_token h w of
          None \<Rightarrow> ret None
        | Some tok \<Rightarrow> do {
            text \<leftarrow> onW (with_request (hh h) POST (base @ lit ''/api/template'') 10000 None (\<lambda>r. do {
              bearer h r tok;
              req_header (hh h) r (lit ''Content-Type'') (lit ''application/json'');
              req_body (hh h) r
                (utf8_encode ([123, 34] @ lit ''template'' @ [34, 58] @ json_string template_text @ [125]));
              s \<leftarrow> req_perform (hh h) r;
              case s of
                Inl _ \<Rightarrow> ret None
              | Inr status \<Rightarrow>
                  if status \<noteq> 200 then ret None
                  else do { b \<leftarrow> read_to_string_max (hh h) r HTTP_BODY_MAX; ret (ok b) }
            }));
            ret (map_option parse_template text)
          })
   }"

definition service_body :: "ustr \<Rightarrow> ustr option \<Rightarrow> ustr" where
  "service_body entity_id extra =
    (case extra of
       Some e \<Rightarrow> [123, 34] @ lit ''entity_id'' @ [34, 58] @ json_string entity_id @ [44] @ e @ [125]
     | None \<Rightarrow> [123, 34] @ lit ''entity_id'' @ [34, 58] @ json_string entity_id @ [125])"

definition call_service ::
  "('w, 'v) ha_host \<Rightarrow> ustr \<Rightarrow> ustr \<Rightarrow> ustr \<Rightarrow> ustr option \<Rightarrow> ('w hst, bool) state" where
  "call_service h d service entity_id extra = do {
     r \<leftarrow> http_post h (lit ''/api/services/'' @ d @ lit ''/'' @ service) (service_body entity_id extra);
     ret (r \<noteq> None)
   }"

section \<open>Home view\<close>

text \<open>One row per favorite: fetched, or a placeholder once a fetch has failed.\<close>

fun fetch_rows ::
  "('w, 'v) ha_host \<Rightarrow> favorite list \<Rightarrow> bool \<Rightarrow> bool \<Rightarrow> ('w hst, bool) state" where
  "fetch_rows h [] reachable any_ok = ret any_ok"
| "fetch_rows h (f # fs) reachable any_ok = do {
     r \<leftarrow> (if reachable then fetch_one h (fv_id f) else ret None);
     case r of
       Some e \<Rightarrow> do {
         modify (\<lambda>st. st\<lparr>entities := entities st @ [e]\<rparr>);
         fetch_rows h fs reachable True
       }
     | None \<Rightarrow> do {
         modify (\<lambda>st. st\<lparr>entities := entities st @ [(placeholder (fv_id f) (fv_domain f))\<lparr>e_name := fv_name f\<rparr>]\<rparr>);
         fetch_rows h fs False any_ok
       }
   }"

definition home_list :: "('w, 'v) ha_host \<Rightarrow> entity list \<Rightarrow> list_builder" where
  "home_list h es =
     fold (\<lambda>(i, e). list_item (label e) (of_nat i) (domain_icon (e_domain e))) (enumerate 0 es)
       (list_on_menu ACT_HOME_MENU (list_on_select ACT_HOME_SELECT (list_new (tr_meta h ''name''))))"

definition home_render :: "('w, 'v) ha_host \<Rightarrow> ('w hst, unit) state" where
  "home_render h = do {
     conf \<leftarrow> gets (\<lambda>st. configured h (world st));
     fs \<leftarrow> gets favs;
     modify (\<lambda>st. st\<lparr>entities := []\<rparr>);
     whenM conf (do {
       any_ok \<leftarrow> fetch_rows h fs True False;
       whenM (fs \<noteq> [] \<and> \<not> any_ok) (toast h ''ha_unreachable'' UI_ICON_ERROR 1500)
     });
     es \<leftarrow> gets entities;
     ui h (list_replace (home_list h es));
     ui h (set_list_empty (if \<not> conf then tr_key h ''status_not_configured'' else tr_key h ''status_no_favorites''));
     ui h (set_footer (tr_key h ''hint_home''))
   }"

definition home_redraw_only :: "('w, 'v) ha_host \<Rightarrow> ('w hst, unit) state" where
  "home_redraw_only h = do {
     es \<leftarrow> gets entities;
     ui h (list_replace (home_list h es));
     ui h (set_footer (tr_key h ''hint_home''))
   }"

section \<open>Setup wizard\<close>

definition wizard_initial :: "('w, 'v) ha_host \<Rightarrow> 'w \<Rightarrow> ustr" where
  "wizard_initial h w =
    (case stored_host h w of
       Some host \<Rightarrow>
         (let scheme = (if stored_https h w then lit ''https'' else lit ''http'');
              p = stored_port h w
          in if p \<noteq> [] then scheme @ lit ''://'' @ host @ lit '':'' @ p else scheme @ lit ''://'' @ host)
     | None \<Rightarrow> [])"

definition wizard_start :: "('w, 'v) ha_host \<Rightarrow> ('w hst, unit) state" where
  "wizard_start h = do {
     initial \<leftarrow> gets (\<lambda>st. wizard_initial h (world st));
     ui h (push_t9_input (tr_key h ''host'') (if initial = [] then None else Some initial) 96 ACT_SETUP_HOST_DONE)
   }"

definition wizard_step_token :: "('w, 'v) ha_host \<Rightarrow> ('w hst, unit) state" where
  "wizard_step_token h = do {
     existing \<leftarrow> gets (\<lambda>st. ha_token h (world st));
     ui h (push_password (tr_key h ''token_title'') existing 320 ACT_SETUP_TOKEN_DONE)
   }"

definition probe_url :: "('w, 'v) ha_host \<Rightarrow> ustr \<Rightarrow> ('w hst, bool) state" where
  "probe_url h url = onW (with_request (hh h) GET url 3000 False (\<lambda>r. do {
     s \<leftarrow> req_perform (hh h) r;
     ret (case s of Inl _ \<Rightarrow> False | Inr n \<Rightarrow> 200 \<le> n \<and> n < 500)
   }))"

definition port_suffix :: "ustr \<Rightarrow> ustr" where
  "port_suffix port = (if trim port = [] then [] else lit '':'' @ trim port)"

definition wizard_save :: "('w, 'v) ha_host \<Rightarrow> bool \<Rightarrow> ('w hst, unit) state" where
  "wizard_save h https = do {
     w \<leftarrow> gets wizard;
     storeM (\<lambda>wd. snd (nvs_set_str (hs h) NVS_HOST (trim (w_host w)) wd));
     storeM (\<lambda>wd. snd (nvs_set_str (hs h) NVS_HA_PORT (trim (w_port w)) wd));
     storeM (\<lambda>wd. snd (nvs_set_u32 (hs h) NVS_HTTPS (if https then 1 else 0) wd));
     toast h ''url_saved'' UI_ICON_SUCCESS 1200;
     tok \<leftarrow> gets (\<lambda>st. ha_token h (world st));
     if tok = None then wizard_step_token h else home_render h
   }"

definition wizard_finalize_with_probe :: "('w, 'v) ha_host \<Rightarrow> ('w hst, unit) state" where
  "wizard_finalize_with_probe h = do {
     w \<leftarrow> gets wizard;
     toast h ''probing'' UI_ICON_INFO 1500;
     up \<leftarrow> probe_url h (lit ''https://'' @ trim (w_host w) @ port_suffix (w_port w) @ lit ''/api/'');
     if up then wizard_save h True
     else if w_https w then do {
       toast h ''ha_unreachable'' UI_ICON_ERROR 2000;
       home_render h
     }
     else ui h (push_confirm (tr_key h ''ha_http_fallback'') UI_ICON_ALERT ACT_SETUP_HTTP_CONFIRM)
   }"

definition wizard_probe_http :: "('w, 'v) ha_host \<Rightarrow> ('w hst, unit) state" where
  "wizard_probe_http h = do {
     w \<leftarrow> gets wizard;
     up \<leftarrow> probe_url h (lit ''http://'' @ trim (w_host w) @ port_suffix (w_port w) @ lit ''/api/'');
     if up then wizard_save h False
     else do {
       toast h ''ha_unreachable'' UI_ICON_ERROR 2000;
       home_render h
     }
   }"

section \<open>Light and cover editors\<close>

definition service_done :: "('w, 'v) ha_host \<Rightarrow> bool \<Rightarrow> ('w hst, unit) state" where
  "service_done h good =
    (if good then do {
       ui h (push_toast (tr_core h ''core.saved'') UI_ICON_SUCCESS 800);
       home_render h
     }
     else toast h ''save_failed'' UI_ICON_ERROR 1500)"

definition select_entity :: "entity \<Rightarrow> ('w hst, unit) state" where
  "select_entity e = modify (\<lambda>st. st\<lparr>selected := Some e\<rparr>)"

definition percent_slider :: "ustr \<Rightarrow> int \<Rightarrow> u32 \<Rightarrow> ui_call list" where
  "percent_slider title initial act =
     slider_push (slider_on_save act (slider_unit (lit ''%'') (slider_step 5 (slider_initial initial
       (slider_range 0 100 (slider_new title))))))"

definition light_brightness_start :: "('w, 'v) ha_host \<Rightarrow> entity \<Rightarrow> ('w hst, unit) state" where
  "light_brightness_start h e = do {
     select_entity e;
     ui h (percent_slider (tr_core h ''core.brightness'') (int (max 1 (min (e_bright e) 100))) ACT_LIGHT_BRIGHT_DONE)
   }"

definition light_brightness_done :: "('w, 'v) ha_host \<Rightarrow> int \<Rightarrow> ('w hst, unit) state" where
  "light_brightness_done h v = do {
     sel \<leftarrow> gets selected;
     case sel of
       None \<Rightarrow> ret ()
     | Some e \<Rightarrow> do {
         let v = max 0 (min v 100);
         good \<leftarrow> (if v = 0 then call_service h (lit ''light'') (lit ''turn_off'') (e_id e) None
                  else call_service h (lit ''light'') (lit ''turn_on'') (e_id e)
                    (Some ([34] @ lit ''brightness_pct'' @ [34, 58] @ show_int v)));
         service_done h good
       }
   }"

definition light_color_start :: "('w, 'v) ha_host \<Rightarrow> entity \<Rightarrow> ('w hst, unit) state" where
  "light_color_start h e = do {
     select_entity e;
     ui h (push_color_picker 255 255 255 ACT_LIGHT_COLOR_PICK)
   }"

definition light_color_done :: "('w, 'v) ha_host \<Rightarrow> u32 \<Rightarrow> ('w hst, unit) state" where
  "light_color_done h packed = do {
     sel \<leftarrow> gets selected;
     case sel of
       None \<Rightarrow> ret ()
     | Some e \<Rightarrow> do {
         let r = drop_bit 16 packed AND 0xFF;
         let g = drop_bit 8 packed AND 0xFF;
         let b = packed AND 0xFF;
         good \<leftarrow> (if r = 0 \<and> g = 0 \<and> b = 0 then call_service h (lit ''light'') (lit ''turn_off'') (e_id e) None
                  else call_service h (lit ''light'') (lit ''turn_on'') (e_id e)
                    (Some ([34] @ lit ''rgb_color'' @ [34, 58, 91] @ show_nat (unat r) @ [44] @ show_nat (unat g) @ [44]
                      @ show_nat (unat b) @ [93])));
         service_done h good
       }
   }"

definition cover_position_start :: "('w, 'v) ha_host \<Rightarrow> entity \<Rightarrow> ('w hst, unit) state" where
  "cover_position_start h e = do {
     select_entity e;
     ui h (percent_slider (tr_key h ''cover_position'') (int (min (e_position e) 100)) ACT_COVER_POS_DONE)
   }"

definition cover_position_done :: "('w, 'v) ha_host \<Rightarrow> int \<Rightarrow> ('w hst, unit) state" where
  "cover_position_done h v = do {
     sel \<leftarrow> gets selected;
     case sel of
       None \<Rightarrow> ret ()
     | Some e \<Rightarrow> do {
         let v = max 0 (min v 100);
         good \<leftarrow> call_service h (lit ''cover'') (lit ''set_cover_position'') (e_id e)
           (Some ([34] @ lit ''position'' @ [34, 58] @ show_int v));
         service_done h good
       }
   }"

section \<open>Browse view\<close>

text \<open>\<open>str::contains\<close>.\<close>

fun str_contains :: "ustr \<Rightarrow> ustr \<Rightarrow> bool" where
  "str_contains needle [] = (needle = [])"
| "str_contains needle (c # s) = (starts_with needle (c # s) \<or> str_contains needle s)"

definition browse_match :: "('w, 'v) ha_host \<Rightarrow> u32 \<Rightarrow> ustr \<Rightarrow> entity \<Rightarrow> bool" where
  "browse_match h filt search e =
    (if filt \<noteq> FILTER_ALL \<and> of_nat (domain_idx (e_domain e)) \<noteq> filt then False
     else if search \<noteq> [] \<and> \<not> str_contains search (lower h (e_name e)) \<and> \<not> str_contains search (lower h (e_id e))
       then False
     else True)"

definition browse_rebuild_visible :: "('w, 'v) ha_host \<Rightarrow> ('w hst, unit) state" where
  "browse_rebuild_visible h = modify (\<lambda>st.
     let b = browse st; search = lower h (b_search b) in
     st\<lparr>browse := b\<lparr>b_visible := map fst (filter (\<lambda>(i, e). browse_match h (b_filter b) search e)
       (enumerate 0 (b_all b)))\<rparr>\<rparr>)"

definition browse_icon :: "entity \<Rightarrow> 'w hst \<Rightarrow> u8" where
  "browse_icon e st = (if favs_contains (e_id e) st then UI_ICON_HEART else domain_icon (e_domain e))"

definition browse_list :: "('w, 'v) ha_host \<Rightarrow> 'w hst \<Rightarrow> list_builder" where
  "browse_list h st =
    (let b = browse st;
         title = tr_key h ''browse'' @ lit '' ['' @ show_nat (length (b_visible b)) @ lit ''/''
           @ show_nat (length (b_all b)) @ lit '']''
     in fold (\<lambda>i. list_item (label (b_all b ! i)) (of_nat i) (browse_icon (b_all b ! i) st)) (b_visible b)
          (list_on_menu ACT_BROWSE_MENU (list_on_select ACT_BROWSE_SELECT (list_new title))))"

definition browse_render :: "('w, 'v) ha_host \<Rightarrow> ('w hst, unit) state" where
  "browse_render h = do {
     st \<leftarrow> gets (\<lambda>st. st);
     let f = b_filter (browse st);
     let suffix = (if f = FILTER_ALL then lit ''all'' else domain_str (from_idx (unat f mod 256)));
     ui h (list_push (browse_list h st));
     ui h (set_footer (suffix @ lit ''  '' @ tr_key h ''hint_browse''))
   }"

definition browse_open :: "('w, 'v) ha_host \<Rightarrow> ('w hst, unit) state" where
  "browse_open h = do {
     toast h ''loading'' UI_ICON_INFO 800;
     r \<leftarrow> fetch_template_all h;
     case r of
       Some es \<Rightarrow> do {
         modify (\<lambda>st. st\<lparr>browse := (browse st)\<lparr>b_all := sort_key (\<lambda>e. (lower h (e_name e), e_id e)) es,
           b_filter := FILTER_ALL, b_search := []\<rparr>\<rparr>);
         browse_rebuild_visible h;
         browse_render h
       }
     | None \<Rightarrow> toast h ''ha_unreachable'' UI_ICON_ERROR 1500
   }"

definition browse_select :: "('w, 'v) ha_host \<Rightarrow> u32 \<Rightarrow> ('w hst, unit) state" where
  "browse_select h idx = do {
     st \<leftarrow> gets (\<lambda>st. st);
     if unat idx < length (b_all (browse st)) then do {
       let e = b_all (browse st) ! unat idx;
       if favs_contains (e_id e) st then toast h ''already_fav'' UI_ICON_INFO 1000
       else if length (favs st) \<ge> MAX_FAVS then toast h ''max_favs'' UI_ICON_ALERT 1500
       else do {
         modify (\<lambda>st. st\<lparr>favs := favs st @ [\<lparr>fv_id = e_id e, fv_name = e_name e, fv_domain = e_domain e\<rparr>]\<rparr>);
         saved \<leftarrow> favs_save h;
         ui h ui_pop;
         home_render h;
         whenM saved (toast h ''added'' UI_ICON_SUCCESS 800)
       }
     }
     else ret ()
   }"

definition filter_menu :: "('w, 'v) ha_host \<Rightarrow> list_builder" where
  "filter_menu h =
     fold (\<lambda>(key, i, icon). list_item (tr_key h key) i icon)
       [(''search'', FILTER_SEARCH, UI_ICON_CIRCLE),
        (''all_domains'', FILTER_ALL, UI_ICON_BAR),
        (''lights'', of_nat (domain_idx Light), UI_ICON_LIGHT),
        (''switches'', of_nat (domain_idx Switch), UI_ICON_SWITCH),
        (''scenes'', of_nat (domain_idx Scene), UI_ICON_SCENE),
        (''scripts'', of_nat (domain_idx Script), UI_ICON_MUSIC),
        (''buttons'', of_nat (domain_idx Button), UI_ICON_PLAY),
        (''covers'', of_nat (domain_idx Cover), UI_ICON_COVER),
        (''climates'', of_nat (domain_idx Climate), UI_ICON_SUN),
        (''sensors'', of_nat (domain_idx Sensor), UI_ICON_SENSOR)]
       (list_on_select ACT_BROWSE_FILTER_PICK (list_new (tr_key h ''filter'')))"

definition browse_open_filter_menu :: "('w, 'v) ha_host \<Rightarrow> ('w hst, unit) state" where
  "browse_open_filter_menu h = ui h (list_push (filter_menu h))"

definition browse_filter_pick :: "('w, 'v) ha_host \<Rightarrow> u32 \<Rightarrow> ('w hst, unit) state" where
  "browse_filter_pick h item_id = do {
     ui h ui_pop;
     if item_id = FILTER_SEARCH then do {
       initial \<leftarrow> gets (\<lambda>st. b_search (browse st));
       ui h (push_t9_input (tr_key h ''search'') (if initial = [] then None else Some initial) 48
         ACT_BROWSE_SEARCH_DONE)
     }
     else do {
       modify (\<lambda>st. st\<lparr>browse := (browse st)\<lparr>b_filter := item_id\<rparr>\<rparr>);
       browse_rebuild_visible h;
       browse_render h
     }
   }"

definition browse_search_done :: "('w, 'v) ha_host \<Rightarrow> ustr option \<Rightarrow> ('w hst, unit) state" where
  "browse_search_done h text = do {
     modify (\<lambda>st. case text of
       Some t \<Rightarrow> st\<lparr>browse := (browse st)\<lparr>b_search := trim t\<rparr>\<rparr>
     | None \<Rightarrow> st);
     browse_rebuild_visible h;
     browse_render h
   }"

section \<open>Thermostat view\<close>

definition slider_value :: "('w, 'v) ha_host \<Rightarrow> 'w \<Rightarrow> int option" where
  "slider_value h w =
    (case host_get_value h W_CLIMATE_SLIDER w of (rc, out) \<Rightarrow> if rc = 0 then Some out else None)"

definition mode_label :: "('w, 'v) ha_host \<Rightarrow> ustr \<Rightarrow> ustr" where
  "mode_label h mode =
    (if mode = lit ''off'' then tr_key h ''mode_off''
     else if mode = lit ''heat'' then tr_key h ''mode_heat''
     else if mode = lit ''cool'' then tr_key h ''mode_cool''
     else if mode = lit ''auto'' \<or> mode = lit ''heat_cool'' then tr_key h ''mode_auto''
     else if mode = lit ''dry'' then tr_key h ''mode_dry''
     else if mode = lit ''fan_only'' then tr_key h ''mode_fan''
     else mode)"

definition mode_button :: "('w, 'v) ha_host \<Rightarrow> climate_state \<Rightarrow> int \<Rightarrow> nat \<Rightarrow> ui_call list" where
  "mode_button h st btn_w i =
    (let x = wrap16 (4 + wrap16 (int i * btn_w));
         key_label = lit ''['' @ show_nat (i + 1) @ lit '']'';
         mode = cl_slots st ! i;
         active = (mode = Some (cl_mode st))
     in case mode of
          Some m \<Rightarrow>
            [Cv_rect x 46 (wrap16 (btn_w - 4)) 14 active, Cv_inverted active] @
            draw_text_aligned (wrap16 (x + 2)) 49 (wrap16 (btn_w - 8)) (key_label @ lit '' '' @ mode_label h m)
              ALIGN_CENTER
        | None \<Rightarrow>
            [Cv_rect x 46 (wrap16 (btn_w - 4)) 14 False, Cv_inverted False] @
            draw_text_aligned (wrap16 (x + 2)) 49 (wrap16 (btn_w - 8)) key_label ALIGN_CENTER)"

definition fill_width :: "climate_state \<Rightarrow> int \<Rightarrow> int \<Rightarrow> int" where
  "fill_width st bar_w target =
    (let range = max (wrap32 (cl_max st - cl_min st)) 1
     in wrap16 (wrap32 (wrap32 (target - cl_min st) * (bar_w - 4)) sdiv range))"

definition climate_draw :: "('w, 'v) ha_host \<Rightarrow> climate_state \<Rightarrow> u16 \<Rightarrow> int \<Rightarrow> ui_call list" where
  "climate_draw h st w target =
    (let w16 = wrap16 (uint w);
         bar_w = wrap16 (w16 - 40);
         btn_w = wrap16 (w16 - 8) sdiv 3
     in [Cv_clear, Cv_inverted False, Cv_text_size 1] @
        draw_text_aligned 0 2 w16 (tr_key h ''climate_current'' @ lit ''  '' @ format_temp (cl_current st) (cl_unit st))
          ALIGN_RIGHT @
        [Cv_text_size 2] @
        draw_text_aligned 0 14 w16 (format_temp target (cl_unit st)) ALIGN_CENTER @
        [Cv_rect 20 32 bar_w 8 False, Cv_rect 22 34 (max (fill_width st bar_w target) 0) 4 True, Cv_text_size 1] @
        draw_text 2 33 (lit ''[4]'') @
        draw_text (wrap16 (w16 - 18)) 33 (lit ''[6]'') @
        concat (map (mode_button h st btn_w) [0, 1, 2]) @
        [Cv_inverted False] @
        (if cl_fans st \<noteq> [] then
           draw_text 2 64 (lit ''[5] '' @ tr_key h ''climate_fan'' @ lit '': < '' @ unwrap_or (cl_fan st) (lit ''-'')
             @ lit '' >'')
         else []) @
        [Cv_commit False])"

definition climate_render :: "('w, 'v) ha_host \<Rightarrow> ('w hst, unit) state" where
  "climate_render h = do {
     c \<leftarrow> gets climate;
     case c of
       None \<Rightarrow> ret ()
     | Some st \<Rightarrow> do {
         wd \<leftarrow> gets world;
         ui h (climate_draw h st (fst (host_body_size h wd)) (unwrap_or (slider_value h wd) (cl_current st)))
       }
   }"

definition climate_open :: "('w, 'v) ha_host \<Rightarrow> entity \<Rightarrow> ('w hst, unit) state" where
  "climate_open h e = do {
     body \<leftarrow> http_get h (state_path (e_id e));
     case body of
       None \<Rightarrow> toast h ''ha_unreachable'' UI_ICON_ERROR 1500
     | Some b \<Rightarrow>
       (case parse_climate_state (hj h) (e_id e) b of
          None \<Rightarrow> toast h ''ha_error'' UI_ICON_ERROR 1500
        | Some c \<Rightarrow> do {
            let (lo, hi) = setpoint_bounds c;
            let c = c\<lparr>cl_target := clamp_ordered (cl_target c) lo hi\<rparr>;
            ui h (canvas_push (e_name e) ACT_CLIMATE_KEY ACT_CLIMATE_WIDGET);
            ui h [Cv_slider W_CLIMATE_SLIDER (cl_min c) (cl_max c) (cl_target c) (cl_step c),
                  Cv_focus W_CLIMATE_SLIDER, Cv_key_repeat 400 120];
            ui h (canvas_set_footer (tr_key h ''climate_footer''));
            modify (\<lambda>st. st\<lparr>climate := Some c\<rparr>);
            climate_render h
          })
   }"

text \<open>The service calls of a commit, in order: service, and the rest of the body.\<close>

definition climate_calls :: "climate_state \<Rightarrow> int \<Rightarrow> (ustr \<times> ustr) list" where
  "climate_calls c target =
     (if cl_mode c \<noteq> cl_cur_mode c
      then [(lit ''set_hvac_mode'', [34] @ lit ''hvac_mode'' @ [34, 58] @ json_string (cl_mode c))] else []) @
     (if cl_mode c \<noteq> lit ''off'' \<and> wrap32 \<bar>wrap32 (target - cl_target c)\<bar> \<ge> 1
      then [(lit ''set_temperature'', setpoint_extra c target)] else []) @
     (if cl_fan c \<noteq> cl_cur_fan c
      then (case cl_fan c of
              Some fan \<Rightarrow> [(lit ''set_fan_mode'', [34] @ lit ''fan_mode'' @ [34, 58] @ json_string fan)]
            | None \<Rightarrow> []) else [])"

fun call_all :: "('w, 'v) ha_host \<Rightarrow> ustr \<Rightarrow> (ustr \<times> ustr) list \<Rightarrow> ('w hst, bool) state" where
  "call_all h i [] = ret True"
| "call_all h i ((service, extra) # cs) = do {
     good \<leftarrow> call_service h (lit ''climate'') service i (Some extra);
     rest \<leftarrow> call_all h i cs;
     ret (good \<and> rest)
   }"

definition climate_close :: "('w, 'v) ha_host \<Rightarrow> ('w hst, unit) state" where
  "climate_close h = do {
     modify (\<lambda>st. st\<lparr>climate := None\<rparr>);
     ui h ui_pop;
     home_render h
   }"

definition climate_commit :: "('w, 'v) ha_host \<Rightarrow> ('w hst, unit) state" where
  "climate_commit h = do {
     c \<leftarrow> gets climate;
     case c of
       None \<Rightarrow> ret ()
     | Some c \<Rightarrow> do {
         wd \<leftarrow> gets world;
         good \<leftarrow> call_all h (cl_entity c) (climate_calls c (unwrap_or (slider_value h wd) (cl_current c)));
         (if good then ui h (push_toast (tr_core h ''core.saved'') UI_ICON_SUCCESS 800)
          else toast h ''save_failed'' UI_ICON_ERROR 1500);
         climate_close h
       }
   }"

definition next_fan :: "climate_state \<Rightarrow> ustr" where
  "next_fan c =
    (let cur = or_empty (cl_fan c);
         idx = (if cur \<in> set (cl_fans c) then length (takeWhile (\<lambda>f. f \<noteq> cur) (cl_fans c)) else 0)
     in cl_fans c ! ((idx + 1) mod length (cl_fans c)))"

definition climate_handle_key :: "('w, 'v) ha_host \<Rightarrow> nat \<Rightarrow> ('w hst, unit) state" where
  "climate_handle_key h key = do {
     c \<leftarrow> gets climate;
     case c of
       None \<Rightarrow> ret ()
     | Some c \<Rightarrow>
       if key \<in> {49, 50, 51} then do {
         modify (\<lambda>st. case cl_slots c ! (key - 49) of
           Some mode \<Rightarrow> st\<lparr>climate := Some (c\<lparr>cl_mode := mode\<rparr>)\<rparr>
         | None \<Rightarrow> st);
         climate_render h
       }
       else if key = 53 then
         (if cl_fans c = [] then ret ()
          else do {
            modify (\<lambda>st. st\<lparr>climate := Some (c\<lparr>cl_fan := Some (next_fan c)\<rparr>)\<rparr>);
            climate_render h
          })
       else if key = 89 then climate_commit h
       else if key = 78 then climate_close h
       else ret ()
   }"

section \<open>Selection and menu\<close>

definition home_open_menu :: "('w, 'v) ha_host \<Rightarrow> ('w hst, unit) state" where
  "home_open_menu h = do {
     conf \<leftarrow> gets (\<lambda>st. configured h (world st));
     sel \<leftarrow> gets selected;
     let b = menu_on_select ACT_HOME_CTX_PICK (menu_new (tr_core h ''core.actions''));
     let b = (case sel of
            Some e \<Rightarrow>
              (let b = (if e_domain e = Light
                   then menu_item (tr_key h ''color'') CTX_COLOR UI_ICON_DIAMOND
                     (menu_item (tr_core h ''core.brightness'') CTX_BRIGHTNESS UI_ICON_SUN b)
                   else b)
               in if e_domain e = Cover then menu_item (tr_key h ''cover_position'') CTX_COVER_POSITION UI_ICON_UPDOWN b
                  else b)
          | None \<Rightarrow> b);
     let b = (if conf then menu_item (tr_key h ''browse_all'') CTX_BROWSE UI_ICON_ARROW_RIGHT b else b);
     let b = (if sel \<noteq> None then menu_item (tr_key h ''remove'') CTX_REMOVE UI_ICON_REMOVE b else b);
     let b = menu_item (tr_key h ''setup_wizard'') CTX_SETUP UI_ICON_PLAY b;
     let b = menu_item (tr_key h ''token_title'') CTX_EDIT_TOKEN UI_ICON_PARAGRAPH b;
     let b = menu_item (tr_key h ''reset_module'') CTX_RESET UI_ICON_ALERT b;
     ui h (menu_push b)
   }"

definition toggled :: "entity \<Rightarrow> entity" where
  "toggled e =
    (if is_toggleable (e_domain e)
     then e\<lparr>e_state := (if e_state e = lit ''on'' then lit ''off'' else lit ''on'')\<rparr> else e)"

definition home_handle_select :: "('w, 'v) ha_host \<Rightarrow> nat \<Rightarrow> ('w hst, unit) state" where
  "home_handle_select h idx = do {
     es \<leftarrow> gets entities;
     if idx < length es then do {
       let e = es ! idx;
       select_entity e;
       case primary_service (e_domain e) of
         Some (d, service) \<Rightarrow> do {
           good \<leftarrow> call_service h d service (e_id e) None;
           if good then do {
             modify (\<lambda>st. st\<lparr>entities := (entities st)[idx := toggled (entities st ! idx)]\<rparr>);
             toast h ''toggle_ok'' UI_ICON_SUCCESS 800;
             home_redraw_only h
           }
           else toast h ''toggle_failed'' UI_ICON_ERROR 1500
         }
       | None \<Rightarrow>
           if is_readonly (e_domain e) then ui h (push_toast (reading e) UI_ICON_INFO 1500)
           else if e_domain e = Cover then cover_position_start h e
           else if e_domain e = Climate then climate_open h e
           else toast h ''unsupported'' UI_ICON_INFO 1200
     }
     else home_open_menu h
   }"

definition selected_index :: "'w hst \<Rightarrow> nat" where
  "selected_index st =
    (case selected st of
       Some sel \<Rightarrow>
         if list_ex (\<lambda>e. e_id e = e_id sel) (entities st)
         then length (takeWhile (\<lambda>e. e_id e \<noteq> e_id sel) (entities st)) else 0
     | None \<Rightarrow> 0)"

definition home_ctx_pick :: "('w, 'v) ha_host \<Rightarrow> u32 \<Rightarrow> ('w hst, unit) state" where
  "home_ctx_pick h item_id = do {
     sel \<leftarrow> gets selected;
     idx \<leftarrow> gets selected_index;
     if item_id = CTX_BRIGHTNESS then
       (case sel of Some e \<Rightarrow> whenM (e_domain e = Light) (light_brightness_start h e) | None \<Rightarrow> ret ())
     else if item_id = CTX_COLOR then
       (case sel of Some e \<Rightarrow> whenM (e_domain e = Light) (light_color_start h e) | None \<Rightarrow> ret ())
     else if item_id = CTX_COVER_POSITION then
       (case sel of Some e \<Rightarrow> whenM (e_domain e = Cover) (cover_position_start h e) | None \<Rightarrow> ret ())
     else if item_id = CTX_BROWSE then browse_open h
     else if item_id = CTX_SETUP then wizard_start h
     else if item_id = CTX_EDIT_TOKEN then wizard_step_token h
     else if item_id = CTX_REMOVE then
       (case sel of
          Some e \<Rightarrow> do {
            modify (\<lambda>st. st\<lparr>pending_remove := Some idx\<rparr>);
            ui h (push_confirm (e_name e @ [10] @ tr_key h ''remove_confirm'') UI_ICON_ALERT ACT_REMOVE_FAV_CONFIRM)
          }
        | None \<Rightarrow> ret ())
     else if item_id = CTX_RESET then
       ui h (push_confirm (tr_key h ''reset_confirm'') UI_ICON_ALERT ACT_RESET_CONFIRM)
     else ret ()
   }"

section \<open>Entry points\<close>

definition ha_reset_all :: "('w, 'v) ha_host \<Rightarrow> ('w hst, unit) state" where
  "ha_reset_all h = do {
     storeM (\<lambda>w. snd (nvs_erase (hs h) NVS_HOST w));
     storeM (\<lambda>w. snd (nvs_erase (hs h) NVS_HA_PORT w));
     storeM (\<lambda>w. snd (nvs_erase (hs h) NVS_HTTPS w));
     storeM (\<lambda>w. snd (nvs_erase (hs h) NVS_FAVS w));
     storeM (\<lambda>w. snd (rmem_erase (hs h) TOKEN_NAME w));
     modify (\<lambda>st. st\<lparr>favs := [], entities := [], browse := (browse st)\<lparr>b_all := [], b_visible := []\<rparr>,
       selected := None\<rparr>)
   }"

definition ha_init :: "('w, 'v) ha_host \<Rightarrow> ('w hst, int) state" where
  "ha_init h = do { favs_load h; ret 0 }"

definition ha_deinit :: "('w hst, int) state" where
  "ha_deinit = ret 0"

definition ha_on_enter :: "('w, 'v) ha_host \<Rightarrow> ('w hst, int) state" where
  "ha_on_enter h = do { favs_load h; home_render h; ret 0 }"

definition ha_on_exit :: "('w hst, int) state" where
  "ha_on_exit = do {
     modify (\<lambda>st. st\<lparr>selected := None, pending_remove := None,
       browse := (browse st)\<lparr>b_all := [], b_visible := []\<rparr>\<rparr>);
     ret 0
   }"

definition remember :: "nat \<Rightarrow> ('w hst, unit) state" where
  "remember idx = modify (\<lambda>st. if idx < length (entities st) then st\<lparr>selected := Some (entities st ! idx)\<rparr> else st)"

definition input_text :: "('w, 'v) ha_host \<Rightarrow> nat \<Rightarrow> ('w hst, ustr option) state" where
  "input_text h n = onW (sdk_consume_input_text (host_input_text h) n)"

definition input_int :: "('w, 'v) ha_host \<Rightarrow> ('w hst, int option) state" where
  "input_int h = onW (consume_input_int (host_input_int h))"

definition setup_host_done :: "('w, 'v) ha_host \<Rightarrow> ustr \<Rightarrow> ('w hst, unit) state" where
  "setup_host_done h t = do {
     let raw = trim t;
     let refuse = do { toast h ''host_required'' UI_ICON_ERROR 1500; home_render h };
     if raw = [] then refuse
     else
       (case parse_host_from_url raw of
          (host, explicit_https, explicit_port) \<Rightarrow>
            if host = [] then refuse
            else do {
              modify (\<lambda>st. st\<lparr>wizard := \<lparr>w_host = host, w_port = or_empty explicit_port, w_https = explicit_https\<rparr>\<rparr>);
              wizard_finalize_with_probe h
            })
   }"

definition setup_token_done :: "('w, 'v) ha_host \<Rightarrow> ustr \<Rightarrow> ('w hst, unit) state" where
  "setup_token_done h t =
     whenM (trim t \<noteq> []) (do {
       r \<leftarrow> onW (State (rmem_write (hs h) TOKEN_NAME (utf8_encode (trim t))));
       if is_ok r then toast h ''token_ok'' UI_ICON_SUCCESS 1000 else toast h ''save_failed'' UI_ICON_ERROR 1500
     })"

definition remove_confirmed :: "('w, 'v) ha_host \<Rightarrow> ('w hst, unit) state" where
  "remove_confirmed h = do {
     p \<leftarrow> gets pending_remove;
     modify (\<lambda>st. st\<lparr>pending_remove := None\<rparr>);
     case p of
       None \<Rightarrow> ret ()
     | Some i \<Rightarrow> do {
         modify (\<lambda>st. st\<lparr>favs := (if i < length (favs st) then take i (favs st) @ drop (Suc i) (favs st) else favs st),
           selected := None\<rparr>);
         saved \<leftarrow> favs_save h;
         whenM saved (toast h ''removed'' UI_ICON_SUCCESS 800)
       }
   }"

text \<open>An editor's result: handed to \<open>f\<close> on save, and the home view is shown again on cancel.\<close>

definition editor_done :: "('w, 'v) ha_host \<Rightarrow> u32 \<Rightarrow> (int \<Rightarrow> ('w hst, unit) state) \<Rightarrow> ('w hst, unit) state" where
  "editor_done h user_data f =
    (if user_data = 1 then do {
       v \<leftarrow> input_int h;
       case v of Some v \<Rightarrow> f v | None \<Rightarrow> ret ()
     }
     else home_render h)"

definition ha_on_action :: "('w, 'v) ha_host \<Rightarrow> u32 \<Rightarrow> u32 \<Rightarrow> u32 \<Rightarrow> ('w hst, int) state" where
  "ha_on_action h action idx user_data = do {
     (if action = ACT_HOME_SELECT then do { remember (unat idx); home_handle_select h (unat idx) }
      else if action = ACT_HOME_MENU then do { remember (unat idx); home_open_menu h }
      else if action = ACT_HOME_CTX_PICK then home_ctx_pick h user_data
      else if action = ACT_BROWSE_SELECT then browse_select h user_data
      else if action = ACT_BROWSE_MENU then browse_open_filter_menu h
      else if action = ACT_BROWSE_FILTER_PICK then browse_filter_pick h user_data
      else if action = ACT_BROWSE_SEARCH_DONE then do {
        text \<leftarrow> (if user_data = 1 then input_text h 48 else ret None);
        browse_search_done h text
      }
      else if action = ACT_SETUP_HOST_DONE then
        (if user_data = 1 then do {
           t \<leftarrow> input_text h 96;
           case t of Some t \<Rightarrow> setup_host_done h t | None \<Rightarrow> ret ()
         }
         else home_render h)
      else if action = ACT_SETUP_HTTP_CONFIRM then
        (if user_data = 1 then wizard_probe_http h else home_render h)
      else if action = ACT_SETUP_TOKEN_DONE then do {
        (if user_data = 1 then do {
           t \<leftarrow> input_text h 320;
           case t of Some t \<Rightarrow> setup_token_done h t | None \<Rightarrow> ret ()
         }
         else ret ());
        home_render h
      }
      else if action = ACT_LIGHT_BRIGHT_DONE then editor_done h user_data (light_brightness_done h)
      else if action = ACT_LIGHT_COLOR_PICK then editor_done h user_data (\<lambda>v. light_color_done h (of_int v))
      else if action = ACT_COVER_POS_DONE then editor_done h user_data (cover_position_done h)
      else if action = ACT_REMOVE_FAV_CONFIRM then do {
        (if user_data = 1 then remove_confirmed h
         else modify (\<lambda>st. st\<lparr>pending_remove := None\<rparr>));
        home_render h
      }
      else if action = ACT_CLIMATE_KEY then climate_handle_key h (unat user_data mod 256)
      else if action = ACT_CLIMATE_WIDGET then
        (if user_data = WIDGET_COMMITTED then climate_commit h
         else if user_data = WIDGET_CANCELLED then climate_close h
         else climate_render h)
      else if action = ACT_RESET_CONFIRM then do {
        (if user_data = 1 then do {
           ha_reset_all h;
           toast h ''reset_done'' UI_ICON_SUCCESS 1000
         }
         else ret ());
        home_render h
      }
      else ret ());
     ret 0
   }"

end
