(* ===== verification/Home_Laws.thy ===== *)
theory Home_Laws
  imports Home_App
begin

text \<open>
  Laws of the Home Assistant plugin: what each program leaves alone, the invariant of the
  statics that every export preserves, and the laws of parsers, encoders and the thermostat
  arithmetic that the properties rest on.
\<close>

section \<open>Running the primitives\<close>

lemma ha_run_onW [simp]:
  "run_state (onW m) st = (fst (run_state m (world st)), st\<lparr>world := snd (run_state m (world st))\<rparr>)"
  by (simp add: onW_def split_beta)

lemma ha_run_storeM [simp]: "run_state (storeM f) st = ((), st\<lparr>world := f (world st)\<rparr>)"
  by (simp add: storeM_def)

lemma ha_run_ui [simp]:
  "run_state (ui h cs) st = ((), st\<lparr>world := fold (host_ui h) cs (world st), ui_log := ui_log st @ cs\<rparr>)"
  by (simp add: ui_def)

section \<open>Programs that do not touch the statics\<close>

definition statics ::
  "'w hst \<Rightarrow> favorite list \<times> entity list \<times> browse_state \<times> entity option \<times> nat option \<times> climate_state option" where
  "statics st = (favs st, entities st, browse st, selected st, pending_remove st, climate st)"

lemma statics_other [simp]:
  "statics (st\<lparr>world := w\<rparr>) = statics st" "statics (st\<lparr>ui_log := l\<rparr>) = statics st"
  "statics (st\<lparr>wizard := z\<rparr>) = statics st"
  by (simp_all add: statics_def)

lemma statics_sel:
  "statics st' = statics st \<Longrightarrow> favs st' = favs st" "statics st' = statics st \<Longrightarrow> entities st' = entities st"
  "statics st' = statics st \<Longrightarrow> browse st' = browse st" "statics st' = statics st \<Longrightarrow> selected st' = selected st"
  "statics st' = statics st \<Longrightarrow> pending_remove st' = pending_remove st"
  "statics st' = statics st \<Longrightarrow> climate st' = climate st"
  by (simp_all add: statics_def)

abbreviation (input) at_statics where
  "at_statics s \<equiv> (\<lambda>st. statics st = s)"

lemma quiet_prims [keeps_intro]:
  "keeps (at_statics s) (onW m)" "keeps (at_statics s) (storeM f)" "keeps (at_statics s) (ui h cs)"
  "keeps (at_statics s) (toast h k i d)"
  by (simp_all add: keeps_def toast_def)

lemma quiet_http [keeps_intro]:
  "keeps (at_statics s) (http_get h p)" "keeps (at_statics s) (http_post h p b)"
  "keeps (at_statics s) (fetch_template_all h)" "keeps (at_statics s) (probe_url h url)"
  unfolding http_get_def http_post_def fetch_template_all_def probe_url_def by (intro keeps_intro)+

lemma quiet_calls [keeps_intro]:
  "keeps (at_statics s) (fetch_one h i)" "keeps (at_statics s) (call_service h d v i x)"
  "keeps (at_statics s) (favs_save h)"
  unfolding fetch_one_def call_service_def favs_save_def by (intro keeps_intro)+

lemma quiet_call_all [keeps_intro]: "keeps (at_statics s) (call_all h i cs)"
  by (induction cs) (auto intro!: keeps_intro)

lemma quiet_views [keeps_intro]:
  "keeps (at_statics s) (home_redraw_only h)" "keeps (at_statics s) (wizard_start h)"
  "keeps (at_statics s) (wizard_step_token h)" "keeps (at_statics s) (browse_render h)"
  "keeps (at_statics s) (climate_render h)" "keeps (at_statics s) (browse_open_filter_menu h)"
  "keeps (at_statics s) (home_open_menu h)" "keeps (at_statics s) (setup_token_done h t)"
  "keeps (at_statics s) (input_text h n)" "keeps (at_statics s) (input_int h)"
  unfolding home_redraw_only_def wizard_start_def wizard_step_token_def browse_render_def climate_render_def
    browse_open_filter_menu_def home_open_menu_def setup_token_done_def input_text_def input_int_def Let_def
  by (intro keeps_intro)+

text \<open>A property of the statics is kept by every such program.\<close>

definition cells :: "(favorite list \<times> entity list \<times> browse_state \<times> entity option \<times> nat option \<times> climate_state option \<Rightarrow> bool)
  \<Rightarrow> 'w hst \<Rightarrow> bool" where
  "cells P st \<longleftrightarrow> P (statics st)"

lemma quiet_keeps: "(\<And>s. keeps (at_statics s) m) \<Longrightarrow> keeps (cells P) m"
  by (simp add: keeps_def cells_def)

lemmas quiet_cells [keeps_intro] =
  quiet_prims [THEN quiet_keeps] quiet_http [THEN quiet_keeps] quiet_calls [THEN quiet_keeps]
  quiet_call_all [THEN quiet_keeps] quiet_views [THEN quiet_keeps]

section \<open>The home view\<close>

definition offline_row :: "favorite \<Rightarrow> entity" where
  "offline_row f = (placeholder (fv_id f) (fv_domain f))\<lparr>e_name := fv_name f\<rparr>"


lemma parse_state_id: "parse_state_json j i b = Some e \<Longrightarrow> e_id e = i \<and> e_domain e = domain_parse i"
  by (auto simp: parse_state_json_def Let_def split: bind_splits)

definition fetched_for :: "favorite \<Rightarrow> entity \<Rightarrow> bool" where
  "fetched_for f e \<longleftrightarrow> e_id e = fv_id f \<and> e_domain e = domain_parse (fv_id f)"

lemma fetch_one_fetched: "run_state (fetch_one h (fv_id f)) st = (Some e, st') \<Longrightarrow> fetched_for f e"
  by (auto simp: fetch_one_def fetched_for_def parse_state_id split: prod.splits bind_splits)

lemma statics_entities: "statics st' = statics st \<Longrightarrow> statics (st'\<lparr>entities := es\<rparr>) = statics (st\<lparr>entities := es\<rparr>)"
  by (simp add: statics_def)

lemma fetch_rows_result:
  "run_state (fetch_rows h fs reachable any_ok) st = (r, st') \<Longrightarrow>
   \<exists>k es. k \<le> length fs \<and> list_all2 fetched_for (take k fs) es
     \<and> statics st' = statics (st\<lparr>entities := entities st @ es @ map offline_row (drop k fs)\<rparr>)
     \<and> (r \<longleftrightarrow> any_ok \<or> 0 < k) \<and> (\<not> reachable \<longrightarrow> k = 0)"
proof (induction fs arbitrary: reachable any_ok st)
  case Nil
  then show ?case by (auto simp: statics_def)
next
  case (Cons f fs)
  obtain x st1 where x: "run_state (if reachable then fetch_one h (fv_id f) else ret None) st = (x, st1)"
    by (rule prod.exhaust)
  have q: "statics st1 = statics st"
    using x keepsD [OF quiet_calls(1) [of "statics st" h "fv_id f"], of st x st1] by (cases reachable) auto
  show ?case
  proof (cases x)
    case None
    let ?st2 = "st1\<lparr>entities := entities st1 @ [offline_row f]\<rparr>"
    have "run_state (fetch_rows h fs False any_ok) ?st2 = (r, st')"
      using Cons.prems x None by (simp add: offline_row_def)
    from Cons.IH [OF this] have "statics st' = statics (st\<lparr>entities := entities st @ [] @ map offline_row (drop 0 (f # fs))\<rparr>)"
      "r \<longleftrightarrow> any_ok" using q by (auto simp: statics_def)
    then show ?thesis by (intro exI [of _ 0] exI [of _ "[]"]) simp
  next
    case (Some e)
    let ?st2 = "st1\<lparr>entities := entities st1 @ [e]\<rparr>"
    have e: "fetched_for f e" "reachable"
      using x Some fetch_one_fetched [of h f st e st1] by (auto split: if_splits)
    have "run_state (fetch_rows h fs reachable True) ?st2 = (r, st')"
      using Cons.prems x Some by simp
    then obtain k es where k: "k \<le> length fs" "list_all2 fetched_for (take k fs) es"
      "statics st' = statics (?st2\<lparr>entities := entities ?st2 @ es @ map offline_row (drop k fs)\<rparr>)" "r"
      using Cons.IH [of reachable True ?st2] by auto
    then have "statics st' = statics (st\<lparr>entities := entities st @ (e # es) @ map offline_row (drop (Suc k) (f # fs))\<rparr>)"
      using q by (simp add: statics_def)
    then show ?thesis using k e by (intro exI [of _ "Suc k"] exI [of _ "e # es"]) auto
  qed
qed

text \<open>The home view shows the favorites in order: fetched rows, and from the first failure on
  offline rows.\<close>

lemma home_render_result:
  assumes "run_state (home_render h) st = (u, st')"
  obtains k es where "k \<le> length (favs st)" "list_all2 fetched_for (take k (favs st)) es"
    "statics st' = statics (st\<lparr>entities :=
       (if configured h (world st) then es @ map offline_row (drop k (favs st)) else [])\<rparr>)"
proof (cases "configured h (world st)")
  case False
  then show ?thesis
    using assms by (intro that [of 0 "[]"]) (auto simp: home_render_def statics_def)
next
  case True
  let ?st1 = "st\<lparr>entities := []\<rparr>"
  obtain r st2 where f: "run_state (fetch_rows h (favs st) True False) ?st1 = (r, st2)" by (rule prod.exhaust)
  obtain k es where k: "k \<le> length (favs st)" "list_all2 fetched_for (take k (favs st)) es"
    "statics st2 = statics (?st1\<lparr>entities := entities ?st1 @ es @ map offline_row (drop k (favs st))\<rparr>)"
    using fetch_rows_result [OF f] by auto
  have "statics st' = statics st2"
    using assms f True by (auto simp: home_render_def toast_def whenM_def split: if_splits)
  then show ?thesis using k True by (intro that [of k es]) (auto simp: statics_def)
qed

section \<open>The invariant of the statics\<close>

definition matching :: "('w, 'v) ha_host \<Rightarrow> browse_state \<Rightarrow> nat list" where
  "matching h b = map fst (filter (\<lambda>(i, e). browse_match h (b_filter b) (lower h (b_search b)) e) (enumerate 0 (b_all b)))"

definition browse_ok :: "('w, 'v) ha_host \<Rightarrow> browse_state \<Rightarrow> bool" where
  "browse_ok h b \<longleftrightarrow> b_visible b = matching h b \<and> list_all (\<lambda>e. e_id e \<noteq> []) (b_all b)"

definition climate_ok :: "climate_state \<Rightarrow> bool" where
  "climate_ok c \<longleftrightarrow>
     length (cl_slots c) = 3 \<and> cl_slots c ! 0 = Some (lit ''off'')
     \<and> (cl_mode c = cl_cur_mode c \<or> Some (cl_mode c) \<in> set (cl_slots c))
     \<and> (cl_fan c = cl_cur_fan c \<or> cl_fan c \<in> Some ` set (cl_fans c))
     \<and> 1 \<le> cl_step c
     \<and> (case setpoint_bounds c of (lo, hi) \<Rightarrow> min lo hi \<le> cl_target c \<and> cl_target c \<le> max lo hi)"

text \<open>\<open>weak_ok\<close> holds throughout; \<open>ha_ok\<close>, between the exports, adds that the rows of the home view
  are those of the favorites.\<close>

definition weak_ok :: "('w, 'v) ha_host \<Rightarrow> 'w hst \<Rightarrow> bool" where
  "weak_ok h st \<longleftrightarrow> list_all (\<lambda>f. fv_id f \<noteq> []) (favs st) \<and> browse_ok h (browse st)
     \<and> (case climate st of Some c \<Rightarrow> climate_ok c | None \<Rightarrow> True)"

definition rows_ok :: "'w hst \<Rightarrow> bool" where
  "rows_ok st \<longleftrightarrow> entities st = [] \<or> map e_id (entities st) = map fv_id (favs st)"

definition ha_ok :: "('w, 'v) ha_host \<Rightarrow> 'w hst \<Rightarrow> bool" where
  "ha_ok h st \<longleftrightarrow> weak_ok h st \<and> rows_ok st"

lemma ok_statics:
  "statics st' = statics st \<Longrightarrow> ha_ok h st' = ha_ok h st" "statics st' = statics st \<Longrightarrow> weak_ok h st' = weak_ok h st"
  by (simp_all add: ha_ok_def weak_ok_def rows_ok_def statics_def)

lemma quiet_ok:
  assumes "\<And>s. keeps (at_statics s) m"
  shows "keeps (ha_ok h) m" "keeps (weak_ok h) m"
proof -
  have s: "statics st' = statics st" if "run_state m st = (x, st')" for st x st'
    using keepsD [OF assms that] by simp
  show "keeps (ha_ok h) m" by (rule keepsI) (simp only: ok_statics(1) [OF s])
  show "keeps (weak_ok h) m" by (rule keepsI) (simp only: ok_statics(2) [OF s])
qed

lemmas quiet_keeps_ok [keeps_intro] =
  quiet_prims [THEN quiet_ok(1)] quiet_http [THEN quiet_ok(1)] quiet_calls [THEN quiet_ok(1)]
  quiet_call_all [THEN quiet_ok(1)] quiet_views [THEN quiet_ok(1)]
  quiet_prims [THEN quiet_ok(2)] quiet_calls [THEN quiet_ok(2)]

lemma weak_ok_other [simp]:
  "weak_ok h (st\<lparr>entities := es\<rparr>) = weak_ok h st" "weak_ok h (st\<lparr>selected := s\<rparr>) = weak_ok h st"
  "weak_ok h (st\<lparr>pending_remove := p\<rparr>) = weak_ok h st" "weak_ok h (st\<lparr>wizard := z\<rparr>) = weak_ok h st"
  "ha_ok h (st\<lparr>selected := s\<rparr>) = ha_ok h st" "ha_ok h (st\<lparr>pending_remove := p\<rparr>) = ha_ok h st"
  "ha_ok h (st\<lparr>wizard := z\<rparr>) = ha_ok h st"
  by (simp_all add: weak_ok_def ha_ok_def rows_ok_def)

lemma fetched_ids: "list_all2 fetched_for fs es \<Longrightarrow> map e_id es = map fv_id fs"
  by (induction rule: list_all2_induct) (auto simp: fetched_for_def)

lemma render_ok: "hoare (weak_ok h) (home_render h) (\<lambda>_. ha_ok h)"
proof (rule hoareI)
  fix st u st'
  assume w: "weak_ok h st" and run: "run_state (home_render h) st = (u, st')"
  obtain k es where k: "list_all2 fetched_for (take k (favs st)) es"
    "statics st' = statics (st\<lparr>entities :=
       (if configured h (world st) then es @ map offline_row (drop k (favs st)) else [])\<rparr>)"
    by (rule home_render_result [OF run])
  have "map e_id (map offline_row fs) = map fv_id fs" for fs by (simp add: offline_row_def placeholder_def)
  then have "map e_id (es @ map offline_row (drop k (favs st))) = map fv_id (favs st)"
    using fetched_ids [OF k(1)] by (metis append_take_drop_id map_append)
  then have "rows_ok (st\<lparr>entities := (if configured h (world st) then es @ map offline_row (drop k (favs st)) else [])\<rparr>)"
    by (simp add: rows_ok_def)
  then have "ha_ok h (st\<lparr>entities := (if configured h (world st) then es @ map offline_row (drop k (favs st)) else [])\<rparr>)"
    using w by (simp add: ha_ok_def)
  then show "ha_ok h st'" by (simp only: ok_statics(1) [OF k(2)])
qed

lemma render_keeps [keeps_intro]: "keeps (ha_ok h) (home_render h)"
  unfolding keeps_hoare by (rule hoare_weaken [OF render_ok]) (simp_all add: ha_ok_def)

text \<open>A change of the favorites followed by the home view.\<close>

lemma then_render:
  "keeps (weak_ok h) m \<Longrightarrow> hoare (weak_ok h) (m \<bind> (\<lambda>_. home_render h)) (\<lambda>_. ha_ok h)"
  unfolding keeps_hoare by (rule hoare_bind [OF _ render_ok])

lemma weak_keeps: "hoare (weak_ok h) m (\<lambda>_. ha_ok h) \<Longrightarrow> keeps (ha_ok h) m"
  unfolding keeps_hoare by (erule hoare_weaken) (simp_all add: ha_ok_def)

lemma wizard_keeps [keeps_intro]:
  "keeps (ha_ok h) (wizard_save h b)" "keeps (ha_ok h) (wizard_finalize_with_probe h)"
  "keeps (ha_ok h) (wizard_probe_http h)"
proof -
  show s: "keeps (ha_ok h) (wizard_save h b)" for b unfolding wizard_save_def by (intro keeps_intro)
  show "keeps (ha_ok h) (wizard_finalize_with_probe h)" "keeps (ha_ok h) (wizard_probe_http h)"
    unfolding wizard_finalize_with_probe_def wizard_probe_http_def by (intro keeps_intro s)+
qed

lemma editors_keep [keeps_intro]:
  "keeps (ha_ok h) (select_entity e)" "keeps (ha_ok h) (light_brightness_start h e)"
  "keeps (ha_ok h) (light_brightness_done h v)" "keeps (ha_ok h) (light_color_start h e)"
  "keeps (ha_ok h) (light_color_done h p)" "keeps (ha_ok h) (cover_position_start h e)"
  "keeps (ha_ok h) (cover_position_done h v)"
proof -
  show s: "keeps (ha_ok h) (select_entity e)" unfolding select_entity_def by (intro keeps_intro) simp
  have d: "keeps (ha_ok h) (service_done h g)" for g unfolding service_done_def by (intro keeps_intro)
  show "keeps (ha_ok h) (light_brightness_start h e)" "keeps (ha_ok h) (light_brightness_done h v)"
    "keeps (ha_ok h) (light_color_start h e)" "keeps (ha_ok h) (light_color_done h p)"
    "keeps (ha_ok h) (cover_position_start h e)" "keeps (ha_ok h) (cover_position_done h v)"
    unfolding light_brightness_start_def light_brightness_done_def light_color_start_def light_color_done_def
      cover_position_start_def cover_position_done_def Let_def
    by (intro keeps_intro s d)+
qed

lemma rebuilt:
  "run_state (browse_rebuild_visible h) st
     = ((), st\<lparr>browse := (browse st)\<lparr>b_visible := matching h (browse st)\<rparr>\<rparr>)"
  by (simp add: browse_rebuild_visible_def matching_def Let_def)

lemma browse_changed_ok:
  assumes "ha_ok h st" and "list_all (\<lambda>e. e_id e \<noteq> []) (b_all b)"
  shows "ha_ok h (st\<lparr>browse := b\<lparr>b_visible := matching h b\<rparr>\<rparr>)"
  using assms by (simp add: ha_ok_def weak_ok_def rows_ok_def browse_ok_def matching_def)

lemma browse_change:
  assumes "\<And>st. ha_ok h st \<Longrightarrow> list_all (\<lambda>e. e_id e \<noteq> []) (b_all (browse (f st)))"
    and "\<And>st. favs (f st) = favs st" "\<And>st. entities (f st) = entities st" "\<And>st. climate (f st) = climate st"
  shows "keeps (ha_ok h) (do { modify f; browse_rebuild_visible h; browse_render h })"
proof (rule keepsI)
  fix st x t
  assume ok: "ha_ok h st" and run: "run_state (do { modify f; browse_rebuild_visible h; browse_render h }) st = (x, t)"
  have "run_state (browse_render h) ((f st)\<lparr>browse := (browse (f st))\<lparr>b_visible := matching h (browse (f st))\<rparr>\<rparr>) = (x, t)"
    using run by (simp add: rebuilt)
  moreover have "ha_ok h ((f st)\<lparr>browse := (browse (f st))\<lparr>b_visible := matching h (browse (f st))\<rparr>\<rparr>)"
    using ok assms(1) [OF ok] by (simp add: ha_ok_def weak_ok_def rows_ok_def browse_ok_def matching_def assms(2-4))
  ultimately show "ha_ok h t" by (rule keepsD [OF quiet_views(4) [THEN quiet_ok(1)]])
qed

lemma template_ids: "e \<in> set (parse_template text) \<Longrightarrow> e_id e \<noteq> []"
  by (auto simp: parse_template_def parse_template_line_def map_filter_def Let_def split: if_splits)

lemma ha_ok_all: "ha_ok h st \<Longrightarrow> list_all (\<lambda>e. e_id e \<noteq> []) (b_all (browse st))"
  by (simp add: ha_ok_def weak_ok_def browse_ok_def)

lemma fetched_template: "run_state (fetch_template_all h) st = (Some es, st') \<Longrightarrow> list_all (\<lambda>e. e_id e \<noteq> []) es"
  by (auto simp: fetch_template_all_def template_ids list_all_iff split: option.splits prod.splits)

lemma browse_open_keeps: "keeps (ha_ok h) (browse_open h)"
proof -
  let ?put = "\<lambda>es. modify (\<lambda>st. st\<lparr>browse := (browse st)\<lparr>b_all := sort_key (\<lambda>e. (lower h (e_name e), e_id e)) es,
    b_filter := FILTER_ALL, b_search := []\<rparr>\<rparr>)"
  have put: "keeps (ha_ok h) (do { ?put es; browse_rebuild_visible h; browse_render h })"
    if "list_all (\<lambda>e. e_id e \<noteq> []) es" for es
    using that by (intro browse_change) (auto simp: list_all_iff)
  have "keeps (ha_ok h) (do {
      r \<leftarrow> fetch_template_all h;
      case r of
        Some es \<Rightarrow> do { ?put es; browse_rebuild_visible h; browse_render h }
      | None \<Rightarrow> toast h ''ha_unreachable'' UI_ICON_ERROR 1500 })" (is "keeps _ ?rest")
  proof (rule keepsI)
    fix st x t
    assume ok: "ha_ok h st" and run: "run_state ?rest st = (x, t)"
    obtain r st1 where f: "run_state (fetch_template_all h) st = (r, st1)" by (rule prod.exhaust)
    have ok1: "ha_ok h st1" by (rule keepsD [OF quiet_http(3) [THEN quiet_ok(1)] f ok])
    show "ha_ok h t"
    proof (cases r)
      case None
      have "run_state (toast h ''ha_unreachable'' UI_ICON_ERROR 1500) st1 = (x, t)" using run f None by simp
      then show ?thesis by (rule keepsD [OF quiet_prims(4) [THEN quiet_ok(1)] _ ok1])
    next
      case (Some es)
      have "run_state (do { ?put es; browse_rebuild_visible h; browse_render h }) st1 = (x, t)" using run f Some by simp
      then show ?thesis
        by (rule keepsD [OF put [OF fetched_template [OF f [unfolded Some]]] _ ok1])
    qed
  qed
  then show ?thesis
    unfolding browse_open_def by (intro keeps_bind [OF quiet_prims(4) [THEN quiet_ok(1)]])
qed

lemma browse_keeps [keeps_intro]:
  "keeps (ha_ok h) (browse_filter_pick h i)" "keeps (ha_ok h) (browse_search_done h text)" "keeps (ha_ok h) (browse_open h)"
proof -
  have f: "keeps (ha_ok h) (do { modify (\<lambda>st. st\<lparr>browse := (browse st)\<lparr>b_filter := i\<rparr>\<rparr>); browse_rebuild_visible h; browse_render h })"
    by (rule browse_change) (simp_all add: ha_ok_all)
  show "keeps (ha_ok h) (browse_filter_pick h i)"
    unfolding browse_filter_pick_def by (intro keeps_intro f)
  show "keeps (ha_ok h) (browse_search_done h text)"
    unfolding browse_search_done_def by (rule browse_change) (auto simp: ha_ok_all split: option.split)
qed (rule browse_open_keeps)

lemma browse_select_keeps [keeps_intro]: "keeps (ha_ok h) (browse_select h idx)"
proof (rule keepsI)
  fix st x t
  assume ok: "ha_ok h st" and run: "run_state (browse_select h idx) st = (x, t)"
  let ?e = "b_all (browse st) ! unat idx"
  let ?add = "modify (\<lambda>st. st\<lparr>favs := favs st @ [\<lparr>fv_id = e_id ?e, fv_name = e_name ?e, fv_domain = e_domain ?e\<rparr>]\<rparr>)"
  let ?m = "do { ?add; saved \<leftarrow> favs_save h; ui h ui_pop; home_render h; whenM saved (toast h ''added'' UI_ICON_SUCCESS 800) }"
  consider (add) "unat idx < length (b_all (browse st))" "run_state ?m st = (x, t)" | (no) "statics t = statics st"
    using run by (auto simp: browse_select_def toast_def Let_def split: if_splits)
  then show "ha_ok h t"
  proof cases
    case add
    have "e_id ?e \<noteq> []" using ha_ok_all [OF ok] add(1) by (simp add: list_all_iff)
    then have "keeps (weak_ok h) ?add" by (intro keeps_intro) (simp add: weak_ok_def)
    then have m: "hoare (weak_ok h) ?m (\<lambda>_. ha_ok h)"
      unfolding keeps_hoare
      by (intro hoare_bind [where Q = "\<lambda>_. weak_ok h"] hoare_bind [OF render_ok]
        quiet_keeps_ok [unfolded keeps_hoare] keeps_when [unfolded keeps_hoare])
    show ?thesis by (rule hoareD [OF m add(2)]) (use ok in \<open>simp add: ha_ok_def\<close>)
  next
    case no
    then show ?thesis using ok ok_statics(1) by blast
  qed
qed

section \<open>The thermostat view keeps the invariant\<close>

lemma slots_three: "length (resolve_mode_slots modes) = 3" "resolve_mode_slots modes ! 0 = Some (lit ''off'')"
  by (simp_all add: resolve_mode_slots_def Let_def)

lemma clamp_between: "min a b \<le> clamp_ordered v a b \<and> clamp_ordered v a b \<le> max a b"
  by (auto simp: clamp_ordered_def)

lemma parsed_climate:
  assumes "parse_climate_state j i b = Some c"
  shows "cl_mode c = cl_cur_mode c" "cl_fan c = cl_cur_fan c" "1 \<le> cl_step c" "length (cl_slots c) = 3"
    "cl_slots c ! 0 = Some (lit ''off'')" "cl_entity c = i"
  using assms
  by (auto simp: parse_climate_state_def Let_def slots_three bind_eq_Some_conv split_beta)

lemma setpoint_bounds_other [simp]:
  "setpoint_bounds (c\<lparr>cl_target := t\<rparr>) = setpoint_bounds c" "setpoint_bounds (c\<lparr>cl_mode := m\<rparr>) = setpoint_bounds c"
  "setpoint_bounds (c\<lparr>cl_fan := f\<rparr>) = setpoint_bounds c"
  by (simp_all add: setpoint_bounds_def)

lemma opened_climate:
  assumes "parse_climate_state j i b = Some c" and "setpoint_bounds c = (lo, hi)"
  shows "climate_ok (c\<lparr>cl_target := clamp_ordered (cl_target c) lo hi\<rparr>)"
  using parsed_climate [OF assms(1)] clamp_between [of lo hi "cl_target c"] assms(2)
  by (simp add: climate_ok_def)

lemma ok_climate: "ha_ok h st \<Longrightarrow> climate_ok c \<Longrightarrow> ha_ok h (st\<lparr>climate := Some c\<rparr>)"
  by (simp add: ha_ok_def weak_ok_def rows_ok_def)

lemma ok_no_climate: "ha_ok h st \<Longrightarrow> ha_ok h (st\<lparr>climate := None\<rparr>)"
  by (simp add: ha_ok_def weak_ok_def rows_ok_def)

lemma climate_of: "ha_ok h st \<Longrightarrow> climate st = Some c \<Longrightarrow> climate_ok c"
  by (simp add: ha_ok_def weak_ok_def)

lemma climate_open_keeps [keeps_intro]: "keeps (ha_ok h) (climate_open h e)"
  unfolding climate_open_def Let_def
  by (intro keeps_intro) (auto intro: ok_climate opened_climate)

lemma climate_close_keeps [keeps_intro]:
  "keeps (ha_ok h) (climate_close h)" "keeps (ha_ok h) (climate_commit h)"
proof -
  show c: "keeps (ha_ok h) (climate_close h)" unfolding climate_close_def by (intro keeps_intro) (simp add: ok_no_climate)
  show "keeps (ha_ok h) (climate_commit h)" unfolding climate_commit_def by (intro keeps_intro c)
qed

lemma picked_mode:
  assumes "climate_ok c" and "n < 3" and "cl_slots c ! n = Some m"
  shows "climate_ok (c\<lparr>cl_mode := m\<rparr>)"
  using assms nth_mem [of n "cl_slots c"] by (auto simp: climate_ok_def)

lemma picked_fan: "climate_ok c \<Longrightarrow> cl_fans c \<noteq> [] \<Longrightarrow> climate_ok (c\<lparr>cl_fan := Some (next_fan c)\<rparr>)"
  by (simp add: climate_ok_def next_fan_def Let_def)

lemma climate_key_keeps [keeps_intro]: "keeps (ha_ok h) (climate_handle_key h key)"
proof (rule keepsI)
  fix st x t
  assume ok: "ha_ok h st" and run: "run_state (climate_handle_key h key) st = (x, t)"
  have render: "keeps (ha_ok h) (climate_render h)" by (intro keeps_intro)
  show "ha_ok h t"
  proof (cases "climate st")
    case None
    then show ?thesis using ok run by (simp add: climate_handle_key_def)
  next
    case (Some c)
    have mode: "ha_ok h (case cl_slots c ! (key - 49) of Some mode \<Rightarrow> st\<lparr>climate := Some (c\<lparr>cl_mode := mode\<rparr>)\<rparr> | None \<Rightarrow> st)"
      if "key \<in> {49, 50, 51}"
      using that picked_mode [OF climate_of [OF ok Some], of "key - 49"] ok
      by (auto intro!: ok_climate split: option.split)
    consider "key \<in> {49, 50, 51}" | "key = 53" "cl_fans c \<noteq> []" | "key = 89" | "key = 78" | "t = st"
      using run Some by (auto simp: climate_handle_key_def split: if_splits)
    then show ?thesis
    proof cases
      case 1
      then show ?thesis
        using run Some keepsD [OF render _ mode] by (auto simp: climate_handle_key_def)
    next
      case 2
      then show ?thesis
        using run Some keepsD [OF render _ ok_climate [OF ok picked_fan [OF climate_of [OF ok Some]]]]
        by (auto simp: climate_handle_key_def)
    next
      case 3
      then show ?thesis using run Some keepsD [OF climate_close_keeps(2) _ ok] by (auto simp: climate_handle_key_def)
    next
      case 4
      then show ?thesis using run Some keepsD [OF climate_close_keeps(1) _ ok] by (auto simp: climate_handle_key_def)
    qed (use ok in simp)
  qed
qed

section \<open>Every export keeps the invariant\<close>

lemma toggled_id [simp]: "e_id (toggled e) = e_id e"
  by (simp add: toggled_def)

lemma toggled_ids: "map e_id (es[i := toggled (es ! i)]) = map e_id es"
  by (cases "i < length es") (simp_all add: list_eq_iff_nth_eq nth_list_update)

lemma toggle_ok: "ha_ok h st \<Longrightarrow> ha_ok h (st\<lparr>entities := (entities st)[i := toggled (entities st ! i)]\<rparr>)"
  by (auto simp: ha_ok_def rows_ok_def toggled_ids)

lemma select_keeps [keeps_intro]: "keeps (ha_ok h) (home_handle_select h i)"
  unfolding home_handle_select_def Let_def by (intro keeps_intro) (simp add: toggle_ok)

lemma ctx_pick_keeps [keeps_intro]: "keeps (ha_ok h) (home_ctx_pick h i)"
  unfolding home_ctx_pick_def by (intro keeps_intro) simp_all

lemma remember_keeps [keeps_intro]: "keeps (ha_ok h) (remember i)"
  unfolding remember_def by (intro keeps_intro) simp

lemma weak_removed:
  "weak_ok h st \<Longrightarrow> weak_ok h (st\<lparr>favs := if i < length (favs st) then take i (favs st) @ drop (Suc i) (favs st) else favs st\<rparr>)"
  by (auto simp: weak_ok_def list_all_iff dest: in_set_takeD in_set_dropD)

lemma remove_keeps: "keeps (weak_ok h) (remove_confirmed h)"
  unfolding remove_confirmed_def by (intro keeps_intro) (simp_all only: weak_ok_other weak_removed)

lemma reset_keeps [keeps_intro]: "keeps (ha_ok h) (ha_reset_all h)"
  unfolding ha_reset_all_def
  by (intro keeps_intro) (simp add: ha_ok_def weak_ok_def rows_ok_def browse_ok_def matching_def)

lemma editor_done_keeps [keeps_intro]:
  "(\<And>v. keeps (ha_ok h) (f v)) \<Longrightarrow> keeps (ha_ok h) (editor_done h u f)"
  unfolding editor_done_def by (intro keeps_intro; assumption)

lemma setup_host_keeps [keeps_intro]: "keeps (ha_ok h) (setup_host_done h t)"
  unfolding setup_host_done_def Let_def by (intro keeps_intro) simp

lemma loaded_ids: "f \<in> set (parse_favs raw) \<Longrightarrow> fv_id f \<noteq> []"
  by (auto simp: parse_favs_def parse_fav_line_def map_filter_def Let_def split: if_splits)

text \<open>The calls of the firmware, and their effect on the plugin.\<close>

datatype home_event = Enter | Exit | Action u32 u32 u32

definition home_step :: "('w, 'v) ha_host \<Rightarrow> home_event \<Rightarrow> ('w hst, int) state" where
  "home_step h ev = (case ev of Enter \<Rightarrow> ha_on_enter h | Exit \<Rightarrow> ha_on_exit | Action a i u \<Rightarrow> ha_on_action h a i u)"

lemma action_keeps: "keeps (ha_ok h) (ha_on_action h a i u)"
proof -
  have r: "keeps (ha_ok h) (do { remove_confirmed h; home_render h })"
    by (rule weak_keeps [OF then_render [OF remove_keeps]])
  have n: "keeps (ha_ok h) (do { (if u = 1 then remove_confirmed h else modify (\<lambda>st. st\<lparr>pending_remove := None\<rparr>)); home_render h })"
    by (cases "u = 1") (simp add: r, simp, intro keeps_intro, simp)
  show ?thesis
    unfolding ha_on_action_def by (intro keeps_bind [OF _ keeps_return] keeps_if n keeps_intro)
qed

lemma step_keeps: "keeps (ha_ok h) (home_step h ev)"
proof -
  have "keeps (ha_ok h) (ha_on_enter h)"
  proof (rule keepsI)
    fix st x t
    assume ok: "ha_ok h st" and run: "run_state (ha_on_enter h) st = (x, t)"
    let ?st = "st\<lparr>favs := parse_favs (or_empty (nvs_get_str (hs h) NVS_FAVS 4096 (world st)))\<rparr>"
    have "weak_ok h ?st" using ok by (simp add: ha_ok_def weak_ok_def list_all_iff loaded_ids)
    moreover have "run_state (home_render h) ?st = ((), t)"
      using run by (auto simp: ha_on_enter_def favs_load_def split: prod.splits)
    ultimately show "ha_ok h t" using hoareD [OF render_ok] by blast
  qed
  moreover have "keeps (ha_ok h) ha_on_exit"
    unfolding ha_on_exit_def
    by (intro keeps_intro) (simp add: ha_ok_def weak_ok_def rows_ok_def browse_ok_def matching_def)
  ultimately show ?thesis by (cases ev) (simp_all add: home_step_def action_keeps)
qed

definition home_run :: "('w, 'v) ha_host \<Rightarrow> home_event list \<Rightarrow> 'w hst \<Rightarrow> 'w hst" where
  "home_run h evs st = fold (\<lambda>ev st. snd (run_state (home_step h ev) st)) evs st"

lemma run_keeps: "(\<And>ev. keeps I (home_step h ev)) \<Longrightarrow> I st \<Longrightarrow> I (home_run h evs st)"
  unfolding home_run_def by (induction evs arbitrary: st) (simp_all add: keeps_def)

end
