(* ===== verification/Home_World.thy ===== *)
theory Home_World
  imports Home_Laws Sdk_Http_Laws
begin

text \<open>
  What the Home Assistant plugin does to the firmware. The locale \<open>world_inv\<close> proves once that
  a property of the firmware closed under the plugin's calls is kept by every export; \<open>home_world\<close>
  states that requests and views leave the storage alone. They are interpreted for the HTTP
  handles, for the saved https flag, and for a host without a network.
\<close>

section \<open>Properties of the firmware\<close>

lemma keys_differ [simp]:
  "NVS_HOST \<noteq> NVS_HTTPS" "NVS_HA_PORT \<noteq> NVS_HTTPS" "NVS_FAVS \<noteq> NVS_HTTPS" "NVS_HOST \<noteq> NVS_HA_PORT"
  "NVS_HA_PORT \<noteq> NVS_HOST" "NVS_HTTPS \<noteq> NVS_HOST" "NVS_HTTPS \<noteq> NVS_HA_PORT"
  by (simp_all add: NVS_HOST_def NVS_HA_PORT_def NVS_HTTPS_def NVS_FAVS_def)

text \<open>\<open>lax\<close> says that the property also survives the two confirmed actions that weaken the
  setup: falling back to plain HTTP, and the reset.\<close>

locale world_inv =
  fixes h :: "('w, 'v) ha_host" and W :: "'w \<Rightarrow> bool" and lax :: bool
  assumes get: "keeps (\<lambda>st. W (world st)) (http_get h p)"
    and post: "keeps (\<lambda>st. W (world st)) (http_post h p b)"
    and template: "keeps (\<lambda>st. W (world st)) (fetch_template_all h)"
    and probe: "keeps (\<lambda>st. W (world st)) (probe_url h url)"
    and ui_call: "W w \<Longrightarrow> W (host_ui h c w)"
    and text_in: "keeps W (sdk_consume_input_text (host_input_text h) n)"
    and int_in: "keeps W (consume_input_int (host_input_int h))"
    and set_str: "k \<noteq> NVS_HTTPS \<Longrightarrow> W w \<Longrightarrow> W (snd (nvs_set_str (hs h) k s w))"
    and put: "W w \<Longrightarrow> W (snd (rmem_write (hs h) slot bs w))"
    and flag: "yes \<or> lax \<Longrightarrow> W w \<Longrightarrow> W (snd (nvs_set_u32 (hs h) NVS_HTTPS (if yes then 1 else 0) w))"
    and erase: "lax \<Longrightarrow> W w \<Longrightarrow> W (snd (nvs_erase (hs h) k w))"
    and rmem_erase: "lax \<Longrightarrow> W w \<Longrightarrow> W (snd (rmem_erase (hs h) slot w))"
begin

abbreviation kept :: "('w hst, 'r) state \<Rightarrow> bool" where
  "kept m \<equiv> keeps (\<lambda>st. W (world st)) m"

lemma kept_onW: "keeps W m \<Longrightarrow> kept (onW m)"
  by (simp add: keeps_def)

lemma kept_modify: "(\<And>st. world (f st) = world st) \<Longrightarrow> kept (modify f)"
  by (simp add: keeps_def)

lemma kept_store: "(\<And>w. W w \<Longrightarrow> W (f w)) \<Longrightarrow> kept (storeM f)"
  by (simp add: keeps_def)

lemma kept_ui: "kept (ui h cs)" "kept (toast h k i d)"
proof -
  have "W w \<Longrightarrow> W (fold (host_ui h) cs w)" for cs w by (induction cs arbitrary: w) (simp_all add: ui_call)
  then show "kept (ui h cs)" "kept (toast h k i d)" by (simp_all add: keeps_def toast_def)
qed

lemmas kept_intro = get post template probe kept_ui kept_onW kept_modify kept_store text_in int_in set_str put
  keeps_return keeps_gets keeps_bind keeps_if keeps_when keeps_option keeps_sum keeps_prod

lemma kept_calls: "kept (fetch_one h i)" "kept (call_service h d v i x)" "kept (favs_save h)" "kept (favs_load h)"
  unfolding fetch_one_def call_service_def favs_save_def favs_load_def
  by (intro kept_intro; simp add: keeps_def set_str)+

lemma kept_call_all: "kept (call_all h i cs)"
  by (induction cs) (auto intro!: kept_intro kept_calls)

lemma kept_rows: "kept (fetch_rows h fs r a)"
proof (induction fs arbitrary: r a)
  case (Cons f fs)
  show ?case unfolding fetch_rows.simps by (intro kept_intro kept_calls Cons.IH; simp)
qed (simp add: keeps_return)

lemma kept_render: "kept (home_render h)" "kept (home_redraw_only h)"
  unfolding home_render_def home_redraw_only_def by (intro kept_intro kept_rows; simp)+

lemma kept_views: "kept (wizard_start h)" "kept (wizard_step_token h)" "kept (browse_rebuild_visible h)"
  "kept (browse_render h)" "kept (climate_render h)" "kept (browse_open_filter_menu h)" "kept (home_open_menu h)"
  "kept (input_text h n)" "kept (input_int h)" "kept (select_entity e)" "kept (remember i)"
  unfolding wizard_start_def wizard_step_token_def browse_rebuild_visible_def browse_render_def climate_render_def
    browse_open_filter_menu_def home_open_menu_def input_text_def input_int_def select_entity_def remember_def Let_def
  by (intro kept_intro; simp)+

lemma kept_wizard_save: "b \<or> lax \<Longrightarrow> kept (wizard_save h b)"
  unfolding wizard_save_def by (intro kept_intro kept_views kept_render; simp add: flag)

lemma kept_wizard: "kept (wizard_finalize_with_probe h)" "lax \<Longrightarrow> kept (wizard_probe_http h)"
  unfolding wizard_finalize_with_probe_def wizard_probe_http_def
  by (intro kept_intro kept_wizard_save kept_render; simp)+

lemma kept_editors: "kept (light_brightness_start h e)" "kept (light_brightness_done h v)"
  "kept (light_color_start h e)" "kept (light_color_done h p)" "kept (cover_position_start h e)"
  "kept (cover_position_done h v)"
  unfolding light_brightness_start_def light_brightness_done_def light_color_start_def light_color_done_def
    cover_position_start_def cover_position_done_def service_done_def Let_def
  by (intro kept_intro kept_views kept_calls kept_render)+

lemma kept_browse: "kept (browse_open h)" "kept (browse_select h i)" "kept (browse_filter_pick h i)"
  "kept (browse_search_done h x)"
  unfolding browse_open_def browse_select_def browse_filter_pick_def browse_search_done_def Let_def
  by (intro kept_intro kept_views kept_calls kept_render; simp split: option.split)+

lemma kept_climate: "kept (climate_open h e)" "kept (climate_close h)" "kept (climate_commit h)"
  "kept (climate_handle_key h k)"
proof -
  show o: "kept (climate_open h e)"
    unfolding climate_open_def Let_def by (intro kept_intro kept_views; simp)
  show c: "kept (climate_close h)" unfolding climate_close_def by (intro kept_intro kept_render; simp)
  show m: "kept (climate_commit h)" unfolding climate_commit_def by (intro kept_intro c kept_call_all)
  show "kept (climate_handle_key h k)"
    unfolding climate_handle_key_def by (intro kept_intro kept_views c m; simp split: option.split)
qed

lemma kept_home: "kept (home_handle_select h i)" "kept (home_ctx_pick h x)" "kept (setup_host_done h t)"
  "kept (setup_token_done h t)" "kept (remove_confirmed h)" "(\<And>v. kept (f v)) \<Longrightarrow> kept (editor_done h u f)"
  unfolding home_handle_select_def home_ctx_pick_def setup_host_done_def setup_token_done_def remove_confirmed_def
    editor_done_def Let_def
  by (intro kept_intro kept_views kept_calls kept_render kept_climate kept_editors kept_browse kept_wizard;
      (simp add: keeps_def put)?)+

lemma kept_reset: "lax \<Longrightarrow> kept (ha_reset_all h)"
  unfolding ha_reset_all_def by (intro kept_intro; simp add: erase rmem_erase)

text \<open>The exports, with the two confirmations only for lax properties.\<close>

lemma kept_action:
  assumes "lax \<or> \<not> (u = 1 \<and> (a = ACT_SETUP_HTTP_CONFIRM \<or> a = ACT_RESET_CONFIRM))"
  shows "kept (ha_on_action h a i u)"
proof -
  have c: "kept (if u = 1 then wizard_probe_http h else home_render h)" if "a = ACT_SETUP_HTTP_CONFIRM"
    using assms that kept_wizard(2) kept_render(1) by auto
  have r: "kept (if u = 1 then do { ha_reset_all h; toast h ''reset_done'' UI_ICON_SUCCESS 1000 } else ret ())"
    if "a = ACT_RESET_CONFIRM"
    using assms that kept_reset by (auto intro!: kept_intro)
  show ?thesis
    unfolding ha_on_action_def
    by (intro keeps_bind [OF _ keeps_return] keeps_if c keeps_bind [OF r] kept_intro kept_home kept_views kept_calls
        kept_render kept_climate kept_editors kept_browse; simp)
qed

lemma kept_step:
  assumes "lax \<or> (\<forall>a i. ev \<noteq> Action a i 1 \<or> (a \<noteq> ACT_SETUP_HTTP_CONFIRM \<and> a \<noteq> ACT_RESET_CONFIRM))"
  shows "kept (home_step h ev)"
proof (cases ev)
  case (Action a i u)
  then show ?thesis using assms kept_action [of u a i] by (auto simp: home_step_def)
qed (simp_all add: home_step_def ha_on_enter_def ha_on_exit_def keeps_bind kept_calls kept_render kept_modify keeps_return)

end

lemma keeps_onW: "keeps W m \<Longrightarrow> keeps (\<lambda>st. W (world st)) (onW m)"
  by (simp add: keeps_def)

lemma requests_kept:
  assumes "http_closed (hh h) W"
  shows "keeps (\<lambda>st. W (world st)) (http_get h p)" "keeps (\<lambda>st. W (world st)) (http_post h p b)"
    "keeps (\<lambda>st. W (world st)) (fetch_template_all h)" "keeps (\<lambda>st. W (world st)) (probe_url h url)"
  unfolding http_get_def http_post_def fetch_template_all_def probe_url_def bearer_def
  by (intro keeps_intro keeps_onW closed_requests [OF assms])+

section \<open>A host with a log of its HTTP calls\<close>

definition on_fst :: "('w \<Rightarrow> 'r \<times> 'w) \<Rightarrow> 'w logged \<Rightarrow> 'r \<times> 'w logged" where
  "on_fst f wl = (case f (fst wl) of (r, w) \<Rightarrow> (r, (w, snd wl)))"

lemma on_fst_simps [simp]: "snd (snd (on_fst f wl)) = snd wl" "fst (snd (on_fst f wl)) = snd (f (fst wl))"
  "fst (on_fst f wl) = fst (f (fst wl))"
  by (simp_all add: on_fst_def split_beta)

definition logged_store :: "'w store_host \<Rightarrow> 'w logged store_host" where
  "logged_store s = \<lparr>nvs_get_str = \<lambda>k c wl. nvs_get_str s k c (fst wl), nvs_set_str = \<lambda>k v. on_fst (nvs_set_str s k v),
     nvs_get_u32 = \<lambda>k wl. nvs_get_u32 s k (fst wl), nvs_set_u32 = \<lambda>k v. on_fst (nvs_set_u32 s k v),
     nvs_get_blob = \<lambda>k c wl. nvs_get_blob s k c (fst wl), nvs_set_blob = \<lambda>k v. on_fst (nvs_set_blob s k v),
     nvs_erase = \<lambda>k. on_fst (nvs_erase s k), nvs_erase_all = on_fst (nvs_erase_all s),
     rmem_read = \<lambda>n c wl. rmem_read s n c (fst wl), rmem_write = \<lambda>n v. on_fst (rmem_write s n v),
     rmem_erase = \<lambda>n. on_fst (rmem_erase s n), random_fill = \<lambda>n. on_fst (random_fill s n),
     sha256 = sha256 s, aes_gcm_encrypt = aes_gcm_encrypt s, aes_gcm_decrypt = aes_gcm_decrypt s\<rparr>"

definition logged_host :: "('w, 'v) ha_host \<Rightarrow> ('w logged, 'v) ha_host" where
  "logged_host h = \<lparr>hh = traced (hh h), hs = logged_store (hs h), hj = hj h,
     host_ui = \<lambda>c wl. (host_ui h c (fst wl), snd wl),
     host_input_text = \<lambda>n. on_fst (host_input_text h n), host_input_int = on_fst (host_input_int h),
     host_get_value = \<lambda>i wl. host_get_value h i (fst wl), host_body_size = \<lambda>wl. host_body_size h (fst wl),
     tr_key = tr_key h, tr_core = tr_core h, tr_meta = tr_meta h, lower = lower h\<rparr>"

lemma logged_simps [simp]:
  "hh (logged_host h) = traced (hh h)" "hs (logged_host h) = logged_store (hs h)"
  "host_ui (logged_host h) c wl = (host_ui h c (fst wl), snd wl)"
  "host_input_text (logged_host h) n = on_fst (host_input_text h n)"
  "host_input_int (logged_host h) = on_fst (host_input_int h)"
  "nvs_set_str (logged_store s) k v = on_fst (nvs_set_str s k v)"
  "nvs_set_u32 (logged_store s) k x = on_fst (nvs_set_u32 s k x)"
  "nvs_erase (logged_store s) k = on_fst (nvs_erase s k)"
  "rmem_write (logged_store s) slot bs = on_fst (rmem_write s slot bs)"
  "rmem_erase (logged_store s) slot = on_fst (rmem_erase s slot)"
  "nvs_get_str (logged_store s) k cp wl = nvs_get_str s k cp (fst wl)"
  "nvs_get_u32 (logged_store s) k wl = nvs_get_u32 s k (fst wl)"
  "rmem_read (logged_store s) slot cp wl = rmem_read s slot cp (fst wl)"
  by (simp_all add: logged_host_def logged_store_def)

lemma keeps_on_fst: "keeps (\<lambda>wl. Q (snd wl)) (State (on_fst f))"
  by (simp add: keeps_def)

lemma logged_inputs:
  "keeps (log_inv P os) (sdk_consume_input_text (host_input_text (logged_host h)) n)"
  "keeps (log_inv P os) (consume_input_int (host_input_int (logged_host h)))"
  unfolding sdk_consume_input_text_def consume_input_int_def Let_def
  by (intro keeps_intro; simp add: keeps_def log_inv_def)+

text \<open>The requests of the plugin on a logged host, for calls that a client may make: every URL under
  \<open>base\<close>, the bearer token, and headers without credentials.\<close>

lemma plugin_requests:
  assumes "permits P" and "\<And>m url r. P (Ev_open m url r)" and "\<And>r k v. P (Ev_header r k v)"
  shows "keeps (\<lambda>st. log_inv P os (world st)) (http_get (logged_host h) p)"
    "keeps (\<lambda>st. log_inv P os (world st)) (http_post (logged_host h) p b)"
    "keeps (\<lambda>st. log_inv P os (world st)) (fetch_template_all (logged_host h))"
    "keeps (\<lambda>st. log_inv P os (world st)) (probe_url (logged_host h) url)"
  unfolding http_get_def http_post_def fetch_template_all_def probe_url_def bearer_def logged_simps
  by (intro keeps_intro keeps_onW with_request_logged header_logged body_logged perform_logged read_logged assms)+

interpretation handles: world_inv "logged_host h" "log_inv (\<lambda>_. True) os" True
proof -
  have p: "permits (\<lambda>_. True)" by (simp add: permits_def)
  show "world_inv (logged_host h) (log_inv (\<lambda>_. True) os) True"
    by unfold_locales (simp_all only: plugin_requests [OF p] logged_inputs, simp_all add: log_inv_def)
qed

section \<open>Storage is left alone by requests and views\<close>

definition unchanged :: "('w, 'v) ha_host \<Rightarrow> 'w \<Rightarrow> 'w \<Rightarrow> bool" where
  "unchanged h w w' \<longleftrightarrow> same_slots (hs h) w w' \<and> same_nvs (hs h) {} w w'"

lemma unchanged_refl: "unchanged h w w"
  by (simp add: unchanged_def same_slots_def same_nvs_def)

lemma unchanged_trans: "unchanged h a b \<Longrightarrow> unchanged h b c \<Longrightarrow> unchanged h a c"
  by (simp add: unchanged_def same_slots_def same_nvs_def)

lemma unchanged_reads:
  assumes "unchanged h w w'"
  shows "stored_host h w' = stored_host h w" "stored_port h w' = stored_port h w"
    "stored_https h w' = stored_https h w" "ha_token h w' = ha_token h w"
    "ha_base_url h w' = ha_base_url h w" "configured h w' = configured h w"
proof -
  have r: "nvs_get_str (hs h) k c w' = nvs_get_str (hs h) k c w" "nvs_get_u32 (hs h) k w' = nvs_get_u32 (hs h) k w"
    "rmem_read (hs h) slot c w' = rmem_read (hs h) slot c w" for k c slot
    using assms by (simp_all add: unchanged_def same_slots_def same_nvs_def)
  show "stored_host h w' = stored_host h w" "stored_port h w' = stored_port h w"
    "stored_https h w' = stored_https h w" "ha_token h w' = ha_token h w"
    "ha_base_url h w' = ha_base_url h w" "configured h w' = configured h w"
    by (simp_all only: stored_host_def stored_port_def stored_https_def ha_token_def ha_base_url_def configured_def r)
qed

definition https_flag :: "('w, 'v) ha_host \<Rightarrow> 'w \<Rightarrow> bool" where
  "https_flag h w \<longleftrightarrow> (\<exists>n. nvs_get_u32 (hs h) NVS_HTTPS w = Some n \<and> n \<noteq> 0)"

locale home_world = text_store "hs h" for h :: "('w, 'v) ha_host" +
  assumes http_calls: "http_closed (hh h) (unchanged h w)"
    and ui_calls: "unchanged h w (host_ui h c w)"
    and text_input: "unchanged h w (snd (host_input_text h n w))"
    and int_input: "unchanged h w (snd (host_input_int h w))"
begin

lemma flag_unchanged: "unchanged h w w' \<Longrightarrow> https_flag h w \<Longrightarrow> https_flag h w'"
  by (simp add: https_flag_def unchanged_def same_nvs_def)

lemma flag_frame: "same_nvs (hs h) {k} w w' \<Longrightarrow> k \<noteq> NVS_HTTPS \<Longrightarrow> https_flag h w \<Longrightarrow> https_flag h w'"
  by (simp add: https_flag_def same_nvs_def)

lemma flag_closed: "http_closed (hh h) (https_flag h)"
  unfolding http_closed_def using http_calls unchanged_refl flag_unchanged unfolding http_closed_def by metis

lemma flag_inputs:
  "keeps (https_flag h) (sdk_consume_input_text (host_input_text h) n)" "keeps (https_flag h) (consume_input_int (host_input_int h))"
proof -
  have "keeps (https_flag h) (State (host_input_text h n))" "keeps (https_flag h) (State (host_input_int h))" for n
    by (simp_all add: keeps_def flag_unchanged [OF text_input] flag_unchanged [OF int_input])
  then show "keeps (https_flag h) (sdk_consume_input_text (host_input_text h) n)"
    "keeps (https_flag h) (consume_input_int (host_input_int h))"
    unfolding sdk_consume_input_text_def consume_input_int_def Let_def by (intro keeps_intro; simp)+
qed

lemma flag_written: "https_flag h w \<Longrightarrow> https_flag h (snd (nvs_set_u32 (hs h) NVS_HTTPS 1 w))"
proof -
  assume f: "https_flag h w"
  obtain r w' where u: "nvs_set_u32 (hs h) NVS_HTTPS 1 w = (r, w')" by (rule prod.exhaust)
  show ?thesis
  proof (cases r)
    case (Inl e)
    then show ?thesis using f u set_u32_fail by (auto simp: https_flag_def same_nvs_def)
  next
    case (Inr x)
    then show ?thesis using u set_u32_ok by (fastforce simp: https_flag_def)
  qed
qed

lemma flag_str: "k \<noteq> NVS_HTTPS \<Longrightarrow> https_flag h w \<Longrightarrow> https_flag h (snd (nvs_set_str (hs h) k s w))"
  using set_str_any flag_frame by blast

lemma flag_inv: "world_inv h (https_flag h) False"
proof unfold_locales
  show "https_flag h w \<Longrightarrow> https_flag h (host_ui h c w)" for w c by (rule flag_unchanged [OF ui_calls])
  show "https_flag h w \<Longrightarrow> https_flag h (snd (rmem_write (hs h) slot bs w))" for slot bs w
    using rmem_write_nvs by (cases "rmem_write (hs h) slot bs w") (auto simp: https_flag_def same_nvs_def)
qed (simp_all add: requests_kept [OF flag_closed] flag_inputs flag_str flag_written)

text \<open>What requests and views leave alone.\<close>

lemma quiet_world:
  "keeps (\<lambda>st. unchanged h w (world st)) (http_get h p)" "keeps (\<lambda>st. unchanged h w (world st)) (ui h cs)"
  "keeps (\<lambda>st. unchanged h w (world st)) (toast h k i d)" "keeps (\<lambda>st. unchanged h w (world st)) (probe_url h url)"
proof -
  have "unchanged h w w1 \<Longrightarrow> unchanged h w (fold (host_ui h) cs w1)" for w1 cs
    by (induction cs arbitrary: w1) (simp_all add: unchanged_trans [OF _ ui_calls])
  then show "keeps (\<lambda>st. unchanged h w (world st)) (ui h cs)" "keeps (\<lambda>st. unchanged h w (world st)) (toast h k i d)"
    by (simp_all add: keeps_def toast_def)
qed (rule requests_kept [OF http_calls])+

lemma quiet_rows: "keeps (\<lambda>st. unchanged h w (world st)) (fetch_rows h fs r a)"
proof (induction fs arbitrary: r a)
  case (Cons f fs)
  have o: "keeps (\<lambda>st. unchanged h w (world st)) (fetch_one h i)" for i
    unfolding fetch_one_def by (intro keeps_intro quiet_world)
  show ?case unfolding fetch_rows.simps by (intro keeps_intro o Cons.IH; simp)
qed (simp add: keeps_return)

lemma quiet_render: "keeps (\<lambda>st. unchanged h w (world st)) (home_render h)"
  "keeps (\<lambda>st. unchanged h w (world st)) (wizard_step_token h)"
  unfolding home_render_def wizard_step_token_def by (intro keeps_intro quiet_world quiet_rows; simp)+

text \<open>The three settings of the wizard read back, and the rest of the save leaves them alone.\<close>

lemma saved_settings:
  assumes "nvs_set_str (hs h) NVS_HOST host w = (Inr u1, w1)" and "nvs_set_str (hs h) NVS_HA_PORT port w1 = (Inr u2, w2)"
    and "nvs_set_u32 (hs h) NVS_HTTPS n w2 = (Inr u3, w3)"
    and "valid_ustr host" "length (utf8_encode host) \<le> 200" "valid_ustr port" "length (utf8_encode port) \<le> 16"
  shows "nvs_get_str (hs h) NVS_HOST 200 w3 = Some host" "nvs_get_str (hs h) NVS_HA_PORT 16 w3 = Some port"
    "nvs_get_u32 (hs h) NVS_HTTPS w3 = Some n"
proof -
  have f: "same_nvs (hs h) {NVS_HA_PORT} w1 w2" "same_nvs (hs h) {NVS_HTTPS} w2 w3"
    using set_str_frame [OF assms(2)] set_u32_frame [OF assms(3)] by simp_all
  have "nvs_get_str (hs h) NVS_HOST 200 w1 = Some host" by (rule set_str_ok [OF assms(1,4,5)])
  then show "nvs_get_str (hs h) NVS_HOST 200 w3 = Some host" using f by (simp add: same_nvs_def)
  have "nvs_get_str (hs h) NVS_HA_PORT 16 w2 = Some port" by (rule set_str_ok [OF assms(2,6,7)])
  then show "nvs_get_str (hs h) NVS_HA_PORT 16 w3 = Some port" using f by (simp add: same_nvs_def)
  show "nvs_get_u32 (hs h) NVS_HTTPS w3 = Some n" by (rule set_u32_ok [OF assms(3)])
qed

lemma wizard_save_world:
  assumes "run_state (wizard_save h https) st = (u, st')"
  shows "unchanged h (snd (nvs_set_u32 (hs h) NVS_HTTPS (if https then 1 else 0)
      (snd (nvs_set_str (hs h) NVS_HA_PORT (trim (w_port (wizard st)))
        (snd (nvs_set_str (hs h) NVS_HOST (trim (w_host (wizard st))) (world st))))))) (world st')"
    (is "unchanged h ?w _")
proof -
  have "keeps (\<lambda>st. unchanged h ?w (world st)) (do {
      toast h ''url_saved'' UI_ICON_SUCCESS 1200;
      tok \<leftarrow> gets (\<lambda>st. ha_token h (world st));
      if tok = None then wizard_step_token h else home_render h })"
    by (intro keeps_intro quiet_world quiet_render)
  moreover have "run_state (do {
      toast h ''url_saved'' UI_ICON_SUCCESS 1200;
      tok \<leftarrow> gets (\<lambda>st. ha_token h (world st));
      if tok = None then wizard_step_token h else home_render h }) (st\<lparr>world := ?w\<rparr>) = (u, st')"
    using assms by (simp add: wizard_save_def cong: if_cong split del: if_split)
  ultimately show ?thesis using keepsD unchanged_refl by fastforce
qed

end

sublocale home_world \<subseteq> flag: world_inv h "https_flag h" False
  by (rule flag_inv)

end
