(* ===== verification/Home_Bench.thy ===== *)
theory Home_Bench
  imports Home_World Matrix_Store_Laws
begin

text \<open>
  Laws of the Home Assistant plugin's text formats, and a concrete host for the witnesses: the
  stand-in storage, a network that answers every request with an empty 200, and JSON trees.
\<close>

section \<open>Favorites lines\<close>

definition clean_fav :: "favorite \<Rightarrow> favorite" where
  "clean_fav f = \<lparr>fv_id = favs_field (fv_id f), fv_name = favs_field (fv_name f), fv_domain = fv_domain f\<rparr>"

lemma from_idx_idx [simp]: "from_idx (domain_idx d) = d"
  by (cases d) (simp_all add: from_idx_def)

lemma domain_idx_u8: "domain_idx d < 256"
  by (cases d) simp_all

lemma parse_u8_show [simp]: "n < 256 \<Longrightarrow> parse_u8 (show_nat n) = Some n"
  by (simp add: parse_u8_def parse_u32_show_nat)

lemma digit_plain: "c \<in> set (show_nat n) \<Longrightarrow> c \<noteq> 124 \<and> c \<noteq> 10"
  using show_nat_digits [of n] by (auto simp: list_all_iff is_ascii_digit_def)

lemma field_plain: "c \<in> set (favs_field s) \<Longrightarrow> c \<noteq> 124 \<and> c \<noteq> 10"
  by (auto simp: favs_field_def)

lemma field_nonempty [simp]: "favs_field s = [] \<longleftrightarrow> s = []"
  by (simp add: favs_field_def)

lemma split_fields:
  "split_on (\<lambda>c. c = 124) (favs_field i @ 124 # favs_field n @ 124 # show_nat d) = [favs_field i, favs_field n, show_nat d]"
  by (simp add: split_on_append field_plain split_on_id digit_plain)

lemma parse_fav_back:
  "fv_id f \<noteq> [] \<Longrightarrow>
   parse_fav_line (favs_field (fv_id f) @ 124 # favs_field (fv_name f) @ 124 # show_nat (domain_idx (fv_domain f)))
     = Some (clean_fav f)"
  by (simp add: parse_fav_line_def split_fields piece_def clean_fav_def domain_idx_u8)

lemma parse_render_favs:
  "list_all (\<lambda>f. fv_id f \<noteq> []) fs \<Longrightarrow> parse_favs (render_favs fs) = map clean_fav fs"
proof (induction fs)
  case Nil
  then show ?case by (simp add: parse_favs_def render_favs_def map_filter_simps)
next
  case (Cons f fs)
  let ?l = "favs_field (fv_id f) @ 124 # favs_field (fv_name f) @ 124 # show_nat (domain_idx (fv_domain f))"
  have "render_favs (f # fs) = ?l @ 10 # render_favs fs" by (simp add: render_favs_def)
  moreover have "split_on (\<lambda>c. c = 10) (?l @ 10 # render_favs fs) = ?l # split_on (\<lambda>c. c = 10) (render_favs fs)"
    by (rule split_on_append) (auto dest: field_plain digit_plain)
  ultimately have "parse_favs (render_favs (f # fs)) = List.map_filter parse_fav_line [?l] @ parse_favs (render_favs fs)"
    using Cons.prems by (simp add: parse_favs_def map_filter_simps split: option.split)
  then show ?case using Cons by (simp add: parse_fav_back map_filter_simps)
qed

section \<open>The saved server address\<close>

lemma trim_idem [simp]: "trim (trim s) = trim s"
proof -
  have d: "dropWhile p (dropWhile p xs) = dropWhile p xs" for p and xs :: "nat list" by (induction xs) auto
  have e: "dropWhile p (rev (dropWhile p (rev (dropWhile p s)))) = rev (dropWhile p (rev (dropWhile p s)))" for p :: "nat \<Rightarrow> bool"
  proof (cases "dropWhile p s")
    case (Cons x xs)
    then have "\<not> p x" by (metis dropWhile_eq_Cons_conv)
    then obtain ys where "dropWhile p (rev (x # xs)) = ys @ [x]"
      by (cases "\<forall>y\<in>set xs. p y") (auto simp: dropWhile_append)
    then show ?thesis using Cons \<open>\<not> p x\<close> by simp
  next
    case Nil
    show ?thesis unfolding Nil by simp
  qed
  show ?thesis unfolding trim_def trim_end_matches_def trim_start_matches_def by (simp add: e d)
qed

lemma trim_Nil [simp]: "trim [] = []"
  by (simp add: trim_def trim_end_matches_def trim_start_matches_def)

lemma set_trim: "set (trim s) \<subseteq> set s"
  unfolding trim_def trim_end_matches_def trim_start_matches_def
  by (auto dest!: set_dropWhileD)

lemma parsed_host:
  assumes "parse_host_from_url raw = (host, sec, p)"
  shows "trim host = host" "47 \<notin> set host" "58 \<notin> set host" "port = or_empty p \<Longrightarrow> trim port = port"
proof -
  let ?r = "(case strip_prefix (lit ''https://'') (trim raw) of Some r \<Rightarrow> (r, True)
     | None \<Rightarrow> (case strip_prefix (lit ''http://'') (trim raw) of Some r \<Rightarrow> (r, False) | None \<Rightarrow> (trim raw, False)))"
  let ?hp = "hd (split_on (\<lambda>c. c = 47) (fst ?r))"
  have h: "host = trim (hd (split_on (\<lambda>c. c = 58) ?hp))"
    and p: "p = (case tl (split_on (\<lambda>c. c = 58) ?hp) of p # _ \<Rightarrow> Some (trim p) | [] \<Rightarrow> None)"
    using assms by (simp_all add: parse_host_from_url_def Let_def split_beta)
  show "trim host = host" using h by simp
  have "set host \<subseteq> set (takeWhile (\<lambda>c. c \<noteq> 58) (takeWhile (\<lambda>c. c \<noteq> 47) (fst ?r)))"
    using set_trim h by (simp add: hd_split_on)
  then show "47 \<notin> set host" "58 \<notin> set host" by (auto dest!: set_takeWhileD)
  show "port = or_empty p \<Longrightarrow> trim port = port"
    using p by (auto split: list.splits)
qed

lemma no_scheme: "58 \<notin> set s \<Longrightarrow> strip_prefix (lit ''https://'') s = None \<and> strip_prefix (lit ''http://'') s = None"
proof -
  assume n: "58 \<notin> set s"
  have "strip_prefix p s = None" if "58 \<in> set p" for p
    using n that by (auto simp: strip_prefix_def starts_with_iff)
  then show ?thesis by (simp add: lit_def)
qed

text \<open>A host name is its own address.\<close>

lemma parse_host_again:
  assumes "trim host = host" and "47 \<notin> set host" and "58 \<notin> set host"
  shows "parse_host_from_url host = (host, False, None)"
proof -
  have "split_on (\<lambda>c. c = 47) host = [host]" "split_on (\<lambda>c. c = 58) host = [host]"
    using assms by (auto intro: split_on_id)
  then show ?thesis using assms no_scheme [OF assms(3)] by (simp add: parse_host_from_url_def Let_def)
qed

section \<open>Numbers in text\<close>

text \<open>The value of a JSON decimal with an optional sign and a fraction.\<close>

definition decimal_value :: "ustr \<Rightarrow> rat option" where
  "decimal_value s =
    (let neg = (s \<noteq> [] \<and> hd s = 45);
         r = (if neg then tl s else s)
     in case split_first 46 r of
          Some (a, b) \<Rightarrow>
            if a \<noteq> [] \<and> b \<noteq> [] \<and> list_all is_ascii_digit (a @ b)
            then Some ((if neg then -1 else 1) * of_nat (digits_value (a @ b)) / 10 ^ length b) else None
        | None \<Rightarrow> None)"

lemma digit_char: "k < 10 \<Longrightarrow> show_nat k = [48 + k]"
  by (simp add: show_nat.simps)

lemma split_at_dot:
  "split_first 46 (show_nat n @ 46 # s) = Some (show_nat n, s)"
proof -
  have "\<forall>c \<in> set (show_nat n). c \<noteq> 46" using show_nat_digits [of n] by (auto simp: list_all_iff is_ascii_digit_def)
  then show ?thesis by (auto simp: split_first_def takeWhile_append dropWhile_append)
qed

lemma hd_show_nat: "hd (show_nat n @ s) \<noteq> 45"
  using show_nat_digits [of n] by (cases "show_nat n") (auto simp: is_ascii_digit_def)

lemma decimal_shown:
  assumes "k < 10"
  shows "decimal_value (show_nat n @ 46 # show_nat k) = Some (of_nat (10 * n + k) / 10)"
    "decimal_value (45 # show_nat n @ 46 # show_nat k) = Some (- (of_nat (10 * n + k) / 10))"
proof -
  have d: "list_all is_ascii_digit (show_nat n @ [48 + k])" "digits_value (show_nat n @ [48 + k]) = 10 * n + k"
    using show_nat_digits [of n] assms
    by (simp_all add: is_ascii_digit_def digits_value_append digits_value_show_nat)
  show "decimal_value (show_nat n @ 46 # show_nat k) = Some (of_nat (10 * n + k) / 10)"
    using d hd_show_nat [of n "46 # show_nat k"] assms
    by (simp add: decimal_value_def Let_def split_at_dot digit_char)
  show "decimal_value (45 # show_nat n @ 46 # show_nat k) = Some (- (of_nat (10 * n + k) / 10))"
    using d assms by (simp add: decimal_value_def Let_def split_at_dot digit_char field_simps)
qed

section \<open>Removal of a favorite\<close>

lemma removed_favs:
  assumes "run_state (remove_confirmed h) st = (v, st')" and "pending_remove st = Some i"
  shows "favs st' = (if i < length (favs st) then take i (favs st) @ drop (Suc i) (favs st) else favs st)"
proof -
  let ?fs = "if i < length (favs st) then take i (favs st) @ drop (Suc i) (favs st) else favs st"
  let ?st = "st\<lparr>pending_remove := None, favs := ?fs, selected := None\<rparr>"
  have "keeps (at_statics (statics ?st)) (do { saved \<leftarrow> favs_save h; whenM saved (toast h ''removed'' UI_ICON_SUCCESS 800) })"
    by (intro keeps_intro)
  moreover have "run_state (do { saved \<leftarrow> favs_save h; whenM saved (toast h ''removed'' UI_ICON_SUCCESS 800) }) ?st = (v, st')"
    using assms by (simp add: remove_confirmed_def cong: if_cong split del: if_split)
  ultimately have "statics st' = statics ?st" using keepsD by fastforce
  then have "favs st' = favs ?st" by (rule statics_sel(1))
  then show ?thesis by simp
qed

lemma same_position:
  "map e_id es = map fv_id fs \<Longrightarrow>
   length (takeWhile (\<lambda>e. e_id e \<noteq> i) es) = length (takeWhile (\<lambda>f. fv_id f \<noteq> i) fs)"
proof (induction es arbitrary: fs)
  case (Cons e es)
  then show ?case by (cases fs) auto
qed simp

section \<open>A concrete host\<close>

datatype doc = Num rat | Str ustr | Seq "doc list" | Map "(ustr \<times> doc) list"

text \<open>A JSON library that reads every text as the document \<open>d\<close>.\<close>

definition doc_serde :: "doc \<Rightarrow> doc serde" where
  "doc_serde d = \<lparr>from_str = \<lambda>s. Some d,
     jget = \<lambda>v k. (case v of Map kvs \<Rightarrow> map_of kvs k | _ \<Rightarrow> None),
     as_str = \<lambda>v. (case v of Str s \<Rightarrow> Some s | _ \<Rightarrow> None),
     as_array = \<lambda>v. (case v of Seq vs \<Rightarrow> Some vs | _ \<Rightarrow> None),
     as_object = \<lambda>v. (case v of Map kvs \<Rightarrow> Some kvs | _ \<Rightarrow> None),
     as_u64 = \<lambda>v. (case v of Num q \<Rightarrow> if q \<ge> 0 \<and> of_int \<lfloor>q\<rfloor> = q then Some (of_int \<lfloor>q\<rfloor>) else None | _ \<Rightarrow> None),
     as_f64 = \<lambda>v. (case v of Num q \<Rightarrow> Some (f64_round q) | _ \<Rightarrow> None)\<rparr>"

lemma doc_serde_simps [simp]:
  "from_str (doc_serde d) s = Some d" "jget (doc_serde d) (Map kvs) k = map_of kvs k"
  "as_str (doc_serde d) (Str s) = Some s" "as_str (doc_serde d) (Num q) = None"
  "as_f64 (doc_serde d) (Num q) = Some (f64_round q)"
  "as_array (doc_serde d) (Seq vs) = Some vs"
  by (simp_all add: doc_serde_def)

text \<open>Every request is answered with status 200 and an empty body.\<close>

definition steady_http :: "'w http_host" where
  "steady_http = \<lparr>
     host_http_open = \<lambda>m url t w. (1, w),
     host_http_set_header = \<lambda>r k v w. (0, w),
     host_http_set_body = \<lambda>r b w. (0, w),
     host_http_perform = \<lambda>r w. (0, w),
     host_http_status = \<lambda>r w. (200, w),
     host_http_read_chunk = \<lambda>r n w. (Inr [], w),
     host_http_close = \<lambda>r w. (0, w)\<rparr>"

definition plain_store :: "stub store_host" where
  "plain_store = stub_host Inr (\<lambda>key iv aad p. Inr (p, [])) (\<lambda>key iv aad ct tag. Inr ct)"

definition demo_home :: "doc \<Rightarrow> (stub, doc) ha_host" where
  "demo_home d = \<lparr>hh = steady_http, hs = plain_store, hj = doc_serde d, host_ui = \<lambda>c w. w,
     host_input_text = \<lambda>n w. ((0, []), w), host_input_int = \<lambda>w. ((1, 0), w), host_get_value = \<lambda>i w. (1, 0),
     host_body_size = \<lambda>w. (296, 100), tr_key = lit, tr_core = lit, tr_meta = lit, lower = to_ascii_lowercase\<rparr>"

lemma demo_home_simps [simp]:
  "hh (demo_home d) = steady_http" "hs (demo_home d) = plain_store" "hj (demo_home d) = doc_serde d"
  "host_ui (demo_home d) c w = w" "host_input_text (demo_home d) n w = ((0, []), w)"
  "host_input_int (demo_home d) w = ((1, 0), w)" "tr_key (demo_home d) = lit"
  by (simp_all add: demo_home_def)

lemma plain_store_simps [simp]:
  "nvs_set_str plain_store = stub_set_str" "nvs_get_str plain_store = stub_get_str"
  "nvs_set_u32 plain_store = stub_set_u32" "nvs_get_u32 plain_store = stub_get_u32"
  "rmem_read plain_store = stub_rmem_read" "rmem_write plain_store = stub_rmem_write"
  by (simp_all add: plain_store_def)

interpretation plain: text_store plain_store
  unfolding plain_store_def by (rule stub_text.text_store_axioms)

lemma steady_closed: "http_closed steady_http W"
  by (simp add: http_closed_def steady_http_def)

interpretation demo_home: home_world "demo_home d"
proof (rule home_world.intro)
  show "text_store (hs (demo_home d))" by (simp add: plain.text_store_axioms)
  show "home_world_axioms (demo_home d)" by (simp add: home_world_axioms_def steady_closed unchanged_refl)
qed

definition blank :: stub where
  "blank = \<lparr>stub_nvs = Map.empty, stub_rmem = Map.empty\<rparr>"

text \<open>A badge that was set up: the server is \<open>H\<close>, the token \<open>T\<close>.\<close>

definition joined :: stub where
  "joined = blank\<lparr>stub_nvs := [NVS_HOST \<mapsto> [72]], stub_rmem := [TOKEN_NAME \<mapsto> [84]]\<rparr>"

lemma joined_settings [simp]:
  "stub_get_str NVS_HOST n joined = (if n < 1 then None else Some [72])" "stub_get_str NVS_HA_PORT n joined = None"
  "stub_get_u32 NVS_HTTPS joined = None" "stub_rmem_read TOKEN_NAME 320 joined = Inr [84]"
  by (simp_all add: joined_def blank_def stub_get_str_def stub_get_u32_def stub_rmem_read_def slot_name_ok_def
    NVS_HOST_def NVS_HA_PORT_def NVS_HTTPS_def TOKEN_NAME_def RMEM_NAME_MAX_def copy_out_def)

lemma joined_parse: "parse_host_from_url [72] = ([72], False, None)" "trim [72] = [72]" "trim [84] = [84]" "trim [] = []"
  "trim_end_matches (\<lambda>c. c = 0) [84 :: nat] = [84]"
  by (simp_all add: parse_host_from_url_def trim_def trim_end_matches_def trim_start_matches_def is_whitespace_def
    strip_prefix_def starts_with_def lit_def)

lemma joined_reads [simp]:
  "ha_base_url (demo_home d) joined = Some (lit ''http://'' @ [72])" "ha_token (demo_home d) joined = Some [84]"
  "configured (demo_home d) joined"
  by (simp_all add: ha_base_url_def stored_host_def stored_https_def stored_port_def ha_token_def configured_def
    joined_parse Let_def) (simp add: lit_def)

text \<open>It answers a request with the empty body.\<close>

lemma steady_prims:
  "run_state (req_perform steady_http r) w = (Inr 200, w)"
  "run_state (read_to_string_max steady_http r n) w = (Inr [], w)"
  "list_ex (\<lambda>c. c \<in> {13, 10, 58}) k \<or> list_ex (\<lambda>c. c \<in> {13, 10}) v \<or> 0 \<in> set k \<or> 0 \<in> set v
     \<or> run_state (req_header steady_http r k v) w = (Inr (), w)"
  "0 \<notin> set u \<Longrightarrow> run_state (with_request steady_http m u t f body) w = run_state (body 1) w"
  by (simp_all add: steady_http_def check_def req_perform_def read_to_string_max_def read_to_vec_max_def
    read_loop_max.simps req_header_def with_request_def req_open_def split_beta)

lemma demo_get:
  assumes "world st = joined" and "0 \<notin> set p"
  shows "run_state (http_get (demo_home d) p) st = (Some [], st)"
proof -
  have "run_state (bearer (demo_home d) 1 [84]) w = (Inr (), w)" for w :: stub
    using steady_prims(3) [of "lit ''Authorization''" "lit ''Bearer T''" 1 w] by (simp add: bearer_def) (simp add: lit_def)
  moreover have "run_state (req_header steady_http 1 (lit ''Accept'') (lit ''application/json'')) w = (Inr (), w)" for w :: stub
    using steady_prims(3) [of "lit ''Accept''" "lit ''application/json''" 1 w] by (simp add: lit_def)
  moreover have "0 \<notin> set (lit ''http://'')" by (simp add: lit_def)
  ultimately show ?thesis using assms by (simp add: http_get_def steady_prims)
qed

lemma logged_reads:
  "ha_base_url (logged_host h) (w, l) = ha_base_url h w" "ha_token (logged_host h) (w, l) = ha_token h w"
proof -
  have "stored_host (logged_host h) (w, l) = stored_host h w" "stored_port (logged_host h) (w, l) = stored_port h w"
    "stored_https (logged_host h) (w, l) = stored_https h w"
    by (simp_all add: stored_host_def stored_port_def stored_https_def cong: option.case_cong)
  then show "ha_base_url (logged_host h) (w, l) = ha_base_url h w" by (simp only: ha_base_url_def)
  show "ha_token (logged_host h) (w, l) = ha_token h w" by (simp add: ha_token_def)
qed

lemma whole_degrees: "\<bar>k\<bar> < 2 ^ 27 \<Longrightarrow> f64_as_i32 (f64_mul (of_int k) 10) = 10 * k"
  using f64_half_tenths [of "2 * k"] by simp

end
