(* ===== verification/Home_Claims.thy ===== *)
theory Home_Claims
  imports Home_Bench Matrix_Json_Laws
begin

text \<open>Properties of the Home Assistant plugin, with their witnesses.\<close>

section \<open>State\<close>


text \<open>C29: saved favorites load back in order, with their ids and names freed of the characters the line
  format reserves.\<close>
theorem favs_roundtrip:
  assumes "text_store (hs h)" and "list_all (\<lambda>f. fv_id f \<noteq> []) (favs st)" and "valid_ustr (render_favs (favs st))"
    and "length (utf8_encode (render_favs (favs st))) \<le> 4096"
    and "run_state (favs_save h) st = (True, st1)" and "run_state (favs_load h) (st1\<lparr>favs := fs\<rparr>) = (u, st2)"
  shows "favs st2 = map clean_fav (favs st)"
proof -
  obtain r w where s: "nvs_set_str (hs h) NVS_FAVS (render_favs (favs st)) (world st) = (r, w)" by (rule prod.exhaust)
  have "is_ok r" "world st1 = w" using assms(5) s by (auto simp: favs_save_def toast_def split: sum.splits)
  moreover from this obtain x where "r = Inr x" by (cases r) auto
  ultimately have "nvs_get_str (hs h) NVS_FAVS 4096 (world st1) = Some (render_favs (favs st))"
    using text_store.set_str_ok [OF assms(1), of NVS_FAVS _ "world st" x w] s assms(3,4) by simp
  then show ?thesis using assms(6) parse_render_favs [OF assms(2)] by (auto simp: favs_load_def)
qed

theorem favs_roundtrip_witness:
  "\<exists>st1 st2. run_state (favs_save (demo_home (Map []))) ((init_hst blank)\<lparr>favs := [\<lparr>fv_id = lit ''a.b'', fv_name = lit ''x|y'', fv_domain = Cover\<rparr>]\<rparr>)
       = (True, st1)
     \<and> run_state (favs_load (demo_home (Map []))) (st1\<lparr>favs := []\<rparr>) = ((), st2)
     \<and> favs st2 = [\<lparr>fv_id = lit ''a.b'', fv_name = lit ''x_y'', fv_domain = Cover\<rparr>]"
proof -
  let ?f = "\<lparr>fv_id = lit ''a.b'', fv_name = lit ''x|y'', fv_domain = Cover\<rparr>"
  let ?st = "(init_hst blank)\<lparr>favs := [?f]\<rparr>"
  have r: "render_favs [?f] = lit ''a.b|x_y|9'' @ [10]"
    by (simp add: render_favs_def favs_field_def lit_def digit_char)
  obtain st1 where s: "run_state (favs_save (demo_home (Map []))) ?st = (True, st1)"
    by (simp add: favs_save_def stub_set_str_def r) (simp add: lit_def)
  obtain st2 where l: "run_state (favs_load (demo_home (Map []))) (st1\<lparr>favs := []\<rparr>) = ((), st2)" by (simp add: favs_load_def)
  have "favs st2 = map clean_fav (favs ?st)"
    by (rule favs_roundtrip [OF _ _ _ _ s l])
       (simp_all add: plain.text_store_axioms r, simp_all add: lit_def scalar_def utf8_char_def)
  then show ?thesis using s l by (intro exI conjI) (auto simp: clean_fav_def favs_field_def lit_def)
qed

section \<open>Network\<close>

text \<open>Whatever the firmware calls and the network answers, every HTTP handle the plugin opened in an
  export is closed again when the export returns.\<close>
theorem handles_closed:
  "open_handles (snd (world (home_run (logged_host h) evs st))) = open_handles (snd (world st))"
proof -
  have "log_inv (\<lambda>_. True) (open_handles (snd (world st))) (world (home_run (logged_host h) evs st))"
    by (rule run_keeps [OF handles.kept_step]) (simp_all add: log_inv_def list_all_iff)
  then show ?thesis by (simp add: log_inv_def)
qed




section \<open>Setup\<close>

text \<open>C27: once the https flag is stored, no call of the firmware clears it, except the confirmations of
  the plain HTTP fallback and of the reset: the token then only goes over TLS.\<close>
theorem https_kept:
  assumes "home_world h" and "https_flag h (world st)"
    and "\<forall>a i. Action a i 1 \<in> set evs \<longrightarrow> a \<noteq> ACT_SETUP_HTTP_CONFIRM \<and> a \<noteq> ACT_RESET_CONFIRM"
  shows "stored_https h (world (home_run h evs st))"
proof -
  have "https_flag h (world (home_run h evs st))"
    using assms(2,3) unfolding home_run_def
  proof (induction evs arbitrary: st)
    case (Cons ev evs)
    have "keeps (\<lambda>st. https_flag h (world st)) (home_step h ev)"
      by (rule world_inv.kept_step [OF home_world.flag_inv [OF assms(1)]]) (use Cons.prems(2) in auto)
    then have "https_flag h (world (snd (run_state (home_step h ev) st)))"
      using Cons.prems(1) by (simp add: keeps_def)
    moreover have "\<forall>a i. Action a i 1 \<in> set evs \<longrightarrow> a \<noteq> ACT_SETUP_HTTP_CONFIRM \<and> a \<noteq> ACT_RESET_CONFIRM"
      using Cons.prems(2) by simp
    ultimately show ?case using Cons.IH by simp
  qed simp
  then show ?thesis by (auto simp: https_flag_def stored_https_def)
qed

theorem https_kept_witness:
  "stored_https (demo_home (Map [])) (world (home_run (demo_home (Map [])) [Enter, Action ACT_HOME_MENU 0 0, Exit]
     (init_hst (blank\<lparr>stub_nvs := [NVS_HTTPS \<mapsto> [1, 0, 0, 0]]\<rparr>))))"
  by (rule https_kept [OF demo_home.home_world_axioms])
     (auto simp: https_flag_def init_hst_def stub_get_u32_def from_le32_def)

text \<open>C28: when the three settings are stored, the server address the plugin uses afterwards is the one
  that was entered: its host, its port if one was given, and the scheme that answered.\<close>
theorem wizard_roundtrip:
  assumes "home_world h" and "parse_host_from_url raw = (host, sec, p)" and "host \<noteq> []"
    and "valid_ustr host" and "length (utf8_encode host) \<le> 200"
    and "valid_ustr (or_empty p)" and "length (utf8_encode (or_empty p)) \<le> 16"
    and "wizard st = \<lparr>w_host = host, w_port = or_empty p, w_https = sec\<rparr>"
    and "nvs_set_str (hs h) NVS_HOST host (world st) = (Inr u1, w1)"
    and "nvs_set_str (hs h) NVS_HA_PORT (or_empty p) w1 = (Inr u2, w2)"
    and "nvs_set_u32 (hs h) NVS_HTTPS (if https then 1 else 0) w2 = (Inr u3, w3)"
    and "run_state (wizard_save h https) st = (u, st')"
  shows "ha_base_url h (world st') = Some ((if https then lit ''https'' else lit ''http'') @ lit ''://'' @ host
    @ (if or_empty p = [] then [] else lit '':'' @ or_empty p))"
proof -
  note t = parsed_host [OF assms(2)]
  have tp: "trim (or_empty p) = or_empty p" using t(4) by blast
  note r = home_world.saved_settings [OF assms(1,9,10,11,4,5,6,7)]
  have "unchanged h w3 (world st')"
    using home_world.wizard_save_world [OF assms(1,12)] assms(8-11) t(1) tp by simp
  then have "ha_base_url h (world st') = ha_base_url h w3" by (rule unchanged_reads)
  also have "ha_base_url h w3 = Some ((if https then lit ''https'' else lit ''http'') @ lit ''://'' @ host
      @ (if or_empty p = [] then [] else lit '':'' @ or_empty p))"
    using parse_host_again [OF t(1-3)] assms(3) t(1) tp
    by (simp add: ha_base_url_def stored_host_def stored_https_def stored_port_def r)
  finally show ?thesis .
qed

theorem wizard_roundtrip_witness:
  "\<exists>st'. run_state (wizard_save (demo_home (Map [])) True)
        ((init_hst blank)\<lparr>wizard := \<lparr>w_host = lit ''h'', w_port = lit ''8'', w_https = False\<rparr>\<rparr>) = ((), st')
     \<and> ha_base_url (demo_home (Map [])) (world st') = Some (lit ''https://h:8'')"
proof -
  let ?st = "(init_hst blank)\<lparr>wizard := \<lparr>w_host = lit ''h'', w_port = lit ''8'', w_https = False\<rparr>\<rparr>"
  obtain st' where run: "run_state (wizard_save (demo_home (Map [])) True) ?st = ((), st')" by (metis old.unit.exhaust prod.exhaust)
  have p: "parse_host_from_url (lit ''h:8'') = (lit ''h'', False, Some (lit ''8''))"
    by (simp add: parse_host_from_url_def trim_def trim_end_matches_def trim_start_matches_def is_whitespace_def
      strip_prefix_def starts_with_def lit_def)
  have "ha_base_url (demo_home (Map [])) (world st') = Some ((if True then lit ''https'' else lit ''http'') @ lit ''://'' @ lit ''h''
    @ (if or_empty (Some (lit ''8'')) = [] then [] else lit '':'' @ or_empty (Some (lit ''8''))))"
    by (rule wizard_roundtrip [OF demo_home.home_world_axioms p _ _ _ _ _ _ _ _ _ run])
       (simp_all add: stub_set_str_def stub_set_u32_def, simp_all add: lit_def scalar_def utf8_char_def)
  then show ?thesis using run by (auto simp: lit_def)
qed

section \<open>Home view\<close>



text \<open>A confirmed removal deletes the favorite of the selected entity if its row is in the home list;
  if it is not (the list is empty while the setup cannot be read), the first favorite is deleted
  instead.\<close>
theorem remove_selected:
  assumes "ha_ok h st" and "selected st = Some e" and "run_state (home_ctx_pick h CTX_REMOVE) st = (u, st1)"
    and "run_state (remove_confirmed h) st1 = (v, st2)"
  shows "if e_id e \<in> e_id ` set (entities st)
    then (\<exists>before f after. favs st = before @ f # after \<and> fv_id f = e_id e
           \<and> (\<forall>g\<in>set before. fv_id g \<noteq> e_id e) \<and> favs st2 = before @ after)
    else favs st2 = tl (favs st)"
proof -
  let ?i = "selected_index st"
  have st1: "favs st1 = favs st" "pending_remove st1 = Some ?i"
    using assms(2,3) by (auto simp: home_ctx_pick_def CTX_REMOVE_def CTX_BRIGHTNESS_def CTX_COLOR_def
      CTX_COVER_POSITION_def CTX_BROWSE_def CTX_SETUP_def CTX_EDIT_TOKEN_def)
  have st2: "favs st2 = (if ?i < length (favs st) then take ?i (favs st) @ drop (Suc ?i) (favs st) else favs st)"
    by (rule removed_favs [OF assms(4) st1(2), unfolded st1(1)])
  show ?thesis
  proof (cases "e_id e \<in> e_id ` set (entities st)")
    case False
    then have "\<not> list_ex (\<lambda>x. e_id x = e_id e) (entities st)" by (auto simp: list_ex_iff) (metis imageI)
    then have "?i = 0" using assms(2) by (simp add: selected_index_def)
    then show ?thesis using False st2 by (cases "favs st") auto
  next
    case True
    then have "map e_id (entities st) = map fv_id (favs st)"
      using assms(1) by (auto simp: ha_ok_def rows_ok_def)
    then have i: "?i = length (takeWhile (\<lambda>f. fv_id f \<noteq> e_id e) (favs st))"
      and ex: "e_id e \<in> fv_id ` set (favs st)"
      using True assms(2) same_position [of "entities st" "favs st" "e_id e"]
      by (auto simp: selected_index_def list_ex_iff, metis list.set_map)
    obtain f after where d: "dropWhile (\<lambda>f. fv_id f \<noteq> e_id e) (favs st) = f # after"
      using ex by (cases "dropWhile (\<lambda>f. fv_id f \<noteq> e_id e) (favs st)") (auto simp: dropWhile_eq_Nil_conv)
    obtain b where b: "takeWhile (\<lambda>f. fv_id f \<noteq> e_id e) (favs st) = b" by blast
    have f: "favs st = b @ f # after" using d b by (metis takeWhile_dropWhile_id)
    have "fv_id f = e_id e" using d by (simp add: dropWhile_eq_Cons_conv)
    moreover have "favs st2 = b @ after" using st2 unfolding i b by (simp add: f)
    moreover have "\<forall>g\<in>set b. fv_id g \<noteq> e_id e" unfolding b [symmetric] by (auto dest: set_takeWhileD)
    ultimately show ?thesis using True f by auto
  qed
qed

theorem remove_selected_witness:
  "\<exists>st2. run_state (remove_confirmed (demo_home (Map [])))
      (snd (run_state (home_ctx_pick (demo_home (Map [])) CTX_REMOVE)
        ((init_hst blank)\<lparr>favs := [\<lparr>fv_id = [65], fv_name = [], fv_domain = Light\<rparr>],
           selected := Some (placeholder [66] Light)\<rparr>))) = ((), st2)
    \<and> favs st2 = []"
proof -
  let ?st = "(init_hst blank)\<lparr>favs := [\<lparr>fv_id = [65], fv_name = [], fv_domain = Light\<rparr>],
    selected := Some (placeholder [66] Light)\<rparr>"
  obtain u st1 where c: "run_state (home_ctx_pick (demo_home (Map [])) CTX_REMOVE) ?st = (u, st1)" by (rule prod.exhaust)
  obtain v st2 where r: "run_state (remove_confirmed (demo_home (Map []))) st1 = (v, st2)" by (rule prod.exhaust)
  have "ha_ok (demo_home (Map [])) ?st"
    by (simp add: ha_ok_def weak_ok_def rows_ok_def browse_ok_def matching_def init_hst_def browse_new_def)
  from remove_selected [OF this _ c r] have "favs st2 = []" by (simp add: init_hst_def)
  then show ?thesis using c r by auto
qed

section \<open>Thermostats\<close>

text \<open>A setpoint is shown with its value, in tenths, and sent with its value except between -0.9 and
  -0.1 degrees, where the sign is lost.\<close>
theorem setpoint_text:
  assumes "fits32 t" and "t \<noteq> - (2 ^ 31)"
  shows "decimal_value (format_temp t []) = Some (of_int t / 10)
    \<and> decimal_value (sent_temp t) = Some (if -10 < t \<and> t < 0 then - of_int t / 10 else of_int t / 10)"
proof -
  define n k where "n = nat \<bar>t\<bar> div 10" and "k = nat \<bar>t\<bar> mod 10"
  have k: "k < 10" by (simp add: k_def)
  have abs: "\<bar>t\<bar> = int (10 * n + k)" by (simp add: n_def k_def)
  have w: "wrap32 \<bar>t\<bar> = \<bar>t\<bar>" using assms by (intro wrap32_id) auto
  have m: "\<bar>t\<bar> smod 10 = int k" using abs k by (simp add: signed_modulo_int_def sgn_if)
  have q: "t sdiv 10 = (if t < 0 then - int n else int n)"
    using abs k by (auto simp: signed_divide_int_def sgn_if)
  have frac: "nat (wrap32 \<bar>t\<bar> smod 10 mod 2 ^ 32) = k" using w m k by simp
  note dec = decimal_shown [OF k, of n] decimal_shown(1) [OF k, of 0]
  have z: "show_nat 0 = [48]" by (simp add: digit_char)
  have lits: "lit ''.'' = [46]" "lit ''-0.'' = 45 # show_nat 0 @ [46]" by (simp_all add: lit_def z)
  have int: "(of_int t :: rat) = (if t < 0 then - of_nat (10 * n + k) else of_nat (10 * n + k))"
    using abs by (auto simp: abs_if split: if_splits)
  have small: "-10 < t \<longleftrightarrow> n = 0" if "t < 0" using abs k that by auto
  have f: "format_temp t [] = (if t < 0 then 45 # show_nat n @ 46 # show_nat k else show_nat n @ 46 # show_nat k)"
    unfolding format_temp_def Let_def frac q lits by (auto simp: show_int_def)
  have s: "sent_temp t = (if t < 0 \<and> n \<noteq> 0 then 45 # show_nat n @ 46 # show_nat k else show_nat n @ 46 # show_nat k)"
    unfolding sent_temp_def w m q lits by (auto simp: show_int_def)
  have "decimal_value (format_temp t []) = Some (of_int t / 10)"
    using dec by (simp add: f int del: of_nat_add of_nat_mult)
  moreover have "decimal_value (sent_temp t) = Some (if -10 < t \<and> t < 0 then - of_int t / 10 else of_int t / 10)"
    using dec small by (simp add: s int del: of_nat_add of_nat_mult)
  ultimately show ?thesis ..
qed

theorem setpoint_text_witness:
  "decimal_value (format_temp (-5) []) = Some (-1 / 2) \<and> decimal_value (sent_temp (-5)) = Some (1 / 2)"
  using setpoint_text [of "-5"] by simp

definition untouched :: "climate_state option \<Rightarrow> bool" where
  "untouched cl \<longleftrightarrow> (case cl of Some c \<Rightarrow> cl_mode c = cl_cur_mode c \<and> cl_fan c = cl_cur_fan c | None \<Rightarrow> True)"

lemma parsed_untouched: "parse_climate_state j i b = Some c \<Longrightarrow> untouched (Some (c\<lparr>cl_target := t\<rparr>))"
  using parsed_climate [of j i b c] by (simp add: untouched_def)

lemma open_untouched: "keeps (\<lambda>st. untouched (climate st)) (climate_open h e)"
proof -
  let ?C = "\<lambda>(_, _, _, _, _, cl). untouched cl"
  have c: "cells ?C st = untouched (climate st)" for st :: "'a hst" by (simp add: cells_def statics_def)
  have "keeps (cells ?C) (climate_open h e)"
    unfolding climate_open_def Let_def by (intro keeps_intro) (simp_all only: c hst.select_convs hst.update_convs, auto intro: parsed_untouched)
  then show ?thesis by (simp add: keeps_def c)
qed

lemma wrap32_zero: "\<bar>x\<bar> < 2 ^ 31 \<Longrightarrow> 1 \<le> wrap32 \<bar>wrap32 x\<bar> \<longleftrightarrow> x \<noteq> 0"
proof -
  assume x: "\<bar>x\<bar> < 2 ^ 31"
  then have "wrap32 x = x" "wrap32 \<bar>x\<bar> = \<bar>x\<bar>" by (intro wrap32_id; auto)+
  then show ?thesis by auto
qed

text \<open>A thermostat view that was opened and is saved sends nothing when the slider stands where it
  was put, and otherwise, unless the device is off, one call with the new setpoint.\<close>
theorem commit_after_open:
  assumes "climate st = None" and "run_state (climate_open h e) st = (u, st')" and "climate st' = Some c"
    and "\<bar>v - cl_target c\<bar> < 2 ^ 31"
  shows "climate_calls c v =
    (if cl_mode c = lit ''off'' \<or> v = cl_target c then [] else [(lit ''set_temperature'', setpoint_extra c v)])"
proof -
  have "cl_mode c = cl_cur_mode c \<and> cl_fan c = cl_cur_fan c"
    using keepsD [OF open_untouched assms(2)] assms(1,3) by (simp add: untouched_def)
  moreover have "1 \<le> wrap32 \<bar>wrap32 (v - cl_target c)\<bar> \<longleftrightarrow> v \<noteq> cl_target c"
    unfolding wrap32_zero [OF assms(4)] by (simp only: right_minus_eq)
  ultimately show ?thesis by (simp only: climate_calls_def) simp
qed

theorem commit_after_open_witness:
  "\<exists>st' c. run_state (climate_open (demo_home (Map [(lit ''state'', Str (lit ''heat'')), (lit ''attributes'', Map [])]))
        (placeholder (lit ''climate.a'') Climate)) (init_hst joined) = ((), st')
    \<and> climate st' = Some c \<and> climate_calls c 200 = []
    \<and> climate_calls c 215 = [(lit ''set_temperature'', [34] @ lit ''temperature'' @ [34] @ lit '':21.5'')]"
proof -
  let ?v = "Map [(lit ''state'', Str (lit ''heat'')), (lit ''attributes'', Map [])]"
  let ?h = "demo_home ?v" and ?i = "lit ''climate.a''"
  obtain u st' where run: "run_state (climate_open ?h (placeholder ?i Climate)) (init_hst joined) = (u, st')"
    by (rule prod.exhaust)
  have f: "f64_as_i32 (f64_mul 20 10) = 200" "f64_as_i32 (f64_mul 5 10) = 50" "f64_as_i32 (f64_mul 30 10) = 300"
    using whole_degrees [of 20] whole_degrees [of 5] whole_degrees [of 30] by simp_all
  obtain c where c: "parse_climate_state (doc_serde ?v) ?i [] = Some c" "cl_target c = 200" "cl_min c = 50" "cl_max c = 300"
      "cl_mode c = lit ''heat''" "\<not> cl_range c"
    by (simp add: parse_climate_state_def) (simp add: lit_def str_array_def f Let_def)
  have b: "setpoint_bounds c = (50, 300)" "clamp_ordered 200 50 300 = 200"
    using c by (simp_all add: setpoint_bounds_def clamp_ordered_def)
  have p: "0 \<notin> set (state_path ?i)"
    by (simp add: state_path_def percent_encode_def percent_byte_def lit_def utf8_char_def hex_upper_def)
  have render: "climate s' = climate s" if "run_state (climate_render ?h) s = (x, s')" for x s s'
    using keepsD [OF quiet_views(5) that] by (rule statics_sel(6)) simp
  let ?c = "c\<lparr>cl_target := 200\<rparr>"
  have opened: "climate st' = Some ?c"
    using run demo_get [of "init_hst joined", OF _ p] c b
    by (auto simp: climate_open_def init_hst_def placeholder_def dest: render)
  have "climate_calls ?c 200 = []" "climate_calls ?c 215 = [(lit ''set_temperature'', setpoint_extra ?c 215)]"
    using commit_after_open [OF _ run opened, of 200] commit_after_open [OF _ run opened, of 215] c
    by (simp_all add: init_hst_def lit_def)
  moreover have "setpoint_extra ?c 215 = [34] @ lit ''temperature'' @ [34] @ lit '':21.5''"
    using c by (simp add: setpoint_extra_def sent_temp_def show_int_def lit_def signed_divide_int_def signed_modulo_int_def show_nat.simps)
  ultimately show ?thesis using run opened by (intro exI conjI) simp_all
qed

text \<open>Saving a thermostat range with an odd spread narrows it: the bounds that are sent are both
  rounded towards the middle, so a range of 20.0 to 21.5 degrees comes back one tenth smaller.\<close>
theorem range_narrows:
  "cl_range c \<Longrightarrow> 0 < cl_spread c \<Longrightarrow> \<bar>v\<bar> < 2 ^ 29 \<Longrightarrow> cl_spread c < 2 ^ 29 \<Longrightarrow>
   \<exists>low high. setpoint_extra c v = [34] @ lit ''target_temp_low'' @ [34] @ lit '':'' @ sent_temp low @ lit '','' @
       [34] @ lit ''target_temp_high'' @ [34] @ lit '':'' @ sent_temp high
     \<and> low + high = 2 * v \<and> high - low = cl_spread c - cl_spread c mod 2"
proof -
  let ?low = "v - cl_spread c div 2" and ?high = "v + cl_spread c div 2"
  assume c: "cl_range c" "0 < cl_spread c" "\<bar>v\<bar> < 2 ^ 29" "cl_spread c < 2 ^ 29"
  have w: "wrap32 ?low = ?low" "wrap32 ?high = ?high" using c by (intro wrap32_id; auto)+
  have d: "cl_spread c sdiv 2 = cl_spread c div 2" using c by (simp add: signed_divide_int_def sgn_if)
  show ?thesis
    by (rule exI [of _ ?low], rule exI [of _ ?high])
       (use c in \<open>simp add: setpoint_extra_def d w Let_def minus_mod_eq_mult_div\<close>)
qed

theorem range_narrows_witness:
  "setpoint_extra
     \<lparr>cl_entity = [], cl_current = 0, cl_target = 207, cl_cur_mode = [], cl_mode = [], cl_cur_fan = None, cl_fan = None,
        cl_fans = [], cl_min = 50, cl_max = 300, cl_step = 1, cl_spread = 15, cl_unit = [], cl_slots = [], cl_range = True\<rparr> 207
   = [34] @ lit ''target_temp_low'' @ [34] @ lit '':20.0,'' @ [34] @ lit ''target_temp_high'' @ [34] @ lit '':21.4''"
   (is "setpoint_extra ?c 207 = _")
proof -
  obtain low high where s: "setpoint_extra ?c 207 = [34] @ lit ''target_temp_low'' @ [34] @ lit '':'' @ sent_temp low @ lit '','' @
       [34] @ lit ''target_temp_high'' @ [34] @ lit '':'' @ sent_temp high" and "low + high = 414" "high - low = 14"
    using range_narrows [of ?c 207] by auto
  then have "low = 200" "high = 214" by simp_all
  then show ?thesis unfolding s
    by (simp add: sent_temp_def show_int_def lit_def signed_divide_int_def signed_modulo_int_def show_nat.simps)
qed

section \<open>Encodings\<close>

lemma json_char_escape: "json_char c = escape_char c"
proof -
  have "c < 32 \<Longrightarrow> c div 16 < 10" by simp
  then show ?thesis by (simp add: json_char_def escape_char_def from_digit_def hex_lower_def)
qed

lemma upper_hex: "unat d < 16 \<Longrightarrow> upper_digit d = hex_upper (unat d)"
  by (auto simp: upper_digit_def hex_upper_def from_digit_def to_ascii_uppercase_def)

lemma percent_byte_enc: "percent_byte b = enc_byte b"
proof -
  have "b AND 15 = take_bit 4 b" by (simp add: take_bit_eq_mask mask_eq_exp_minus_1)
  then have d: "unat (b AND 15) = unat b mod 16" "unat (drop_bit 4 b) = unat b div 16"
    by (simp_all only: unsigned_take_bit_eq) (simp_all add: take_bit_eq_mod drop_bit_eq_div unat_div_distrib)
  have "unreserved b \<longleftrightarrow> is_ascii_alphanumeric (unat b) \<or> unat b \<in> {45, 95, 46, 126}"
    by (auto simp: unreserved_def word_unat_eq_iff)
  then show ?thesis using unsigned_less [of b, where 'a = nat] by (simp add: percent_byte_def enc_byte_def d upper_hex)
qed

text \<open>The string literals and URL segments of the plugin are those of the Matrix client, so a name
  with quotes, control characters or slashes stays inside its literal or its segment.\<close>
theorem encoders_agree:
  "json_string s = [34] @ json_escape s @ [34] \<and> read_string (tl (json_string s) @ rest) = Some (s, rest)
    \<and> percent_encode s = urlencode s \<and> percent_bytes (utf8_encode (percent_encode s)) = utf8_encode s"
proof -
  have j: "json_string s = [34] @ json_escape s @ [34]"
    by (simp add: json_string_def json_escape_def json_char_escape cong: map_cong)
  moreover have "read_string (json_escape s @ 34 # rest) = Some (s, rest)" by (rule read_json_escape)
  moreover have "percent_encode s = urlencode s"
    by (simp add: percent_encode_def urlencode_def percent_byte_enc cong: map_cong)
  ultimately show ?thesis using percent_urlencode by simp
qed

end
