(* ===== verification/Scanner.thy ===== *)
theory Scanner
  imports Sdk_Ui Sdk_Ble
begin

text \<open>
  The BLE scanner plugin (\<open>plugins/ble_scanner/src/lib.rs\<close>): the devices seen so far, the rows on
  the screen, the edits that bring the one in line with the other, the scan loop and the exports.

  The statics are the record \<open>bst\<close>; \<open>bw\<close> is the firmware, \<open>b_ui\<close> the user interface calls made
  so far. \<open>Vec::insert\<close> beyond the end of the rows would panic: \<open>place\<close> is then \<open>None\<close>, and
  \<open>btrapped\<close> is set. Log lines are not modelled.
\<close>

section \<open>State\<close>

definition BLE_SCAN_MS :: u32 where "BLE_SCAN_MS = 2000"
definition BLE_POLL_MS :: u64 where "BLE_POLL_MS = 250"
definition BLE_RESCAN_MS :: u64 where "BLE_RESCAN_MS = 60000"
definition MAX_RESULTS :: nat where "MAX_RESULTS = 32"
definition MAX_DEVICES :: nat where "MAX_DEVICES = 64"
definition STALE_AFTER :: u8 where "STALE_AFTER = 2"
definition LABEL_W :: nat where "LABEL_W = 42"
definition ACT_SELECT :: u32 where "ACT_SELECT = 1"

record device =
  dv_addr :: "u8 list"
  dv_addr_type :: u8
  dv_rssi :: int
  dv_name :: ustr
  dv_count :: u32
  dv_missed :: u8

definition is_stale :: "device \<Rightarrow> bool" where
  "is_stale d \<longleftrightarrow> dv_missed d \<ge> STALE_AFTER"

record row =
  rw_addr :: "u8 list"
  rw_label :: ustr
  rw_icon :: u8

record local_time =
  lt_year :: u16
  lt_month :: u8
  lt_day :: u8
  lt_hour :: u8
  lt_minute :: u8
  lt_second :: u8
  lt_weekday :: u8

record 'w bst =
  bw :: 'w
  b_ui :: "ui_call list"
  btrapped :: bool
  devices :: "device list"
  shown :: "row list"
  scanning :: bool
  last_poll_ms :: u64
  last_scan_ms :: u64
  active :: bool
  last_ble_enabled :: bool
  started :: "local_time option"

definition scan_defaults :: "'w \<Rightarrow> 'w bst" where
  "scan_defaults w = \<lparr>bw = w, b_ui = [], btrapped = False, devices = [], shown = [], scanning = False,
     last_poll_ms = 0, last_scan_ms = 0, active = False, last_ble_enabled = False, started = None\<rparr>"

record 'w scan_host =
  host_ble_is_enabled :: "'w \<Rightarrow> bool"
  host_ble_scan_start :: "u32 \<Rightarrow> 'w \<Rightarrow> int \<times> 'w"
  host_ble_scan_done :: "'w \<Rightarrow> bool"
  host_ble_scan_results :: "nat \<Rightarrow> 'w \<Rightarrow> int \<times> scan_result_raw list \<times> nat"
  host_local_time :: "'w \<Rightarrow> local_time option"
  host_fs_write :: "ustr \<Rightarrow> u8 list \<Rightarrow> 'w \<Rightarrow> int \<times> 'w"
  scan_ui :: "ui_call \<Rightarrow> 'w \<Rightarrow> 'w"
  scan_key :: "string \<Rightarrow> ustr"
  scan_core :: "string \<Rightarrow> ustr"
  scan_meta :: "string \<Rightarrow> ustr"

definition scan_draw :: "'w scan_host \<Rightarrow> ui_call list \<Rightarrow> ('w bst, unit) state" where
  "scan_draw h cs = modify (\<lambda>st. st\<lparr>bw := fold (scan_ui h) cs (bw st), b_ui := b_ui st @ cs\<rparr>)"

text \<open>\<open>ble::scan_start\<close> and \<open>ble::scan_results\<close>.\<close>

definition scan_start :: "'w scan_host \<Rightarrow> u32 \<Rightarrow> ('w bst, unit sdk_result) state" where
  "scan_start h ms = State (\<lambda>st. case host_ble_scan_start h ms (bw st) of (rc, w) \<Rightarrow> (check rc, st\<lparr>bw := w\<rparr>))"

definition scan_results :: "'w scan_host \<Rightarrow> nat \<Rightarrow> 'w \<Rightarrow> scan_result list sdk_result" where
  "scan_results h mx w =
    (case host_ble_scan_results h mx w of
       (rc, raw, count) \<Rightarrow>
         if rc \<noteq> 0 then Inl (from_code rc) else Inr (map scan_result_of (take count raw)))"

section \<open>Labels\<close>

definition mac_short :: "u8 list \<Rightarrow> ustr" where
  "mac_short addr = hex2 (addr ! 3) @ hex2 (addr ! 4) @ hex2 (addr ! 5)"

definition mac_full :: "u8 list \<Rightarrow> ustr" where
  "mac_full addr = hex2 (addr ! 0) @ [58] @ hex2 (addr ! 1) @ [58] @ hex2 (addr ! 2) @ [58] @
     hex2 (addr ! 3) @ [58] @ hex2 (addr ! 4) @ [58] @ hex2 (addr ! 5)"

definition make_label :: "device \<Rightarrow> ustr" where
  "make_label d =
    (let raw = (if dv_name d = [] then mac_short (dv_addr d) else dv_name d);
         right = pad_left 4 (show_int (dv_rssi d)) @ lit '' dBm  x'' @ show_nat (unat (dv_count d));
         name_w = LABEL_W - (length right + 1)
     in pad_right name_w (take name_w raw) @ [32] @ right)"

definition icon_for :: "device \<Rightarrow> u8" where
  "icon_for d = (if is_stale d then UI_ICON_CIRCLE else UI_ICON_INVERSE_CIRCLE)"

section \<open>Scan handling\<close>

definition remove_at :: "nat \<Rightarrow> 'a list \<Rightarrow> 'a list" where
  "remove_at i xs = take i xs @ drop (Suc i) xs"

definition insert_at :: "nat \<Rightarrow> 'a \<Rightarrow> 'a list \<Rightarrow> 'a list" where
  "insert_at i x xs = take i xs @ x # drop i xs"

text \<open>The comparison of \<open>evict_one\<close>, as \<open>a \<le> b\<close>; \<open>max_by\<close> returns the last of several maxima.\<close>

definition stale_le :: "device \<Rightarrow> device \<Rightarrow> bool" where
  "stale_le a b \<longleftrightarrow> dv_missed a < dv_missed b \<or> dv_missed a = dv_missed b \<and> dv_rssi b \<le> dv_rssi a"

definition worst :: "device list \<Rightarrow> nat option" where
  "worst ds =
    (if ds = [] then None
     else Some (foldl (\<lambda>i j. if stale_le (ds ! i) (ds ! j) then j else i) 0 [1..<length ds]))"

definition evict_one :: "device list \<Rightarrow> device list" where
  "evict_one ds =
    (case worst ds of
       Some i \<Rightarrow> if dv_missed (ds ! i) > 0 then remove_at i ds else ds
     | None \<Rightarrow> ds)"

definition sighted :: "scan_result \<Rightarrow> device \<Rightarrow> device" where
  "sighted r d = d\<lparr>dv_count := sat_inc (dv_count d), dv_rssi := sr_rssi r, dv_addr_type := sr_addr_type r,
     dv_name := (if sr_name r \<noteq> [] then sr_name r else dv_name d), dv_missed := 0\<rparr>"

definition new_device :: "scan_result \<Rightarrow> device" where
  "new_device r = \<lparr>dv_addr = sr_addr r, dv_addr_type = sr_addr_type r, dv_rssi = sr_rssi r,
     dv_name = sr_name r, dv_count = 1, dv_missed = 0\<rparr>"

fun sight_first :: "scan_result \<Rightarrow> device list \<Rightarrow> device list option" where
  "sight_first r [] = None"
| "sight_first r (d # ds) =
    (if dv_addr d = sr_addr r then Some (sighted r d # ds) else map_option ((#) d) (sight_first r ds))"

definition merge_one :: "scan_result \<Rightarrow> device list \<Rightarrow> device list" where
  "merge_one r ds =
    (case sight_first r ds of
       Some ds' \<Rightarrow> ds'
     | None \<Rightarrow>
         let ds' = (if length ds \<ge> MAX_DEVICES then evict_one ds else ds)
         in if length ds' \<ge> MAX_DEVICES then ds' else ds' @ [new_device r])"

definition age :: "scan_result list \<Rightarrow> device \<Rightarrow> device" where
  "age results d =
    (if list_ex (\<lambda>r. sr_addr r = dv_addr d) results then d else d\<lparr>dv_missed := sat_inc (dv_missed d)\<rparr>)"

definition merge_scan :: "scan_result list \<Rightarrow> device list \<Rightarrow> device list" where
  "merge_scan results ds = map (age results) (fold merge_one results ds)"

section \<open>Rendering\<close>

definition row_of :: "device \<Rightarrow> row" where
  "row_of d = \<lparr>rw_addr = dv_addr d, rw_label = make_label d, rw_icon = icon_for d\<rparr>"

definition build_desired :: "device list \<Rightarrow> row list" where
  "build_desired = map row_of"

definition row_at :: "u8 list \<Rightarrow> row list \<Rightarrow> nat option" where
  "row_at a rows =
    (if list_ex (\<lambda>r. rw_addr r = a) rows then Some (length (takeWhile (\<lambda>r. rw_addr r \<noteq> a) rows)) else None)"

text \<open>The loop that removes evicted rows, from the last row up.\<close>

fun prune :: "row list \<Rightarrow> nat \<Rightarrow> row list \<Rightarrow> row list \<times> ui_call list" where
  "prune desired 0 rows = (rows, [])"
| "prune desired (Suc i) rows =
    (if \<not> list_ex (\<lambda>d. rw_addr d = rw_addr (rows ! i)) desired then
       (case prune desired i (remove_at i rows) of (rows', cs) \<Rightarrow> (rows', remove_list_item (of_nat i) @ cs))
     else prune desired i rows)"

text \<open>One step of the second loop: row \<open>i\<close> becomes \<open>d\<close>.\<close>

definition put_row :: "nat \<Rightarrow> row \<Rightarrow> row list \<Rightarrow> (row list \<times> ui_call list) option" where
  "put_row i d rows =
    (case row_at (rw_addr d) rows of
       None \<Rightarrow>
         if i \<le> length rows
         then Some (insert_at i d rows, insert_list_item (of_nat i) (rw_label d) 0 (rw_icon d)) else None
     | Some j \<Rightarrow>
         if j \<noteq> i then
           (if i \<le> length (remove_at j rows)
            then Some (insert_at i d (remove_at j rows),
                   remove_list_item (of_nat j) @ insert_list_item (of_nat i) (rw_label d) 0 (rw_icon d))
            else None)
         else if rw_label (rows ! i) \<noteq> rw_label d \<or> rw_icon (rows ! i) \<noteq> rw_icon d
         then Some (rows[i := d], update_list_item (of_nat i) (rw_label d) 0 (rw_icon d))
         else Some (rows, []))"

fun place :: "nat \<Rightarrow> row list \<Rightarrow> row list \<Rightarrow> (row list \<times> ui_call list) option" where
  "place i [] rows = Some (rows, [])"
| "place i (d # ds) rows =
    Option.bind (put_row i d rows) (\<lambda>(rows, cs).
      map_option (\<lambda>(rows', cs'). (rows', cs @ cs')) (place (Suc i) ds rows))"

definition edit_rows :: "row list \<Rightarrow> row list \<Rightarrow> (row list \<times> ui_call list) option" where
  "edit_rows desired rows =
    (case prune desired (length rows) rows of
       (rows', cs) \<Rightarrow> map_option (\<lambda>(rows'', cs'). (rows'', cs @ cs')) (place 0 desired rows'))"

definition first_list :: "'w scan_host \<Rightarrow> row list \<Rightarrow> ui_call list" where
  "first_list h rows =
     list_replace (fold (\<lambda>d. list_item (rw_label d) 0 (rw_icon d)) rows
       (list_on_select ACT_SELECT (list_new (scan_meta h ''name''))))"

definition scan_render :: "'w scan_host \<Rightarrow> ('w bst, unit) state" where
  "scan_render h = do {
     desired \<leftarrow> gets (\<lambda>st. build_desired (devices st));
     rows \<leftarrow> gets shown;
     if rows = [] then
       (if desired = [] then ret ()
        else do {
          scan_draw h (first_list h desired);
          modify (\<lambda>st. st\<lparr>shown := desired\<rparr>)
        })
     else
       (case edit_rows desired rows of
          None \<Rightarrow> modify (\<lambda>st. st\<lparr>btrapped := True\<rparr>)
        | Some (rows', cs) \<Rightarrow> do {
            scan_draw h cs;
            modify (\<lambda>st. st\<lparr>shown := rows'\<rparr>)
          })
   }"

definition placeholder_for :: "'w scan_host \<Rightarrow> bool \<Rightarrow> ustr" where
  "placeholder_for h enabled = (if enabled then scan_key h ''empty'' else scan_key h ''disabled'')"

definition push_scan_list :: "'w scan_host \<Rightarrow> ('w bst, unit) state" where
  "push_scan_list h = do {
     scan_draw h (list_push (list_on_select ACT_SELECT (list_new (scan_meta h ''name''))));
     modify (\<lambda>st. st\<lparr>shown := []\<rparr>);
     enabled \<leftarrow> gets (\<lambda>st. host_ble_is_enabled h (bw st));
     modify (\<lambda>st. st\<lparr>last_ble_enabled := enabled\<rparr>);
     scan_draw h (set_list_empty (placeholder_for h enabled))
   }"

section \<open>Export\<close>

definition fmt_ts :: "local_time \<Rightarrow> ustr" where
  "fmt_ts t = show02 (unat (lt_day t)) @ [46] @ show02 (unat (lt_month t)) @ [32] @ show02 (unat (lt_hour t)) @ [58] @
     show02 (unat (lt_minute t))"

definition file_name_of :: "local_time \<Rightarrow> ustr" where
  "file_name_of t = show02 (unat (lt_day t)) @ show02 (unat (lt_month t)) @ [45] @ show02 (unat (lt_hour t)) @
     show02 (unat (lt_minute t)) @ lit ''.txt''"

definition device_line :: "device \<Rightarrow> ustr" where
  "device_line d = mac_full (dv_addr d) @ [32] @ pad_left 4 (show_int (dv_rssi d)) @ lit ''dBm x'' @
     show_nat (unat (dv_count d)) @ [32] @ dv_name d @ [10]"

definition scan_report :: "local_time option \<Rightarrow> local_time \<Rightarrow> device list \<Rightarrow> ustr" where
  "scan_report start stop ds =
     lit ''Start: '' @ (case start of Some t \<Rightarrow> fmt_ts t | None \<Rightarrow> [63]) @ [10] @
     lit ''End:   '' @ fmt_ts stop @ [10] @
     lit ''Devices: '' @ show_nat (length ds) @ [10, 10] @ concat (map device_line ds)"

definition save_results :: "'w scan_host \<Rightarrow> ('w bst, unit) state" where
  "save_results h = do {
     now \<leftarrow> gets (\<lambda>st. host_local_time h (bw st));
     ds \<leftarrow> gets devices;
     start \<leftarrow> gets started;
     case now of
       None \<Rightarrow> ret ()
     | Some t \<Rightarrow>
         if ds = [] then ret ()
         else do {
           r \<leftarrow> State (\<lambda>st. case host_fs_write h (file_name_of t) (utf8_encode (scan_report start t ds)) (bw st) of
                  (rc, w) \<Rightarrow> (check rc, st\<lparr>bw := w\<rparr>));
           whenM (is_ok r)
             (scan_draw h (push_toast (scan_core h ''core.saved'' @ [32] @ file_name_of t) UI_ICON_SUCCESS 2500))
         }
   }"

section \<open>Exports\<close>

definition scan_on_enter :: "'w scan_host \<Rightarrow> ('w bst, unit) state" where
  "scan_on_enter h = do {
     modify (\<lambda>st. st\<lparr>active := True, scanning := False, started := host_local_time h (bw st)\<rparr>);
     push_scan_list h;
     scan_render h;
     enabled \<leftarrow> gets (\<lambda>st. host_ble_is_enabled h (bw st));
     whenM enabled (do {
       scan_draw h (push_toast (scan_key h ''empty'') UI_ICON_SENSOR 2000);
       r \<leftarrow> scan_start h BLE_SCAN_MS;
       whenM (is_ok r) (modify (\<lambda>st. st\<lparr>scanning := True, last_poll_ms := 0\<rparr>))
     })
   }"

definition scan_on_exit :: "'w scan_host \<Rightarrow> ('w bst, unit) state" where
  "scan_on_exit h = do {
     save_results h;
     modify (\<lambda>st. st\<lparr>active := False\<rparr>)
   }"

text \<open>A tick while a scan runs.\<close>

definition take_results :: "'w scan_host \<Rightarrow> ('w bst, unit) state" where
  "take_results h = do {
     r \<leftarrow> gets (\<lambda>st. scan_results h MAX_RESULTS (bw st));
     case r of
       Inl _ \<Rightarrow> ret ()
     | Inr results \<Rightarrow> do {
         modify (\<lambda>st. st\<lparr>devices := merge_scan results (devices st)\<rparr>);
         on_top \<leftarrow> gets active;
         whenM on_top (scan_render h)
       }
   }"

definition poll_scan :: "'w scan_host \<Rightarrow> u64 \<Rightarrow> ('w bst, unit) state" where
  "poll_scan h now = do {
     early \<leftarrow> gets (\<lambda>st. sat_sub now (last_poll_ms st) < BLE_POLL_MS);
     whenM (\<not> early) (do {
       modify (\<lambda>st. st\<lparr>last_poll_ms := now\<rparr>);
       finished \<leftarrow> gets (\<lambda>st. host_ble_scan_done h (bw st));
       whenM finished (do {
         modify (\<lambda>st. st\<lparr>scanning := False, last_scan_ms := now\<rparr>);
         take_results h
       })
     })
   }"

definition scan_on_tick :: "'w scan_host \<Rightarrow> u64 \<Rightarrow> ('w bst, unit) state" where
  "scan_on_tick h now = do {
     enabled \<leftarrow> gets (\<lambda>st. host_ble_is_enabled h (bw st));
     changed \<leftarrow> gets (\<lambda>st. active st \<and> enabled \<noteq> last_ble_enabled st);
     whenM changed (do {
       modify (\<lambda>st. st\<lparr>last_ble_enabled := enabled\<rparr>);
       scan_draw h (set_list_empty (placeholder_for h enabled))
     });
     whenM enabled (do {
       running \<leftarrow> gets scanning;
       (if running then poll_scan h now
        else do {
          due \<leftarrow> gets (\<lambda>st. sat_sub now (last_scan_ms st) \<ge> BLE_RESCAN_MS);
          whenM due (do {
            r \<leftarrow> scan_start h BLE_SCAN_MS;
            whenM (is_ok r) (modify (\<lambda>st. st\<lparr>scanning := True, last_poll_ms := now\<rparr>))
          })
        })
     })
   }"

definition details :: "'w scan_host \<Rightarrow> device \<Rightarrow> ustr" where
  "details h d = mac_full (dv_addr d) @ [10] @ show_int (dv_rssi d) @ lit '' dBm  x'' @ show_nat (unat (dv_count d)) @
     lit ''  ('' @ (if dv_addr_type d = 0 then scan_key h ''type_pub'' else scan_key h ''type_rnd'') @ [41]"

definition scan_on_action :: "'w scan_host \<Rightarrow> u32 \<Rightarrow> u32 \<Rightarrow> ('w bst, unit) state" where
  "scan_on_action h act idx =
    (if act \<noteq> ACT_SELECT then ret ()
     else do {
       rows \<leftarrow> gets shown;
       ds \<leftarrow> gets devices;
       (if unat idx < length rows then
          (case find (\<lambda>d. dv_addr d = rw_addr (rows ! unat idx)) ds of
             Some d \<Rightarrow> scan_draw h (push_toast (details h d) UI_ICON_SENSOR 3000)
           | None \<Rightarrow> ret ())
        else ret ())
     })"

end
