(* ===== verification/Scanner_Laws.thy ===== *)
theory Scanner_Laws
  imports Scanner
begin

text \<open>
  The scanner's edits against a specification of the list view they act on (\<open>list_view\<close>, after the
  comments of \<open>host_api.h\<close>): the rows on the screen become exactly the wanted ones. Below, the
  invariant of the statics over all calls of the firmware.
\<close>

section \<open>The list view of the firmware\<close>

fun list_view :: "ui_call \<Rightarrow> ui_item list \<Rightarrow> ui_item list" where
  "list_view (Ui_push_list t its a m) v = its"
| "list_view (Ui_replace_list t its a m) v = its"
| "list_view (Ui_update_item n it) v = (if unat n < length v then v[unat n := it] else v)"
| "list_view (Ui_insert_item n it) v = insert_at (min (unat n) (length v)) it v"
| "list_view (Ui_remove_item n) v = (if unat n < length v then remove_at (unat n) v else v)"
| "list_view _ v = v"

definition item_of :: "row \<Rightarrow> ui_item" where
  "item_of r = ui_item_of (rw_label r) 0 (rw_icon r)"

definition plain_rows :: "row list \<Rightarrow> bool" where
  "plain_rows rows \<longleftrightarrow> list_all (\<lambda>r. 0 \<notin> set (rw_label r)) rows \<and> distinct (map rw_addr rows)"

lemma edit_calls:
  "0 \<notin> set l \<Longrightarrow> insert_list_item n l i c = [Ui_insert_item n (ui_item_of l i c)]"
  "0 \<notin> set l \<Longrightarrow> update_list_item n l i c = [Ui_update_item n (ui_item_of l i c)]"
  "remove_list_item n = [Ui_remove_item n]"
  by (simp_all add: insert_list_item_def update_list_item_def remove_list_item_def to_cstring_def)

lemma unat_u16: "n < 2 ^ 16 \<Longrightarrow> unat (of_nat n :: u16) = n"
  by (simp add: unat_of_nat take_bit_nat_eq_self)

lemma map_remove_at: "map f (remove_at i xs) = remove_at i (map f xs)"
  by (simp add: remove_at_def take_map drop_map)

lemma map_insert_at: "map f (insert_at i x xs) = insert_at i (f x) (map f xs)"
  by (simp add: insert_at_def take_map drop_map)

section \<open>The two loops\<close>

lemma mem_addr: "x \<in> set rows \<Longrightarrow> rw_addr x = a \<Longrightarrow> a \<in> rw_addr ` set rows"
  by (metis imageI)

lemma others_kept: "a \<notin> rw_addr ` set rows \<Longrightarrow> filter (\<lambda>r. rw_addr r \<noteq> a) rows = rows"
  by (auto intro!: filter_True dest: mem_addr)

lemma prune_rows:
  assumes "k \<le> length rows" and "length rows < 2 ^ 16"
  shows "\<exists>cs. prune desired k rows = (filter (\<lambda>r. rw_addr r \<in> rw_addr ` set desired) (take k rows) @ drop k rows, cs)
    \<and> fold list_view cs (map item_of rows)
      = map item_of (filter (\<lambda>r. rw_addr r \<in> rw_addr ` set desired) (take k rows) @ drop k rows)"
  using assms
proof (induction k arbitrary: rows)
  case (Suc i)
  have ex: "list_ex (\<lambda>d. rw_addr d = rw_addr (rows ! i)) desired \<longleftrightarrow> rw_addr (rows ! i) \<in> rw_addr ` set desired"
    by (auto simp: list_ex_iff intro: mem_addr)
  have split: "take (Suc i) rows = take i rows @ [rows ! i]" "drop i rows = rows ! i # drop (Suc i) rows"
    using Suc.prems by (simp_all add: take_Suc_conv_app_nth Cons_nth_drop_Suc)
  show ?case
  proof (cases "rw_addr (rows ! i) \<in> rw_addr ` set desired")
    case True
    then show ?thesis using Suc.IH [of rows] Suc.prems ex by (simp add: split)
  next
    case False
    have r: "take i (remove_at i rows) = take i rows" "drop i (remove_at i rows) = drop (Suc i) rows"
      "length (remove_at i rows) < 2 ^ 16" "i \<le> length (remove_at i rows)"
      using Suc.prems by (simp_all add: remove_at_def)
    have "list_view (Ui_remove_item (of_nat i)) (map item_of rows) = map item_of (remove_at i rows)"
      using Suc.prems by (simp add: unat_u16 map_remove_at)
    then show ?thesis using Suc.IH [OF r(4,3)] False ex
      by (auto simp: r split edit_calls split: prod.split)
  qed
qed simp

lemma row_at_split:
  "row_at a (xs @ x # ys) = Some (length xs)" if "a \<notin> rw_addr ` set xs" "rw_addr x = a"
proof -
  have "\<forall>r \<in> set xs. rw_addr r \<noteq> a" using that by (auto dest: mem_addr)
  then show ?thesis using that by (simp add: row_at_def list_ex_iff takeWhile_append)
qed

lemma row_at_None: "row_at a rows = None" if "a \<notin> rw_addr ` set rows"
  using that by (auto simp: row_at_def list_ex_iff dest: mem_addr)

lemma put_row_place:
  assumes "length ds0 = i" and "rw_addr d \<notin> rw_addr ` set ds0" and "distinct (map rw_addr rest)"
    and "0 \<notin> set (rw_label d)" and "i + length rest < 2 ^ 16"
  shows "\<exists>cs. put_row i d (ds0 @ rest) = Some (ds0 @ d # filter (\<lambda>r. rw_addr r \<noteq> rw_addr d) rest, cs)
    \<and> fold list_view cs (map item_of (ds0 @ rest))
      = map item_of (ds0 @ d # filter (\<lambda>r. rw_addr r \<noteq> rw_addr d) rest)"
proof (cases "rw_addr d \<in> rw_addr ` set rest")
  case False
  then have "filter (\<lambda>r. rw_addr r \<noteq> rw_addr d) rest = rest" by (rule others_kept)
  moreover have "row_at (rw_addr d) (ds0 @ rest) = None" using False assms(2) by (intro row_at_None) auto
  ultimately show ?thesis using assms
    by (simp add: put_row_def edit_calls insert_at_def unat_u16 item_of_def)
next
  case True
  then obtain r1 x r2 where rest: "rest = r1 @ x # r2" "rw_addr x = rw_addr d"
    by (auto dest!: split_list)
  then have other: "rw_addr d \<notin> rw_addr ` set r1" "rw_addr d \<notin> rw_addr ` set r2" using assms(3) by auto
  then have f: "filter (\<lambda>r. rw_addr r \<noteq> rw_addr d) rest = r1 @ r2" using rest by (simp add: others_kept)
  have at: "row_at (rw_addr d) (ds0 @ rest) = Some (length (ds0 @ r1))"
    using row_at_split [of "rw_addr d" "ds0 @ r1" x r2] other(1) assms(2) rest by auto
  show ?thesis
  proof (cases "r1 = []")
    case True
    have "x = d" if "rw_label x = rw_label d" "rw_icon x = rw_icon d" using that rest(2) by simp
    then show ?thesis using True at f assms rest
      by (auto simp: put_row_def edit_calls nth_append list_update_append unat_u16 item_of_def)
  next
    case False
    have rm: "remove_at (length (ds0 @ r1)) (ds0 @ rest) = ds0 @ r1 @ r2" by (simp add: remove_at_def rest)
    have v: "list_view (Ui_remove_item (of_nat (length (ds0 @ r1)))) (map item_of (ds0 @ rest)) = map item_of (ds0 @ r1 @ r2)"
    proof -
      have "unat (of_nat (length (ds0 @ r1)) :: u16) = length (ds0 @ r1)" using assms(1,5) rest by (intro unat_u16) simp
      moreover have "remove_at (length (ds0 @ r1)) (map item_of (ds0 @ rest)) = map item_of (ds0 @ r1 @ r2)"
        by (simp only: rm flip: map_remove_at)
      ultimately show ?thesis by (simp add: rest)
    qed
    show ?thesis using False at f assms rm v
      by (simp add: put_row_def edit_calls) (simp add: insert_at_def unat_u16 item_of_def rest)
  qed
qed

lemma place_rows:
  assumes "length ds0 = i" and "distinct (map rw_addr (ds0 @ ds))" and "distinct (map rw_addr (ds0 @ rest))"
    and "list_all (\<lambda>r. 0 \<notin> set (rw_label r)) ds" and "i + length ds + length rest < 2 ^ 16"
  shows "\<exists>cs. place i ds (ds0 @ rest) = Some (ds0 @ ds @ filter (\<lambda>r. rw_addr r \<notin> rw_addr ` set ds) rest, cs)
    \<and> fold list_view cs (map item_of (ds0 @ rest))
      = map item_of (ds0 @ ds @ filter (\<lambda>r. rw_addr r \<notin> rw_addr ` set ds) rest)"
  using assms
proof (induction ds arbitrary: i ds0 rest)
  case (Cons d ds)
  let ?rest = "filter (\<lambda>r. rw_addr r \<noteq> rw_addr d) rest"
  obtain cs where cs: "put_row i d (ds0 @ rest) = Some (ds0 @ d # ?rest, cs)"
    "fold list_view cs (map item_of (ds0 @ rest)) = map item_of (ds0 @ d # ?rest)"
    using put_row_place [of ds0 i d rest] Cons.prems by auto
  have len: "length ?rest \<le> length rest" by simp
  have "\<exists>cs'. place (Suc i) ds ((ds0 @ [d]) @ ?rest)
      = Some ((ds0 @ [d]) @ ds @ filter (\<lambda>r. rw_addr r \<notin> rw_addr ` set ds) ?rest, cs')
    \<and> fold list_view cs' (map item_of ((ds0 @ [d]) @ ?rest))
      = map item_of ((ds0 @ [d]) @ ds @ filter (\<lambda>r. rw_addr r \<notin> rw_addr ` set ds) ?rest)"
  proof (rule Cons.IH)
    have "Suc i + length ds + length ?rest \<le> i + length (d # ds) + length rest" using len by simp
    then show "Suc i + length ds + length ?rest < 2 ^ 16" using Cons.prems(5) by (rule le_less_trans)
    show "distinct (map rw_addr ((ds0 @ [d]) @ ?rest))" using Cons.prems(2,3) by (auto simp: distinct_map_filter)
  qed (use Cons.prems in auto)
  moreover have "filter (\<lambda>r. rw_addr r \<notin> rw_addr ` set ds) ?rest = filter (\<lambda>r. rw_addr r \<notin> rw_addr ` set (d # ds)) rest"
    by (auto intro: filter_cong)
  ultimately show ?case using cs by (auto simp: split_beta)
qed simp

lemma edit_rows_exact:
  assumes "plain_rows desired" and "plain_rows rows" and "length desired + length rows < 2 ^ 16"
  shows "\<exists>cs. edit_rows desired rows = Some (desired, cs) \<and> fold list_view cs (map item_of rows) = map item_of desired"
proof -
  let ?kept = "filter (\<lambda>r. rw_addr r \<in> rw_addr ` set desired) rows"
  obtain cs where cs: "prune desired (length rows) rows = (?kept, cs)" "fold list_view cs (map item_of rows) = map item_of ?kept"
    using prune_rows [of "length rows" rows desired] assms(3) by auto
  have none: "filter (\<lambda>r. rw_addr r \<notin> rw_addr ` set desired) ?kept = []" by (simp add: filter_empty_conv)
  have "length ?kept \<le> length rows" by simp
  then have "0 + length desired + length ?kept < 2 ^ 16" using assms(3) by linarith
  then obtain cs' where "place 0 desired ?kept = Some (desired, cs')" "fold list_view cs' (map item_of ?kept) = map item_of desired"
    using place_rows [of "[]" 0 desired ?kept] assms unfolding none
    by (auto simp: plain_rows_def distinct_map_filter)
  then show ?thesis using cs by (simp add: edit_rows_def)
qed

end
