(* ===== verification/Scanner_Claims.thy ===== *)
theory Scanner_Claims
  imports Scanner_Laws
begin

text \<open>
  The invariant of the scanner's statics over all calls of the firmware, and the properties of the
  plugin with their witnesses.
\<close>

section \<open>Devices\<close>

definition device_ok :: "device \<Rightarrow> bool" where
  "device_ok d \<longleftrightarrow> 0 \<notin> set (dv_name d) \<and> -128 \<le> dv_rssi d \<and> dv_rssi d < 128"

definition devices_ok :: "device list \<Rightarrow> bool" where
  "devices_ok ds \<longleftrightarrow> length ds \<le> MAX_DEVICES \<and> distinct (map dv_addr ds) \<and> list_all device_ok ds"

definition result_ok :: "scan_result \<Rightarrow> bool" where
  "result_ok r \<longleftrightarrow> 0 \<notin> set (sr_name r) \<and> -128 \<le> sr_rssi r \<and> sr_rssi r < 128"

lemma remove_at_simps [simp]:
  "remove_at 0 (x # xs) = xs" "remove_at (Suc i) (x # xs) = x # remove_at i xs" "remove_at i [] = []"
  by (simp_all add: remove_at_def)

lemma set_remove_at: "x \<in> set (remove_at i xs) \<Longrightarrow> x \<in> set xs"
  by (auto simp: remove_at_def dest: in_set_takeD in_set_dropD)

lemma distinct_remove_at: "distinct xs \<Longrightarrow> distinct (remove_at i xs)"
proof (induction xs arbitrary: i)
  case (Cons x xs)
  then show ?case by (cases i) (auto dest: set_remove_at)
qed simp

lemma length_remove_at: "length (remove_at i xs) \<le> length xs"
  by (simp add: remove_at_def)

lemma evict_cases: "evict_one ds = ds \<or> (\<exists>i. evict_one ds = remove_at i ds)"
  by (auto simp: evict_one_def split: option.split)

lemma evict_set: "x \<in> set (evict_one ds) \<Longrightarrow> x \<in> set ds"
  using evict_cases [of ds] set_remove_at by metis

lemma evict_ok: "devices_ok ds \<Longrightarrow> devices_ok (evict_one ds)"
proof -
  assume ok: "devices_ok ds"
  have "devices_ok (remove_at i ds)" for i
    using ok length_remove_at [of i ds] distinct_remove_at [of "map dv_addr ds" i]
    by (auto simp: devices_ok_def map_remove_at list_all_iff dest: set_remove_at)
  then show ?thesis using ok evict_cases [of ds] by metis
qed

lemma sight_first_None: "sight_first r ds = None \<longleftrightarrow> sr_addr r \<notin> dv_addr ` set ds"
  by (induction ds) auto

lemma sight_first_addrs: "sight_first r ds = Some ds' \<Longrightarrow> map dv_addr ds' = map dv_addr ds"
  by (induction ds arbitrary: ds') (auto simp: sighted_def split: if_splits)

lemma sight_first_all:
  "sight_first r ds = Some ds' \<Longrightarrow> list_all P ds \<Longrightarrow> (\<And>d. P d \<Longrightarrow> P (sighted r d)) \<Longrightarrow> list_all P ds'"
  by (induction ds arbitrary: ds') (auto split: if_splits)

lemma made_ok: "result_ok r \<Longrightarrow> device_ok (new_device r)" "result_ok r \<Longrightarrow> device_ok d \<Longrightarrow> device_ok (sighted r d)"
  by (simp_all add: result_ok_def device_ok_def new_device_def sighted_def)

lemma merge_one_ok:
  assumes "devices_ok ds" and "result_ok r"
  shows "devices_ok (merge_one r ds)"
proof (cases "sight_first r ds")
  case (Some ds')
  then have "map dv_addr ds' = map dv_addr ds" by (rule sight_first_addrs)
  moreover from this have "length ds' = length ds" by (metis length_map)
  moreover have "list_all device_ok ds'"
    using assms by (intro sight_first_all [OF Some]) (simp_all add: devices_ok_def made_ok)
  ultimately show ?thesis using assms(1) Some by (simp add: merge_one_def devices_ok_def)
next
  case None
  let ?ds = "if length ds \<ge> MAX_DEVICES then evict_one ds else ds"
  have "sr_addr r \<notin> dv_addr ` set ?ds" using None by (auto simp: sight_first_None dest: evict_set)
  moreover have "dv_addr (new_device r) = sr_addr r" by (simp add: new_device_def)
  moreover have "devices_ok ?ds" using assms(1) by (simp add: evict_ok)
  ultimately show ?thesis using made_ok(1) [OF assms(2)] None
    by (simp add: merge_one_def Let_def devices_ok_def)
qed

lemma merge_ok:
  assumes "devices_ok ds" and "list_all result_ok rs"
  shows "devices_ok (merge_scan rs ds)"
proof -
  have "devices_ok (fold merge_one rs ds)" using assms
    by (induction rs arbitrary: ds) (simp_all add: merge_one_ok)
  moreover have "map dv_addr (map (age rs) xs) = map dv_addr xs" for xs by (simp add: age_def)
  moreover have "device_ok d \<Longrightarrow> device_ok (age rs d)" for d by (simp add: age_def device_ok_def)
  ultimately show ?thesis by (simp only: merge_scan_def devices_ok_def length_map) (auto simp: list_all_iff)
qed

lemma scanned_ok: "scan_results h n w = Inr rs \<Longrightarrow> list_all result_ok rs"
  by (auto simp: scan_results_def list_all_iff result_ok_def scan_rssi_range split: prod.splits if_splits)

section \<open>Labels\<close>

lemma hex2_no_nul: "0 \<notin> set (hex2 b)"
  by (simp add: hex2_def hex_digit_def)

lemma show_nat_no_nul: "0 \<notin> set (show_nat n)"
  using show_nat_digits [of n] by (auto simp: list_all_iff is_ascii_digit_def)

lemma label_no_nul: "0 \<notin> set (dv_name d) \<Longrightarrow> 0 \<notin> set (make_label d)"
  by (auto simp: make_label_def Let_def pad_left_def pad_right_def show_int_def show_nat_no_nul mac_short_def hex2_no_nul
    lit_def dest: in_set_takeD)

lemma desired_plain: "devices_ok ds \<Longrightarrow> plain_rows (build_desired ds)"
  by (auto simp: devices_ok_def device_ok_def plain_rows_def build_desired_def row_of_def list_all_iff label_no_nul comp_def)

lemma length_show_nat: "n < 10 ^ k \<Longrightarrow> 0 < k \<Longrightarrow> length (show_nat n) \<le> k"
proof (induction n arbitrary: k rule: show_nat.induct)
  case (1 n)
  show ?case
  proof (cases "n < 10")
    case False
    obtain j where j: "k = Suc j" using 1(3) by (cases k) auto
    then have "n div 10 < 10 ^ j" "0 < j" using 1(2) False by (auto intro: Nat.gr0I)
    then show ?thesis using 1(1) [of j] False j by (subst show_nat.simps) simp
  qed (use 1(3) in \<open>simp add: show_nat.simps\<close>)
qed

section \<open>The invariant\<close>

abbreviation view_of :: "'w bst \<Rightarrow> ui_item list" where
  "view_of st \<equiv> fold list_view (b_ui st) []"

text \<open>\<open>drawn\<close> holds throughout an export; between exports the rows are those of the devices.\<close>

definition drawn :: "'w bst \<Rightarrow> bool" where
  "drawn st \<longleftrightarrow> \<not> btrapped st \<and> devices_ok (devices st) \<and> plain_rows (shown st) \<and> length (shown st) \<le> MAX_DEVICES
     \<and> (active st \<longrightarrow> view_of st = map item_of (shown st))"

definition scan_ok :: "'w bst \<Rightarrow> bool" where
  "scan_ok st \<longleftrightarrow> drawn st \<and> (active st \<longrightarrow> shown st = build_desired (devices st))"

lemma run_scan_draw [simp]:
  "run_state (scan_draw h cs) st = ((), st\<lparr>bw := fold (scan_ui h) cs (bw st), b_ui := b_ui st @ cs\<rparr>)"
  by (simp add: scan_draw_def)

lemma other_fields [simp]:
  "drawn (st\<lparr>bw := w\<rparr>) = drawn st" "scan_ok (st\<lparr>bw := w\<rparr>) = scan_ok st"
  "drawn (st\<lparr>scanning := b\<rparr>) = drawn st" "scan_ok (st\<lparr>scanning := b\<rparr>) = scan_ok st"
  "drawn (st\<lparr>last_poll_ms := t\<rparr>) = drawn st" "scan_ok (st\<lparr>last_poll_ms := t\<rparr>) = scan_ok st"
  "drawn (st\<lparr>last_scan_ms := t\<rparr>) = drawn st" "scan_ok (st\<lparr>last_scan_ms := t\<rparr>) = scan_ok st"
  "drawn (st\<lparr>last_ble_enabled := b\<rparr>) = drawn st" "scan_ok (st\<lparr>last_ble_enabled := b\<rparr>) = scan_ok st"
  by (simp_all add: drawn_def scan_ok_def)

text \<open>Calls that are not about the list leave it alone.\<close>

definition off_list :: "ui_call list \<Rightarrow> bool" where
  "off_list cs \<longleftrightarrow> (\<forall>v. fold list_view cs v = v)"

lemma off_list_calls [simp]: "off_list (push_toast t i ms)" "off_list (set_list_empty t)"
  by (auto simp: off_list_def push_toast_def set_list_empty_def split: option.split)

lemma keeps_off [keeps_intro]: "off_list cs \<Longrightarrow> keeps scan_ok (scan_draw h cs)" "off_list cs \<Longrightarrow> keeps drawn (scan_draw h cs)"
  by (auto simp: keeps_def scan_ok_def drawn_def off_list_def)

lemma keeps_start [keeps_intro]: "keeps scan_ok (scan_start h ms)"
  by (auto simp: keeps_def scan_start_def split: prod.splits)

lemma length_desired [simp]: "length (build_desired ds) = length ds"
  by (simp add: build_desired_def)

lemma first_list_view:
  assumes "plain_rows rows" and "length rows < 2 ^ 16"
  shows "fold list_view (first_list h rows) v = map item_of rows"
proof -
  have "lb_items (fold (\<lambda>d. list_item (rw_label d) 0 (rw_icon d)) rows b) = lb_items b @ map item_of rows" for b
    using assms(1) by (induction rows arbitrary: b) (simp_all add: plain_rows_def item_of_def to_cstring_def list_item_def)
  then show ?thesis using assms(2)
    by (simp add: first_list_def list_replace_def counted_def list_on_select_def list_new_def)
qed

lemma render_ok_scan: "hoare drawn (scan_render h) (\<lambda>_. scan_ok)"
proof (rule hoareI)
  fix st u st'
  assume d: "drawn st" and run: "run_state (scan_render h) st = (u, st')"
  let ?ds = "build_desired (devices st)"
  have p: "plain_rows ?ds" "plain_rows (shown st)" "length ?ds + length (shown st) < 2 ^ 16" "length ?ds < 2 ^ 16"
    using d by (simp_all add: drawn_def desired_plain devices_ok_def MAX_DEVICES_def)
  show "scan_ok st'"
  proof (cases "shown st = []")
    case True
    then show ?thesis using run d p first_list_view [OF p(1,4)]
      by (auto simp: scan_render_def scan_ok_def drawn_def devices_ok_def split: if_splits)
  next
    case False
    obtain cs where "edit_rows ?ds (shown st) = Some (?ds, cs)" "fold list_view cs (map item_of (shown st)) = map item_of ?ds"
      using edit_rows_exact [OF p(1-3)] by blast
    then show ?thesis using run d p False
      by (auto simp: scan_render_def scan_ok_def drawn_def devices_ok_def)
  qed
qed

section \<open>Exports\<close>

lemma hoare_then_keeps: "hoare P m (\<lambda>_. Q) \<Longrightarrow> keeps Q n \<Longrightarrow> hoare P (m \<bind> (\<lambda>_. n)) (\<lambda>_. Q)"
  by (rule hoare_bind) (simp_all add: keeps_hoare)

lemma save_keeps [keeps_intro]: "keeps scan_ok (save_results h)"
proof -
  have w: "keeps scan_ok (State (\<lambda>st. case f (bw st) of (rc, w) \<Rightarrow> (check rc, st\<lparr>bw := w\<rparr>)))" for f
    by (auto simp: keeps_def split: prod.splits)
  show ?thesis unfolding save_results_def by (intro keeps_intro w) simp_all
qed

lemma enter_opens:
  "hoare scan_ok (do {
     modify (\<lambda>st. st\<lparr>active := True, scanning := False, started := host_local_time h (bw st)\<rparr>);
     push_scan_list h }) (\<lambda>_. drawn)"
proof (rule hoareI)
  fix st u st'
  assume "scan_ok st" and "run_state (do {
     modify (\<lambda>st. st\<lparr>active := True, scanning := False, started := host_local_time h (bw st)\<rparr>);
     push_scan_list h }) st = (u, st')"
  then show "drawn st'"
    by (auto simp: push_scan_list_def scan_ok_def drawn_def plain_rows_def list_push_def counted_def list_on_select_def
      list_new_def set_list_empty_def MAX_DEVICES_def split: option.split)
qed

lemma enter_keeps: "keeps scan_ok (scan_on_enter h)"
proof -
  have k: "keeps scan_ok (do {
     enabled \<leftarrow> gets (\<lambda>st. host_ble_is_enabled h (bw st));
     whenM enabled (do {
       scan_draw h (push_toast (scan_key h ''empty'') UI_ICON_SENSOR 2000);
       r \<leftarrow> scan_start h BLE_SCAN_MS;
       whenM (is_ok r) (modify (\<lambda>st. st\<lparr>scanning := True, last_poll_ms := 0\<rparr>))
     })
   })" by (intro keeps_intro) simp_all
  have "hoare scan_ok (do { do {
     modify (\<lambda>st. st\<lparr>active := True, scanning := False, started := host_local_time h (bw st)\<rparr>);
     push_scan_list h }; scan_render h }) (\<lambda>_. scan_ok)"
    by (rule hoare_bind [OF enter_opens render_ok_scan])
  from hoare_then_keeps [OF this k] show ?thesis
    by (simp add: keeps_hoare scan_on_enter_def)
qed

lemma merged_drawn: "hoare scan_ok (modify (\<lambda>st. st\<lparr>devices := merge_scan rs (devices st)\<rparr>)) (\<lambda>_. drawn)"
  if "list_all result_ok rs"
  using that by (auto simp: hoare_def scan_ok_def drawn_def merge_ok)

lemma merge_render: "list_all result_ok rs \<Longrightarrow> keeps scan_ok (do {
     modify (\<lambda>st. st\<lparr>devices := merge_scan rs (devices st)\<rparr>);
     on_top \<leftarrow> gets active;
     whenM on_top (scan_render h)
   })"
proof -
  assume rs: "list_all result_ok rs"
  have "hoare drawn (do { on_top \<leftarrow> gets active; whenM on_top (scan_render h) }) (\<lambda>_. scan_ok)"
    using render_ok_scan [of h] by (auto simp: hoare_def scan_ok_def whenM_def)
  then show ?thesis unfolding keeps_hoare by (rule hoare_bind [OF merged_drawn [OF rs]])
qed

lemma take_keeps [keeps_intro]: "keeps scan_ok (take_results h)"
proof (rule keepsI)
  fix st x st'
  assume ok: "scan_ok st" and run: "run_state (take_results h) st = (x, st')"
  show "scan_ok st'"
  proof (cases "scan_results h MAX_RESULTS (bw st)")
    case (Inl e)
    then show ?thesis using ok run by (simp add: take_results_def)
  next
    case (Inr rs)
    show ?thesis
      by (rule keepsD [OF merge_render [OF scanned_ok [OF Inr], of h] _ ok]) (use run Inr in \<open>simp add: take_results_def\<close>)
  qed
qed

lemma poll_keeps [keeps_intro]: "keeps scan_ok (poll_scan h now)"
  unfolding poll_scan_def by (intro keeps_intro) simp_all

lemma exports_keep:
  "keeps scan_ok (scan_on_exit h)" "keeps scan_ok (scan_on_tick h now)" "keeps scan_ok (scan_on_action h act idx)"
proof -
  show "keeps scan_ok (scan_on_exit h)"
    unfolding scan_on_exit_def by (intro keeps_intro) (simp add: scan_ok_def drawn_def)
  show "keeps scan_ok (scan_on_tick h now)"
    unfolding scan_on_tick_def by (intro keeps_intro) simp_all
  show "keeps scan_ok (scan_on_action h act idx)"
    unfolding scan_on_action_def by (intro keeps_intro) simp_all
qed

datatype scan_event = Enter | Exit | Tick u64 | Act u32 u32

fun scan_step :: "'w scan_host \<Rightarrow> scan_event \<Rightarrow> ('w bst, unit) state" where
  "scan_step h Enter = scan_on_enter h"
| "scan_step h Exit = scan_on_exit h"
| "scan_step h (Tick now) = scan_on_tick h now"
| "scan_step h (Act act idx) = scan_on_action h act idx"

definition scan_run :: "'w scan_host \<Rightarrow> scan_event list \<Rightarrow> 'w bst \<Rightarrow> 'w bst" where
  "scan_run h evs st = fold (\<lambda>ev st. snd (run_state (scan_step h ev) st)) evs st"

lemma run_keeps_scan: "scan_ok st \<Longrightarrow> scan_ok (scan_run h evs st)"
proof (induction evs arbitrary: st)
  case (Cons ev evs)
  have "keeps scan_ok (scan_step h ev)" by (cases ev) (simp_all add: enter_keeps exports_keep)
  then show ?case using Cons by (simp add: scan_run_def keeps_def)
qed (simp add: scan_run_def)

section \<open>Counting\<close>

definition count_of :: "u8 list \<Rightarrow> device list \<Rightarrow> nat" where
  "count_of a ds = (case find (\<lambda>d. dv_addr d = a) ds of Some d \<Rightarrow> unat (dv_count d) | None \<Rightarrow> 0)"

text \<open>The addresses in order of first appearance.\<close>

definition note_addr :: "u8 list \<Rightarrow> u8 list list \<Rightarrow> u8 list list" where
  "note_addr a as = (if a \<in> set as then as else as @ [a])"

lemma count_of_le: "count_of a ds \<le> 2 ^ 32 - 1"
proof -
  have "unat c \<le> 2 ^ 32 - 1" for c :: u32 using unsigned_less [of c, where 'a = nat] by simp
  then show ?thesis by (auto simp: count_of_def split: option.split)
qed

lemma count_of_simps [simp]:
  "count_of a [] = 0" "count_of a (d # ds) = (if dv_addr d = a then unat (dv_count d) else count_of a ds)"
  by (simp_all add: count_of_def)

lemma count_absent: "a \<notin> dv_addr ` set ds \<Longrightarrow> count_of a ds = 0"
  by (induction ds) auto

lemma count_append: "a \<notin> dv_addr ` set ds \<Longrightarrow> count_of a (ds @ es) = count_of a es"
  "a \<in> dv_addr ` set ds \<Longrightarrow> count_of a (ds @ es) = count_of a ds"
  by (induction ds) auto

lemma sight_first_count:
  "sight_first r ds = Some ds' \<Longrightarrow>
   count_of a ds' = (if a = sr_addr r then min (2 ^ 32 - 1) (count_of a ds + 1) else count_of a ds)"
  by (induction ds arbitrary: ds') (auto simp: sighted_def unat_sat_inc split: if_splits)

lemma merge_one_fits:
  assumes "distinct (map dv_addr ds)" and "card (insert (sr_addr r) (dv_addr ` set ds)) \<le> MAX_DEVICES"
  shows "map dv_addr (merge_one r ds) = note_addr (sr_addr r) (map dv_addr ds)
    \<and> count_of a (merge_one r ds) = min (2 ^ 32 - 1) (count_of a ds + (if a = sr_addr r then 1 else 0))"
proof (cases "sight_first r ds")
  case (Some ds')
  then have "sr_addr r \<in> dv_addr ` set ds" by (metis option.distinct(1) sight_first_None)
  then show ?thesis using Some sight_first_addrs [OF Some] sight_first_count [OF Some] count_of_le [of a ds]
    by (simp add: merge_one_def note_addr_def)
next
  case None
  then have n: "sr_addr r \<notin> dv_addr ` set ds" by (simp add: sight_first_None)
  have "card (dv_addr ` set ds) = length ds" using distinct_card [OF assms(1)] by simp
  then have "length ds < MAX_DEVICES" using assms(2) n by simp
  then have m: "merge_one r ds = ds @ [new_device r]" using None by (simp add: merge_one_def)
  have "count_of a (ds @ [new_device r]) = min (2 ^ 32 - 1) (count_of a ds + (if a = sr_addr r then 1 else 0))"
    using n count_append [of a ds "[new_device r]"] count_absent [of a ds] count_of_le [of a ds]
    by (cases "a \<in> dv_addr ` set ds"; cases "a = sr_addr r") (simp_all add: new_device_def)
  then show ?thesis using n by (simp add: m note_addr_def new_device_def)
qed

lemma count_aged: "count_of a (map (age rs) ds) = count_of a ds"
  by (induction ds) (simp_all add: age_def)

lemma note_addr_simps: "set (note_addr a as) = insert a (set as)" "distinct as \<Longrightarrow> distinct (note_addr a as)"
  by (auto simp: note_addr_def)

lemma merge_fold:
  assumes "distinct (map dv_addr ds)" and "card (dv_addr ` set ds \<union> sr_addr ` set rs) \<le> MAX_DEVICES"
  shows "map dv_addr (fold merge_one rs ds) = fold note_addr (map sr_addr rs) (map dv_addr ds)
    \<and> count_of a (fold merge_one rs ds) = min (2 ^ 32 - 1) (count_of a ds + length (filter (\<lambda>r. sr_addr r = a) rs))"
  using assms
proof (induction rs arbitrary: ds)
  case Nil
  then show ?case using count_of_le [of a ds] by simp
next
  case (Cons r rs)
  let ?ds = "merge_one r ds"
  have "card (insert (sr_addr r) (dv_addr ` set ds)) \<le> MAX_DEVICES"
    by (rule le_trans [OF card_mono Cons.prems(2)]) auto
  note m = merge_one_fits [OF Cons.prems(1) this, of a]
  have s: "dv_addr ` set ?ds = insert (sr_addr r) (dv_addr ` set ds)"
    using conjunct1 [OF m] by (metis list.set_map note_addr_simps(1))
  have "distinct (map dv_addr ?ds)" using conjunct1 [OF m] Cons.prems(1) by (simp add: note_addr_simps)
  moreover have "card (dv_addr ` set ?ds \<union> sr_addr ` set rs) \<le> MAX_DEVICES" using Cons.prems(2) by (simp add: s)
  ultimately show ?case using Cons.IH [of ?ds] m by auto
qed

section \<open>Properties\<close>

text \<open>C31: while the plugin is open, whatever calls came before, the list on the screen has one row per
  device, in the order in which they were first seen, with their current label and icon; the edits
  never insert beyond the end of the rows.\<close>
theorem screen_shows_devices:
  assumes "active (scan_run h evs (scan_defaults w))"
  shows "view_of (scan_run h evs (scan_defaults w))
      = map (\<lambda>d. ui_item_of (make_label d) 0 (icon_for d)) (devices (scan_run h evs (scan_defaults w)))
    \<and> \<not> btrapped (scan_run h evs (scan_defaults w))"
proof -
  have "scan_ok (scan_defaults w)"
    by (simp add: scan_ok_def drawn_def scan_defaults_def devices_ok_def plain_rows_def)
  then have "scan_ok (scan_run h evs (scan_defaults w))" by (rule run_keeps_scan)
  then show ?thesis using assms
    by (simp add: scan_ok_def drawn_def build_desired_def row_of_def item_of_def)
qed

text \<open>C32: as long as at most 64 devices were ever seen, a scan round adds to the counter of every
  device the number of its sightings in the round, up to the largest 32-bit number, keeps the order
  of the known devices and appends the new ones in the order of their first sighting.\<close>
theorem merge_counts:
  assumes "distinct (map dv_addr ds)" and "card (dv_addr ` set ds \<union> sr_addr ` set rs) \<le> MAX_DEVICES"
  shows "count_of a (merge_scan rs ds) = min (2 ^ 32 - 1) (count_of a ds + length (filter (\<lambda>r. sr_addr r = a) rs))
    \<and> map dv_addr (merge_scan rs ds) = fold note_addr (map sr_addr rs) (map dv_addr ds)"
proof -
  have "map dv_addr (map (age rs) xs) = map dv_addr xs" for xs by (simp add: age_def)
  then show ?thesis using merge_fold [OF assms, of a]
    by (simp only: merge_scan_def count_aged)
qed

text \<open>At most 64 devices are kept, each once, and every row label has exactly 42 characters, the
  width of the screen.\<close>
theorem scan_bounds:
  "length (devices (scan_run h evs (scan_defaults w))) \<le> 64
   \<and> distinct (map dv_addr (devices (scan_run h evs (scan_defaults w))))
   \<and> list_all (\<lambda>d. length (make_label d) = 42) (devices (scan_run h evs (scan_defaults w)))"
proof -
  have "scan_ok (scan_defaults w)"
    by (simp add: scan_ok_def drawn_def scan_defaults_def devices_ok_def plain_rows_def)
  then have "scan_ok (scan_run h evs (scan_defaults w))" by (rule run_keeps_scan)
  then have ok: "devices_ok (devices (scan_run h evs (scan_defaults w)))" by (simp add: scan_ok_def drawn_def)
  have "length (make_label d) = 42" if "device_ok d" for d
  proof -
    have "unat (dv_count d) < 10 ^ 10" using unsigned_less [of "dv_count d", where 'a = nat] by simp
    then have c: "length (show_nat (unat (dv_count d))) \<le> 10" by (rule length_show_nat) simp
    have "nat \<bar>dv_rssi d\<bar> < 10 ^ 3" using that by (auto simp: device_ok_def nat_less_iff abs_if)
    then have "length (show_nat (nat \<bar>dv_rssi d\<bar>)) \<le> 3" by (rule length_show_nat) simp
    then have "length (show_int (dv_rssi d)) \<le> 4" by (auto simp: show_int_def abs_if)
    then show ?thesis using c by (simp add: make_label_def LABEL_W_def Let_def lit_def)
  qed
  then show ?thesis using ok by (auto simp: devices_ok_def MAX_DEVICES_def list_all_iff)
qed

section \<open>Witnesses\<close>

text \<open>A radio that finds the same two devices in every round.\<close>

definition demo_raw :: "u8 \<Rightarrow> scan_result_raw" where
  "demo_raw n = \<lparr>raw_addr = [n, 0, 0, 0, 0, n], raw_addr_type = 0, raw_rssi = 200, raw_name = [65, n + 65, 0, 7]\<rparr>"

definition demo_scan :: "unit scan_host" where
  "demo_scan = \<lparr>host_ble_is_enabled = \<lambda>w. True, host_ble_scan_start = \<lambda>ms w. (0, w), host_ble_scan_done = \<lambda>w. True,
     host_ble_scan_results = \<lambda>n w. (0, [demo_raw 1, demo_raw 2], 2), host_local_time = \<lambda>w. None,
     host_fs_write = \<lambda>n bs w. (0, w), scan_ui = \<lambda>c w. w, scan_key = lit, scan_core = lit, scan_meta = lit\<rparr>"

theorem screen_shows_devices_witness:
  "view_of (scan_run demo_scan [Enter, Tick 300] (scan_defaults ()))
      = map (\<lambda>d. ui_item_of (make_label d) 0 (icon_for d)) (devices (scan_run demo_scan [Enter, Tick 300] (scan_defaults ())))
    \<and> map dv_name (devices (scan_run demo_scan [Enter, Tick 300] (scan_defaults ()))) = [lit ''AB'', lit ''AC'']"
proof -
  have r: "scan_results demo_scan n w = Inr [scan_result_of (demo_raw 1), scan_result_of (demo_raw 2)]" for n w
    by (simp add: scan_results_def demo_scan_def)
  obtain u t where enter: "run_state (scan_on_enter demo_scan) (scan_defaults ()) = (u, t)" by (rule prod.exhaust)
  have t: "active t" "scanning t" "devices t = []" "last_poll_ms t = 0" "last_ble_enabled t" "shown t = []"
    using enter
    by (auto simp: scan_on_enter_def push_scan_list_def scan_render_def build_desired_def scan_start_def demo_scan_def
      scan_defaults_def check_def)
  obtain v t' where tick: "run_state (scan_on_tick demo_scan 300) t = (v, t')" by (rule prod.exhaust)
  have d: "host_ble_is_enabled demo_scan w" "host_ble_scan_done demo_scan w" for w by (simp_all add: demo_scan_def)
  have t': "active t'" "devices t' = merge_scan [scan_result_of (demo_raw 1), scan_result_of (demo_raw 2)] []"
    using tick t
    by (auto simp: scan_on_tick_def poll_scan_def take_results_def r d sat_sub_def BLE_POLL_MS_def scan_render_def
      split: if_splits)
  have run: "scan_run demo_scan [Enter, Tick 300] (scan_defaults ()) = t'" using enter tick by (simp add: scan_run_def)
  have "map dv_name (devices t') = [lit ''AB'', lit ''AC'']"
    unfolding t'(2) by (simp add: merge_scan_def merge_one_def new_device_def scan_result_of_def demo_raw_def age_def
      MAX_DEVICES_def lit_def)
  then show ?thesis using screen_shows_devices [of demo_scan "[Enter, Tick 300]" "()"] t'(1) by (simp add: run)
qed

theorem merge_counts_witness:
  "count_of [2, 0, 0, 0, 0, 2] (merge_scan (map (\<lambda>n. scan_result_of (demo_raw n)) [1, 2, 2])
     [new_device (scan_result_of (demo_raw 2))]) = 3"
proof -
  let ?rs = "map (\<lambda>n. scan_result_of (demo_raw n)) [1, 2, 2]" and ?ds = "[new_device (scan_result_of (demo_raw 2))]"
  have a: "distinct (map dv_addr ?ds)" by simp
  have "dv_addr ` set ?ds \<union> sr_addr ` set ?rs = {[1, 0, 0, 0, 0, 1], [2, 0, 0, 0, 0, 2]}"
    by (auto simp: scan_result_of_def demo_raw_def new_device_def)
  then have "card (dv_addr ` set ?ds \<union> sr_addr ` set ?rs) \<le> MAX_DEVICES" by (simp add: MAX_DEVICES_def)
  from merge_counts [OF a this, of "[2, 0, 0, 0, 0, 2]"] show ?thesis
    by (simp add: scan_result_of_def demo_raw_def new_device_def)
qed

end
