(* ===== verification/Grove.thy ===== *)
theory Grove
  imports Sdk_Ui Sdk_Store
begin

text \<open>
  The LED strip plugin (\<open>plugins/grove_led/src/lib.rs\<close>): its settings and their storage, the frames
  of the six effects, the menus and the exports.

  The statics are the record \<open>gst\<close>. A call of the strip is a value of \<open>led_call\<close>; \<open>g_leds\<close> and \<open>g_ui\<close>
  are the calls made so far, \<open>g_inhibit\<close> the light-sleep inhibitor as last set. A frame is computed by
  \<open>frame_pixels\<close> from the statics, the time, and what the firmware reports. Arithmetic is that of the
  source's integer types. Log lines are not modelled.
\<close>

section \<open>State\<close>

definition DATA_PIN :: u8 where "DATA_PIN = 2"
definition MAX_LEDS :: nat where "MAX_LEDS = 100"
definition DEFAULT_COUNT :: u8 where "DEFAULT_COUNT = 8"
definition DEFAULT_BRIGHT :: u8 where "DEFAULT_BRIGHT = 64"
definition DEFAULT_LED_SPEED :: u8 where "DEFAULT_LED_SPEED = 50"
definition FRAME_INTERVAL_MS :: u64 where "FRAME_INTERVAL_MS = 20"
definition ET_SYSTEM_SLEEP :: u32 where "ET_SYSTEM_SLEEP = 10"
definition ET_SYSTEM_WAKE :: u32 where "ET_SYSTEM_WAKE = 11"

text \<open>Bits of the event mask (\<open>event.rs\<close>).\<close>

definition SYSTEM_SLEEP :: u32 where "SYSTEM_SLEEP = push_bit 10 1"
definition SYSTEM_WAKE :: u32 where "SYSTEM_WAKE = push_bit 11 1"

definition NVS_ENABLED :: string where "NVS_ENABLED = ''enabled''"
definition NVS_COUNT :: string where "NVS_COUNT = ''count''"
definition NVS_BRIGHT :: string where "NVS_BRIGHT = ''bright''"
definition NVS_R :: string where "NVS_R = ''color_r''"
definition NVS_G :: string where "NVS_G = ''color_g''"
definition NVS_B :: string where "NVS_B = ''color_b''"
definition NVS_EFFECT :: string where "NVS_EFFECT = ''effect''"
definition NVS_LED_SPEED :: string where "NVS_LED_SPEED = ''speed''"

definition ACT_TOP_SELECT :: u32 where "ACT_TOP_SELECT = 1"
definition ACT_COUNT_SAVE :: u32 where "ACT_COUNT_SAVE = 2"
definition ACT_BRIGHT_SAVE :: u32 where "ACT_BRIGHT_SAVE = 3"
definition ACT_COLOR_SAVE :: u32 where "ACT_COLOR_SAVE = 4"
definition ACT_SPEED_SAVE :: u32 where "ACT_SPEED_SAVE = 5"
definition ACT_EFFECT_SELECT :: u32 where "ACT_EFFECT_SELECT = 7"
definition ACT_EVENT :: u32 where "ACT_EVENT = 8"
definition ACT_LOCK_TOGGLE :: u32 where "ACT_LOCK_TOGGLE = 9"

definition ITEM_TOGGLE :: u32 where "ITEM_TOGGLE = 0"
definition ITEM_COUNT :: u32 where "ITEM_COUNT = 1"
definition ITEM_BRIGHT :: u32 where "ITEM_BRIGHT = 2"
definition ITEM_COLOR :: u32 where "ITEM_COLOR = 3"
definition ITEM_EFFECT :: u32 where "ITEM_EFFECT = 4"
definition ITEM_SPEED :: u32 where "ITEM_SPEED = 5"

datatype effect = Rainbow | Static | Blink | Breathing | Random | CpuLoad

definition effect_from_u8 :: "u8 \<Rightarrow> effect" where
  "effect_from_u8 v =
    (if v = 1 then Static else if v = 2 then Blink else if v = 3 then Breathing
     else if v = 4 then Random else if v = 5 then CpuLoad else Rainbow)"

fun effect_u32 :: "effect \<Rightarrow> u32" where
  "effect_u32 Rainbow = 0" | "effect_u32 Static = 1" | "effect_u32 Blink = 2"
| "effect_u32 Breathing = 3" | "effect_u32 Random = 4" | "effect_u32 CpuLoad = 5"

type_synonym rgb = "u8 \<times> u8 \<times> u8"

datatype led_call = Led_init u8 u16 | Led_deinit | Led_set u16 rgb | Led_clear | Led_refresh

record 'w gst =
  gw :: 'w
  g_leds :: "led_call list"
  g_ui :: "ui_call list"
  g_inhibit :: bool
  enabled :: bool
  led_count :: u8
  brightness :: u8
  col_r :: u8
  col_g :: u8
  col_b :: u8
  effect :: effect
  speed :: u8
  rainbow_offset :: u16
  last_frame_ms :: u64
  sleeping :: bool
  dither_acc_r :: u8
  dither_acc_g :: u8
  dither_acc_b :: u8

definition led_defaults :: "'w \<Rightarrow> 'w gst" where
  "led_defaults w = \<lparr>gw = w, g_leds = [], g_ui = [], g_inhibit = False, enabled = False, led_count = DEFAULT_COUNT,
     brightness = DEFAULT_BRIGHT, col_r = 255, col_g = 255, col_b = 255, effect = Rainbow,
     speed = DEFAULT_LED_SPEED, rainbow_offset = 0, last_frame_ms = 0, sleeping = False,
     dither_acc_r = 0, dither_acc_g = 0, dither_acc_b = 0\<rparr>"

record 'w led_host =
  led_store :: "'w store_host"
  host_led :: "led_call \<Rightarrow> 'w \<Rightarrow> int \<times> 'w"
  strip_length :: "'w \<Rightarrow> u16"
  cpu_load :: "'w \<Rightarrow> u8"
  set_sleep_inhibit :: "bool \<Rightarrow> 'w \<Rightarrow> 'w"
  subscribe_events :: "u32 \<Rightarrow> u32 \<Rightarrow> 'w \<Rightarrow> 'w"
  register_lock_action :: "string \<Rightarrow> u32 \<Rightarrow> 'w \<Rightarrow> 'w"
  make_resident :: "'w \<Rightarrow> 'w"
  led_ui :: "ui_call \<Rightarrow> 'w \<Rightarrow> 'w"
  led_input_int :: "'w \<Rightarrow> (int \<times> int) \<times> 'w"
  led_key :: "string \<Rightarrow> ustr"
  led_core :: "string \<Rightarrow> ustr"
  led_meta :: "string \<Rightarrow> ustr"

definition leds :: "'w led_host \<Rightarrow> led_call list \<Rightarrow> ('w gst, unit) state" where
  "leds h cs = modify (\<lambda>st. st\<lparr>gw := fold (\<lambda>c w. snd (host_led h c w)) cs (gw st), g_leds := g_leds st @ cs\<rparr>)"

definition led_show :: "'w led_host \<Rightarrow> ui_call list \<Rightarrow> ('w gst, unit) state" where
  "led_show h cs = modify (\<lambda>st. st\<lparr>gw := fold (led_ui h) cs (gw st), g_ui := g_ui st @ cs\<rparr>)"

definition put_u32 :: "'w led_host \<Rightarrow> string \<Rightarrow> u32 \<Rightarrow> ('w gst, unit) state" where
  "put_u32 h k v = modify (\<lambda>st. st\<lparr>gw := snd (nvs_set_u32 (led_store h) k v (gw st))\<rparr>)"

section \<open>Settings\<close>

definition clamp_count :: "u8 \<Rightarrow> u8" where
  "clamp_count v = (if v = 0 then 1 else if unat v > MAX_LEDS then of_nat MAX_LEDS else v)"

text \<open>\<open>clamp(1, 100)\<close> on bytes, \<open>clamp(lo, hi)\<close> on \<open>i32\<close>.\<close>

definition clamp_speed :: "u8 \<Rightarrow> u8" where
  "clamp_speed v = (if v < 1 then 1 else if 100 < v then 100 else v)"

definition clamp_int :: "int \<Rightarrow> int \<Rightarrow> int \<Rightarrow> int" where
  "clamp_int lo hi v = (if v < lo then lo else if hi < v then hi else v)"

definition load_led_state :: "'w led_host \<Rightarrow> 'w gst \<Rightarrow> 'w gst" where
  "load_led_state h st =
    (let get = (\<lambda>k. nvs_get_u32 (led_store h) k (gw st));
         st = (case get NVS_ENABLED of Some v \<Rightarrow> st\<lparr>enabled := (v \<noteq> 0)\<rparr> | None \<Rightarrow> st);
         st = (case get NVS_COUNT of Some v \<Rightarrow> st\<lparr>led_count := clamp_count (ucast v)\<rparr> | None \<Rightarrow> st);
         st = (case get NVS_BRIGHT of Some v \<Rightarrow> st\<lparr>brightness := ucast v\<rparr> | None \<Rightarrow> st);
         st = (case get NVS_R of Some v \<Rightarrow> st\<lparr>col_r := ucast v\<rparr> | None \<Rightarrow> st);
         st = (case get NVS_G of Some v \<Rightarrow> st\<lparr>col_g := ucast v\<rparr> | None \<Rightarrow> st);
         st = (case get NVS_B of Some v \<Rightarrow> st\<lparr>col_b := ucast v\<rparr> | None \<Rightarrow> st);
         st = (case get NVS_EFFECT of Some v \<Rightarrow> st\<lparr>effect := effect_from_u8 (ucast v)\<rparr> | None \<Rightarrow> st)
     in (case get NVS_LED_SPEED of Some v \<Rightarrow> st\<lparr>speed := clamp_speed (ucast v)\<rparr> | None \<Rightarrow> st))"

definition needs_cpu :: "effect \<Rightarrow> bool" where
  "needs_cpu e \<longleftrightarrow> e \<noteq> Static \<and> e \<noteq> CpuLoad"

definition update_caffeinate :: "'w led_host \<Rightarrow> ('w gst, unit) state" where
  "update_caffeinate h = modify (\<lambda>st.
     st\<lparr>gw := set_sleep_inhibit h (enabled st \<and> needs_cpu (effect st)) (gw st),
        g_inhibit := enabled st \<and> needs_cpu (effect st)\<rparr>)"

section \<open>Colours\<close>

definition phase_divisor :: "u8 \<Rightarrow> u64" where
  "phase_divisor sp = max (102 - ucast (max sp 1)) 2"

definition random_interval :: "u8 \<Rightarrow> u64" where
  "random_interval sp = max ((101 - ucast sp) * 6) 1"

definition xorshift64 :: "u64 \<Rightarrow> u64" where
  "xorshift64 x0 = (let x = x0 XOR push_bit 13 x0; x = x XOR drop_bit 7 x in x XOR push_bit 17 x)"

definition apply_brightness :: "u8 \<Rightarrow> u8 \<Rightarrow> u8" where
  "apply_brightness c b = ucast ((ucast c * ucast b :: u16) div 255)"

definition hsv_to_rgb :: "u16 \<Rightarrow> u8 \<Rightarrow> u8 \<Rightarrow> rgb" where
  "hsv_to_rgb hue sat v =
    (let region = (hue div 60) mod 6;
         remainder = (ucast (hue mod 60) * 255 :: u32) div 60;
         p = ucast ((ucast v * (255 - ucast sat) :: u32) div 255);
         q = ucast ((ucast v * (255 - (ucast sat * remainder) div 255) :: u32) div 255);
         t = ucast ((ucast v * (255 - (ucast sat * (255 - remainder)) div 255) :: u32) div 255)
     in if region = 0 then (v, t, p)
        else if region = 1 then (q, v, p)
        else if region = 2 then (p, v, t)
        else if region = 3 then (p, q, v)
        else if region = 4 then (t, p, v)
        else (v, p, q))"

text \<open>\<open>saturating_mul(2)\<close>.\<close>

definition sat_double :: "u8 \<Rightarrow> u8" where
  "sat_double x = (if x \<ge> 128 then 255 else x * 2)"

definition breath_curve :: "u8 \<Rightarrow> u8" where
  "breath_curve phase = (if phase < 128 then sat_double phase else sat_double (255 - phase))"

text \<open>The dimmed value and the new accumulator.\<close>

definition dim_dither :: "u16 \<Rightarrow> u8 \<Rightarrow> u8 \<times> u8" where
  "dim_dither target acc =
    (let target_lo = ucast (drop_bit 8 target);
         frac = target AND 0xFF;
         sum = ucast acc + frac
     in if sum < frac \<or> sum \<ge> 256 then (sat_inc target_lo, ucast (sum AND 0xFF))
        else (target_lo, ucast sum))"

definition breath_target :: "u8 \<Rightarrow> u8 \<Rightarrow> u8 \<Rightarrow> u16" where
  "breath_target c curve b = ucast ((ucast c * ucast curve * ucast b :: u32) div 255)"

section \<open>Frames\<close>

definition rainbow_pixel :: "'w gst \<Rightarrow> u16 \<Rightarrow> rgb" where
  "rainbow_pixel st i =
     hsv_to_rgb (ucast ((ucast (rainbow_offset st) + (ucast i * 360) div ucast (led_count st) :: u32) mod 360)) 255
       (brightness st)"

definition SEED :: u64 where "SEED = 0x9E3779B97F4A7C15"

definition random_pixel :: "u64 \<Rightarrow> u8 \<Rightarrow> rgb" where
  "random_pixel v b = (if v AND 3 = 0 then (0, 0, 0) else hsv_to_rgb (ucast (drop_bit 8 v mod 360)) 255 b)"

fun random_pixels :: "nat \<Rightarrow> u64 \<Rightarrow> u8 \<Rightarrow> rgb list" where
  "random_pixels 0 rng b = []"
| "random_pixels (Suc n) rng b = random_pixel (xorshift64 rng) b # random_pixels n (xorshift64 rng) b"

definition dimmed_colour :: "'w gst \<Rightarrow> rgb" where
  "dimmed_colour st = (apply_brightness (col_r st) (brightness st), apply_brightness (col_g st) (brightness st),
     apply_brightness (col_b st) (brightness st))"

definition load_pixel :: "'w gst \<Rightarrow> u64 \<Rightarrow> u8 \<Rightarrow> u64 \<Rightarrow> rgb" where
  "load_pixel st now load8 i =
    (let load = ucast load8 :: u64;
         interval = max (sat_sub 600 (load * 5)) 50;
         threshold = 25 + load * 55 div 100;
         bucket = (now + i * 37) div interval;
         rng = bucket XOR ((i + 1) * SEED);
         rng = (if rng = 0 then SEED else rng)
     in if xorshift64 rng mod 100 < threshold then dimmed_colour st else (0, 0, 0))"

text \<open>The colours of the first \<open>n\<close> pixels, and the statics after the frame.\<close>

definition frame_pixels :: "'w gst \<Rightarrow> u64 \<Rightarrow> u8 \<Rightarrow> nat \<Rightarrow> rgb list \<times> 'w gst" where
  "frame_pixels st now load n =
    (case effect st of
       Rainbow \<Rightarrow>
         (map (\<lambda>i. rainbow_pixel st (of_nat i)) [0..<n],
          st\<lparr>rainbow_offset := (rainbow_offset st + max (of_nat (div_ceil (unat (speed st)) 10)) 1) mod 360\<rparr>)
     | Static \<Rightarrow> (replicate n (dimmed_colour st), st)
     | Blink \<Rightarrow> (replicate n (if (now div 500) mod 2 = 0 then dimmed_colour st else (0, 0, 0)), st)
     | Breathing \<Rightarrow>
         (let curve = breath_curve (ucast ((now div phase_divisor (speed st)) mod 256));
              (r, ar) = dim_dither (breath_target (col_r st) curve (brightness st)) (dither_acc_r st);
              (g, ag) = dim_dither (breath_target (col_g st) curve (brightness st)) (dither_acc_g st);
              (b, ab) = dim_dither (breath_target (col_b st) curve (brightness st)) (dither_acc_b st)
          in (replicate n (r, g, b), st\<lparr>dither_acc_r := ar, dither_acc_g := ag, dither_acc_b := ab\<rparr>))
     | Random \<Rightarrow>
         (let rng = (now div random_interval (speed st)) XOR SEED
          in (random_pixels n (if rng = 0 then SEED else rng) (brightness st), st))
     | CpuLoad \<Rightarrow> (map (\<lambda>i. load_pixel st now load (of_nat i)) [0..<n], st))"

text \<open>The pixels up to the count, then black ones to the end of the strip.\<close>

definition frame_calls :: "rgb list \<Rightarrow> nat \<Rightarrow> led_call list" where
  "frame_calls px len =
     map (\<lambda>(i, c). Led_set (of_nat i) c) (enumerate 0 px) @
     map (\<lambda>i. Led_set (of_nat i) (0, 0, 0)) [length px..<len] @ [Led_refresh]"

definition render_frame :: "'w led_host \<Rightarrow> u64 \<Rightarrow> ('w gst, unit) state" where
  "render_frame h now = do {
     modify (\<lambda>st. st\<lparr>last_frame_ms := now\<rparr>);
     off \<leftarrow> gets (\<lambda>st. \<not> enabled st \<or> led_count st = 0);
     if off then leds h [Led_clear, Led_refresh]
     else do {
       st \<leftarrow> gets (\<lambda>st. st);
       let len = unat (strip_length h (gw st));
       let (px, st') = frame_pixels st now (cpu_load h (gw st)) (min len (unat (led_count st)));
       modify (\<lambda>_. st');
       leds h (frame_calls px len)
     }
   }"

section \<open>Menus\<close>

definition toggle_label :: "'w led_host \<Rightarrow> bool \<Rightarrow> ustr" where
  "toggle_label h on = led_key h ''menu_enable'' @ lit '': '' @ (if on then led_core h ''core.on'' else led_core h ''core.off'')"

definition toggle_icon :: "bool \<Rightarrow> u8" where
  "toggle_icon on = (if on then UI_ICON_SUCCESS else UI_ICON_CIRCLE)"

definition refresh_toggle_row :: "'w led_host \<Rightarrow> ('w gst, unit) state" where
  "refresh_toggle_row h = do {
     on \<leftarrow> gets enabled;
     led_show h (update_list_item (ucast ITEM_TOGGLE) (toggle_label h on) ITEM_TOGGLE (toggle_icon on))
   }"

definition show_top_menu :: "'w led_host \<Rightarrow> ('w gst, unit) state" where
  "show_top_menu h = do {
     on \<leftarrow> gets enabled;
     led_show h (list_replace
       (list_item (led_key h ''menu_speed'') ITEM_SPEED UI_ICON_LEFTRIGHT
       (list_item (led_key h ''menu_effect'') ITEM_EFFECT UI_ICON_NOTES
       (list_item (led_key h ''menu_color'') ITEM_COLOR UI_ICON_DIAMOND
       (list_item (led_core h ''core.brightness'') ITEM_BRIGHT UI_ICON_SUN
       (list_item (led_key h ''menu_count'') ITEM_COUNT UI_ICON_BAR
       (list_item (toggle_label h on) ITEM_TOGGLE (toggle_icon on)
       (list_on_select ACT_TOP_SELECT (list_new (led_meta h ''name''))))))))))
   }"

definition show_speed_slider :: "'w led_host \<Rightarrow> ('w gst, unit) state" where
  "show_speed_slider h = do {
     v \<leftarrow> gets speed;
     led_show h (slider_push (slider_on_save ACT_SPEED_SAVE (slider_unit (lit ''%'') (slider_step 5
       (slider_initial (uint v) (slider_range 1 100 (slider_new (led_key h ''menu_speed''))))))))
   }"

definition show_count_slider :: "'w led_host \<Rightarrow> ('w gst, unit) state" where
  "show_count_slider h = do {
     v \<leftarrow> gets led_count;
     led_show h (slider_push (slider_on_save ACT_COUNT_SAVE (slider_step 1
       (slider_initial (uint v) (slider_range 1 (int MAX_LEDS) (slider_new (led_key h ''menu_count'')))))))
   }"

definition show_bright_slider :: "'w led_host \<Rightarrow> ('w gst, unit) state" where
  "show_bright_slider h = do {
     v \<leftarrow> gets brightness;
     led_show h (slider_push (slider_on_save ACT_BRIGHT_SAVE (slider_step 5
       (slider_initial (uint v) (slider_range 0 255 (slider_new (led_core h ''core.brightness'')))))))
   }"

definition show_color_picker :: "'w led_host \<Rightarrow> ('w gst, unit) state" where
  "show_color_picker h = do {
     st \<leftarrow> gets (\<lambda>st. st);
     led_show h (push_color_picker (col_r st) (col_g st) (col_b st) ACT_COLOR_SAVE)
   }"

definition show_effect_menu :: "'w led_host \<Rightarrow> ('w gst, unit) state" where
  "show_effect_menu h = led_show h (list_push
     (list_item (led_key h ''effect_cpuload'') 5 UI_ICON_BAR
     (list_item (led_key h ''effect_random'') 4 UI_ICON_ALERT
     (list_item (led_key h ''effect_breathing'') 3 UI_ICON_UPDOWN
     (list_item (led_key h ''effect_blink'') 2 UI_ICON_ALERT
     (list_item (led_key h ''effect_static'') 1 UI_ICON_CIRCLE
     (list_item (led_key h ''effect_rainbow'') 0 UI_ICON_DIAMOND
     (list_on_select ACT_EFFECT_SELECT (list_new (led_key h ''menu_effect''))))))))))"

definition toast_saved :: "'w led_host \<Rightarrow> ('w gst, unit) state" where
  "toast_saved h = led_show h (push_toast (led_core h ''core.saved'') UI_ICON_SUCCESS 600)"

section \<open>Exports\<close>

definition go_dark :: "'w led_host \<Rightarrow> ('w gst, unit) state" where
  "go_dark h = leds h [Led_clear, Led_refresh]"

text \<open>The result code of the call, which is also logged.\<close>

definition strip_init :: "'w led_host \<Rightarrow> ('w gst, int) state" where
  "strip_init h = State (\<lambda>st. case host_led h (Led_init DATA_PIN (ucast (led_count st))) (gw st) of
     (rc, w) \<Rightarrow> (rc, st\<lparr>gw := w, g_leds := g_leds st @ [Led_init DATA_PIN (ucast (led_count st))]\<rparr>))"

definition led_plugin_init :: "'w led_host \<Rightarrow> ('w gst, int) state" where
  "led_plugin_init h = do {
     modify (load_led_state h);
     rc \<leftarrow> strip_init h;
     if rc \<noteq> 0 then ret (-1)
     else do {
       modify (\<lambda>st. st\<lparr>gw := make_resident h (register_lock_action h ''menu_enable'' ACT_LOCK_TOGGLE
         (subscribe_events h (SYSTEM_SLEEP OR SYSTEM_WAKE) ACT_EVENT (gw st)))\<rparr>);
       update_caffeinate h;
       ret 0
     }
   }"

definition led_plugin_deinit :: "'w led_host \<Rightarrow> ('w gst, unit) state" where
  "led_plugin_deinit h = do { go_dark h; leds h [Led_deinit] }"

definition led_on_enter :: "'w led_host \<Rightarrow> ('w gst, unit) state" where
  "led_on_enter h = show_top_menu h"

definition led_on_exit :: "'w led_host \<Rightarrow> ('w gst, unit) state" where
  "led_on_exit h = ret ()"

definition led_on_tick :: "'w led_host \<Rightarrow> u64 \<Rightarrow> ('w gst, unit) state" where
  "led_on_tick h now = do {
     skip \<leftarrow> gets (\<lambda>st. sleeping st \<or> sat_sub now (last_frame_ms st) < FRAME_INTERVAL_MS);
     whenM (\<not> skip) (render_frame h now)
   }"

definition toggle_enabled :: "'w led_host \<Rightarrow> ('w gst, unit) state" where
  "toggle_enabled h = do {
     modify (\<lambda>st. st\<lparr>enabled := \<not> enabled st\<rparr>);
     on \<leftarrow> gets enabled;
     put_u32 h NVS_ENABLED (if on then 1 else 0);
     whenM (\<not> on) (go_dark h);
     update_caffeinate h
   }"

definition on_system_event :: "'w led_host \<Rightarrow> u32 \<Rightarrow> ('w gst, unit) state" where
  "on_system_event h ev =
    (if ev = ET_SYSTEM_SLEEP then do { modify (\<lambda>st. st\<lparr>sleeping := True\<rparr>); go_dark h }
     else if ev = ET_SYSTEM_WAKE then modify (\<lambda>st. st\<lparr>sleeping := False\<rparr>)
     else ret ())"

definition on_top_select :: "'w led_host \<Rightarrow> u32 \<Rightarrow> ('w gst, unit) state" where
  "on_top_select h idx =
    (if idx = ITEM_TOGGLE then do { toggle_enabled h; refresh_toggle_row h }
     else if idx = ITEM_COUNT then show_count_slider h
     else if idx = ITEM_BRIGHT then show_bright_slider h
     else if idx = ITEM_COLOR then show_color_picker h
     else if idx = ITEM_EFFECT then show_effect_menu h
     else if idx = ITEM_SPEED then show_speed_slider h
     else ret ())"

definition input_value :: "'w led_host \<Rightarrow> ('w gst, int option) state" where
  "input_value h = State (\<lambda>st. case run_state (consume_input_int (led_input_int h)) (gw st) of
     (v, w) \<Rightarrow> (v, st\<lparr>gw := w\<rparr>))"

definition save_count :: "'w led_host \<Rightarrow> int \<Rightarrow> ('w gst, unit) state" where
  "save_count h v = do {
     modify (\<lambda>st. st\<lparr>led_count := clamp_count (of_int (clamp_int 1 (int MAX_LEDS) v))\<rparr>);
     n \<leftarrow> gets led_count;
     put_u32 h NVS_COUNT (ucast n);
     _ \<leftarrow> strip_init h;
     toast_saved h
   }"

definition save_bright :: "'w led_host \<Rightarrow> int \<Rightarrow> ('w gst, unit) state" where
  "save_bright h v = do {
     modify (\<lambda>st. st\<lparr>brightness := of_int (clamp_int 0 255 v)\<rparr>);
     b \<leftarrow> gets brightness;
     put_u32 h NVS_BRIGHT (ucast b);
     toast_saved h
   }"

definition save_color :: "'w led_host \<Rightarrow> int \<Rightarrow> ('w gst, unit) state" where
  "save_color h v = do {
     let p = (of_int v :: u32);
     let r = ucast (drop_bit 16 p AND 0xFF);
     let g = ucast (drop_bit 8 p AND 0xFF);
     let b = ucast (p AND 0xFF);
     modify (\<lambda>st. st\<lparr>col_r := r, col_g := g, col_b := b, effect := Static\<rparr>);
     put_u32 h NVS_R (ucast r);
     put_u32 h NVS_G (ucast g);
     put_u32 h NVS_B (ucast b);
     put_u32 h NVS_EFFECT (effect_u32 Static);
     update_caffeinate h;
     toast_saved h
   }"

definition save_effect :: "'w led_host \<Rightarrow> u32 \<Rightarrow> ('w gst, unit) state" where
  "save_effect h idx = do {
     modify (\<lambda>st. st\<lparr>effect := effect_from_u8 (ucast idx)\<rparr>);
     e \<leftarrow> gets effect;
     put_u32 h NVS_EFFECT (effect_u32 e);
     update_caffeinate h;
     toast_saved h
   }"

definition save_speed :: "'w led_host \<Rightarrow> int \<Rightarrow> ('w gst, unit) state" where
  "save_speed h v = do {
     modify (\<lambda>st. st\<lparr>speed := clamp_speed (of_int v)\<rparr>);
     sp \<leftarrow> gets speed;
     put_u32 h NVS_LED_SPEED (ucast sp);
     toast_saved h
   }"

definition on_input :: "'w led_host \<Rightarrow> (int \<Rightarrow> ('w gst, unit) state) \<Rightarrow> ('w gst, unit) state" where
  "on_input h save = do {
     v \<leftarrow> input_value h;
     case v of Some v \<Rightarrow> save v | None \<Rightarrow> ret ()
   }"

definition led_on_action :: "'w led_host \<Rightarrow> u32 \<Rightarrow> u32 \<Rightarrow> ('w gst, unit) state" where
  "led_on_action h act idx =
    (if act = ACT_LOCK_TOGGLE then toggle_enabled h
     else if act = ACT_EVENT then on_system_event h idx
     else if act = ACT_TOP_SELECT then on_top_select h idx
     else if act = ACT_COUNT_SAVE then on_input h (save_count h)
     else if act = ACT_BRIGHT_SAVE then on_input h (save_bright h)
     else if act = ACT_COLOR_SAVE then on_input h (save_color h)
     else if act = ACT_EFFECT_SELECT then save_effect h idx
     else if act = ACT_SPEED_SAVE then on_input h (save_speed h)
     else ret ())"

end
