(* ===== verification/Grove_Laws.thy ===== *)
theory Grove_Laws
  imports Grove
begin

text \<open>
  The laws of the LED plugin. A strip is a frame buffer and the LEDs themselves; \<open>strip_step\<close>
  is the documented effect of each call (\<open>sdk/cdc-badge-plugin/src/pixel_strip.rs\<close>), and \<open>strip_of\<close>
  runs it over the calls made so far. \<open>led_colour\<close> gives the colour of one LED from the settings and the
  time, without the loops of the code.
\<close>

section \<open>The strip\<close>

abbreviation black :: rgb where
  "black \<equiv> (0, 0, 0)"

fun strip_step :: "led_call \<Rightarrow> rgb list \<times> (nat \<Rightarrow> rgb) \<Rightarrow> rgb list \<times> (nat \<Rightarrow> rgb)" where
  "strip_step (Led_init _ n) (buf, glow) = (if length buf = unat n then buf else replicate (unat n) black, glow)"
| "strip_step Led_deinit (buf, glow) = ([], glow)"
| "strip_step (Led_set i c) (buf, glow) = (buf[unat i := c], glow)"
| "strip_step Led_clear (buf, glow) = (replicate (length buf) black, glow)"
| "strip_step Led_refresh (buf, glow) = (buf, \<lambda>i. if i < length buf then buf ! i else glow i)"

definition strip_of :: "led_call list \<Rightarrow> rgb list \<times> (nat \<Rightarrow> rgb)" where
  "strip_of cs = fold strip_step cs ([], \<lambda>_. black)"

abbreviation led_at :: "'w gst \<Rightarrow> nat \<Rightarrow> rgb" where
  "led_at st i \<equiv> snd (strip_of (g_leds st)) i"

abbreviation strip_size :: "'w gst \<Rightarrow> nat" where
  "strip_size st \<equiv> length (fst (strip_of (g_leds st)))"

lemma strip_of_append: "strip_of (xs @ ys) = fold strip_step ys (strip_of xs)"
  by (simp add: strip_of_def)

lemma set_run:
  "k + length px \<le> length buf \<Longrightarrow> length buf < 2 ^ 16 \<Longrightarrow>
   fold strip_step (map (\<lambda>(i, c). Led_set (of_nat i) c) (enumerate k px)) (buf, glow)
     = (take k buf @ px @ drop (k + length px) buf, glow)"
proof (induction px arbitrary: k buf)
  case (Cons c px)
  have k: "unat (of_nat k :: u16) = k" using Cons.prems by (simp add: unat_of_nat take_bit_eq_mod)
  have "fold strip_step (map (\<lambda>(i, c). Led_set (of_nat i) c) (enumerate (Suc k) px)) (buf[k := c], glow)
      = (take (Suc k) (buf[k := c]) @ px @ drop (Suc k + length px) (buf[k := c]), glow)"
    using Cons.prems by (intro Cons.IH) simp_all
  moreover have "take (Suc k) (buf[k := c]) = take k buf @ [c]"
    using Cons.prems by (simp add: take_Suc_conv_app_nth list_update_append)
  ultimately show ?case using Cons.prems k by (simp add: drop_update_cancel)
qed simp

lemma frame_strip:
  assumes "length px \<le> length buf" and "length buf < 2 ^ 16"
  shows "fold strip_step (frame_calls px (length buf)) (buf, glow) =
    (let out = px @ replicate (length buf - length px) black
     in (out, \<lambda>i. if i < length buf then out ! i else glow i))"
proof -
  let ?m = "length buf - length px"
  have e: "map (\<lambda>i. Led_set (of_nat i) black) [length px..<length buf]
      = map (\<lambda>(i, c). Led_set (of_nat i) c) (enumerate (length px) (replicate ?m black))"
    using assms(1) by (intro nth_equalityI) (simp_all add: nth_enumerate_eq)
  have "fold strip_step (map (\<lambda>(i, c). Led_set (of_nat i) c) (enumerate 0 px)) (buf, glow)
      = (px @ drop (length px) buf, glow)"
    using set_run [of 0 px buf glow] assms by simp
  moreover have "fold strip_step (map (\<lambda>i. Led_set (of_nat i) black) [length px..<length buf])
      (px @ drop (length px) buf, glow) = (px @ replicate ?m black, glow)"
    unfolding e using set_run [of "length px" "replicate ?m black" "px @ drop (length px) buf" glow] assms by simp
  ultimately show ?thesis using assms(1) by (simp add: frame_calls_def Let_def)
qed

section \<open>The colour of an LED\<close>

definition led_colour :: "'w gst \<Rightarrow> u64 \<Rightarrow> u8 \<Rightarrow> nat \<Rightarrow> rgb" where
  "led_colour st now load i =
    (case effect st of
       Rainbow \<Rightarrow> rainbow_pixel st (of_nat i)
     | Static \<Rightarrow> dimmed_colour st
     | Blink \<Rightarrow> if (now div 500) mod 2 = 0 then dimmed_colour st else black
     | Breathing \<Rightarrow>
         let curve = breath_curve (ucast ((now div phase_divisor (speed st)) mod 256));
             dim = (\<lambda>c acc. fst (dim_dither (breath_target c curve (brightness st)) acc))
         in (dim (col_r st) (dither_acc_r st), dim (col_g st) (dither_acc_g st), dim (col_b st) (dither_acc_b st))
     | Random \<Rightarrow>
         let rng = (now div random_interval (speed st)) XOR SEED
         in random_pixel ((xorshift64 ^^ Suc i) (if rng = 0 then SEED else rng)) (brightness st)
     | CpuLoad \<Rightarrow> load_pixel st now load (of_nat i))"

lemma random_pixels_nth: "i < n \<Longrightarrow> random_pixels n rng b ! i = random_pixel ((xorshift64 ^^ Suc i) rng) b"
proof (induction n arbitrary: i rng)
  case (Suc n)
  then show ?case by (cases i) (simp_all add: funpow_swap1)
qed simp

lemma length_random_pixels [simp]: "length (random_pixels n rng b) = n"
  by (induction n arbitrary: rng) simp_all

lemma length_pixels [simp]: "length (fst (frame_pixels st now load n)) = n"
  by (simp add: frame_pixels_def Let_def split: effect.split prod.split)

lemma frame_nth: "i < n \<Longrightarrow> fst (frame_pixels st now load n) ! i = led_colour st now load i"
  by (simp add: frame_pixels_def led_colour_def Let_def random_pixels_nth split: effect.split prod.split)

lemma frame_keeps:
  assumes "frame_pixels st now load n = (px, st')"
  shows "gw st' = gw st \<and> g_leds st' = g_leds st \<and> g_ui st' = g_ui st \<and> g_inhibit st' = g_inhibit st
    \<and> enabled st' = enabled st \<and> led_count st' = led_count st \<and> brightness st' = brightness st
    \<and> col_r st' = col_r st \<and> col_g st' = col_g st \<and> col_b st' = col_b st \<and> effect st' = effect st
    \<and> speed st' = speed st \<and> sleeping st' = sleeping st \<and> last_frame_ms st' = last_frame_ms st"
  using assms by (auto simp: frame_pixels_def Let_def split: effect.splits prod.splits)

section \<open>Frames\<close>

lemma run_leds [simp]:
  "run_state (leds h cs) st = ((), st\<lparr>gw := fold (\<lambda>c w. snd (host_led h c w)) cs (gw st), g_leds := g_leds st @ cs\<rparr>)"
  by (simp add: leds_def)

lemma colour_time [simp]: "led_colour (st\<lparr>last_frame_ms := t\<rparr>) now load i = led_colour st now load i"
proof -
  have d: "dimmed_colour (st\<lparr>last_frame_ms := t\<rparr>) = dimmed_colour st" by (simp add: dimmed_colour_def)
  then have "load_pixel (st\<lparr>last_frame_ms := t\<rparr>) now load j = load_pixel st now load j" for j
    by (simp add: load_pixel_def Let_def)
  then show ?thesis by (simp add: led_colour_def d rainbow_pixel_def cong: effect.case_cong)
qed

lemma black_strip: "fold strip_step [Led_clear, Led_refresh] (buf, glow) =
    (replicate (length buf) black, \<lambda>i. if i < length buf then black else glow i)"
  by auto

text \<open>The colour the plugin means LED \<open>i\<close> to have at time \<open>now\<close>.\<close>

definition wanted :: "'w led_host \<Rightarrow> 'w gst \<Rightarrow> u64 \<Rightarrow> nat \<Rightarrow> rgb" where
  "wanted h st now i =
    (if enabled st \<and> i < unat (led_count st) then led_colour st now (cpu_load h (gw st)) i else black)"

lemma render_strip:
  assumes size: "strip_size st = unat (strip_length h (gw st))" and run: "run_state (render_frame h now) st = (u, st')"
  shows "strip_size st' = strip_size st \<and> led_at st' = (\<lambda>i. if i < strip_size st then wanted h st now i else led_at st i)"
proof -
  obtain buf glow where s: "strip_of (g_leds st) = (buf, glow)" by (rule prod.exhaust)
  show ?thesis
  proof (cases "\<not> enabled st \<or> led_count st = 0")
    case True
    then have "strip_of (g_leds st') = fold strip_step [Led_clear, Led_refresh] (buf, glow)"
      using run s by (auto simp: render_frame_def strip_of_append)
    moreover have "wanted h st now i = black" for i using True by (auto simp: wanted_def)
    ultimately show ?thesis using s by auto
  next
    case False
    let ?st = "st\<lparr>last_frame_ms := now\<rparr>" and ?len = "unat (strip_length h (gw st))"
    let ?n = "min ?len (unat (led_count st))" and ?load = "cpu_load h (gw st)"
    obtain px st1 where f: "frame_pixels ?st now ?load ?n = (px, st1)" by (rule prod.exhaust)
    have b: "length buf = ?len" "?len < 2 ^ 16"
      using size s unsigned_less [of "strip_length h (gw st)", where 'a = nat] by simp_all
    have px: "length px = ?n" "i < ?n \<Longrightarrow> px ! i = led_colour st now ?load i" for i
      using length_pixels [of ?st now ?load ?n] frame_nth [of i ?n ?st now ?load] f
      by simp_all
    have g: "g_leds st1 = g_leds st" using frame_keeps [OF f] by simp
    have "strip_of (g_leds st') = fold strip_step (frame_calls px (length buf)) (buf, glow)"
      using run False f g b s by (auto simp: render_frame_def Let_def strip_of_append)
    also have "\<dots> = (let out = px @ replicate (length buf - length px) black
       in (out, \<lambda>i. if i < length buf then out ! i else glow i))"
      using px(1) b by (intro frame_strip) simp_all
    finally show ?thesis using s px False b by (auto simp: Let_def nth_append wanted_def fun_eq_iff)
  qed
qed

section \<open>Brightness\<close>

definition dimmer :: "u8 \<Rightarrow> rgb \<Rightarrow> bool" where
  "dimmer b c \<longleftrightarrow> (case c of (r, g, bl) \<Rightarrow> r \<le> b \<and> g \<le> b \<and> bl \<le> b)"

lemma unat_up [simp]:
  "unat (ucast (x :: u8) :: u16) = unat x" "unat (ucast (x :: u8) :: u32) = unat x" "unat (ucast (y :: u16) :: u32) = unat y"
  using unat_u8 [of x] unsigned_less [of y, where 'a = nat]
  by (simp_all add: unsigned_ucast_eq take_bit_eq_mod)

lemma down_le: "unat w \<le> unat b \<Longrightarrow> (ucast w :: u8) \<le> b" for w :: "'a::len word"
proof -
  have "unat (ucast w :: u8) \<le> unat w" by (simp add: unsigned_ucast_eq take_bit_eq_mod)
  then show "unat w \<le> unat b \<Longrightarrow> (ucast w :: u8) \<le> b" by (simp add: word_le_nat_alt)
qed

lemma scale_le: "k \<le> 255 \<Longrightarrow> v * k div 255 \<le> (v :: nat)"
  using div_le_mono [of "v * k" "v * 255" 255] by simp

lemma apply_brightness_le: "apply_brightness c b \<le> b"
proof -
  have "unat c * unat b \<le> 255 * 255" using unat_u8 [of c] unat_u8 [of b] by (intro mult_le_mono) simp_all
  then have "unat ((ucast c * ucast b :: u16) div 255) = unat b * unat c div 255"
    by (simp add: unat_div_distrib unat_word_ariths mult.commute)
  moreover have "unat b * unat c div 255 \<le> unat b" using unat_u8 [of c] by (intro scale_le) simp
  ultimately show ?thesis unfolding apply_brightness_def by (intro down_le) simp
qed

lemma scaled_word:
  assumes "unat k \<le> 255" shows "unat ((ucast v * k :: u32) div 255) = unat (v :: u8) * unat k div 255"
proof -
  have "unat v * unat k \<le> 255 * 255" using assms unat_u8 [of v] by (intro mult_le_mono) simp_all
  then show ?thesis by (simp add: unat_div_distrib unat_word_ariths)
qed

lemma scaled_le: "unat k \<le> 255 \<Longrightarrow> (ucast ((ucast v * k :: u32) div 255) :: u8) \<le> v"
  by (intro down_le) (simp add: scaled_word scale_le)

lemma unat_255_minus: "unat k \<le> 255 \<Longrightarrow> unat (255 - k) \<le> 255" for k :: u32
  by (simp add: unat_sub word_le_nat_alt)

lemma part_le: "unat r \<le> 255 \<Longrightarrow> unat ((ucast (sat :: u8) * r :: u32) div 255) \<le> 255"
  using unat_u8 [of sat] scale_le [of "unat r" "unat sat"] by (simp add: scaled_word)

lemma hue_part: "unat ((ucast (hue mod 60 :: u16) * 255 :: u32) div 60) \<le> 255"
proof -
  have "unat (hue mod 60) < 60" by (simp add: unat_mod_distrib)
  then show ?thesis by (simp add: unat_div_distrib unat_word_ariths)
qed

lemma hsv_le: "dimmer v (hsv_to_rgb hue sat v)"
proof -
  have "unat (ucast sat :: u32) \<le> 255" using unat_u8 [of sat] by simp
  then show ?thesis
    by (simp add: dimmer_def hsv_to_rgb_def Let_def scaled_le unat_255_minus part_le hue_part)
qed

lemma breath_target_le: "unat (breath_target c curve b) \<le> unat curve * unat b"
proof -
  have cc: "unat c * unat curve \<le> 255 * 255" using unat_u8 [of c] unat_u8 [of curve] by (intro mult_le_mono) simp_all
  then have "unat c * unat curve * unat b \<le> 255 * 255 * 255" 
    using mult_le_mono [of "unat c * unat curve" "255 * 255" "unat b" 255] unat_u8 [of b] by simp
  with cc have "unat ((ucast c * ucast curve * ucast b :: u32) div 255) = unat curve * unat b * unat c div 255"
    by (simp add: unat_div_distrib unat_word_ariths mult.commute mult.left_commute)
  also have "\<dots> \<le> unat curve * unat b" using unat_u8 [of c] by (intro scale_le) simp
  finally show ?thesis
    by (simp add: breath_target_def unsigned_ucast_eq take_bit_eq_mod order_trans [OF mod_less_eq_dividend])
qed

lemma curve_le: "unat (breath_curve phase) \<le> 254"
proof -
  have double: "unat (x :: u8) < 128 \<Longrightarrow> unat (sat_double x) \<le> 254" for x
    by (auto simp: sat_double_def word_le_nat_alt unat_word_ariths)
  have "\<not> phase < 128 \<Longrightarrow> unat (255 - phase) < 128"
    using unat_u8 [of phase] by (simp add: unat_sub word_less_nat_alt word_le_nat_alt)
  then show ?thesis by (simp add: breath_curve_def double word_less_nat_alt)
qed

text \<open>What the dimming rounds off is carried to the next frame.\<close>

lemma low_byte: "unat (w AND 0xFF) = unat w mod 256" for w :: u16
proof -
  have "w AND 0xFF = take_bit 8 w" by (simp add: take_bit_eq_mask mask_eq_exp_minus_1)
  then show ?thesis by (simp add: unsigned_take_bit_eq take_bit_eq_mod unat_mod_distrib)
qed

lemma led_high_byte: "unat (ucast (drop_bit 8 w) :: u8) = unat w div 256" for w :: u16
proof -
  have "unat w < 2 ^ 16" using unsigned_less [of w, where 'a = nat] by simp
  then show ?thesis
    by (simp add: unsigned_ucast_eq drop_bit_eq_div take_bit_eq_mod unat_div_distrib)
qed

lemma dim_exact:
  assumes dim: "dim_dither target acc = (out, acc')" and t: "unat target < 255 * 256"
  shows "256 * unat out + unat acc' = unat target + unat acc"
proof -
  let ?f = "unat target mod 256" and ?sum = "ucast acc + (target AND 0xFF) :: u16"
  have sum: "unat ?sum = unat acc + ?f" using unat_u8 [of acc]
    by (simp add: unat_word_ariths low_byte)
  then have no_wrap: "\<not> ?sum < target AND 0xFF" by (simp add: word_less_nat_alt low_byte)
  have split_t: "unat target = 256 * (unat target div 256) + ?f" by simp
  have hi: "unat (sat_inc (ucast (drop_bit 8 target) :: u8)) = unat target div 256 + 1"
    using t by (simp add: unat_sat_inc led_high_byte)
  show ?thesis
  proof (cases "?sum \<ge> 256")
    case True
    then have "256 \<le> unat acc + ?f" using sum by (simp add: word_le_nat_alt)
    moreover have "unat (ucast (?sum AND 0xFF) :: u8) = (unat acc + ?f) mod 256"
      using sum by (simp add: unsigned_ucast_eq take_bit_eq_mod low_byte)
    moreover have "(unat acc + ?f) mod 256 = unat acc + ?f - 256"
      using calculation(1) unat_u8 [of acc] by (simp add: le_mod_geq)
    ultimately show ?thesis using dim True no_wrap hi split_t by (auto simp: dim_dither_def Let_def)
  next
    case False
    then have "unat (ucast ?sum :: u8) = unat acc + ?f"
      using sum by (simp add: unsigned_ucast_eq take_bit_eq_mod word_le_nat_alt)
    then show ?thesis using dim False no_wrap split_t by (auto simp: dim_dither_def Let_def led_high_byte)
  qed
qed

lemma target_small: "unat (breath_target c (breath_curve ph) b) < 255 * 256"
  using breath_target_le [of c "breath_curve ph" b] curve_le [of ph] unat_u8 [of b]
    mult_le_mono [of "unat (breath_curve ph)" 254 "unat b" 255] by simp

lemma dim_le: "fst (dim_dither (breath_target c (breath_curve ph) b) acc) \<le> b"
proof -
  obtain out acc' where d: "dim_dither (breath_target c (breath_curve ph) b) acc = (out, acc')" by (rule prod.exhaust)
  have "256 * unat out \<le> unat (breath_target c (breath_curve ph) b) + unat acc"
    using dim_exact [OF d target_small] by simp
  also have "\<dots> \<le> 254 * unat b + 255"
    using breath_target_le [of c "breath_curve ph" b] mult_le_mono1 [OF curve_le, of ph "unat b"] unat_u8 [of acc] by linarith
  finally show ?thesis using d by (simp add: word_le_nat_alt)
qed

lemma colour_dim: "dimmer (brightness st) (led_colour st now load i)"
proof -
  have "dimmer (brightness st) (dimmed_colour st)" "dimmer (brightness st) black"
    by (simp_all add: dimmer_def dimmed_colour_def apply_brightness_le)
  moreover have "dimmer b (random_pixel v b)" for v b by (simp add: random_pixel_def hsv_le dimmer_def [of _ black])
  ultimately show ?thesis
    by (simp add: led_colour_def rainbow_pixel_def hsv_le load_pixel_def Let_def dimmer_def [of _ "(_, _, _)"] dim_le split: effect.split)
qed

section \<open>Events\<close>

lemma run_led_simps [simp]:
  "run_state (led_show h us) st = ((), st\<lparr>gw := fold (led_ui h) us (gw st), g_ui := g_ui st @ us\<rparr>)"
  "run_state (put_u32 h k v) st = ((), st\<lparr>gw := snd (nvs_set_u32 (led_store h) k v (gw st))\<rparr>)"
  "run_state (update_caffeinate h) st = ((), st\<lparr>gw := set_sleep_inhibit h (enabled st \<and> needs_cpu (effect st)) (gw st),
     g_inhibit := enabled st \<and> needs_cpu (effect st)\<rparr>)"
  "run_state (strip_init h) st = (fst (host_led h (Led_init DATA_PIN (ucast (led_count st))) (gw st)),
     st\<lparr>gw := snd (host_led h (Led_init DATA_PIN (ucast (led_count st))) (gw st)),
        g_leds := g_leds st @ [Led_init DATA_PIN (ucast (led_count st))]\<rparr>)"
  by (simp_all add: led_show_def put_u32_def update_caffeinate_def strip_init_def split: prod.split)

datatype led_event = Led_tick u64 | Led_action u32 u32 | Led_enter | Led_exit

fun led_export :: "'w led_host \<Rightarrow> led_event \<Rightarrow> ('w gst, unit) state" where
  "led_export h (Led_tick now) = led_on_tick h now"
| "led_export h (Led_action act idx) = led_on_action h act idx"
| "led_export h Led_enter = led_on_enter h"
| "led_export h Led_exit = led_on_exit h"

definition led_run :: "'w led_host \<Rightarrow> led_event list \<Rightarrow> 'w gst \<Rightarrow> 'w gst" where
  "led_run h evs st = fold (\<lambda>ev st. snd (run_state (led_export h ev) st)) evs st"

lemma led_run_induct:
  "(\<And>ev. ev \<in> set evs \<Longrightarrow> keeps I (led_export h ev)) \<Longrightarrow> I st \<Longrightarrow> I (led_run h evs st)"
  by (induction evs arbitrary: st) (simp_all add: led_run_def keeps_def)

lemmas menu_defs = show_top_menu_def show_speed_slider_def show_count_slider_def show_bright_slider_def
  show_color_picker_def show_effect_menu_def toast_saved_def refresh_toggle_row_def

text \<open>An invariant that does not speak of the firmware and the user interface holds after every export
  if the fragments that change the statics keep it.\<close>

definition no_view :: "('w gst \<Rightarrow> bool) \<Rightarrow> bool" where
  "no_view I \<longleftrightarrow> (\<forall>st w us. I (st\<lparr>gw := w, g_ui := us\<rparr>) = I st)"

lemma no_view_show: "no_view I \<Longrightarrow> keeps I (led_show h us)"
  by (simp add: no_view_def keeps_def)

lemma menus_keep:
  assumes "\<And>us. keeps I (led_show h us)"
  shows "keeps I (show_top_menu h)" "keeps I (show_speed_slider h)" "keeps I (show_count_slider h)"
    "keeps I (show_bright_slider h)" "keeps I (show_color_picker h)" "keeps I (show_effect_menu h)"
    "keeps I (toast_saved h)" "keeps I (refresh_toggle_row h)"
  unfolding menu_defs by (intro keeps_intro assms)+

lemma no_view_input: "no_view I \<Longrightarrow> keeps I (input_value h)"
  by (auto simp: keeps_def input_value_def no_view_def split: prod.split) (metis gst.surjective gst.update_convs(3))

definition counts :: "led_event \<Rightarrow> bool" where
  "counts ev \<longleftrightarrow> (\<exists>i. ev = Led_action ACT_COUNT_SAVE i)"

lemma exports_keep_led:
  assumes view: "\<And>us. keeps I (led_show h us)" and input: "keeps I (input_value h)"
    and frame: "\<And>now. keeps (\<lambda>st. I st \<and> \<not> sleeping st) (render_frame h now)"
    and frags: "keeps I (toggle_enabled h)" "\<And>ev. keeps I (on_system_event h ev)" "\<And>v. counts ev \<Longrightarrow> keeps I (save_count h v)"
      "\<And>v. keeps I (save_bright h v)" "\<And>v. keeps I (save_color h v)" "\<And>i. keeps I (save_effect h i)"
      "\<And>v. keeps I (save_speed h v)"
  shows "keeps I (led_export h ev)"
proof -
  note views = menus_keep [OF view] input
  have "keeps I (led_on_tick h now)" for now
    using frame [of now] by (auto simp: led_on_tick_def keeps_def whenM_def)
  moreover have "keeps I (led_on_action h act idx)" if "ev = Led_action act idx" for act idx
    unfolding led_on_action_def on_top_select_def on_input_def
    by (intro keeps_intro views frags) (simp add: that counts_def)
  ultimately show ?thesis
    by (cases ev) (simp_all add: led_on_enter_def led_on_exit_def views keeps_return)
qed

section \<open>Ranges and the sleep inhibitor\<close>

definition led_ok :: "'w gst \<Rightarrow> bool" where
  "led_ok st \<longleftrightarrow> led_count st \<noteq> 0 \<and> unat (led_count st) \<le> MAX_LEDS \<and> speed st \<noteq> 0 \<and> unat (speed st) \<le> 100
     \<and> rainbow_offset st < 360 \<and> (g_inhibit st \<longleftrightarrow> enabled st \<and> needs_cpu (effect st))"

lemma clamp_count_range: "clamp_count v \<noteq> 0" "unat (clamp_count v) \<le> MAX_LEDS"
  by (auto simp: clamp_count_def MAX_LEDS_def)

lemma clamp_speed_range: "clamp_speed v \<noteq> 0" "unat (clamp_speed v) \<le> 100"
  by (auto simp: clamp_speed_def word_less_nat_alt not_less)

lemma frame_offset:
  assumes "rainbow_offset st < 360"
  shows "rainbow_offset (snd (frame_pixels st now load n)) < 360"
  using assms by (simp add: frame_pixels_def Let_def word_mod_less_divisor split: effect.split prod.split)

lemma no_view_led_ok: "no_view led_ok"
  by (simp add: no_view_def led_ok_def)

lemma frame_led_ok: "keeps (\<lambda>st. led_ok st \<and> \<not> sleeping st) (render_frame h now)"
proof (rule keepsI)
  fix st u st'
  assume ok: "led_ok st \<and> \<not> sleeping st" and run: "run_state (render_frame h now) st = (u, st')"
  let ?st = "st\<lparr>last_frame_ms := now\<rparr>"
  let ?n = "min (unat (strip_length h (gw st))) (unat (led_count st))" and ?load = "cpu_load h (gw st)"
  obtain px st1 where f: "frame_pixels ?st now ?load ?n = (px, st1)" by (rule prod.exhaust)
  have "rainbow_offset st1 < 360"
    using frame_offset [of ?st now ?load ?n] f ok by (simp add: led_ok_def)
  then show "led_ok st' \<and> \<not> sleeping st'"
    using run ok f frame_keeps [OF f] by (auto simp: render_frame_def Let_def led_ok_def split: if_splits)
qed

lemma frags_led_ok:
  "keeps led_ok (toggle_enabled h)" "keeps led_ok (on_system_event h ev)" "keeps led_ok (save_count h v)"
  "keeps led_ok (save_bright h v)" "keeps led_ok (save_color h v)" "keeps led_ok (save_effect h i)"
  "keeps led_ok (save_speed h v)"
  by (auto simp: keeps_def led_ok_def toggle_enabled_def go_dark_def on_system_event_def save_count_def save_bright_def
    save_color_def save_effect_def save_speed_def toast_saved_def clamp_count_range clamp_speed_range Let_def whenM_def)

lemma run_led_ok: "led_ok st \<Longrightarrow> led_ok (led_run h evs st)"
  by (rule led_run_induct) (rule exports_keep_led [OF no_view_show [OF no_view_led_ok] no_view_input [OF no_view_led_ok] frame_led_ok frags_led_ok])

section \<open>Darkness\<close>

definition quiet :: "'w gst \<Rightarrow> bool" where
  "quiet st \<longleftrightarrow> (\<not> enabled st \<or> sleeping st \<longrightarrow> (\<forall>i < strip_size st. led_at st i = black))"

lemma no_view_quiet: "no_view quiet"
  by (simp add: no_view_def quiet_def)

lemma strip_of_dark: "strip_of (cs @ [Led_clear, Led_refresh]) =
    (replicate (length (fst (strip_of cs))) black, \<lambda>i. if i < length (fst (strip_of cs)) then black else snd (strip_of cs) i)"
  by (cases "strip_of cs") (simp add: strip_of_append fun_eq_iff)

lemma frame_quiet: "keeps (\<lambda>st. quiet st \<and> \<not> sleeping st) (render_frame h now)"
proof (rule keepsI)
  fix st u st'
  assume ok: "quiet st \<and> \<not> sleeping st" and run: "run_state (render_frame h now) st = (u, st')"
  let ?st = "st\<lparr>last_frame_ms := now\<rparr>"
  let ?n = "min (unat (strip_length h (gw st))) (unat (led_count st))" and ?load = "cpu_load h (gw st)"
  obtain px st1 where f: "frame_pixels ?st now ?load ?n = (px, st1)" by (rule prod.exhaust)
  show "quiet st' \<and> \<not> sleeping st'"
    using run ok f frame_keeps [OF f]
    by (auto simp: render_frame_def Let_def quiet_def strip_of_dark split: if_splits)
qed

lemma frags_quiet:
  "keeps quiet (toggle_enabled h)" "keeps quiet (on_system_event h ev)" "keeps quiet (save_bright h v)"
  "keeps quiet (save_color h v)" "keeps quiet (save_effect h i)" "keeps quiet (save_speed h v)"
  by (auto simp: keeps_def quiet_def toggle_enabled_def go_dark_def on_system_event_def strip_of_dark save_bright_def
    save_color_def save_effect_def save_speed_def toast_saved_def Let_def whenM_def)

lemma run_quiet: "\<forall>ev \<in> set evs. \<not> counts ev \<Longrightarrow> quiet st \<Longrightarrow> quiet (led_run h evs st)"
  by (rule led_run_induct) (auto intro: exports_keep_led [OF no_view_show [OF no_view_quiet] no_view_input [OF no_view_quiet] frame_quiet] frags_quiet)

section \<open>Start\<close>

lemma load_keeps: "gw (load_led_state h st) = gw st \<and> g_leds (load_led_state h st) = g_leds st
    \<and> g_inhibit (load_led_state h st) = g_inhibit st \<and> rainbow_offset (load_led_state h st) = rainbow_offset st"
  by (simp add: load_led_state_def Let_def split: option.split)

lemma load_ranges:
  assumes "led_count st \<noteq> 0" "unat (led_count st) \<le> MAX_LEDS" "speed st \<noteq> 0" "unat (speed st) \<le> 100"
  shows "led_count (load_led_state h st) \<noteq> 0 \<and> unat (led_count (load_led_state h st)) \<le> MAX_LEDS
    \<and> speed (load_led_state h st) \<noteq> 0 \<and> unat (speed (load_led_state h st)) \<le> 100"
  using assms by (simp add: load_led_state_def Let_def clamp_count_range clamp_speed_range split: option.split)

lemma default_ranges: "led_count (led_defaults w) \<noteq> 0" "unat (led_count (led_defaults w)) \<le> MAX_LEDS"
    "speed (led_defaults w) \<noteq> 0" "unat (speed (led_defaults w)) \<le> 100" "rainbow_offset (led_defaults w) = 0"
    "g_leds (led_defaults w) = []" "gw (led_defaults w) = w"
  by (simp_all add: led_defaults_def DEFAULT_COUNT_def DEFAULT_LED_SPEED_def MAX_LEDS_def)

lemma init_led:
  assumes "run_state (led_plugin_init h) (led_defaults w) = (0, st)"
  shows "led_ok st \<and> quiet st"
proof -
  let ?l = "load_led_state h (led_defaults w)"
  have l: "led_count ?l \<noteq> 0 \<and> unat (led_count ?l) \<le> MAX_LEDS \<and> speed ?l \<noteq> 0 \<and> unat (speed ?l) \<le> 100"
    by (intro load_ranges default_ranges)
  have k: "g_leds ?l = []" "rainbow_offset ?l = 0"
    using load_keeps [of h "led_defaults w"] by (simp_all add: default_ranges)
  show ?thesis using assms l k
    by (auto simp: led_plugin_init_def led_ok_def quiet_def strip_of_def split: if_splits)
qed

section \<open>Breathing\<close>

text \<open>The colours of one LED over the frames at the times \<open>ts\<close>, and the statics after them.\<close>

fun led_over_time :: "'w gst \<Rightarrow> u64 list \<Rightarrow> rgb list \<times> 'w gst" where
  "led_over_time st [] = ([], st)"
| "led_over_time st (t # ts) =
    (case frame_pixels st t 0 1 of
       (px, st1) \<Rightarrow> (case led_over_time st1 ts of (cs, st2) \<Rightarrow> (hd px # cs, st2)))"

text \<open>The light asked for at time \<open>t\<close>, in 256ths of a step of the LED.\<close>

definition breath_light :: "'w gst \<Rightarrow> u8 \<Rightarrow> u64 \<Rightarrow> nat" where
  "breath_light st c t =
     unat (breath_target c (breath_curve (ucast ((t div phase_divisor (speed st)) mod 256))) (brightness st))"

lemma breath_frame:
  assumes "effect st = Breathing" and "frame_pixels st t load 1 = (px, st')"
  shows "256 * unat (fst (hd px)) + unat (dither_acc_r st') = breath_light st (col_r st) t + unat (dither_acc_r st)
    \<and> 256 * unat (fst (snd (hd px))) + unat (dither_acc_g st') = breath_light st (col_g st) t + unat (dither_acc_g st)
    \<and> 256 * unat (snd (snd (hd px))) + unat (dither_acc_b st') = breath_light st (col_b st) t + unat (dither_acc_b st)"
proof -
  let ?ph = "ucast ((t div phase_divisor (speed st)) mod 256) :: u8"
  let ?dim = "\<lambda>c. dim_dither (breath_target c (breath_curve ?ph) (brightness st))"
  obtain r ar g ag b ab where d: "?dim (col_r st) (dither_acc_r st) = (r, ar)" "?dim (col_g st) (dither_acc_g st) = (g, ag)"
    "?dim (col_b st) (dither_acc_b st) = (b, ab)" by (metis prod.exhaust)
  have "px = [(r, g, b)]" "st' = st\<lparr>dither_acc_r := ar, dither_acc_g := ag, dither_acc_b := ab\<rparr>"
    using assms by (simp_all add: frame_pixels_def Let_def d)
  then show ?thesis
    using dim_exact [OF d(1) target_small] dim_exact [OF d(2) target_small] dim_exact [OF d(3) target_small]
    by (simp add: breath_light_def)
qed

lemma light_cong: "speed st' = speed st \<Longrightarrow> brightness st' = brightness st \<Longrightarrow> breath_light st' c t = breath_light st c t"
  by (simp add: breath_light_def)

lemma breath_sum:
  assumes "effect st = Breathing" and "led_over_time st ts = (cs, st')"
  shows "(\<Sum>c\<leftarrow>cs. 256 * unat (fst c)) + unat (dither_acc_r st')
      = (\<Sum>t\<leftarrow>ts. breath_light st (col_r st) t) + unat (dither_acc_r st)
    \<and> (\<Sum>c\<leftarrow>cs. 256 * unat (fst (snd c))) + unat (dither_acc_g st')
      = (\<Sum>t\<leftarrow>ts. breath_light st (col_g st) t) + unat (dither_acc_g st)
    \<and> (\<Sum>c\<leftarrow>cs. 256 * unat (snd (snd c))) + unat (dither_acc_b st')
      = (\<Sum>t\<leftarrow>ts. breath_light st (col_b st) t) + unat (dither_acc_b st)"
  using assms
proof (induction ts arbitrary: st cs)
  case (Cons t ts)
  obtain px st1 where f: "frame_pixels st t 0 1 = (px, st1)" by (rule prod.exhaust)
  obtain cs1 where r: "led_over_time st1 ts = (cs1, st')" "cs = hd px # cs1"
    using Cons.prems f by (auto split: prod.splits)
  have k: "effect st1 = Breathing" "col_r st1 = col_r st" "col_g st1 = col_g st" "col_b st1 = col_b st"
    "\<And>c t. breath_light st1 c t = breath_light st c t"
    using frame_keeps [OF f] Cons.prems(1) by (simp_all add: light_cong [of st1 st])
  show ?case using Cons.IH [OF k(1) r(1)] breath_frame [OF Cons.prems(1) f] r(2) k by simp
qed simp

end
