(* ===== verification/Grove_Claims.thy ===== *)
theory Grove_Claims
  imports Grove_Laws Matrix_Store_Laws
begin

text \<open>
  The properties of the LED plugin with their witnesses, and the interface \<open>led_firmware\<close> to the
  storage its settings live in.
\<close>

section \<open>Settings and storage\<close>

type_synonym settings = "bool \<times> u8 \<times> u8 \<times> rgb \<times> effect \<times> u8"

definition settings :: "'w gst \<Rightarrow> settings" where
  "settings st = (enabled st, led_count st, brightness st, (col_r st, col_g st, col_b st), effect st, speed st)"

text \<open>The settings a start would find, from the values stored under the keys.\<close>

definition stored_settings :: "(string \<Rightarrow> u32 option) \<Rightarrow> settings" where
  "stored_settings get =
    (let byte = (\<lambda>k d. case get k of Some v \<Rightarrow> ucast v | None \<Rightarrow> d)
     in (case get NVS_ENABLED of Some v \<Rightarrow> v \<noteq> 0 | None \<Rightarrow> False,
         case get NVS_COUNT of Some v \<Rightarrow> clamp_count (ucast v) | None \<Rightarrow> DEFAULT_COUNT,
         byte NVS_BRIGHT DEFAULT_BRIGHT, (byte NVS_R 255, byte NVS_G 255, byte NVS_B 255),
         case get NVS_EFFECT of Some v \<Rightarrow> effect_from_u8 (ucast v) | None \<Rightarrow> Rainbow,
         case get NVS_LED_SPEED of Some v \<Rightarrow> clamp_speed (ucast v) | None \<Rightarrow> DEFAULT_LED_SPEED))"

lemma loaded_settings:
  "settings (load_led_state h (led_defaults w)) = stored_settings (\<lambda>k. nvs_get_u32 (led_store h) k w)"
  by (simp add: settings_def load_led_state_def led_defaults_def stored_settings_def Let_def split: option.split)

lemma byte_back [simp]: "(ucast (ucast (x :: u8) :: u32) :: u8) = x"
  by (rule bit_word_eqI) (simp add: bit_simps)

lemma effect_back [simp]: "effect_from_u8 (ucast (effect_u32 e)) = e"
  by (cases e) (simp_all add: effect_from_u8_def)

lemma clamp_back: "n \<noteq> 0 \<Longrightarrow> unat n \<le> MAX_LEDS \<Longrightarrow> clamp_count n = n" "s \<noteq> 0 \<Longrightarrow> unat s \<le> 100 \<Longrightarrow> clamp_speed s = s"
  by (auto simp: clamp_count_def clamp_speed_def word_less_nat_alt unat_eq_0)

lemmas key_defs = NVS_ENABLED_def NVS_COUNT_def NVS_BRIGHT_def NVS_R_def NVS_G_def NVS_B_def NVS_EFFECT_def NVS_LED_SPEED_def

lemma stored_upd:
  "stored_settings (get(NVS_ENABLED \<mapsto> v)) = (case stored_settings get of (on, r) \<Rightarrow> (v \<noteq> 0, r))"
  "stored_settings (get(NVS_COUNT \<mapsto> v)) = (case stored_settings get of (on, n, r) \<Rightarrow> (on, clamp_count (ucast v), r))"
  "stored_settings (get(NVS_BRIGHT \<mapsto> v)) = (case stored_settings get of (on, n, b, r) \<Rightarrow> (on, n, ucast v, r))"
  "stored_settings (get(NVS_R \<mapsto> v)) = (case stored_settings get of (on, n, b, (cr, c), r) \<Rightarrow> (on, n, b, (ucast v, c), r))"
  "stored_settings (get(NVS_G \<mapsto> v)) =
    (case stored_settings get of (on, n, b, (cr, cg, cb), r) \<Rightarrow> (on, n, b, (cr, ucast v, cb), r))"
  "stored_settings (get(NVS_B \<mapsto> v)) =
    (case stored_settings get of (on, n, b, (cr, cg, cb), r) \<Rightarrow> (on, n, b, (cr, cg, ucast v), r))"
  "stored_settings (get(NVS_EFFECT \<mapsto> v)) =
    (case stored_settings get of (on, n, b, c, e, s) \<Rightarrow> (on, n, b, c, effect_from_u8 (ucast v), s))"
  "stored_settings (get(NVS_LED_SPEED \<mapsto> v)) =
    (case stored_settings get of (on, n, b, c, e, s) \<Rightarrow> (on, n, b, c, e, clamp_speed (ucast v)))"
  by (simp_all add: stored_settings_def key_defs Let_def)

text \<open>The firmware: its writes succeed, and no other call touches the storage.\<close>

locale led_firmware = storage "led_store h" for h :: "'w led_host" +
  assumes writes: "fst (nvs_set_u32 (led_store h) k v w) = Inr ()"
    and led_frame: "nvs_get_u32 (led_store h) k (snd (host_led h c w)) = nvs_get_u32 (led_store h) k w"
    and ui_frame: "nvs_get_u32 (led_store h) k (led_ui h u w) = nvs_get_u32 (led_store h) k w"
    and input_frame: "nvs_get_u32 (led_store h) k (snd (led_input_int h w)) = nvs_get_u32 (led_store h) k w"
    and inhibit_frame: "nvs_get_u32 (led_store h) k (set_sleep_inhibit h b w) = nvs_get_u32 (led_store h) k w"
    and start_frame: "nvs_get_u32 (led_store h) k (make_resident h (register_lock_action h l a (subscribe_events h m a' w)))
      = nvs_get_u32 (led_store h) k w"
begin

abbreviation reads :: "'w \<Rightarrow> string \<Rightarrow> u32 option" where
  "reads w k \<equiv> nvs_get_u32 (led_store h) k w"

lemma reads_put: "reads (snd (nvs_set_u32 (led_store h) k v w)) = (reads w)(k \<mapsto> v)"
proof
  fix j
  obtain w' where w: "nvs_set_u32 (led_store h) k v w = (Inr (), w')"
    using writes [of k v w] by (metis prod.collapse)
  have "same_nvs (led_store h) {k} w w'" using set_u32_frame [OF w] by simp
  then show "reads (snd (nvs_set_u32 (led_store h) k v w)) j = ((reads w)(k \<mapsto> v)) j"
    using set_u32_ok [OF w] w by (auto simp: same_nvs_def)
qed

lemma reads_leds: "reads (fold (\<lambda>c w. snd (host_led h c w)) cs w) = reads w"
  by (induction cs arbitrary: w) (simp_all add: led_frame)

lemma reads_ui: "reads (fold (led_ui h) us w) = reads w"
  by (induction us arbitrary: w) (simp_all add: ui_frame)

lemmas reads_frame = reads_put reads_leds reads_ui led_frame inhibit_frame start_frame

definition kept :: "'w gst \<Rightarrow> bool" where
  "kept st \<longleftrightarrow> led_ok st \<and> stored_settings (reads (gw st)) = settings st"

lemma no_view_kept: "kept (st\<lparr>gw := w, g_ui := us\<rparr>) = kept st" if "reads w = reads (gw st)"
  using that by (simp add: kept_def led_ok_def settings_def)

lemma frags_kept:
  "keeps kept (toggle_enabled h)" "keeps kept (on_system_event h ev)" "keeps kept (save_count h v)"
  "keeps kept (save_bright h v)" "keeps kept (save_color h v)" "keeps kept (save_effect h i)"
  "keeps kept (save_speed h v)"
proof -
  show "keeps kept (toggle_enabled h)"
    by (auto simp: keeps_def kept_def settings_def toggle_enabled_def go_dark_def reads_frame stored_upd whenM_def led_ok_def)
  show "keeps kept (on_system_event h ev)"
    by (auto simp: keeps_def kept_def settings_def on_system_event_def go_dark_def reads_frame led_ok_def)
  show "keeps kept (save_count h v)"
    by (auto simp: keeps_def kept_def settings_def save_count_def toast_saved_def reads_frame stored_upd led_ok_def
      clamp_count_range clamp_back)
  show "keeps kept (save_bright h v)"
    by (auto simp: keeps_def kept_def settings_def save_bright_def toast_saved_def reads_frame stored_upd led_ok_def)
  show "keeps kept (save_color h v)"
    by (auto simp: keeps_def kept_def settings_def save_color_def toast_saved_def reads_frame stored_upd led_ok_def Let_def
      effect_from_u8_def)
  show "keeps kept (save_effect h i)"
    by (auto simp: keeps_def kept_def settings_def save_effect_def toast_saved_def reads_frame stored_upd led_ok_def)
  show "keeps kept (save_speed h v)"
    by (auto simp: keeps_def kept_def settings_def save_speed_def toast_saved_def reads_frame stored_upd led_ok_def
      clamp_speed_range clamp_back)
qed

lemma show_kept: "keeps kept (led_show h us)"
  by (simp add: keeps_def no_view_kept reads_ui)

lemma input_kept: "keeps kept (input_value h)"
proof (rule keepsI)
  fix st v st'
  assume k: "kept st" and run: "run_state (input_value h) st = (v, st')"
  obtain rc x w where i: "led_input_int h (gw st) = ((rc, x), w)" by (metis prod.exhaust)
  then have "reads w = reads (gw st)" using input_frame [of _ "gw st"] by (simp add: fun_eq_iff)
  then show "kept st'" using k run i
    by (auto simp: input_value_def consume_input_int_def kept_def led_ok_def settings_def)
qed

lemma frame_kept: "keeps (\<lambda>st. kept st \<and> \<not> sleeping st) (render_frame h now)"
proof (rule keepsI)
  fix st u st'
  assume k: "kept st \<and> \<not> sleeping st" and run: "run_state (render_frame h now) st = (u, st')"
  let ?st = "st\<lparr>last_frame_ms := now\<rparr>"
  let ?n = "min (unat (strip_length h (gw st))) (unat (led_count st))" and ?load = "cpu_load h (gw st)"
  obtain px st1 where f: "frame_pixels ?st now ?load ?n = (px, st1)" by (rule prod.exhaust)
  have "led_ok st' \<and> \<not> sleeping st'" using keepsD [OF frame_led_ok run] k by (simp add: kept_def)
  moreover have "reads (gw st') = reads (gw st) \<and> settings st' = settings st"
    using run f frame_keeps [OF f]
    by (auto simp: render_frame_def Let_def settings_def reads_leds led_frame split: if_splits)
  ultimately show "kept st' \<and> \<not> sleeping st'" using k by (simp add: kept_def)
qed

lemma init_kept:
  assumes "run_state (led_plugin_init h) (led_defaults w) = (0, st)"
  shows "kept st"
proof -
  let ?l = "load_led_state h (led_defaults w)"
  have "gw ?l = w" using load_keeps [of h "led_defaults w"] by (simp add: default_ranges)
  then have "reads (gw st) = reads w \<and> settings st = settings ?l"
    using assms by (auto simp: led_plugin_init_def settings_def reads_frame split: if_splits)
  then show ?thesis using init_led [OF assms] by (simp add: kept_def loaded_settings)
qed

lemma runs_keep_settings: "kept st \<Longrightarrow> kept (led_run h evs st)"
  by (rule led_run_induct) (rule exports_keep_led [OF show_kept input_kept frame_kept frags_kept])

lemma restart_finds:
  assumes "run_state (led_plugin_init h) (led_defaults w) = (0, st)"
  shows "settings (load_led_state h (led_defaults (gw (led_run h evs st)))) = settings (led_run h evs st)"
  using runs_keep_settings [OF init_kept [OF assms]] by (simp add: kept_def loaded_settings)

end

section \<open>A firmware\<close>

definition demo_led :: "stub led_host" where
  "demo_led = \<lparr>led_store = stub_host Inr (\<lambda>key iv aad p. Inr (p, [])) (\<lambda>key iv aad ct tag. Inr ct),
     host_led = \<lambda>c w. (0, w), strip_length = \<lambda>w. 8, cpu_load = \<lambda>w. 10, set_sleep_inhibit = \<lambda>b w. w,
     subscribe_events = \<lambda>m a w. w, register_lock_action = \<lambda>l a w. w, make_resident = \<lambda>w. w, led_ui = \<lambda>c w. w,
     led_input_int = \<lambda>w. ((0, 5), w), led_key = lit, led_core = lit, led_meta = lit\<rparr>"

lemma demo_led_simps [simp]:
  "led_store demo_led = stub_host Inr (\<lambda>key iv aad p. Inr (p, [])) (\<lambda>key iv aad ct tag. Inr ct)"
  "host_led demo_led c w = (0, w)" "strip_length demo_led w = 8" "cpu_load demo_led w = 10"
  "set_sleep_inhibit demo_led b w = w" "subscribe_events demo_led m a w = w" "register_lock_action demo_led l a w = w"
  "make_resident demo_led w = w" "led_ui demo_led u w = w" "led_input_int demo_led w = ((0, 5), w)"
  by (simp_all add: demo_led_def)

interpretation demo_led: led_firmware demo_led
proof (rule led_firmware.intro)
  show "storage (led_store demo_led)" by (simp add: stub.storage_axioms)
  show "led_firmware_axioms demo_led" by unfold_locales (simp_all add: stub_set_u32_def)
qed

definition no_data :: stub where
  "no_data = \<lparr>stub_nvs = Map.empty, stub_rmem = Map.empty\<rparr>"

lemma no_data_reads [simp]: "stub_get_u32 k no_data = None"
  by (simp add: no_data_def stub_get_u32_def)

definition demo_start :: "stub gst" where
  "demo_start = snd (run_state (led_plugin_init demo_led) (led_defaults no_data))"

lemma demo_defaults: "load_led_state demo_led (led_defaults no_data) = led_defaults no_data"
  by (simp add: load_led_state_def led_defaults_def Let_def)

lemma demo_start_eq: "demo_start = (led_defaults no_data)\<lparr>g_leds := [Led_init DATA_PIN 8]\<rparr>"
  by (simp add: demo_start_def led_plugin_init_def demo_defaults) (simp add: led_defaults_def DEFAULT_COUNT_def)

lemma demo_start_run: "run_state (led_plugin_init demo_led) (led_defaults no_data) = (0, demo_start)"
  by (simp add: demo_start_def led_plugin_init_def)


text \<open>Switched on, with the colour white at a quarter.\<close>

definition demo_white :: "stub gst" where
  "demo_white = demo_start\<lparr>enabled := True, effect := Static\<rparr>"

section \<open>Properties\<close>



text \<open>C34: Breathing loses no light to rounding: over any frames, in each colour, 256 times the light given out
  plus what the accumulator holds at the end is the light asked for plus what it held at the start. So
  the light given out differs from the light asked for by less than one step of the LED.\<close>
theorem breathing_exact:
  assumes "effect st = Breathing" and "led_over_time st ts = (cs, st')"
  shows "(\<Sum>c\<leftarrow>cs. 256 * unat (fst c)) + unat (dither_acc_r st')
      = (\<Sum>t\<leftarrow>ts. breath_light st (col_r st) t) + unat (dither_acc_r st)
    \<and> (\<Sum>c\<leftarrow>cs. 256 * unat (fst (snd c))) + unat (dither_acc_g st')
      = (\<Sum>t\<leftarrow>ts. breath_light st (col_g st) t) + unat (dither_acc_g st)
    \<and> (\<Sum>c\<leftarrow>cs. 256 * unat (snd (snd c))) + unat (dither_acc_b st')
      = (\<Sum>t\<leftarrow>ts. breath_light st (col_b st) t) + unat (dither_acc_b st)"
  by (rule breath_sum [OF assms])

theorem breathing_exact_witness:
  "256 * unat (fst (hd (fst (led_over_time (demo_white\<lparr>effect := Breathing\<rparr>) [520]))))
    + unat (dither_acc_r (snd (led_over_time (demo_white\<lparr>effect := Breathing\<rparr>) [520]))) = 1280"
proof -
  let ?st = "demo_white\<lparr>effect := Breathing\<rparr>"
  obtain cs st' where r: "led_over_time ?st [520] = (cs, st')" by (rule prod.exhaust)
  then have c: "cs = [hd cs]" by (auto split: prod.splits)
  have "breath_light ?st (col_r ?st) 520 = 1280"
    by (simp add: breath_light_def breath_target_def breath_curve_def sat_double_def phase_divisor_def demo_white_def
      demo_start_eq led_defaults_def DEFAULT_LED_SPEED_def DEFAULT_BRIGHT_def max_def word_le_nat_alt)
  moreover have "unat (dither_acc_r ?st) = 0" by (simp add: demo_white_def demo_start_eq led_defaults_def)
  ultimately show ?thesis using breathing_exact [OF _ r] c by (cases cs) (simp_all add: r del: led_over_time.simps)
qed

text \<open>C35: From the start on, over all calls of the firmware: the LED count stays within 1 and 100, the speed
  within 1 and 100 and the rainbow's offset below 360, so that no subtraction or division of a frame fails,
  and the light-sleep inhibitor is held exactly while the LEDs are on with an effect that needs the CPU.\<close>
theorem led_invariant:
  assumes "run_state (led_plugin_init h) (led_defaults w) = (0, st)"
  shows "led_ok (led_run h evs st)"
  using init_led [OF assms] by (simp add: run_led_ok)

theorem led_invariant_witness: "led_ok (led_run demo_led [Led_action ACT_LOCK_TOGGLE 0, Led_tick 50] demo_start)"
  by (rule led_invariant [OF demo_start_run])

text \<open>While the LEDs are switched off or the badge sleeps, every LED of the strip is dark, whatever calls
  come in which order, as long as the number of LEDs is not changed.\<close>
theorem off_is_dark:
  assumes "run_state (led_plugin_init h) (led_defaults w) = (0, st)" and "\<forall>ev \<in> set evs. \<not> counts ev"
    and "\<not> enabled (led_run h evs st) \<or> sleeping (led_run h evs st)" and "i < strip_size (led_run h evs st)"
  shows "led_at (led_run h evs st) i = black"
  using run_quiet [OF assms(2), of st h] init_led [OF assms(1)] assms(3,4) by (simp add: quiet_def)

theorem off_is_dark_witness:
  "led_at (led_run demo_led [Led_action ACT_LOCK_TOGGLE 0, Led_action ACT_EVENT ET_SYSTEM_SLEEP, Led_tick 50] demo_start) 7
    = black" (is "led_at ?st 7 = black")
proof (rule off_is_dark [OF demo_start_run])
  show "\<not> enabled ?st \<or> sleeping ?st" "7 < strip_size ?st"
    by (simp_all add: led_run_def led_on_action_def led_on_tick_def toggle_enabled_def on_system_event_def go_dark_def
      strip_of_def demo_start_eq led_defaults_def ACT_LOCK_TOGGLE_def ACT_EVENT_def ET_SYSTEM_SLEEP_def)
qed (simp add: counts_def ACT_LOCK_TOGGLE_def ACT_EVENT_def ACT_COUNT_SAVE_def)

text \<open>C40: The settings survive a restart: on a firmware whose writes succeed, a start after any calls finds
  the switch, the count, the brightness, the colour, the effect and the speed as they were.\<close>
theorem settings_survive_restart:
  assumes "led_firmware h" and "run_state (led_plugin_init h) (led_defaults w) = (0, st)"
  shows "settings (load_led_state h (led_defaults (gw (led_run h evs st)))) = settings (led_run h evs st)"
  by (rule led_firmware.restart_finds [OF assms])

theorem settings_survive_restart_witness:
  "settings (load_led_state demo_led (led_defaults (gw (led_run demo_led [Led_action ACT_COUNT_SAVE 0] demo_start))))
    = (False, 5, 64, (255, 255, 255), Rainbow, 50)"
proof -
  have "settings (led_run demo_led [Led_action ACT_COUNT_SAVE 0] demo_start) = (False, 5, 64, (255, 255, 255), Rainbow, 50)"
    by (simp add: led_run_def led_on_action_def on_input_def input_value_def consume_input_int_def save_count_def
      toast_saved_def settings_def demo_start_eq led_defaults_def DEFAULT_BRIGHT_def DEFAULT_LED_SPEED_def
      ACT_COUNT_SAVE_def ACT_LOCK_TOGGLE_def ACT_EVENT_def ACT_TOP_SELECT_def clamp_count_def clamp_int_def MAX_LEDS_def)
  then show ?thesis
    by (simp add: settings_survive_restart [OF demo_led.led_firmware_axioms demo_start_run])
qed

end
