(* ===== verification/Badge_Art.thy ===== *)
theory Badge_Art
  imports Sdk_Canvas
begin

text \<open>
  The pure helpers of the name badge plugin (\<open>rng.rs\<close>, \<open>dither.rs\<close>, \<open>textmath.rs\<close> and \<open>gfx.rs\<close> of
  \<open>plugins/name_badge/src\<close>): random numbers, the ordered-dither dissolve, character-safe prefixes and
  the sprite art. A function that steps the generator takes its state and returns it with the result.
\<close>

section \<open>Random numbers\<close>

definition rng_new :: "u32 \<Rightarrow> u32" where
  "rng_new seed = (if seed = 0 then 0x9E3779B9 else seed)"

definition next_u32 :: "u32 \<Rightarrow> u32" where
  "next_u32 s = (let x = s XOR push_bit 13 s; x = x XOR drop_bit 17 x in x XOR push_bit 5 x)"

definition rng_below :: "u32 \<Rightarrow> u32 \<Rightarrow> u32 \<times> u32" where
  "rng_below bound rng = (if bound = 0 then (0, rng) else (next_u32 rng mod bound, next_u32 rng))"

definition range_i16 :: "int \<Rightarrow> int \<Rightarrow> u32 \<Rightarrow> int \<times> u32" where
  "range_i16 mn mx rng =
    (let (lo, hi) = (if mn \<le> mx then (mn, mx) else (mx, mn));
         span = of_int (hi - lo + 1);
         (b, rng) = rng_below span rng
     in (i16 (lo + i16 (uint b)), rng))"

section \<open>Dissolve\<close>

definition BAYER_4X4 :: "u8 list list" where
  "BAYER_4X4 = [[0, 8, 2, 10], [12, 4, 14, 6], [3, 11, 1, 9], [15, 7, 13, 5]]"

definition LEVEL_MAX :: u8 where "LEVEL_MAX = 16"

definition bayer_pixel :: "nat \<Rightarrow> u8 \<Rightarrow> nat \<times> nat \<Rightarrow> u8 list \<Rightarrow> u8 list" where
  "bayer_pixel stride level yx out =
    (case yx of (y, x) \<Rightarrow>
       if BAYER_4X4 ! (y mod 4) ! (x mod 4) < level then out
       else (let i = y * stride + x div 8 in out[i := out ! i AND NOT (drop_bit (x mod 8) 0x80)]))"

definition apply_bayer :: "u8 list \<Rightarrow> nat \<Rightarrow> u8 \<Rightarrow> u8 list" where
  "apply_bayer raster stride level =
    (if level \<ge> LEVEL_MAX then raster
     else let rows = (if stride = 0 then 0 else length raster div stride)
          in fold (bayer_pixel stride level) (List.product [0..<rows] [0..<stride * 8]) raster)"

definition invert :: "u8 list \<Rightarrow> u8 list" where
  "invert raster = map (\<lambda>b. NOT b) raster"

fun noise_bytes :: "nat \<Rightarrow> u32 \<Rightarrow> u8 list \<times> u32" where
  "noise_bytes 0 rng = ([], rng)"
| "noise_bytes (Suc n) rng =
    (case noise_bytes n (next_u32 rng) of (bs, rng') \<Rightarrow> (ucast (next_u32 rng AND 0xFF) # bs, rng'))"

definition noise_band :: "u32 \<Rightarrow> u16 \<Rightarrow> u16 \<Rightarrow> u8 list \<times> u32" where
  "noise_band rng w rows = noise_bytes (div_ceil (unat w) 8 * unat rows) rng"

section \<open>Text\<close>

definition char_count :: "ustr \<Rightarrow> nat" where
  "char_count s = length s"

definition prefix_len_bytes :: "ustr \<Rightarrow> nat \<Rightarrow> nat" where
  "prefix_len_bytes s n = (if n < length s then length (utf8_encode (take n s)) else length (utf8_encode s))"

text \<open>\<open>&s[..k]\<close>, which panics unless \<open>k\<close> is a character boundary.\<close>

fun prefix_at :: "nat \<Rightarrow> ustr \<Rightarrow> ustr option" where
  "prefix_at k [] = (if k = 0 then Some [] else None)"
| "prefix_at k (c # cs) =
    (if k = 0 then Some []
     else if k < length (utf8_char c) then None
     else map_option ((#) c) (prefix_at (k - length (utf8_char c)) cs))"

definition MARQUEE_STEP_PX :: u16 where "MARQUEE_STEP_PX = 8"
definition MARQUEE_FRAME_MS :: u16 where "MARQUEE_FRAME_MS = 300"

section \<open>Sprite art\<close>

definition pack16 :: "u16 list \<Rightarrow> u8 list" where
  "pack16 rows = concat (map (\<lambda>r. [ucast (drop_bit 8 r), ucast (r AND 0xFF)]) rows)"

definition STAR_W :: u16 where "STAR_W = 8"
definition STAR_H :: u16 where "STAR_H = 8"
definition STAR_FRAMES :: u16 where "STAR_FRAMES = 4"

definition STAR_DOT :: "u8 list" where
  "STAR_DOT = [0x00, 0x00, 0x00, 0x18, 0x18, 0x00, 0x00, 0x00]"

definition STAR_PLUS :: "u8 list" where
  "STAR_PLUS = [0x00, 0x18, 0x18, 0x7E, 0x7E, 0x18, 0x18, 0x00]"

definition STAR_BURST :: "u8 list" where
  "STAR_BURST = [0x99, 0x5A, 0x3C, 0xFF, 0xFF, 0x3C, 0x5A, 0x99]"

definition star_sheet :: "u8 list" where
  "star_sheet = STAR_DOT @ STAR_PLUS @ STAR_BURST @ STAR_PLUS"

definition GHOST_W :: u16 where "GHOST_W = 16"
definition GHOST_H :: u16 where "GHOST_H = 16"
definition GHOST_FRAMES :: u16 where "GHOST_FRAMES = 2"

definition GHOST_FRAME_A :: "u16 list" where
  "GHOST_FRAME_A = [0x07E0, 0x1FF8, 0x3FFC, 0x399C, 0x799E, 0x7FFE, 0x7FFE, 0x7FFE,
     0x7FFE, 0x7FFE, 0x7FFE, 0x7FFE, 0x7FFE, 0x7FFE, 0x6DB6, 0x4992]"

definition GHOST_FRAME_B :: "u16 list" where
  "GHOST_FRAME_B = [0x07E0, 0x1FF8, 0x3FFC, 0x399C, 0x799E, 0x7FFE, 0x7FFE, 0x7FFE,
     0x7FFE, 0x7FFE, 0x7FFE, 0x7FFE, 0x7FFE, 0x7FFE, 0x6DB6, 0x24C9]"

definition GHOST_SILHOUETTE :: "u16 list" where
  "GHOST_SILHOUETTE = [0x07E0, 0x1FF8, 0x3FFC, 0x3FFC, 0x7FFE, 0x7FFE, 0x7FFE, 0x7FFE,
     0x7FFE, 0x7FFE, 0x7FFE, 0x7FFE, 0x7FFE, 0x7FFE, 0x6DB6, 0x4992]"

definition ghost_sheet :: "u8 list" where
  "ghost_sheet = pack16 GHOST_FRAME_A @ pack16 GHOST_FRAME_B"

definition ghost_mask :: "u8 list" where
  "ghost_mask = pack16 GHOST_SILHOUETTE @ pack16 GHOST_SILHOUETTE"

definition PUFF_W :: u16 where "PUFF_W = 16"
definition PUFF_H :: u16 where "PUFF_H = 8"
definition PUFF_FRAMES :: u16 where "PUFF_FRAMES = 3"

definition PUFF_1 :: "u16 list" where
  "PUFF_1 = [0x0000, 0x0000, 0x03C0, 0x07E0, 0x07E0, 0x03C0, 0x0000, 0x0000]"

definition PUFF_2 :: "u16 list" where
  "PUFF_2 = [0x0000, 0x0C30, 0x1998, 0x318C, 0x318C, 0x1998, 0x0C30, 0x0000]"

definition PUFF_3 :: "u16 list" where
  "PUFF_3 = [0x4182, 0x8001, 0x0420, 0x4002, 0x4002, 0x0420, 0x8001, 0x4182]"

definition puff_sheet :: "u8 list" where
  "puff_sheet = pack16 PUFF_1 @ pack16 PUFF_2 @ pack16 PUFF_3"

definition DIAMOND8 :: "u8 list" where
  "DIAMOND8 = [0x18, 0x3C, 0x7E, 0xFF, 0xFF, 0x7E, 0x3C, 0x18]"

definition ORBIT_12 :: "(int \<times> int) list" where
  "ORBIT_12 = [(128, 0), (111, 64), (64, 111), (0, 128), (-64, 111), (-111, 64),
     (-128, 0), (-111, -64), (-64, -111), (0, -128), (64, -111), (111, -64)]"

text \<open>\<open>>> 7\<close> on \<open>i32\<close> rounds towards minus infinity.\<close>

definition orbit_offset :: "nat \<Rightarrow> int \<Rightarrow> int \<Rightarrow> int \<times> int" where
  "orbit_offset slot rx ry =
    (case ORBIT_12 ! (slot mod length ORBIT_12) of (c, s) \<Rightarrow> (i16 (c * rx div 128), i16 (s * ry div 128)))"

end
