(* ===== verification/Badge.thy ===== *)
theory Badge
  imports Badge_Art Sdk_Store "HOL-Library.Signed_Division"
begin

text \<open>
  The name badge plugin (\<open>plugins/name_badge/src\<close>): the layout of the name (\<open>namefit.rs\<close>), the eight
  effects (\<open>fx/*.rs\<close>), the engine that rotates through them (\<open>engine.rs\<close>) and the exports (\<open>plugin.rs\<close>).

  The statics of all files are the record \<open>nst\<close>; \<open>nw\<close> is the firmware, \<open>n_calls\<close> the calls made so
  far with their result codes. An index or a string slice out of bounds would panic and sets
  \<open>ntrapped\<close>. The cells of the source are borrowed by one function at a time, so they are plain fields.
\<close>

section \<open>State\<close>

definition NAME_MARGIN :: int where "NAME_MARGIN = 6"
definition ELEM_NAME :: u32 where "ELEM_NAME = 1"
definition ELEM_BANNER :: u32 where "ELEM_BANNER = 2"

record fx_context =
  cx_w :: int
  cx_h :: int
  cx_font :: u8
  cx_name_w :: u16
  cx_name_h :: u16
  cx_ascent :: u16
  cx_marquee :: bool

definition empty_context :: fx_context where
  "empty_context = \<lparr>cx_w = 0, cx_h = 0, cx_font = 0, cx_name_w = 0, cx_name_h = 0, cx_ascent = 0, cx_marquee = False\<rparr>"

record band =
  bd_raster :: "u8 list"
  bd_stride :: nat
  bd_w :: u16
  bd_h :: u16

datatype phase = Calm u8 | Burst u8 | Flash

record 'w nst =
  nw :: 'w
  n_calls :: "(cv_call \<times> int) list"
  ntrapped :: bool
  uptime :: u64
  backlight :: u16
  name :: ustr
  ctx :: fx_context
  current_fx :: u32
  auto_rotate :: bool
  fx_started :: u64
  tw_chars :: nat
  tw_resting :: u64
  tw_last :: u64
  tw_measure :: "surface option"
  bo_puff :: u32
  sp_last :: u64
  sp_rng :: u32
  wi_last :: u64
  wi_level :: int
  wi_dir :: int
  wi_negative :: bool
  wi_band :: "band option"
  gh_rng :: u32
  gh_back :: u32
  gh_front :: u32
  gh_back_right :: bool
  gh_front_right :: bool
  gl_last :: u64
  gl_phase :: phase
  gl_bursts :: u32
  gl_rng :: u32
  or_last :: u64
  or_step :: u32

definition badge_defaults :: "'w \<Rightarrow> 'w nst" where
  "badge_defaults w = \<lparr>nw = w, n_calls = [], ntrapped = False, uptime = 0, backlight = 0, name = [],
     ctx = empty_context, current_fx = 0, auto_rotate = True, fx_started = 0, tw_chars = 0, tw_resting = 0,
     tw_last = 0, tw_measure = None, bo_puff = 0, sp_last = 0, sp_rng = rng_new 1, wi_last = 0, wi_level = 0,
     wi_dir = 1, wi_negative = False, wi_band = None, gh_rng = rng_new 1, gh_back = 0, gh_front = 0,
     gh_back_right = True, gh_front_right = False, gl_last = 0, gl_phase = Calm 4, gl_bursts = 0,
     gl_rng = rng_new 1, or_last = 0, or_step = 0\<rparr>"

record 'w badge_host =
  bh_store :: "'w store_host"
  bh_call :: "cv_call \<Rightarrow> 'w \<Rightarrow> int \<times> 'w"
  bh_measure :: "u32 \<Rightarrow> ustr \<Rightarrow> 'w \<Rightarrow> int \<times> u16 \<times> u16"
  bh_export :: "u32 \<Rightarrow> nat \<Rightarrow> 'w \<Rightarrow> int \<times> u8 list \<times> u16"
  bh_body_size :: "'w \<Rightarrow> u16 \<times> u16"
  bh_pick_font :: "ustr \<Rightarrow> int \<Rightarrow> u8 list \<Rightarrow> 'w \<Rightarrow> int \<times> u8"
  bh_random_u32 :: "'w \<Rightarrow> u32 option \<times> 'w"
  bh_backlight :: "'w \<Rightarrow> u16"
  bh_input_text :: "nat \<Rightarrow> 'w \<Rightarrow> (int \<times> u8 list) \<times> 'w"
  bh_key :: "string \<Rightarrow> ustr"

definition invoke :: "'w badge_host \<Rightarrow> 'w nst caller" where
  "invoke h c = State (\<lambda>st. case bh_call h c (nw st) of (rc, w) \<Rightarrow> (rc, st\<lparr>nw := w, n_calls := n_calls st @ [(c, rc)]\<rparr>))"

definition perform :: "'w badge_host \<Rightarrow> cv_call list \<Rightarrow> ('w nst, unit) state" where
  "perform h = does (invoke h)"

definition put :: "('w nst \<Rightarrow> 'w nst) \<Rightarrow> ('w nst, unit) state" where
  "put = modify"

definition badge_panic :: "('w nst, unit) state" where
  "badge_panic = modify (\<lambda>st. st\<lparr>ntrapped := True\<rparr>)"

definition random_or :: "'w badge_host \<Rightarrow> u64 \<Rightarrow> ('w nst, u32) state" where
  "random_or h now = State (\<lambda>st. case bh_random_u32 h (nw st) of
     (r, w) \<Rightarrow> (case r of Some v \<Rightarrow> v | None \<Rightarrow> ucast now, st\<lparr>nw := w\<rparr>))"

section \<open>Layout\<close>

definition name_y :: "fx_context \<Rightarrow> int" where
  "name_y c = i16 (cx_h c - sint (cx_name_h c)) sdiv 2"

definition baseline_y :: "fx_context \<Rightarrow> int" where
  "baseline_y c = i16 (name_y c + sint (cx_ascent c))"

definition name_x :: "fx_context \<Rightarrow> int" where
  "name_x c = (if cx_marquee c then NAME_MARGIN else i16 (cx_w c - sint (cx_name_w c)) sdiv 2)"

definition shown_w :: "fx_context \<Rightarrow> int" where
  "shown_w c = (if cx_marquee c then i16 (cx_w c - 2 * NAME_MARGIN) else sint (cx_name_w c))"

definition font_candidates :: "ustr \<Rightarrow> u8 list" where
  "font_candidates s =
    (if list_all (\<lambda>c. c < 128) s then [FONT_BOLD_24PT, FONT_BOLD_18PT, FONT_BOLD_12PT, FONT_BOLD_9PT]
     else [FONT_BOLD_12PT, FONT_BOLD_9PT])"

definition measure_name :: "'w badge_host \<Rightarrow> ustr \<Rightarrow> u8 \<Rightarrow> ('w nst, u16 \<times> u16) state" where
  "measure_name h text font = do {
     r \<leftarrow> surface_create (invoke h) 8 8;
     case r of
       Inl e \<Rightarrow> ret (0, 12)
     | Inr s \<Rightarrow> do {
         _ \<leftarrow> surface_set_font (invoke h) s font;
         m \<leftarrow> gets (\<lambda>st. surface_measure_text (bh_measure h) s text (nw st));
         surface_drop (invoke h) s;
         ret (case m of Inr wh \<Rightarrow> wh | Inl e \<Rightarrow> (0, 12))
       }
   }"

definition build_context :: "'w badge_host \<Rightarrow> ustr \<Rightarrow> ('w nst, fx_context) state" where
  "build_context h text = do {
     (w, ht) \<leftarrow> gets (\<lambda>st. bh_body_size h (nw st));
     let max_w = i16 (sint w - 2 * NAME_MARGIN);
     font \<leftarrow> gets (\<lambda>st. case pick_font_that_fits (bh_pick_font h) text max_w (font_candidates text) (nw st) of
       Some f \<Rightarrow> f | None \<Rightarrow> FONT_BOLD_9PT);
     (nw, nh) \<leftarrow> measure_name h text font;
     (_, ascent) \<leftarrow> measure_name h (lit ''A'') font;
     ret \<lparr>cx_w = sint w, cx_h = sint ht, cx_font = font, cx_name_w = nw, cx_name_h = nh, cx_ascent = ascent,
       cx_marquee = (max_w < sint nw)\<rparr>
   }"

definition record_name_elem_styled :: "'w badge_host \<Rightarrow> fx_context \<Rightarrow> int \<Rightarrow> bool \<Rightarrow> ('w nst, unit) state" where
  "record_name_elem_styled h c top_y inverted = do {
     nm \<leftarrow> gets name;
     perform h ([Cv_elem_begin ELEM_NAME, Cv_font (cx_font c), Cv_ui (Cv_text_size 1), Cv_ui (Cv_inverted inverted)] @
       (if cx_marquee c then marquee NAME_MARGIN top_y (shown_w c) nm MARQUEE_STEP_PX MARQUEE_FRAME_MS
        else drawn_ui (draw_text_aligned 0 (i16 (top_y + sint (cx_ascent c))) (cx_w c) nm ALIGN_CENTER)) @
       [Cv_ui (Cv_inverted False), Cv_elem_end])
   }"

definition record_name_elem :: "'w badge_host \<Rightarrow> fx_context \<Rightarrow> int \<Rightarrow> ('w nst, unit) state" where
  "record_name_elem h c top_y = record_name_elem_styled h c top_y False"

section \<open>Actions of the effects\<close>

definition FX_COUNT :: u32 where "FX_COUNT = 8"

definition FX_DURATION_MS :: "u64 list" where
  "FX_DURATION_MS = [18000, 20000, 18000, 25000, 20000, 25000, 18000, 25000]"

definition FX_ACTION_BASE :: u32 where "FX_ACTION_BASE = 100"
definition FX_ACTION_STRIDE :: u32 where "FX_ACTION_STRIDE = 16"

definition fx_action :: "u32 \<Rightarrow> u32 \<Rightarrow> u32" where
  "fx_action fx n = FX_ACTION_BASE + fx * FX_ACTION_STRIDE + n"

definition yoyo_forever :: "host_anim \<Rightarrow> host_anim" where
  "yoyo_forever a = anim_repeat REPEAT_FOREVER (anim_yoyo a)"

section \<open>Grand Entrance\<close>

definition ELEM_RULE_TOP :: u32 where "ELEM_RULE_TOP = 10"
definition ELEM_RULE_BOT :: u32 where "ELEM_RULE_BOT = 11"
definition ELEM_CORNER :: "u32 list" where "ELEM_CORNER = [12, 13, 14, 15]"
definition ACT_INTRO_DONE :: u32 where "ACT_INTRO_DONE = fx_action 0 0"
definition RULE_GAP :: int where "RULE_GAP = 10"
definition CORNER_LEN :: int where "CORNER_LEN = 12"
definition CORNER_MARGIN :: int where "CORNER_MARGIN = 3"

definition slide_in :: "u32 \<Rightarrow> int \<Rightarrow> u16 \<Rightarrow> ease \<Rightarrow> host_anim" where
  "slide_in i x ms e = anim_ease e (anim_duration ms (anim_to 0 0 (anim_from x 0 (anim_element i))))"

definition corner_coords :: "fx_context \<Rightarrow> (int \<times> int \<times> int \<times> int) list" where
  "corner_coords c =
    [(CORNER_MARGIN, CORNER_MARGIN, 1, 1), (i16 (cx_w c - CORNER_MARGIN), CORNER_MARGIN, -1, 1),
     (i16 (cx_w c - CORNER_MARGIN), i16 (cx_h c - CORNER_MARGIN), -1, -1),
     (CORNER_MARGIN, i16 (cx_h c - CORNER_MARGIN), 1, -1)]"

text \<open>The brackets, each chained to the tween before it.\<close>

fun corners :: "'w badge_host \<Rightarrow> nat \<Rightarrow> (int \<times> int \<times> int \<times> int) list \<Rightarrow> u32 \<Rightarrow> ('w nst, unit) state" where
  "corners h i [] prev = ret ()"
| "corners h i ((cx, cy, dx, dy) # cs) prev = do {
     let el = ELEM_CORNER ! i;
     perform h [Cv_elem_begin el, Cv_hline (min cx (i16 (cx + dx * CORNER_LEN))) cy CORNER_LEN,
       Cv_vline cx (min cy (i16 (cy + dy * CORNER_LEN))) CORNER_LEN, Cv_elem_end, Cv_elem_show el False];
     let a = anim_show_on_start (anim_ease Overshoot (anim_duration 350 (anim_to 0 0
       (anim_from (i16 (dx * -18)) (i16 (dy * -18)) (anim_element el)))));
     let a = (if prev \<noteq> 0 then anim_after prev a else a);
     let a = (if cs = [] then anim_on_done ACT_INTRO_DONE a else a);
     r \<leftarrow> anim_start (invoke h) a;
     corners h (Suc i) cs (case r of Inr v \<Rightarrow> v | Inl e \<Rightarrow> 0)
   }"

definition entrance_enter :: "'w badge_host \<Rightarrow> fx_context \<Rightarrow> ('w nst, unit) state" where
  "entrance_enter h c = do {
     record_name_elem h c (name_y c);
     animate (invoke h) (slide_in ELEM_NAME (i16 (- cx_w c)) 900 CubicOut);
     let rule_w = min (i16 (shown_w c + 2 * RULE_GAP)) (i16 (cx_w c - 8));
     let rule_x = i16 (cx_w c - rule_w) sdiv 2;
     let top_y = i16 (name_y c - RULE_GAP);
     let bot_y = i16 (name_y c + sint (cx_name_h c) + RULE_GAP);
     perform h [Cv_elem_begin ELEM_RULE_TOP, Cv_hline rule_x top_y rule_w, Cv_elem_end];
     animate (invoke h) (anim_delay 250 (slide_in ELEM_RULE_TOP (cx_w c) 700 QuadOut));
     perform h [Cv_elem_begin ELEM_RULE_BOT, Cv_hline rule_x bot_y rule_w, Cv_elem_end];
     animate (invoke h) (anim_delay 400 (slide_in ELEM_RULE_BOT (i16 (- cx_w c)) 700 QuadOut));
     corners h 0 (corner_coords c) 0
   }"

definition entrance_on_action :: "'w badge_host \<Rightarrow> u32 \<Rightarrow> ('w nst, unit) state" where
  "entrance_on_action h act = whenM (act = ACT_INTRO_DONE)
     (animate (invoke h) (yoyo_forever (anim_ease QuadInOut (anim_duration 1600 (anim_to 0 2 (anim_element ELEM_NAME))))))"

section \<open>Typewriter\<close>

definition ELEM_CURSOR :: u32 where "ELEM_CURSOR = 10"
definition TYPE_STEP_MS :: u64 where "TYPE_STEP_MS = 350"
definition REST_MS :: u64 where "REST_MS = 2000"
definition CURSOR_W :: int where "CURSOR_W = 3"

text \<open>Storing into \<open>MEASURE\<close> drops the surface it held.\<close>

definition set_measure :: "'w badge_host \<Rightarrow> surface option \<Rightarrow> ('w nst, unit) state" where
  "set_measure h m = do {
     old \<leftarrow> gets tw_measure;
     put (\<lambda>st. st\<lparr>tw_measure := m\<rparr>);
     case old of Some s \<Rightarrow> surface_drop (invoke h) s | None \<Rightarrow> ret ()
   }"

definition release_measure :: "'w badge_host \<Rightarrow> ('w nst, unit) state" where
  "release_measure h = set_measure h None"

definition open_measure :: "'w badge_host \<Rightarrow> fx_context \<Rightarrow> ('w nst, unit) state" where
  "open_measure h c = do {
     r \<leftarrow> surface_create (invoke h) 8 8;
     case r of
       Inr s \<Rightarrow> do { _ \<leftarrow> surface_set_font (invoke h) s (cx_font c); set_measure h (Some s) }
     | Inl e \<Rightarrow> ret ()
   }"

definition typewriter_enter :: "'w badge_host \<Rightarrow> fx_context \<Rightarrow> u64 \<Rightarrow> ('w nst, unit) state" where
  "typewriter_enter h c now = do {
     put (\<lambda>st. st\<lparr>tw_chars := 0, tw_resting := 0, tw_last := now\<rparr>);
     open_measure h c;
     perform h [Cv_elem_begin ELEM_NAME, Cv_elem_end, Cv_elem_begin ELEM_CURSOR,
       Cv_ui (Cv_rect (name_x c) (name_y c) CURSOR_W (sint (cx_name_h c)) True), Cv_elem_end];
     _ \<leftarrow> anim_blink (invoke h) ELEM_CURSOR 500 REPEAT_FOREVER 0;
     ret ()
   }"

text \<open>The prefix is drawn again and the cursor placed behind it.\<close>

definition show_prefix :: "'w badge_host \<Rightarrow> fx_context \<Rightarrow> ustr \<Rightarrow> ('w nst, unit) state" where
  "show_prefix h c pre = do {
     perform h ([Cv_elem_clear ELEM_NAME, Cv_elem_begin ELEM_NAME, Cv_font (cx_font c), Cv_ui (Cv_text_size 1),
       Cv_ui (Cv_inverted False)] @ drawn_ui (draw_text (name_x c) (baseline_y c) pre) @ [Cv_elem_end]);
     prefix_w \<leftarrow> gets (\<lambda>st. case tw_measure st of
         Some s \<Rightarrow> (case surface_measure_text (bh_measure h) s pre (nw st) of Inr (w, _) \<Rightarrow> sint w | Inl e \<Rightarrow> 0)
       | None \<Rightarrow> 0);
     let cursor_x = min (i16 (prefix_w + 2)) (i16 (cx_w c - NAME_MARGIN - CURSOR_W - name_x c));
     perform h [Cv_elem_offset ELEM_CURSOR cursor_x 0, Cv_ui (Cv_commit False)]
   }"

definition type_prefix :: "'w badge_host \<Rightarrow> fx_context \<Rightarrow> ('w nst, unit) state" where
  "type_prefix h c = do {
     st \<leftarrow> gets (\<lambda>st. st);
     case prefix_at (prefix_len_bytes (name st) (tw_chars st)) (name st) of
       None \<Rightarrow> badge_panic
     | Some pre \<Rightarrow> show_prefix h c pre
   }"

definition typewriter_tick :: "'w badge_host \<Rightarrow> fx_context \<Rightarrow> u64 \<Rightarrow> ('w nst, unit) state" where
  "typewriter_tick h c now = do {
     early \<leftarrow> gets (\<lambda>st. sat_sub now (tw_last st) < TYPE_STEP_MS);
     whenM (\<not> early) (do {
       put (\<lambda>st. st\<lparr>tw_last := now\<rparr>);
       st \<leftarrow> gets (\<lambda>st. st);
       (if tw_resting st \<noteq> 0 then
          (if sat_sub now (tw_resting st) \<ge> REST_MS
           then do { put (\<lambda>st. st\<lparr>tw_resting := 0, tw_chars := 0\<rparr>); type_prefix h c }
           else ret ())
        else if tw_chars st \<ge> char_count (name st) then put (\<lambda>st. st\<lparr>tw_resting := now\<rparr>)
        else do { put (\<lambda>st. st\<lparr>tw_chars := Suc (tw_chars st)\<rparr>); type_prefix h c })
     })
   }"

section \<open>Bounce Drop\<close>

definition ELEM_STAR_L :: u32 where "ELEM_STAR_L = 10"
definition ELEM_STAR_R :: u32 where "ELEM_STAR_R = 11"
definition ELEM_PUFF :: u32 where "ELEM_PUFF = 12"
definition ACT_LANDED :: u32 where "ACT_LANDED = fx_action 2 0"
definition ACT_PUFF_DONE :: u32 where "ACT_PUFF_DONE = fx_action 2 1"
definition STAR_GAP :: int where "STAR_GAP = 14"

definition drop_in :: "fx_context \<Rightarrow> u32 \<Rightarrow> u16 \<Rightarrow> host_anim" where
  "drop_in c i ms = anim_duration ms (anim_to 0 0 (anim_from 0 (i16 (- cx_h c)) (anim_element i)))"

definition bounce_star :: "'w badge_host \<Rightarrow> fx_context \<Rightarrow> int \<Rightarrow> u32 \<times> int \<times> u16 \<Rightarrow> ('w nst, unit) state" where
  "bounce_star h c star_y p = (case p of (el, x, delay) \<Rightarrow> do {
     perform h [Cv_elem_begin el, Cv_bitmap x star_y 8 8 DIAMOND8, Cv_elem_end, Cv_elem_show el False];
     animate (invoke h) (anim_show_on_start (anim_ease Bounce (anim_delay delay (drop_in c el 900))))
   })"

definition bounce_enter :: "'w badge_host \<Rightarrow> fx_context \<Rightarrow> ('w nst, unit) state" where
  "bounce_enter h c = do {
     put (\<lambda>st. st\<lparr>bo_puff := 0\<rparr>);
     record_name_elem h c (name_y c);
     animate (invoke h) (anim_on_done ACT_LANDED (anim_ease Bounce (drop_in c ELEM_NAME 1200)));
     r \<leftarrow> sprite_from_sheet (invoke h) PUFF_W PUFF_H PUFF_FRAMES puff_sheet;
     (case r of
        Inl e \<Rightarrow> ret ()
      | Inr p \<Rightarrow> do {
          put (\<lambda>st. st\<lparr>bo_puff := p\<rparr>);
          perform h [Cv_elem_begin ELEM_PUFF,
            Cv_sprite (i16 (cx_w c - sint PUFF_W) sdiv 2) (i16 (name_y c + sint (cx_name_h c))) p,
            Cv_elem_end, Cv_elem_show ELEM_PUFF False]
        });
     let star_y = i16 (name_y c + i16 (sint (cx_name_h c) - 8) sdiv 2);
     for_each [(ELEM_STAR_L, i16 (name_x c - STAR_GAP), 500), (ELEM_STAR_R, i16 (name_x c + shown_w c + STAR_GAP - 8), 650)]
       (bounce_star h c star_y)
   }"

definition bounce_on_action :: "'w badge_host \<Rightarrow> u32 \<Rightarrow> ('w nst, unit) state" where
  "bounce_on_action h act =
    (if act = ACT_LANDED then do {
       puff \<leftarrow> gets bo_puff;
       whenM (puff \<noteq> 0) (perform h [Cv_elem_show ELEM_PUFF True, Sp_play puff (mode_raw Once) 180 1 ACT_PUFF_DONE]);
       animate (invoke h) (yoyo_forever (anim_ease Elastic (anim_duration 900 (anim_to 0 (-6) (anim_element ELEM_NAME)))))
     }
     else if act = ACT_PUFF_DONE then perform h [Cv_elem_show ELEM_PUFF False, Cv_ui (Cv_commit False)]
     else ret ())"

section \<open>Sparkle Night\<close>

definition SPARK_ELEMS :: "u32 list" where "SPARK_ELEMS = [10, 11, 12, 13, 14]"
definition SPARK_STEP_MS :: u64 where "SPARK_STEP_MS = 600"
definition BANNER_PAD :: int where "BANNER_PAD = 8"

definition spark_position :: "fx_context \<Rightarrow> u32 \<Rightarrow> int \<Rightarrow> int \<Rightarrow> (int \<times> int) \<times> u32" where
  "spark_position c rng band_y band_h =
    (let (x, rng) = range_i16 2 (i16 (cx_w c - sint STAR_W - 2)) rng;
         (b, rng) = rng_below 2 rng;
         (y, rng) = (if b = 0 \<and> band_y > sint STAR_H + 2
           then range_i16 2 (i16 (band_y - sint STAR_H - 1)) rng
           else range_i16 (min (i16 (band_y + band_h + 1)) (i16 (cx_h c - 10))) (i16 (cx_h c - sint STAR_H - 1)) rng)
     in ((x, y), rng))"

definition banner_y :: "fx_context \<Rightarrow> int" where
  "banner_y c = i16 (name_y c - BANNER_PAD)"

definition banner_h :: "fx_context \<Rightarrow> int" where
  "banner_h c = i16 (sint (cx_name_h c) + 2 * BANNER_PAD)"

definition take_spark :: "fx_context \<Rightarrow> ('w nst, int \<times> int) state" where
  "take_spark c = State (\<lambda>st. case spark_position c (sp_rng st) (banner_y c) (banner_h c) of
     (p, rng) \<Rightarrow> (p, st\<lparr>sp_rng := rng\<rparr>))"

definition twinkle :: "'w badge_host \<Rightarrow> u16 \<Rightarrow> ('w nst, u32) state" where
  "twinkle h i = do {
     r \<leftarrow> sprite_from_sheet (invoke h) STAR_W STAR_H STAR_FRAMES star_sheet;
     case r of
       Inl e \<Rightarrow> ret 0
     | Inr s \<Rightarrow> do {
         perform h [Sp_frame s (i * 2), Sp_play s (mode_raw PingPong) 400 REPEAT_FOREVER 0];
         ret s
       }
   }"

definition record_spark :: "'w badge_host \<Rightarrow> fx_context \<Rightarrow> u32 list \<Rightarrow> nat \<times> u32 \<Rightarrow> ('w nst, unit) state" where
  "record_spark h c handles ie = (case ie of (i, el) \<Rightarrow> do {
     perform h [Cv_elem_begin el, Cv_sprite 0 0 (handles ! (i mod length handles)), Cv_elem_end];
     (x, y) \<leftarrow> take_spark c;
     perform h [Cv_elem_offset el x y]
   })"

definition sparkle_enter :: "'w badge_host \<Rightarrow> fx_context \<Rightarrow> u64 \<Rightarrow> ('w nst, unit) state" where
  "sparkle_enter h c now = do {
     put (\<lambda>st. st\<lparr>sp_last := now\<rparr>);
     seed \<leftarrow> random_or h now;
     put (\<lambda>st. st\<lparr>sp_rng := rng_new seed\<rparr>);
     perform h [Cv_elem_begin ELEM_BANNER, Cv_ui (Cv_shade SHADE_SOLID),
       Cv_round_rect 2 (banner_y c) (i16 (cx_w c - 4)) (banner_h c) 6 True, Cv_elem_end, Cv_elem_z ELEM_BANNER (-2)];
     record_name_elem_styled h c (name_y c) True;
     h0 \<leftarrow> twinkle h 0;
     h1 \<leftarrow> twinkle h 1;
     for_each (enumerate 0 SPARK_ELEMS) (record_spark h c [h0, h1])
   }"

definition sparkle_tick :: "'w badge_host \<Rightarrow> fx_context \<Rightarrow> u64 \<Rightarrow> ('w nst, unit) state" where
  "sparkle_tick h c now = do {
     early \<leftarrow> gets (\<lambda>st. sat_sub now (sp_last st) < SPARK_STEP_MS);
     whenM (\<not> early) (do {
       put (\<lambda>st. st\<lparr>sp_last := now\<rparr>);
       (k, rng) \<leftarrow> gets (\<lambda>st. rng_below (of_nat (length SPARK_ELEMS)) (sp_rng st));
       put (\<lambda>st. st\<lparr>sp_rng := rng\<rparr>);
       (x, y) \<leftarrow> take_spark c;
       perform h [Cv_elem_offset (SPARK_ELEMS ! unat k) x y, Cv_ui (Cv_commit False)]
     })
   }"

section \<open>Dither Wipe\<close>

definition ELEM_REVEAL :: u32 where "ELEM_REVEAL = 10"
definition WIPE_STEP_MS :: u64 where "WIPE_STEP_MS = 400"
definition BAND_PAD :: int where "BAND_PAD = 6"

text \<open>The steps that can fail, after which the surface is dropped.\<close>

definition draw_band :: "'w badge_host \<Rightarrow> fx_context \<Rightarrow> surface \<Rightarrow> ('w nst, band option) state" where
  "draw_band h c s = do {
     f \<leftarrow> surface_set_font (invoke h) s (cx_font c);
     if \<not> is_ok f then ret None
     else do {
       nm \<leftarrow> gets name;
       d \<leftarrow> surface_draw_text (invoke h) s (if cx_marquee c then 0 else name_x c) (i16 (BAND_PAD + sint (cx_ascent c))) nm;
       if \<not> is_ok d then ret None
       else gets (\<lambda>st. case surface_export (bh_export h) s (nw st) of
         Inl e \<Rightarrow> None
       | Inr r \<Rightarrow> Some \<lparr>bd_raster = ri_data r, bd_stride = unat (ri_stride r), bd_w = ri_width r, bd_h = ri_height r\<rparr>)
     }
   }"

definition render_band :: "'w badge_host \<Rightarrow> fx_context \<Rightarrow> u16 \<Rightarrow> ('w nst, band option) state" where
  "render_band h c band_h = do {
     r \<leftarrow> surface_create (invoke h) (of_int (cx_w c)) band_h;
     case r of
       Inl e \<Rightarrow> ret None
     | Inr s \<Rightarrow> do {
         b \<leftarrow> draw_band h c s;
         surface_drop (invoke h) s;
         ret b
       }
   }"

definition wipe_enter :: "'w badge_host \<Rightarrow> fx_context \<Rightarrow> u64 \<Rightarrow> ('w nst, unit) state" where
  "wipe_enter h c now = do {
     put (\<lambda>st. st\<lparr>wi_last := now, wi_level := 0, wi_dir := 1, wi_negative := False\<rparr>);
     b \<leftarrow> render_band h c (of_int (min (i16 (sint (cx_name_h c) + 2 * BAND_PAD)) (cx_h c)));
     put (\<lambda>st. st\<lparr>wi_band := b\<rparr>);
     perform h [Cv_elem_begin ELEM_REVEAL, Cv_elem_end]
   }"

definition advance_level :: "'w nst \<Rightarrow> 'w nst" where
  "advance_level st =
    (let level = wi_level st + wi_dir st
     in if level > uint LEVEL_MAX then st\<lparr>wi_level := uint LEVEL_MAX, wi_dir := -1\<rparr>
        else if level < 0 then st\<lparr>wi_level := 0, wi_dir := 1, wi_negative := \<not> wi_negative st\<rparr>
        else st\<lparr>wi_level := level\<rparr>)"

definition wipe_masked :: "'w nst \<Rightarrow> band \<Rightarrow> u8 list" where
  "wipe_masked st b =
     apply_bayer (if wi_negative st then invert (bd_raster b) else bd_raster b) (bd_stride b) (of_int (wi_level st))"

definition wipe_tick :: "'w badge_host \<Rightarrow> fx_context \<Rightarrow> u64 \<Rightarrow> ('w nst, unit) state" where
  "wipe_tick h c now = do {
     early \<leftarrow> gets (\<lambda>st. sat_sub now (wi_last st) < WIPE_STEP_MS);
     whenM (\<not> early) (do {
       put (\<lambda>st. st\<lparr>wi_last := now\<rparr>);
       band \<leftarrow> gets wi_band;
       (case band of
          None \<Rightarrow> ret ()
        | Some b \<Rightarrow> do {
            put advance_level;
            masked \<leftarrow> gets (\<lambda>st. wipe_masked st b);
            perform h [Cv_elem_clear ELEM_REVEAL, Cv_elem_begin ELEM_REVEAL,
              Cv_bitmap 0 (i16 (name_y c - BAND_PAD)) (sint (bd_w b)) (sint (bd_h b)) masked, Cv_elem_end,
              Cv_ui (Cv_commit False)]
          })
     })
   }"

section \<open>Ghost Parade\<close>

definition ELEM_GHOST_BACK :: u32 where "ELEM_GHOST_BACK = 10"
definition ELEM_GHOST_FRONT :: u32 where "ELEM_GHOST_FRONT = 11"
definition ACT_BACK_DONE :: u32 where "ACT_BACK_DONE = fx_action 5 0"
definition ACT_FRONT_DONE :: u32 where "ACT_FRONT_DONE = fx_action 5 1"
definition CROSS_BACK_MS :: u16 where "CROSS_BACK_MS = 9000"
definition CROSS_FRONT_MS :: u16 where "CROSS_FRONT_MS = 7000"

definition launch :: "'w badge_host \<Rightarrow> fx_context \<Rightarrow> u32 \<Rightarrow> u32 \<Rightarrow> bool \<Rightarrow> u16 \<Rightarrow> u32 \<Rightarrow> u16 \<Rightarrow> ('w nst, unit) state" where
  "launch h c el sprite rightward cross_ms don delay = do {
     (lane, rng) \<leftarrow> gets (\<lambda>st. range_i16 2 (i16 (cx_h c - sint GHOST_H - 2)) (gh_rng st));
     put (\<lambda>st. st\<lparr>gh_rng := rng\<rparr>);
     let span = i16 (cx_w c + 2 * sint GHOST_W);
     let (from_x, to_x) = (if rightward then (0, span) else (span, 0));
     whenM (sprite \<noteq> 0) (perform h [Sp_flags sprite (if rightward then 0 else FLAG_FLIP_H)]);
     animate (invoke h) (anim_on_done don (anim_ease Linear (anim_delay delay (anim_duration cross_ms
       (anim_to to_x lane (anim_from from_x lane (anim_element el)))))))
   }"

definition make_ghost :: "'w badge_host \<Rightarrow> u32 \<Rightarrow> int \<Rightarrow> (u32 \<Rightarrow> 'w nst \<Rightarrow> 'w nst) \<Rightarrow> ('w nst, unit) state" where
  "make_ghost h el z cell = do {
     r \<leftarrow> sprite_from_sheet (invoke h) GHOST_W GHOST_H GHOST_FRAMES ghost_sheet;
     case r of
       Inl e \<Rightarrow> ret ()
     | Inr s \<Rightarrow> do {
         perform h [Sp_mask s ghost_mask, Sp_play s (mode_raw Loop) 300 REPEAT_FOREVER 0];
         put (cell s);
         perform h [Cv_elem_begin el, Cv_sprite (- sint GHOST_W) 0 s, Cv_elem_end, Cv_elem_z el z]
       }
   }"

definition ghosts_enter :: "'w badge_host \<Rightarrow> fx_context \<Rightarrow> u64 \<Rightarrow> ('w nst, unit) state" where
  "ghosts_enter h c now = do {
     seed \<leftarrow> random_or h now;
     put (\<lambda>st. st\<lparr>gh_rng := rng_new seed, gh_back_right := True, gh_front_right := False\<rparr>);
     record_name_elem h c (name_y c);
     perform h [Cv_elem_z ELEM_NAME 3];
     animate (invoke h) (yoyo_forever (anim_ease QuadInOut (anim_duration 1800 (anim_to 0 2 (anim_element ELEM_NAME)))));
     make_ghost h ELEM_GHOST_BACK 1 (\<lambda>s st. st\<lparr>gh_back := s\<rparr>);
     make_ghost h ELEM_GHOST_FRONT 5 (\<lambda>s st. st\<lparr>gh_front := s\<rparr>);
     back \<leftarrow> gets gh_back;
     launch h c ELEM_GHOST_BACK back True CROSS_BACK_MS ACT_BACK_DONE 0;
     front \<leftarrow> gets gh_front;
     launch h c ELEM_GHOST_FRONT front False CROSS_FRONT_MS ACT_FRONT_DONE 2000
   }"

definition ghosts_on_action :: "'w badge_host \<Rightarrow> fx_context \<Rightarrow> u32 \<Rightarrow> ('w nst, unit) state" where
  "ghosts_on_action h c act =
    (if act = ACT_BACK_DONE then do {
       put (\<lambda>st. st\<lparr>gh_back_right := \<not> gh_back_right st\<rparr>);
       st \<leftarrow> gets (\<lambda>st. st);
       launch h c ELEM_GHOST_BACK (gh_back st) (gh_back_right st) CROSS_BACK_MS ACT_BACK_DONE 400
     }
     else if act = ACT_FRONT_DONE then do {
       put (\<lambda>st. st\<lparr>gh_front_right := \<not> gh_front_right st\<rparr>);
       st \<leftarrow> gets (\<lambda>st. st);
       launch h c ELEM_GHOST_FRONT (gh_front st) (gh_front_right st) CROSS_FRONT_MS ACT_FRONT_DONE 800
     }
     else ret ())"

section \<open>Glitch\<close>

definition ELEM_BAND_A :: u32 where "ELEM_BAND_A = 10"
definition ELEM_BAND_B :: u32 where "ELEM_BAND_B = 11"
definition ELEM_FLASH :: u32 where "ELEM_FLASH = 12"
definition GLITCH_STEP_MS :: u64 where "GLITCH_STEP_MS = 300"
definition BAND_ROWS :: u16 where "BAND_ROWS = 6"
definition JITTER_PX :: int where "JITTER_PX = 3"
definition FLASH_EVERY_N_BURSTS :: u32 where "FLASH_EVERY_N_BURSTS = 4"

definition glitch_enter :: "'w badge_host \<Rightarrow> fx_context \<Rightarrow> u64 \<Rightarrow> ('w nst, unit) state" where
  "glitch_enter h c now = do {
     put (\<lambda>st. st\<lparr>gl_last := now, gl_phase := Calm 4, gl_bursts := 0\<rparr>);
     seed \<leftarrow> random_or h now;
     put (\<lambda>st. st\<lparr>gl_rng := rng_new seed\<rparr>);
     record_name_elem h c (name_y c);
     perform h [Cv_elem_begin ELEM_BAND_A, Cv_elem_end, Cv_elem_show ELEM_BAND_A False,
       Cv_elem_begin ELEM_BAND_B, Cv_elem_end, Cv_elem_show ELEM_BAND_B False];
     nm \<leftarrow> gets name;
     perform h ([Cv_elem_begin ELEM_FLASH, Cv_ui (Cv_shade SHADE_SOLID), Cv_ui (Cv_rect 0 0 (cx_w c) (cx_h c) True),
         Cv_font (cx_font c), Cv_ui (Cv_text_size 1), Cv_ui (Cv_inverted True)] @
       drawn_ui (draw_text_aligned 0 (baseline_y c) (cx_w c) nm ALIGN_CENTER) @
       [Cv_ui (Cv_inverted False), Cv_elem_end, Cv_elem_z ELEM_FLASH 6, Cv_elem_show ELEM_FLASH False])
   }"

definition settle :: "'w badge_host \<Rightarrow> ('w nst, unit) state" where
  "settle h = perform h [Cv_elem_offset ELEM_NAME 0 0, Cv_elem_show ELEM_BAND_A False, Cv_elem_show ELEM_BAND_B False,
     Cv_ui (Cv_commit False)]"

definition glitch_below :: "u32 \<Rightarrow> ('w nst, u32) state" where
  "glitch_below n = State (\<lambda>st. case rng_below n (gl_rng st) of (v, rng) \<Rightarrow> (v, st\<lparr>gl_rng := rng\<rparr>))"

definition glitch_range :: "int \<Rightarrow> int \<Rightarrow> ('w nst, int) state" where
  "glitch_range lo hi = State (\<lambda>st. case range_i16 lo hi (gl_rng st) of (v, rng) \<Rightarrow> (v, st\<lparr>gl_rng := rng\<rparr>))"

definition roll_band :: "'w badge_host \<Rightarrow> fx_context \<Rightarrow> u32 \<Rightarrow> ('w nst, unit) state" where
  "roll_band h c el = do {
     (band, rng) \<leftarrow> gets (\<lambda>st. noise_band (gl_rng st) (of_int (cx_w c)) BAND_ROWS);
     put (\<lambda>st. st\<lparr>gl_rng := rng\<rparr>);
     y \<leftarrow> glitch_range 0 (i16 (cx_h c - sint BAND_ROWS));
     perform h [Cv_elem_clear el, Cv_elem_begin el, Cv_bitmap 0 y (cx_w c) (sint BAND_ROWS) band, Cv_elem_end,
       Cv_elem_show el True]
   }"

definition end_burst :: "'w badge_host \<Rightarrow> ('w nst, unit) state" where
  "end_burst h = do {
     put (\<lambda>st. st\<lparr>gl_bursts := gl_bursts st + 1\<rparr>);
     n \<leftarrow> gets gl_bursts;
     if n mod FLASH_EVERY_N_BURSTS = 0 then do {
       put (\<lambda>st. st\<lparr>gl_phase := Flash\<rparr>);
       perform h [Cv_elem_show ELEM_FLASH True, Cv_ui (Cv_commit False)]
     }
     else do {
       settle h;
       r \<leftarrow> glitch_below 5;
       put (\<lambda>st. st\<lparr>gl_phase := Calm (3 + ucast r)\<rparr>)
     }
   }"

definition burst_step :: "'w badge_host \<Rightarrow> fx_context \<Rightarrow> u8 \<Rightarrow> ('w nst, unit) state" where
  "burst_step h c left = do {
     put (\<lambda>st. st\<lparr>gl_phase := Burst (left - 1)\<rparr>);
     x \<leftarrow> glitch_range (- JITTER_PX) JITTER_PX;
     perform h [Cv_elem_offset ELEM_NAME x 0];
     for_each [ELEM_BAND_A, ELEM_BAND_B] (roll_band h c);
     perform h [Cv_ui (Cv_commit False)]
   }"

definition glitch_step :: "'w badge_host \<Rightarrow> fx_context \<Rightarrow> ('w nst, unit) state" where
  "glitch_step h c = do {
     phase \<leftarrow> gets gl_phase;
     case phase of
       Calm left \<Rightarrow>
         if left > 0 then put (\<lambda>st. st\<lparr>gl_phase := Calm (left - 1)\<rparr>)
         else do { r \<leftarrow> glitch_below 2; put (\<lambda>st. st\<lparr>gl_phase := Burst (2 + ucast r)\<rparr>) }
     | Burst left \<Rightarrow> if left = 0 then end_burst h else burst_step h c left
     | Flash \<Rightarrow> do {
         perform h [Cv_elem_show ELEM_FLASH False];
         settle h;
         r \<leftarrow> glitch_below 4;
         put (\<lambda>st. st\<lparr>gl_phase := Calm (4 + ucast r)\<rparr>)
       }
   }"

definition glitch_tick :: "'w badge_host \<Rightarrow> fx_context \<Rightarrow> u64 \<Rightarrow> ('w nst, unit) state" where
  "glitch_tick h c now = do {
     early \<leftarrow> gets (\<lambda>st. sat_sub now (gl_last st) < GLITCH_STEP_MS);
     whenM (\<not> early) (do { put (\<lambda>st. st\<lparr>gl_last := now\<rparr>); glitch_step h c })
   }"

section \<open>Orbit\<close>

definition ELEM_FRAME :: u32 where "ELEM_FRAME = 10"
definition ELEM_SAT_A :: u32 where "ELEM_SAT_A = 11"
definition ELEM_SAT_B :: u32 where "ELEM_SAT_B = 12"
definition PULSE_STEP_MS :: u64 where "PULSE_STEP_MS = 500"
definition SHADES :: "u8 list" where "SHADES = [64, 128, 192, 255, 192, 128]"
definition RING_THICKNESS :: int where "RING_THICKNESS = 4"
definition FRAME_PAD :: int where "FRAME_PAD = 10"

definition record_frame :: "'w badge_host \<Rightarrow> fx_context \<Rightarrow> u8 \<Rightarrow> ('w nst, unit) state" where
  "record_frame h c shade =
    (let x = FRAME_PAD;
         y = i16 (name_y c - FRAME_PAD);
         w = i16 (cx_w c - 2 * FRAME_PAD);
         ht = i16 (sint (cx_name_h c) + 2 * FRAME_PAD)
     in perform h [Cv_elem_clear ELEM_FRAME, Cv_elem_begin ELEM_FRAME, Cv_ui (Cv_shade shade),
          Cv_round_rect x y w ht 8 True, Cv_ui (Cv_shade SHADE_SOLID), Cv_ink True,
          Cv_round_rect (i16 (x + RING_THICKNESS)) (i16 (y + RING_THICKNESS)) (i16 (w - 2 * RING_THICKNESS))
            (i16 (ht - 2 * RING_THICKNESS)) 6 True,
          Cv_ink False, Cv_elem_end, Cv_elem_z ELEM_FRAME (-1)])"

definition place_satellites :: "'w badge_host \<Rightarrow> fx_context \<Rightarrow> u32 \<Rightarrow> ('w nst, unit) state" where
  "place_satellites h c step =
    (let cx = i16 (cx_w c sdiv 2 - 4);
         cy = i16 (name_y c + sint (cx_name_h c) sdiv 2 - 4);
         rx = i16 (cx_w c sdiv 2 - 12);
         ry = i16 (i16 (sint (cx_name_h c) + 2 * FRAME_PAD) sdiv 2 + 8);
         (ax, ay) = orbit_offset (unat step) rx ry;
         (bx, by) = orbit_offset ((unat step + length ORBIT_12 div 2) mod 2 ^ 32) rx ry
     in perform h [Cv_elem_offset ELEM_SAT_A (i16 (cx + ax)) (i16 (cy + ay)),
          Cv_elem_offset ELEM_SAT_B (i16 (cx + bx)) (i16 (cy + by))])"

definition orbit_enter :: "'w badge_host \<Rightarrow> fx_context \<Rightarrow> u64 \<Rightarrow> ('w nst, unit) state" where
  "orbit_enter h c now = do {
     put (\<lambda>st. st\<lparr>or_last := now, or_step := 0\<rparr>);
     record_name_elem h c (name_y c);
     perform h [Cv_elem_z ELEM_NAME 3];
     animate (invoke h) (yoyo_forever (anim_ease QuadInOut (anim_duration 2200 (anim_to 3 0 (anim_element ELEM_NAME)))));
     record_frame h c (SHADES ! 0);
     perform h [Cv_elem_begin ELEM_SAT_A, Cv_bitmap 0 0 8 8 DIAMOND8, Cv_elem_end,
       Cv_elem_begin ELEM_SAT_B, Cv_bitmap 0 0 8 8 (take 8 (drop 16 star_sheet)), Cv_elem_end];
     place_satellites h c 0
   }"

definition orbit_tick :: "'w badge_host \<Rightarrow> fx_context \<Rightarrow> u64 \<Rightarrow> ('w nst, unit) state" where
  "orbit_tick h c now = do {
     early \<leftarrow> gets (\<lambda>st. sat_sub now (or_last st) < PULSE_STEP_MS);
     whenM (\<not> early) (do {
       put (\<lambda>st. st\<lparr>or_last := now, or_step := or_step st + 1\<rparr>);
       step \<leftarrow> gets or_step;
       record_frame h c (SHADES ! (unat step mod length SHADES));
       place_satellites h c step;
       perform h [Cv_ui (Cv_commit False)]
     })
   }"

section \<open>Engine\<close>

definition dispatch_enter :: "'w badge_host \<Rightarrow> u32 \<Rightarrow> fx_context \<Rightarrow> u64 \<Rightarrow> ('w nst, unit) state" where
  "dispatch_enter h fx c now =
    (if fx = 0 then entrance_enter h c
     else if fx = 1 then typewriter_enter h c now
     else if fx = 2 then bounce_enter h c
     else if fx = 3 then sparkle_enter h c now
     else if fx = 4 then wipe_enter h c now
     else if fx = 5 then ghosts_enter h c now
     else if fx = 6 then glitch_enter h c now
     else orbit_enter h c now)"

definition switch_effect :: "'w badge_host \<Rightarrow> u32 \<Rightarrow> u64 \<Rightarrow> ('w nst, unit) state" where
  "switch_effect h fx0 now = do {
     let fx = fx0 mod FX_COUNT;
     perform h [An_cancel 0, Cv_ui Cv_clear];
     release_measure h;
     put (\<lambda>st. st\<lparr>current_fx := fx, fx_started := now\<rparr>);
     c \<leftarrow> gets ctx;
     dispatch_enter h fx c now;
     perform h [Cv_ui (Cv_commit True)]
   }"

definition next_effect :: "'w badge_host \<Rightarrow> u64 \<Rightarrow> ('w nst, unit) state" where
  "next_effect h now = do { fx \<leftarrow> gets current_fx; switch_effect h (fx + 1) now }"

definition prev_effect :: "'w badge_host \<Rightarrow> u64 \<Rightarrow> ('w nst, unit) state" where
  "prev_effect h now = do { fx \<leftarrow> gets current_fx; switch_effect h (fx + FX_COUNT - 1) now }"

definition dispatch_tick :: "'w badge_host \<Rightarrow> u32 \<Rightarrow> fx_context \<Rightarrow> u64 \<Rightarrow> ('w nst, unit) state" where
  "dispatch_tick h fx c now =
    (if fx = 0 then ret ()
     else if fx = 1 then typewriter_tick h c now
     else if fx = 2 then ret ()
     else if fx = 3 then sparkle_tick h c now
     else if fx = 4 then wipe_tick h c now
     else if fx = 5 then ret ()
     else if fx = 6 then glitch_tick h c now
     else orbit_tick h c now)"

definition engine_tick :: "'w badge_host \<Rightarrow> u64 \<Rightarrow> ('w nst, unit) state" where
  "engine_tick h now = do {
     st \<leftarrow> gets (\<lambda>st. st);
     if unat (current_fx st) \<ge> length FX_DURATION_MS then badge_panic
     else if auto_rotate st \<and> sat_sub now (fx_started st) \<ge> FX_DURATION_MS ! unat (current_fx st)
     then switch_effect h (current_fx st + 1) now
     else dispatch_tick h (current_fx st) (ctx st) now
   }"

definition dispatch_action :: "'w badge_host \<Rightarrow> u32 \<Rightarrow> fx_context \<Rightarrow> u32 \<Rightarrow> ('w nst, unit) state" where
  "dispatch_action h fx c act =
    (if fx = 0 then entrance_on_action h act
     else if fx = 2 then bounce_on_action h act
     else if fx = 5 then ghosts_on_action h c act
     else ret ())"

definition engine_on_action :: "'w badge_host \<Rightarrow> u32 \<Rightarrow> ('w nst, unit) state" where
  "engine_on_action h act =
    (if act < FX_ACTION_BASE then ret ()
     else do {
       st \<leftarrow> gets (\<lambda>st. st);
       let fx = (act - FX_ACTION_BASE) div FX_ACTION_STRIDE;
       if fx \<noteq> current_fx st then ret () else dispatch_action h fx (ctx st) act
     })"

section \<open>Exports\<close>

definition BADGE_ACT_KEY :: u32 where "BADGE_ACT_KEY = 1"
definition ACT_MENU :: u32 where "ACT_MENU = 2"
definition ACT_NAME_INPUT :: u32 where "ACT_NAME_INPUT = 3"
definition ITEM_SET_NAME :: u32 where "ITEM_SET_NAME = 1"
definition ITEM_TOGGLE_AUTO :: u32 where "ITEM_TOGGLE_AUTO = 2"
definition NVS_NAME :: string where "NVS_NAME = ''name''"
definition NVS_FX :: string where "NVS_FX = ''fx''"
definition NVS_AUTO :: string where "NVS_AUTO = ''auto''"
definition NAME_MAX_CHARS :: u16 where "NAME_MAX_CHARS = 32"
definition BACKLIGHT_MAX :: u16 where "BACKLIGHT_MAX = 1023"
definition BACKLIGHT_STEP :: u16 where "BACKLIGHT_STEP = 128"

definition load_name :: "'w badge_host \<Rightarrow> 'w \<Rightarrow> ustr" where
  "load_name h w = trim (or_empty (nvs_get_str (bh_store h) NVS_NAME (unat NAME_MAX_CHARS * 4) w))"

definition apply_name :: "'w badge_host \<Rightarrow> ustr \<Rightarrow> ('w nst, unit) state" where
  "apply_name h nm = do {
     let shown = (if nm = [] then bh_key h ''placeholder'' else nm);
     c \<leftarrow> build_context h shown;
     put (\<lambda>st. st\<lparr>ctx := c, name := shown\<rparr>)
   }"

definition prompt_name :: "'w badge_host \<Rightarrow> ustr option \<Rightarrow> ('w nst, unit) state" where
  "prompt_name h initial =
     perform h (drawn_ui (push_t9_input (bh_key h ''name_prompt'') initial NAME_MAX_CHARS ACT_NAME_INPUT))"

definition save_u32 :: "'w badge_host \<Rightarrow> string \<Rightarrow> u32 \<Rightarrow> ('w nst, unit) state" where
  "save_u32 h k v = put (\<lambda>st. st\<lparr>nw := snd (nvs_set_u32 (bh_store h) k v (nw st))\<rparr>)"

definition badge_on_enter :: "'w badge_host \<Rightarrow> ('w nst, unit) state" where
  "badge_on_enter h = do {
     perform h (drawn_ui (canvas_push [] BADGE_ACT_KEY 0) @ [Cv_policy ANIM_REFRESH_AUTO 4]);
     put (\<lambda>st. st\<lparr>backlight := bh_backlight h (nw st)\<rparr>);
     nm \<leftarrow> gets (\<lambda>st. load_name h (nw st));
     apply_name h nm;
     put (\<lambda>st. st\<lparr>auto_rotate := (case nvs_get_u32 (bh_store h) NVS_AUTO (nw st) of Some v \<Rightarrow> v | None \<Rightarrow> 1) \<noteq> 0\<rparr>);
     fx \<leftarrow> gets (\<lambda>st. case nvs_get_u32 (bh_store h) NVS_FX (nw st) of Some v \<Rightarrow> v | None \<Rightarrow> 0);
     now \<leftarrow> gets uptime;
     switch_effect h fx now;
     whenM (nm = []) (prompt_name h None)
   }"

definition badge_on_exit :: "('w nst, unit) state" where
  "badge_on_exit = ret ()"

definition badge_on_tick :: "'w badge_host \<Rightarrow> u64 \<Rightarrow> ('w nst, unit) state" where
  "badge_on_tick h now = do { put (\<lambda>st. st\<lparr>uptime := now\<rparr>); engine_tick h now }"

definition badge_open_menu :: "'w badge_host \<Rightarrow> ('w nst, unit) state" where
  "badge_open_menu h = do {
     auto \<leftarrow> gets auto_rotate;
     perform h (drawn_ui (menu_push
       (menu_item (if auto then bh_key h ''menu_auto_on'' else bh_key h ''menu_auto_off'') ITEM_TOGGLE_AUTO 0
       (menu_item (bh_key h ''menu_set_name'') ITEM_SET_NAME 0
       (menu_on_select ACT_MENU (menu_new (bh_key h ''menu_title'')))))))
   }"

text \<open>\<open>saturating_add(BACKLIGHT_STEP).min(BACKLIGHT_MAX)\<close> and \<open>saturating_sub(BACKLIGHT_STEP)\<close>.\<close>

definition stepped :: "bool \<Rightarrow> u16 \<Rightarrow> u16" where
  "stepped brighter b =
    (if brighter then min (if b > - 1 - BACKLIGHT_STEP then - 1 else b + BACKLIGHT_STEP) BACKLIGHT_MAX
     else sat_sub b BACKLIGHT_STEP)"

definition step_backlight :: "'w badge_host \<Rightarrow> bool \<Rightarrow> ('w nst, unit) state" where
  "step_backlight h brighter = do {
     next \<leftarrow> gets (\<lambda>st. stepped brighter (backlight st));
     put (\<lambda>st. st\<lparr>backlight := next\<rparr>);
     perform h [Ds_backlight next]
   }"

definition keep_effect :: "'w badge_host \<Rightarrow> ('w nst, unit) state" where
  "keep_effect h = do { fx \<leftarrow> gets current_fx; save_u32 h NVS_FX fx }"

definition badge_on_key :: "'w badge_host \<Rightarrow> u8 \<Rightarrow> ('w nst, unit) state" where
  "badge_on_key h key = do {
     now \<leftarrow> gets uptime;
     (if key = 56 \<or> key = 89 then do { next_effect h now; keep_effect h }
      else if key = 50 then do { prev_effect h now; keep_effect h }
      else if key = 54 then step_backlight h True
      else if key = 52 then step_backlight h False
      else if key = 51 then badge_open_menu h
      else if key = 78 then perform h (drawn_ui ui_pop)
      else ret ())
   }"

definition on_menu_select :: "'w badge_host \<Rightarrow> u32 \<Rightarrow> ('w nst, unit) state" where
  "on_menu_select h item =
    (if item = ITEM_SET_NAME then do { nm \<leftarrow> gets name; prompt_name h (Some nm) }
     else if item = ITEM_TOGGLE_AUTO then do {
       put (\<lambda>st. st\<lparr>auto_rotate := \<not> auto_rotate st\<rparr>);
       auto \<leftarrow> gets auto_rotate;
       save_u32 h NVS_AUTO (if auto then 1 else 0);
       perform h (drawn_ui (push_toast (bh_key h (if auto then ''auto_on'' else ''auto_off'')) UI_ICON_SUCCESS 1500))
     }
     else ret ())"

definition badge_input_text :: "'w badge_host \<Rightarrow> ('w nst, ustr option) state" where
  "badge_input_text h = State (\<lambda>st.
     case run_state (sdk_consume_input_text (bh_input_text h) (unat NAME_MAX_CHARS)) (nw st) of
       (v, w) \<Rightarrow> (v, st\<lparr>nw := w\<rparr>))"

definition store_name :: "'w badge_host \<Rightarrow> ustr \<Rightarrow> ('w nst, unit) state" where
  "store_name h trimmed = put (\<lambda>st. st\<lparr>nw := snd (nvs_set_str (bh_store h) NVS_NAME trimmed (nw st))\<rparr>)"

definition on_name_input :: "'w badge_host \<Rightarrow> bool \<Rightarrow> ('w nst, unit) state" where
  "on_name_input h confirmed = do {
     whenM confirmed (do {
       text \<leftarrow> badge_input_text h;
       case text of
         None \<Rightarrow> ret ()
       | Some t \<Rightarrow> do { store_name h (trim t); apply_name h (trim t) }
     });
     fx \<leftarrow> gets current_fx;
     now \<leftarrow> gets uptime;
     switch_effect h fx now
   }"

definition badge_on_action :: "'w badge_host \<Rightarrow> u32 \<Rightarrow> u32 \<Rightarrow> ('w nst, unit) state" where
  "badge_on_action h act user_data =
    (if act = BADGE_ACT_KEY then badge_on_key h (ucast user_data)
     else if act = ACT_MENU then on_menu_select h user_data
     else if act = ACT_NAME_INPUT then on_name_input h (user_data = 1)
     else engine_on_action h act)"

end
