(* ===== verification/Badge_Laws.thy ===== *)
theory Badge_Laws
  imports Badge
begin

text \<open>
  The laws of the name badge: the pixels of the dissolve, the ranges of the random numbers, and the
  invariant of the statics. \<open>surfaces\<close> reads the log of calls as the firmware does: the offscreen
  surfaces that are open, and the largest number that ever was.
\<close>

section \<open>Pixels\<close>

definition pixel :: "nat \<Rightarrow> u8 list \<Rightarrow> nat \<times> nat \<Rightarrow> bool" where
  "pixel stride raster yx = (case yx of (y, x) \<Rightarrow> bit (raster ! (y * stride + x div 8)) (7 - x mod 8))"

definition threshold :: "nat \<times> nat \<Rightarrow> u8" where
  "threshold yx = (case yx of (y, x) \<Rightarrow> BAYER_4X4 ! (y mod 4) ! (x mod 4))"

definition in_raster :: "nat \<Rightarrow> u8 list \<Rightarrow> nat \<times> nat \<Rightarrow> bool" where
  "in_raster stride raster yx \<longleftrightarrow> fst yx < length raster div stride \<and> snd yx < stride * 8"

lemma in_raster_index: "in_raster stride raster (y, x) \<Longrightarrow> y * stride + x div 8 < length raster"
proof -
  assume "in_raster stride raster (y, x)"
  then have y: "Suc y \<le> length raster div stride" and x: "x div 8 < stride"
    by (auto simp: in_raster_def less_mult_imp_div_less)
  have "y * stride + x div 8 < Suc y * stride" using x by simp
  also have "\<dots> \<le> length raster div stride * stride" using y by (rule mult_le_mono1)
  also have "\<dots> \<le> length raster" by simp
  finally show ?thesis .
qed

lemma index_inject:
  fixes s :: nat
  assumes "y * s + x div 8 = y' * s + x' div 8" and "x < s * 8" and "x' < s * 8"
  shows "y = y' \<and> x div 8 = x' div 8"
proof -
  have lt: "x div 8 < s" "x' div 8 < s" using assms(2,3) by (simp_all add: less_mult_imp_div_less)
  have "y = (y * s + x div 8) div s" "y' = (y' * s + x' div 8) div s" using lt by simp_all
  then have "y = y'" using assms(1) by metis
  then show ?thesis using assms(1) by simp
qed

lemma bit_mask:
  assumes "k < 8" and "j < 8"
  shows "bit (NOT (drop_bit k (0x80 :: u8))) (7 - j) \<longleftrightarrow> j \<noteq> k"
proof -
  have top: "bit (0x80 :: u8) n \<longleftrightarrow> n = 7" for n
  proof -
    have "(0x80 :: u8) = 2 ^ 7" by simp
    then show ?thesis by (simp only: bit_exp_iff possible_bit_word) auto
  qed
  have "k + (7 - j) = 7 \<longleftrightarrow> j = k" "7 - j < LENGTH(8)" using assms by auto
  then show ?thesis by (simp only: bit_not_iff possible_bit_word bit_drop_bit_eq o_apply top) simp
qed

lemma length_bayer_pixel [simp]: "length (bayer_pixel s l q out) = length out"
  by (simp add: bayer_pixel_def Let_def split: prod.split)

lemma bayer_step:
  assumes "in_raster s out p" and "in_raster s out q"
  shows "pixel s (bayer_pixel s l q out) p \<longleftrightarrow> pixel s out p \<and> (p = q \<longrightarrow> threshold p < l)"
proof -
  obtain y x y' x' where p: "p = (y, x)" "q = (y', x')" by (metis prod.exhaust)
  let ?i = "y * s + x div 8" and ?j = "y' * s + x' div 8"
  have j: "?j < length out" using in_raster_index assms(2) p by blast
  have eq: "?i = ?j \<longleftrightarrow> y = y' \<and> x div 8 = x' div 8"
    using index_inject [of y s x y' x'] assms p by (auto simp: in_raster_def)
  have m: "bit (NOT (drop_bit (x' mod 8) (0x80 :: u8))) (7 - x mod 8) \<longleftrightarrow> x mod 8 \<noteq> x' mod 8"
    by (rule bit_mask) simp_all
  have "x = x' \<longleftrightarrow> x div 8 = x' div 8 \<and> x mod 8 = x' mod 8"
    by (metis div_mult_mod_eq)
  then show ?thesis
    using j eq m by (auto simp: p pixel_def bayer_pixel_def threshold_def Let_def nth_list_update bit_and_iff)
qed

lemma bayer_fold:
  assumes "list_all (in_raster s out) ps" and "in_raster s out p"
  shows "pixel s (fold (bayer_pixel s l) ps out) p \<longleftrightarrow> pixel s out p \<and> (p \<in> set ps \<longrightarrow> threshold p < l)"
  using assms
proof (induction ps arbitrary: out)
  case (Cons q ps)
  have r: "in_raster s (bayer_pixel s l q out) = in_raster s out" by (simp add: fun_eq_iff in_raster_def)
  have "pixel s (fold (bayer_pixel s l) ps (bayer_pixel s l q out)) p
      \<longleftrightarrow> pixel s (bayer_pixel s l q out) p \<and> (p \<in> set ps \<longrightarrow> threshold p < l)"
    using Cons.prems by (intro Cons.IH) (simp_all add: r)
  then show ?case using bayer_step [of s out p q l] Cons.prems by auto
qed simp

lemma threshold_less: "threshold yx < LEVEL_MAX"
proof -
  have rows: "list_all (\<lambda>r. length r = 4 \<and> list_all (\<lambda>t. t < LEVEL_MAX) r) BAYER_4X4" "length BAYER_4X4 = 4"
    by (simp_all add: BAYER_4X4_def LEVEL_MAX_def)
  then have "i < 4 \<Longrightarrow> j < 4 \<Longrightarrow> BAYER_4X4 ! i ! j < LEVEL_MAX" for i j by (simp add: list_all_length)
  then show ?thesis by (simp add: threshold_def split: prod.split)
qed

lemma length_apply_bayer: "length (apply_bayer raster s l) = length raster"
proof -
  have "length (fold (bayer_pixel s l) ps out) = length out" for ps out by (induction ps arbitrary: out) simp_all
  then show ?thesis by (simp add: apply_bayer_def Let_def)
qed

lemma bayer_pixels:
  assumes "in_raster s raster p"
  shows "pixel s (apply_bayer raster s l) p \<longleftrightarrow> pixel s raster p \<and> threshold p < l"
proof (cases "l \<ge> LEVEL_MAX")
  case True
  then have "threshold p < l" using threshold_less [of p] by (rule order_less_le_trans [rotated])
  then show ?thesis using True by (simp add: apply_bayer_def)
next
  case False
  let ?ps = "List.product [0..<length raster div s] [0..<s * 8]"
  have s: "s \<noteq> 0" using assms by (auto simp: in_raster_def)
  have "list_all (in_raster s raster) ?ps" "p \<in> set ?ps"
    using assms by (auto simp: list_all_iff in_raster_def mem_Times_iff)
  then show ?thesis using bayer_fold [of s raster ?ps p l] assms False s by (simp add: apply_bayer_def Let_def)
qed

lemma invert_pixel: "in_raster s raster p \<Longrightarrow> pixel s (invert raster) p \<longleftrightarrow> \<not> pixel s raster p"
proof -
  have "7 - b mod 8 < 8" for b :: nat by simp
  then show "in_raster s raster p \<Longrightarrow> ?thesis"
    using in_raster_index [of s raster "fst p" "snd p"] by (cases p) (simp add: pixel_def invert_def bit_not_iff)
qed

section \<open>Random numbers\<close>

lemma range_i16_in:
  assumes "range_i16 mn mx rng = (v, rng')" and "- 32768 \<le> mn" "mn < 32768" "- 32768 \<le> mx" "mx < 32768"
  shows "min mn mx \<le> v \<and> v \<le> max mn mx"
proof -
  define lo hi where "lo = min mn mx" and "hi = max mn mx"
  let ?span = "of_int (hi - lo + 1) :: u32"
  have b: "- 32768 \<le> lo" "lo \<le> hi" "hi < 32768" using assms(2-) by (auto simp: lo_def hi_def)
  have sp: "uint ?span = hi - lo + 1" using b by (simp only: uint_word_of_int) simp
  obtain k r where k: "rng_below ?span rng = (k, r)" by (rule prod.exhaust)
  have "uint (x mod ?span) < uint ?span" for x
    unfolding uint_mod by (rule pos_mod_bound, unfold sp) (use b in linarith)
  moreover have "?span \<noteq> 0" using sp b by force
  ultimately have "uint k < uint ?span"
    using k by (simp only: rng_below_def if_False prod.inject) metis
  then have kb: "0 \<le> uint k" "lo + uint k \<le> hi" using sp by simp_all
  have "v = i16 (lo + i16 (uint k))"
    using assms(1) k by (auto simp: range_i16_def lo_def hi_def min_def max_def split: if_splits)
  also have "\<dots> = i16 (lo + uint k)"
    using i16_id [of lo] b signed_take_bit_add [of 15 lo "uint k"] by (simp add: i16_def)
  also have "\<dots> = lo + uint k" using b kb by (intro i16_id) linarith+
  finally show ?thesis using kb by (simp add: lo_def hi_def)
qed

section \<open>Prefixes\<close>

lemma prefix_at_len: "prefix_at (length (utf8_encode (take n s))) s = Some (take n s)"
proof (induction s arbitrary: n)
  case (Cons c s)
  have "utf8_char c \<noteq> []" by (simp add: utf8_char_def)
  then show ?case using Cons by (cases n) (simp_all add: utf8_encode_def)
qed (simp add: utf8_encode_def)

lemma prefix_taken: "prefix_at (prefix_len_bytes s n) s = Some (take n s)"
  using prefix_at_len [of n s] by (cases "n < length s") (simp_all add: prefix_len_bytes_def)

section \<open>Calls\<close>

definition plain :: "cv_call \<Rightarrow> bool" where
  "plain c \<longleftrightarrow> (case c of Sf_create _ _ \<Rightarrow> False | Sf_destroy _ \<Rightarrow> False | _ \<Rightarrow> True)"

lemma plain_simps [simp]:
  "plain (Cv_ui u)" "plain (Cv_font f)" "plain (Cv_ink b)" "plain (Cv_policy p0 q0)" "plain (Cv_bitmap x y w ht d)"
  "plain (Cv_hline x y w)" "plain (Cv_vline x y ht)" "plain (Cv_round_rect x y w ht r b)" "plain (Cv_sprite x y i)"
  "plain (Cv_marquee x y w t p4 q2)" "plain (Cv_elem_begin i)" "plain Cv_elem_end" "plain (Cv_elem_offset i x y)"
  "plain (Cv_elem_show i b)" "plain (Cv_elem_clear i)" "plain (Cv_elem_z i z)" "plain (An_start a)" "plain (An_cancel i)"
  "plain (An_blink i p2 n2 act)" "plain (Sp_create w2 h2 n3 sheet)" "plain (Sp_mask i d)" "plain (Sp_flags i f)"
  "plain (Sp_frame i n4)" "plain (Sp_play i f p3 n5 act)" "plain (Sf_font i f)" "plain (Sf_text i x y t)"
  "plain (Ds_backlight b2)"
  by (simp_all add: plain_def)

lemma plain_ui [simp]: "list_all plain (drawn_ui us)"
  by (simp add: list_all_iff)

lemma plain_marquee [simp]: "list_all plain (marquee x y w t p q)"
  by (simp add: marquee_def)

section \<open>Effects\<close>

text \<open>An effect changes its own cells, makes plain calls and draws random numbers: it keeps every invariant
  that those leave alone.\<close>

definition wipe_ok :: "'w nst \<Rightarrow> bool" where
  "wipe_ok st \<longleftrightarrow> 0 \<le> wi_level st \<and> wi_level st \<le> 16 \<and> (wi_dir st = 1 \<or> wi_dir st = -1)"

definition inner :: "'w nst \<Rightarrow> 'w nst \<Rightarrow> bool" where
  "inner st st' \<longleftrightarrow> nw st' = nw st \<and> n_calls st' = n_calls st \<and> ntrapped st' = ntrapped st \<and> uptime st' = uptime st
     \<and> name st' = name st \<and> ctx st' = ctx st \<and> current_fx st' = current_fx st \<and> auto_rotate st' = auto_rotate st
     \<and> fx_started st' = fx_started st \<and> tw_measure st' = tw_measure st \<and> (wipe_ok st \<longrightarrow> wipe_ok st')"

lemma inner_advance [simp]: "inner st (advance_level st)"
  by (auto simp: inner_def wipe_ok_def advance_level_def Let_def LEVEL_MAX_def)

lemma keeps_phase [keeps_intro]:
  "(\<And>n. x = Calm n \<Longrightarrow> keeps I (f n)) \<Longrightarrow> (\<And>n. x = Burst n \<Longrightarrow> keeps I (g n)) \<Longrightarrow> (x = Flash \<Longrightarrow> keeps I k)
   \<Longrightarrow> keeps I (case x of Calm n \<Rightarrow> f n | Burst n \<Rightarrow> g n | Flash \<Rightarrow> k)"
  by (cases x) simp_all

locale effect_frame =
  fixes h :: "'w badge_host" and I :: "'w nst \<Rightarrow> bool"
  assumes call_keeps [keeps_intro]: "plain c \<Longrightarrow> keeps I (invoke h c)"
    and random_world: "I st \<Longrightarrow> I (st\<lparr>nw := snd (bh_random_u32 h (nw st))\<rparr>)"
    and cells: "inner st st' \<Longrightarrow> I st \<Longrightarrow> I st'"
begin

lemma put_inner: "(\<And>st. inner st (f st)) \<Longrightarrow> keeps I (put f)"
  unfolding put_def by (rule keeps_modify) (rule cells)

lemma state_inner: "(\<And>st. inner st (snd (f st))) \<Longrightarrow> keeps I (State f)"
  by (auto simp: keeps_def intro: cells)

lemmas own = put_inner state_inner
lemmas own_simps = inner_def wipe_ok_def

lemma performs [keeps_intro]: "list_all plain cs \<Longrightarrow> keeps I (perform h cs)"
  unfolding perform_def by (intro keeps_intro) (simp add: list_all_iff)

lemma answers [keeps_intro]:
  "plain c \<Longrightarrow> keeps I (handle_of (invoke h) c)" "plain c \<Longrightarrow> keeps I (checked (invoke h) c)"
  "keeps I (anim_start (invoke h) an)" "keeps I (animate (invoke h) an)"
  unfolding animate_def anim_start_def handle_of_def checked_def by (intro keeps_intro; simp)+

lemma randoms [keeps_intro]: "keeps I (random_or h now)"
  using random_world by (auto simp: keeps_def random_or_def split: prod.split) (metis snd_conv)

lemma records [keeps_intro]: "keeps I (record_name_elem_styled h c y i)" "keeps I (record_name_elem h c y)"
  unfolding record_name_elem_def record_name_elem_styled_def by (intro keeps_intro; simp)+

lemma brackets [keeps_intro]: "keeps I (corners h i cs prev)"
proof (induction cs arbitrary: i prev)
  case (Cons p cs)
  obtain cx cy dx dy where "p = (cx, cy, dx, dy)" by (metis prod.exhaust)
  then show ?case by (simp only: corners.simps) (intro keeps_intro Cons.IH; simp)
qed (simp add: keeps_return)

lemma entrance [keeps_intro]: "keeps I (entrance_enter h c)" "keeps I (entrance_on_action h act)"
  unfolding entrance_enter_def entrance_on_action_def by (intro keeps_intro; simp)+

lemma prefixes [keeps_intro]: "keeps I (type_prefix h c)"
  unfolding type_prefix_def show_prefix_def by (intro keeps_intro) (simp_all add: prefix_taken)

lemma typewriter [keeps_intro]: "keeps I (typewriter_tick h c now)"
  unfolding typewriter_tick_def by (intro keeps_intro own; simp add: own_simps)

lemma typewriter_start: "keeps I (open_measure h c) \<Longrightarrow> keeps I (typewriter_enter h c now)"
  unfolding typewriter_enter_def anim_blink_def by (intro keeps_intro own; simp add: own_simps)

lemma bounce [keeps_intro]: "keeps I (bounce_enter h c)" "keeps I (bounce_on_action h act)"
  unfolding bounce_enter_def bounce_on_action_def bounce_star_def sprite_from_sheet_def
  by (intro keeps_intro own; simp add: own_simps)+

lemma spark [keeps_intro]: "keeps I (take_spark c)" "keeps I (twinkle h i)"
  unfolding take_spark_def twinkle_def sprite_from_sheet_def
  by (intro keeps_intro own; simp add: own_simps split: prod.split)+

lemma sparkle [keeps_intro]: "keeps I (sparkle_enter h c now)" "keeps I (sparkle_tick h c now)"
  unfolding sparkle_enter_def sparkle_tick_def record_spark_def by (intro keeps_intro own; simp add: own_simps)+

lemma wipe [keeps_intro]: "keeps I (wipe_tick h c now)"
  unfolding wipe_tick_def by (intro keeps_intro own inner_advance; simp add: own_simps)

lemma wipe_start: "(\<And>bh. keeps I (render_band h c bh)) \<Longrightarrow> keeps I (wipe_enter h c now)"
  unfolding wipe_enter_def by (intro keeps_intro own; simp add: own_simps)

lemma launches [keeps_intro]: "keeps I (launch h c el sp r ms don d)"
  unfolding launch_def Let_def by (intro keeps_intro own; simp add: own_simps)

lemma ghosts [keeps_intro]: "keeps I (ghosts_enter h c now)" "keeps I (ghosts_on_action h c act)"
  unfolding ghosts_enter_def ghosts_on_action_def make_ghost_def sprite_from_sheet_def
  by (intro keeps_intro own; simp add: own_simps)+

lemma glitch_rolls [keeps_intro]: "keeps I (glitch_below n)" "keeps I (glitch_range lo hi)"
  unfolding glitch_below_def glitch_range_def by (intro own; simp add: own_simps split: prod.split)+

lemma glitch [keeps_intro]: "keeps I (glitch_enter h c now)" "keeps I (glitch_tick h c now)"
  unfolding glitch_enter_def glitch_tick_def glitch_step_def end_burst_def burst_step_def roll_band_def settle_def
  by (intro keeps_intro own; simp add: own_simps)+

lemma orbit [keeps_intro]: "keeps I (orbit_enter h c now)" "keeps I (orbit_tick h c now)"
  unfolding orbit_enter_def orbit_tick_def record_frame_def place_satellites_def Let_def
  by (intro keeps_intro own; simp add: own_simps)+

lemma enters:
  assumes "\<And>bh. keeps I (render_band h c bh)" and "fx = 1 \<Longrightarrow> keeps I (open_measure h c)"
  shows "keeps I (dispatch_enter h fx c now)"
  unfolding dispatch_enter_def using assms by (intro keeps_intro wipe_start typewriter_start) simp_all

lemma ticks [keeps_intro]: "keeps I (dispatch_tick h fx c now)"
  unfolding dispatch_tick_def by (intro keeps_intro)

lemma actions [keeps_intro]: "keeps I (engine_on_action h act)"
  unfolding engine_on_action_def dispatch_action_def Let_def by (intro keeps_intro)

end

section \<open>Surfaces\<close>

text \<open>The open surfaces, newest first, and the most there were at a time.\<close>

fun surface_step :: "cv_call \<times> int \<Rightarrow> u32 list \<times> nat \<Rightarrow> u32 list \<times> nat" where
  "surface_step (Sf_create w h, rc) (open, peak) =
    (if rc > 0 then (of_int rc # open, max peak (Suc (length open))) else (open, peak))"
| "surface_step (Sf_destroy i, rc) (open, peak) = (remove1 i open, peak)"
| "surface_step _ s = s"

definition surfaces :: "(cv_call \<times> int) list \<Rightarrow> u32 list \<times> nat" where
  "surfaces log = fold surface_step log ([], 0)"

definition held :: "surface option \<Rightarrow> u32 list" where
  "held m = (case m of Some s \<Rightarrow> [sf_handle s] | None \<Rightarrow> [])"

text \<open>The invariant with a further surface \<open>X\<close> open, while effect \<open>fx\<close> runs.\<close>

definition badge_inv :: "u32 list \<Rightarrow> u32 \<Rightarrow> 'w nst \<Rightarrow> bool" where
  "badge_inv X fx st \<longleftrightarrow> \<not> ntrapped st \<and> current_fx st = fx \<and> fx < FX_COUNT \<and> length X \<le> 1
     \<and> (tw_measure st \<noteq> None \<longrightarrow> fx = 1) \<and> fst (surfaces (n_calls st)) = X @ held (tw_measure st)
     \<and> snd (surfaces (n_calls st)) \<le> 2 \<and> wipe_ok st"

lemmas inv_defs = badge_inv_def wipe_ok_def

lemma plain_step: "plain c \<Longrightarrow> surface_step (c, rc) s = s"
  by (cases s; cases c) (simp_all add: plain_def)

lemma surfaces_snoc: "surfaces (log @ [c]) = surface_step c (surfaces log)"
  by (simp add: surfaces_def)

lemma surface_steps:
  "surface_step (Sf_create w ht, rc) s =
    (if rc > 0 then (of_int rc # fst s, max (snd s) (Suc (length (fst s)))) else s)"
  "surface_step (Sf_destroy i, rc) s = (remove1 i (fst s), snd s)"
  by (cases s; simp)+

lemma invoke_plain [keeps_intro]: "plain c \<Longrightarrow> keeps (badge_inv X fx) (invoke h c)"
  by (auto simp: keeps_def invoke_def inv_defs surfaces_snoc plain_step split: prod.split)

lemma inv_cells: "inner st st' \<Longrightarrow> badge_inv X fx st \<Longrightarrow> badge_inv X fx st'"
  by (auto simp: badge_inv_def inner_def)

lemma inv_world: "badge_inv X fx (st\<lparr>nw := w\<rparr>) = badge_inv X fx st"
  by (simp add: inv_defs)

text \<open>\<open>badge_inv\<close> is such an invariant.\<close>

interpretation inv: effect_frame h "badge_inv X fx" for h X fx
  by unfold_locales (auto intro: invoke_plain inv_cells simp: inv_world)

lemma put_keeps [keeps_intro]: "(\<And>st. badge_inv X fx st \<Longrightarrow> badge_inv X fx (f st)) \<Longrightarrow> keeps (badge_inv X fx) (put f)"
  unfolding put_def by (rule keeps_modify)

lemma create_opens:
  "hoare (badge_inv [] fx) (surface_create (invoke h) w ht)
    (\<lambda>r. badge_inv (case r of Inr s \<Rightarrow> [sf_handle s] | Inl e \<Rightarrow> []) fx)"
  by (rule hoareI) (auto simp: surface_create_def handle_of_def invoke_def inv_defs surfaces_snoc surface_steps held_def
    split: prod.splits option.splits if_splits)

lemma drop_closes:
  "hoare (badge_inv [sf_handle s] fx) (surface_drop (invoke h) s) (\<lambda>_. badge_inv [] fx)"
  by (rule hoareI) (auto simp: surface_drop_def does_def invoke_def inv_defs surfaces_snoc surface_steps split: prod.splits)

lemma keeps_state [keeps_intro]:
  "(\<And>st. badge_inv X fx st \<Longrightarrow> badge_inv X fx (snd (f st))) \<Longrightarrow> keeps (badge_inv X fx) (State f)"
  by (simp add: keeps_def)

lemma inv_fields [simp]:
  "badge_inv X fx (st\<lparr>nw := w\<rparr>) = badge_inv X fx st" "badge_inv X fx (st\<lparr>uptime := t\<rparr>) = badge_inv X fx st"
  "badge_inv X fx (st\<lparr>backlight := b\<rparr>) = badge_inv X fx st" "badge_inv X fx (st\<lparr>auto_rotate := a\<rparr>) = badge_inv X fx st"
  "badge_inv X fx (st\<lparr>ctx := c, name := n\<rparr>) = badge_inv X fx st"
  by (simp_all add: inv_defs)

text \<open>A surface that is dropped before the end.\<close>

lemma borrow_surface [keeps_intro]:
  assumes "\<And>s. keeps (badge_inv [sf_handle s] fx) (m s)"
  shows "keeps (badge_inv [] fx) (do {
     r \<leftarrow> surface_create (invoke h) w ht;
     case r of Inl e \<Rightarrow> ret d | Inr s \<Rightarrow> do { b \<leftarrow> m s; surface_drop (invoke h) s; ret (f b) } })"
  unfolding keeps_hoare
proof (rule hoare_bind [OF create_opens])
  fix r
  show "hoare (badge_inv (case r of Inr s \<Rightarrow> [sf_handle s] | Inl e \<Rightarrow> []) fx)
    (case r of Inl e \<Rightarrow> ret d | Inr s \<Rightarrow> do { b \<leftarrow> m s; surface_drop (invoke h) s; ret (f b) }) (\<lambda>_. badge_inv [] fx)"
  proof (cases r)
    case (Inr s)
    have "hoare (badge_inv [] fx) (ret (f b)) (\<lambda>_. badge_inv [] fx)" for b
      by (simp add: hoare_def)
    then show ?thesis using Inr assms [of s] unfolding keeps_hoare
      by (auto intro!: hoare_bind [where Q = "\<lambda>_. badge_inv [sf_handle s] fx"] hoare_bind [OF drop_closes])
  qed (simp add: hoare_def)
qed

lemma measure_keeps [keeps_intro]: "keeps (badge_inv [] fx) (measure_name h text font)"
proof -
  have "measure_name h text font = do {
     r \<leftarrow> surface_create (invoke h) 8 8;
     case r of Inl e \<Rightarrow> ret (0, 12) | Inr s \<Rightarrow> do {
       b \<leftarrow> do { _ \<leftarrow> surface_set_font (invoke h) s font; gets (\<lambda>st. surface_measure_text (bh_measure h) s text (nw st)) };
       surface_drop (invoke h) s;
       ret (case b of Inr wh \<Rightarrow> wh | Inl e \<Rightarrow> (0, 12)) } }"
    by (simp add: measure_name_def cong: sum.case_cong)
  then show ?thesis unfolding surface_set_font_def
    by (simp only:) (intro keeps_intro; simp add: plain_def)
qed

lemma context_keeps [keeps_intro]: "keeps (badge_inv [] fx) (build_context h text)"
  unfolding build_context_def Let_def by (intro keeps_intro)

lemma band_keeps [keeps_intro]: "keeps (badge_inv X fx) (draw_band h c s)"
  unfolding draw_band_def surface_set_font_def surface_draw_text_def
  by (intro keeps_intro) (simp_all add: plain_def)

lemma band_render_keeps [keeps_intro]: "keeps (badge_inv [] fx) (render_band h c bh)"
proof -
  have "render_band h c bh = do {
     r \<leftarrow> surface_create (invoke h) (of_int (cx_w c)) bh;
     case r of Inl e \<Rightarrow> ret None | Inr s \<Rightarrow> do { b \<leftarrow> draw_band h c s; surface_drop (invoke h) s; ret (id b) } }"
    by (simp add: render_band_def cong: sum.case_cong)
  then show ?thesis by (simp only:) (intro keeps_intro)
qed

lemma set_measure_moves:
  "m \<noteq> None \<longrightarrow> fx = 1 \<Longrightarrow>
   hoare (badge_inv (held m) fx) (set_measure h m) (\<lambda>_ st. badge_inv [] fx st \<and> tw_measure st = m)"
  by (rule hoareI) (auto simp: set_measure_def put_def surface_drop_def does_def invoke_def inv_defs surfaces_snoc
    surface_steps held_def split: prod.splits option.splits)

text \<open>The typewriter's measuring surface.\<close>

lemma open_keeps: "keeps (badge_inv [] 1) (open_measure h c)"
proof -
  have font: "hoare (badge_inv [sf_handle s] 1)
      (do { _ \<leftarrow> surface_set_font (invoke h) s f; set_measure h (Some s) }) (\<lambda>_. badge_inv [] 1)" for s f
  proof (rule hoare_bind)
    show "hoare (badge_inv [sf_handle s] 1) (surface_set_font (invoke h) s f) (\<lambda>_. badge_inv [sf_handle s] 1)"
      unfolding surface_set_font_def keeps_hoare [symmetric] by (intro keeps_intro) simp
    show "hoare (badge_inv [sf_handle s] 1) (set_measure h (Some s)) (\<lambda>_. badge_inv [] 1)"
      using set_measure_moves [of "Some s" 1 h] by (auto simp: held_def elim: hoare_weaken)
  qed
  show ?thesis unfolding keeps_hoare open_measure_def
    by (rule hoare_bind [OF create_opens]) (use font in \<open>auto simp: hoare_def split: sum.split\<close>)
qed

section \<open>Exports\<close>

lemma enter_dispatch_keeps: "keeps (badge_inv [] fx) (dispatch_enter h fx c now)"
  using open_keeps by (intro inv.enters band_render_keeps) simp

lemma switch_moves:
  "hoare (badge_inv [] fx0) (switch_effect h fx now) (\<lambda>_. badge_inv [] (fx mod FX_COUNT))"
proof -
  let ?fx = "fx mod FX_COUNT"
  have lt: "?fx < FX_COUNT" by (simp add: FX_COUNT_def word_mod_less_divisor)
  have rest: "keeps (badge_inv [] ?fx) (do {
      c \<leftarrow> gets ctx; dispatch_enter h ?fx c now; perform h [Cv_ui (Cv_commit True)] })"
    by (intro keeps_intro enter_dispatch_keeps) simp
  have mid: "hoare (\<lambda>st. badge_inv [] fx0 st \<and> tw_measure st = None)
      (put (\<lambda>st. st\<lparr>current_fx := ?fx, fx_started := now\<rparr>)) (\<lambda>_. badge_inv [] ?fx)"
    using lt by (auto simp: hoare_def put_def inv_defs)
  have drop: "hoare (badge_inv [] fx0) (release_measure h) (\<lambda>_ st. badge_inv [] fx0 st \<and> tw_measure st = None)"
    using set_measure_moves [of None fx0 h] by (simp add: release_measure_def held_def)
  have clear: "hoare (badge_inv [] fx0) (perform h [An_cancel 0, Cv_ui Cv_clear]) (\<lambda>_. badge_inv [] fx0)"
    unfolding keeps_hoare [symmetric] by (intro keeps_intro) simp
  show ?thesis unfolding switch_effect_def Let_def
    by (rule hoare_bind [OF clear], rule hoare_bind [OF drop], rule hoare_bind [OF mid])
      (use rest in \<open>simp add: keeps_hoare\<close>)
qed

definition badge_ok :: "'w nst \<Rightarrow> bool" where
  "badge_ok st \<longleftrightarrow> badge_inv [] (current_fx st) st"

lemma ok_inv: "badge_inv [] fx st \<Longrightarrow> badge_ok st"
  by (simp add: badge_ok_def) (simp add: inv_defs)

lemma ok_split: "badge_ok st \<Longrightarrow> badge_inv [] (current_fx st) st"
  by (simp add: badge_ok_def)

text \<open>Programs that stay in an effect, and those that may switch it.\<close>

lemma stays_ok: "(\<And>fx. keeps (badge_inv [] fx) m) \<Longrightarrow> keeps badge_ok m"
  by (auto simp: keeps_def dest!: ok_split intro: ok_inv)

lemma switch_ok [keeps_intro]: "keeps badge_ok (switch_effect h fx now)"
proof (rule keepsI)
  fix st x st'
  assume "badge_ok st" and "run_state (switch_effect h fx now) st = (x, st')"
  then show "badge_ok st'" using hoareD [OF switch_moves] ok_split ok_inv by metis
qed

lemma tick_ok: "keeps badge_ok (badge_on_tick h now)"
proof -
  have d: "keeps badge_ok (dispatch_tick h fx c now)" for fx c
    by (rule stays_ok) (rule inv.ticks)
  have "keeps badge_ok (engine_tick h now)"
  proof (rule keepsI)
    fix st x st'
    assume ok: "badge_ok st" and run: "run_state (engine_tick h now) st = (x, st')"
    have "unat (current_fx st) < length FX_DURATION_MS"
      using ok by (simp add: badge_ok_def inv_defs FX_COUNT_def FX_DURATION_MS_def word_less_nat_alt)
    then show "badge_ok st'"
      using run ok keepsD [OF switch_ok] keepsD [OF d] by (auto simp: engine_tick_def split: if_splits)
  qed
  then show ?thesis unfolding badge_on_tick_def
    by (intro keeps_bind) (auto intro!: stays_ok put_keeps)
qed

lemma name_ok [keeps_intro]: "keeps badge_ok (apply_name h nm)"
  unfolding apply_name_def Let_def by (rule stays_ok) (intro keeps_intro, simp)

lemma perform_ok [keeps_intro]: "list_all plain cs \<Longrightarrow> keeps badge_ok (perform h cs)"
  by (rule stays_ok) (rule inv.performs)

lemma put_ok [keeps_intro]: "(\<And>fx st. badge_inv [] fx st \<Longrightarrow> badge_inv [] fx (f st)) \<Longrightarrow> keeps badge_ok (put f)"
  by (rule stays_ok) (rule put_keeps)

lemma enter_ok: "keeps badge_ok (badge_on_enter h)"
  unfolding badge_on_enter_def prompt_name_def by (intro keeps_intro) (simp_all add: canvas_push_def)

lemma action_ok: "keeps badge_ok (badge_on_action h act d)"
proof -
  have i: "keeps badge_ok (badge_input_text h)"
    unfolding badge_input_text_def by (rule stays_ok) (intro keeps_intro, simp split: prod.split)
  have e: "keeps badge_ok (engine_on_action h a)" for a
    by (rule stays_ok) (rule inv.actions)
  show ?thesis
    unfolding badge_on_action_def badge_on_key_def on_menu_select_def on_name_input_def next_effect_def prev_effect_def
      keep_effect_def save_u32_def step_backlight_def badge_open_menu_def prompt_name_def store_name_def
    by (intro keeps_intro i e) simp_all
qed

datatype badge_event = Badge_enter | Badge_exit | Badge_tick u64 | Badge_action u32 u32

fun badge_export :: "'w badge_host \<Rightarrow> badge_event \<Rightarrow> ('w nst, unit) state" where
  "badge_export h Badge_enter = badge_on_enter h"
| "badge_export h Badge_exit = badge_on_exit"
| "badge_export h (Badge_tick now) = badge_on_tick h now"
| "badge_export h (Badge_action act d) = badge_on_action h act d"

definition badge_run :: "'w badge_host \<Rightarrow> badge_event list \<Rightarrow> 'w nst \<Rightarrow> 'w nst" where
  "badge_run h evs st = fold (\<lambda>ev st. snd (run_state (badge_export h ev) st)) evs st"

lemma badge_run_induct:
  "(\<And>ev. keeps I (badge_export h ev)) \<Longrightarrow> I st \<Longrightarrow> I (badge_run h evs st)"
  by (induction evs arbitrary: st) (simp_all add: badge_run_def keeps_def)

lemma run_badge_ok: "badge_ok st \<Longrightarrow> badge_ok (badge_run h evs st)"
proof (rule badge_run_induct)
  show "keeps badge_ok (badge_export h ev)" for ev
    by (cases ev) (simp_all add: enter_ok badge_on_exit_def keeps_return tick_ok action_ok)
qed

lemma defaults_ok: "badge_ok (badge_defaults w)"
  by (simp add: badge_ok_def inv_defs badge_defaults_def FX_COUNT_def surfaces_def held_def)

end
