(* ===== verification/Badge_Store.thy ===== *)
theory Badge_Store
  imports Badge_Laws
begin

text \<open>
  What the name badge keeps in storage: \<open>stored\<close> is what a start would read, the name, the rotation
  switch and the effect. The locale \<open>badge_firmware\<close> is the firmware with a storage that takes every
  write and that no other call touches; in it the name on the badge and the rotation switch are
  always those in storage.
\<close>

section \<open>Trimming\<close>

lemma trim_chars: "set (trim s) \<subseteq> set s"
  unfolding trim_def trim_end_matches_def trim_start_matches_def by (auto dest!: set_dropWhileD)

lemma trim_bytes: "length (utf8_encode (trim s)) \<le> length (utf8_encode s)"
proof -
  have drop: "length (utf8_encode s) = length (utf8_encode (takeWhile p s)) + length (utf8_encode (dropWhile p s))" for p s
    by (subst takeWhile_dropWhile_id [of p s, symmetric]) (simp only: utf8_encode_simps length_append)
  have rev_len: "length (utf8_encode (rev s)) = length (utf8_encode s)" for s
    by (induction s) (simp_all add: add.commute)
  show ?thesis
    using drop [of s is_whitespace] drop [of "rev (dropWhile is_whitespace s)" is_whitespace]
    by (simp add: trim_def trim_end_matches_def trim_start_matches_def rev_len)
qed

lemma trim_twice: "trim (trim s) = trim s"
proof -
  let ?d = "dropWhile is_whitespace" and ?t = "trim s"
  have t: "?t = rev (?d (rev (?d s)))" by (simp add: trim_def trim_end_matches_def trim_start_matches_def)
  have pre: "?d s = ?t @ rev (takeWhile is_whitespace (rev (?d s)))"
    by (metis t rev_append rev_rev_ident takeWhile_dropWhile_id)
  have "?d ?t = ?t"
  proof (cases ?t)
    case (Cons c cs)
    then have "\<not> is_whitespace c" using hd_dropWhile [of is_whitespace s] pre by (metis append_Cons list.sel(1) list.simps(3))
    then show ?thesis using Cons by simp
  qed simp
  moreover have "?d (rev ?t) = rev ?t" by (simp add: t)
  ultimately show ?thesis by (simp add: trim_def [of "trim s"] trim_end_matches_def trim_start_matches_def)
qed

lemma trim_empty: "trim [] = []"
  by (simp add: trim_def trim_end_matches_def trim_start_matches_def)

section \<open>What a start reads\<close>

definition stored :: "'w badge_host \<Rightarrow> 'w \<Rightarrow> ustr \<times> bool \<times> u32" where
  "stored h w = (load_name h w, (case nvs_get_u32 (bh_store h) NVS_AUTO w of Some v \<Rightarrow> v | None \<Rightarrow> 1) \<noteq> 0,
     case nvs_get_u32 (bh_store h) NVS_FX w of Some v \<Rightarrow> v | None \<Rightarrow> 0)"

definition shown_name :: "'w badge_host \<Rightarrow> ustr \<Rightarrow> ustr" where
  "shown_name h n = (if n = [] then bh_key h ''placeholder'' else n)"

text \<open>A predicate on what is stored, the name shown, the switch, the effect, its start and the time.\<close>

type_synonym view = "ustr \<times> bool \<times> u32 \<Rightarrow> ustr \<Rightarrow> bool \<Rightarrow> u32 \<Rightarrow> u64 \<Rightarrow> u64 \<Rightarrow> bool"

definition seen :: "'w badge_host \<Rightarrow> view \<Rightarrow> 'w nst \<Rightarrow> bool" where
  "seen h P st \<longleftrightarrow> P (stored h (nw st)) (name st) (auto_rotate st) (current_fx st) (fx_started st) (uptime st)"

text \<open>The badge shows what is stored.\<close>

definition kept :: "'w badge_host \<Rightarrow> view" where
  "kept h s nm auto fx t now \<longleftrightarrow> nm = shown_name h (fst s) \<and> auto = fst (snd s)"

lemma hoare_gets: "(\<And>st. P st \<Longrightarrow> Q (f st) st) \<Longrightarrow> hoare P (gets f) Q"
  by (simp add: hoare_def)

lemma hoare_put: "(\<And>st. P st \<Longrightarrow> Q () (f st)) \<Longrightarrow> hoare P (put f) Q"
  by (simp add: hoare_def put_def)

lemma hoare_keeps: "keeps I m \<Longrightarrow> (\<And>st. I st \<Longrightarrow> Q st) \<Longrightarrow> hoare I m (\<lambda>_. Q)"
  unfolding keeps_hoare by (erule hoare_weaken)

lemma badge_keys: "NVS_NAME \<noteq> NVS_AUTO" "NVS_NAME \<noteq> NVS_FX" "NVS_AUTO \<noteq> NVS_FX" "NVS_AUTO \<noteq> NVS_NAME"
  "NVS_FX \<noteq> NVS_NAME" "NVS_FX \<noteq> NVS_AUTO"
  by (simp_all add: NVS_AUTO_def NVS_NAME_def NVS_FX_def)

section \<open>The firmware\<close>

locale badge_firmware = text_store "bh_store h" for h :: "'w badge_host" +
  assumes write_str: "valid_ustr s \<Longrightarrow> 0 \<notin> set s \<Longrightarrow> fst (nvs_set_str (bh_store h) k s w) = Inr ()"
    and write_u32: "fst (nvs_set_u32 (bh_store h) k v w) = Inr ()"
    and call_frame: "same_nvs (bh_store h) {} w (snd (bh_call h c w))"
    and draw_frame: "same_nvs (bh_store h) {} w (snd (bh_random_u32 h w))"
    and input_frame: "same_nvs (bh_store h) {} w (snd (bh_input_text h cap w))"
    and input_ends: "bh_input_text h cap w = ((rc, buf), w') \<Longrightarrow> 0 < rc \<Longrightarrow> length (takeWhile (\<lambda>b. b \<noteq> 0) buf) < cap"
begin

lemma same_stored: "same_nvs (bh_store h) {} w w' \<Longrightarrow> stored h w' = stored h w"
  by (simp add: stored_def load_name_def same_nvs_def)

lemma u32_stored:
  "stored h (snd (nvs_set_u32 (bh_store h) NVS_AUTO v w)) = (fst (stored h w), v \<noteq> 0, snd (snd (stored h w)))"
  "stored h (snd (nvs_set_u32 (bh_store h) NVS_FX v w)) = (fst (stored h w), fst (snd (stored h w)), v)"
proof -
  have f: "\<exists>w'. nvs_set_u32 (bh_store h) k v w = (Inr (), w')" for k by (metis write_u32 prod.collapse)
  obtain a b where a: "nvs_set_u32 (bh_store h) NVS_AUTO v w = (Inr (), a)"
    and b: "nvs_set_u32 (bh_store h) NVS_FX v w = (Inr (), b)" using f by metis
  show "stored h (snd (nvs_set_u32 (bh_store h) NVS_AUTO v w)) = (fst (stored h w), v \<noteq> 0, snd (snd (stored h w)))"
    using set_u32_frame [OF a] set_u32_ok [OF a]
    by (simp add: a stored_def load_name_def same_nvs_def badge_keys)
  show "stored h (snd (nvs_set_u32 (bh_store h) NVS_FX v w)) = (fst (stored h w), fst (snd (stored h w)), v)"
    using set_u32_frame [OF b] set_u32_ok [OF b]
    by (simp add: b stored_def load_name_def same_nvs_def badge_keys)
qed

lemma name_stored:
  assumes "valid_ustr s" and "0 \<notin> set s" and "length (utf8_encode s) \<le> 128"
  shows "stored h (snd (nvs_set_str (bh_store h) NVS_NAME s w)) = (trim s, snd (stored h w))"
proof -
  obtain w' where w: "nvs_set_str (bh_store h) NVS_NAME s w = (Inr (), w')"
    using write_str [OF assms(1,2)] by (metis prod.collapse)
  have "nvs_get_str (bh_store h) NVS_NAME 128 w' = Some s" by (rule set_str_ok [OF w assms(1,3)])
  then show ?thesis using set_str_frame [OF w]
    by (simp add: w stored_def load_name_def same_nvs_def badge_keys NAME_MAX_CHARS_def)
qed

lemma seen_call [keeps_intro]: "keeps (seen h P) (invoke h c)"
  using same_stored [OF call_frame] by (auto simp: keeps_def seen_def invoke_def split: prod.split) (metis snd_conv)

sublocale outside: effect_frame h "seen h P" for P
proof unfold_locales
  show "seen h P st \<Longrightarrow> seen h P (st\<lparr>nw := snd (bh_random_u32 h (nw st))\<rparr>)" for st
    using same_stored [OF draw_frame] by (simp add: seen_def)
  show "inner st st' \<Longrightarrow> seen h P st \<Longrightarrow> seen h P st'" for st st'
    by (auto simp: seen_def inner_def)
qed (rule seen_call)

text \<open>Programs with surfaces.\<close>

lemma surfaces_kept [keeps_intro]:
  "keeps (seen h P) (surface_create (invoke h) w ht)" "keeps (seen h P) (surface_drop (invoke h) s)"
  "keeps (seen h P) (set_measure h m)" "keeps (seen h P) (surface_set_font (invoke h) s f)"
  "keeps (seen h P) (surface_draw_text (invoke h) s x y t)"
proof -
  show c: "keeps (seen h P) (surface_create (invoke h) w ht)"
    unfolding surface_create_def handle_of_def by (intro keeps_intro)
  show d: "keeps (seen h P) (surface_drop (invoke h) s)" for s
    unfolding surface_drop_def by (intro keeps_intro)
  show "keeps (seen h P) (set_measure h m)"
    unfolding set_measure_def put_def by (intro keeps_intro d) (simp add: seen_def)
  show "keeps (seen h P) (surface_set_font (invoke h) s f)" "keeps (seen h P) (surface_draw_text (invoke h) s x y t)"
    unfolding surface_set_font_def surface_draw_text_def checked_def by (intro keeps_intro)+
qed

lemma layout_kept [keeps_intro]:
  "keeps (seen h P) (open_measure h c)" "keeps (seen h P) (render_band h c bh)" "keeps (seen h P) (build_context h t)"
  unfolding open_measure_def render_band_def draw_band_def build_context_def measure_name_def Let_def
  by (intro keeps_intro)+

lemma switch_seen:
  "hoare (seen h (\<lambda>s nm auto _ _ up. Q s nm auto up)) (switch_effect h fx now)
    (\<lambda>_. seen h (\<lambda>s nm auto cur t up. Q s nm auto up \<and> cur = fx mod FX_COUNT \<and> t = now))"
    (is "hoare ?P _ (\<lambda>_. ?R)")
proof -
  have clear: "hoare ?P (perform h [An_cancel 0, Cv_ui Cv_clear]) (\<lambda>_. ?P)"
    unfolding keeps_hoare [symmetric] by (intro keeps_intro) simp
  have drop: "hoare ?P (set_measure h None) (\<lambda>_. ?P)"
    unfolding keeps_hoare [symmetric] by (rule surfaces_kept)
  have move: "hoare ?P (put (\<lambda>st. st\<lparr>current_fx := fx mod FX_COUNT, fx_started := now\<rparr>)) (\<lambda>_. ?R)"
    by (rule hoare_put) (simp add: seen_def)
  have start: "hoare ?R (do { c \<leftarrow> gets ctx; dispatch_enter h (fx mod FX_COUNT) c now; perform h [Cv_ui (Cv_commit True)] }) (\<lambda>_. ?R)"
    unfolding keeps_hoare [symmetric] by (intro keeps_intro outside.enters) simp
  show ?thesis unfolding switch_effect_def Let_def release_measure_def
    by (rule hoare_bind [OF clear], rule hoare_bind [OF drop], rule hoare_bind [OF move], rule start)
qed

lemma switch_kept [keeps_intro]: "keeps (seen h (kept h)) (switch_effect h fx now)"
  using switch_seen [of "\<lambda>s nm auto up. kept h s nm auto 0 0 up" fx now] unfolding keeps_hoare
  by (rule hoare_weaken) (simp_all add: seen_def kept_def)

text \<open>Applying the stored name, and starting.\<close>

lemma apply_seen:
  "hoare (seen h (\<lambda>s _ auto cur t up. Q s auto cur t up)) (apply_name h n)
    (\<lambda>_. seen h (\<lambda>s nm auto cur t up. Q s auto cur t up \<and> nm = shown_name h n))" (is "hoare ?P _ (\<lambda>_. ?R)")
proof -
  have "hoare ?P (build_context h (shown_name h n)) (\<lambda>_. ?P)"
    unfolding keeps_hoare [symmetric] by (rule layout_kept)
  moreover have "hoare ?P (put (\<lambda>st. st\<lparr>ctx := c, name := shown_name h n\<rparr>)) (\<lambda>_. ?R)" for c
    by (rule hoare_put) (simp add: seen_def)
  ultimately show ?thesis unfolding apply_name_def Let_def shown_name_def [symmetric] by (rule hoare_bind)
qed

lemma enter_seen:
  "hoare (\<lambda>st. stored h (nw st) = s \<and> uptime st = up) (badge_on_enter h)
    (\<lambda>_. seen h (\<lambda>s' nm auto cur t up'. s' = s \<and> nm = shown_name h (fst s) \<and> auto = fst (snd s)
      \<and> cur = snd (snd s) mod FX_COUNT \<and> t = up \<and> up' = up))"
proof -
  let ?A = "seen h (\<lambda>s' _ _ _ _ up'. s' = s \<and> up' = up)"
  let ?B = "seen h (\<lambda>s' nm _ _ _ up'. (s' = s \<and> up' = up) \<and> nm = shown_name h (fst s))"
  let ?Q = "\<lambda>s' nm auto up'. s' = s \<and> nm = shown_name h (fst s) \<and> auto = fst (snd s) \<and> up' = up"
  let ?R = "seen h (\<lambda>s' nm auto cur t up'. ?Q s' nm auto up' \<and> cur = snd (snd s) mod FX_COUNT \<and> t = up)"
  have push: "hoare ?A (perform h (drawn_ui (canvas_push [] BADGE_ACT_KEY 0) @ [Cv_policy ANIM_REFRESH_AUTO 4])) (\<lambda>_. ?A)"
    unfolding keeps_hoare [symmetric] by (intro keeps_intro) (simp add: canvas_push_def)
  have light: "hoare ?A (put (\<lambda>st. st\<lparr>backlight := bh_backlight h (nw st)\<rparr>)) (\<lambda>_. ?A)"
    by (rule hoare_put) (simp add: seen_def)
  have load: "hoare ?A (gets (\<lambda>st. load_name h (nw st))) (\<lambda>nm st. ?A st \<and> nm = fst s)"
    by (rule hoare_gets) (auto simp: seen_def stored_def)
  have named: "hoare (\<lambda>st. ?A st \<and> nm = fst s) (apply_name h nm) (\<lambda>_ st. ?B st \<and> nm = fst s)" for nm
    using apply_seen [of "\<lambda>s' _ _ _ up'. s' = s \<and> up' = up" nm] by (auto simp: hoare_def)
  have auto: "hoare (\<lambda>st. ?B st \<and> nm = fst s) (put (\<lambda>st. st\<lparr>auto_rotate := (case nvs_get_u32 (bh_store h) NVS_AUTO (nw st) of
      Some v \<Rightarrow> v | None \<Rightarrow> 1) \<noteq> 0\<rparr>)) (\<lambda>_. seen h (\<lambda>s nm auto _ _ up. ?Q s nm auto up))" for nm
    by (rule hoare_put) (auto simp: seen_def stored_def)
  have fx: "hoare (seen h (\<lambda>s nm auto _ _ up. ?Q s nm auto up))
      (gets (\<lambda>st. case nvs_get_u32 (bh_store h) NVS_FX (nw st) of Some v \<Rightarrow> v | None \<Rightarrow> 0))
      (\<lambda>fx st. seen h (\<lambda>s nm auto _ _ up. ?Q s nm auto up) st \<and> fx = snd (snd s))"
    by (rule hoare_gets) (auto simp: seen_def stored_def)
  have clock: "hoare (\<lambda>st. seen h (\<lambda>s nm auto _ _ up. ?Q s nm auto up) st \<and> fx = snd (snd s)) (gets uptime)
      (\<lambda>now st. seen h (\<lambda>s nm auto _ _ up. ?Q s nm auto up) st \<and> fx = snd (snd s) \<and> now = up)" for fx
    by (rule hoare_gets) (auto simp: seen_def)
  have switch: "hoare (\<lambda>st. seen h (\<lambda>s nm auto _ _ up. ?Q s nm auto up) st \<and> fx = snd (snd s) \<and> now = up)
      (switch_effect h fx now) (\<lambda>_. ?R)" for fx now
    using switch_seen [of ?Q "snd (snd s)" up] by (auto simp: hoare_def)
  have prompt: "hoare ?R (whenM (nm = []) (prompt_name h None)) (\<lambda>_. ?R)" for nm
    unfolding keeps_hoare [symmetric] prompt_name_def by (intro keeps_intro) simp
  note steps = hoare_bind [OF push] hoare_bind [OF light] hoare_bind [OF load] hoare_bind [OF named] hoare_bind [OF auto]
    hoare_bind [OF fx] hoare_bind [OF clock] hoare_bind [OF switch]
  have "hoare ?A (badge_on_enter h) (\<lambda>_. ?R)" unfolding badge_on_enter_def by (rule steps prompt)+
  then show ?thesis by (rule hoare_weaken) (simp_all add: seen_def)
qed

text \<open>The calls of the firmware keep what is shown and what is stored in step.\<close>

abbreviation in_step :: "'w nst \<Rightarrow> bool" where
  "in_step \<equiv> seen h (kept h)"

definition fits :: "ustr \<Rightarrow> bool" where
  "fits t \<longleftrightarrow> valid_ustr t \<and> 0 \<notin> set t \<and> length (utf8_encode t) \<le> 128"

lemma input_fits:
  "hoare in_step (badge_input_text h) (\<lambda>t st. in_step st \<and> (case t of Some t \<Rightarrow> fits t | None \<Rightarrow> True))"
proof (rule hoareI)
  fix st t st'
  assume k: "in_step st" and run: "run_state (badge_input_text h) st = (t, st')"
  obtain rc buf w where i: "bh_input_text h 129 (nw st) = ((rc, buf), w)" by (metis prod.exhaust)
  then have st': "st' = st\<lparr>nw := w\<rparr>"
    and t: "t = (if rc \<le> 0 then None else utf8_decode (takeWhile (\<lambda>b. b \<noteq> 0) buf))"
    using run by (auto simp: badge_input_text_def sdk_consume_input_text_def NAME_MAX_CHARS_def)
  have "in_step st'" using k same_stored [OF input_frame [of "nw st" 129]] i by (simp add: st' seen_def)
  moreover have "fits u" if u: "t = Some u" for u
  proof -
    have bytes: "0 < rc" "utf8_encode u = takeWhile (\<lambda>b. b \<noteq> 0) buf" "valid_ustr u"
      using t u utf8_encode_decode valid_utf8_decode by (auto split: if_splits)
    have "0 \<notin> set u"
    proof
      assume "0 \<in> set u"
      then have "0 \<in> set (utf8_encode u)" by (induction u) (auto simp: utf8_char_def)
      then show False using bytes(2) by (auto dest: set_takeWhileD)
    qed
    then show ?thesis using bytes input_ends [OF i] by (simp add: fits_def)
  qed
  ultimately show "in_step st' \<and> (case t of Some t \<Rightarrow> fits t | None \<Rightarrow> True)" by (simp split: option.split)
qed

lemma store_seen:
  "hoare (\<lambda>st. in_step st \<and> fits t) (store_name h (trim t))
    (\<lambda>_. seen h (\<lambda>s _ auto _ _ _. fst s = trim t \<and> auto = fst (snd s)))"
proof -
  have "stored h (snd (nvs_set_str (bh_store h) NVS_NAME (trim t) w)) = (trim t, snd (stored h w))" if "fits t" for w
    using that name_stored [of "trim t" w] trim_bytes [of t] trim_chars [of t]
    by (auto simp: fits_def trim_twice valid_ustr_def list_all_iff)
  then show ?thesis unfolding store_name_def by (intro hoare_put) (simp add: seen_def kept_def)
qed

lemma edit_kept: "keeps in_step (on_name_input h confirmed)"
proof -
  have "hoare (\<lambda>st. in_step st \<and> fits t) (do { store_name h (trim t); apply_name h (trim t) }) (\<lambda>_. in_step)" for t
    by (rule hoare_bind [OF store_seen])
      (rule hoare_weaken [OF apply_seen [of "\<lambda>s auto _ _ _. fst s = trim t \<and> auto = fst (snd s)"]], simp_all add: seen_def kept_def)
  then have "hoare in_step (do { text \<leftarrow> badge_input_text h;
      case text of None \<Rightarrow> ret () | Some t \<Rightarrow> do { store_name h (trim t); apply_name h (trim t) } }) (\<lambda>_. in_step)"
    by (intro hoare_bind [OF input_fits]) (simp add: hoare_def split: option.split)
  then show ?thesis unfolding on_name_input_def keeps_hoare [symmetric]
    by (intro keeps_bind [of _ "whenM _ _"] keeps_when keeps_bind [of _ "gets _"] keeps_gets switch_kept)
qed

lemma toggle_kept: "keeps in_step (on_menu_select h item)"
proof -
  let ?P = "seen h (\<lambda>s nm _ _ _ _. nm = shown_name h (fst s))"
  have flip: "hoare in_step (put (\<lambda>st. st\<lparr>auto_rotate := \<not> auto_rotate st\<rparr>)) (\<lambda>_. ?P)"
    by (rule hoare_put) (simp add: seen_def kept_def)
  have get: "hoare ?P (gets auto_rotate) (\<lambda>a st. ?P st \<and> auto_rotate st = a)"
    by (rule hoare_gets) simp
  have save: "hoare (\<lambda>st. ?P st \<and> auto_rotate st = a) (save_u32 h NVS_AUTO (if a then 1 else 0)) (\<lambda>_. in_step)" for a
    unfolding save_u32_def by (rule hoare_put) (simp add: seen_def kept_def u32_stored)
  have toast: "hoare in_step (perform h (drawn_ui us)) (\<lambda>_. in_step)" for us
    unfolding keeps_hoare [symmetric] by (intro keeps_intro) simp
  have "keeps in_step (do { put (\<lambda>st. st\<lparr>auto_rotate := \<not> auto_rotate st\<rparr>); auto \<leftarrow> gets auto_rotate;
      save_u32 h NVS_AUTO (if auto then 1 else 0); perform h (drawn_ui (us auto)) })" for us
    unfolding keeps_hoare
    by (rule hoare_bind [OF flip], rule hoare_bind [OF get], rule hoare_bind [OF save], rule toast)
  note toggles = this
  have "keeps in_step (prompt_name h i)" for i unfolding prompt_name_def by (intro keeps_intro) simp
  then show ?thesis unfolding on_menu_select_def by (auto intro!: keeps_bind keeps_gets keeps_return toggles)
qed

lemma key_kept: "keeps in_step (badge_on_key h key)"
proof -
  have "keeps in_step (save_u32 h NVS_FX fx)" for fx
    unfolding save_u32_def put_def by (intro keeps_intro) (simp add: seen_def kept_def u32_stored)
  moreover have "keeps in_step (step_backlight h b)" for b
    unfolding step_backlight_def put_def by (intro keeps_intro) (simp_all add: seen_def)
  ultimately show ?thesis
    unfolding badge_on_key_def next_effect_def prev_effect_def keep_effect_def badge_open_menu_def
    by (intro keeps_intro) simp_all
qed

lemma tick_kept: "keeps in_step (badge_on_tick h now)"
  unfolding badge_on_tick_def engine_tick_def badge_panic_def put_def
  by (intro keeps_intro outside.ticks) (simp_all add: seen_def kept_def)

lemma run_in_step: "in_step (badge_run h (Badge_enter # evs) st)"
proof -
  have enter: "in_step st2" if "run_state (badge_on_enter h) st1 = (u, st2)" for st1 u st2
    using hoareD [OF enter_seen that, of "stored h (nw st1)" "uptime st1"] by (simp add: seen_def kept_def)
  have "keeps in_step (badge_export h ev)" for ev
    by (cases ev) (auto simp: badge_on_exit_def keeps_return tick_kept badge_on_action_def edit_kept toggle_kept key_kept
      outside.actions intro: keepsI enter)
  moreover obtain u st2 where "run_state (badge_on_enter h) st = (u, st2)" by (rule prod.exhaust)
  ultimately show ?thesis using enter badge_run_induct [of in_step h st2 evs] by (simp add: badge_run_def)
qed

lemma start_shows:
  assumes "run_state (badge_on_enter h) (badge_defaults w) = (u, st)"
  shows "name st = shown_name h (fst (stored h w))" "auto_rotate st = fst (snd (stored h w))"
    "current_fx st = snd (snd (stored h w)) mod FX_COUNT" "fx_started st = 0"
  using hoareD [OF enter_seen assms, of "stored h w" 0] by (auto simp: seen_def badge_defaults_def)

end

end
