(* ===== verification/Badge_Claims.thy ===== *)
theory Badge_Claims
  imports Badge_Store Matrix_Store_Laws
begin

text \<open>
  The properties of the name badge with their witnesses: \<open>dissolve\<close> is the cycle of the dither wipe,
  \<open>demo_badge\<close> a firmware that satisfies \<open>badge_firmware\<close>.
\<close>

section \<open>The dither wipe\<close>

text \<open>Level, direction and polarity after \<open>k\<close> steps: up to 16, one step of rest, down to 0, and again in the
  other polarity.\<close>

definition dissolve_level :: "nat \<Rightarrow> nat" where
  "dissolve_level k = (let r = k mod 34 in if r \<le> 16 then r else if r = 17 then 16 else 33 - r)"

definition dissolve :: "nat \<Rightarrow> int \<times> int \<times> bool" where
  "dissolve k = (int (dissolve_level k), if k mod 34 \<le> 16 then 1 else - 1, odd (k div 34))"

definition wipe_cells :: "'w nst \<Rightarrow> int \<times> int \<times> bool" where
  "wipe_cells st = (wi_level st, wi_dir st, wi_negative st)"

lemma dissolve_0: "dissolve 0 = (0, 1, False)"
  by (simp add: dissolve_def dissolve_level_def)

lemma dissolve_level_max: "dissolve_level k \<le> 16"
  unfolding dissolve_level_def Let_def by (auto split: if_split)

lemma advance_dissolve:
  assumes "wipe_cells st = dissolve k"
  shows "wipe_cells (advance_level st) = dissolve (Suc k)"
proof -
  define r q where "r = k mod 34" and "q = k div 34"
  have r: "r < 34" by (simp add: r_def)
  have suc: "Suc k mod 34 = (if r = 33 then 0 else Suc r)" "Suc k div 34 = (if r = 33 then Suc q else q)"
    by (simp_all add: r_def q_def mod_Suc div_Suc)
  have cells: "wi_level st = (if r \<le> 16 then int r else if r = 17 then 16 else int (33 - r))"
    "wi_dir st = (if r \<le> 16 then 1 else - 1)" "wi_negative st = odd q"
    using assms by (auto simp: wipe_cells_def dissolve_def dissolve_level_def Let_def r_def q_def)
  consider "r < 16" | "r = 16" | "r = 17" | "17 < r" "r < 33" | "r = 33" using r by linarith
  then show ?thesis
    by cases (auto simp: advance_level_def wipe_cells_def dissolve_def dissolve_level_def Let_def suc cells LEVEL_MAX_def)
qed

text \<open>The bitmap that was drawn last.\<close>

fun bitmap_of :: "cv_call \<Rightarrow> u8 list option" where
  "bitmap_of (Cv_bitmap x y w ht d) = Some d"
| "bitmap_of _ = None"

definition last_bitmap :: "(cv_call \<times> int) list \<Rightarrow> u8 list option" where
  "last_bitmap cs = (let ds = List.map_filter (bitmap_of \<circ> fst) cs in if ds = [] then None else Some (last ds))"

lemma perform_effect: "\<exists>w rcs. length rcs = length cs
    \<and> snd (run_state (perform h cs) st) = st\<lparr>nw := w, n_calls := n_calls st @ zip cs rcs\<rparr>"
proof (induction cs arbitrary: st)
  case Nil
  show ?case by (intro exI [of _ "nw st"] exI [of _ "[]"]) (simp add: perform_def does_def)
next
  case (Cons c cs)
  obtain rc w where c: "bh_call h c (nw st) = (rc, w)" by (rule prod.exhaust)
  let ?st = "st\<lparr>nw := w, n_calls := n_calls st @ [(c, rc)]\<rparr>"
  obtain w' rcs where "length rcs = length cs"
    "snd (run_state (perform h cs) ?st) = ?st\<lparr>nw := w', n_calls := n_calls ?st @ zip cs rcs\<rparr>"
    using Cons.IH by blast
  then show ?case using c
    by (intro exI [of _ w'] exI [of _ "rc # rcs"]) (simp add: perform_def does_def invoke_def)
qed

lemma bitmap_drawn:
  assumes "run_state (perform h [Cv_elem_clear e, Cv_elem_begin e, Cv_bitmap x y w ht d, Cv_elem_end, Cv_ui u]) st = (v, st')"
  shows "last_bitmap (n_calls st') = Some d" "wipe_cells st' = wipe_cells st" "wi_band st' = wi_band st" "wi_last st' = wi_last st"
proof -
  let ?cs = "[Cv_elem_clear e, Cv_elem_begin e, Cv_bitmap x y w ht d, Cv_elem_end, Cv_ui u]"
  obtain w' rcs where "length rcs = length ?cs" and st': "st' = st\<lparr>nw := w', n_calls := n_calls st @ zip ?cs rcs\<rparr>"
    using perform_effect [of ?cs h st] assms by auto
  then have "List.map_filter (bitmap_of \<circ> fst) (n_calls st') = List.map_filter (bitmap_of \<circ> fst) (n_calls st) @ [d]"
    by (auto simp: length_Suc_conv List.map_filter_def)
  then show "last_bitmap (n_calls st') = Some d" by (simp add: last_bitmap_def)
  show "wipe_cells st' = wipe_cells st" "wi_band st' = wi_band st" "wi_last st' = wi_last st"
    by (simp_all add: st' wipe_cells_def)
qed

lemma tick_dissolves:
  assumes "run_state (wipe_tick h c now) st = (u, st')" and "WIPE_STEP_MS \<le> sat_sub now (wi_last st)"
    and "wi_band st = Some b" and "wipe_cells st = dissolve k"
  shows "wipe_cells st' = dissolve (Suc k) \<and> wi_band st' = Some b \<and> wi_last st' = now
    \<and> last_bitmap (n_calls st') = Some (wipe_masked (advance_level st) b)"
proof -
  let ?st = "advance_level (st\<lparr>wi_last := now\<rparr>)"
  have adv: "wipe_cells ?st = dissolve (Suc k)"
    using assms(4) by (intro advance_dissolve) (simp add: wipe_cells_def)
  have fields: "wi_band ?st = Some b" "wi_last ?st = now" "wipe_masked ?st b = wipe_masked (advance_level st) b"
    using assms(3) by (simp_all add: advance_level_def Let_def wipe_masked_def)
  show ?thesis using assms(1-3) bitmap_drawn [of h ELEM_REVEAL] adv fields
    by (auto simp: wipe_tick_def put_def linorder_not_less split: prod.splits)
qed

fun paced :: "u64 \<Rightarrow> u64 list \<Rightarrow> bool" where
  "paced t [] = True"
| "paced t (t' # ts) \<longleftrightarrow> WIPE_STEP_MS \<le> sat_sub t' t \<and> paced t' ts"

definition wipe_shows :: "'w badge_host \<Rightarrow> fx_context \<Rightarrow> u64 \<Rightarrow> u64 list \<Rightarrow> 'w nst \<Rightarrow> 'w nst" where
  "wipe_shows h c t0 ts st = snd (run_state (do { wipe_enter h c t0; for_each ts (wipe_tick h c) }) st)"

lemma ticks_dissolve:
  fixes st :: "'w nst"
  assumes "paced (wi_last st) ts" and "wi_band st = Some b" and "wipe_cells st = dissolve k" and "ts \<noteq> []"
  shows "\<exists>st1 :: 'w nst. wipe_cells st1 = dissolve (k + length ts)
    \<and> last_bitmap (n_calls (snd (run_state (for_each ts (wipe_tick h c)) st))) = Some (wipe_masked st1 b)"
  using assms
proof (induction ts arbitrary: st k)
  case (Cons t ts)
  obtain u st' where run: "run_state (wipe_tick h c t) st = (u, st')" by (rule prod.exhaust)
  have step: "wipe_cells st' = dissolve (Suc k)" "wi_band st' = Some b" "wi_last st' = t"
    "last_bitmap (n_calls st') = Some (wipe_masked (advance_level st) b)"
    using tick_dissolves [OF run _ Cons.prems(2,3)] Cons.prems(1) by simp_all
  show ?case
  proof (cases "ts = []")
    case True
    with run step advance_dissolve [OF Cons.prems(3)] show ?thesis
      by (intro exI [of _ "advance_level st"]) simp
  next
    case False
    then show ?thesis using Cons.IH [of st' "Suc k"] Cons.prems(1) run step by simp
  qed
qed simp

lemma masked_pixel:
  assumes "wipe_cells st = dissolve k" and "in_raster (bd_stride b) (bd_raster b) p"
  shows "pixel (bd_stride b) (wipe_masked st b) p
    \<longleftrightarrow> (pixel (bd_stride b) (bd_raster b) p \<noteq> odd (k div 34)) \<and> unat (threshold p) < dissolve_level k"
proof -
  have lv: "wi_level st = int (dissolve_level k)" and neg: "wi_negative st = odd (k div 34)"
    using assms(1) by (simp_all add: wipe_cells_def dissolve_def)
  have "threshold p < word_of_int (int (dissolve_level k)) \<longleftrightarrow> unat (threshold p) < dissolve_level k"
    using dissolve_level_max [of k] by (simp add: word_less_nat_alt unat_of_nat_u8)
  moreover have "in_raster (bd_stride b) (invert (bd_raster b)) p"
    using assms(2) by (simp add: in_raster_def invert_def)
  ultimately show ?thesis
    using assms(2) by (simp add: wipe_masked_def lv neg bayer_pixels invert_pixel)
qed

lemma enter_dissolves:
  assumes "run_state (wipe_enter h c t0) st = (u, st')"
  shows "wipe_cells st' = dissolve 0 \<and> wi_last st' = t0"
proof -
  have I: "keeps (\<lambda>st. wipe_cells st = (0, 1, False) \<and> wi_last st = t0) (invoke h call)" for call
    by (auto simp: keeps_def invoke_def wipe_cells_def split: prod.split)
  have "hoare (\<lambda>_. True) (put (\<lambda>st. st\<lparr>wi_last := t0, wi_level := 0, wi_dir := 1, wi_negative := False\<rparr>))
      (\<lambda>_ st. wipe_cells st = (0, 1, False) \<and> wi_last st = t0)"
    by (rule hoare_put) (simp add: wipe_cells_def)
  then have "hoare (\<lambda>_. True) (wipe_enter h c t0) (\<lambda>_ st. wipe_cells st = (0, 1, False) \<and> wi_last st = t0)"
    unfolding wipe_enter_def render_band_def draw_band_def surface_create_def surface_drop_def surface_set_font_def
      surface_draw_text_def handle_of_def checked_def perform_def put_def Let_def
    by (rule hoare_bind, unfold keeps_hoare [symmetric]) (intro keeps_intro I; simp add: wipe_cells_def)
  from hoareD [OF this assms] show ?thesis by (simp add: dissolve_0)
qed

section \<open>Sparks\<close>

lemma spark_range:
  assumes "range_i16 mn mx rng = (v, rng')" and "- 32768 \<le> mn" "mn \<le> mx" "mx < 32768"
  shows "mn \<le> v \<and> v \<le> mx"
  using range_i16_in [OF assms(1)] assms(2-) by simp

lemma half: "0 \<le> (x :: int) \<Longrightarrow> x sdiv 2 = x div 2"
  by (cases "x = 0") (simp_all add: signed_divide_int_def)

section \<open>A firmware\<close>

definition empty_badge :: stub where
  "empty_badge = \<lparr>stub_nvs = Map.empty, stub_rmem = Map.empty\<rparr>"

text \<open>A panel of 64 by 128 pixels; text is 12 pixels a character wide and 20 high; the editor answers \<open>'' Ada ''\<close>.\<close>

definition demo_badge :: "stub badge_host" where
  "demo_badge = \<lparr>bh_store = stub_host Inr (\<lambda>key iv aad p. Inr (p, [])) (\<lambda>key iv aad ct tag. Inr ct),
     bh_call = \<lambda>c w. (case c of Sf_create a b \<Rightarrow> 5 | Sp_create a b n d \<Rightarrow> 6 | An_start a \<Rightarrow> 7 | _ \<Rightarrow> 0, w), bh_measure = \<lambda>i s w. (0, of_nat (12 * length s), 20),
     bh_export = \<lambda>i n w. (int n, replicate n 0xF0, 8), bh_body_size = \<lambda>w. (64, 128),
     bh_pick_font = \<lambda>s m cs w. (0, 1), bh_random_u32 = \<lambda>w. (Some 7, w), bh_backlight = \<lambda>w. 500,
     bh_input_text = \<lambda>cap w. (if 6 \<le> cap then (5, [32, 65, 100, 97, 32, 0]) else (0, []), w), bh_key = lit\<rparr>"

lemma demo_badge_simps [simp]:
  "bh_store demo_badge = stub_host Inr (\<lambda>key iv aad p. Inr (p, [])) (\<lambda>key iv aad ct tag. Inr ct)"
  "bh_call demo_badge c w = (case c of Sf_create a b \<Rightarrow> 5 | Sp_create a b n d \<Rightarrow> 6 | An_start a \<Rightarrow> 7 | _ \<Rightarrow> 0, w)" "bh_random_u32 demo_badge w = (Some 7, w)" "bh_body_size demo_badge w = (64, 128)"
  "bh_input_text demo_badge cap w = (if 6 \<le> cap then (5, [32, 65, 100, 97, 32, 0]) else (0, []), w)"
  "bh_measure demo_badge i s w = (0, of_nat (12 * length s), 20)" "bh_key demo_badge = lit"
  "bh_export demo_badge i n w = (int n, replicate n 0xF0, 8)" "bh_pick_font demo_badge s m cs w = (0, 1)"
  by (simp_all add: demo_badge_def)

interpretation demo_badge: badge_firmware demo_badge
proof (rule badge_firmware.intro)
  show "text_store (bh_store demo_badge)" by (simp add: stub_text.text_store_axioms)
  show "badge_firmware_axioms demo_badge"
    by unfold_locales (auto simp: stub_set_u32_def stub_set_str_def same_nvs_def split: if_splits)
qed

text \<open>Its context for a name of three characters.\<close>

definition demo_context :: fx_context where
  "demo_context = \<lparr>cx_w = 64, cx_h = 128, cx_font = 1, cx_name_w = 36, cx_name_h = 20, cx_ascent = 14, cx_marquee = False\<rparr>"

lemma demo_band:
  "wi_band (snd (run_state (wipe_enter demo_badge demo_context 0) (badge_defaults empty_badge)))
    = Some \<lparr>bd_raster = replicate 256 0xF0, bd_stride = 8, bd_w = 64, bd_h = 32\<rparr>"
  by (simp add: wipe_enter_def put_def render_band_def draw_band_def surface_create_def handle_of_def invoke_def demo_context_def
    surface_set_font_def surface_draw_text_def checked_def to_cstring_def badge_defaults_def BAND_PAD_def i16_id
    surface_drop_def surface_export_def perform_def does_def check_def div_ceil_def)

section \<open>Properties\<close>


text \<open>C37: The dither wipe after \<open>k\<close> steps shows exactly those pixels of the name (of its negative in every other
  cycle of 34 steps) whose threshold is below the level of the cycle, which rises to 16, rests and falls to 0. The
  first step already draws level 1: level 0 is never drawn at the start.\<close>
theorem wipe_pixels:
  fixes st :: "'w nst"
  assumes "wi_band (snd (run_state (wipe_enter h c t0) st)) = Some b" and "paced t0 ts" and "ts \<noteq> []"
    and "in_raster (bd_stride b) (bd_raster b) p"
  shows "\<exists>d. last_bitmap (n_calls (wipe_shows h c t0 ts st)) = Some d \<and>
    (pixel (bd_stride b) d p \<longleftrightarrow> (pixel (bd_stride b) (bd_raster b) p \<noteq> odd (length ts div 34))
      \<and> unat (threshold p) < dissolve_level (length ts))"
proof -
  obtain u st1 where run: "run_state (wipe_enter h c t0) st = (u, st1)" by (rule prod.exhaust)
  have "wipe_cells st1 = dissolve 0" "paced (wi_last st1) ts" "wi_band st1 = Some b"
    using enter_dissolves [OF run] assms(1,2) run by simp_all
  then obtain st2 :: "'w nst" where "wipe_cells st2 = dissolve (0 + length ts)"
    "last_bitmap (n_calls (snd (run_state (for_each ts (wipe_tick h c)) st1))) = Some (wipe_masked st2 b)"
    using ticks_dissolve [of st1 ts b 0 h c] assms(3) by blast
  then show ?thesis using masked_pixel [of st2 "length ts" b p] assms(4) run by (auto simp: wipe_shows_def)
qed

theorem wipe_pixels_witness:
  "\<exists>d. last_bitmap (n_calls (wipe_shows demo_badge demo_context 0 [400] (badge_defaults empty_badge))) = Some d \<and> pixel 8 d (0, 0)"
proof -
  have "in_raster 8 (replicate 256 0xF0) (0, 0)" "paced 0 [400]" "pixel 8 (replicate 256 0xF0) (0, 0)"
    by (simp_all add: in_raster_def sat_sub_def WIPE_STEP_MS_def pixel_def)
  then show ?thesis using wipe_pixels [OF demo_band, of "[400]" "(0, 0)"]
    by (simp add: threshold_def BAYER_4X4_def dissolve_level_def)
qed

text \<open>C38: On a firmware that takes every write, the name and the rotation switch survive a restart: a fresh start
  on the storage that any run leaves shows the same name and rotates, or not, as before.\<close>
theorem restart_shows_name:
  assumes "badge_firmware h" and "st = badge_run h (Badge_enter # evs) (badge_defaults w)"
    and "run_state (badge_on_enter h) (badge_defaults (nw st)) = (u, st')"
  shows "name st' = name st \<and> auto_rotate st' = auto_rotate st"
  using badge_firmware.start_shows [OF assms(1,3)] badge_firmware.run_in_step [OF assms(1), of evs "badge_defaults w"]
  by (simp add: assms(2) seen_def kept_def)

theorem restart_shows_name_witness:
  "name (snd (run_state (badge_on_enter demo_badge)
      (badge_defaults (nw (badge_run demo_badge [Badge_enter, Badge_action ACT_NAME_INPUT 1] (badge_defaults empty_badge))))))
    = name (badge_run demo_badge [Badge_enter, Badge_action ACT_NAME_INPUT 1] (badge_defaults empty_badge))"
  using restart_shows_name [OF demo_badge.badge_firmware_axioms refl surjective_pairing] by blast

text \<open>C39: With auto-rotation on, the effect that a start restores from storage is not kept: a start takes the
  uptime as 0, so the first tick that comes when the device has been up for at least the dwell of the effect already
  moves on to the next one.\<close>
theorem restored_effect_skipped:
  assumes "badge_firmware h" and "stored h w = (n, True, fx)" and "fx < FX_COUNT"
    and "FX_DURATION_MS ! unat fx \<le> now"
  shows "current_fx (badge_run h [Badge_enter] (badge_defaults w)) = fx
    \<and> current_fx (badge_run h [Badge_enter, Badge_tick now] (badge_defaults w)) = (fx + 1) mod FX_COUNT"
proof -
  obtain u st where run: "run_state (badge_on_enter h) (badge_defaults w) = (u, st)" by (rule prod.exhaust)
  have fx: "fx mod FX_COUNT = fx" using assms(3) by (simp add: FX_COUNT_def mod_word_less)
  have st: "auto_rotate st" "current_fx st = fx" "fx_started st = 0"
    using badge_firmware.start_shows [OF assms(1) run] assms(2) fx by simp_all
  have "badge_ok st" using keepsD [OF enter_ok run defaults_ok] .
  moreover have "unat fx < length FX_DURATION_MS"
    using assms(3) by (simp add: FX_COUNT_def FX_DURATION_MS_def word_less_nat_alt)
  moreover obtain u2 st2 where run2: "run_state (switch_effect h (fx + 1) now) (st\<lparr>uptime := now\<rparr>) = (u2, st2)"
    by (rule prod.exhaust)
  ultimately show ?thesis
    using st run assms(4) hoareD [OF switch_moves run2] 
    by (simp add: badge_run_def badge_on_tick_def put_def engine_tick_def badge_ok_def sat_sub_def) (simp add: badge_inv_def)
qed

theorem restored_effect_skipped_witness:
  "current_fx (badge_run demo_badge [Badge_enter, Badge_tick 20000] (badge_defaults empty_badge)) = 1"
proof -
  have "stored demo_badge empty_badge = ([], True, 0)"
    by (simp add: stored_def load_name_def empty_badge_def stub_get_u32_def stub_get_str_def trim_empty)
  from restored_effect_skipped [OF demo_badge.badge_firmware_axioms this, of 20000] show ?thesis
    by (simp add: FX_COUNT_def FX_DURATION_MS_def)
qed

text \<open>A spark never covers the name: on a panel at least 37 pixels higher than the name, all eight rows of a
  spark lie on the panel, above or below the banner, and its columns lie on the panel too.\<close>
theorem sparks_avoid_name:
  assumes "spark_position c rng (banner_y c) (banner_h c) = ((x, y), rng')"
    and "12 \<le> cx_w c" "cx_w c < 32768" and "0 \<le> sint (cx_name_h c)" "sint (cx_name_h c) + 37 \<le> cx_h c" "cx_h c < 32768"
  shows "2 \<le> x \<and> x + 8 \<le> cx_w c \<and> 2 \<le> y \<and> y + 8 \<le> cx_h c \<and> (y + 8 \<le> banner_y c \<or> banner_y c + banner_h c \<le> y)"
proof -
  define nh where "nh = sint (cx_name_h c)"
  have ny: "name_y c = (cx_h c - nh) div 2" and ny0: "0 \<le> name_y c" "2 * name_y c \<le> cx_h c - nh"
    using assms(4-6) by (simp_all add: name_y_def nh_def i16_id half)
  have b: "banner_y c = name_y c - 8" "banner_h c = nh + 16"
    using assms(4-6) ny0 by (simp_all add: banner_y_def banner_h_def BANNER_PAD_def nh_def i16_id)
  have low: "banner_y c + banner_h c + 1 \<le> cx_h c - 10" "2 \<le> banner_y c + banner_h c + 1"
    using assms(4-6) ny0 by (simp_all add: b ny nh_def)
  have star: "sint STAR_W = 8" "sint STAR_H = 8" by (simp_all add: STAR_W_def STAR_H_def)
  have rolls_of: "i16 (cx_w c - 10) = cx_w c - 10" "i16 (banner_y c - 9) = banner_y c - 9"
    "min (i16 (banner_y c + banner_h c + 1)) (i16 (cx_h c - 10)) = banner_y c + banner_h c + 1"
    "i16 (cx_h c - 9) = cx_h c - 9"
    using assms(2-6) low b ny0 by (simp_all add: i16_id nh_def)
  obtain r1 b1 r2 where rolls: "range_i16 2 (cx_w c - 10) rng = (x, r1)" "rng_below 2 r1 = (b1, r2)"
    "(if b1 = 0 \<and> banner_y c > 10 then range_i16 2 (banner_y c - 9) r2
      else range_i16 (banner_y c + banner_h c + 1) (cx_h c - 9) r2) = (y, rng')"
    using assms(1) by (simp add: spark_position_def star rolls_of split: prod.splits cong: if_cong)
  have "2 \<le> x \<and> x \<le> cx_w c - 10" using spark_range [OF rolls(1)] assms(2,3) by simp
  moreover have "2 \<le> y \<and> y \<le> banner_y c - 9 \<or> banner_y c + banner_h c + 1 \<le> y \<and> y \<le> cx_h c - 9"
    using rolls(3) spark_range [of 2 "banner_y c - 9" r2 y rng'] spark_range [of "banner_y c + banner_h c + 1" "cx_h c - 9" r2 y rng']
      low b ny0 assms(4-6) by (auto simp: nh_def split: if_splits)
  ultimately show ?thesis using low b ny0 assms(4-6) by (auto simp: nh_def)
qed

theorem sparks_avoid_name_witness:
  "snd (fst (spark_position demo_context 7 (banner_y demo_context) (banner_h demo_context))) + 8 \<le> 128"
proof -
  obtain x y r where s: "spark_position demo_context 7 (banner_y demo_context) (banner_h demo_context) = ((x, y), r)"
    by (metis prod.exhaust)
  then show ?thesis using sparks_avoid_name [OF s] by (simp add: demo_context_def)
qed

end
