(* ===== verification/Spec2Isabelle.thy ===== *)
theory Spec2Isabelle
  imports Thermo_Claims Snake_Scene Web_Claims Matrix_Claims Matrix_App_Claims Matrix_View_Claims
    Home_Claims Scanner_Claims Grove_Claims Badge_Claims
begin

text \<open>
  A verification development for the CDC badge plugins: Rust programs compiled to WebAssembly
  that the badge's firmware loads and calls through a small set of exports (\<open>plugin_on_enter\<close>,
  \<open>plugin_on_tick\<close>, \<open>plugin_on_action\<close> and others) and that call the firmware back through the
  SDK in \<open>src/sdk/cdc-badge-plugin\<close>.

  \<^bold>\<open>What is modelled.\<close> Eight plugins under \<open>src/plugins\<close>, each in its own group of theories:

  \<^item> \<open>thermo_printer\<close>, a driver for a Bluetooth thermal printer. \<open>Wire\<close> models
    \<open>wire.rs\<close> and \<open>raster.rs\<close> (network and ext-feature job formats), \<open>Cat_Proto\<close> models
    \<open>proto.rs\<close> (frames, checksum, run-length coding, status frames), \<open>Layout\<close> models
    \<open>layout.rs\<close> and \<open>url.rs\<close> (wrapping, pagination, vCards, URLs), and \<open>Printer\<close> models the
    whole of \<open>lib.rs\<close>: the state record \<open>pst\<close> (the statics of the file), every operation, and the
    exports as the entry points of \<open>call\<close>.
  \<^item> \<open>snake\<close>, a game. \<open>Snake\<close> models \<open>game.rs\<close>, \<open>Snake_App\<close> models \<open>lib.rs\<close> and the
    layout arithmetic of \<open>render.rs\<close>, \<open>Snake_Screen\<close> models the drawing of \<open>render.rs\<close> with the sprites of
    \<open>sprites.rs\<close>.
  \<^item> \<open>webserver\<close>, a small HTTP server. \<open>Http\<close> models \<open>http.rs\<close>, \<open>Web\<close> models \<open>lib.rs\<close>.
  \<^item> \<open>matrix\<close>, a chat client with end-to-end encryption. \<open>Matrix_Json\<close> models \<open>model.rs\<close> and
    \<open>json.rs\<close>, \<open>Matrix_Store\<close> models \<open>store.rs\<close> and, as an instance of its storage contract,
    the stand-in storage of \<open>store_test_stubs.rs\<close>, \<open>Matrix_Crypto\<close> models \<open>crypto.rs\<close>,
    \<open>Matrix_Client\<close> models \<open>client.rs\<close> over the HTTP requests of the SDK (\<open>Sdk_Http\<close>),
    \<open>Matrix_Views\<close> models \<open>actions.rs\<close> and \<open>ui_views.rs\<close>, and \<open>Matrix_App\<close> models the whole of
    \<open>lib.rs\<close>: the state record \<open>mst\<close>, sync and merge, sending, the background distribution of
    room keys, and the exports \<open>mx_on_enter\<close>, \<open>mx_on_tick\<close>, \<open>mx_on_action\<close>, \<open>mx_on_exit\<close>. These
    programs use the state monad of the library with the rules of \<open>Sdk\<close>.
  \<^item> \<open>home_assistant\<close>, a remote control for a Home Assistant server. \<open>Home_Model\<close> models the
    data types, text formats and parsers of its \<open>lib.rs\<close>, \<open>Home_App\<close> the statics \<open>hst\<close>, the REST
    calls, the setup wizard, the views and editors, and the exports \<open>ha_on_enter\<close>, \<open>ha_on_action\<close>,
    \<open>ha_on_exit\<close>, over the view helpers of the SDK (\<open>Sdk_Ui\<close>, which models \<open>ui.rs\<close> and parts of
    \<open>canvas.rs\<close>) and its floating point numbers (\<open>F64\<close>).
  \<^item> \<open>ble_scanner\<close>, a list of the Bluetooth devices around. \<open>Scanner\<close> models its \<open>lib.rs\<close>: the table
    of devices and the counters of a scan round, the edits that bring the list on the screen up to
    date, the report and the exports, over the scan results of the SDK (\<open>Sdk_Ble\<close>).
  \<^item> \<open>grove_led\<close>, a driver for a strip of LEDs. \<open>Grove\<close> models its \<open>lib.rs\<close>: the settings, the frames of
    the six effects with their fixed-point colours, the menus and the exports.
  \<^item> \<open>name_badge\<close>, an animated name tag. \<open>Badge_Art\<close> models \<open>rng.rs\<close>, \<open>dither.rs\<close>, \<open>textmath.rs\<close> and
    \<open>gfx.rs\<close>, \<open>Badge\<close> models \<open>namefit.rs\<close>, the eight effects under \<open>fx\<close>, \<open>engine.rs\<close> and
    \<open>plugin.rs\<close>, over the elements, tweens, sprites and offscreen surfaces of the SDK (\<open>Sdk_Canvas\<close>). The cells
    of \<open>cell.rs\<close> are fields of the record \<open>nst\<close>.

  \<open>Prelude\<close> and \<open>Rust_Str\<close> hold the shared vocabulary: machine integers as words (\<open>+\<close> and
  \<open>-\<close> wrap, as they do in the release profile, which has no overflow checks), slices whose
  out-of-range use is \<open>None\<close>, strings as lists of Unicode scalar values with UTF-8 and the string
  functions of the Rust library.

  \<^bold>\<open>How the code is represented.\<close> A plugin's statics are one record, passed and returned; the
  firmware's calls are the fields of a host record over an abstract world \<open>'w\<close>, so every theorem
  holds for every behaviour of the firmware that meets its stated hypotheses. A panic sets a flag
  (\<open>trapped\<close>, \<open>strapped\<close>, \<open>wtrapped\<close>) or is an explicit \<open>None\<close>. Drawing, toasts and menus
  are recorded as events. Third-party code is a parameter: \<open>serde_json\<close> is the record \<open>serde\<close> (\<open>Serde\<close>),
  the digest and the cipher are fields of \<open>store_host\<close>,
  the cryptography of \<open>vodozemac\<close> is the record \<open>voz\<close>. Log lines are not modelled.

  \<^bold>\<open>What the lemmas show.\<close>

  \<^item> Interfaces: \<open>Codec\<close> states the contracts of wire formats as the locales \<open>framing\<close> and
    \<open>exact_framing\<close>, interpreted on UTF-8, the network frame and the raster job;
    \<open>Sdk_Store\<close> states the contract of the badge's storage as the locales \<open>storage\<close> and
    \<open>text_store\<close>; \<open>Matrix_Store_Laws\<close> proves the persistence laws in it and interprets it on the
    stand-in storage. \<open>Sdk_Http_Laws\<close> observes the HTTP requests of a plugin through a host that
    logs them, with rules for what a program may send.
  \<^item> Printer: \<open>Cat_Printer\<close> is the specification of the printer (a decoder of its frames and
    rows) and proves that job streams make it show the raster. \<open>Printer_Laws\<close> keeps the ledger
    of ext-feature jobs, \<open>Printer_Inv\<close> the invariant of a transfer over all reachable states
    (\<open>reach\<close>), \<open>Printer_Flow\<close> progress and time limits, \<open>Printer_Bench\<close> concrete hosts.
  \<^item> Snake: \<open>Snake_Laws\<close> proves that every operation keeps a round well-formed and that the
    counted scan for food agrees with indexing the free cells. \<open>Snake_Scene\<close> carries out the calls on the
    canvas and proves that the steps, which draw only what changed, keep the picture of the round on the screen.
  \<^item> Webserver: \<open>Web_Claims\<close> reads the bytes on the socket with a small HTTP client.
  \<^item> Matrix: \<open>Matrix_Json_Laws\<close> has a reader of JSON string literals and the reference
    definition of membership. \<open>Matrix_Crypto_Laws\<close> proves that changing base twice is the
    identity and that no operation changes a known binding of an inbound session.
    \<open>Matrix_App_Laws\<close> states as the locales \<open>sync_laws\<close> and \<open>app_laws\<close> what a property of rooms,
    crypto state and queue must be closed under for every export to keep it, and interprets them
    for the well-formedness of the plugin and (\<open>Matrix_Sync_Laws\<close>) for the bound on Olm sessions.
    \<open>Matrix_Client_Laws\<close> observes the client through the host that logs its calls.
  \<^item> Home Assistant: \<open>Home_Laws\<close> proves the invariant of the statics over every run of the
    firmware's calls. \<open>Home_World\<close> states as the locale \<open>world_inv\<close> what a property of the firmware's
    state must be closed under for every export to keep it, and as \<open>home_world\<close> what the plugin
    relies on (the storage contract, and that views and network leave the storage alone).
    \<open>Home_Bench\<close> has the laws of the text formats and interprets \<open>home_world\<close> on the stand-in
    storage.
  \<^item> Scanner: \<open>Scanner_Laws\<close> proves that the edits turn the rows on the screen into the rows of the devices, in
    their order, and counts the sightings of a round.
  \<^item> LEDs: \<open>Grove_Laws\<close> reads the calls to the strip as the firmware does (\<open>strip_step\<close>) and proves which
    colour every LED has; \<open>Grove_Claims\<close> states the storage the settings live in as \<open>led_firmware\<close>.
  \<^item> Name badge: \<open>Badge_Laws\<close> has the pixels of the dissolve and the ranges of the random numbers, reads the open
    surfaces off the calls, and states as the locale \<open>effect_frame\<close> which invariants every effect keeps.
    It is interpreted for the invariant of the surfaces and, in the locale \<open>badge_firmware\<close> of \<open>Badge_Store\<close>, for what
    is stored and shown; \<open>Badge_Claims\<close> interprets \<open>badge_firmware\<close> on the stand-in storage.

  \<^bold>\<open>Termination and fuel.\<close> Every loop is a total function: structural recursion, or a measure
  (the bytes left to write in \<open>write_loop\<close>, the four rounds of \<open>read_loop\<close>, the text left in
  \<open>paginate_loop\<close>). No definition carries artificial fuel.

  \<^bold>\<open>Not modelled.\<close> The plugin \<open>sdk_probe\<close>, a diagnostic that calls every SDK function; the
  examples; the rest of the SDK's bindings, which marshal arguments to the firmware; the randomness
  shim and the test stubs of \<open>matrix\<close>; the web flasher and the build
  tools, which are not Rust.
\<close>

end
